(* ===== verification/Prelude.thy ===== *)
theory Prelude
  imports Complex_Main "HOL-Library.Char_ord" "HOL-Library.Product_Lexorder"
begin

text \<open>
  What the components share: the effect type of the handlers (state passing with exceptions
  that keep the state, as Python's do), its algebra and the rules that carry an invariant through
  a handler, JSON values and the columns that hold them, the string methods of Python's \<open>str\<close>
  the code uses, and the operations on lists of rows that stand for the queries.
\<close>

section \<open>Collections of facts\<close>

named_theorems eff_simps \<open>unfolding rules of the effect combinators\<close>
named_theorems keeps_intros \<open>rules that carry an invariant through an effect\<close>
named_theorems ends_intros \<open>rules that carry a postcondition through an effect\<close>

section \<open>Effects: state passing with exceptions\<close>

text \<open>
  An effect takes the state and returns the raised exception or the value, and the state it
  leaves. An exception keeps the changes made before it, as in the source: what is undone is
  undone by a rollback, never by the exception itself.
\<close>

type_synonym ('s, 'e, 'a) eff = "'s \<Rightarrow> ('e + 'a) \<times> 's"

definition ret :: "'a \<Rightarrow> ('s, 'e, 'a) eff" where
  "ret x = (\<lambda>s. (Inr x, s))"

definition raise :: "'e \<Rightarrow> ('s, 'e, 'a) eff" where
  "raise e = (\<lambda>s. (Inl e, s))"

definition bindE :: "('s, 'e, 'a) eff \<Rightarrow> ('a \<Rightarrow> ('s, 'e, 'b) eff) \<Rightarrow> ('s, 'e, 'b) eff" where
  "bindE m f = (\<lambda>s. case m s of (Inl e, t) \<Rightarrow> (Inl e, t) | (Inr x, t) \<Rightarrow> f x t)"

definition seqE :: "('s, 'e, 'a) eff \<Rightarrow> ('s, 'e, 'b) eff \<Rightarrow> ('s, 'e, 'b) eff" where
  "seqE m k = bindE m (\<lambda>_. k)"

definition gets :: "('s \<Rightarrow> 'a) \<Rightarrow> ('s, 'e, 'a) eff" where
  "gets f = (\<lambda>s. (Inr (f s), s))"

definition modifyE :: "('s \<Rightarrow> 's) \<Rightarrow> ('s, 'e, unit) eff" where
  "modifyE f = (\<lambda>s. (Inr (), f s))"

definition liftE :: "'e + 'a \<Rightarrow> ('s, 'e, 'a) eff" where
  "liftE r = (\<lambda>s. (r, s))"

text \<open>\<open>except\<close>: the handler runs in the state the body left when it raised.\<close>

definition catchE :: "('s, 'e, 'a) eff \<Rightarrow> ('e \<Rightarrow> ('s, 'e, 'a) eff) \<Rightarrow> ('s, 'e, 'a) eff" where
  "catchE m h = (\<lambda>s. case m s of (Inl e, t) \<Rightarrow> h e t | (Inr x, t) \<Rightarrow> (Inr x, t))"

text \<open>\<open>finally\<close>: the clean-up runs on both ways out; its own exception replaces the result.\<close>

definition finallyE :: "('s, 'e, 'a) eff \<Rightarrow> ('s, 'e, unit) eff \<Rightarrow> ('s, 'e, 'a) eff" where
  "finallyE m c = (\<lambda>s. case m s of (r, t) \<Rightarrow>
     (case c t of (Inl e, u) \<Rightarrow> (Inl e, u) | (Inr _, u) \<Rightarrow> (r, u)))"

text \<open>\<open>for x in xs: body(x)\<close>, collecting the values, stopped by the first exception.\<close>

fun forE :: "'a list \<Rightarrow> ('a \<Rightarrow> ('s, 'e, 'b) eff) \<Rightarrow> ('s, 'e, 'b list) eff" where
  "forE [] f = ret []"
| "forE (x # xs) f = bindE (f x) (\<lambda>y. bindE (forE xs f) (\<lambda>ys. ret (y # ys)))"

lemma ret_apply [simp, eff_simps]: "ret x s = (Inr x, s)"
  by (simp add: ret_def)

lemma raise_apply [simp, eff_simps]: "raise e s = (Inl e, s)"
  by (simp add: raise_def)

lemma gets_apply [simp, eff_simps]: "gets f s = (Inr (f s), s)"
  by (simp add: gets_def)

lemma modifyE_apply [simp, eff_simps]: "modifyE f s = (Inr (), f s)"
  by (simp add: modifyE_def)

lemma liftE_apply [simp, eff_simps]: "liftE r s = (r, s)"
  by (simp add: liftE_def)

lemma bindE_apply [eff_simps]:
  "bindE m f s = (case m s of (Inl e, t) \<Rightarrow> (Inl e, t) | (Inr x, t) \<Rightarrow> f x t)"
  by (simp add: bindE_def)

lemma seqE_apply [eff_simps]:
  "seqE m k s = (case m s of (Inl e, t) \<Rightarrow> (Inl e, t) | (Inr x, t) \<Rightarrow> k t)"
  by (simp add: seqE_def bindE_def)

lemma bindE_simps [simp]:
  "bindE (ret x) f = f x"
  "bindE (raise e) f = raise e"
  "bindE (gets g) f s = f (g s) s"
  "bindE (modifyE h) f' s = f' () (h s)"
  "seqE (modifyE h) k s = k (h s)"
  "seqE (raise e) k = raise e"
  by (auto simp: bindE_def seqE_def fun_eq_iff)

lemma bindE_Pair [simp]:
  "bindE (Pair (Inr x)) f = f x"
  "bindE (Pair (Inl e)) f = Pair (Inl e)"
  "seqE (Pair (Inr x)) k = k"
  "seqE (Pair (Inl e)) k = Pair (Inl e)"
  by (auto simp: bindE_def seqE_def fun_eq_iff)

lemma bindE_Inr: "m s = (Inr x, t) \<Longrightarrow> bindE m f s = f x t"
  by (simp add: bindE_def)

lemma bindE_Inl: "m s = (Inl e, t) \<Longrightarrow> bindE m f s = (Inl e, t)"
  by (simp add: bindE_def)

lemma seqE_Inr: "m s = (Inr x, t) \<Longrightarrow> seqE m k s = k t"
  by (simp add: seqE_def bindE_def)

lemma seqE_Inl: "m s = (Inl e, t) \<Longrightarrow> seqE m k s = (Inl e, t)"
  by (simp add: seqE_def bindE_def)

lemma bindE_eq_Inr:
  "bindE m f s = (Inr y, u) \<longleftrightarrow> (\<exists>x t. m s = (Inr x, t) \<and> f x t = (Inr y, u))"
  by (auto simp: bindE_def split: prod.splits sum.splits)

lemma seqE_eq_Inr:
  "seqE m k s = (Inr y, u) \<longleftrightarrow> (\<exists>x t. m s = (Inr x, t) \<and> k t = (Inr y, u))"
  by (auto simp: seqE_def bindE_eq_Inr)

lemma bindE_assoc: "bindE (bindE m f) g = bindE m (\<lambda>x. bindE (f x) g)"
  by (auto simp: bindE_def fun_eq_iff split: prod.splits sum.splits)

lemma catchE_apply [eff_simps]:
  "catchE m h s = (case m s of (Inl e, t) \<Rightarrow> h e t | (Inr x, t) \<Rightarrow> (Inr x, t))"
  by (simp add: catchE_def)

lemma finallyE_apply [eff_simps]:
  "finallyE m c s = (case m s of (r, t) \<Rightarrow>
     (case c t of (Inl e, u) \<Rightarrow> (Inl e, u) | (Inr _, u) \<Rightarrow> (r, u)))"
  by (simp add: finallyE_def)

subsection \<open>Invariants of effects\<close>

text \<open>
  \<open>keeps I m\<close>: whatever \<open>m\<close> does, raising included, the invariant survives. The rules
  follow the structure of a handler, so a preservation proof names only the facts of the steps.
\<close>

definition keeps :: "('s \<Rightarrow> bool) \<Rightarrow> ('s, 'e, 'a) eff \<Rightarrow> bool" where
  "keeps I m \<longleftrightarrow> (\<forall>s. I s \<longrightarrow> I (snd (m s)))"

lemma keepsI: "(\<And>s. I s \<Longrightarrow> I (snd (m s))) \<Longrightarrow> keeps I m"
  by (simp add: keeps_def)

lemma keepsD: "keeps I m \<Longrightarrow> I s \<Longrightarrow> I (snd (m s))"
  by (simp add: keeps_def)

lemma keepsD2: "keeps I m \<Longrightarrow> I s \<Longrightarrow> m s = (r, t) \<Longrightarrow> I t"
  using keepsD by fastforce

lemma keeps_ret [keeps_intros]: "keeps I (ret x)"
  and keeps_raise [keeps_intros]: "keeps I (raise e)"
  and keeps_gets [keeps_intros]: "keeps I (gets f)"
  and keeps_liftE [keeps_intros]: "keeps I (liftE r)"
  and keeps_Pair [simp, keeps_intros]: "keeps I (Pair r)"
  by (simp_all add: keeps_def)

lemma keeps_modifyE: "(\<And>s. I s \<Longrightarrow> I (f s)) \<Longrightarrow> keeps I (modifyE f)"
  by (simp add: keeps_def)

lemma keeps_bindE [keeps_intros]:
  assumes "keeps I m" and "\<And>x. keeps I (f x)"
  shows "keeps I (bindE m f)"
  using assms by (fastforce simp: keeps_def bindE_def split: prod.splits sum.splits)

lemma keeps_seqE [keeps_intros]: "keeps I m \<Longrightarrow> keeps I k \<Longrightarrow> keeps I (seqE m k)"
  by (simp add: seqE_def keeps_bindE)

lemma keeps_catchE [keeps_intros]:
  assumes "keeps I m" and "\<And>e. keeps I (h e)"
  shows "keeps I (catchE m h)"
  using assms by (fastforce simp: keeps_def catchE_def split: prod.splits sum.splits)

lemma keeps_finallyE [keeps_intros]:
  assumes "keeps I m" and "keeps I c"
  shows "keeps I (finallyE m c)"
  using assms by (fastforce simp: keeps_def finallyE_def split: prod.splits sum.splits)

lemma keeps_forE [keeps_intros]:
  assumes "\<And>x. keeps I (f x)"
  shows "keeps I (forE xs f)"
proof (induction xs)
  case Nil
  show ?case by (simp add: keeps_ret)
next
  case (Cons x xs)
  then show ?case using assms by (simp add: keeps_bindE keeps_ret)
qed

lemma keeps_if [keeps_intros]: "(b \<Longrightarrow> keeps I m) \<Longrightarrow> (\<not> b \<Longrightarrow> keeps I k) \<Longrightarrow> keeps I (if b then m else k)"
  by simp

lemma keeps_option [keeps_intros]:
  "(x = None \<Longrightarrow> keeps I m) \<Longrightarrow> (\<And>y. x = Some y \<Longrightarrow> keeps I (f y)) \<Longrightarrow>
   keeps I (case x of None \<Rightarrow> m | Some y \<Rightarrow> f y)"
  by (cases x) auto

lemma keeps_sum [keeps_intros]:
  "(\<And>y. x = Inl y \<Longrightarrow> keeps I (f y)) \<Longrightarrow> (\<And>y. x = Inr y \<Longrightarrow> keeps I (g y)) \<Longrightarrow>
   keeps I (case x of Inl y \<Rightarrow> f y | Inr y \<Rightarrow> g y)"
  by (cases x) auto

lemma keeps_Let [keeps_intros]: "(\<And>x. keeps I (f x)) \<Longrightarrow> keeps I (Let v f)"
  by (simp add: Let_def)

lemma keeps_prod [keeps_intros]: "(\<And>a b. keeps I (f a b)) \<Longrightarrow> keeps I (case p of (a, b) \<Rightarrow> f a b)"
  by (cases p) simp

subsection \<open>Postconditions of effects\<close>

text \<open>
  \<open>ends I Q m\<close>: from a state of the invariant, \<open>m\<close> ends in a result and a state of \<open>Q\<close>. The steps before the
  last one keep the invariant, so \<open>Q\<close> is shown where the handler raises and where it ends.
\<close>

definition ends :: "('s \<Rightarrow> bool) \<Rightarrow> ('e + 'a \<Rightarrow> 's \<Rightarrow> bool) \<Rightarrow> ('s, 'e, 'a) eff \<Rightarrow> bool" where
  "ends I Q m \<longleftrightarrow> (\<forall>s r t. I s \<longrightarrow> m s = (r, t) \<longrightarrow> Q r t)"

lemma endsI: "(\<And>s r t. I s \<Longrightarrow> m s = (r, t) \<Longrightarrow> Q r t) \<Longrightarrow> ends I Q m"
  by (simp add: ends_def)

lemma endsD: "ends I Q m \<Longrightarrow> I s \<Longrightarrow> m s = (r, t) \<Longrightarrow> Q r t"
  by (simp add: ends_def)

lemma ends_bindE [ends_intros]:
  assumes "keeps I m" and "\<And>e t. I t \<Longrightarrow> Q (Inl e) t" and "\<And>x. ends I Q (f x)"
  shows "ends I Q (bindE m f)"
proof (rule endsI)
  fix s r t
  assume I: "I s" and run: "bindE m f s = (r, t)"
  obtain x u where m: "m s = (x, u)" by (cases "m s")
  have "I u" by (rule keepsD2 [OF assms(1) I m])
  with run m show "Q r t" using assms(2) endsD [OF assms(3)] by (cases x) (auto simp: bindE_apply)
qed

lemma ends_seqE [ends_intros]:
  "keeps I m \<Longrightarrow> (\<And>e t. I t \<Longrightarrow> Q (Inl e) t) \<Longrightarrow> ends I Q k \<Longrightarrow> ends I Q (seqE m k)"
  by (simp add: seqE_def ends_bindE)

lemma ends_raise [ends_intros]: "(\<And>t. I t \<Longrightarrow> Q (Inl e) t) \<Longrightarrow> ends I Q (raise e)"
  by (simp add: ends_def)

lemma ends_ret [ends_intros]: "(\<And>t. I t \<Longrightarrow> Q (Inr x) t) \<Longrightarrow> ends I Q (ret x)"
  by (simp add: ends_def)

lemma ends_if [ends_intros]: "(b \<Longrightarrow> ends I Q m) \<Longrightarrow> (\<not> b \<Longrightarrow> ends I Q k) \<Longrightarrow> ends I Q (if b then m else k)"
  by simp

lemma ends_prod [ends_intros]: "(\<And>a b. p = (a, b) \<Longrightarrow> ends I Q (f a b)) \<Longrightarrow> ends I Q (case p of (a, b) \<Rightarrow> f a b)"
  by (cases p) simp

lemma ends_option [ends_intros]:
  "(x = None \<Longrightarrow> ends I Q m) \<Longrightarrow> (\<And>y. x = Some y \<Longrightarrow> ends I Q (f y)) \<Longrightarrow>
   ends I Q (case x of None \<Rightarrow> m | Some y \<Rightarrow> f y)"
  by (cases x) simp_all

section \<open>Results\<close>

text \<open>Pure code that can raise returns the exception or the value.\<close>

fun bindS :: "'e + 'a \<Rightarrow> ('a \<Rightarrow> 'e + 'b) \<Rightarrow> 'e + 'b" where
  "bindS (Inl e) f = Inl e"
| "bindS (Inr x) f = f x"

fun mapS :: "('a \<Rightarrow> 'e + 'b) \<Rightarrow> 'a list \<Rightarrow> 'e + 'b list" where
  "mapS f [] = Inr []"
| "mapS f (x # xs) = bindS (f x) (\<lambda>y. bindS (mapS f xs) (\<lambda>ys. Inr (y # ys)))"

lemma bindS_eq_Inr: "bindS r f = Inr y \<longleftrightarrow> (\<exists>x. r = Inr x \<and> f x = Inr y)"
  by (cases r) auto

lemma mapS_length: "mapS f xs = Inr ys \<Longrightarrow> length ys = length xs"
  by (induction xs arbitrary: ys) (auto simp: bindS_eq_Inr)

lemma mapS_total: "(\<And>x. x \<in> set xs \<Longrightarrow> f x = Inr (g x)) \<Longrightarrow> mapS f xs = Inr (map g xs)"
  by (induction xs) auto

section \<open>Simulations\<close>

text \<open>
  The contract between a component's step function and the machine it implements: an invariant
  every admissible step keeps, and an abstraction that commutes with the steps. Whole runs follow.
\<close>

locale simulation =
  fixes inv :: "'c \<Rightarrow> bool"
    and step :: "'c \<Rightarrow> 'e \<Rightarrow> 'c"
    and ok :: "'e \<Rightarrow> bool"
    and abstr :: "'c \<Rightarrow> 'a"
    and spec :: "'a \<Rightarrow> 'e \<Rightarrow> 'a"
  assumes inv_step: "inv c \<Longrightarrow> ok e \<Longrightarrow> inv (step c e)"
    and sim_step: "inv c \<Longrightarrow> ok e \<Longrightarrow> abstr (step c e) = spec (abstr c) e"
begin

lemma run_inv: "inv c \<Longrightarrow> list_all ok es \<Longrightarrow> inv (foldl step c es)"
  by (induction es arbitrary: c) (auto simp: inv_step)

lemma run_sim: "inv c \<Longrightarrow> list_all ok es \<Longrightarrow> abstr (foldl step c es) = foldl spec (abstr c) es"
  by (induction es arbitrary: c) (auto simp: inv_step sim_step)

end

section \<open>Rows\<close>

text \<open>
  A table is the list of its rows in insertion order; a query is a filter over it.
  \<open>upd_where\<close> is the write to every row object a query returned.
\<close>

definition upd_where :: "('a \<Rightarrow> bool) \<Rightarrow> ('a \<Rightarrow> 'a) \<Rightarrow> 'a list \<Rightarrow> 'a list" where
  "upd_where P f xs = map (\<lambda>x. if P x then f x else x) xs"

lemma upd_where_Nil [simp]: "upd_where P f [] = []"
  and upd_where_Cons [simp]:
    "upd_where P f (x # xs) = (if P x then f x else x) # upd_where P f xs"
  and length_upd_where [simp]: "length (upd_where P f xs) = length xs"
  and upd_where_append [simp]: "upd_where P f (xs @ ys) = upd_where P f xs @ upd_where P f ys"
  by (simp_all add: upd_where_def)

lemma set_upd_where: "set (upd_where P f xs) = (\<lambda>x. if P x then f x else x) ` set xs"
  by (simp add: upd_where_def)

lemma ball_upd_where: "(\<forall>x\<in>set (upd_where P f xs). Q x) \<longleftrightarrow> (\<forall>x\<in>set xs. Q (if P x then f x else x))"
  unfolding upd_where_def by (induction xs) simp_all

lemma map_upd_where [simp]:
  "(\<And>x. k (f x) = k x) \<Longrightarrow> map k (upd_where P f xs) = map k xs"
  by (induction xs) auto

lemma filter_upd_where:
  assumes "\<And>x. Q (f x) = Q x"
  shows "filter Q (upd_where P f xs) = upd_where P f (filter Q xs)"
  using assms by (induction xs) auto

lemma filter_upd_where_disjoint:
  assumes "\<And>x. P x \<Longrightarrow> \<not> Q x" and "\<And>x. P x \<Longrightarrow> \<not> Q (f x)"
  shows "filter Q (upd_where P f xs) = filter Q xs"
  using assms by (induction xs) auto

lemma upd_where_id: "(\<And>x. x \<in> set xs \<Longrightarrow> P x \<Longrightarrow> f x = x) \<Longrightarrow> upd_where P f xs = xs"
  by (induction xs) auto

lemma find_Some_set: "List.find P xs = Some x \<Longrightarrow> x \<in> set xs \<and> P x"
  by (induction xs) (auto split: if_splits)

lemma find_None_set: "List.find P xs = None \<longleftrightarrow> (\<forall>x\<in>set xs. \<not> P x)"
  by (induction xs) auto

lemma find_upd_where:
  assumes "\<And>x. P (f x) = P x"
  shows "List.find P (upd_where P f xs) = map_option f (List.find P xs)"
  using assms by (induction xs) auto

lemma find_upd_where_other:
  assumes "\<And>x. Q (f x) = Q x" and "\<And>x. Q x \<Longrightarrow> \<not> P x"
  shows "List.find Q (upd_where P f xs) = List.find Q xs"
  using assms by (induction xs) auto

lemma filter_empty_notin: "v \<notin> k ` set xs \<Longrightarrow> filter (\<lambda>x. k x = v) xs = []"
  by (induction xs) auto

lemma filter_key_unique:
  "distinct (map k xs) \<Longrightarrow> filter (\<lambda>x. k x = v) xs = (case List.find (\<lambda>x. k x = v) xs of
     None \<Rightarrow> [] | Some x \<Rightarrow> [x])"
proof (induction xs)
  case Nil
  show ?case by simp
next
  case (Cons x xs)
  show ?case
  proof (cases "k x = v")
    case True
    with Cons.prems have "v \<notin> k ` set xs" by auto
    then have "filter (\<lambda>x. k x = v) xs = []" by (rule filter_empty_notin)
    with True show ?thesis by simp
  next
    case False
    with Cons show ?thesis by simp
  qed
qed

lemma distinct_key_inj:
  "distinct (map k xs) \<Longrightarrow> x \<in> set xs \<Longrightarrow> y \<in> set xs \<Longrightarrow> k x = k y \<Longrightarrow> x = y"
  by (auto simp: distinct_map inj_on_def)

lemma find_key_iff:
  assumes "distinct (map k xs)"
  shows "List.find (\<lambda>x. k x = v) xs = Some x \<longleftrightarrow> x \<in> set xs \<and> k x = v"
proof
  assume "List.find (\<lambda>x. k x = v) xs = Some x"
  then show "x \<in> set xs \<and> k x = v" by (rule find_Some_set)
next
  assume x: "x \<in> set xs \<and> k x = v"
  then have "List.find (\<lambda>x. k x = v) xs \<noteq> None" by (simp only: find_None_set) blast
  then obtain y where y: "List.find (\<lambda>x. k x = v) xs = Some y" by blast
  then have "y \<in> set xs \<and> k y = v" by (rule find_Some_set)
  with x have "y = x" using distinct_key_inj [OF assms, of y x] by simp
  with y show "List.find (\<lambda>x. k x = v) xs = Some x" by simp
qed

text \<open>Writing to the row with a given identifier, read back under another key.\<close>

lemma find_upd_map:
  assumes "\<And>y. k (f y) = k y"
  shows "List.find (\<lambda>y. k y = v) (upd_where P f xs) =
     map_option (\<lambda>y. if P y then f y else y) (List.find (\<lambda>y. k y = v) xs)"
  using assms by (induction xs) auto

lemma find_upd_by_id:
  assumes "distinct (map i xs)" and "distinct (map k xs)" and "x \<in> set xs" and "\<And>y. k (f y) = k y"
  shows "List.find (\<lambda>y. k y = v) (upd_where (\<lambda>y. i y = i x) f xs) =
     (if v = k x then Some (f x) else List.find (\<lambda>y. k y = v) xs)"
proof (cases "v = k x")
  case True
  then have "List.find (\<lambda>y. k y = v) xs = Some x" using find_key_iff [OF assms(2)] assms(3) by simp
  with True show ?thesis by (simp add: find_upd_map assms(4))
next
  case False
  show ?thesis
  proof (cases "List.find (\<lambda>y. k y = v) xs")
    case None
    with False show ?thesis by (simp add: find_upd_map assms(4))
  next
    case (Some y)
    then have "y \<in> set xs" "k y = v" using find_Some_set by fastforce+
    then have "i y \<noteq> i x" using distinct_key_inj [OF assms(1) _ assms(3)] False by auto
    with Some False show ?thesis by (simp add: find_upd_map assms(4))
  qed
qed

lemma find_snoc:
  "List.find P (xs @ [x]) = (case List.find P xs of None \<Rightarrow> if P x then Some x else None | Some y \<Rightarrow> Some y)"
  by (induction xs) auto

end
