(* ===== verification/PyText.thy ===== *)
theory PyText
  imports Prelude
begin

text \<open>
  Python's \<open>str\<close> methods and JSON values. A string is a list of code points below 256, so
  \<open>lower\<close> and the white space classes are those of Python on that range; code points beyond it
  are outside the model. A dict is an association list in insertion order, as Python keeps it.
\<close>

section \<open>Strings\<close>

definition py_ord :: "char \<Rightarrow> nat" where
  "py_ord c = of_char c"

text \<open>\<open>str.isspace\<close>, also what \<open>strip\<close>, \<open>split\<close> and the \<open>\s\<close> of \<open>re\<close> treat as white space.\<close>

definition is_space :: "char \<Rightarrow> bool" where
  "is_space c = (let n = py_ord c in (9 \<le> n \<and> n \<le> 13) \<or> (28 \<le> n \<and> n \<le> 32) \<or> n = 133 \<or> n = 160)"

definition is_lower :: "char \<Rightarrow> bool" where
  "is_lower c = (97 \<le> py_ord c \<and> py_ord c \<le> 122)"

definition is_upper :: "char \<Rightarrow> bool" where
  "is_upper c = (65 \<le> py_ord c \<and> py_ord c \<le> 90)"

definition is_digit :: "char \<Rightarrow> bool" where
  "is_digit c = (48 \<le> py_ord c \<and> py_ord c \<le> 57)"

definition char_lower :: "char \<Rightarrow> char" where
  "char_lower c = (if is_upper c \<or> (192 \<le> py_ord c \<and> py_ord c \<le> 222 \<and> py_ord c \<noteq> 215)
     then char_of (py_ord c + 32) else c)"

definition lower :: "string \<Rightarrow> string" where
  "lower s = map char_lower s"

definition lstrip :: "string \<Rightarrow> string" where
  "lstrip s = dropWhile is_space s"

definition rstrip :: "string \<Rightarrow> string" where
  "rstrip s = rev (dropWhile is_space (rev s))"

definition strip :: "string \<Rightarrow> string" where
  "strip s = rstrip (lstrip s)"

lemma dropWhile_absent: "\<forall>c\<in>set s. \<not> P c \<Longrightarrow> dropWhile P s = s"
  by (cases s) auto

lemma strip_plain: "\<forall>c\<in>set s. \<not> is_space c \<Longrightarrow> strip s = s"
  by (simp only: strip_def lstrip_def rstrip_def dropWhile_absent set_rev rev_rev_ident)

definition starts_with :: "string \<Rightarrow> string \<Rightarrow> bool" where
  "starts_with p s = (take (length p) s = p)"

definition ends_with :: "string \<Rightarrow> string \<Rightarrow> bool" where
  "ends_with p s = starts_with (rev p) (rev s)"

fun contains :: "string \<Rightarrow> string \<Rightarrow> bool" where
  "contains p [] = (p = [])"
| "contains p (c # s) = (starts_with p (c # s) \<or> contains p s)"

text \<open>
  The positions of the non-overlapping occurrences of \<open>p\<close>, left to right, as \<open>re.finditer\<close> of an
  escaped literal and \<open>str.count\<close> see them; \<open>skip\<close> characters of an occurrence are still to pass.
\<close>

fun occurrences :: "string \<Rightarrow> nat \<Rightarrow> nat \<Rightarrow> string \<Rightarrow> nat list" where
  "occurrences p i skip [] = []"
| "occurrences p i (Suc skip) (c # s) = occurrences p (Suc i) skip s"
| "occurrences p i 0 (c # s) =
     (if starts_with p (c # s) then i # occurrences p (Suc i) (length p - 1) s
      else occurrences p (Suc i) 0 s)"

definition count_sub :: "string \<Rightarrow> string \<Rightarrow> nat" where
  "count_sub p s = length (occurrences p 0 0 s)"

text \<open>\<open>s.replace(p, q)\<close> for a non-empty \<open>p\<close>.\<close>

fun replace_from :: "string \<Rightarrow> string \<Rightarrow> nat \<Rightarrow> string \<Rightarrow> string" where
  "replace_from p q skip [] = []"
| "replace_from p q (Suc skip) (c # s) = replace_from p q skip s"
| "replace_from p q 0 (c # s) =
     (if starts_with p (c # s) then q @ replace_from p q (length p - 1) s
      else c # replace_from p q 0 s)"

definition replace :: "string \<Rightarrow> string \<Rightarrow> string \<Rightarrow> string" where
  "replace p q s = replace_from p q 0 s"

lemma replace_absent:
  assumes "c \<notin> set s"
  shows "replace (c # p) q s = s"
proof -
  have "replace_from (c # p) q 0 s = s" using assms by (induction s) (auto simp: starts_with_def)
  then show ?thesis by (simp add: replace_def)
qed

fun join :: "string \<Rightarrow> string list \<Rightarrow> string" where
  "join sep [] = []"
| "join sep [x] = x"
| "join sep (x # y # ys) = x @ sep @ join sep (y # ys)"

text \<open>\<open>str.split()\<close>: the maximal runs of characters that are not white space.\<close>

fun split_acc :: "string \<Rightarrow> string \<Rightarrow> string list" where
  "split_acc acc [] = (if acc = [] then [] else [rev acc])"
| "split_acc acc (c # s) =
     (if is_space c then (if acc = [] then split_acc [] s else rev acc # split_acc [] s)
      else split_acc (c # acc) s)"

definition split_ws :: "string \<Rightarrow> string list" where
  "split_ws s = split_acc [] s"

text \<open>\<open>s.split(sep)\<close> and \<open>s.split(sep, 1)\<close> for a separator of one character.\<close>

fun split_on :: "char \<Rightarrow> string \<Rightarrow> string list" where
  "split_on d [] = [[]]"
| "split_on d (c # s) =
     (if c = d then [] # split_on d s
      else (case split_on d s of [] \<Rightarrow> [[c]] | w # ws \<Rightarrow> (c # w) # ws))"

fun partition_at :: "char \<Rightarrow> string \<Rightarrow> (string \<times> string) option" where
  "partition_at d [] = None"
| "partition_at d (c # s) =
     (if c = d then Some ([], s)
      else (case partition_at d s of None \<Rightarrow> None | Some (a, b) \<Rightarrow> Some (c # a, b)))"

text \<open>
  \<open>str.splitlines()\<close>: carriage return and line feed end one line together, and a line end at the
  end of the text opens no further line.
\<close>

definition is_linebreak :: "char \<Rightarrow> bool" where
  "is_linebreak c = (let n = py_ord c in (10 \<le> n \<and> n \<le> 13) \<or> (28 \<le> n \<and> n \<le> 30) \<or> n = 133)"

fun splitlines_acc :: "string \<Rightarrow> string \<Rightarrow> string list" where
  "splitlines_acc acc [] = (if acc = [] then [] else [rev acc])"
| "splitlines_acc acc (c # s) =
     (if py_ord c = 13 \<and> s \<noteq> [] \<and> py_ord (hd s) = 10 then splitlines_acc acc s
      else if is_linebreak c then rev acc # splitlines_acc [] s
      else splitlines_acc (c # acc) s)"

definition splitlines :: "string \<Rightarrow> string list" where
  "splitlines s = splitlines_acc [] s"

subsection \<open>Decimal numerals\<close>

definition digit_char :: "nat \<Rightarrow> char" where
  "digit_char d = char_of (48 + d)"

fun str_nat :: "nat \<Rightarrow> string" where
  "str_nat n = (if n < 10 then [digit_char n] else str_nat (n div 10) @ [digit_char (n mod 10)])"

declare str_nat.simps [simp del]

definition str_int :: "int \<Rightarrow> string" where
  "str_int i = (if i < 0 then CHR ''-'' # str_nat (nat (- i)) else str_nat (nat i))"

text \<open>The value of a string of digits: the left inverse of \<open>str_nat\<close>.\<close>

definition digits_value :: "string \<Rightarrow> nat" where
  "digits_value s = foldl (\<lambda>n c. 10 * n + (py_ord c - 48)) 0 s"

lemma py_ord_digit_char: "d < 10 \<Longrightarrow> py_ord (digit_char d) = 48 + d"
  by (simp add: py_ord_def digit_char_def take_bit_eq_mod)

lemma digits_value_snoc: "digits_value (s @ [c]) = 10 * digits_value s + (py_ord c - 48)"
  by (simp add: digits_value_def)

lemma digits_value_str_nat: "digits_value (str_nat n) = n"
proof (induction n rule: str_nat.induct)
  case (1 n)
  show ?case
  proof (cases "n < 10")
    case True
    then show ?thesis by (simp add: str_nat.simps [of n] digits_value_def py_ord_digit_char)
  next
    case False
    with "1.IH" show ?thesis
      by (simp add: str_nat.simps [of n] digits_value_snoc py_ord_digit_char)
  qed
qed

lemma str_nat_inject [simp]: "str_nat m = str_nat n \<longleftrightarrow> m = n"
  by (metis digits_value_str_nat)

lemma str_nat_nonempty [simp]: "str_nat n \<noteq> []"
  by (simp add: str_nat.simps [of n])

lemma str_nat_digits: "\<forall>c\<in>set (str_nat n). is_digit c"
proof (induction n rule: str_nat.induct)
  case (1 n)
  then show ?case
    by (auto simp: str_nat.simps [of n] is_digit_def py_ord_digit_char)
qed

subsection \<open>Facts about the string methods\<close>

lemma starts_with_append [simp]: "starts_with p (p @ s)"
  by (simp add: starts_with_def)

lemma starts_with_split: "starts_with p s \<longleftrightarrow> (\<exists>r. s = p @ r)"
  by (metis append_eq_conv_conj append_take_drop_id starts_with_def)

lemma rstrip_no_trailing: "rstrip s \<noteq> [] \<Longrightarrow> \<not> is_space (last (rstrip s))"
  unfolding rstrip_def by (metis hd_dropWhile last_rev rev_is_Nil_conv)

lemma dropWhile_idem: "dropWhile P (dropWhile P s) = dropWhile P s"
  by (induction s) auto

lemma rstrip_idem [simp]: "rstrip (rstrip s) = rstrip s"
  by (simp add: rstrip_def dropWhile_idem)

lemma rstrip_nonspace_head:
  assumes "s = [] \<or> \<not> is_space (hd s)"
  shows "rstrip s = [] \<and> s = [] \<or> rstrip s \<noteq> [] \<and> hd (rstrip s) = hd s"
proof (cases s)
  case Nil
  then show ?thesis by (simp add: rstrip_def)
next
  case (Cons c r)
  with assms have "rstrip s = c # rev (dropWhile is_space (rev r)) \<or> rstrip s = [c]"
    by (auto simp: rstrip_def dropWhile_append)
  with Cons show ?thesis by auto
qed

lemma lstrip_head: "lstrip s = [] \<or> \<not> is_space (hd (lstrip s))"
  unfolding lstrip_def using hd_dropWhile by blast

lemma lstrip_id: "s = [] \<or> \<not> is_space (hd s) \<Longrightarrow> lstrip s = s"
  by (cases s) (auto simp: lstrip_def)

lemma strip_idem [simp]: "strip (strip s) = strip s"
proof -
  have "rstrip (lstrip s) = [] \<or> \<not> is_space (hd (rstrip (lstrip s)))"
    using rstrip_nonspace_head [OF lstrip_head, of s] lstrip_head [of s] by (elim disjE conjE) (simp_all add: rstrip_def)
  then have "lstrip (rstrip (lstrip s)) = rstrip (lstrip s)" by (rule lstrip_id)
  then show ?thesis by (simp add: strip_def)
qed

lemma length_lstrip: "length (lstrip s) \<le> length s"
  by (simp add: lstrip_def length_dropWhile_le)

lemma length_rstrip: "length (rstrip s) \<le> length s"
  using length_dropWhile_le [of is_space "rev s"] by (simp add: rstrip_def)

lemma length_strip: "length (strip s) \<le> length s"
  unfolding strip_def using length_lstrip length_rstrip le_trans by blast

section \<open>JSON\<close>

datatype json =
    JNull
  | JBool bool
  | JInt int
  | JFloat rat
  | JStr string
  | JArr "json list"
  | JObj "(string \<times> json) list"

text \<open>Python's truth value of a decoded JSON value.\<close>

fun truthy :: "json \<Rightarrow> bool" where
  "truthy JNull = False"
| "truthy (JBool b) = b"
| "truthy (JInt i) = (i \<noteq> 0)"
| "truthy (JFloat q) = (q \<noteq> 0)"
| "truthy (JStr s) = (s \<noteq> [])"
| "truthy (JArr xs) = (xs \<noteq> [])"
| "truthy (JObj kvs) = (kvs \<noteq> [])"

type_synonym dict = "(string \<times> json) list"

text \<open>\<open>d[k] = v\<close> keeps the position of a key that is present; \<open>d.pop(k, None)\<close> removes it.\<close>

fun dict_set :: "string \<Rightarrow> json \<Rightarrow> dict \<Rightarrow> dict" where
  "dict_set k v [] = [(k, v)]"
| "dict_set k v ((k', v') # d) = (if k' = k then (k, v) # d else (k', v') # dict_set k v d)"

definition dict_pop :: "string \<Rightarrow> dict \<Rightarrow> dict" where
  "dict_pop k d = filter (\<lambda>(k', _). k' \<noteq> k) d"

definition dict_get :: "dict \<Rightarrow> string \<Rightarrow> json option" where
  "dict_get d k = map_of d k"

text \<open>\<open>d.get(k)\<close>: \<open>None\<close> for a missing key and for a stored null alike.\<close>

definition dict_get_or_null :: "dict \<Rightarrow> string \<Rightarrow> json" where
  "dict_get_or_null d k = (case dict_get d k of None \<Rightarrow> JNull | Some v \<Rightarrow> v)"

lemma dict_get_append: "dict_get (a @ b) k = (case dict_get a k of None \<Rightarrow> dict_get b k | Some v \<Rightarrow> Some v)"
  by (induction a) (auto simp: dict_get_def)

lemma dict_get_set: "dict_get (dict_set k v d) k' = (if k' = k then Some v else dict_get d k')"
  by (induction d) (auto simp: dict_get_def)

lemma dict_get_pop: "dict_get (dict_pop k d) k' = (if k' = k then None else dict_get d k')"
  by (induction d) (auto simp: dict_get_def dict_pop_def)

lemma dict_get_Nil [simp]: "dict_get [] k = None"
  by (simp add: dict_get_def)

lemma dict_get_Cons [simp]:
  "dict_get ((k', v) # d) k = (if k = k' then Some v else dict_get d k)"
  by (simp add: dict_get_def)

text \<open>
  A text column that the code reads with \<open>json.loads\<close> and writes with \<open>json.dumps\<close>, up to the
  layout of the text: either text that decodes to a value, or text that does not decode. The
  empty text is \<open>BadText []\<close>, the only one that is false in a condition. Decoding what was encoded
  gives the value back, which is the documented behaviour of the two functions on such values.
\<close>

datatype jtext = JText json | BadText string

fun loads :: "jtext \<Rightarrow> json option" where
  "loads (JText v) = Some v"
| "loads (BadText _) = None"

definition dumps :: "json \<Rightarrow> jtext" where
  "dumps v = JText v"

definition text_falsy :: "jtext option \<Rightarrow> bool" where
  "text_falsy t = (t = None \<or> t = Some (BadText []))"

lemma loads_dumps [simp]: "loads (dumps v) = Some v"
  by (simp add: dumps_def)

lemma text_falsy_simps [simp]:
  "text_falsy None" "\<not> text_falsy (Some (JText v))" "\<not> text_falsy (Some (dumps v))"
  "text_falsy (Some (BadText s)) = (s = [])"
  by (auto simp: text_falsy_def dumps_def)

text \<open>
  \<open>str(v)\<close> of a decoded value. The \<open>repr\<close> of floats, lists and dicts is Python's own and an
  argument \<open>rp\<close>.
\<close>

fun py_str :: "(json \<Rightarrow> string) \<Rightarrow> json \<Rightarrow> string" where
  "py_str rp JNull = ''None''"
| "py_str rp (JBool b) = (if b then ''True'' else ''False'')"
| "py_str rp (JInt i) = str_int i"
| "py_str rp (JStr s) = s"
| "py_str rp v = rp v"

text \<open>Serialised optional values.\<close>

definition jopt :: "('a \<Rightarrow> json) \<Rightarrow> 'a option \<Rightarrow> json" where
  "jopt f x = (case x of None \<Rightarrow> JNull | Some y \<Rightarrow> f y)"

lemma jopt_simps [simp]: "jopt f None = JNull" "jopt f (Some y) = f y"
  by (simp_all add: jopt_def)

end
