(* ===== verification/Schema.thy ===== *)
theory Schema
  imports PyText
begin

text \<open>
  The data the control plane keeps: the settings, and one record per table with the columns the
  migrations create. The mapped classes themselves are not in the repository; a column's type and
  whether it may be null come from the migrations. Rows get their \<open>id\<close> from a counter of the
  database, which stands for the freshness of \<open>uuid4\<close>. Times are microseconds since the epoch
  in UTC; money columns (\<open>Numeric\<close>) are rationals.
\<close>

type_synonym uuid = nat
type_synonym timestamp = int

text \<open>The canonical text of a UUID: thirty-two hexadecimal digits of its 128-bit value, grouped.\<close>

definition hex_char :: "nat \<Rightarrow> char" where
  "hex_char d = (if d < 10 then char_of (48 + d) else char_of (87 + d))"

fun hex_digits :: "nat \<Rightarrow> nat \<Rightarrow> string" where
  "hex_digits 0 n = []"
| "hex_digits (Suc k) n = hex_digits k (n div 16) @ [hex_char (n mod 16)]"

definition uuid_str :: "uuid \<Rightarrow> string" where
  "uuid_str u = hex_digits 8 (u div 16 ^ 24) @ ''-'' @ hex_digits 4 (u div 16 ^ 20) @ ''-'' @
     hex_digits 4 (u div 16 ^ 16) @ ''-'' @ hex_digits 4 (u div 16 ^ 12) @ ''-'' @ hex_digits 12 u"

text \<open>The same over the integers, whose numerals evaluate in binary.\<close>

fun hex_digits_int :: "nat \<Rightarrow> int \<Rightarrow> string" where
  "hex_digits_int 0 n = []"
| "hex_digits_int (Suc k) n = hex_digits_int k (n div 16) @ [hex_char (nat (n mod 16))]"

lemma hex_digits_int: "hex_digits_int k (int n) = hex_digits k n"
proof (induction k arbitrary: n)
  case (Suc k)
  have "int n div 16 = int (n div 16)" and "nat (int n mod 16) = n mod 16"
    by (simp_all add: zdiv_int nat_mod_distrib)
  with Suc show ?case by simp
qed simp

lemma uuid_str_code [code]:
  "uuid_str u = (let i = int u in hex_digits_int 8 (i div 16 ^ 24) @ ''-'' @ hex_digits_int 4 (i div 16 ^ 20) @
     ''-'' @ hex_digits_int 4 (i div 16 ^ 16) @ ''-'' @ hex_digits_int 4 (i div 16 ^ 12) @ ''-'' @ hex_digits_int 12 i)"
  by (simp add: uuid_str_def Let_def flip: hex_digits_int) (simp add: zdiv_int)

section \<open>Exceptions\<close>

text \<open>
  The exceptions of the code and of the libraries it calls that a handler can raise or catch. The
  detail of an \<open>HTTPException\<close> is a string or a dict, kept as JSON.
\<close>

datatype exc =
    HTTPException int json
  | RateLimitExceeded string
  | QuotaExceeded string
  | QueueOverloaded string
  | QueueTimeout string
  | CircuitBreakerOpen string
  | HTTPStatusError int json
  | TransportError
  | ValueError string
  | FileNotFoundError string
  | RuntimeError string
  | NameError string
  | AttributeError string
  | KeyError string
  | TypeError string
  | IndexError string
  | IntegrityError string
  | DataError string
  | MultipleResultsFound
  | JSONDecodeError
  | OverflowError

abbreviation http_error :: "int \<Rightarrow> string \<Rightarrow> exc" where
  "http_error status detail \<equiv> HTTPException status (JStr detail)"

text \<open>\<open>scalar_one_or_none\<close> of a query's rows raises when there is more than one.\<close>

fun scalar_one_or_none :: "'a list \<Rightarrow> exc + 'a option" where
  "scalar_one_or_none [] = Inr None"
| "scalar_one_or_none [x] = Inr (Some x)"
| "scalar_one_or_none (x # y # ys) = Inl MultipleResultsFound"

lemma scalar_key_unique:
  assumes "distinct (map k xs)"
  shows "scalar_one_or_none (filter (\<lambda>x. k x = v) xs) = Inr (List.find (\<lambda>x. k x = v) xs)"
  using filter_key_unique [OF assms, of v] by (simp split: option.splits)

section \<open>Settings\<close>

text \<open>The fields of \<open>Settings\<close> that decide behaviour; host names and ports of the server are left out.\<close>

record settings =
  admin_token :: string
  public_exposure :: bool
  public_signup_enabled :: bool
  public_base_url :: string
  public_brand_name :: string
  public_support_email :: string
  data_plane_base_url :: string
  bonsai_enabled :: bool
  bonsai_base_url :: string
  ollama_base_url :: string
  queue_timeout_seconds :: int
  max_queue_size :: int
  async_job_queue_name :: string
  max_context_tokens :: int
  default_max_tokens :: int
  max_completion_tokens :: int
  default_temperature :: rat
  max_temperature :: rat
  default_top_p :: rat
  max_top_p :: rat
  retry_attempts :: nat
  circuit_breaker_failure_threshold :: int
  circuit_breaker_recovery_seconds :: int
  response_cache_enabled :: bool
  response_cache_ttl_seconds :: int
  semantic_cache_enabled :: bool
  billing_invoice_day :: int
  billing_due_days :: int
  billing_suspend_after_days :: int
  demo_client_name :: string
  demo_rate_limit_per_minute :: int
  demo_daily_token_quota :: int
  demo_monthly_token_quota :: int
  cfg_model_id :: string
  cfg_model_file :: string
  bonsai_model_id :: string
  bonsai_model_file :: string
  bonsai_chat_template :: "string option"
  test_tools_enabled :: bool
  max_request_body_size_bytes :: int

text \<open>The defaults the code declares; what has none (token, URLs of services) is an argument.\<close>

definition default_settings :: "string \<Rightarrow> string \<Rightarrow> settings" where
  "default_settings token data_plane = \<lparr>
     admin_token = token, public_exposure = False, public_signup_enabled = True,
     public_base_url = [], public_brand_name = ''LLM Inference Stack Cloud'',
     public_support_email = ''sales@example.com'',
     data_plane_base_url = data_plane, bonsai_enabled = False,
     bonsai_base_url = ''http://data-plane-bonsai:8082'',
     ollama_base_url = ''http://data-plane-ollama:11434'',
     queue_timeout_seconds = 30, max_queue_size = 8,
     async_job_queue_name = ''generation_jobs:queue'', max_context_tokens = 32768,
     default_max_tokens = 512, max_completion_tokens = 2048,
     default_temperature = 7 / 10, max_temperature = 15 / 10,
     default_top_p = 95 / 100, max_top_p = 1, retry_attempts = 2,
     circuit_breaker_failure_threshold = 3, circuit_breaker_recovery_seconds = 20,
     response_cache_enabled = True, response_cache_ttl_seconds = 3600,
     semantic_cache_enabled = False, billing_invoice_day = 1, billing_due_days = 7,
     billing_suspend_after_days = 15, demo_client_name = ''demo-client'',
     demo_rate_limit_per_minute = 5, demo_daily_token_quota = 20000,
     demo_monthly_token_quota = 300000, cfg_model_id = ''unsloth/gemma-4-E4B-it-GGUF'',
     cfg_model_file = ''gemma-4-E4B-it-Q4_K_M.gguf'', bonsai_model_id = ''bonsai/bonsai-8B-GGUF'',
     bonsai_model_file = ''bonsai-8B.gguf'', bonsai_chat_template = None,
     test_tools_enabled = False, max_request_body_size_bytes = 1024 * 1024 * 5\<rparr>"

section \<open>Dates\<close>

datatype date = Date (dyear: int) (dmonth: int) (dday: int)

text \<open>Dates compare as Python's do: by year, then month, then day.\<close>

instantiation date :: linorder
begin

definition less_eq_date :: "date \<Rightarrow> date \<Rightarrow> bool" where
  "less_eq_date a b = ((dyear a, dmonth a, dday a) \<le> (dyear b, dmonth b, dday b))"

definition less_date :: "date \<Rightarrow> date \<Rightarrow> bool" where
  "less_date a b = ((dyear a, dmonth a, dday a) < (dyear b, dmonth b, dday b))"

instance
proof
  fix a b c :: date
  show "(a < b) = (a \<le> b \<and> \<not> b \<le> a)"
    unfolding less_eq_date_def less_date_def by (rule less_le_not_le)
  show "a \<le> a" unfolding less_eq_date_def by simp
  show "a \<le> b \<Longrightarrow> b \<le> c \<Longrightarrow> a \<le> c"
    unfolding less_eq_date_def by (rule order_trans)
  show "a \<le> b \<Longrightarrow> b \<le> a \<Longrightarrow> a = b"
    unfolding less_eq_date_def by (cases a; cases b) (drule antisym, auto)
  show "a \<le> b \<or> b \<le> a" unfolding less_eq_date_def by (rule linear)
qed

end

section \<open>Tables\<close>

record client =
  c_id :: uuid
  c_name :: string
  c_description :: "string option"
  c_is_blocked :: bool
  c_billing_status :: string
  c_billing_plan_id :: "uuid option"
  c_rate_limit_per_minute :: int
  c_daily_token_quota :: int
  c_monthly_token_quota :: int
  c_max_context_tokens :: int
  c_max_output_tokens :: int
  c_allowed_models_json :: "jtext option"
  c_ip_allowlist_json :: "jtext option"
  c_ip_blocklist_json :: "jtext option"
  c_system_prompt :: "string option"
  c_metadata_json :: "jtext option"
  c_deleted_at :: "timestamp option"
  c_created_at :: timestamp
  c_updated_at :: timestamp

record api_key =
  k_id :: uuid
  k_client_id :: uuid
  k_name :: string
  k_key_prefix :: string
  k_key_hash :: string
  k_scopes_json :: "jtext option"
  k_created_at :: timestamp
  k_revoked_at :: "timestamp option"
  k_last_used_at :: "timestamp option"

record request_log =
  rl_id :: uuid
  rl_client_id :: uuid
  rl_model :: string
  rl_endpoint :: string
  rl_prompt_tokens :: int
  rl_completion_tokens :: int
  rl_latency_ms :: int
  rl_http_status :: int
  rl_is_stream :: bool
  rl_estimated_cost_usd :: rat
  rl_backend_name :: "string option"
  rl_attempts :: int
  rl_fallback_used :: bool
  rl_cache_hit :: bool
  rl_backend_errors_json :: "jtext option"
  rl_error_message :: "string option"
  rl_request_summary :: "string option"
  rl_safety_profile :: "string option"
  rl_correlation_id :: "string option"
  rl_source_ip :: "string option"
  rl_created_at :: timestamp

record usage_record =
  u_id :: uuid
  u_client_id :: uuid
  u_period_start :: date
  u_period_type :: string
  u_request_count :: int
  u_prompt_tokens :: int
  u_completion_tokens :: int
  u_created_at :: timestamp

record quota_counter =
  q_id :: uuid
  q_client_id :: uuid
  q_period_start :: date
  q_period_type :: string
  q_used_tokens :: int
  q_used_requests :: int
  q_created_at :: timestamp

record model =
  m_id :: uuid
  m_model_id :: string
  m_model_alias :: "string option"
  m_inference_backend_id :: "uuid option"
  m_provider :: string
  m_model_file :: string
  m_context_length :: int
  m_is_active :: bool
  m_is_default :: bool
  m_status :: string
  m_prompt_template :: "string option"
  m_metadata_json :: "jtext option"
  m_created_at :: timestamp
  m_updated_at :: timestamp

record billing_plan =
  p_id :: uuid
  p_code :: string
  p_name :: string
  p_description :: "string option"
  p_rate_limit_per_minute :: int
  p_daily_token_quota :: int
  p_monthly_token_quota :: int
  p_max_output_tokens :: int
  p_allow_streaming :: bool
  p_is_active :: bool
  p_allowed_models_json :: "jtext option"
  p_created_at :: timestamp
  p_updated_at :: timestamp

record pricing_rule =
  pr_id :: uuid
  pr_billing_plan_id :: uuid
  pr_currency :: string
  pr_monthly_price :: rat
  pr_overage_price_per_1k_tokens :: rat
  pr_description :: "string option"
  pr_is_active :: bool
  pr_created_at :: timestamp
  pr_updated_at :: timestamp

record invoice =
  i_id :: uuid
  i_client_id :: uuid
  i_billing_plan_id :: "uuid option"
  i_pricing_rule_id :: "uuid option"
  i_status :: string
  i_currency :: string
  i_period_start :: date
  i_period_end :: date
  i_monthly_price :: rat
  i_included_tokens :: int
  i_used_tokens :: int
  i_overage_tokens :: int
  i_overage_price_per_1k_tokens :: rat
  i_overage_cost :: rat
  i_total_amount :: rat
  i_payment_method :: string
  i_payment_instructions :: "string option"
  i_due_at :: "timestamp option"
  i_paid_at :: "timestamp option"
  i_cancelled_at :: "timestamp option"
  i_created_at :: timestamp
  i_updated_at :: timestamp

record payment =
  y_id :: uuid
  y_invoice_id :: uuid
  y_client_id :: uuid
  y_status :: string
  y_amount :: rat
  y_currency :: string
  y_payment_method :: string
  y_payment_reference :: "string option"
  y_note :: "string option"
  y_paid_at :: "timestamp option"
  y_cancelled_at :: "timestamp option"
  y_created_at :: timestamp
  y_updated_at :: timestamp

record backend =
  b_id :: uuid
  b_name :: string
  b_provider :: string
  b_backend_url :: string
  b_healthcheck_path :: string
  b_is_active :: bool
  b_is_default :: bool
  b_status :: string
  b_max_parallel_requests :: int
  b_current_running :: int
  b_metadata_json :: "jtext option"
  b_created_at :: timestamp
  b_updated_at :: timestamp

record route =
  r_id :: "uuid option"
  r_model_registry_id :: uuid
  r_inference_backend_id :: uuid
  r_priority :: int
  r_weight :: int
  r_state :: string
  r_created_at :: timestamp
  r_updated_at :: timestamp

record cache_row =
  x_id :: uuid
  x_cache_type :: string
  x_endpoint :: string
  x_model :: string
  x_request_hash :: string
  x_request_fingerprint :: "string option"
  x_response_json :: jtext
  x_prompt_tokens :: int
  x_completion_tokens :: int
  x_hit_count :: int
  x_last_hit_at :: "timestamp option"
  x_expires_at :: timestamp
  x_is_active :: bool
  x_created_at :: timestamp
  x_updated_at :: timestamp

record job =
  j_id :: uuid
  j_client_id :: uuid
  j_model_registry_id :: "uuid option"
  j_inference_backend_id :: "uuid option"
  j_endpoint :: string
  j_requested_model :: string
  j_resolved_model :: string
  j_status :: string
  j_is_stream :: bool
  j_include_reasoning :: bool
  j_request_json :: jtext
  j_response_json :: "jtext option"
  j_error_message :: "string option"
  j_backend_name :: "string option"
  j_attempts :: int
  j_fallback_used :: bool
  j_backend_errors_json :: "jtext option"
  j_prompt_tokens :: int
  j_completion_tokens :: int
  j_estimated_cost_usd :: rat
  j_max_tokens_requested :: int
  j_queued_at :: timestamp
  j_started_at :: "timestamp option"
  j_completed_at :: "timestamp option"
  j_cancelled_at :: "timestamp option"
  j_created_at :: timestamp
  j_updated_at :: timestamp

record security_event =
  e_id :: uuid
  e_client_id :: "uuid option"
  e_request_log_id :: "uuid option"
  e_event_type :: string
  e_severity :: string
  e_correlation_id :: "string option"
  e_source_ip :: "string option"
  e_api_key_prefix :: "string option"
  e_title :: string
  e_detail_json :: "jtext option"
  e_created_at :: timestamp

record db =
  next_id :: uuid
  clients :: "client list"
  api_keys :: "api_key list"
  request_logs :: "request_log list"
  usage_records :: "usage_record list"
  quota_counters :: "quota_counter list"
  models :: "model list"
  billing_plans :: "billing_plan list"
  pricing_rules :: "pricing_rule list"
  invoices :: "invoice list"
  payments :: "payment list"
  backends :: "backend list"
  routes :: "route list"
  cache_rows :: "cache_row list"
  jobs :: "job list"
  security_events :: "security_event list"

definition empty_db :: db where
  "empty_db = \<lparr>next_id = 0, clients = [], api_keys = [], request_logs = [], usage_records = [],
     quota_counters = [], models = [], billing_plans = [], pricing_rules = [], invoices = [],
     payments = [], backends = [], routes = [], cache_rows = [], jobs = [], security_events = []\<rparr>"

section \<open>Foreign keys\<close>

text \<open>What the relationship attributes of a row object hold.\<close>

definition client_plan :: "db \<Rightarrow> client \<Rightarrow> billing_plan option" where
  "client_plan d c = (case c_billing_plan_id c of None \<Rightarrow> None
     | Some pid \<Rightarrow> List.find (\<lambda>p. p_id p = pid) (billing_plans d))"

definition plan_rules :: "db \<Rightarrow> billing_plan \<Rightarrow> pricing_rule list" where
  "plan_rules d p = filter (\<lambda>r. pr_billing_plan_id r = p_id p) (pricing_rules d)"

definition invoice_payments :: "db \<Rightarrow> invoice \<Rightarrow> payment list" where
  "invoice_payments d i = filter (\<lambda>y. y_invoice_id y = i_id i) (payments d)"

definition client_invoices :: "db \<Rightarrow> client \<Rightarrow> invoice list" where
  "client_invoices d c = filter (\<lambda>i. i_client_id i = c_id c) (invoices d)"

definition model_routes :: "db \<Rightarrow> model \<Rightarrow> route list" where
  "model_routes d m = filter (\<lambda>r. r_model_registry_id r = m_id m) (routes d)"

definition backend_of :: "db \<Rightarrow> uuid \<Rightarrow> backend option" where
  "backend_of d bid = List.find (\<lambda>b. b_id b = bid) (backends d)"

definition model_backend :: "db \<Rightarrow> model \<Rightarrow> backend option" where
  "model_backend d m = (case m_inference_backend_id m of None \<Rightarrow> None | Some bid \<Rightarrow> backend_of d bid)"

end
