(* ===== verification/CircuitBreaker.thy ===== *)
theory CircuitBreaker
  imports Schema
begin

text \<open>
  The circuit breaker in front of the data plane (\<open>services/circuit_breaker.py\<close>): the record of
  its fields, its four methods, and the two-phase machine it implements. Clock readings
  (\<open>time.monotonic()\<close>) are arguments; each method runs under the breaker's lock, so it is one step.
\<close>

section \<open>The code\<close>

record breaker =
  failure_threshold :: int
  recovery_seconds :: int
  failures :: int
  opened_at :: rat
  state_gauge :: int

definition new_breaker :: "settings \<Rightarrow> breaker" where
  "new_breaker cfg = \<lparr>failure_threshold = circuit_breaker_failure_threshold cfg,
     recovery_seconds = circuit_breaker_recovery_seconds cfg,
     failures = 0, opened_at = 0, state_gauge = 0\<rparr>"

definition before_call :: "rat \<Rightarrow> (breaker, exc, unit) eff" where
  "before_call now = (\<lambda>b.
     if failures b < failure_threshold b then (Inr (), b\<lparr>state_gauge := 0\<rparr>)
     else if now - opened_at b \<ge> of_int (recovery_seconds b)
       then (Inr (), b\<lparr>failures := 0, opened_at := 0, state_gauge := 0\<rparr>)
     else (Inl (CircuitBreakerOpen ''data plane circuit breaker is open''), b\<lparr>state_gauge := 1\<rparr>))"

definition record_success :: "breaker \<Rightarrow> breaker" where
  "record_success b = b\<lparr>failures := 0, opened_at := 0, state_gauge := 0\<rparr>"

definition record_failure :: "rat \<Rightarrow> breaker \<Rightarrow> breaker" where
  "record_failure now b =
     (let b1 = b\<lparr>failures := failures b + 1\<rparr> in
      if failures b1 \<ge> failure_threshold b1 \<and> opened_at b1 = 0
      then b1\<lparr>opened_at := now, state_gauge := 1\<rparr> else b1)"

definition reset :: "breaker \<Rightarrow> breaker" where
  "reset b = b\<lparr>failures := 0, opened_at := 0, state_gauge := 0\<rparr>"

section \<open>The machine it implements\<close>

text \<open>
  Closed with the number of failures in a row, or open since a time. The code keeps both phases
  in the two fields: open means the threshold is reached, and \<open>opened_at\<close> is then not its
  sentinel \<open>0.0\<close>, provided the clock is positive.
\<close>

datatype phase = Closed int | Opened rat

definition phase_of :: "breaker \<Rightarrow> phase" where
  "phase_of b = (if failures b < failure_threshold b then Closed (failures b) else Opened (opened_at b))"

definition breaker_inv :: "breaker \<Rightarrow> bool" where
  "breaker_inv b \<longleftrightarrow> 0 < failure_threshold b \<and> 0 \<le> failures b \<and>
     (if failures b < failure_threshold b then opened_at b = 0 else 0 < opened_at b)"

fun spec_before :: "int \<Rightarrow> rat \<Rightarrow> phase \<Rightarrow> bool \<times> phase" where
  "spec_before recovery now (Closed n) = (True, Closed n)"
| "spec_before recovery now (Opened t) =
     (if now - t \<ge> of_int recovery then (True, Closed 0) else (False, Opened t))"

fun spec_failure :: "int \<Rightarrow> rat \<Rightarrow> phase \<Rightarrow> phase" where
  "spec_failure threshold now (Closed n) = (if n + 1 \<ge> threshold then Opened now else Closed (n + 1))"
| "spec_failure threshold now (Opened t) = Opened t"

text \<open>The calls a process makes on its breaker, each with the clock reading it sees.\<close>

datatype breaker_event = Before rat | Success | Failure rat | Reset

fun event_time_ok :: "breaker_event \<Rightarrow> bool" where
  "event_time_ok (Before t) = (0 < t)"
| "event_time_ok (Failure t) = (0 < t)"
| "event_time_ok _ = True"

fun breaker_step :: "breaker \<Rightarrow> breaker_event \<Rightarrow> breaker" where
  "breaker_step b (Before t) = snd (before_call t b)"
| "breaker_step b Success = record_success b"
| "breaker_step b (Failure t) = record_failure t b"
| "breaker_step b Reset = reset b"

fun spec_step :: "int \<Rightarrow> int \<Rightarrow> phase \<Rightarrow> breaker_event \<Rightarrow> phase" where
  "spec_step threshold recovery p (Before t) = snd (spec_before recovery t p)"
| "spec_step threshold recovery p Success = Closed 0"
| "spec_step threshold recovery p (Failure t) = spec_failure threshold t p"
| "spec_step threshold recovery p Reset = Closed 0"

lemmas breaker_defs = before_call_def record_success_def record_failure_def reset_def Let_def

lemma breaker_step_frame:
  "failure_threshold (breaker_step b e) = failure_threshold b"
  "recovery_seconds (breaker_step b e) = recovery_seconds b"
  by (cases e; auto simp: breaker_defs)+

lemma breaker_step_inv: "breaker_inv b \<Longrightarrow> event_time_ok e \<Longrightarrow> breaker_inv (breaker_step b e)"
  by (cases e) (auto simp: breaker_inv_def breaker_defs split: if_splits)

lemma new_breaker_inv: "0 < circuit_breaker_failure_threshold cfg \<Longrightarrow> breaker_inv (new_breaker cfg)"
  by (simp add: breaker_inv_def new_breaker_def)

lemma breaker_step_refines:
  "breaker_inv b \<Longrightarrow> phase_of (breaker_step b e) =
     spec_step (failure_threshold b) (recovery_seconds b) (phase_of b) e"
  by (cases e) (auto simp: phase_of_def breaker_inv_def breaker_defs)

interpretation run: simulation
  "\<lambda>b. breaker_inv b \<and> failure_threshold b = th \<and> recovery_seconds b = rc"
  breaker_step event_time_ok phase_of "spec_step th rc" for th rc
  by unfold_locales (auto simp: breaker_step_inv breaker_step_frame breaker_step_refines)

lemma new_breaker_fields [simp]:
  "failure_threshold (new_breaker cfg) = circuit_breaker_failure_threshold cfg"
  "recovery_seconds (new_breaker cfg) = circuit_breaker_recovery_seconds cfg"
  by (simp_all add: new_breaker_def)

lemma phase_of_new_breaker:
  "0 < circuit_breaker_failure_threshold cfg \<Longrightarrow> phase_of (new_breaker cfg) = Closed 0"
  by (simp add: phase_of_def new_breaker_def)

lemma before_call_answer:
  "breaker_inv b \<Longrightarrow>
   fst (before_call t b) = (if fst (spec_before (recovery_seconds b) t (phase_of b)) then Inr ()
      else Inl (CircuitBreakerOpen ''data plane circuit breaker is open'')) \<and>
   state_gauge (snd (before_call t b)) = (if fst (spec_before (recovery_seconds b) t (phase_of b)) then 0 else 1)"
  by (auto simp: phase_of_def breaker_inv_def breaker_defs)

lemma breaker_run:
  assumes "0 < circuit_breaker_failure_threshold cfg" and "list_all event_time_ok es"
  defines "b \<equiv> foldl breaker_step (new_breaker cfg) es"
  shows "breaker_inv b" "failure_threshold b = circuit_breaker_failure_threshold cfg"
    "recovery_seconds b = circuit_breaker_recovery_seconds cfg"
    "phase_of b = foldl (spec_step (circuit_breaker_failure_threshold cfg) (circuit_breaker_recovery_seconds cfg))
        (Closed 0) es"
  using run.run_inv [OF _ assms(2), of "new_breaker cfg"] run.run_sim [OF _ assms(2), of "new_breaker cfg"] assms(1)
  unfolding b_def by (simp_all add: new_breaker_inv phase_of_new_breaker)

section \<open>Properties\<close>

text \<open>
  C1. Refinement: along every run of calls on a fresh breaker, whatever their order, the two
  fields of the code represent the phase of the two-phase machine run on the same calls, and the
  next \<open>before_call\<close>, at any time, raises \<open>CircuitBreakerOpen\<close> exactly when the machine in that
  phase refuses, returns normally otherwise, and sets the gauge to say which.
\<close>

theorem breaker_refines_machine:
  fixes cfg :: settings and es :: "breaker_event list"
  defines "b \<equiv> foldl breaker_step (new_breaker cfg) es"
    and "p \<equiv> foldl (spec_step (circuit_breaker_failure_threshold cfg) (circuit_breaker_recovery_seconds cfg))
        (Closed 0) es"
  assumes "0 < circuit_breaker_failure_threshold cfg" and "list_all event_time_ok es"
  shows "phase_of b = p \<and>
    (\<forall>now. let through = fst (spec_before (circuit_breaker_recovery_seconds cfg) now p) in
       fst (before_call now b) =
         (if through then Inr () else Inl (CircuitBreakerOpen ''data plane circuit breaker is open'')) \<and>
       state_gauge (snd (before_call now b)) = (if through then 0 else 1))"
  using breaker_run [OF assms(3,4)] unfolding b_def p_def by (simp add: before_call_answer)

theorem breaker_refines_machine_witness:
  "fst (before_call 9 (foldl breaker_step (new_breaker (default_settings [] []))
      [Failure 5, Failure 6, Failure 7, Before 8])) =
    Inl (CircuitBreakerOpen ''data plane circuit breaker is open'') \<and>
   fst (before_call 40 (foldl breaker_step (new_breaker (default_settings [] []))
      [Failure 5, Failure 6, Failure 7, Before 8])) = Inr ()"
  using breaker_refines_machine [of "default_settings [] []" "[Failure 5, Failure 6, Failure 7, Before 8]"]
  by (simp add: default_settings_def Let_def)

text \<open>
  Failures in a row from a closed phase: no success or reset among the calls, and no call let
  through after the recovery time. Calls that are refused, or that a closed breaker lets through
  and that have not ended yet, do not break the row.
\<close>

fun failure_times :: "breaker_event list \<Rightarrow> rat list" where
  "failure_times [] = []"
| "failure_times (Failure t # es) = t # failure_times es"
| "failure_times (e # es) = failure_times es"

fun in_a_row :: "(rat \<Rightarrow> bool) \<Rightarrow> breaker_event \<Rightarrow> bool" where
  "in_a_row early (Before t) = early t"
| "in_a_row early (Failure t) = True"
| "in_a_row early Success = False"
| "in_a_row early Reset = False"

lemma spec_stays_open:
  "list_all (in_a_row (\<lambda>t. t - t0 < of_int rc)) es \<Longrightarrow>
   foldl (spec_step th rc) (Opened t0) es = Opened t0"
proof (induction es)
  case (Cons e es)
  then show ?case by (cases e) auto
qed simp

lemma spec_failures:
  assumes "n < th"
    and "list_all (in_a_row (\<lambda>t. th - n \<le> int (length (failure_times es)) \<longrightarrow>
           t - failure_times es ! nat (th - n - 1) < of_int rc)) es"
  shows "foldl (spec_step th rc) (Closed n) es =
     (if n + int (length (failure_times es)) < th then Closed (n + int (length (failure_times es)))
      else Opened (failure_times es ! nat (th - n - 1)))"
  using assms
proof (induction es arbitrary: n)
  case Nil
  then show ?case by simp
next
  case (Cons e es)
  show ?case
  proof (cases e)
    case (Failure t)
    show ?thesis
    proof (cases "n + 1 < th")
      case True
      then have shift: "nat (th - n - 1) = Suc (nat (th - (n + 1) - 1))" by linarith
      let ?F = "failure_times es"
      have idx: "(t # ?F) ! nat (th - n - 1) = ?F ! nat (th - (n + 1) - 1)"
        by (simp only: shift nth_Cons_Suc)
      have len: "(th - n \<le> int (length (t # ?F))) = (th - (n + 1) \<le> int (length ?F))" by auto
      have "list_all (in_a_row (\<lambda>u. th - (n + 1) \<le> int (length ?F) \<longrightarrow>
             u - ?F ! nat (th - (n + 1) - 1) < of_int rc)) es"
        using Cons.prems(2) unfolding Failure failure_times.simps idx len by simp
      with True shift Failure Cons.IH [OF True] show ?thesis by (simp add: algebra_simps)
    next
      case False
      with Cons.prems have "th = n + 1" by simp
      with Cons.prems(2) Failure show ?thesis by (simp add: spec_stays_open)
    qed
  qed (use Cons in auto)
qed

text \<open>
  C2. The breaker opens at the threshold and not before, and stays open for the recovery time:
  after any history that ends in a success (on a fresh breaker a success changes nothing) and
  then failures in a row, however slowly they accumulate, a call is refused exactly when the
  failures have reached the threshold and the recovery time has not yet passed since the failure
  that reached it; otherwise it is let through, and once the recovery time has passed it leaves
  the breaker closed with no failure on record.
\<close>

theorem breaker_opens_at_threshold:
  fixes cfg :: settings and es us :: "breaker_event list" and now :: rat
  defines "th \<equiv> circuit_breaker_failure_threshold cfg" and "rc \<equiv> circuit_breaker_recovery_seconds cfg"
    and "b \<equiv> foldl breaker_step (new_breaker cfg) (es @ Success # us)" and "ts \<equiv> failure_times us"
  assumes "0 < th" and "list_all event_time_ok es" and "list_all event_time_ok us"
    and "list_all (in_a_row (\<lambda>t. th \<le> int (length ts) \<longrightarrow> t - ts ! nat (th - 1) < of_int rc)) us"
  shows "fst (before_call now b) =
      (if th \<le> int (length ts) \<and> now - ts ! nat (th - 1) < of_int rc
       then Inl (CircuitBreakerOpen ''data plane circuit breaker is open'') else Inr ()) \<and>
    (th \<le> int (length ts) \<and> now - ts ! nat (th - 1) \<ge> of_int rc \<longrightarrow>
      failures (snd (before_call now b)) = 0 \<and> opened_at (snd (before_call now b)) = 0)"
proof -
  have run: "breaker_inv b" "failure_threshold b = th" "recovery_seconds b = rc"
    "phase_of b = foldl (spec_step th rc) (Closed 0) us"
    using breaker_run [of cfg "es @ Success # us"] assms by simp_all
  then have phase: "phase_of b = (if int (length ts) < th then Closed (int (length ts))
      else Opened (ts ! nat (th - 1)))"
    using spec_failures [of 0 th us rc] assms(5,8) by (simp add: ts_def)
  show ?thesis
    using phase run(1-3) by (auto simp: phase_of_def before_call_def split: if_splits)
qed

theorem breaker_opens_at_threshold_witness:
  defines "b \<equiv> foldl breaker_step (new_breaker (default_settings [] []))
     ([Failure 1, Before 40] @ Success # [Before 45, Failure 50, Failure 60, Before 65, Failure 70, Before 85])"
  shows "fst (before_call 89 b) = Inl (CircuitBreakerOpen ''data plane circuit breaker is open'') \<and>
    fst (before_call 90 b) = Inr ()"
proof -
  have "fst (before_call now b) = (if now - 70 < 20
      then Inl (CircuitBreakerOpen ''data plane circuit breaker is open'') else Inr ())" for now
    using breaker_opens_at_threshold [of "default_settings [] []" "[Failure 1, Before 40]"
      "[Before 45, Failure 50, Failure 60, Before 65, Failure 70, Before 85]" now]
    unfolding b_def by (simp add: default_settings_def)
  then show ?thesis by simp
qed

text \<open>
  Recovery: once the recovery time has passed since it opened, the next call is let through
  and the breaker is closed again with no failure on record.
\<close>

theorem breaker_recovers:
  assumes "breaker_inv b" and "phase_of b = Opened t" and "now - t \<ge> of_int (recovery_seconds b)"
  shows "fst (before_call now b) = Inr () \<and> phase_of (snd (before_call now b)) = Closed 0"
  using assms by (auto simp: before_call_def phase_of_def breaker_inv_def split: if_splits)

theorem breaker_recovers_witness:
  "phase_of (snd (before_call 40 (foldl breaker_step (new_breaker (default_settings [] []))
     (map Failure [7, 8, 9])))) = Closed 0"
proof -
  let ?b = "foldl breaker_step (new_breaker (default_settings [] [])) (map Failure [7, 8, 9])"
  have "breaker_inv ?b" "phase_of ?b = Opened 9"
    by (simp_all add: breaker_inv_def phase_of_def breaker_defs new_breaker_def default_settings_def)
  moreover have "(40::rat) - 9 \<ge> of_int (recovery_seconds ?b)"
    by (simp add: breaker_defs new_breaker_def default_settings_def)
  ultimately show ?thesis using breaker_recovers [of ?b 9 40] by simp
qed

end
