(* ===== verification/World.thy ===== *)
theory World
  imports CircuitBreaker
begin

text \<open>
  The state a request handler works on, and the primitive actions handlers are made of: the
  database as the session sees it and as it was last committed, Redis, the metrics, the breaker
  and the queue counter of the process, and the two context variables of the request.
\<close>

datatype metric = Count string "string list" | Gauge string "string list" int

record 'r world =
  w_db :: db
  w_saved :: db
  w_redis :: 'r
  w_metrics :: "metric list"
  w_breaker :: breaker
  w_pending :: int
  w_correlation_id :: string
  w_source_ip :: string

type_synonym ('r, 'a) act = "('r world, exc, 'a) eff"

definition query :: "(db \<Rightarrow> 'a) \<Rightarrow> ('r, 'a) act" where
  "query f = gets (\<lambda>w. f (w_db w))"

definition update :: "(db \<Rightarrow> db) \<Rightarrow> ('r, unit) act" where
  "update f = modifyE (\<lambda>w. w\<lparr>w_db := f (w_db w)\<rparr>)"

text \<open>The identifier of a new row.\<close>

definition fresh_id :: "('r, uuid) act" where
  "fresh_id = (\<lambda>w. (Inr (next_id (w_db w)), w\<lparr>w_db := (w_db w)\<lparr>next_id := Suc (next_id (w_db w))\<rparr>\<rparr>))"

definition commit :: "('r, unit) act" where
  "commit = modifyE (\<lambda>w. w\<lparr>w_saved := w_db w\<rparr>)"

definition rollback :: "('r, unit) act" where
  "rollback = modifyE (\<lambda>w. w\<lparr>w_db := w_saved w\<rparr>)"

text \<open>
  A transaction on a session of its own (\<open>async with SessionLocal()\<close>): it reads and writes the
  committed rows, and the request's session sees the write as well.
\<close>

definition own_session :: "(db \<Rightarrow> 'a \<times> db) \<Rightarrow> ('r, 'a) act" where
  "own_session f = (\<lambda>w. (Inr (fst (f (w_saved w))),
     w\<lparr>w_saved := snd (f (w_saved w)), w_db := snd (f (w_db w))\<rparr>))"

definition emit :: "metric \<Rightarrow> ('r, unit) act" where
  "emit m = modifyE (\<lambda>w. w\<lparr>w_metrics := w_metrics w @ [m]\<rparr>)"

definition redis_call :: "('r \<Rightarrow> 'a \<times> 'r) \<Rightarrow> ('r, 'a) act" where
  "redis_call f = (\<lambda>w. case f (w_redis w) of (x, r) \<Rightarrow> (Inr x, w\<lparr>w_redis := r\<rparr>))"

definition on_breaker :: "(breaker, exc, 'a) eff \<Rightarrow> ('r, 'a) act" where
  "on_breaker m = (\<lambda>w. case m (w_breaker w) of (r, b) \<Rightarrow> (r, w\<lparr>w_breaker := b\<rparr>))"

text \<open>
  The dependency \<open>get_db_session\<close> around a handler: the session closes when the handler is done,
  which drops what was not committed.
\<close>

definition handle :: "('r, 'a) act \<Rightarrow> ('r, 'a) act" where
  "handle m = (\<lambda>w. case m w of (r, t) \<Rightarrow> (r, t\<lparr>w_db := w_saved t\<rparr>))"

lemma query_apply [simp, eff_simps]: "query f w = (Inr (f (w_db w)), w)"
  by (simp add: query_def)

lemma update_apply [simp, eff_simps]: "update f w = (Inr (), w\<lparr>w_db := f (w_db w)\<rparr>)"
  by (simp add: update_def)

lemma fresh_id_apply [simp, eff_simps]:
  "fresh_id w = (Inr (next_id (w_db w)), w\<lparr>w_db := (w_db w)\<lparr>next_id := Suc (next_id (w_db w))\<rparr>\<rparr>)"
  by (simp add: fresh_id_def)

lemma commit_apply [simp, eff_simps]: "commit w = (Inr (), w\<lparr>w_saved := w_db w\<rparr>)"
  by (simp add: commit_def)

lemma rollback_apply [simp, eff_simps]: "rollback w = (Inr (), w\<lparr>w_db := w_saved w\<rparr>)"
  by (simp add: rollback_def)

lemma emit_apply [simp, eff_simps]: "emit m w = (Inr (), w\<lparr>w_metrics := w_metrics w @ [m]\<rparr>)"
  by (simp add: emit_def)

lemma own_session_apply [eff_simps]:
  "own_session f w = (Inr (fst (f (w_saved w))),
     w\<lparr>w_saved := snd (f (w_saved w)), w_db := snd (f (w_db w))\<rparr>)"
  by (simp add: own_session_def)

lemma redis_call_apply [eff_simps]:
  "redis_call f w = (case f (w_redis w) of (x, r) \<Rightarrow> (Inr x, w\<lparr>w_redis := r\<rparr>))"
  by (simp add: redis_call_def)

lemma on_breaker_apply [eff_simps]:
  "on_breaker m w = (case m (w_breaker w) of (r, b) \<Rightarrow> (r, w\<lparr>w_breaker := b\<rparr>))"
  by (simp add: on_breaker_def)

lemma bind_prims [simp]:
  "bindE (query f) k w = k (f (w_db w)) w"
  "bindE fresh_id k2 w = k2 (next_id (w_db w)) (w\<lparr>w_db := (w_db w)\<lparr>next_id := Suc (next_id (w_db w))\<rparr>\<rparr>)"
  "seqE (update g) c w = c (w\<lparr>w_db := g (w_db w)\<rparr>)"
  "seqE commit c w = c (w\<lparr>w_saved := w_db w\<rparr>)"
  "seqE rollback c w = c (w\<lparr>w_db := w_saved w\<rparr>)"
  "seqE (emit m) c w = c (w\<lparr>w_metrics := w_metrics w @ [m]\<rparr>)"
  by (simp_all add: bindE_def seqE_def)

section \<open>Invariants of the database along a handler\<close>

text \<open>
  \<open>db_inv I\<close>: the session's view and the committed rows both satisfy \<open>I\<close>. A handler keeps it when
  each of its updates keeps \<open>I\<close>; commits, rollbacks and what does not touch the rows always do.
\<close>

definition db_inv :: "(db \<Rightarrow> bool) \<Rightarrow> 'r world \<Rightarrow> bool" where
  "db_inv I w \<longleftrightarrow> I (w_db w) \<and> I (w_saved w)"

lemma db_invI: "I (w_db w) \<Longrightarrow> I (w_saved w) \<Longrightarrow> db_inv I w"
  by (simp add: db_inv_def)

lemma keeps_query [keeps_intros]: "keeps I (query f)"
  by (simp add: query_def keeps_gets)

lemma keeps_commit [keeps_intros]: "keeps (db_inv I) commit"
  by (simp add: keeps_def db_inv_def)

lemma keeps_rollback [keeps_intros]: "keeps (db_inv I) rollback"
  by (simp add: keeps_def db_inv_def)

lemma keeps_emit [keeps_intros]: "keeps (db_inv I) (emit m)"
  by (simp add: keeps_def db_inv_def)

lemma keeps_redis [keeps_intros]: "keeps (db_inv I) (redis_call f)"
  by (auto simp: keeps_def db_inv_def redis_call_def split: prod.splits)

lemma keeps_on_breaker [keeps_intros]: "keeps (db_inv I) (on_breaker m)"
  by (auto simp: keeps_def db_inv_def on_breaker_def split: prod.splits)

lemma keeps_update: "(\<And>d. I d \<Longrightarrow> I (f d)) \<Longrightarrow> keeps (db_inv I) (update f)"
  by (simp add: keeps_def db_inv_def)

lemma keeps_fresh: "(\<And>d. I d \<Longrightarrow> I (d\<lparr>next_id := Suc (next_id d)\<rparr>)) \<Longrightarrow> keeps (db_inv I) fresh_id"
  by (simp add: keeps_def db_inv_def)

lemma keeps_own_session:
  "(\<And>d. I d \<Longrightarrow> I (snd (f d))) \<Longrightarrow> keeps (db_inv I) (own_session f)"
  by (simp add: keeps_def db_inv_def own_session_def)

lemma keeps_handle [keeps_intros]: "keeps (db_inv I) m \<Longrightarrow> keeps (db_inv I) (handle m)"
  by (fastforce simp: keeps_def handle_def db_inv_def split: prod.splits)

text \<open>A handler that raises without a commit leaves the committed rows as they were.\<close>

lemma handle_saved: "w_saved (snd (handle m w)) = w_saved (snd (m w))"
  and handle_db: "w_db (snd (handle m w)) = w_saved (snd (m w))"
  and handle_fst: "fst (handle m w) = fst (m w)"
  by (simp_all add: handle_def split: prod.splits)

end
