(* ===== verification/SlotManager.thy ===== *)
theory SlotManager
  imports World "HOL-Library.Multiset"
begin

text \<open>
  Concurrency control: the slots of a backend (\<open>services/backend_slot_manager.py\<close>), kept in its row
  and taken under a row lock, and the queue of the process (\<open>services/queue_manager.py\<close>) around
  them. First the operations, then the interleavings of any number of tasks as a step relation,
  with the bounds that hold in every reachable state.
\<close>

section \<open>Backend slots\<close>

definition slot_limit :: "backend \<Rightarrow> int" where
  "slot_limit b = max (if b_max_parallel_requests b = 0 then 1 else b_max_parallel_requests b) 1"

definition set_running :: "timestamp \<Rightarrow> uuid \<Rightarrow> (int \<Rightarrow> int) \<Rightarrow> db \<Rightarrow> db" where
  "set_running now bid f d = d\<lparr>backends := upd_where (\<lambda>b. b_id b = bid)
     (\<lambda>b. b\<lparr>b_current_running := f (b_current_running b), b_updated_at := now\<rparr>) (backends d)\<rparr>"

definition try_acquire_db :: "timestamp \<Rightarrow> uuid \<Rightarrow> db \<Rightarrow> bool \<times> db" where
  "try_acquire_db now bid d =
     (case backend_of d bid of
        None \<Rightarrow> (False, d)
      | Some b \<Rightarrow>
          if \<not> b_is_active b then (False, d)
          else if b_current_running b \<ge> slot_limit b then (False, d)
          else (True, set_running now bid (\<lambda>n. n + 1) d))"

definition release_db :: "timestamp \<Rightarrow> uuid \<Rightarrow> db \<Rightarrow> db" where
  "release_db now bid d =
     (case backend_of d bid of
        None \<Rightarrow> d
      | Some b \<Rightarrow> set_running now bid (\<lambda>n. max (n - 1) 0) d)"

definition try_acquire :: "timestamp \<Rightarrow> uuid \<Rightarrow> ('r, bool) act" where
  "try_acquire now bid = own_session (try_acquire_db now bid)"

definition release :: "timestamp \<Rightarrow> uuid \<Rightarrow> ('r, unit) act" where
  "release now bid = own_session (\<lambda>d. ((), release_db now bid d))"

text \<open>
  The polling loop of \<open>acquire\<close>. It ends when a slot is taken or the clock has reached the deadline;
  \<open>obs\<close> lists, for each turn, the clock reading after the failed attempt and what the other tasks
  do during the sleep. \<open>None\<close> is a loop that has not ended within the listed turns.
\<close>

fun acquire_loop ::
  "timestamp \<Rightarrow> uuid \<Rightarrow> rat \<Rightarrow> (rat \<times> ('r world \<Rightarrow> 'r world)) list \<Rightarrow> 'r world \<Rightarrow>
   ((exc + unit) \<times> 'r world) option" where
  "acquire_loop now bid deadline [] w = None"
| "acquire_loop now bid deadline ((clock, others) # obs) w =
     (case try_acquire now bid w of
        (Inr True, t) \<Rightarrow> Some (Inr (), t)
      | (_, t) \<Rightarrow>
          if clock \<ge> deadline then Some (Inl (QueueTimeout ''backend concurrency limit reached''), t)
          else acquire_loop now bid deadline obs (others t))"

text \<open>
  The same loop with the clock left out: \<open>others\<close> lists what happens in the sleeps before the
  deadline, so the attempt after the last of them is the final one.
\<close>

fun acquire :: "timestamp \<Rightarrow> uuid \<Rightarrow> ('r world \<Rightarrow> 'r world) list \<Rightarrow> ('r, unit) act" where
  "acquire now bid [] = bindE (try_acquire now bid) (\<lambda>ok.
     if ok then ret () else raise (QueueTimeout ''backend concurrency limit reached''))"
| "acquire now bid (g # gs) = bindE (try_acquire now bid) (\<lambda>ok.
     if ok then ret () else (\<lambda>w. acquire now bid gs (g w)))"

text \<open>\<open>BackendSlotManager.slot\<close>: the slot alone around a body. The proxy takes the one of the queue instead.\<close>

definition backend_slot :: "timestamp \<Rightarrow> uuid \<Rightarrow> ('r world \<Rightarrow> 'r world) list \<Rightarrow> ('r, 'a) act \<Rightarrow> ('r, 'a) act" where
  "backend_slot now bid others body = seqE (acquire now bid others) (finallyE body (release now bid))"

section \<open>The queue of the process\<close>

text \<open>
  \<open>QueueManager.slot\<close> around a body: the counter is raised under the lock, and both the slot and
  the counter are given back on every way out.
\<close>

definition leave_queue :: "('r, unit) act" where
  "leave_queue = (\<lambda>w. (let n = max 0 (w_pending w - 1) in
     (Inr (), w\<lparr>w_pending := n, w_metrics := w_metrics w @ [Gauge ''QUEUE_DEPTH'' [] n]\<rparr>)))"

definition enter_queue :: "settings \<Rightarrow> ('r, unit) act" where
  "enter_queue cfg = (\<lambda>w.
     if w_pending w \<ge> max_queue_size cfg then (Inl (QueueOverloaded ''generation queue is full''), w)
     else (let n = w_pending w + 1 in
       (Inr (), w\<lparr>w_pending := n, w_metrics := w_metrics w @ [Gauge ''QUEUE_DEPTH'' [] n]\<rparr>)))"

definition slot ::
  "settings \<Rightarrow> timestamp \<Rightarrow> uuid option \<Rightarrow> ('r world \<Rightarrow> 'r world) list \<Rightarrow> ('r, 'a) act \<Rightarrow> ('r, 'a) act" where
  "slot cfg now backend_id others body =
     seqE (enter_queue cfg)
       (finallyE
          (seqE (case backend_id of None \<Rightarrow> ret () | Some bid \<Rightarrow> acquire now bid others)
             (seqE (emit (Gauge ''ACTIVE_GENERATIONS'' [''inc''] 1))
                (finallyE body
                   (seqE (emit (Gauge ''ACTIVE_GENERATIONS'' [''dec''] (-1)))
                      (case backend_id of None \<Rightarrow> ret () | Some bid \<Rightarrow> release now bid)))))
          leave_queue)"

section \<open>Facts about the operations\<close>

lemma backends_set_running: "map b_id (backends (set_running now bid f d)) = map b_id (backends d)"
  by (simp add: set_running_def)

lemma try_acquire_db_False: "try_acquire_db now bid d = (False, d') \<Longrightarrow> d' = d"
  by (auto simp: try_acquire_db_def split: option.splits if_splits)

lemma try_acquire_db_True:
  "try_acquire_db now bid d = (True, d') \<longleftrightarrow>
     (\<exists>b. backend_of d bid = Some b \<and> b_is_active b \<and> b_current_running b < slot_limit b \<and>
          d' = set_running now bid (\<lambda>n. n + 1) d)"
  by (auto simp: try_acquire_db_def split: option.splits if_splits)

lemma slot_limit_ge_1: "1 \<le> slot_limit b"
  by (simp add: slot_limit_def)

lemma slot_limit_frame [simp]:
  "slot_limit (b\<lparr>b_current_running := n, b_updated_at := t\<rparr>) = slot_limit b"
  by (simp add: slot_limit_def)

text \<open>
  C3. The polling loop returns: it does so at the latest on the first turn whose clock reading has
  reached the deadline, with the outcome of the loop without the clock; so a timeout is reported
  only after an attempt that failed once the deadline had passed.
\<close>

theorem acquire_loop_returns:
  assumes "\<exists>(clock, _)\<in>set obs. clock \<ge> deadline"
  shows "acquire_loop now bid deadline obs w =
     Some (acquire now bid (map snd (takeWhile (\<lambda>(clock, _). clock < deadline) obs)) w)"
  using assms
proof (induction obs arbitrary: w)
  case Nil
  then show ?case by simp
next
  case (Cons ob obs)
  obtain clock others where ob: "ob = (clock, others)" by force
  show ?case
  proof (cases "clock \<ge> deadline")
    case True
    then show ?thesis
      by (auto simp: ob not_le eff_simps try_acquire_def split: bool.splits)
  next
    case False
    with Cons.prems ob have "\<exists>(clock, _)\<in>set obs. clock \<ge> deadline" by auto
    from Cons.IH [OF this] False show ?thesis
      by (auto simp: ob not_le eff_simps try_acquire_def split: bool.splits)
  qed
qed

theorem acquire_loop_returns_witness:
  "\<exists>t. acquire_loop 0 7 30 [(10, id), (31, id)]
     \<lparr>w_db = empty_db, w_saved = empty_db, w_redis = (), w_metrics = [],
      w_breaker = new_breaker (default_settings [] []), w_pending = 0, w_correlation_id = [],
      w_source_ip = []\<rparr> = Some (Inl (QueueTimeout ''backend concurrency limit reached''), t)"
  by (subst acquire_loop_returns)
     (simp_all add: eff_simps try_acquire_def try_acquire_db_def backend_of_def empty_db_def)

section \<open>Interleavings of tasks\<close>

text \<open>
  Any number of tasks, each bound to a backend, run through \<open>slot\<close>. A step is one task moving from
  one \<open>await\<close> to the next, by the operations above, or another transaction changing backend rows
  without touching identity, capacity and counter.
\<close>

datatype task_phase = Idle | Waiting | Holding | Leaving | Done

type_synonym task = "uuid \<times> task_phase"

definition backend_keys :: "db \<Rightarrow> (uuid \<times> int \<times> int) list" where
  "backend_keys d = map (\<lambda>b. (b_id b, b_current_running b, b_max_parallel_requests b)) (backends d)"

inductive qstep :: "settings \<Rightarrow> 'r world \<times> task list \<Rightarrow> 'r world \<times> task list \<Rightarrow> bool" for cfg where
  enter: "i < length ts \<Longrightarrow> ts ! i = (bid, Idle) \<Longrightarrow> enter_queue cfg w = (Inr (), w') \<Longrightarrow>
    qstep cfg (w, ts) (w', ts[i := (bid, Waiting)])"
| refuse: "i < length ts \<Longrightarrow> ts ! i = (bid, Idle) \<Longrightarrow> enter_queue cfg w = (Inl e, w') \<Longrightarrow>
    qstep cfg (w, ts) (w', ts[i := (bid, Done)])"
| acquired: "i < length ts \<Longrightarrow> ts ! i = (bid, Waiting) \<Longrightarrow> try_acquire now bid w = (Inr True, w') \<Longrightarrow>
    qstep cfg (w, ts) (w', ts[i := (bid, Holding)])"
| timeout: "i < length ts \<Longrightarrow> ts ! i = (bid, Waiting) \<Longrightarrow> try_acquire now bid w = (Inr False, w') \<Longrightarrow>
    qstep cfg (w, ts) (w', ts[i := (bid, Leaving)])"
| finish: "i < length ts \<Longrightarrow> ts ! i = (bid, Holding) \<Longrightarrow> release now bid w = (Inr (), w') \<Longrightarrow>
    qstep cfg (w, ts) (w', ts[i := (bid, Leaving)])"
| leave: "i < length ts \<Longrightarrow> ts ! i = (bid, Leaving) \<Longrightarrow> leave_queue w = (Inr (), w') \<Longrightarrow>
    qstep cfg (w, ts) (w', ts[i := (bid, Done)])"
| other: "w_pending w' = w_pending w \<Longrightarrow> backend_keys (w_saved w') = backend_keys (w_saved w) \<Longrightarrow>
    qstep cfg (w, ts) (w', ts)"

inductive qreach :: "settings \<Rightarrow> 'r world \<times> task list \<Rightarrow> bool" for cfg where
  start: "w_pending w = 0 \<Longrightarrow> distinct (map b_id (backends (w_saved w))) \<Longrightarrow>
    \<forall>b\<in>set (backends (w_saved w)). b_current_running b = 0 \<Longrightarrow>
    \<forall>t\<in>set ts. snd t = Idle \<Longrightarrow> qreach cfg (w, ts)"
| step: "qreach cfg s \<Longrightarrow> qstep cfg s s' \<Longrightarrow> qreach cfg s'"

definition inside :: "task \<Rightarrow> bool" where
  "inside t \<longleftrightarrow> snd t \<in> {Waiting, Holding, Leaving}"

definition holds :: "uuid \<Rightarrow> task \<Rightarrow> bool" where
  "holds bid t \<longleftrightarrow> t = (bid, Holding)"

definition tally :: "(task \<Rightarrow> bool) \<Rightarrow> task list \<Rightarrow> int" where
  "tally P ts = int (length (filter P ts))"

definition qinv :: "settings \<Rightarrow> 'r world \<times> task list \<Rightarrow> bool" where
  "qinv cfg s \<longleftrightarrow> (case s of (w, ts) \<Rightarrow>
     w_pending w = tally inside ts \<and> w_pending w \<le> max 0 (max_queue_size cfg) \<and>
     distinct (map b_id (backends (w_saved w))) \<and>
     (\<forall>b\<in>set (backends (w_saved w)).
        b_current_running b = tally (holds (b_id b)) ts \<and> b_current_running b \<le> slot_limit b))"

lemma tally_Cons [simp]: "tally P (t # ts) = (if P t then 1 else 0) + tally P ts"
  and tally_Nil [simp]: "tally P [] = 0"
  by (simp_all add: tally_def)

lemma tally_update:
  "i < length ts \<Longrightarrow> tally P (ts[i := t]) =
     tally P ts - (if P (ts ! i) then 1 else 0) + (if P t then 1 else 0)"
proof (induction ts arbitrary: i)
  case Nil
  then show ?case by simp
next
  case (Cons u ts)
  then show ?case by (cases i) simp_all
qed

lemma tally_nonneg [simp]: "0 \<le> tally P ts"
  by (simp add: tally_def)

lemma tally_pos:
  assumes "i < length ts" and "P (ts ! i)"
  shows "1 \<le> tally P ts"
proof -
  have "ts ! i \<in> set (filter P ts)" using assms by simp
  then have "filter P ts \<noteq> []" by (metis empty_iff empty_set)
  then show ?thesis by (cases "filter P ts") (simp_all add: tally_def)
qed

lemma tally_zero: "(\<And>t. t \<in> set ts \<Longrightarrow> \<not> P t) \<Longrightarrow> tally P ts = 0"
  by (induction ts) auto

lemma backend_keys_iff:
  assumes "backend_keys d' = backend_keys d"
  shows "map b_id (backends d') = map b_id (backends d)"
    and "b \<in> set (backends d') \<Longrightarrow> \<exists>c\<in>set (backends d). b_id c = b_id b \<and>
       b_current_running c = b_current_running b \<and> slot_limit c = slot_limit b"
proof -
  show "map b_id (backends d') = map b_id (backends d)"
    using arg_cong [OF assms, of "map fst"] by (simp add: backend_keys_def comp_def)
  assume "b \<in> set (backends d')"
  then have "(b_id b, b_current_running b, b_max_parallel_requests b) \<in> set (backend_keys d)"
    unfolding assms [symmetric] by (force simp: backend_keys_def)
  then show "\<exists>c\<in>set (backends d). b_id c = b_id b \<and>
       b_current_running c = b_current_running b \<and> slot_limit c = slot_limit b"
    by (auto simp: backend_keys_def slot_limit_def)
qed

lemma set_running_rows:
  assumes "b \<in> set (backends (set_running now bid f d))"
  shows "\<exists>c\<in>set (backends d). b_id b = b_id c \<and> slot_limit b = slot_limit c \<and>
     b_current_running b = (if b_id c = bid then f (b_current_running c) else b_current_running c)"
proof -
  obtain c where c: "c \<in> set (backends d)" and b: "b = (if b_id c = bid
      then c\<lparr>b_current_running := f (b_current_running c), b_updated_at := now\<rparr> else c)"
    using assms by (auto simp: set_running_def set_upd_where)
  show ?thesis by (rule bexI [OF _ c]) (simp add: b)
qed

lemma qinvI:
  assumes "w_pending w = tally inside ts" and "w_pending w \<le> max 0 (max_queue_size cfg)"
    and "distinct (map b_id (backends (w_saved w)))"
    and "\<And>b. b \<in> set (backends (w_saved w)) \<Longrightarrow>
      b_current_running b = tally (holds (b_id b)) ts \<and> b_current_running b \<le> slot_limit b"
  shows "qinv cfg (w, ts)"
  unfolding qinv_def using assms(1-3) assms(4) by blast

lemma qinvD:
  assumes "qinv cfg (w, ts)"
  shows "w_pending w = tally inside ts" and "w_pending w \<le> max 0 (max_queue_size cfg)"
    and "distinct (map b_id (backends (w_saved w)))"
    and "b \<in> set (backends (w_saved w)) \<Longrightarrow> b_current_running b = tally (holds (b_id b)) ts"
    and "b \<in> set (backends (w_saved w)) \<Longrightarrow> tally (holds (b_id b)) ts \<le> slot_limit b"
  using assms by (auto simp: qinv_def)

text \<open>A step of the process counter only: the rows and the holders stay as they are.\<close>

lemma qinv_counter:
  assumes "qinv cfg (w, ts)" and "i < length ts" and "ts ! i = (bid, p)"
    and "w_saved w' = w_saved w" and "p \<noteq> Holding" and "p' \<noteq> Holding"
    and "w_pending w' = tally inside (ts[i := (bid, p')])"
    and "w_pending w' \<le> max 0 (max_queue_size cfg)"
  shows "qinv cfg (w', ts[i := (bid, p')])"
  using assms qinvD [OF assms(1)]
  by (intro qinvI) (simp_all add: tally_update holds_def)

lemmas queue_defs = enter_queue_def leave_queue_def try_acquire_def release_def own_session_def Let_def

lemma qinv_acquired:
  assumes inv: "qinv cfg (w, ts)" and i: "i < length ts" "ts ! i = (bid, Waiting)"
    and acq: "try_acquire now bid w = (Inr True, w')"
  shows "qinv cfg (w', ts[i := (bid, Holding)])"
proof -
  note D = qinvD [OF inv]
  let ?d = "w_saved w"
  obtain d' where d': "try_acquire_db now bid ?d = (True, d')" and w': "w_saved w' = d'" "w_pending w' = w_pending w"
    using acq by (cases "try_acquire_db now bid ?d") (auto simp: queue_defs)
  then obtain c where c: "backend_of ?d bid = Some c" "b_current_running c < slot_limit c"
    and d'_eq: "d' = set_running now bid (\<lambda>n. n + 1) ?d" by (auto simp: try_acquire_db_True)
  have c_row: "c \<in> set (backends ?d)" "b_id c = bid"
    using find_Some_set [OF c(1) [unfolded backend_of_def]] by auto
  show ?thesis
  proof (rule qinvI)
    show "w_pending w' = tally inside (ts[i := (bid, Holding)])"
      using D(1) i w' by (simp add: tally_update inside_def)
    show "w_pending w' \<le> max 0 (max_queue_size cfg)" using D(2) w' by simp
    show "distinct (map b_id (backends (w_saved w')))"
      using D(3) by (simp add: w' d'_eq backends_set_running)
    fix b assume "b \<in> set (backends (w_saved w'))"
    then obtain b0 where b0: "b0 \<in> set (backends ?d)" "b_id b = b_id b0" "slot_limit b = slot_limit b0"
      "b_current_running b = (if b_id b0 = bid then b_current_running b0 + 1 else b_current_running b0)"
      unfolding w' d'_eq using set_running_rows by blast
    have "b_id b0 = bid \<Longrightarrow> b0 = c" using distinct_key_inj [OF D(3) b0(1) c_row(1)] c_row(2) by simp
    then show "b_current_running b = tally (holds (b_id b)) (ts[i := (bid, Holding)]) \<and>
        b_current_running b \<le> slot_limit b"
      using b0 D(4) [OF b0(1)] D(5) [OF b0(1)] i c(2) by (auto simp: tally_update holds_def)
  qed
qed

lemma qinv_finish:
  assumes inv: "qinv cfg (w, ts)" and i: "i < length ts" "ts ! i = (bid, Holding)"
    and rel: "release now bid w = (Inr (), w')"
  shows "qinv cfg (w', ts[i := (bid, Leaving)])"
proof -
  note D = qinvD [OF inv]
  let ?d = "w_saved w"
  have w': "w_saved w' = release_db now bid ?d" "w_pending w' = w_pending w"
    using rel by (auto simp: queue_defs)
  have keys: "map b_id (backends (release_db now bid ?d)) = map b_id (backends ?d)"
    by (simp add: release_db_def backends_set_running split: option.split)
  have rows: "\<exists>b0\<in>set (backends ?d). b_id b = b_id b0 \<and> slot_limit b = slot_limit b0 \<and>
      b_current_running b = (if b_id b0 = bid then max (b_current_running b0 - 1) 0 else b_current_running b0)"
    if b: "b \<in> set (backends (release_db now bid ?d))" for b
  proof (cases "backend_of ?d bid")
    case None
    then have "b \<in> set (backends ?d)" using b by (simp add: release_db_def)
    moreover from this None have "b_id b \<noteq> bid" by (auto simp: backend_of_def find_None_set)
    ultimately show ?thesis by auto
  next
    case (Some c)
    with b have "b \<in> set (backends (set_running now bid (\<lambda>n. max (n - 1) 0) ?d))"
      by (simp add: release_db_def)
    then show ?thesis by (rule set_running_rows)
  qed
  show ?thesis
  proof (rule qinvI)
    show "w_pending w' = tally inside (ts[i := (bid, Leaving)])"
      using D(1) i w' by (simp add: tally_update inside_def)
    show "w_pending w' \<le> max 0 (max_queue_size cfg)" using D(2) w' by simp
    show "distinct (map b_id (backends (w_saved w')))" using D(3) by (simp add: w' keys)
    fix b assume "b \<in> set (backends (w_saved w'))"
    then obtain b0 where b0: "b0 \<in> set (backends ?d)" "b_id b = b_id b0" "slot_limit b = slot_limit b0"
      "b_current_running b = (if b_id b0 = bid then max (b_current_running b0 - 1) 0 else b_current_running b0)"
      using rows by (auto simp: w')
    have "1 \<le> tally (holds bid) ts" using i by (intro tally_pos) (simp_all add: holds_def)
    then show "b_current_running b = tally (holds (b_id b)) (ts[i := (bid, Leaving)]) \<and>
        b_current_running b \<le> slot_limit b"
      using b0 D(4) [OF b0(1)] D(5) [OF b0(1)] i by (auto simp: tally_update holds_def)
  qed
qed

lemma qstep_qinv:
  assumes "qstep cfg s s'" and "qinv cfg s"
  shows "qinv cfg s'"
  using assms
proof (induction rule: qstep.induct)
  case (enter i ts bid w w')
  note D = qinvD [OF enter.prems]
  have "w_saved w' = w_saved w" "w_pending w' = w_pending w + 1" "w_pending w < max_queue_size cfg"
    using enter.hyps(3) by (auto simp: queue_defs split: if_splits)
  then show ?case
    using enter D(1) by (intro qinv_counter [OF enter.prems enter.hyps(1,2)]) (simp_all add: tally_update inside_def)
next
  case (refuse i ts bid w e w')
  note D = qinvD [OF refuse.prems]
  have "w' = w" using refuse.hyps(3) by (auto simp: queue_defs split: if_splits)
  then show ?case
    using refuse D(1,2) by (intro qinv_counter [OF refuse.prems refuse.hyps(1,2)]) (simp_all add: tally_update inside_def)
next
  case (acquired i ts bid now w w')
  then show ?case by (intro qinv_acquired)
next
  case (timeout i ts bid now w w')
  note D = qinvD [OF timeout.prems]
  have "w_saved w' = w_saved w" "w_pending w' = w_pending w"
    using timeout.hyps(3) try_acquire_db_False [of now bid "w_saved w"]
    by (cases "try_acquire_db now bid (w_saved w)"; auto simp: queue_defs)+
  then show ?case
    using timeout D(1,2) by (intro qinv_counter [OF timeout.prems timeout.hyps(1,2)]) (simp_all add: tally_update inside_def)
next
  case (finish i ts bid now w w')
  then show ?case by (intro qinv_finish)
next
  case (leave i ts bid w w')
  note D = qinvD [OF leave.prems]
  have "1 \<le> tally inside ts" by (rule tally_pos [OF leave.hyps(1)]) (simp add: leave.hyps(2) inside_def)
  moreover have "w_saved w' = w_saved w" "w_pending w' = max 0 (w_pending w - 1)"
    using leave.hyps(3) by (auto simp: queue_defs)
  ultimately show ?case
    using leave D(1,2) by (intro qinv_counter [OF leave.prems leave.hyps(1,2)]) (simp_all add: tally_update inside_def)
next
  case (other w' w ts)
  note D = qinvD [OF other.prems]
  show ?case
  proof (rule qinvI)
    show "distinct (map b_id (backends (w_saved w')))"
      using D(3) backend_keys_iff(1) [OF other.hyps(2)] by simp
    fix b assume "b \<in> set (backends (w_saved w'))"
    from backend_keys_iff(2) [OF other.hyps(2) this]
    show "b_current_running b = tally (holds (b_id b)) ts \<and> b_current_running b \<le> slot_limit b"
      using D(4,5) by fastforce
  qed (use other D(1,2) in simp_all)
qed

lemma qreach_qinv: "qreach cfg s \<Longrightarrow> qinv cfg s"
proof (induction rule: qreach.induct)
  case (start w ts)
  have "tally inside ts = 0" "tally (holds bid) ts = 0" for bid
    using start(4) by (auto intro!: tally_zero simp: inside_def holds_def)
  then show ?case
    using start slot_limit_ge_1 by (intro qinvI) (auto simp: order_trans [OF zero_le_one])
next
  case (step s s')
  then show ?case by (blast intro: qstep_qinv)
qed

text \<open>
  C4. Bounded concurrency: in every reachable interleaving the number of tasks that hold a slot of
  a backend is exactly the counter in its row and never exceeds the backend's limit, and the number
  of tasks between entering and leaving the queue is the process counter, within the queue size.
\<close>

theorem slots_bounded:
  assumes "qreach cfg (w, ts)" and "b \<in> set (backends (w_saved w))"
  shows "tally (holds (b_id b)) ts = b_current_running b \<and>
    tally (holds (b_id b)) ts \<le> max 1 (b_max_parallel_requests b) \<and>
    w_pending w = tally inside ts \<and> tally inside ts \<le> max 0 (max_queue_size cfg)"
proof -
  note D = qinvD [OF qreach_qinv [OF assms(1)]]
  have "slot_limit b \<le> max 1 (b_max_parallel_requests b)" by (simp add: slot_limit_def)
  then show ?thesis using D(1,2) D(4) [OF assms(2)] D(5) [OF assms(2)] by simp
qed

text \<open>A backend row for examples.\<close>

definition example_backend :: backend where
  "example_backend = \<lparr>b_id = 7, b_name = ''local'', b_provider = ''llama_cpp'', b_backend_url = ''http://d'',
     b_healthcheck_path = ''/health'', b_is_active = True, b_is_default = True, b_status = ''available'',
     b_max_parallel_requests = 1, b_current_running = 0, b_metadata_json = None, b_created_at = 0,
     b_updated_at = 0\<rparr>"

definition example_world :: "db \<Rightarrow> unit world" where
  "example_world d = \<lparr>w_db = d, w_saved = d, w_redis = (), w_metrics = [],
     w_breaker = new_breaker (default_settings [] []), w_pending = 0, w_correlation_id = [],
     w_source_ip = []\<rparr>"

lemmas example_defs = example_backend_def example_world_def empty_db_def default_settings_def

lemma example_entered:
  "qreach (default_settings [] [])
     ((example_world (empty_db\<lparr>backends := [example_backend]\<rparr>))
        \<lparr>w_pending := 1, w_metrics := [Gauge ''QUEUE_DEPTH'' [] 1]\<rparr>,
      [(7, Waiting), (7, Idle)])"
  (is "qreach ?cfg (?w1, _)")
proof -
  let ?w0 = "example_world (empty_db\<lparr>backends := [example_backend]\<rparr>)"
  have "qreach ?cfg (?w0, [(7, Idle), (7, Idle)])"
    by (rule qreach.start) (simp_all add: example_defs)
  moreover have "qstep ?cfg (?w0, [(7, Idle), (7, Idle)]) (?w1, [(7, Idle), (7, Idle)][0 := (7, Waiting)])"
    by (rule qstep.enter) (simp_all add: example_defs enter_queue_def)
  ultimately show ?thesis using qreach.step by fastforce
qed

theorem slots_bounded_witness:
  "tally inside [(7, Waiting), (7, Idle)] \<le> max 0 (max_queue_size (default_settings [] []))"
  using slots_bounded [OF example_entered, of example_backend] by (simp add: example_defs)

text \<open>
  No slot is left over once no task is between entering and leaving the queue. And every task that is
  not done has a step of its own in every state, with what is left for it to do getting less.
\<close>

lemma qinv_empty:
  assumes "qinv cfg (w, ts)" and "\<forall>t\<in>set ts. \<not> inside t"
  shows "w_pending w = 0 \<and> (\<forall>b\<in>set (backends (w_saved w)). b_current_running b = 0)"
proof -
  note D = qinvD [OF assms(1)]
  have "\<not> holds bid t" if "t \<in> set ts" for bid t
    using assms(2) that by (auto simp: holds_def inside_def)
  then have "tally (holds bid) ts = 0" for bid by (intro tally_zero)
  moreover have "tally inside ts = 0" using assms(2) by (intro tally_zero) simp
  ultimately show ?thesis using D(1) D(4) by simp
qed

lemma qreach_steps: "(qstep cfg)\<^sup>*\<^sup>* s s' \<Longrightarrow> qreach cfg s \<Longrightarrow> qreach cfg s'"
  by (induction rule: rtranclp_induct) (auto intro: qreach.step)

fun steps_left :: "task_phase \<Rightarrow> nat" where
  "steps_left Idle = 4"
| "steps_left Waiting = 3"
| "steps_left Holding = 2"
| "steps_left Leaving = 1"
| "steps_left Done = 0"

definition work_left :: "task list \<Rightarrow> nat" where
  "work_left ts = (\<Sum>t\<leftarrow>ts. steps_left (snd t))"

lemma work_left_update:
  "i < length ts \<Longrightarrow> work_left (ts[i := t]) + steps_left (snd (ts ! i)) = work_left ts + steps_left (snd t)"
proof (induction ts arbitrary: i)
  case Nil
  then show ?case by simp
next
  case (Cons u ts)
  then show ?case by (cases i) (auto simp: work_left_def)
qed

lemma task_has_step:
  fixes w :: "'r world"
  assumes i: "i < length ts" "ts ! i = (bid, p)" and p: "p \<noteq> Done"
  shows "\<exists>w' q. qstep cfg (w, ts) (w', ts[i := (bid, q)]) \<and> steps_left q < steps_left p"
proof (cases p)
  case Idle
  obtain r w' where "enter_queue cfg w = (r, w')" by force
  then show ?thesis
    using qstep.enter [OF i(1), of bid cfg w w'] qstep.refuse [OF i(1), of bid cfg w _ w'] i(2) Idle
    by (cases r) fastforce+
next
  case Waiting
  obtain ok w' where "try_acquire 0 bid w = (Inr ok, w')"
    by (cases "try_acquire_db 0 bid (w_saved w)") (auto simp: queue_defs)
  then show ?thesis
    using qstep.acquired [OF i(1), of bid 0 w w' cfg] qstep.timeout [OF i(1), of bid 0 w w' cfg] i(2) Waiting
    by (cases ok) fastforce+
next
  case Holding
  obtain w' where "release 0 bid w = (Inr (), w')" by (simp add: queue_defs)
  then show ?thesis using qstep.finish [OF i(1), of bid 0 w w' cfg] i(2) Holding by fastforce
next
  case Leaving
  obtain w' where "leave_queue w = (Inr (), w')" by (simp add: queue_defs)
  then show ?thesis using qstep.leave [OF i(1), of bid w w' cfg] i(2) Leaving by fastforce
qed (use p in simp)

lemma tasks_can_finish:
  "\<exists>w'. (qstep cfg)\<^sup>*\<^sup>* (w, ts) (w', map (\<lambda>t. (fst t, Done)) ts)"
proof (induction ts arbitrary: w rule: measure_induct_rule [where f = work_left])
  case (less ts)
  show ?case
  proof (cases "\<exists>i < length ts. snd (ts ! i) \<noteq> Done")
    case True
    then obtain i bid p where i: "i < length ts" "ts ! i = (bid, p)" "p \<noteq> Done" by (metis prod.collapse)
    from task_has_step [OF this, of cfg w] obtain w' q
      where q: "qstep cfg (w, ts) (w', ts[i := (bid, q)])" "steps_left q < steps_left p" by blast
    have "work_left (ts[i := (bid, q)]) < work_left ts"
      using work_left_update [OF i(1), of "(bid, q)"] i(2) q(2) by simp
    from less.IH [OF this, of w'] obtain v
      where "(qstep cfg)\<^sup>*\<^sup>* (w', ts[i := (bid, q)]) (v, map (\<lambda>t. (fst t, Done)) (ts[i := (bid, q)]))" by blast
    moreover have "map (\<lambda>t. (fst t, Done)) (ts[i := (bid, q)]) = map (\<lambda>t. (fst t, Done)) ts"
      using i by (simp add: map_update list_update_same_conv)
    ultimately show ?thesis using q(1) by (metis converse_rtranclp_into_rtranclp)
  next
    case False
    then have "map (\<lambda>t. (fst t, Done)) ts = ts"
      by (intro map_idI) (metis in_set_conv_nth prod.collapse)
    then show ?thesis by (metis rtranclp.rtrancl_refl)
  qed
qed

text \<open>
  C5. Every slot is given back. In every reachable interleaving a task that is not done can take its
  next step, whatever the others do; the whole run can be completed, each task having left; and in
  every later state in which no task is inside, whatever the outcomes and their order, the queue
  counter is back to zero and no backend counts a running request.
\<close>

theorem slots_all_returned:
  assumes "qreach cfg (w, ts)"
  shows "(\<forall>i < length ts. snd (ts ! i) \<noteq> Done \<longrightarrow>
           (\<exists>w' p. qstep cfg (w, ts) (w', ts[i := (fst (ts ! i), p)]) \<and>
                   steps_left p < steps_left (snd (ts ! i)))) \<and>
         (\<exists>w'. (qstep cfg)\<^sup>*\<^sup>* (w, ts) (w', map (\<lambda>t. (fst t, Done)) ts) \<and>
               w_pending w' = 0 \<and> (\<forall>b\<in>set (backends (w_saved w')). b_current_running b = 0)) \<and>
         (\<forall>w' ts'. (qstep cfg)\<^sup>*\<^sup>* (w, ts) (w', ts') \<longrightarrow> (\<forall>t\<in>set ts'. \<not> inside t) \<longrightarrow>
               w_pending w' = 0 \<and> (\<forall>b\<in>set (backends (w_saved w')). b_current_running b = 0))"
proof -
  have empty: "w_pending w' = 0 \<and> (\<forall>b\<in>set (backends (w_saved w')). b_current_running b = 0)"
    if "(qstep cfg)\<^sup>*\<^sup>* (w, ts) (w', ts')" "\<forall>t\<in>set ts'. \<not> inside t" for w' ts'
    using qinv_empty [OF qreach_qinv [OF qreach_steps [OF that(1) assms]] that(2)] .
  obtain w' where w': "(qstep cfg)\<^sup>*\<^sup>* (w, ts) (w', map (\<lambda>t. (fst t, Done)) ts)"
    using tasks_can_finish by blast
  have "\<forall>t\<in>set (map (\<lambda>t. (fst t, Done)) ts). \<not> inside t" by (auto simp: inside_def)
  note finished = empty [OF w' this]
  show ?thesis
  proof (intro conjI allI impI)
    show "\<exists>v p. qstep cfg (w, ts) (v, ts[i := (fst (ts ! i), p)]) \<and> steps_left p < steps_left (snd (ts ! i))"
      if "i < length ts" "snd (ts ! i) \<noteq> Done" for i
      by (rule task_has_step [OF that(1) prod.collapse [symmetric] that(2)])
  qed (use w' finished empty in blast)+
qed

theorem slots_all_returned_witness:
  "\<exists>w :: unit world. (qstep (default_settings [] []))\<^sup>*\<^sup>*
     ((example_world (empty_db\<lparr>backends := [example_backend]\<rparr>))
        \<lparr>w_pending := 1, w_metrics := [Gauge ''QUEUE_DEPTH'' [] 1]\<rparr>, [(7, Waiting), (7, Idle)])
     (w, [(7, Done), (7, Done)]) \<and> w_pending w = 0"
  using slots_all_returned [OF example_entered] by auto

end
