(* ===== verification/RateLimit.thy ===== *)
theory RateLimit
  imports World
begin

text \<open>
  The Redis server as an interface, and the per-minute request limits kept in it
  (\<open>services/rate_limit.py\<close>). The commands are a record of functions; the locale states what their
  documentation promises in terms of the entries the server holds, and the store at the end of the
  section shows that the promises can be met together.
\<close>

section \<open>Redis\<close>

text \<open>Each command takes the server's clock, in microseconds.\<close>

record 'r redis_ops =
  rd_incr :: "timestamp \<Rightarrow> string \<Rightarrow> 'r \<Rightarrow> int \<times> 'r"
  rd_expire :: "timestamp \<Rightarrow> string \<Rightarrow> int \<Rightarrow> 'r \<Rightarrow> unit \<times> 'r"
  rd_set_nx :: "timestamp \<Rightarrow> string \<Rightarrow> int \<Rightarrow> 'r \<Rightarrow> bool \<times> 'r"
  rd_rpush :: "string \<Rightarrow> string \<Rightarrow> 'r \<Rightarrow> int \<times> 'r"
  rd_llen :: "string \<Rightarrow> 'r \<Rightarrow> int \<times> 'r"
  rd_lpop :: "string \<Rightarrow> 'r \<Rightarrow> string option \<times> 'r"

type_synonym entry = "int \<times> timestamp option"

text \<open>The entry a command sees: an entry is gone once its expiry has been reached.\<close>

definition live :: "timestamp \<Rightarrow> entry option \<Rightarrow> entry option" where
  "live now x = (case x of Some (n, Some e) \<Rightarrow> if e \<le> now then None else x | _ \<Rightarrow> x)"

definition counter_value :: "entry option \<Rightarrow> int" where
  "counter_value x = (case x of None \<Rightarrow> 0 | Some (n, _) \<Rightarrow> n)"

definition counter_expiry :: "entry option \<Rightarrow> timestamp option" where
  "counter_expiry x = (case x of None \<Rightarrow> None | Some (_, e) \<Rightarrow> e)"

definition seconds :: "int \<Rightarrow> timestamp" where
  "seconds n = n * 1000000"

locale redis_server =
  fixes ops :: "'r redis_ops"
    and entries :: "'r \<Rightarrow> string \<Rightarrow> entry option"
    and queues :: "'r \<Rightarrow> string \<Rightarrow> string list"
  assumes incr_result: "fst (rd_incr ops now k r) = counter_value (live now (entries r k)) + 1"
    and incr_entries: "entries (snd (rd_incr ops now k r)) = (entries r)
      (k := Some (counter_value (live now (entries r k)) + 1, counter_expiry (live now (entries r k))))"
    and incr_queues: "queues (snd (rd_incr ops now k r)) = queues r"
    and expire_entries: "entries (snd (rd_expire ops now k s r)) = (entries r)
      (k := map_option (\<lambda>(n, _). (n, Some (now + seconds s))) (live now (entries r k)))"
    and expire_queues: "queues (snd (rd_expire ops now k s r)) = queues r"
    and set_nx_result: "fst (rd_set_nx ops now k s r) = (live now (entries r k) = None)"
    and set_nx_entries: "entries (snd (rd_set_nx ops now k s r)) =
      (if live now (entries r k) = None then (entries r)(k := Some (1, Some (now + seconds s))) else entries r)"
    and set_nx_queues: "queues (snd (rd_set_nx ops now k s r)) = queues r"
    and rpush: "rd_rpush ops k v r = (n, r') \<Longrightarrow>
      queues r' = (queues r)(k := queues r k @ [v]) \<and> n = int (length (queues r k)) + 1 \<and> entries r' = entries r"
    and llen: "rd_llen ops k r = (int (length (queues r k)), r)"
    and lpop: "rd_lpop ops k r = (x, r') \<Longrightarrow> entries r' = entries r \<and>
      (case queues r k of [] \<Rightarrow> x = None \<and> queues r' = queues r
       | v # vs \<Rightarrow> x = Some v \<and> queues r' = (queues r)(k := vs))"
begin

text \<open>The window counter all clients of the server use: count, and set the expiry on the first hit.\<close>

definition hit :: "timestamp \<Rightarrow> string \<Rightarrow> int \<Rightarrow> 'r \<Rightarrow> int \<times> 'r" where
  "hit now k s r = (case rd_incr ops now k r of (n, r') \<Rightarrow>
     if n = 1 then (n, snd (rd_expire ops now k s r')) else (n, r'))"

lemma hit_absent:
  assumes "live now (entries r k) = None" and "0 < s"
  shows "fst (hit now k s r) = 1 \<and> entries (snd (hit now k s r)) = (entries r)(k := Some (1, Some (now + seconds s)))"
proof -
  obtain n r' where i: "rd_incr ops now k r = (n, r')" by force
  have "n = 1" "entries r' = (entries r)(k := Some (1, None))"
    using incr_result [of now k r] incr_entries [of now k r] assms(1) i
    by (simp_all add: counter_value_def counter_expiry_def)
  then show ?thesis
    using expire_entries [of now k s r'] by (simp add: hit_def i live_def)
qed

lemma hit_present:
  assumes "live now (entries r k) = Some (n, e)" and "0 < n"
  shows "fst (hit now k s r) = n + 1 \<and> entries (snd (hit now k s r)) = (entries r)(k := Some (n + 1, e))"
proof -
  obtain m r' where i: "rd_incr ops now k r = (m, r')" by force
  have "m = n + 1" "entries r' = (entries r)(k := Some (n + 1, e))"
    using incr_result [of now k r] incr_entries [of now k r] assms(1) i
    by (simp_all add: counter_value_def counter_expiry_def)
  with assms(2) show ?thesis by (simp add: hit_def i)
qed

lemma hit_queues: "queues (snd (hit now k s r)) = queues r"
proof (cases "rd_incr ops now k r")
  case (Pair n r')
  have "queues r' = queues r" using incr_queues [of now k r] by (simp add: Pair)
  moreover have "queues (snd (rd_expire ops now k s r')) = queues r'" by (rule expire_queues)
  ultimately show ?thesis by (simp add: hit_def Pair)
qed

end

text \<open>A store that keeps the promises.\<close>

record store =
  st_entries :: "string \<Rightarrow> entry option"
  st_queues :: "string \<Rightarrow> string list"

definition empty_store :: store where
  "empty_store = \<lparr>st_entries = (\<lambda>_. None), st_queues = (\<lambda>_. [])\<rparr>"

definition store_ops :: "store redis_ops" where
  "store_ops = \<lparr>
     rd_incr = (\<lambda>now k r. let x = live now (st_entries r k); n = counter_value x + 1 in
       (n, r\<lparr>st_entries := (st_entries r)(k := Some (n, counter_expiry x))\<rparr>)),
     rd_expire = (\<lambda>now k s r. ((), r\<lparr>st_entries := (st_entries r)
       (k := map_option (\<lambda>(n, _). (n, Some (now + seconds s))) (live now (st_entries r k)))\<rparr>)),
     rd_set_nx = (\<lambda>now k s r. case live now (st_entries r k) of
         None \<Rightarrow> (True, r\<lparr>st_entries := (st_entries r)(k := Some (1, Some (now + seconds s)))\<rparr>)
       | Some _ \<Rightarrow> (False, r)),
     rd_rpush = (\<lambda>k v r. (int (length (st_queues r k)) + 1,
       r\<lparr>st_queues := (st_queues r)(k := st_queues r k @ [v])\<rparr>)),
     rd_llen = (\<lambda>k r. (int (length (st_queues r k)), r)),
     rd_lpop = (\<lambda>k r. case st_queues r k of [] \<Rightarrow> (None, r)
       | v # vs \<Rightarrow> (Some v, r\<lparr>st_queues := (st_queues r)(k := vs)\<rparr>))\<rparr>"

interpretation kv: redis_server store_ops st_entries st_queues
  by unfold_locales (auto simp: store_ops_def Let_def split: option.splits list.splits)

section \<open>The limits\<close>

definition minute_of :: "timestamp \<Rightarrow> int" where
  "minute_of now = now div 60000000"

definition client_rate_key :: "uuid \<Rightarrow> int \<Rightarrow> string" where
  "client_rate_key client_id minute = ''ratelimit:client:'' @ uuid_str client_id @ '':'' @ str_int minute"

definition enforce_rate_limit :: "'r redis_ops \<Rightarrow> timestamp \<Rightarrow> uuid \<Rightarrow> int \<Rightarrow> ('r, unit) act" where
  "enforce_rate_limit ops now client_id limit_per_minute =
     (let key = client_rate_key client_id (minute_of now) in
      bindE (redis_call (rd_incr ops now key)) (\<lambda>current.
      seqE (if current = 1 then redis_call (rd_expire ops now key 65) else ret ())
        (if current > limit_per_minute
         then raise (RateLimitExceeded (''client exceeded '' @ str_int limit_per_minute @ '' requests per minute''))
         else ret ())))"

definition enforce_ip_rate_limit :: "'r redis_ops \<Rightarrow> timestamp \<Rightarrow> string \<Rightarrow> int \<Rightarrow> ('r, unit) act" where
  "enforce_ip_rate_limit ops now source_ip limit_per_minute =
     (let key = ''ratelimit:ip:'' @ source_ip @ '':'' @ str_int (minute_of now) in
      bindE (redis_call (rd_incr ops now key)) (\<lambda>current.
      seqE (if current = 1 then redis_call (rd_expire ops now key 65) else ret ())
        (if current > limit_per_minute
         then raise (RateLimitExceeded (''IP address '' @ source_ip @ '' exceeded '' @
           str_int limit_per_minute @ '' requests per minute''))
         else ret ())))"

section \<open>Distinct windows have distinct keys\<close>

lemma hex_char_inject: "a < 16 \<Longrightarrow> b < 16 \<Longrightarrow> hex_char a = hex_char b \<Longrightarrow> a = b"
proof -
  assume ab: "a < 16" "b < 16" "hex_char a = hex_char b"
  have c: "(of_char (hex_char d) :: nat) = (if d < 10 then 48 + d else 87 + d)" if "d < 16" for d
    using that by (simp add: hex_char_def take_bit_eq_mod)
  have "(of_char (hex_char a) :: nat) = of_char (hex_char b)" using ab(3) by simp
  then show "a = b" using ab(1,2) by (simp add: c split: if_splits)
qed

lemma length_hex_digits [simp]: "length (hex_digits k n) = k"
  by (induction k arbitrary: n) auto

lemma mod_split: "(m::nat) mod (b * c) = n mod (b * c) \<longleftrightarrow> m div b mod c = n div b mod c \<and> m mod b = n mod b"
proof
  assume eq: "m mod (b * c) = n mod (b * c)"
  have "x mod (b * c) mod b = x mod b" "b \<noteq> 0 \<Longrightarrow> x mod (b * c) div b = x div b mod c" for x :: nat
    by (simp_all add: mod_mult2_eq)
  then show "m div b mod c = n div b mod c \<and> m mod b = n mod b"
    using eq by (cases "b = 0") (simp, metis)
qed (simp add: mod_mult2_eq)

lemma hex_digits_inject: "hex_digits k m = hex_digits k n \<longleftrightarrow> m mod 16 ^ k = n mod 16 ^ k"
proof (induction k arbitrary: m n)
  case 0
  then show ?case by simp
next
  case (Suc k)
  have "hex_char (m mod 16) = hex_char (n mod 16) \<longleftrightarrow> m mod 16 = n mod 16"
    using hex_char_inject [of "m mod 16" "n mod 16"] by auto
  then have "hex_digits (Suc k) m = hex_digits (Suc k) n \<longleftrightarrow>
      m div 16 mod 16 ^ k = n div 16 mod 16 ^ k \<and> m mod 16 = n mod 16"
    using Suc.IH by simp
  also have "\<dots> \<longleftrightarrow> m mod (16 * 16 ^ k) = n mod (16 * 16 ^ k)"
    by (simp only: mod_split)
  finally show ?case by simp
qed

lemma uuid_str_inject:
  assumes "m < 16 ^ 32" and "n < 16 ^ 32"
  shows "uuid_str m = uuid_str n \<longleftrightarrow> m = n"
proof
  assume "uuid_str m = uuid_str n"
  then have *: "m div 16 ^ 24 mod 16 ^ 8 = n div 16 ^ 24 mod 16 ^ 8 \<and> m div 16 ^ 20 mod 16 ^ 4 = n div 16 ^ 20 mod 16 ^ 4 \<and>
     m div 16 ^ 16 mod 16 ^ 4 = n div 16 ^ 16 mod 16 ^ 4 \<and> m div 16 ^ 12 mod 16 ^ 4 = n div 16 ^ 12 mod 16 ^ 4 \<and>
     m mod 16 ^ 12 = n mod 16 ^ 12"
    unfolding uuid_str_def hex_digits_inject [symmetric] by simp
  have "m mod (16 ^ 12 * 16 ^ 4) = n mod (16 ^ 12 * 16 ^ 4)" using * by (simp only: mod_split)
  then have "m mod 16 ^ 16 = n mod 16 ^ 16" by simp
  with * have "m mod (16 ^ 16 * 16 ^ 4) = n mod (16 ^ 16 * 16 ^ 4)" by (simp only: mod_split)
  then have "m mod 16 ^ 20 = n mod 16 ^ 20" by simp
  with * have "m mod (16 ^ 20 * 16 ^ 4) = n mod (16 ^ 20 * 16 ^ 4)" by (simp only: mod_split)
  then have "m mod 16 ^ 24 = n mod 16 ^ 24" by simp
  with * have "m mod (16 ^ 24 * 16 ^ 8) = n mod (16 ^ 24 * 16 ^ 8)" by (simp only: mod_split)
  then show "m = n" using assms by simp
qed simp

lemma length_uuid_str [simp]: "length (uuid_str u) = 36"
  by (simp add: uuid_str_def)

lemma hd_str_nat: "hd (str_nat n) \<noteq> CHR ''-''"
proof -
  have "hd (str_nat n) \<in> set (str_nat n)" by simp
  then have "is_digit (hd (str_nat n))" using str_nat_digits by blast
  then show ?thesis by (auto simp: is_digit_def py_ord_def)
qed

lemma str_int_inject [simp]: "str_int a = str_int b \<longleftrightarrow> a = b"
proof
  assume eq: "str_int a = str_int b"
  show "a = b"
  proof (cases "a < 0 \<longleftrightarrow> b < 0")
    case True
    then show ?thesis using eq by (auto simp: str_int_def split: if_splits)
  next
    case False
    then show ?thesis using eq hd_str_nat
      by (metis list.sel(1) str_int_def)
  qed
qed simp

lemma client_rate_key_inject:
  assumes "c < 16 ^ 32" and "d < 16 ^ 32"
  shows "client_rate_key c m = client_rate_key d n \<longleftrightarrow> c = d \<and> m = n"
  using uuid_str_inject [OF assms] by (simp add: client_rate_key_def)

section \<open>Windows\<close>

text \<open>
  A run of requests, each with its time, client and limit, in the order the server counts them, and
  which of them pass. The clients' other traffic is part of the list.
\<close>

type_synonym limited_request = "timestamp \<times> uuid \<times> int"

fun rate_run :: "'r redis_ops \<Rightarrow> limited_request list \<Rightarrow> 'r world \<Rightarrow> bool list" where
  "rate_run ops [] w = []"
| "rate_run ops ((now, client_id, limit) # reqs) w =
     (case enforce_rate_limit ops now client_id limit w of
        (result, w') \<Rightarrow> (\<not> isl result) # rate_run ops reqs w')"

text \<open>How many requests of the list fall into the window of a request.\<close>

definition window_count :: "limited_request list \<Rightarrow> uuid \<Rightarrow> int \<Rightarrow> int" where
  "window_count reqs c m = int (length (filter (\<lambda>(now, d, _). d = c \<and> minute_of now = m) reqs))"

lemma window_count_simps [simp]:
  "window_count [] c m = 0"
  "window_count (reqs @ [(now, d, limit)]) c m =
     window_count reqs c m + (if d = c \<and> minute_of now = m then 1 else 0)"
  by (simp_all add: window_count_def)

lemma window_count_nonneg [simp]: "0 \<le> window_count reqs c m"
  by (simp add: window_count_def)

context redis_server
begin

text \<open>The counters agree with the requests seen, and outlive their window.\<close>

definition counted :: "limited_request list \<Rightarrow> 'r \<Rightarrow> bool" where
  "counted past r \<longleftrightarrow> (\<forall>c m. c < 16 ^ 32 \<longrightarrow>
     (let n = window_count past c m; x = entries r (client_rate_key c m) in
      if n = 0 then x = None else (\<exists>e. x = Some (n, Some e) \<and> m * 60000000 + 65000000 \<le> e)))"

lemma enforce_is_hit:
  "enforce_rate_limit ops now c limit w =
     (let (n, r') = hit now (client_rate_key c (minute_of now)) 65 (w_redis w) in
      (if n > limit then Inl (RateLimitExceeded (''client exceeded '' @ str_int limit @ '' requests per minute''))
       else Inr (), w\<lparr>w_redis := r'\<rparr>))"
  by (auto simp: enforce_rate_limit_def hit_def redis_call_apply bindE_apply seqE_apply Let_def
      split: prod.splits)

lemma hit_counted:
  assumes "counted past r" and "c < 16 ^ 32"
  shows "fst (hit now (client_rate_key c (minute_of now)) 65 r) = window_count past c (minute_of now) + 1 \<and>
    counted (past @ [(now, c, limit)]) (snd (hit now (client_rate_key c (minute_of now)) 65 r))"
proof -
  let ?m = "minute_of now" and ?k = "client_rate_key c (minute_of now)"
  let ?n = "window_count past c ?m"
  have m: "?m * 60000000 \<le> now" "now < ?m * 60000000 + 60000000"
    unfolding minute_of_def by linarith+
  have step: "counted (past @ [(now, c, limit)]) r'"
    if "entries r' = (entries r)(?k := Some (?n + 1, Some e))" "?m * 60000000 + 65000000 \<le> e" for r' e
  proof -
    have n: "window_count past c ?m + 1 \<noteq> 0" using window_count_nonneg [of past c ?m] by linarith
    have inj: "client_rate_key d n = ?k \<longleftrightarrow> d = c \<and> n = ?m" if "d < 16 ^ 32" for d n
      using client_rate_key_inject [OF that assms(2)] .
    show ?thesis
      using assms(1) that n unfolding counted_def Let_def by (auto simp: inj)
  qed
  show ?thesis
  proof (cases "?n = 0")
    case True
    then have "live now (entries r ?k) = None"
      using assms by (auto simp: counted_def Let_def live_def)
    from hit_absent [OF this, of 65] show ?thesis
      using True m step [of _ "now + seconds 65"] by (simp add: seconds_def)
  next
    case False
    then obtain e where e: "entries r ?k = Some (?n, Some e)" "?m * 60000000 + 65000000 \<le> e"
      using assms unfolding counted_def Let_def by (metis (no_types, lifting))
    then have "live now (entries r ?k) = Some (?n, Some e)" using m by (simp add: live_def)
    moreover have "0 < ?n" using False window_count_nonneg [of past c ?m] by linarith
    ultimately show ?thesis using hit_present step [OF _ e(2)] by blast
  qed
qed

lemma rate_run_counted:
  assumes "counted past (w_redis w)" and "\<forall>(_, c, _)\<in>set reqs. c < 16 ^ 32"
  shows "length (rate_run ops reqs w) = length reqs \<and>
    (\<forall>i<length reqs. rate_run ops reqs w ! i =
       (case reqs ! i of (now, c, limit) \<Rightarrow> window_count (past @ take i reqs) c (minute_of now) < limit))"
  using assms
proof (induction reqs arbitrary: past w)
  case Nil
  then show ?case by simp
next
  case (Cons req reqs)
  obtain now c limit where req: "req = (now, c, limit)" by (cases req)
  let ?h = "hit now (client_rate_key c (minute_of now)) 65 (w_redis w)"
  have h: "fst ?h = window_count past c (minute_of now) + 1" "counted (past @ [(now, c, limit)]) (snd ?h)"
    using hit_counted [OF Cons.prems(1), of c now limit] Cons.prems(2) by (auto simp: req)
  let ?w = "w\<lparr>w_redis := snd ?h\<rparr>"
  have run: "rate_run ops (req # reqs) w = (window_count past c (minute_of now) < limit) # rate_run ops reqs ?w"
    using h(1) by (auto simp: req enforce_is_hit Let_def split: prod.splits)
  have "counted (past @ [req]) (w_redis ?w)" using h(2) by (simp add: req)
  from Cons.IH [OF this] Cons.prems(2) show ?case
    unfolding run by (auto simp: req nth_Cons split: nat.splits)
qed

end

text \<open>
  C6. The request limit: whatever the interleaving of clients and times, the \<open>i\<close>-th request passes
  exactly when fewer than its limit requests of the same client came before it in the same minute
  of the clock. So a client never gets more than its limit in a minute, and no other client or
  minute takes from it. The Redis server is any that keeps the promises of its commands.
\<close>

theorem rate_limit_exact:
  assumes "redis_server ops entries queues" and "entries (w_redis w) = (\<lambda>_. None)"
    and "\<forall>(_, c, _)\<in>set reqs. c < 16 ^ 32" and "i < length reqs" and "reqs ! i = (now, c, limit)"
  shows "rate_run ops reqs w ! i \<longleftrightarrow> window_count (take i reqs) c (minute_of now) < limit"
proof -
  have "redis_server.counted entries [] (w_redis w)"
    using assms(2) by (simp add: redis_server.counted_def [OF assms(1)])
  from redis_server.rate_run_counted [OF assms(1) this assms(3)] show ?thesis using assms(4,5) by simp
qed

theorem rate_limit_exact_witness:
  "rate_run store_ops [(0, 1, 1), (59999999, 1, 1), (60000000, 1, 1)]
     \<lparr>w_db = empty_db, w_saved = empty_db, w_redis = empty_store, w_metrics = [],
      w_breaker = new_breaker (default_settings [] []), w_pending = 0, w_correlation_id = [],
      w_source_ip = []\<rparr> ! 2"
  by (subst rate_limit_exact [OF kv.redis_server_axioms, where now = 60000000 and c = 1 and limit = 1])
     (simp_all add: empty_store_def window_count_def minute_of_def)

end
