(* ===== verification/Quota.thy ===== *)
theory Quota
  imports World
begin

text \<open>
  Dates and the token quotas (\<open>services/quota.py\<close>): the counters and the usage records a client has
  per day and per month, created on first use, and the two operations on them; and what the two keep
  when the requests of a client overlap.
\<close>

section \<open>Calendar\<close>

definition is_leap :: "int \<Rightarrow> bool" where
  "is_leap y = (y mod 4 = 0 \<and> (y mod 100 \<noteq> 0 \<or> y mod 400 = 0))"

definition days_in_month :: "int \<Rightarrow> int \<Rightarrow> int" where
  "days_in_month y m = (if m = 2 then (if is_leap y then 29 else 28)
     else if m \<in> {4, 6, 9, 11} then 30 else 31)"

definition valid_date :: "date \<Rightarrow> bool" where
  "valid_date d = (1 \<le> dmonth d \<and> dmonth d \<le> 12 \<and> 1 \<le> dday d \<and> dday d \<le> days_in_month (dyear d) (dmonth d))"

text \<open>Days before the month in its year, and before the year, as \<open>datetime\<close> counts them.\<close>

definition days_before_year :: "int \<Rightarrow> int" where
  "days_before_year y = (y - 1) * 365 + (y - 1) div 4 - (y - 1) div 100 + (y - 1) div 400"

fun days_before_month :: "int \<Rightarrow> nat \<Rightarrow> int" where
  "days_before_month y 0 = 0"
| "days_before_month y (Suc m) = (if m = 0 then 0 else days_before_month y m + days_in_month y (int m))"

definition ordinal :: "date \<Rightarrow> int" where
  "ordinal d = days_before_year (dyear d) + days_before_month (dyear d) (nat (dmonth d)) + dday d"

text \<open>The month that holds a day of the year, counted from zero; the search starts at \<open>m\<close>.\<close>

fun month_from :: "nat \<Rightarrow> int \<Rightarrow> int \<Rightarrow> int \<Rightarrow> int \<times> int" where
  "month_from 0 y m n = (m, n + 1)"
| "month_from (Suc k) y m n =
     (if n < days_in_month y m then (m, n + 1) else month_from k y (m + 1) (n - days_in_month y m))"

definition date_of_ordinal :: "int \<Rightarrow> date" where
  "date_of_ordinal ord =
     (let n = ord - 1;
          n400 = n div 146097; n1 = n mod 146097;
          n100 = n1 div 36524; n2 = n1 mod 36524;
          n4 = n2 div 1461; n3 = n2 mod 1461;
          n1y = n3 div 365; n5 = n3 mod 365;
          year = n400 * 400 + n100 * 100 + n4 * 4 + n1y + 1 in
      if n1y = 4 \<or> n100 = 4 then Date (year - 1) 12 31
      else (case month_from 11 year 1 n5 of (m, d) \<Rightarrow> Date year m d))"

definition microseconds_per_day :: int where
  "microseconds_per_day = 86400000000"

definition date_of :: "timestamp \<Rightarrow> date" where
  "date_of t = date_of_ordinal (t div microseconds_per_day + 719163)"

definition days :: "int \<Rightarrow> timestamp" where
  "days n = n * microseconds_per_day"

definition previous_day :: "date \<Rightarrow> date" where
  "previous_day d =
     (if dday d > 1 then Date (dyear d) (dmonth d) (dday d - 1)
      else if dmonth d > 1 then Date (dyear d) (dmonth d - 1) (days_in_month (dyear d) (dmonth d - 1))
      else Date (dyear d - 1) 12 31)"

text \<open>\<open>isoformat\<close> of a date, and of a time in UTC.\<close>

fun pad :: "nat \<Rightarrow> string \<Rightarrow> string" where
  "pad 0 s = s"
| "pad (Suc n) s = (if length s \<ge> Suc n then s else CHR ''0'' # pad n s)"

definition iso_date :: "date \<Rightarrow> string" where
  "iso_date d = pad 4 (str_int (dyear d)) @ ''-'' @ pad 2 (str_int (dmonth d)) @ ''-'' @ pad 2 (str_int (dday d))"

definition iso_time :: "timestamp \<Rightarrow> string" where
  "iso_time t =
     (let us = t mod microseconds_per_day; s = us div 1000000; f = us mod 1000000 in
      iso_date (date_of t) @ ''T'' @ pad 2 (str_int (s div 3600)) @ '':'' @ pad 2 (str_int (s div 60 mod 60)) @ '':'' @
      pad 2 (str_int (s mod 60)) @ (if f = 0 then [] else ''.'' @ pad 6 (str_int f)) @ ''+00:00'')"

definition jtime :: "timestamp \<Rightarrow> json" where
  "jtime t = JStr (iso_time t)"

lemma days_in_month_bounds: "28 \<le> days_in_month y m \<and> days_in_month y m \<le> 31"
  by (simp add: days_in_month_def)

lemma previous_day_valid: "valid_date d \<Longrightarrow> valid_date (previous_day d)"
  using days_in_month_bounds [of "dyear d" "dmonth d - 1"]
  by (cases d) (auto simp: valid_date_def previous_day_def days_in_month_def)

lemma previous_day_less: "valid_date d \<Longrightarrow> previous_day d < d"
  by (cases d) (auto simp: valid_date_def previous_day_def less_date_def)

lemma month_from_valid:
  "0 \<le> n \<Longrightarrow> 1 \<le> m \<Longrightarrow> m + int k = 12 \<Longrightarrow>
   n < 31 + (\<Sum>j<k. days_in_month y (m + int j)) \<Longrightarrow> month_from k y m n = (m', d) \<Longrightarrow>
   m \<le> m' \<and> m' \<le> 12 \<and> 1 \<le> d \<and> d \<le> days_in_month y m'"
proof (induction k y m n rule: month_from.induct)
  case (1 y m n)
  then show ?case by (auto simp: days_in_month_def)
next
  case (2 k y m n)
  show ?case
  proof (cases "n < days_in_month y m")
    case True
    with "2.prems" show ?thesis by auto
  next
    case False
    have "(\<Sum>j<Suc k. days_in_month y (m + int j)) =
        days_in_month y m + (\<Sum>j<k. days_in_month y (m + 1 + int j))"
      by (simp add: sum.lessThan_Suc_shift algebra_simps del: sum.lessThan_Suc)
    with "2.IH" [OF False] "2.prems" False show ?thesis by auto
  qed
qed

lemma date_of_valid: "valid_date (date_of t)"
proof -
  define n where "n = t div microseconds_per_day + 719163 - 1"
  define n1 where "n1 = n mod 146097"
  define n2 where "n2 = n1 mod 36524"
  define n3 where "n3 = n2 mod 1461"
  define n5 where "n5 = n3 mod 365"
  define y where "y = n div 146097 * 400 + n1 div 36524 * 100 + n2 div 1461 * 4 + n3 div 365 + 1"
  have n5: "0 \<le> n5" "n5 < 365" by (simp_all add: n5_def)
  have "(\<Sum>j<11. days_in_month y (1 + int j)) \<ge> 334"
    by (simp add: eval_nat_numeral days_in_month_def)
  then have "n5 < 31 + (\<Sum>j<11. days_in_month y (1 + int j))" using n5 by simp
  then have "valid_date (case month_from 11 y 1 n5 of (m, d) \<Rightarrow> Date y m d)"
    using month_from_valid [OF n5(1), of 1 11 y] by (auto simp: valid_date_def split: prod.splits)
  then show ?thesis
    by (simp add: date_of_def date_of_ordinal_def Let_def n_def [symmetric] n1_def [symmetric]
        n2_def [symmetric] n3_def [symmetric] n5_def [symmetric] y_def [symmetric])
       (simp add: valid_date_def days_in_month_def)
qed

section \<open>Quotas\<close>

definition month_start :: "date \<Rightarrow> date" where
  "month_start today = Date (dyear today) (dmonth today) 1"

definition counter_at :: "uuid \<Rightarrow> date \<Rightarrow> string \<Rightarrow> quota_counter \<Rightarrow> bool" where
  "counter_at client_id start type q =
     (q_client_id q = client_id \<and> q_period_start q = start \<and> q_period_type q = type)"

definition usage_at :: "uuid \<Rightarrow> date \<Rightarrow> string \<Rightarrow> usage_record \<Rightarrow> bool" where
  "usage_at client_id start type u =
     (u_client_id u = client_id \<and> u_period_start u = start \<and> u_period_type u = type)"

definition get_or_create_counter ::
  "timestamp \<Rightarrow> uuid \<Rightarrow> date \<Rightarrow> string \<Rightarrow> ('r, quota_counter) act" where
  "get_or_create_counter now client_id period_start period_type =
     bindE (query (\<lambda>d. filter (counter_at client_id period_start period_type) (quota_counters d))) (\<lambda>result.
     bindE (liftE (scalar_one_or_none result)) (\<lambda>counter.
     case counter of
       Some q \<Rightarrow> ret q
     | None \<Rightarrow> bindE fresh_id (\<lambda>qid.
         let q = \<lparr>q_id = qid, q_client_id = client_id, q_period_start = period_start,
                  q_period_type = period_type, q_used_tokens = 0, q_used_requests = 0, q_created_at = now\<rparr> in
         seqE (update (\<lambda>d. d\<lparr>quota_counters := quota_counters d @ [q]\<rparr>)) (ret q))))"

definition get_or_create_usage_record ::
  "timestamp \<Rightarrow> uuid \<Rightarrow> date \<Rightarrow> string \<Rightarrow> ('r, usage_record) act" where
  "get_or_create_usage_record now client_id period_start period_type =
     bindE (query (\<lambda>d. filter (usage_at client_id period_start period_type) (usage_records d))) (\<lambda>result.
     bindE (liftE (scalar_one_or_none result)) (\<lambda>record.
     case record of
       Some u \<Rightarrow> ret u
     | None \<Rightarrow> bindE fresh_id (\<lambda>uid.
         let u = \<lparr>u_id = uid, u_client_id = client_id, u_period_start = period_start,
                  u_period_type = period_type, u_request_count = 0, u_prompt_tokens = 0,
                  u_completion_tokens = 0, u_created_at = now\<rparr> in
         seqE (update (\<lambda>d. d\<lparr>usage_records := usage_records d @ [u]\<rparr>)) (ret u))))"

definition ensure_quota :: "timestamp \<Rightarrow> date \<Rightarrow> uuid \<Rightarrow> int \<Rightarrow> int \<Rightarrow> int \<Rightarrow> ('r, unit) act" where
  "ensure_quota now today client_id daily_limit monthly_limit incoming_tokens =
     bindE (get_or_create_counter now client_id today ''daily'') (\<lambda>daily.
     bindE (get_or_create_counter now client_id (month_start today) ''monthly'') (\<lambda>monthly.
     if q_used_tokens daily + incoming_tokens > daily_limit
     then raise (QuotaExceeded ''daily token quota exceeded'')
     else if q_used_tokens monthly + incoming_tokens > monthly_limit
     then raise (QuotaExceeded ''monthly token quota exceeded'')
     else ret ()))"

definition record_usage_in ::
  "timestamp \<Rightarrow> uuid \<Rightarrow> int \<Rightarrow> int \<Rightarrow> date \<times> string \<Rightarrow> ('r, unit) act" where
  "record_usage_in now client_id prompt_tokens completion_tokens period =
     (case period of (period_start, period_type) \<Rightarrow>
        bindE (get_or_create_counter now client_id period_start period_type) (\<lambda>counter.
        seqE (update (\<lambda>d. d\<lparr>quota_counters := upd_where (\<lambda>q. q_id q = q_id counter)
          (\<lambda>q. q\<lparr>q_used_tokens := q_used_tokens q + (prompt_tokens + completion_tokens),
                 q_used_requests := q_used_requests q + 1\<rparr>) (quota_counters d)\<rparr>))
        (bindE (get_or_create_usage_record now client_id period_start period_type) (\<lambda>record.
         update (\<lambda>d. d\<lparr>usage_records := upd_where (\<lambda>u. u_id u = u_id record)
          (\<lambda>u. u\<lparr>u_request_count := u_request_count u + 1,
                 u_prompt_tokens := u_prompt_tokens u + prompt_tokens,
                 u_completion_tokens := u_completion_tokens u + completion_tokens\<rparr>) (usage_records d)\<rparr>)))))"

definition record_usage :: "timestamp \<Rightarrow> date \<Rightarrow> uuid \<Rightarrow> int \<Rightarrow> int \<Rightarrow> ('r, unit) act" where
  "record_usage now today client_id prompt_tokens completion_tokens =
     bindE (forE [(today, ''daily''), (month_start today, ''monthly'')]
       (record_usage_in now client_id prompt_tokens completion_tokens)) (\<lambda>_. ret ())"

section \<open>The ledger\<close>

text \<open>
  What the two tables say about a client and a period: the tokens its counter has used, and the
  tokens its usage record accounts for. The invariant: rows have distinct identifiers, one row per
  client and period, and the two tables agree.
\<close>

definition counter_key :: "quota_counter \<Rightarrow> uuid \<times> date \<times> string" where
  "counter_key q = (q_client_id q, q_period_start q, q_period_type q)"

definition usage_key :: "usage_record \<Rightarrow> uuid \<times> date \<times> string" where
  "usage_key u = (u_client_id u, u_period_start u, u_period_type u)"

definition ledger :: "db \<Rightarrow> uuid \<times> date \<times> string \<Rightarrow> int" where
  "ledger d p = (case List.find (\<lambda>q. counter_key q = p) (quota_counters d) of
     None \<Rightarrow> 0 | Some q \<Rightarrow> q_used_tokens q)"

definition accounted :: "db \<Rightarrow> uuid \<times> date \<times> string \<Rightarrow> int" where
  "accounted d p = (case List.find (\<lambda>u. usage_key u = p) (usage_records d) of
     None \<Rightarrow> 0 | Some u \<Rightarrow> u_prompt_tokens u + u_completion_tokens u)"

definition quota_rows_ok :: "db \<Rightarrow> bool" where
  "quota_rows_ok d \<longleftrightarrow>
     distinct (map q_id (quota_counters d)) \<and> (\<forall>q\<in>set (quota_counters d). q_id q < next_id d) \<and>
     distinct (map counter_key (quota_counters d)) \<and>
     distinct (map u_id (usage_records d)) \<and> (\<forall>u\<in>set (usage_records d). u_id u < next_id d) \<and>
     distinct (map usage_key (usage_records d))"

definition quota_inv :: "db \<Rightarrow> bool" where
  "quota_inv d \<longleftrightarrow> quota_rows_ok d \<and> ledger d = accounted d"

lemma counter_at_key: "counter_at c s t = (\<lambda>q. counter_key q = (c, s, t))"
  and usage_at_key: "usage_at c s t = (\<lambda>u. usage_key u = (c, s, t))"
  by (auto simp: counter_at_def counter_key_def usage_at_def usage_key_def fun_eq_iff)

lemma ledger_cong: "quota_counters d' = quota_counters d \<Longrightarrow> ledger d' = ledger d"
  and accounted_cong: "usage_records d' = usage_records d \<Longrightarrow> accounted d' = accounted d"
  by (simp_all add: ledger_def accounted_def fun_eq_iff)

lemma ledger_upd:
  assumes "quota_rows_ok d" and "q \<in> set (quota_counters d)" and "\<And>x. counter_key (f x) = counter_key x"
    and "quota_counters d' = upd_where (\<lambda>x. q_id x = q_id q) f (quota_counters d)"
  shows "ledger d' = (ledger d)(counter_key q := q_used_tokens (f q))"
proof
  fix p
  have "List.find (\<lambda>x. counter_key x = p) (quota_counters d') =
      (if p = counter_key q then Some (f q) else List.find (\<lambda>x. counter_key x = p) (quota_counters d))"
    unfolding assms(4) using assms(1) by (intro find_upd_by_id assms(2,3)) (simp_all add: quota_rows_ok_def)
  then show "ledger d' p = ((ledger d)(counter_key q := q_used_tokens (f q))) p" by (simp add: ledger_def)
qed

lemma accounted_upd:
  assumes "quota_rows_ok d" and "u \<in> set (usage_records d)" and "\<And>x. usage_key (f x) = usage_key x"
    and "usage_records d' = upd_where (\<lambda>x. u_id x = u_id u) f (usage_records d)"
  shows "accounted d' = (accounted d)(usage_key u := u_prompt_tokens (f u) + u_completion_tokens (f u))"
proof
  fix p
  have "List.find (\<lambda>x. usage_key x = p) (usage_records d') =
      (if p = usage_key u then Some (f u) else List.find (\<lambda>x. usage_key x = p) (usage_records d))"
    unfolding assms(4) using assms(1) by (intro find_upd_by_id assms(2,3)) (simp_all add: quota_rows_ok_def)
  then show "accounted d' p = ((accounted d)(usage_key u := u_prompt_tokens (f u) + u_completion_tokens (f u))) p"
    by (simp add: accounted_def)
qed

lemma ledger_row: "quota_rows_ok d \<Longrightarrow> q \<in> set (quota_counters d) \<Longrightarrow> ledger d (counter_key q) = q_used_tokens q"
  and accounted_row: "quota_rows_ok d \<Longrightarrow> u \<in> set (usage_records d) \<Longrightarrow>
    accounted d (usage_key u) = u_prompt_tokens u + u_completion_tokens u"
  using find_key_iff [of counter_key "quota_counters d" "counter_key q" q]
    find_key_iff [of usage_key "usage_records d" "usage_key u" u]
  by (simp_all add: ledger_def accounted_def quota_rows_ok_def)

lemma get_or_create_counter_spec:
  assumes ok: "quota_rows_ok (w_db w)"
  obtains q w' where "get_or_create_counter now c s t w = (Inr q, w')" "quota_rows_ok (w_db w')"
    "q \<in> set (quota_counters (w_db w'))" "counter_key q = (c, s, t)" "q_used_tokens q = ledger (w_db w) (c, s, t)"
    "ledger (w_db w') = ledger (w_db w)" "accounted (w_db w') = accounted (w_db w)"
proof -
  let ?d = "w_db w"
  let ?f = "List.find (\<lambda>q. counter_key q = (c, s, t)) (quota_counters ?d)"
  have q: "scalar_one_or_none (filter (counter_at c s t) (quota_counters ?d)) = Inr ?f"
    using ok unfolding counter_at_key by (intro scalar_key_unique) (simp add: quota_rows_ok_def)
  show ?thesis
  proof (cases ?f)
    case (Some x)
    then have "get_or_create_counter now c s t w = (Inr x, w)"
      using q by (simp add: get_or_create_counter_def bindE_apply)
    then show ?thesis
      using ok Some find_Some_set [OF Some] by (intro that) (simp_all add: ledger_def)
  next
    case None
    let ?q = "\<lparr>q_id = next_id ?d, q_client_id = c, q_period_start = s, q_period_type = t,
      q_used_tokens = 0, q_used_requests = 0, q_created_at = now\<rparr>"
    let ?w = "w\<lparr>w_db := ?d\<lparr>next_id := Suc (next_id ?d), quota_counters := quota_counters ?d @ [?q]\<rparr>\<rparr>"
    have run: "get_or_create_counter now c s t w = (Inr ?q, ?w)"
      using q None by (simp add: get_or_create_counter_def bindE_apply seqE_apply Let_def)
    have fresh: "\<forall>x\<in>set (quota_counters ?d). counter_key x \<noteq> (c, s, t)"
      using None by (simp add: find_None_set)
    have ok': "quota_rows_ok (w_db ?w)"
      using ok fresh by (auto simp: quota_rows_ok_def counter_key_def less_Suc_eq)
    have led: "ledger (w_db ?w) = ledger ?d"
      by (auto simp: ledger_def find_snoc counter_key_def fun_eq_iff split: option.splits)
    show ?thesis
    proof (rule that [OF run ok'])
      show "ledger (w_db ?w) = ledger ?d" by (rule led)
      show "accounted (w_db ?w) = accounted ?d" by (rule accounted_cong) simp
      show "q_used_tokens ?q = ledger ?d (c, s, t)" by (simp add: ledger_def None)
    qed (simp_all add: counter_key_def)
  qed
qed

lemma get_or_create_usage_spec:
  assumes ok: "quota_rows_ok (w_db w)"
  obtains u w' where "get_or_create_usage_record now c s t w = (Inr u, w')" "quota_rows_ok (w_db w')"
    "u \<in> set (usage_records (w_db w'))" "usage_key u = (c, s, t)"
    "ledger (w_db w') = ledger (w_db w)" "accounted (w_db w') = accounted (w_db w)"
proof -
  let ?d = "w_db w"
  let ?f = "List.find (\<lambda>u. usage_key u = (c, s, t)) (usage_records ?d)"
  have q: "scalar_one_or_none (filter (usage_at c s t) (usage_records ?d)) = Inr ?f"
    using ok unfolding usage_at_key by (intro scalar_key_unique) (simp add: quota_rows_ok_def)
  show ?thesis
  proof (cases ?f)
    case (Some x)
    then have "get_or_create_usage_record now c s t w = (Inr x, w)"
      using q by (simp add: get_or_create_usage_record_def bindE_apply)
    moreover have "x \<in> set (usage_records ?d)" "usage_key x = (c, s, t)" using find_Some_set [OF Some] by simp_all
    ultimately show ?thesis using ok by (intro that) simp_all
  next
    case None
    let ?u = "\<lparr>u_id = next_id ?d, u_client_id = c, u_period_start = s, u_period_type = t,
      u_request_count = 0, u_prompt_tokens = 0, u_completion_tokens = 0, u_created_at = now\<rparr>"
    let ?w = "w\<lparr>w_db := ?d\<lparr>next_id := Suc (next_id ?d), usage_records := usage_records ?d @ [?u]\<rparr>\<rparr>"
    have run: "get_or_create_usage_record now c s t w = (Inr ?u, ?w)"
      using q None by (simp add: get_or_create_usage_record_def bindE_apply seqE_apply Let_def)
    have fresh: "\<forall>x\<in>set (usage_records ?d). usage_key x \<noteq> (c, s, t)"
      using None by (simp add: find_None_set)
    have ok': "quota_rows_ok (w_db ?w)"
      using ok fresh by (auto simp: quota_rows_ok_def usage_key_def less_Suc_eq)
    have acc: "accounted (w_db ?w) = accounted ?d"
      by (auto simp: accounted_def find_snoc usage_key_def fun_eq_iff split: option.splits)
    show ?thesis
    proof (rule that [OF run ok'])
      show "accounted (w_db ?w) = accounted ?d" by (rule acc)
      show "ledger (w_db ?w) = ledger ?d" by (rule ledger_cong) simp
    qed (simp_all add: usage_key_def)
  qed
qed

lemma record_usage_in_spec:
  assumes ok: "quota_rows_ok (w_db w)"
  obtains w' where "record_usage_in now c pt ct (s, t) w = (Inr (), w')" "quota_rows_ok (w_db w')"
    "ledger (w_db w') = (ledger (w_db w)) ((c, s, t) := ledger (w_db w) (c, s, t) + (pt + ct))"
    "accounted (w_db w') = (accounted (w_db w)) ((c, s, t) := accounted (w_db w) (c, s, t) + (pt + ct))"
proof -
  obtain q w1 where q: "get_or_create_counter now c s t w = (Inr q, w1)" "quota_rows_ok (w_db w1)"
    "q \<in> set (quota_counters (w_db w1))" "counter_key q = (c, s, t)" "q_used_tokens q = ledger (w_db w) (c, s, t)"
    "ledger (w_db w1) = ledger (w_db w)" "accounted (w_db w1) = accounted (w_db w)"
    by (rule get_or_create_counter_spec [OF ok, of now c s t])
  let ?fq = "\<lambda>q. q\<lparr>q_used_tokens := q_used_tokens q + (pt + ct), q_used_requests := q_used_requests q + 1\<rparr>"
  let ?d2 = "(w_db w1)\<lparr>quota_counters := upd_where (\<lambda>x. q_id x = q_id q) ?fq (quota_counters (w_db w1))\<rparr>"
  let ?w2 = "w1\<lparr>w_db := ?d2\<rparr>"
  have ok2: "quota_rows_ok (w_db ?w2)"
    using q(2) by (auto simp: quota_rows_ok_def set_upd_where counter_key_def split: if_splits)
  have "ledger ?d2 = (ledger (w_db w1)) (counter_key q := q_used_tokens (?fq q))"
    by (rule ledger_upd [OF q(2,3)]) (simp_all add: counter_key_def)
  then have led2: "ledger ?d2 = (ledger (w_db w)) ((c, s, t) := ledger (w_db w) (c, s, t) + (pt + ct))"
    by (simp add: q(4-6))
  have acc2: "accounted ?d2 = accounted (w_db w)" using q(7) by (simp add: accounted_def fun_eq_iff)
  obtain u w3 where u: "get_or_create_usage_record now c s t ?w2 = (Inr u, w3)" "quota_rows_ok (w_db w3)"
    "u \<in> set (usage_records (w_db w3))" "usage_key u = (c, s, t)"
    "ledger (w_db w3) = ledger (w_db ?w2)" "accounted (w_db w3) = accounted (w_db ?w2)"
    by (rule get_or_create_usage_spec [OF ok2, of now c s t])
  let ?fu = "\<lambda>u. u\<lparr>u_request_count := u_request_count u + 1, u_prompt_tokens := u_prompt_tokens u + pt,
    u_completion_tokens := u_completion_tokens u + ct\<rparr>"
  let ?d4 = "(w_db w3)\<lparr>usage_records := upd_where (\<lambda>x. u_id x = u_id u) ?fu (usage_records (w_db w3))\<rparr>"
  have ok4: "quota_rows_ok ?d4"
    using u(2) by (auto simp: quota_rows_ok_def set_upd_where usage_key_def split: if_splits)
  have "accounted ?d4 = (accounted (w_db w3)) (usage_key u := u_prompt_tokens (?fu u) + u_completion_tokens (?fu u))"
    by (rule accounted_upd [OF u(2,3)]) (simp_all add: usage_key_def)
  then have acc4: "accounted ?d4 = (accounted (w_db w)) ((c, s, t) := accounted (w_db w) (c, s, t) + (pt + ct))"
    using accounted_row [OF u(2,3)] u(4,6) acc2 by (simp add: algebra_simps)
  have led4: "ledger ?d4 = ledger ?d2" using u(5) by (simp add: ledger_def fun_eq_iff)
  show ?thesis
  proof (rule that)
    show "record_usage_in now c pt ct (s, t) w = (Inr (), w3\<lparr>w_db := ?d4\<rparr>)"
      using q(1) u(1) by (simp add: record_usage_in_def bindE_apply seqE_apply)
  qed (use ok4 acc4 led4 led2 in simp_all)
qed

section \<open>Properties\<close>

definition add_usage :: "uuid \<Rightarrow> date \<Rightarrow> int \<Rightarrow> (uuid \<times> date \<times> string \<Rightarrow> int) \<Rightarrow> uuid \<times> date \<times> string \<Rightarrow> int" where
  "add_usage c today n f = (\<lambda>p. f p + (if p = (c, today, ''daily'') \<or> p = (c, month_start today, ''monthly'') then n else 0))"

lemma record_usage_spec:
  assumes "quota_inv (w_db w)"
  obtains w' where "record_usage now today c pt ct w = (Inr (), w')" "quota_inv (w_db w')"
    "ledger (w_db w') = add_usage c today (pt + ct) (ledger (w_db w))"
proof -
  have ok: "quota_rows_ok (w_db w)" and eq: "ledger (w_db w) = accounted (w_db w)"
    using assms by (simp_all add: quota_inv_def)
  obtain w1 where w1: "record_usage_in now c pt ct (today, ''daily'') w = (Inr (), w1)" "quota_rows_ok (w_db w1)"
    "ledger (w_db w1) = (ledger (w_db w)) ((c, today, ''daily'') := ledger (w_db w) (c, today, ''daily'') + (pt + ct))"
    "accounted (w_db w1) = (accounted (w_db w)) ((c, today, ''daily'') := accounted (w_db w) (c, today, ''daily'') + (pt + ct))"
    by (rule record_usage_in_spec [OF ok])
  obtain w2 where w2: "record_usage_in now c pt ct (month_start today, ''monthly'') w1 = (Inr (), w2)" "quota_rows_ok (w_db w2)"
    "ledger (w_db w2) = (ledger (w_db w1)) ((c, month_start today, ''monthly'') := ledger (w_db w1) (c, month_start today, ''monthly'') + (pt + ct))"
    "accounted (w_db w2) = (accounted (w_db w1)) ((c, month_start today, ''monthly'') := accounted (w_db w1) (c, month_start today, ''monthly'') + (pt + ct))"
    by (rule record_usage_in_spec [OF w1(2)])
  show ?thesis
  proof (rule that)
    show "record_usage now today c pt ct w = (Inr (), w2)"
      by (simp add: record_usage_def bindE_apply w1(1) w2(1))
    show "quota_inv (w_db w2)" using w1 w2 eq by (simp add: quota_inv_def)
    show "ledger (w_db w2) = add_usage c today (pt + ct) (ledger (w_db w))"
      by (auto simp: w2(3) w1(3) add_usage_def fun_eq_iff)
  qed
qed

lemma ensure_quota_spec:
  assumes "quota_inv (w_db w)"
  obtains w' where "ensure_quota now today c dl ml n w =
      (if ledger (w_db w) (c, today, ''daily'') + n > dl then Inl (QuotaExceeded ''daily token quota exceeded'')
       else if ledger (w_db w) (c, month_start today, ''monthly'') + n > ml
         then Inl (QuotaExceeded ''monthly token quota exceeded'') else Inr (), w')"
    "quota_inv (w_db w')" "ledger (w_db w') = ledger (w_db w)"
proof -
  have ok: "quota_rows_ok (w_db w)" and eq: "ledger (w_db w) = accounted (w_db w)"
    using assms by (simp_all add: quota_inv_def)
  obtain q1 w1 where w1: "get_or_create_counter now c today ''daily'' w = (Inr q1, w1)" "quota_rows_ok (w_db w1)"
    "q_used_tokens q1 = ledger (w_db w) (c, today, ''daily'')"
    "ledger (w_db w1) = ledger (w_db w)" "accounted (w_db w1) = accounted (w_db w)"
    by (rule get_or_create_counter_spec [OF ok])
  obtain q2 w2 where w2: "get_or_create_counter now c (month_start today) ''monthly'' w1 = (Inr q2, w2)"
    "quota_rows_ok (w_db w2)" "q_used_tokens q2 = ledger (w_db w1) (c, month_start today, ''monthly'')"
    "ledger (w_db w2) = ledger (w_db w1)" "accounted (w_db w2) = accounted (w_db w1)"
    by (rule get_or_create_counter_spec [OF w1(2)])
  show ?thesis
    by (rule that [of w2]) (use w1 w2 eq in \<open>simp_all add: ensure_quota_def bindE_apply quota_inv_def\<close>)
qed

text \<open>
  C7. Bookkeeping: recording a request's tokens always succeeds, adds exactly their sum to the
  client's counters of the day and of the month and to no other counter, and keeps the usage
  records in agreement with the counters.
\<close>

theorem record_usage_adds:
  assumes "quota_inv (w_db w)"
  shows "fst (record_usage now today c pt ct w) = Inr () \<and>
    quota_inv (w_db (snd (record_usage now today c pt ct w))) \<and>
    ledger (w_db (snd (record_usage now today c pt ct w))) = add_usage c today (pt + ct) (ledger (w_db w))"
  by (rule record_usage_spec [OF assms, of now today c pt ct]) simp

text \<open>
  C25. The quota check is exact: it passes exactly when the tokens fit into what is left of the day
  and of the month, names the period that is short otherwise, and uses nothing up itself.
\<close>

theorem ensure_quota_exact:
  assumes "quota_inv (w_db w)"
  shows "fst (ensure_quota now today c dl ml n w) =
      (if ledger (w_db w) (c, today, ''daily'') + n > dl then Inl (QuotaExceeded ''daily token quota exceeded'')
       else if ledger (w_db w) (c, month_start today, ''monthly'') + n > ml
         then Inl (QuotaExceeded ''monthly token quota exceeded'') else Inr ()) \<and>
    quota_inv (w_db (snd (ensure_quota now today c dl ml n w))) \<and>
    ledger (w_db (snd (ensure_quota now today c dl ml n w))) = ledger (w_db w)"
  by (rule ensure_quota_spec [OF assms, of now today c dl ml n]) simp

text \<open>
  Requests of many clients under way at the same time. A handler asks for the tokens of its
  request (\<open>ensure_quota\<close>, \<open>api/client.py\<close>) and records the tokens used (\<open>record_usage\<close>) once the
  backend has answered; between the two steps other requests take theirs, the day may change, and
  everything that leaves the tokens on record alone may happen. \<open>n c\<close> is the greatest number of
  requests of the client \<open>c\<close> that are under way at once, \<open>ok\<close> what is known of every request. The
  session's reads and writes inside one of the two operations are one step.
\<close>

record asked =
  a_client :: uuid
  a_daily :: int
  a_monthly :: int
  a_incoming :: int
  a_prompt :: int
  a_completion :: int

definition a_used :: "asked \<Rightarrow> int" where
  "a_used r = a_prompt r + a_completion r"

record 'r quota_state =
  qs_today :: date
  qs_flight :: "asked list"
  qs_world :: "'r world"

abbreviation flight_of :: "uuid \<Rightarrow> 'r quota_state \<Rightarrow> asked list" where
  "flight_of c s \<equiv> filter (\<lambda>r. a_client r = c) (qs_flight s)"

abbreviation on_record :: "'r quota_state \<Rightarrow> uuid \<times> date \<times> string \<Rightarrow> int" where
  "on_record s \<equiv> ledger (w_db (qs_world s))"

inductive quota_step :: "(uuid \<Rightarrow> nat) \<Rightarrow> (asked \<Rightarrow> bool) \<Rightarrow> 'r quota_state \<Rightarrow> 'r quota_state \<Rightarrow> bool"
  for n ok where
  admitted: "quota_step n ok s (s\<lparr>qs_flight := r # qs_flight s, qs_world := w\<rparr>)"
    if "ok r" "length (flight_of (a_client r) s) < n (a_client r)"
      "ensure_quota now (qs_today s) (a_client r) (a_daily r) (a_monthly r) (a_incoming r) (qs_world s) = (Inr (), w)"
| refused: "quota_step n ok s (s\<lparr>qs_world := w\<rparr>)"
    if "ensure_quota now (qs_today s) (a_client (r :: asked)) (a_daily r) (a_monthly r) (a_incoming r) (qs_world s) = (Inl e, w)"
| recorded: "quota_step n ok s (s\<lparr>qs_flight := xs @ ys,
      qs_world := snd (record_usage now (qs_today s) (a_client r) (a_prompt r) (a_completion r) (qs_world s))\<rparr>)"
    if "qs_flight s = xs @ r # ys"
| failed: "quota_step n ok s (s\<lparr>qs_flight := xs @ ys\<rparr>)" if "qs_flight s = xs @ r # ys"
| next_day: "quota_step n ok s (s\<lparr>qs_today := today\<rparr>)" if "qs_today s \<le> today"
| elsewhere: "quota_step n ok s (s\<lparr>qs_world := w\<rparr>)"
    if "quota_inv (w_db w)" "ledger (w_db w) = on_record s"

text \<open>
  The bound of one period \<open>p\<close> of a client: before the period its counter is as it was; during it
  the tokens on record and the tokens of the requests under way stay below \<open>b\<close> together, so they
  do when the requests are recorded; after it the counter is not written again.
\<close>

definition period_bound ::
  "(date \<Rightarrow> date) \<Rightarrow> string \<Rightarrow> uuid \<Rightarrow> date \<Rightarrow> nat \<Rightarrow> int \<Rightarrow> int \<Rightarrow> (asked \<Rightarrow> bool) \<Rightarrow> int \<Rightarrow> 'r quota_state \<Rightarrow> bool" where
  "period_bound start ty c p n m b ok init s \<longleftrightarrow>
     quota_inv (w_db (qs_world s)) \<and> length (flight_of c s) \<le> n \<and> (\<forall>r\<in>set (flight_of c s). ok r) \<and>
     (start (qs_today s) < p \<longrightarrow> on_record s (c, p, ty) = init \<and> init + int n * m \<le> b) \<and>
     (start (qs_today s) = p \<longrightarrow> on_record s (c, p, ty) + sum_list (map a_used (flight_of c s)) \<le> b) \<and>
     on_record s (c, p, ty) \<le> b"

lemma ensure_quota_run:
  assumes "quota_inv (w_db w)" and "ensure_quota now today c dl ml n w = (res, w')"
  shows "quota_inv (w_db w')" "ledger (w_db w') = ledger (w_db w)"
    "res = Inr () \<Longrightarrow> ledger (w_db w) (c, today, ''daily'') + n \<le> dl"
    "res = Inr () \<Longrightarrow> ledger (w_db w) (c, month_start today, ''monthly'') + n \<le> ml"
  by (rule ensure_quota_spec [OF assms(1), of now today c dl ml n]; use assms(2) in \<open>simp split: if_splits\<close>)+

lemma record_usage_run:
  assumes "quota_inv (w_db w)"
  shows "quota_inv (w_db (snd (record_usage now today c pt ct w)))"
    "ledger (w_db (snd (record_usage now today c pt ct w))) = add_usage c today (pt + ct) (ledger (w_db w))"
  by (rule record_usage_spec [OF assms, of now today c pt ct]; simp)+

lemma sum_list_le_length: "(\<And>x. x \<in> set xs \<Longrightarrow> f x \<le> (m::int)) \<Longrightarrow> sum_list (map f xs) \<le> int (length xs) * m"
  using sum_list_mono [of xs f "\<lambda>_. m"] by (simp add: sum_list_triv)

lemma period_bound_inv: "period_bound start ty c p n m b ok init s \<Longrightarrow> quota_inv (w_db (qs_world s))"
  by (simp add: period_bound_def)

lemma period_bound_step:
  assumes "quota_step n ok s s'" and bound: "period_bound start ty c p (n c) m b ok init s"
    and mono: "\<And>d e. d \<le> e \<Longrightarrow> start d \<le> start e"
    and adds: "\<And>d k f. add_usage c d k f (c, p, ty) = f (c, p, ty) + (if p = start d then k else 0)"
    and fits: "\<And>r. ok r \<Longrightarrow> a_client r = c \<Longrightarrow>
      0 \<le> a_used r \<and> a_used r \<le> m \<and> a_used r \<le> a_incoming r + extra"
    and limit: "\<And>r d f. ok r \<Longrightarrow> a_client r = c \<Longrightarrow> f (c, d, ''daily'') + a_incoming r \<le> a_daily r \<Longrightarrow>
      f (c, month_start d, ''monthly'') + a_incoming r \<le> a_monthly r \<Longrightarrow>
      f (c, start d, ty) + a_incoming r + extra + (int (n c) - 1) * m \<le> b"
    and "0 \<le> m"
  shows "period_bound start ty c p (n c) m b ok init s'"
  using assms(1)
proof cases
  case (admitted r now w)
  note passed = ensure_quota_run [OF period_bound_inv [OF bound] admitted(4)]
  have "on_record s (c, p, ty) + a_used r + sum_list (map a_used (flight_of c s)) \<le> b"
    if c: "a_client r = c" and p: "start (qs_today s) = p"
  proof -
    have "sum_list (map a_used (flight_of c s)) \<le> int (length (flight_of c s)) * m"
      using bound fits by (intro sum_list_le_length) (auto simp: period_bound_def)
    also have "\<dots> \<le> (int (n c) - 1) * m"
      using admitted(3) c \<open>0 \<le> m\<close> by (intro mult_right_mono) auto
    finally show ?thesis
      using limit [OF admitted(2) c, of "on_record s" "qs_today s"] passed(3,4) fits [OF admitted(2) c] by (simp add: c p)
  qed
  then show ?thesis
    using bound admitted(1-3) passed(1,2) by (auto simp: period_bound_def algebra_simps)
next
  case (refused now r e w)
  then show ?thesis
    using bound ensure_quota_run(1,2) [OF period_bound_inv [OF bound] refused(2)] by (simp add: period_bound_def)
next
  case (recorded xs r ys now)
  have "quota_inv (w_db (qs_world s'))"
    "on_record s' = add_usage (a_client r) (qs_today s) (a_used r) (on_record s)"
    using record_usage_run [OF period_bound_inv [OF bound]] by (simp_all add: recorded(1) a_used_def)
  moreover have "add_usage (a_client r) (qs_today s) (a_used r) (on_record s) (c, p, ty) =
      on_record s (c, p, ty) + (if a_client r = c \<and> p = start (qs_today s) then a_used r else 0)"
    using adds [of "qs_today s" "a_used r" "on_record s"] by (cases "a_client r = c") (auto simp: add_usage_def)
  moreover have "0 \<le> sum_list (map a_used (filter (\<lambda>r. a_client r = c) (xs @ ys)))"
    using bound fits recorded(2) by (intro sum_list_nonneg) (auto simp: period_bound_def)
  ultimately show ?thesis
    using bound recorded by (auto simp: period_bound_def)
next
  case (failed xs r ys)
  then have "a_client r = c \<Longrightarrow> 0 \<le> a_used r"
    using bound fits by (auto simp: period_bound_def)
  then show ?thesis using bound failed by (cases "a_client r = c") (auto simp: period_bound_def)
next
  case (next_day today)
  have "sum_list (map a_used (flight_of c s)) \<le> int (length (flight_of c s)) * m"
    using bound fits by (intro sum_list_le_length) (auto simp: period_bound_def)
  also have "\<dots> \<le> int (n c) * m"
    using bound \<open>0 \<le> m\<close> by (intro mult_right_mono) (auto simp: period_bound_def)
  finally show ?thesis
    using bound next_day mono [OF next_day(2)] by (auto simp: period_bound_def)
next
  case (elsewhere w)
  then show ?thesis using bound by (simp add: period_bound_def)
qed

lemma period_limit:
  assumes "(quota_step n ok)\<^sup>*\<^sup>* s s'" and "quota_inv (w_db (qs_world s))" and "qs_flight s = []"
    and "\<And>d e. d \<le> e \<Longrightarrow> start d \<le> start e"
    and "\<And>d k f. add_usage c d k f (c, p, ty) = f (c, p, ty) + (if p = start d then k else 0)"
    and "\<And>r. ok r \<Longrightarrow> a_client r = c \<Longrightarrow> 0 \<le> a_used r \<and> a_used r \<le> m \<and> a_used r \<le> a_incoming r + extra"
    and "\<And>r d f. ok r \<Longrightarrow> a_client r = c \<Longrightarrow> f (c, d, ''daily'') + a_incoming r \<le> a_daily r \<Longrightarrow>
      f (c, month_start d, ''monthly'') + a_incoming r \<le> a_monthly r \<Longrightarrow> f (c, start d, ty) + a_incoming r \<le> bound"
    and "0 \<le> m"
  shows "on_record s' (c, p, ty) \<le>
    max (on_record s (c, p, ty) + (if start (qs_today s) < p then int (n c) * m else 0))
        (bound + extra + (int (n c) - 1) * m)"
proof -
  let ?b = "max (on_record s (c, p, ty) + (if start (qs_today s) < p then int (n c) * m else 0))
        (bound + extra + (int (n c) - 1) * m)"
  have "period_bound start ty c p (n c) m ?b ok (on_record s (c, p, ty)) s'"
    using assms(1)
  proof (induction rule: rtranclp_induct)
    case base
    have "0 \<le> int (n c) * m" using assms(8) by simp
    then show ?case using assms(2,3) by (auto simp: period_bound_def le_max_iff_disj)
  next
    case (step s1 s2)
    show ?case
    proof (rule period_bound_step [where n = n, OF step(2,3) assms(4-6) _ assms(8)])
      fix r d f
      assume "ok r" "a_client r = c" "f (c, d, ''daily'') + a_incoming r \<le> a_daily r"
        "f (c, month_start d, ''monthly'') + a_incoming r \<le> a_monthly r"
      from assms(7) [of r f d, OF this] show "f (c, start d, ty) + a_incoming r + extra + (int (n c) - 1) * m \<le> ?b"
        by (simp add: le_max_iff_disj)
    qed
  qed
  then show ?thesis by (simp add: period_bound_def)
qed

lemma month_start_mono: "d \<le> e \<Longrightarrow> month_start d \<le> month_start e"
  by (cases d; cases e) (auto simp: month_start_def less_eq_date_def)


section \<open>Examples\<close>

definition quota_example :: "unit world" where
  "quota_example = \<lparr>w_db = empty_db, w_saved = empty_db, w_redis = (), w_metrics = [],
     w_breaker = new_breaker (default_settings [] []), w_pending = 0, w_correlation_id = [], w_source_ip = []\<rparr>"

lemma quota_example_inv: "quota_inv (w_db quota_example)"
  by (simp add: quota_inv_def quota_rows_ok_def quota_example_def empty_db_def ledger_def accounted_def fun_eq_iff)

lemma quota_example_ledger: "ledger (w_db quota_example) p = 0"
  by (simp add: quota_example_def ledger_def empty_db_def)

theorem record_usage_adds_witness:
  "ledger (w_db (snd (record_usage 0 (Date 2026 5 2) 1 10 5 quota_example))) (1, Date 2026 5 1, ''monthly'') = 15"
  by (subst record_usage_adds [OF quota_example_inv, THEN conjunct2, THEN conjunct2])
     (simp add: add_usage_def month_start_def quota_example_ledger)

theorem ensure_quota_exact_witness:
  "fst (ensure_quota 0 (Date 2026 5 2) 1 100 1000 101 quota_example) = Inl (QuotaExceeded ''daily token quota exceeded'')"
  by (subst ensure_quota_exact [OF quota_example_inv, THEN conjunct1]) (simp add: quota_example_ledger)

text \<open>
  Two requests of one client at the same time: each is checked before the other is recorded, so
  both pass, and the counter ends above the limit of 100 tokens.
\<close>

definition asked_example :: asked where
  "asked_example = \<lparr>a_client = 1, a_daily = 100, a_monthly = 1000, a_incoming = 60, a_prompt = 20, a_completion = 40\<rparr>"

definition quota_start :: "unit quota_state" where
  "quota_start = \<lparr>qs_today = Date 2026 5 2, qs_flight = [], qs_world = quota_example\<rparr>"

abbreviation (input) quota_run where
  "quota_run n \<equiv> (quota_step (\<lambda>_. n) (\<lambda>r. r = asked_example))\<^sup>*\<^sup>*"

lemma example_admits:
  assumes "quota_inv (w_db (qs_world s))" and "length (flight_of 1 s) < n"
    and "on_record s (1, qs_today s, ''daily'') \<le> 40" and "on_record s (1, month_start (qs_today s), ''monthly'') \<le> 900"
  obtains w where "quota_run n s (s\<lparr>qs_flight := asked_example # qs_flight s, qs_world := w\<rparr>)"
    "quota_inv (w_db w)" "ledger (w_db w) = on_record s"
proof -
  obtain w where w: "ensure_quota 0 (qs_today s) 1 100 1000 60 (qs_world s) = (Inr (), w)"
    "quota_inv (w_db w)" "ledger (w_db w) = on_record s"
    by (rule ensure_quota_spec [OF assms(1), of 0 "qs_today s" 1 100 1000 60]) (use assms(3,4) in auto)
  have "quota_step (\<lambda>_. n) (\<lambda>r. r = asked_example) s (s\<lparr>qs_flight := asked_example # qs_flight s, qs_world := w\<rparr>)"
    by (rule quota_step.admitted [of _ _ _ _ 0]) (use assms(2) w(1) in \<open>simp_all add: asked_example_def\<close>)
  then show ?thesis using w(2,3) by (intro that [of w]) auto
qed

lemma example_records:
  assumes "quota_inv (w_db (qs_world s))" and "qs_flight s = asked_example # ys"
  obtains w where "quota_run n s (s\<lparr>qs_flight := ys, qs_world := w\<rparr>)"
    "quota_inv (w_db w)" "ledger (w_db w) = add_usage 1 (qs_today s) 60 (on_record s)"
proof -
  obtain w where w: "record_usage 0 (qs_today s) 1 20 40 (qs_world s) = (Inr (), w)"
    "quota_inv (w_db w)" "ledger (w_db w) = add_usage 1 (qs_today s) (20 + 40) (on_record s)"
    by (rule record_usage_spec [OF assms(1)])
  have "quota_step (\<lambda>_. n) (\<lambda>r. r = asked_example) s (s\<lparr>qs_flight := [] @ ys,
      qs_world := snd (record_usage 0 (qs_today s) (a_client asked_example) (a_prompt asked_example)
        (a_completion asked_example) (qs_world s))\<rparr>)"
    by (rule quota_step.recorded) (use assms(2) in simp)
  then show ?thesis using w by (intro that [of w]) (auto simp: asked_example_def)
qed

theorem overlapping_requests_exceed_the_quota:
  "\<exists>s. quota_run 2 quota_start s \<and> qs_flight s = [] \<and> on_record s (1, Date 2026 5 2, ''daily'') = 120"
proof -
  let ?s0 = "quota_start"
  have s0: "quota_inv (w_db (qs_world ?s0))" "on_record ?s0 p = 0" "qs_flight ?s0 = []"
    "qs_today ?s0 = Date 2026 5 2" for p
    by (simp_all add: quota_start_def quota_example_inv quota_example_ledger)
  obtain w1 where w1: "quota_run 2 ?s0 (?s0\<lparr>qs_flight := asked_example # qs_flight ?s0, qs_world := w1\<rparr>)"
    "quota_inv (w_db w1)" "ledger (w_db w1) = on_record ?s0"
    by (rule example_admits [of ?s0 2]) (simp_all add: s0)
  let ?s1 = "?s0\<lparr>qs_flight := [asked_example], qs_world := w1\<rparr>"
  obtain w2 where w2: "quota_run 2 ?s1 (?s1\<lparr>qs_flight := asked_example # qs_flight ?s1, qs_world := w2\<rparr>)"
    "quota_inv (w_db w2)" "ledger (w_db w2) = on_record ?s1"
    by (rule example_admits [of ?s1 2]) (simp_all add: s0 w1)
  let ?s2 = "?s1\<lparr>qs_flight := [asked_example, asked_example], qs_world := w2\<rparr>"
  obtain w3 where w3: "quota_run 2 ?s2 (?s2\<lparr>qs_flight := [asked_example], qs_world := w3\<rparr>)"
    "quota_inv (w_db w3)" "ledger (w_db w3) = add_usage 1 (qs_today ?s2) 60 (on_record ?s2)"
    by (rule example_records [of ?s2 "[asked_example]" 2]) (simp_all add: w2)
  let ?s3 = "?s2\<lparr>qs_flight := [asked_example], qs_world := w3\<rparr>"
  obtain w4 where w4: "quota_run 2 ?s3 (?s3\<lparr>qs_flight := [], qs_world := w4\<rparr>)"
    "ledger (w_db w4) = add_usage 1 (qs_today ?s3) 60 (on_record ?s3)"
    by (rule example_records [of ?s3 "[]" 2]) (simp_all add: w3)
  have "quota_run 2 ?s0 (?s3\<lparr>qs_flight := [], qs_world := w4\<rparr>)"
    using w1(1) w2(1) w3(1) w4(1) by (simp add: s0)
  moreover have "on_record (?s3\<lparr>qs_flight := [], qs_world := w4\<rparr>) (1, Date 2026 5 2, ''daily'') = 120"
    by (simp add: w4 w3 w2 w1 s0 add_usage_def)
  ultimately show ?thesis by fastforce
qed


end
