(* ===== verification/BillingPlans.thy ===== *)
theory BillingPlans
  imports Quota
begin

text \<open>
  Plans, prices and usage snapshots (\<open>services/billing.py\<close>, first half): the default plans and
  rules, the effective plan of a client, the cost of a request and the preview of an invoice.
  \<open>Decimal\<close> amounts are rationals, rounded half up to six places where the code quantizes.
\<close>

section \<open>Money\<close>

text \<open>\<open>quantize(Decimal("0.000001"), rounding=ROUND_HALF_UP)\<close>: ties go away from zero.\<close>

definition quantize6 :: "rat \<Rightarrow> rat" where
  "quantize6 x = (if x < 0 then - (of_int \<lfloor>- x * 1000000 + 1 / 2\<rfloor> / 1000000)
     else of_int \<lfloor>x * 1000000 + 1 / 2\<rfloor> / 1000000)"

lemma quantize6_error: "\<bar>quantize6 x - x\<bar> \<le> 1 / 2000000"
proof -
  have "\<bar>of_int \<lfloor>y * 1000000 + 1 / 2\<rfloor> / 1000000 - y\<bar> \<le> 1 / 2000000" for y :: rat
  proof -
    have "of_int \<lfloor>y * 1000000 + 1 / 2\<rfloor> \<le> y * 1000000 + 1 / 2"
      "y * 1000000 + 1 / 2 < of_int \<lfloor>y * 1000000 + 1 / 2\<rfloor> + 1" by linarith+
    then show ?thesis unfolding abs_le_iff by (intro conjI) linarith+
  qed
  from this [of x] this [of "- x"] show ?thesis
    unfolding quantize6_def abs_le_iff by (cases "x < 0") (simp_all only: if_True if_False, linarith+)
qed

lemma quantize6_nonneg: "0 \<le> x \<Longrightarrow> 0 \<le> quantize6 x"
  by (simp add: quantize6_def)

lemma quantize6_mono: "0 \<le> x \<Longrightarrow> x \<le> y \<Longrightarrow> quantize6 x \<le> quantize6 y"
  by (simp add: quantize6_def floor_mono divide_right_mono)

lemma quantize6_id: "x = of_int n / 1000000 \<Longrightarrow> quantize6 x = x"
proof -
  assume x: "x = of_int n / 1000000"
  have "\<lfloor>of_int m + 1 / 2 :: rat\<rfloor> = m" for m by linarith
  from this [of n] this [of "- n"] show ?thesis by (simp add: quantize6_def x)
qed

lemma quantize6_quantized: "\<exists>n. quantize6 x = of_int n / 1000000"
proof (cases "x < 0")
  case True
  then have "quantize6 x = of_int (- \<lfloor>- x * 1000000 + 1 / 2\<rfloor>) / 1000000" by (simp add: quantize6_def)
  then show ?thesis by blast
next
  case False
  then show ?thesis by (auto simp: quantize6_def)
qed

lemma quantize6_0 [simp]: "quantize6 0 = 0"
  by (rule quantize6_id [of 0 0]) simp

section \<open>Effective plans\<close>

record effective_plan =
  ep_code :: string
  ep_name :: string
  ep_rate_limit_per_minute :: int
  ep_daily_token_quota :: int
  ep_monthly_token_quota :: int
  ep_max_output_tokens :: int
  ep_allow_streaming :: bool
  ep_monthly_price :: rat
  ep_overage_price_per_1k_tokens :: rat
  ep_currency :: string

definition active_rule :: "db \<Rightarrow> billing_plan \<Rightarrow> pricing_rule option" where
  "active_rule d plan = List.find pr_is_active (plan_rules d plan)"

definition resolve_effective_plan :: "db \<Rightarrow> client \<Rightarrow> effective_plan" where
  "resolve_effective_plan d client =
     (case client_plan d client of
        Some plan \<Rightarrow>
          (let rule = active_rule d plan in
           \<lparr>ep_code = p_code plan, ep_name = p_name plan,
            ep_rate_limit_per_minute = p_rate_limit_per_minute plan,
            ep_daily_token_quota = p_daily_token_quota plan,
            ep_monthly_token_quota = p_monthly_token_quota plan,
            ep_max_output_tokens = p_max_output_tokens plan,
            ep_allow_streaming = p_allow_streaming plan,
            ep_monthly_price = (case rule of None \<Rightarrow> 0 | Some r \<Rightarrow> pr_monthly_price r),
            ep_overage_price_per_1k_tokens = (case rule of None \<Rightarrow> 0 | Some r \<Rightarrow> pr_overage_price_per_1k_tokens r),
            ep_currency = (case rule of None \<Rightarrow> ''USD'' | Some r \<Rightarrow> pr_currency r)\<rparr>)
      | None \<Rightarrow>
          \<lparr>ep_code = ''legacy'', ep_name = ''Legacy'',
           ep_rate_limit_per_minute = c_rate_limit_per_minute client,
           ep_daily_token_quota = c_daily_token_quota client,
           ep_monthly_token_quota = c_monthly_token_quota client,
           ep_max_output_tokens = c_max_output_tokens client,
           ep_allow_streaming = True,
           ep_monthly_price = 0, ep_overage_price_per_1k_tokens = 0, ep_currency = ''USD''\<rparr>)"

section \<open>Default plans and prices\<close>

record plan_payload =
  pp_code :: string
  pp_name :: string
  pp_description :: string
  pp_rate_limit_per_minute :: int
  pp_daily_token_quota :: int
  pp_monthly_token_quota :: int
  pp_max_output_tokens :: int
  pp_allow_streaming :: bool

definition DEFAULT_BILLING_PLANS :: "plan_payload list" where
  "DEFAULT_BILLING_PLANS = [
     \<lparr>pp_code = ''free'', pp_name = ''Free'',
      pp_description = ''Starter plan for sandbox usage with strict limits and no card required.'',
      pp_rate_limit_per_minute = 3, pp_daily_token_quota = 5000, pp_monthly_token_quota = 50000,
      pp_max_output_tokens = 32768, pp_allow_streaming = False\<rparr>,
     \<lparr>pp_code = ''basic'', pp_name = ''Basic'',
      pp_description = ''Production starter with streaming and predictable shared capacity.'',
      pp_rate_limit_per_minute = 15, pp_daily_token_quota = 75000, pp_monthly_token_quota = 750000,
      pp_max_output_tokens = 32768, pp_allow_streaming = True\<rparr>,
     \<lparr>pp_code = ''pro'', pp_name = ''Pro'',
      pp_description = ''Growth plan with higher throughput for customer-facing workloads.'',
      pp_rate_limit_per_minute = 45, pp_daily_token_quota = 300000, pp_monthly_token_quota = 4000000,
      pp_max_output_tokens = 32768, pp_allow_streaming = True\<rparr>,
     \<lparr>pp_code = ''enterprise'', pp_name = ''Enterprise'',
      pp_description = ''High-volume plan for dedicated routing, premium support and custom rollout.'',
      pp_rate_limit_per_minute = 120, pp_daily_token_quota = 1500000, pp_monthly_token_quota = 15000000,
      pp_max_output_tokens = 32768, pp_allow_streaming = True\<rparr>]"

record rule_payload =
  rp_currency :: string
  rp_monthly_price :: rat
  rp_overage_price_per_1k_tokens :: rat
  rp_description :: string

definition DEFAULT_PRICING_RULES :: "(string \<times> rule_payload) list" where
  "DEFAULT_PRICING_RULES = [
     (''free'', \<lparr>rp_currency = ''USD'', rp_monthly_price = 0, rp_overage_price_per_1k_tokens = 0,
        rp_description = ''Free plan with hard limits and no overage.''\<rparr>),
     (''basic'', \<lparr>rp_currency = ''USD'', rp_monthly_price = 29, rp_overage_price_per_1k_tokens = 4 / 100,
        rp_description = ''Starter paid plan.''\<rparr>),
     (''pro'', \<lparr>rp_currency = ''USD'', rp_monthly_price = 99, rp_overage_price_per_1k_tokens = 3 / 100,
        rp_description = ''Growth plan with better unit economics.''\<rparr>),
     (''enterprise'', \<lparr>rp_currency = ''USD'', rp_monthly_price = 399, rp_overage_price_per_1k_tokens = 25 / 1000,
        rp_description = ''Dedicated enterprise rollout.''\<rparr>)]"

definition new_plan :: "timestamp \<Rightarrow> uuid \<Rightarrow> plan_payload \<Rightarrow> billing_plan" where
  "new_plan now pid payload = \<lparr>p_id = pid, p_code = pp_code payload, p_name = pp_name payload,
     p_description = Some (pp_description payload),
     p_rate_limit_per_minute = pp_rate_limit_per_minute payload,
     p_daily_token_quota = pp_daily_token_quota payload,
     p_monthly_token_quota = pp_monthly_token_quota payload,
     p_max_output_tokens = pp_max_output_tokens payload,
     p_allow_streaming = pp_allow_streaming payload, p_is_active = True,
     p_allowed_models_json = None, p_created_at = now, p_updated_at = now\<rparr>"

definition apply_plan :: "plan_payload \<Rightarrow> billing_plan \<Rightarrow> billing_plan" where
  "apply_plan payload p = p\<lparr>p_code := pp_code payload, p_name := pp_name payload,
     p_description := Some (pp_description payload),
     p_rate_limit_per_minute := pp_rate_limit_per_minute payload,
     p_daily_token_quota := pp_daily_token_quota payload,
     p_monthly_token_quota := pp_monthly_token_quota payload,
     p_max_output_tokens := pp_max_output_tokens payload,
     p_allow_streaming := pp_allow_streaming payload\<rparr>"

text \<open>
  The dict from code to plan the function returns is the table looked up by code, since the code
  column is unique; the flush of a plan whose name is taken by another code fails.
\<close>

definition plan_by_code :: "db \<Rightarrow> string \<Rightarrow> billing_plan option" where
  "plan_by_code d code = List.find (\<lambda>p. p_code p = code) (billing_plans d)"

definition ensure_default_plan :: "timestamp \<Rightarrow> plan_payload \<Rightarrow> ('r, unit) act" where
  "ensure_default_plan now payload =
     bindE (query (\<lambda>d. (plan_by_code d (pp_code payload),
         \<exists>p\<in>set (billing_plans d). p_code p \<noteq> pp_code payload \<and> p_name p = pp_name payload))) (\<lambda>(plan, clash).
     if clash then raise (IntegrityError ''billing_plans.name'')
     else case plan of
       None \<Rightarrow> bindE fresh_id (\<lambda>pid.
         update (\<lambda>d. d\<lparr>billing_plans := billing_plans d @ [new_plan now pid payload]\<rparr>))
     | Some _ \<Rightarrow> update (\<lambda>d. d\<lparr>billing_plans :=
         upd_where (\<lambda>p. p_code p = pp_code payload) (apply_plan payload) (billing_plans d)\<rparr>))"

definition ensure_default_billing_plans :: "timestamp \<Rightarrow> ('r, unit) act" where
  "ensure_default_billing_plans now = bindE (forE DEFAULT_BILLING_PLANS (ensure_default_plan now)) (\<lambda>_. ret ())"

definition ensure_default_rule :: "timestamp \<Rightarrow> string \<times> rule_payload \<Rightarrow> ('r, unit) act" where
  "ensure_default_rule now entry = (case entry of (code, payload) \<Rightarrow>
     bindE (query (\<lambda>d. plan_by_code d code)) (\<lambda>plan.
     case plan of
       None \<Rightarrow> raise (KeyError code)
     | Some p \<Rightarrow>
         bindE (query (\<lambda>d. List.find (\<lambda>r. pr_is_active r \<and> pr_billing_plan_id r = p_id p) (rev (pricing_rules d)))) (\<lambda>rule.
         case rule of
           None \<Rightarrow> bindE fresh_id (\<lambda>rid. update (\<lambda>d. d\<lparr>pricing_rules := pricing_rules d @
             [\<lparr>pr_id = rid, pr_billing_plan_id = p_id p, pr_currency = rp_currency payload,
               pr_monthly_price = rp_monthly_price payload,
               pr_overage_price_per_1k_tokens = rp_overage_price_per_1k_tokens payload,
               pr_description = Some (rp_description payload), pr_is_active = True,
               pr_created_at = now, pr_updated_at = now\<rparr>]\<rparr>))
         | Some r \<Rightarrow> update (\<lambda>d. d\<lparr>pricing_rules := upd_where (\<lambda>x. pr_id x = pr_id r)
             (\<lambda>x. x\<lparr>pr_currency := rp_currency payload, pr_monthly_price := rp_monthly_price payload,
                    pr_overage_price_per_1k_tokens := rp_overage_price_per_1k_tokens payload,
                    pr_description := Some (rp_description payload)\<rparr>) (pricing_rules d)\<rparr>))))"

definition ensure_default_pricing_rules :: "timestamp \<Rightarrow> ('r, unit) act" where
  "ensure_default_pricing_rules now = bindE (forE DEFAULT_PRICING_RULES (ensure_default_rule now)) (\<lambda>_. ret ())"

section \<open>Months\<close>

definition month_window :: "date \<Rightarrow> date \<times> date" where
  "month_window reference_date =
     (let end_day = days_in_month (dyear reference_date) (dmonth reference_date) in
      (Date (dyear reference_date) (dmonth reference_date) 1,
       Date (dyear reference_date) (dmonth reference_date) end_day))"

definition previous_month_date :: "date \<Rightarrow> date" where
  "previous_month_date reference_date =
     previous_day (Date (dyear reference_date) (dmonth reference_date) 1)"

definition should_generate_monthly_invoices :: "date \<Rightarrow> int \<Rightarrow> bool" where
  "should_generate_monthly_invoices reference_date invoice_day = (dday reference_date = invoice_day)"

section \<open>Costs\<close>

definition estimate_request_cost :: "int \<Rightarrow> int \<Rightarrow> int \<Rightarrow> rat \<Rightarrow> rat" where
  "estimate_request_cost monthly_tokens_used_before request_tokens included_monthly_tokens overage_price =
     (let before_overage = max (monthly_tokens_used_before - included_monthly_tokens) 0;
          after_overage = max (monthly_tokens_used_before + request_tokens - included_monthly_tokens) 0;
          marginal_overage_tokens = max (after_overage - before_overage) 0 in
      if marginal_overage_tokens \<le> 0 then 0
      else quantize6 (of_int marginal_overage_tokens / 1000 * overage_price))"

text \<open>
  The preview's amounts are floats of these values; \<open>Decimal(str(...))\<close> reads them back when an
  invoice is built from it.
\<close>

record invoice_preview =
  iv_currency :: string
  iv_monthly_price :: rat
  iv_included_tokens :: int
  iv_used_tokens :: int
  iv_overage_tokens :: int
  iv_overage_price_per_1k_tokens :: rat
  iv_overage_cost :: rat
  iv_total_estimated :: rat

definition build_invoice_preview :: "effective_plan \<Rightarrow> int \<Rightarrow> invoice_preview" where
  "build_invoice_preview plan monthly_used_tokens =
     (let included_tokens = ep_monthly_token_quota plan;
          overage_tokens = max (monthly_used_tokens - included_tokens) 0;
          overage_cost = quantize6 (of_int overage_tokens / 1000 * ep_overage_price_per_1k_tokens plan);
          total_estimated = quantize6 (ep_monthly_price plan + overage_cost) in
      \<lparr>iv_currency = ep_currency plan, iv_monthly_price = ep_monthly_price plan,
       iv_included_tokens = included_tokens, iv_used_tokens = monthly_used_tokens,
       iv_overage_tokens = overage_tokens,
       iv_overage_price_per_1k_tokens = ep_overage_price_per_1k_tokens plan,
       iv_overage_cost = overage_cost, iv_total_estimated = total_estimated\<rparr>)"

definition preview_json :: "invoice_preview \<Rightarrow> json" where
  "preview_json p = JObj [
     (''currency'', JStr (iv_currency p)),
     (''monthly_price'', JFloat (iv_monthly_price p)),
     (''included_tokens'', JInt (iv_included_tokens p)),
     (''used_tokens'', JInt (iv_used_tokens p)),
     (''overage_tokens'', JInt (iv_overage_tokens p)),
     (''overage_price_per_1k_tokens'', JFloat (iv_overage_price_per_1k_tokens p)),
     (''overage_cost'', JFloat (iv_overage_cost p)),
     (''total_estimated'', JFloat (iv_total_estimated p))]"

section \<open>Usage snapshots\<close>

definition usage_snapshot_period ::
  "uuid \<Rightarrow> string \<times> date \<Rightarrow> ('r, quota_counter option) act" where
  "usage_snapshot_period client_id period = (case period of (period_type, period_start) \<Rightarrow>
     bindE (query (\<lambda>d. filter (\<lambda>q. q_client_id q = client_id \<and> q_period_type q = period_type \<and>
       q_period_start q = period_start) (quota_counters d))) (\<lambda>rows. liftE (scalar_one_or_none rows)))"

text \<open>The daily and the monthly counter.\<close>

definition get_usage_snapshot_for_date ::
  "uuid \<Rightarrow> date \<Rightarrow> ('r, quota_counter option \<times> quota_counter option) act" where
  "get_usage_snapshot_for_date client_id reference_date =
     bindE (usage_snapshot_period client_id (''daily'', reference_date)) (\<lambda>daily.
     bindE (usage_snapshot_period client_id (''monthly'', month_start reference_date)) (\<lambda>monthly.
     ret (daily, monthly)))"

definition get_current_usage_snapshot ::
  "date \<Rightarrow> uuid \<Rightarrow> ('r, quota_counter option \<times> quota_counter option) act" where
  "get_current_usage_snapshot today client_id = get_usage_snapshot_for_date client_id today"

definition used_tokens_of :: "quota_counter option \<Rightarrow> int" where
  "used_tokens_of q = (case q of None \<Rightarrow> 0 | Some q \<Rightarrow> q_used_tokens q)"

record snapshot =
  sn_client :: client
  sn_effective_plan :: effective_plan
  sn_pricing_rule :: "pricing_rule option"
  sn_daily_used_tokens :: int
  sn_monthly_used_tokens :: int
  sn_invoice_preview :: invoice_preview

text \<open>\<open>order_by(created_at.desc())\<close>; rows created at the same time keep the order of the table.\<close>

definition newest_first :: "('a \<Rightarrow> timestamp) \<Rightarrow> 'a list \<Rightarrow> 'a list" where
  "newest_first created rows = sort_key (\<lambda>x. - created x) rows"

definition client_snapshot :: "date \<Rightarrow> client \<Rightarrow> ('r, snapshot) act" where
  "client_snapshot usage_date client =
     bindE (query (\<lambda>d. (resolve_effective_plan d client,
       case client_plan d client of None \<Rightarrow> None | Some plan \<Rightarrow> active_rule d plan))) (\<lambda>(plan, rule).
     bindE (get_usage_snapshot_for_date (c_id client) usage_date) (\<lambda>(daily, monthly).
     ret \<lparr>sn_client = client, sn_effective_plan = plan, sn_pricing_rule = rule,
          sn_daily_used_tokens = used_tokens_of daily,
          sn_monthly_used_tokens = used_tokens_of monthly,
          sn_invoice_preview = build_invoice_preview plan (used_tokens_of monthly)\<rparr>))"

definition list_client_billing_snapshots :: "uuid option \<Rightarrow> date \<Rightarrow> ('r, snapshot list) act" where
  "list_client_billing_snapshots client_id usage_date =
     bindE (query (\<lambda>d. newest_first c_created_at (case client_id of None \<Rightarrow> clients d
       | Some cid \<Rightarrow> filter (\<lambda>c. c_id c = cid) (clients d)))) (\<lambda>rows.
     forE rows (client_snapshot usage_date))"

section \<open>Properties\<close>

text \<open>The costs of a client's requests in a month, each charged on top of those before.\<close>

fun request_costs :: "int \<Rightarrow> int \<Rightarrow> rat \<Rightarrow> int list \<Rightarrow> rat" where
  "request_costs used included price [] = 0"
| "request_costs used included price (n # ns) =
     estimate_request_cost used n included price + request_costs (used + n) included price ns"

definition overage :: "int \<Rightarrow> int \<Rightarrow> int" where
  "overage used included = max (used - included) 0"

lemma estimate_request_cost_error:
  assumes "0 \<le> n"
  shows "\<bar>estimate_request_cost used n included price -
     of_int (overage (used + n) included - overage used included) / 1000 * price\<bar> \<le> 1 / 2000000"
proof -
  let ?m = "overage (used + n) included - overage used included"
  have m: "max (max (used + n - included) 0 - max (used - included) 0) 0 = ?m"
    using assms by (simp add: overage_def)
  show ?thesis
  proof (cases "?m \<le> 0")
    case True
    moreover have "0 \<le> ?m" using assms by (simp add: overage_def)
    ultimately have z: "?m = 0" by linarith
    have "estimate_request_cost used n included price = 0"
      unfolding estimate_request_cost_def Let_def m z by simp
    with z show ?thesis by simp
  next
    case False
    then have "estimate_request_cost used n included price = quantize6 (of_int ?m / 1000 * price)"
      unfolding estimate_request_cost_def Let_def m by simp
    then show ?thesis using quantize6_error by simp
  qed
qed

lemma request_costs_error:
  assumes "\<forall>n\<in>set ns. 0 \<le> n"
  shows "\<bar>request_costs used included price ns -
     of_int (overage (used + sum_list ns) included - overage used included) / 1000 * price\<bar>
     \<le> of_nat (length ns) / 2000000"
  using assms
proof (induction ns arbitrary: used)
  case Nil
  then show ?case by simp
next
  case (Cons n ns)
  let ?a = "of_int (overage (used + n) included - overage used included) / 1000 * price"
  let ?b = "of_int (overage (used + n + sum_list ns) included - overage (used + n) included) / 1000 * price"
  have "\<bar>estimate_request_cost used n included price - ?a\<bar> \<le> 1 / 2000000"
    using Cons.prems by (intro estimate_request_cost_error) simp
  moreover have "\<bar>request_costs (used + n) included price ns - ?b\<bar> \<le> of_nat (length ns) / 2000000"
    using Cons by simp
  moreover have "of_int (overage (used + sum_list (n # ns)) included - overage used included) / 1000 * price = ?a + ?b"
    by (simp add: add.assoc) (simp add: field_simps)
  moreover have "of_nat (length (n # ns)) / 2000000 = 1 / 2000000 + of_nat (length ns) / (2000000 :: rat)"
    by (simp add: add_divide_distrib)
  ultimately show ?case
    unfolding request_costs.simps by (simp only: abs_le_iff) linarith
qed


definition plan_example :: effective_plan where
  "plan_example = \<lparr>ep_code = ''pro'', ep_name = ''Pro'', ep_rate_limit_per_minute = 45,
     ep_daily_token_quota = 300000, ep_monthly_token_quota = 1000, ep_max_output_tokens = 32768,
     ep_allow_streaming = True, ep_monthly_price = 99, ep_overage_price_per_1k_tokens = 3 / 100,
     ep_currency = ''USD''\<rparr>"


text \<open>The month before the month of a day, as a window: it ends the day before this month starts.\<close>

lemma previous_month_window:
  assumes "valid_date d"
  shows "snd (month_window (previous_month_date d)) = previous_month_date d"
    and "previous_day (fst (month_window d)) = snd (month_window (previous_month_date d))"
  using assms days_in_month_bounds [of "dyear d" "dmonth d - 1"]
  by (auto simp: month_window_def previous_month_date_def previous_day_def Let_def valid_date_def days_in_month_def)

end
