(* ===== verification/Invoices.thy ===== *)
theory Invoices
  imports BillingPlans
begin

text \<open>
  The monthly invoices (\<open>services/billing.py\<close>, second half, and \<open>services/billing_scheduler.py\<close>):
  building an invoice from a usage snapshot, generating the invoices of the previous month, moving
  unpaid ones and their clients to overdue, past due and suspended, and serialising them.
  \<open>via_float\<close> stands for \<open>Decimal(str(float(x)))\<close>, the way the preview's amounts are read back.
\<close>

section \<open>Statuses\<close>

definition INVOICE_STATUSES :: "string list" where
  "INVOICE_STATUSES = [''pending'', ''paid'', ''overdue'', ''cancelled'']"

definition CLIENT_BILLING_STATUSES :: "string list" where
  "CLIENT_BILLING_STATUSES = [''active'', ''past_due'', ''suspended'']"

definition MANUAL_PIX_PAYMENT_METHOD :: string where
  "MANUAL_PIX_PAYMENT_METHOD = ''manual_pix''"

definition normalize_invoice_status :: "string \<Rightarrow> timestamp option \<Rightarrow> timestamp \<Rightarrow> string" where
  "normalize_invoice_status status due_at now =
     (case due_at of
        None \<Rightarrow> status
      | Some due \<Rightarrow>
          if status \<noteq> ''pending'' then status
          else if due < now then ''overdue'' else status)"

definition derive_client_billing_status :: "bool \<Rightarrow> bool \<Rightarrow> string" where
  "derive_client_billing_status has_overdue_invoice should_suspend =
     (if should_suspend then ''suspended''
      else if has_overdue_invoice then ''past_due''
      else ''active'')"

section \<open>Building an invoice\<close>

record invoice_data =
  d_client_id :: uuid
  d_billing_plan_id :: "uuid option"
  d_pricing_rule_id :: "uuid option"
  d_status :: string
  d_currency :: string
  d_period_start :: date
  d_period_end :: date
  d_monthly_price :: rat
  d_included_tokens :: int
  d_used_tokens :: int
  d_overage_tokens :: int
  d_overage_price_per_1k_tokens :: rat
  d_overage_cost :: rat
  d_total_amount :: rat
  d_payment_method :: string
  d_payment_instructions :: "string option"
  d_due_at :: timestamp

definition build_invoice_record_data ::
  "(rat \<Rightarrow> rat) \<Rightarrow> client \<Rightarrow> effective_plan \<Rightarrow> pricing_rule option \<Rightarrow> int \<Rightarrow> date \<Rightarrow> int \<Rightarrow> string \<Rightarrow>
   string option \<Rightarrow> timestamp \<Rightarrow> invoice_data" where
  "build_invoice_record_data via_float client plan pricing_rule monthly_used_tokens period_reference
     due_in_days payment_method payment_instructions now =
     (let window = month_window period_reference;
          preview = build_invoice_preview plan monthly_used_tokens;
          due_at = now + days due_in_days in
      \<lparr>d_client_id = c_id client, d_billing_plan_id = c_billing_plan_id client,
       d_pricing_rule_id = map_option pr_id pricing_rule, d_status = ''pending'',
       d_currency = iv_currency preview, d_period_start = fst window, d_period_end = snd window,
       d_monthly_price = via_float (iv_monthly_price preview),
       d_included_tokens = iv_included_tokens preview, d_used_tokens = iv_used_tokens preview,
       d_overage_tokens = iv_overage_tokens preview,
       d_overage_price_per_1k_tokens = via_float (iv_overage_price_per_1k_tokens preview),
       d_overage_cost = via_float (iv_overage_cost preview),
       d_total_amount = via_float (iv_total_estimated preview),
       d_payment_method = payment_method, d_payment_instructions = payment_instructions,
       d_due_at = due_at\<rparr>)"

definition new_invoice :: "timestamp \<Rightarrow> uuid \<Rightarrow> invoice_data \<Rightarrow> invoice" where
  "new_invoice now iid x = \<lparr>i_id = iid, i_client_id = d_client_id x,
     i_billing_plan_id = d_billing_plan_id x, i_pricing_rule_id = d_pricing_rule_id x,
     i_status = d_status x, i_currency = d_currency x, i_period_start = d_period_start x,
     i_period_end = d_period_end x, i_monthly_price = d_monthly_price x,
     i_included_tokens = d_included_tokens x, i_used_tokens = d_used_tokens x,
     i_overage_tokens = d_overage_tokens x,
     i_overage_price_per_1k_tokens = d_overage_price_per_1k_tokens x,
     i_overage_cost = d_overage_cost x, i_total_amount = d_total_amount x,
     i_payment_method = d_payment_method x, i_payment_instructions = d_payment_instructions x,
     i_due_at = Some (d_due_at x), i_paid_at = None, i_cancelled_at = None,
     i_created_at = now, i_updated_at = now\<rparr>"

text \<open>The \<open>setattr\<close> loop: every field but the client and the period.\<close>

definition apply_invoice_data :: "invoice_data \<Rightarrow> invoice \<Rightarrow> invoice" where
  "apply_invoice_data x i = i\<lparr>i_billing_plan_id := d_billing_plan_id x,
     i_pricing_rule_id := d_pricing_rule_id x, i_status := d_status x, i_currency := d_currency x,
     i_monthly_price := d_monthly_price x, i_included_tokens := d_included_tokens x,
     i_used_tokens := d_used_tokens x, i_overage_tokens := d_overage_tokens x,
     i_overage_price_per_1k_tokens := d_overage_price_per_1k_tokens x,
     i_overage_cost := d_overage_cost x, i_total_amount := d_total_amount x,
     i_payment_method := d_payment_method x, i_payment_instructions := d_payment_instructions x,
     i_due_at := Some (d_due_at x), i_paid_at := None, i_cancelled_at := None\<rparr>"

definition new_payment :: "timestamp \<Rightarrow> uuid \<Rightarrow> uuid \<Rightarrow> uuid \<Rightarrow> invoice \<Rightarrow> payment" where
  "new_payment now yid invoice_id client_id i = \<lparr>y_id = yid, y_invoice_id = invoice_id,
     y_client_id = client_id, y_status = i_status i, y_amount = i_total_amount i,
     y_currency = i_currency i, y_payment_method = i_payment_method i, y_payment_reference = None,
     y_note = i_payment_instructions i, y_paid_at = None, y_cancelled_at = None,
     y_created_at = now, y_updated_at = now\<rparr>"

section \<open>Refreshing statuses\<close>

definition is_late :: "timestamp \<Rightarrow> invoice \<Rightarrow> bool" where
  "is_late now i = (i_status i = ''pending'' \<and> (case i_due_at i of None \<Rightarrow> False | Some due \<Rightarrow> due < now))"

text \<open>The first loop: the late invoices and their pending payments.\<close>

definition mark_late_invoices :: "timestamp \<Rightarrow> db \<Rightarrow> db" where
  "mark_late_invoices now d =
     (let late = filter (is_late now) (invoices d) in
      d\<lparr>invoices := upd_where (is_late now) (\<lambda>i. i\<lparr>i_status := ''overdue'', i_updated_at := now\<rparr>) (invoices d),
        payments := upd_where (\<lambda>y. y_status y = ''pending'' \<and> y_invoice_id y \<in> set (map i_id late))
          (\<lambda>y. y\<lparr>y_status := ''overdue'', y_updated_at := now\<rparr>) (payments d)\<rparr>)"

definition overdue_invoices :: "db \<Rightarrow> client \<Rightarrow> invoice list" where
  "overdue_invoices d client = filter (\<lambda>i. i_status i = ''overdue'') (client_invoices d client)"

definition should_suspend :: "timestamp \<Rightarrow> int \<Rightarrow> invoice list \<Rightarrow> bool" where
  "should_suspend now suspend_after_days overdue =
     list_ex (\<lambda>i. case i_due_at i of None \<Rightarrow> False
       | Some due \<Rightarrow> due + days suspend_after_days < now) overdue"

definition next_billing_status :: "timestamp \<Rightarrow> int \<Rightarrow> db \<Rightarrow> client \<Rightarrow> string" where
  "next_billing_status now suspend_after_days d client =
     (let overdue = overdue_invoices d client in
      derive_client_billing_status (overdue \<noteq> []) (should_suspend now suspend_after_days overdue))"

text \<open>The second loop, over the clients.\<close>

definition refresh_clients :: "timestamp \<Rightarrow> int \<Rightarrow> db \<Rightarrow> db" where
  "refresh_clients now suspend_after_days d =
     d\<lparr>clients := map (\<lambda>c. let next_status = next_billing_status now suspend_after_days d c in
        if next_status \<noteq> c_billing_status c
        then c\<lparr>c_billing_status := next_status, c_updated_at := now\<rparr> else c) (clients d)\<rparr>"

definition refresh_billing_statuses :: "timestamp \<Rightarrow> int \<Rightarrow> db \<Rightarrow> (int \<times> int) \<times> db" where
  "refresh_billing_statuses now suspend_after_days d =
     (let updated_invoices = int (length (filter (is_late now) (invoices d)));
          d1 = mark_late_invoices now d;
          updated_clients = int (length (filter
            (\<lambda>c. next_billing_status now suspend_after_days d1 c \<noteq> c_billing_status c) (clients d1))) in
      ((updated_invoices, updated_clients), refresh_clients now suspend_after_days d1))"

section \<open>Generating the invoices of the previous month\<close>

datatype outcome = Created uuid | Updated uuid | Skipped uuid uuid string

text \<open>One turn of the loop over the snapshots.\<close>

definition sync_open_payment :: "timestamp \<Rightarrow> client \<Rightarrow> invoice \<Rightarrow> ('r, unit) act" where
  "sync_open_payment now client i =
     bindE (query (\<lambda>d. List.find (\<lambda>y. y_status y \<in> {''pending'', ''overdue''}) (invoice_payments d i))) (\<lambda>open.
     case open of
       None \<Rightarrow> bindE fresh_id (\<lambda>yid.
         update (\<lambda>d. d\<lparr>payments := payments d @ [new_payment now yid (i_id i) (c_id client) i]\<rparr>))
     | Some y \<Rightarrow> update (\<lambda>d. d\<lparr>payments := upd_where (\<lambda>x. y_id x = y_id y)
         (\<lambda>x. x\<lparr>y_status := i_status i, y_amount := i_total_amount i, y_currency := i_currency i,
                y_payment_method := i_payment_method i, y_note := i_payment_instructions i,
                y_updated_at := now\<rparr>) (payments d)\<rparr>))"

definition invoice_step :: "timestamp \<Rightarrow> client \<Rightarrow> invoice_data \<Rightarrow> ('r, outcome) act" where
  "invoice_step now client x =
     bindE (query (\<lambda>d. filter (\<lambda>i. i_client_id i = c_id client \<and> i_period_start i = d_period_start x \<and>
        i_period_end i = d_period_end x) (invoices d))) (\<lambda>rows.
     bindE (liftE (scalar_one_or_none rows)) (\<lambda>existing.
     case existing of
       None \<Rightarrow>
         bindE fresh_id (\<lambda>iid.
         let i = new_invoice now iid x in
         seqE (update (\<lambda>d. d\<lparr>invoices := invoices d @ [i]\<rparr>))
           (bindE fresh_id (\<lambda>yid.
            seqE (update (\<lambda>d. d\<lparr>payments := payments d @ [new_payment now yid iid (c_id client) i]\<rparr>))
              (ret (Created iid)))))
     | Some e \<Rightarrow>
         if i_status e \<in> {''paid'', ''cancelled''} then ret (Skipped (i_id e) (c_id client) (i_status e))
         else
           seqE (update (\<lambda>d. d\<lparr>invoices := upd_where (\<lambda>i. i_id i = i_id e) (apply_invoice_data x) (invoices d)\<rparr>))
             (seqE (sync_open_payment now client (apply_invoice_data x e)) (ret (Updated (i_id e))))))"

record generation =
  g_generated_at :: timestamp
  g_created :: "uuid list"
  g_updated :: "uuid list"
  g_skipped :: "(uuid \<times> uuid \<times> string) list"
  g_reason :: "string option"

definition created_of :: "outcome list \<Rightarrow> uuid list" where
  "created_of os = concat (map (\<lambda>x. case x of Created i \<Rightarrow> [i] | _ \<Rightarrow> []) os)"

definition updated_of :: "outcome list \<Rightarrow> uuid list" where
  "updated_of os = concat (map (\<lambda>x. case x of Updated i \<Rightarrow> [i] | _ \<Rightarrow> []) os)"

definition skipped_of :: "outcome list \<Rightarrow> (uuid \<times> uuid \<times> string) list" where
  "skipped_of os = concat (map (\<lambda>x. case x of Skipped i c s \<Rightarrow> [(i, c, s)] | _ \<Rightarrow> []) os)"

record billing_options =
  bo_invoice_day :: int
  bo_due_in_days :: int
  bo_suspend_after_days :: int
  bo_payment_method :: string
  bo_payment_instructions :: "string option"
  bo_force :: bool
  bo_client_id :: "uuid option"

definition snapshot_data :: "(rat \<Rightarrow> rat) \<Rightarrow> timestamp \<Rightarrow> billing_options \<Rightarrow> snapshot \<Rightarrow> invoice_data" where
  "snapshot_data via_float now opts sn =
     build_invoice_record_data via_float (sn_client sn) (sn_effective_plan sn) (sn_pricing_rule sn)
       (sn_monthly_used_tokens sn) (previous_month_date (date_of now)) (bo_due_in_days opts)
       (bo_payment_method opts) (bo_payment_instructions opts) now"

definition generate_monthly_invoices ::
  "(rat \<Rightarrow> rat) \<Rightarrow> timestamp \<Rightarrow> billing_options \<Rightarrow> ('r, generation) act" where
  "generate_monthly_invoices via_float now opts =
     (let today = date_of now in
      if \<not> bo_force opts \<and> \<not> should_generate_monthly_invoices today (bo_invoice_day opts)
      then ret \<lparr>g_generated_at = now, g_created = [], g_updated = [], g_skipped = [],
                g_reason = Some ''invoice day not reached''\<rparr>
      else
        bindE (list_client_billing_snapshots (bo_client_id opts) (previous_month_date today)) (\<lambda>snapshots.
        bindE (forE snapshots (\<lambda>sn. invoice_step now (sn_client sn) (snapshot_data via_float now opts sn))) (\<lambda>outcomes.
        seqE (update (\<lambda>d. snd (refresh_billing_statuses now (bo_suspend_after_days opts) d)))
          (ret \<lparr>g_generated_at = now, g_created = created_of outcomes, g_updated = updated_of outcomes,
                g_skipped = skipped_of outcomes, g_reason = None\<rparr>))))"

section \<open>Serialisation\<close>

definition serialize_payment :: "payment \<Rightarrow> json" where
  "serialize_payment y = JObj [
     (''id'', JStr (uuid_str (y_id y))),
     (''invoice_id'', JStr (uuid_str (y_invoice_id y))),
     (''client_id'', JStr (uuid_str (y_client_id y))),
     (''status'', JStr (y_status y)),
     (''amount'', JFloat (y_amount y)),
     (''currency'', JStr (y_currency y)),
     (''payment_method'', JStr (y_payment_method y)),
     (''payment_reference'', jopt JStr (y_payment_reference y)),
     (''note'', jopt JStr (y_note y)),
     (''paid_at'', jopt jtime (y_paid_at y)),
     (''cancelled_at'', jopt jtime (y_cancelled_at y)),
     (''created_at'', jtime (y_created_at y)),
     (''updated_at'', jtime (y_updated_at y))]"

definition serialize_invoice :: "db \<Rightarrow> invoice \<Rightarrow> json" where
  "serialize_invoice d i = JObj [
     (''id'', JStr (uuid_str (i_id i))),
     (''client_id'', JStr (uuid_str (i_client_id i))),
     (''billing_plan_id'', jopt (\<lambda>u. JStr (uuid_str u)) (i_billing_plan_id i)),
     (''pricing_rule_id'', jopt (\<lambda>u. JStr (uuid_str u)) (i_pricing_rule_id i)),
     (''status'', JStr (i_status i)),
     (''currency'', JStr (i_currency i)),
     (''period_start'', JStr (iso_date (i_period_start i))),
     (''period_end'', JStr (iso_date (i_period_end i))),
     (''monthly_price'', JFloat (i_monthly_price i)),
     (''included_tokens'', JInt (i_included_tokens i)),
     (''used_tokens'', JInt (i_used_tokens i)),
     (''overage_tokens'', JInt (i_overage_tokens i)),
     (''overage_price_per_1k_tokens'', JFloat (i_overage_price_per_1k_tokens i)),
     (''overage_cost'', JFloat (i_overage_cost i)),
     (''total_amount'', JFloat (i_total_amount i)),
     (''payment_method'', JStr (i_payment_method i)),
     (''payment_instructions'', jopt JStr (i_payment_instructions i)),
     (''due_at'', jopt jtime (i_due_at i)),
     (''paid_at'', jopt jtime (i_paid_at i)),
     (''cancelled_at'', jopt jtime (i_cancelled_at i)),
     (''created_at'', jtime (i_created_at i)),
     (''updated_at'', jtime (i_updated_at i)),
     (''payments'', JArr (map serialize_payment (invoice_payments d i)))]"

section \<open>The billing cycle\<close>

text \<open>
  One run of the scheduler, on a session of its own. The second refresh reads the clock again:
  \<open>later\<close>. Its result is what the log line of the loop reports.
\<close>

definition cycle_options :: "settings \<Rightarrow> billing_options" where
  "cycle_options cfg = \<lparr>bo_invoice_day = billing_invoice_day cfg, bo_due_in_days = billing_due_days cfg,
     bo_suspend_after_days = billing_suspend_after_days cfg, bo_payment_method = ''manual_pix'',
     bo_payment_instructions = Some ''billing-cycle'', bo_force = False, bo_client_id = None\<rparr>"

definition run_billing_cycle_once ::
  "settings \<Rightarrow> (rat \<Rightarrow> rat) \<Rightarrow> timestamp \<Rightarrow> timestamp \<Rightarrow> ('r, json) act" where
  "run_billing_cycle_once cfg via_float now later =
     bindE (generate_monthly_invoices via_float now (cycle_options cfg)) (\<lambda>result.
     bindE (query (\<lambda>d. refresh_billing_statuses later (billing_suspend_after_days cfg) d)) (\<lambda>(counts, d).
     seqE (update (\<lambda>_. d)) (seqE commit
       (ret (JObj [(''generated_at'', jtime (g_generated_at result)),
          (''created_count'', JInt (int (length (g_created result)))),
          (''updated_count'', JInt (int (length (g_updated result)))),
          (''skipped_count'', JInt (int (length (g_skipped result)))),
          (''reason'', jopt JStr (g_reason result)),
          (''status_updates'', JObj [(''updated_invoices'', JInt (fst counts)),
             (''updated_clients'', JInt (snd counts))])])))))"

text \<open>
  The loop around it: whatever a run does, an exception included, the loop goes on until it is
  stopped; a failed run leaves the committed rows as they were. \<open>turns\<close> are the clock readings of
  the runs until then.
\<close>

definition billing_scheduler_loop ::
  "settings \<Rightarrow> (rat \<Rightarrow> rat) \<Rightarrow> (timestamp \<times> timestamp) list \<Rightarrow> 'r world \<Rightarrow> 'r world" where
  "billing_scheduler_loop cfg via_float turns w =
     foldl (\<lambda>w (now, later). snd (handle (run_billing_cycle_once cfg via_float now later) w)) w turns"

section \<open>Facts about refreshing\<close>

lemma next_billing_status_cong:
  "invoices d' = invoices d \<Longrightarrow> c_id c' = c_id c \<Longrightarrow>
   next_billing_status now s d' c' = next_billing_status now s d c"
  by (simp add: next_billing_status_def overdue_invoices_def client_invoices_def)

lemma invoices_refresh:
  "invoices (snd (refresh_billing_statuses now s d)) =
     upd_where (is_late now) (\<lambda>i. i\<lparr>i_status := ''overdue'', i_updated_at := now\<rparr>) (invoices d)"
  by (simp add: refresh_billing_statuses_def refresh_clients_def mark_late_invoices_def Let_def)

lemma not_late_after: "i \<in> set (upd_where (is_late now) (\<lambda>i. i\<lparr>i_status := ''overdue'', i_updated_at := now\<rparr>) is) \<Longrightarrow>
  \<not> is_late now i"
  by (auto simp: set_upd_where is_late_def)

text \<open>The status a client has from its invoices, in the words of the billing rules.\<close>

definition billing_status_rule :: "timestamp \<Rightarrow> int \<Rightarrow> invoice list \<Rightarrow> client \<Rightarrow> string" where
  "billing_status_rule now s is c =
     (if \<exists>i\<in>set is. i_client_id i = c_id c \<and> i_status i = ''overdue'' \<and>
         (\<exists>due. i_due_at i = Some due \<and> due + days s < now) then ''suspended''
      else if \<exists>i\<in>set is. i_client_id i = c_id c \<and> i_status i = ''overdue'' then ''past_due''
      else ''active'')"

lemma next_billing_status_rule: "next_billing_status now s d c = billing_status_rule now s (invoices d) c"
proof -
  have "should_suspend now s (overdue_invoices d c) \<longleftrightarrow>
      (\<exists>i\<in>set (invoices d). i_client_id i = c_id c \<and> i_status i = ''overdue'' \<and>
         (\<exists>due. i_due_at i = Some due \<and> due + days s < now))"
    by (auto simp: should_suspend_def overdue_invoices_def client_invoices_def list_ex_iff split: option.splits)
  moreover have "overdue_invoices d c \<noteq> [] \<longleftrightarrow>
      (\<exists>i\<in>set (invoices d). i_client_id i = c_id c \<and> i_status i = ''overdue'')"
    by (auto simp: overdue_invoices_def client_invoices_def filter_empty_conv)
  ultimately show ?thesis
    by (simp only: next_billing_status_def billing_status_rule_def derive_client_billing_status_def Let_def)
qed

lemma refresh_fixpoint:
  assumes "\<forall>i\<in>set (invoices d). \<not> is_late now i"
    and "\<forall>c\<in>set (clients d). c_billing_status c = next_billing_status now s d c"
  shows "refresh_billing_statuses now s d = ((0, 0), d)"
proof -
  have late: "filter (is_late now) (invoices d) = []" using assms(1) by (simp add: filter_empty_conv)
  have "upd_where (is_late now) (\<lambda>i. i\<lparr>i_status := ''overdue'', i_updated_at := now\<rparr>) (invoices d) = invoices d"
    by (rule upd_where_id) (use assms(1) in auto)
  then have mark: "mark_late_invoices now d = d"
    by (simp add: mark_late_invoices_def late upd_where_id)
  have "filter (\<lambda>c. next_billing_status now s d c \<noteq> c_billing_status c) (clients d) = []"
    using assms(2) by (simp add: filter_empty_conv)
  moreover have "refresh_clients now s d = d"
    using assms(2) by (simp add: refresh_clients_def Let_def map_idI)
  ultimately show ?thesis by (simp add: refresh_billing_statuses_def Let_def late mark)
qed

lemma is_late_iff: "is_late now i \<longleftrightarrow> i_status i = ''pending'' \<and> (\<exists>due. i_due_at i = Some due \<and> due < now)"
  by (auto simp: is_late_def split: option.splits)

lemma billing_status_rule_upd:
  "billing_status_rule now s is (c\<lparr>c_billing_status := x, c_updated_at := y\<rparr>) = billing_status_rule now s is c"
proof -
  have "c_id (c\<lparr>c_billing_status := x, c_updated_at := y\<rparr>) = c_id c" by simp
  then show ?thesis by (simp only: billing_status_rule_def)
qed

text \<open>The rows and the counts of a refresh, each row read off the tables before it.\<close>

lemma refresh_rows:
  "invoices (snd (refresh_billing_statuses now s d)) =
     map (\<lambda>i. if is_late now i then i\<lparr>i_status := ''overdue'', i_updated_at := now\<rparr> else i) (invoices d)"
  "payments (snd (refresh_billing_statuses now s d)) =
     map (\<lambda>y. if y_status y = ''pending'' \<and> (\<exists>i\<in>set (invoices d). is_late now i \<and> i_id i = y_invoice_id y)
       then y\<lparr>y_status := ''overdue'', y_updated_at := now\<rparr> else y) (payments d)"
  "clients (snd (refresh_billing_statuses now s d)) =
     map (\<lambda>c. if c_billing_status c = billing_status_rule now s (invoices (snd (refresh_billing_statuses now s d))) c then c
       else c\<lparr>c_billing_status := billing_status_rule now s (invoices (snd (refresh_billing_statuses now s d))) c,
              c_updated_at := now\<rparr>) (clients d)"
  "(snd (refresh_billing_statuses now s d))\<lparr>invoices := [], payments := [], clients := []\<rparr> =
     d\<lparr>invoices := [], payments := [], clients := []\<rparr>"
  "fst (refresh_billing_statuses now s d) =
     (int (length (filter (is_late now) (invoices d))),
      int (length (filter (\<lambda>c. c_billing_status c \<noteq>
        billing_status_rule now s (invoices (snd (refresh_billing_statuses now s d))) c) (clients d))))"
  by (auto simp: refresh_billing_statuses_def refresh_clients_def mark_late_invoices_def upd_where_def Let_def
      next_billing_status_rule image_iff intro!: arg_cong [where f = length] filter_cong)

text \<open>
  C10. Refreshing settles in one pass. The invoices afterwards are those before, in their order,
  with exactly the pending ones past their due date moved to overdue, and the pending payments of
  these with them; every client has the status the rules give for its invoices (suspended when one
  has been overdue for longer than the grace period, past due when one is overdue, active
  otherwise); no other column or table changes; the counts returned are the numbers of the invoices
  and of the clients that changed; and a second refresh at the same time changes nothing and
  reports no update.
\<close>

theorem refresh_settles:
  "let (counts, d') = refresh_billing_statuses now s d;
       late = (\<lambda>i. i_status i = ''pending'' \<and> (\<exists>due. i_due_at i = Some due \<and> due < now));
       status = billing_status_rule now s (invoices d') in
    invoices d' = map (\<lambda>i. if late i then i\<lparr>i_status := ''overdue'', i_updated_at := now\<rparr> else i) (invoices d) \<and>
    payments d' = map (\<lambda>y. if y_status y = ''pending'' \<and> (\<exists>i\<in>set (invoices d). late i \<and> i_id i = y_invoice_id y)
      then y\<lparr>y_status := ''overdue'', y_updated_at := now\<rparr> else y) (payments d) \<and>
    clients d' = map (\<lambda>c. if c_billing_status c = status c then c
      else c\<lparr>c_billing_status := status c, c_updated_at := now\<rparr>) (clients d) \<and>
    d'\<lparr>invoices := [], payments := [], clients := []\<rparr> = d\<lparr>invoices := [], payments := [], clients := []\<rparr> \<and>
    counts = (int (length (filter late (invoices d))),
      int (length (filter (\<lambda>c. c_billing_status c \<noteq> status c) (clients d)))) \<and>
    refresh_billing_statuses now s d' = ((0, 0), d')"
proof -
  define d' where "d' = snd (refresh_billing_statuses now s d)"
  have late: "\<forall>i\<in>set (invoices d'). \<not> is_late now i"
    unfolding d'_def invoices_refresh using not_late_after by blast
  have st: "\<forall>c\<in>set (clients d'). c_billing_status c = next_billing_status now s d' c"
    using refresh_rows(3) [of now s d]
    by (auto simp: d'_def [symmetric] next_billing_status_rule billing_status_rule_upd)
  have again: "refresh_billing_statuses now s d' = ((0, 0), d')" by (rule refresh_fixpoint [OF late st])
  have pair: "refresh_billing_statuses now s d = (fst (refresh_billing_statuses now s d), d')"
    by (simp add: d'_def)
  show ?thesis
    using refresh_rows [of now s d] again unfolding is_late_iff [abs_def] d'_def [symmetric]
    by (subst pair) (simp add: Let_def)
qed

section \<open>Facts about generating\<close>

definition invoice_key :: "invoice \<Rightarrow> uuid \<times> date \<times> date" where
  "invoice_key i = (i_client_id i, i_period_start i, i_period_end i)"

definition invoice_at :: "db \<Rightarrow> uuid \<times> date \<times> date \<Rightarrow> invoice option" where
  "invoice_at d k = List.find (\<lambda>i. invoice_key i = k) (invoices d)"

definition invoices_ok :: "db \<Rightarrow> bool" where
  "invoices_ok d \<longleftrightarrow> distinct (map i_id (invoices d)) \<and> (\<forall>i\<in>set (invoices d). i_id i < next_id d) \<and>
     distinct (map invoice_key (invoices d))"

definition settled :: "invoice \<Rightarrow> bool" where
  "settled i \<longleftrightarrow> i_status i \<in> {''paid'', ''cancelled''}"

text \<open>What generating makes of the invoice a client has for the period, given the data computed for it.\<close>

definition billed :: "timestamp \<Rightarrow> invoice_data \<Rightarrow> invoice option \<Rightarrow> invoice option \<Rightarrow> bool" where
  "billed now x old new = (case old of
       None \<Rightarrow> (\<exists>iid. new = Some (new_invoice now iid x))
     | Some e \<Rightarrow> new = Some (if settled e then e else apply_invoice_data x e))"

definition data_key :: "invoice_data \<Rightarrow> uuid \<times> date \<times> date" where
  "data_key x = (d_client_id x, d_period_start x, d_period_end x)"

text \<open>Only invoices, payments and the identifier counter differ.\<close>

definition billing_frame :: "db \<Rightarrow> db \<Rightarrow> bool" where
  "billing_frame d d' \<longleftrightarrow> d'\<lparr>next_id := 0, invoices := [], payments := []\<rparr> = d\<lparr>next_id := 0, invoices := [], payments := []\<rparr>"

lemma billing_frame_refl [simp]: "billing_frame d d"
  by (simp add: billing_frame_def)

lemma billing_frame_trans: "billing_frame d e \<Longrightarrow> billing_frame e f \<Longrightarrow> billing_frame d f"
  by (simp add: billing_frame_def)

lemma billing_frame_upd [simp]: "billing_frame d (d\<lparr>next_id := n, invoices := is, payments := ys\<rparr>)"
  "billing_frame d (d\<lparr>next_id := n, payments := ys\<rparr>)" "billing_frame d (d\<lparr>invoices := is\<rparr>)"
  by (simp_all add: billing_frame_def)

lemma billing_frameD:
  assumes "billing_frame d d'"
  shows "clients d' = clients d" and "quota_counters d' = quota_counters d"
    and "billing_plans d' = billing_plans d" and "pricing_rules d' = pricing_rules d"
    and "usage_records d' = usage_records d"
  using arg_cong [OF assms [unfolded billing_frame_def], of clients]
    arg_cong [OF assms [unfolded billing_frame_def], of quota_counters]
    arg_cong [OF assms [unfolded billing_frame_def], of billing_plans]
    arg_cong [OF assms [unfolded billing_frame_def], of pricing_rules]
    arg_cong [OF assms [unfolded billing_frame_def], of usage_records] by simp_all

lemma sync_open_payment_frame:
  "\<exists>n ys. sync_open_payment now c i w = (Inr (), w\<lparr>w_db := (w_db w)\<lparr>next_id := n, payments := ys\<rparr>\<rparr>) \<and>
     next_id (w_db w) \<le> n"
proof (cases "List.find (\<lambda>y. y_status y \<in> {''pending'', ''overdue''}) (invoice_payments (w_db w) i)")
  case None
  then show ?thesis
    by (auto simp: sync_open_payment_def intro!: exI [of _ "Suc (next_id (w_db w))"])
next
  case (Some y)
  then show ?thesis
    by (auto simp: sync_open_payment_def intro!: exI [of _ "next_id (w_db w)"])
qed

lemma invoice_lookup:
  assumes "invoices_ok d" and "k = (c, s, e)"
  shows "scalar_one_or_none (filter (\<lambda>i. i_client_id i = c \<and> i_period_start i = s \<and> i_period_end i = e) (invoices d)) =
    Inr (invoice_at d k)"
proof -
  have "(\<lambda>i. i_client_id i = c \<and> i_period_start i = s \<and> i_period_end i = e) = (\<lambda>i. invoice_key i = k)"
    by (auto simp: invoice_key_def assms(2) fun_eq_iff)
  then show ?thesis
    using scalar_key_unique [of invoice_key "invoices d" k] assms(1) by (simp add: invoices_ok_def invoice_at_def)
qed

lemma invoice_step_spec:
  assumes ok: "invoices_ok (w_db w)" and x: "d_client_id x = c_id c"
  obtains out w' i where "invoice_step now c x w = (Inr out, w')" "invoices_ok (w_db w')"
    "billing_frame (w_db w) (w_db w')"
    "invoice_at (w_db w') = (invoice_at (w_db w)) (data_key x := Some i)"
    "billed now x (invoice_at (w_db w) (data_key x)) (Some i)"
proof -
  let ?d = "w_db w" and ?k = "data_key x"
  have look: "scalar_one_or_none (filter (\<lambda>i. i_client_id i = c_id c \<and> i_period_start i = d_period_start x \<and>
      i_period_end i = d_period_end x) (invoices ?d)) = Inr (invoice_at ?d ?k)"
    by (rule invoice_lookup [OF ok]) (simp add: data_key_def x)
  show ?thesis
  proof (cases "invoice_at ?d ?k")
    case None
    let ?i = "new_invoice now (next_id ?d) x"
    let ?d' = "?d\<lparr>next_id := Suc (Suc (next_id ?d)), invoices := invoices ?d @ [?i],
      payments := payments ?d @ [new_payment now (Suc (next_id ?d)) (next_id ?d) (c_id c) ?i]\<rparr>"
    have run: "invoice_step now c x w = (Inr (Created (next_id ?d)), w\<lparr>w_db := ?d'\<rparr>)"
      using look None by (simp add: invoice_step_def bindE_apply seqE_apply Let_def)
    have key: "invoice_key ?i = ?k" by (simp add: invoice_key_def new_invoice_def data_key_def)
    have fresh: "\<forall>j\<in>set (invoices ?d). invoice_key j \<noteq> ?k"
      using None by (simp add: invoice_at_def find_None_set)
    have ok': "invoices_ok ?d'"
      using ok fresh key by (auto simp: invoices_ok_def less_Suc_eq new_invoice_def)
    have at: "invoice_at ?d' = (invoice_at ?d)(?k := Some ?i)"
    proof
      fix k show "invoice_at ?d' k = ((invoice_at ?d)(?k := Some ?i)) k"
        using None key by (cases "invoice_at ?d k") (auto simp: invoice_at_def find_snoc)
    qed
    show ?thesis
      by (rule that [OF run]) (use ok' at None in \<open>auto simp: billed_def\<close>)
  next
    case (Some e)
    have e: "e \<in> set (invoices ?d)" "invoice_key e = ?k"
      using find_Some_set [OF Some [unfolded invoice_at_def]] by simp_all
    show ?thesis
    proof (cases "settled e")
      case True
      then have run: "invoice_step now c x w = (Inr (Skipped (i_id e) (c_id c) (i_status e)), w)"
        using look Some by (simp add: invoice_step_def bindE_apply settled_def)
      show ?thesis
        by (rule that [OF run ok, of e]) (use Some True in \<open>auto simp: billed_def\<close>)
    next
      case False
      let ?f = "apply_invoice_data x"
      let ?w1 = "w\<lparr>w_db := ?d\<lparr>invoices := upd_where (\<lambda>i. i_id i = i_id e) ?f (invoices ?d)\<rparr>\<rparr>"
      obtain n ys where sync: "sync_open_payment now c (?f e) ?w1 =
          (Inr (), ?w1\<lparr>w_db := (w_db ?w1)\<lparr>next_id := n, payments := ys\<rparr>\<rparr>)" "next_id ?d \<le> n"
        using sync_open_payment_frame [of now c "?f e" ?w1] by auto
      let ?d' = "?d\<lparr>next_id := n, invoices := upd_where (\<lambda>i. i_id i = i_id e) ?f (invoices ?d), payments := ys\<rparr>"
      have run: "invoice_step now c x w = (Inr (Updated (i_id e)), w\<lparr>w_db := ?d'\<rparr>)"
        using look Some False sync(1) by (simp add: invoice_step_def bindE_apply seqE_apply settled_def)
      have f: "i_id (?f j) = i_id j" "invoice_key (?f j) = invoice_key j" for j
        by (simp_all add: apply_invoice_data_def invoice_key_def)
      have ok': "invoices_ok ?d'"
        using ok sync(2) f by (fastforce simp: invoices_ok_def set_upd_where split: if_splits)
      have at: "invoice_at ?d' = (invoice_at ?d)(?k := Some (?f e))"
      proof
        fix k
        have "invoice_at ?d' k = (if k = invoice_key e then Some (?f e) else invoice_at ?d k)"
          unfolding invoice_at_def using ok e(1) f(2)
          by (simp add: find_upd_by_id [of i_id _ invoice_key] invoices_ok_def)
        then show "invoice_at ?d' k = ((invoice_at ?d)(?k := Some (?f e))) k" by (simp add: e(2))
      qed
      show ?thesis
        by (rule that [OF run]) (use ok' at Some False in \<open>simp_all add: billed_def\<close>)
    qed
  qed
qed

text \<open>The snapshot of a client, read off the tables and the ledger.\<close>

definition snapshot_of :: "db \<Rightarrow> date \<Rightarrow> client \<Rightarrow> snapshot" where
  "snapshot_of d day c = \<lparr>sn_client = c, sn_effective_plan = resolve_effective_plan d c,
     sn_pricing_rule = (case client_plan d c of None \<Rightarrow> None | Some plan \<Rightarrow> active_rule d plan),
     sn_daily_used_tokens = ledger d (c_id c, day, ''daily''),
     sn_monthly_used_tokens = ledger d (c_id c, month_start day, ''monthly''),
     sn_invoice_preview = build_invoice_preview (resolve_effective_plan d c)
       (ledger d (c_id c, month_start day, ''monthly''))\<rparr>"

lemma usage_snapshot_period_ledger:
  assumes "quota_rows_ok (w_db w)"
  shows "\<exists>q. usage_snapshot_period c (type, start) w = (Inr q, w) \<and> used_tokens_of q = ledger (w_db w) (c, start, type)"
proof -
  let ?rows = "filter (\<lambda>q. q_client_id q = c \<and> q_period_type q = type \<and> q_period_start q = start) (quota_counters (w_db w))"
  have "?rows = filter (\<lambda>q. counter_key q = (c, start, type)) (quota_counters (w_db w))"
    by (rule filter_cong) (auto simp: counter_key_def)
  then have "scalar_one_or_none ?rows =
      Inr (List.find (\<lambda>q. counter_key q = (c, start, type)) (quota_counters (w_db w)))"
    using scalar_key_unique [of counter_key "quota_counters (w_db w)" "(c, start, type)"] assms
    by (simp add: quota_rows_ok_def)
  then show ?thesis by (simp add: usage_snapshot_period_def ledger_def used_tokens_of_def)
qed

lemma client_snapshot_eq:
  assumes "quota_rows_ok (w_db w)"
  shows "client_snapshot day c w = (Inr (snapshot_of (w_db w) day c), w)"
proof -
  obtain q1 where q1: "usage_snapshot_period (c_id c) (''daily'', day) w = (Inr q1, w)"
    "used_tokens_of q1 = ledger (w_db w) (c_id c, day, ''daily'')"
    using usage_snapshot_period_ledger [OF assms] by blast
  obtain q2 where q2: "usage_snapshot_period (c_id c) (''monthly'', month_start day) w = (Inr q2, w)"
    "used_tokens_of q2 = ledger (w_db w) (c_id c, month_start day, ''monthly'')"
    using usage_snapshot_period_ledger [OF assms] by blast
  show ?thesis
    by (simp add: client_snapshot_def get_usage_snapshot_for_date_def bindE_apply q1 q2 snapshot_of_def)
qed

lemma list_snapshots_eq:
  assumes "quota_rows_ok (w_db w)"
  shows "list_client_billing_snapshots cid day w =
     (Inr (map (snapshot_of (w_db w) day) (newest_first c_created_at (case cid of None \<Rightarrow> clients (w_db w)
       | Some i \<Rightarrow> filter (\<lambda>c. c_id c = i) (clients (w_db w))))), w)"
proof -
  have "forE cs (client_snapshot day) w = (Inr (map (snapshot_of (w_db w) day) cs), w)" for cs
    by (induction cs) (simp_all add: bindE_apply client_snapshot_eq [OF assms])
  then show ?thesis by (simp add: list_client_billing_snapshots_def)
qed

text \<open>The loop over the snapshots.\<close>

lemma invoice_loop_spec:
  assumes "invoices_ok (w_db w)" and "\<forall>sn\<in>set sns. d_client_id (f sn) = c_id (sn_client sn)"
    and "distinct (map (\<lambda>sn. data_key (f sn)) sns)"
  shows "\<exists>outs w'. forE sns (\<lambda>sn. invoice_step now (sn_client sn) (f sn)) w = (Inr outs, w') \<and>
    invoices_ok (w_db w') \<and> billing_frame (w_db w) (w_db w') \<and>
    (\<forall>sn\<in>set sns. billed now (f sn) (invoice_at (w_db w) (data_key (f sn))) (invoice_at (w_db w') (data_key (f sn)))) \<and>
    (\<forall>k. k \<notin> (\<lambda>sn. data_key (f sn)) ` set sns \<longrightarrow> invoice_at (w_db w') k = invoice_at (w_db w) k)"
  using assms
proof (induction sns arbitrary: w)
  case Nil
  then show ?case by auto
next
  case (Cons sn sns)
  have x: "d_client_id (f sn) = c_id (sn_client sn)" using Cons.prems(2) by simp
  obtain out w1 i where w1: "invoice_step now (sn_client sn) (f sn) w = (Inr out, w1)" "invoices_ok (w_db w1)"
    "billing_frame (w_db w) (w_db w1)" "invoice_at (w_db w1) = (invoice_at (w_db w)) (data_key (f sn) := Some i)"
    "billed now (f sn) (invoice_at (w_db w) (data_key (f sn))) (Some i)"
    by (rule invoice_step_spec [OF Cons.prems(1) x])
  obtain outs w2 where w2: "forE sns (\<lambda>sn. invoice_step now (sn_client sn) (f sn)) w1 = (Inr outs, w2)"
    "invoices_ok (w_db w2)" "billing_frame (w_db w1) (w_db w2)"
    "\<forall>sn\<in>set sns. billed now (f sn) (invoice_at (w_db w1) (data_key (f sn))) (invoice_at (w_db w2) (data_key (f sn)))"
    "\<forall>k. k \<notin> (\<lambda>sn. data_key (f sn)) ` set sns \<longrightarrow> invoice_at (w_db w2) k = invoice_at (w_db w1) k"
    using Cons.IH [OF w1(2)] Cons.prems(2,3) by auto
  have new: "data_key (f sn) \<notin> (\<lambda>sn. data_key (f sn)) ` set sns" using Cons.prems(3) by simp
  have run: "forE (sn # sns) (\<lambda>sn. invoice_step now (sn_client sn) (f sn)) w = (Inr (out # outs), w2)"
    by (simp add: bindE_apply w1(1) w2(1))
  have "billed now (f sn) (invoice_at (w_db w) (data_key (f sn))) (invoice_at (w_db w2) (data_key (f sn)))"
    using w1(5) w2(5) [rule_format, OF new] by (simp add: w1(4))
  moreover have "billed now (f s) (invoice_at (w_db w) (data_key (f s))) (invoice_at (w_db w2) (data_key (f s)))"
    if "s \<in> set sns" for s
  proof -
    have "data_key (f s) \<in> (\<lambda>sn. data_key (f sn)) ` set sns" using that by (rule imageI)
    with new have "data_key (f s) \<noteq> data_key (f sn)" by metis
    then have "invoice_at (w_db w1) (data_key (f s)) = invoice_at (w_db w) (data_key (f s))" by (simp add: w1(4))
    then show ?thesis using bspec [OF w2(4) that] by simp
  qed
  moreover have "invoice_at (w_db w2) k = invoice_at (w_db w) k"
    if "k \<notin> (\<lambda>sn. data_key (f sn)) ` set (sn # sns)" for k
    using w2(5) [rule_format, of k] that by (simp add: w1(4))
  ultimately show ?case
    using run w2(2) billing_frame_trans [OF w1(3) w2(3)] by (intro exI [of _ "out # outs"] exI [of _ w2]) auto
qed

text \<open>An invoice as the refresh at the end leaves it.\<close>

definition overdue_if_late :: "timestamp \<Rightarrow> invoice \<Rightarrow> invoice" where
  "overdue_if_late now i = (if is_late now i then i\<lparr>i_status := ''overdue'', i_updated_at := now\<rparr> else i)"

lemma invoice_at_refresh:
  "invoice_at (snd (refresh_billing_statuses now s d)) k = map_option (overdue_if_late now) (invoice_at d k)"
proof -
  have "invoice_at (snd (refresh_billing_statuses now s d)) k = map_option
      (\<lambda>i. if is_late now i then i\<lparr>i_status := ''overdue'', i_updated_at := now\<rparr> else i) (invoice_at d k)"
    unfolding invoice_at_def invoices_refresh by (rule find_upd_map) (simp add: invoice_key_def)
  then show ?thesis by (simp add: overdue_if_late_def [abs_def])
qed

text \<open>The refresh at the end of a run leaves the invoices of the run as they are: their due date is not past.\<close>

lemma billed_refreshed:
  assumes b: "billed now x old (invoice_at d k)" and due: "d_due_at x = now + days n" "0 \<le> n"
  shows "billed now x old (invoice_at (snd (refresh_billing_statuses now m d)) k)"
proof -
  obtain i where i: "invoice_at d k = Some i" using b by (auto simp: billed_def split: option.splits)
  have "i_due_at i = Some (now + days n) \<or> settled i"
    using b i due(1) by (auto simp: billed_def new_invoice_def apply_invoice_data_def settled_def split: option.splits if_splits)
  then have "overdue_if_late now i = i"
    using due(2) by (auto simp: overdue_if_late_def is_late_def settled_def days_def microseconds_per_day_def)
  then show ?thesis using b i by (simp add: invoice_at_refresh)
qed

lemma invoices_ok_refresh: "invoices_ok d \<Longrightarrow> invoices_ok (snd (refresh_billing_statuses now m d))"
proof -
  let ?f = "\<lambda>i. if is_late now i then i\<lparr>i_status := ''overdue'', i_updated_at := now\<rparr> else i"
  have "i_id \<circ> ?f = i_id" "invoice_key \<circ> ?f = invoice_key" by (auto simp: fun_eq_iff invoice_key_def)
  moreover have "next_id (snd (refresh_billing_statuses now m d)) = next_id d"
    by (simp add: refresh_billing_statuses_def refresh_clients_def mark_late_invoices_def Let_def)
  ultimately show "invoices_ok d \<Longrightarrow> invoices_ok (snd (refresh_billing_statuses now m d))"
    by (auto simp: invoices_ok_def refresh_rows(1))
qed

text \<open>Where keys are distinct and one row has the key, it is the only one.\<close>

lemma one_invoice:
  assumes "invoices_ok d" and "invoice_at d k \<noteq> None" and "\<And>i. p i \<longleftrightarrow> invoice_key i = k"
  shows "length (filter p (invoices d)) = 1"
proof -
  obtain i where i: "i \<in> set (invoices d)" "invoice_key i = k"
    using assms(2) find_Some_set by (fastforce simp: invoice_at_def)
  have "distinct (filter p (invoices d))"
    using assms(1) by (simp add: invoices_ok_def distinct_map)
  moreover have "set (filter p (invoices d)) = {i}"
    using assms(1,3) i by (auto simp: invoices_ok_def distinct_map inj_on_def)
  ultimately show ?thesis using distinct_card by fastforce
qed

lemma generate_spec:
  assumes "invoices_ok (w_db w)" and "quota_rows_ok (w_db w)" and "distinct (map c_id (clients (w_db w)))"
    and "bo_force opts \<or> dday (date_of now) = bo_invoice_day opts" and "0 \<le> bo_due_in_days opts"
  shows "\<exists>g w'. generate_monthly_invoices via_float now opts w = (Inr g, w') \<and> g_reason g = None \<and>
    (\<forall>c\<in>set (clients (w_db w)). bo_client_id opts \<in> {None, Some (c_id c)} \<longrightarrow>
       (let x = snapshot_data via_float now opts (snapshot_of (w_db w) (previous_month_date (date_of now)) c) in
        length (filter (\<lambda>i. i_client_id i = c_id c \<and>
          (i_period_start i, i_period_end i) = month_window (previous_month_date (date_of now))) (invoices (w_db w'))) = 1 \<and>
        billed now x (invoice_at (w_db w) (data_key x)) (invoice_at (w_db w') (data_key x)))) \<and>
    (\<forall>k. (\<forall>c\<in>set (clients (w_db w)). bo_client_id opts \<in> {None, Some (c_id c)} \<longrightarrow>
           k \<noteq> (c_id c, month_window (previous_month_date (date_of now)))) \<longrightarrow>
       invoice_at (w_db w') k = map_option (overdue_if_late now) (invoice_at (w_db w) k)) \<and>
    invoices_ok (w_db w')"
proof -
  let ?d = "w_db w" and ?day = "previous_month_date (date_of now)"
  let ?f = "snapshot_data via_float now opts"
  let ?cs = "newest_first c_created_at (case bo_client_id opts of None \<Rightarrow> clients ?d
       | Some i \<Rightarrow> filter (\<lambda>c. c_id c = i) (clients ?d))"
  let ?sns = "map (snapshot_of ?d ?day) ?cs"
  have key: "data_key (?f (snapshot_of ?d ?day c)) = (c_id c, month_window ?day)" for c
    by (simp add: data_key_def snapshot_data_def build_invoice_record_data_def snapshot_of_def Let_def)
  have cs: "set ?cs = {c \<in> set (clients ?d). bo_client_id opts \<in> {None, Some (c_id c)}}"
    by (auto simp: newest_first_def split: option.splits)
  have "distinct (map c_id ?cs)"
    using assms(3) by (auto simp: newest_first_def distinct_map inj_on_def split: option.splits)
  then have dist: "distinct (map (\<lambda>sn. data_key (?f sn)) ?sns)"
    by (simp add: key comp_def distinct_map inj_on_def)
  have ids: "\<forall>sn\<in>set ?sns. d_client_id (?f sn) = c_id (sn_client sn)"
    by (auto simp: snapshot_data_def build_invoice_record_data_def Let_def)
  obtain outs w1 where w1:
    "forE ?sns (\<lambda>sn. invoice_step now (sn_client sn) (?f sn)) w = (Inr outs, w1)"
    "invoices_ok (w_db w1)"
    "\<forall>sn\<in>set ?sns. billed now (?f sn) (invoice_at ?d (data_key (?f sn))) (invoice_at (w_db w1) (data_key (?f sn)))"
    "\<forall>k. k \<notin> (\<lambda>sn. data_key (?f sn)) ` set ?sns \<longrightarrow> invoice_at (w_db w1) k = invoice_at ?d k"
    using invoice_loop_spec [OF assms(1) ids dist, of now] by (elim exE conjE) (rule that)
  let ?d' = "snd (refresh_billing_statuses now (bo_suspend_after_days opts) (w_db w1))"
  have run: "generate_monthly_invoices via_float now opts w =
      (Inr \<lparr>g_generated_at = now, g_created = created_of outs, g_updated = updated_of outs,
            g_skipped = skipped_of outs, g_reason = None\<rparr>, w1\<lparr>w_db := ?d'\<rparr>)"
    using assms(4) w1(1)
    by (auto simp: generate_monthly_invoices_def should_generate_monthly_invoices_def Let_def bindE_apply
        list_snapshots_eq [OF assms(2)])
  have billed: "billed now (?f (snapshot_of ?d ?day c)) (invoice_at ?d (c_id c, month_window ?day))
      (invoice_at ?d' (c_id c, month_window ?day))" if "c \<in> set ?cs" for c
  proof (rule billed_refreshed [OF _ _ assms(5)])
    show "billed now (?f (snapshot_of ?d ?day c)) (invoice_at ?d (c_id c, month_window ?day))
        (invoice_at (w_db w1) (c_id c, month_window ?day))"
      using w1(3) that by (auto simp: key)
    show "d_due_at (?f (snapshot_of ?d ?day c)) = now + days (bo_due_in_days opts)"
      by (simp add: snapshot_data_def build_invoice_record_data_def Let_def)
  qed
  have other: "invoice_at ?d' k = map_option (overdue_if_late now) (invoice_at ?d k)"
    if "\<forall>c\<in>set (clients ?d). bo_client_id opts \<in> {None, Some (c_id c)} \<longrightarrow> k \<noteq> (c_id c, month_window ?day)" for k
  proof -
    have "k \<notin> (\<lambda>sn. data_key (?f sn)) ` set ?sns" using that cs by (cases k) (auto simp: key)
    from w1(4) [rule_format, OF this] show ?thesis by (simp add: invoice_at_refresh)
  qed
  have ok: "invoices_ok ?d'" by (rule invoices_ok_refresh [OF w1(2)])
  have one: "length (filter (\<lambda>i. i_client_id i = c_id c \<and> (i_period_start i, i_period_end i) = month_window ?day)
      (invoices ?d')) = 1" if "c \<in> set ?cs" for c
    using billed [OF that] by (intro one_invoice [OF ok, of "(c_id c, month_window ?day)"])
      (auto simp: billed_def invoice_key_def split: option.splits)
  show ?thesis
  proof (rule exI, rule exI, intro conjI)
    show "generate_monthly_invoices via_float now opts w =
      (Inr \<lparr>g_generated_at = now, g_created = created_of outs, g_updated = updated_of outs,
            g_skipped = skipped_of outs, g_reason = None\<rparr>, w1\<lparr>w_db := ?d'\<rparr>)" by (rule run)
  qed (use one billed other ok cs in \<open>simp_all add: Let_def key\<close>)
qed

section \<open>Properties of the billing run\<close>

text \<open>
  C11. Monthly billing: on the invoice day (or when forced) generating succeeds, and each client it
  covers then has exactly one invoice row for the previous month, built from the client's effective plan and
  from the tokens its counter shows for that month: new and pending if there was none, recomputed
  and pending again if it was open, and left exactly as it was if it was paid or cancelled. Every
  other invoice is only moved to overdue when it is late, and there is still one row for a client
  and period.
\<close>

theorem invoices_generated:
  assumes "invoices_ok (w_db w)" and "quota_rows_ok (w_db w)" and "distinct (map c_id (clients (w_db w)))"
    and "bo_force opts \<or> dday (date_of now) = bo_invoice_day opts" and "0 \<le> bo_due_in_days opts"
  shows "\<exists>g w'. generate_monthly_invoices via_float now opts w = (Inr g, w') \<and> g_reason g = None \<and>
    (\<forall>c\<in>set (clients (w_db w)). bo_client_id opts \<in> {None, Some (c_id c)} \<longrightarrow>
       (let x = snapshot_data via_float now opts (snapshot_of (w_db w) (previous_month_date (date_of now)) c) in
        length (filter (\<lambda>i. i_client_id i = c_id c \<and>
          (i_period_start i, i_period_end i) = month_window (previous_month_date (date_of now))) (invoices (w_db w'))) = 1 \<and>
        billed now x (invoice_at (w_db w) (data_key x)) (invoice_at (w_db w') (data_key x)))) \<and>
    (\<forall>k. (\<forall>c\<in>set (clients (w_db w)). bo_client_id opts \<in> {None, Some (c_id c)} \<longrightarrow>
           k \<noteq> (c_id c, month_window (previous_month_date (date_of now)))) \<longrightarrow>
       invoice_at (w_db w') k = map_option (overdue_if_late now) (invoice_at (w_db w) k)) \<and>
    invoices_ok (w_db w')"
  by (rule generate_spec [OF assms])

definition billing_client :: client where
  "billing_client = \<lparr>c_id = 1, c_name = ''acme'', c_description = None, c_is_blocked = False,
     c_billing_status = ''active'', c_billing_plan_id = None, c_rate_limit_per_minute = 5,
     c_daily_token_quota = 100, c_monthly_token_quota = 1000, c_max_context_tokens = 2048,
     c_max_output_tokens = 512, c_allowed_models_json = None, c_ip_allowlist_json = None,
     c_ip_blocklist_json = None, c_system_prompt = None, c_metadata_json = None, c_deleted_at = None,
     c_created_at = 0, c_updated_at = 0\<rparr>"

definition forced_options :: billing_options where
  "forced_options = \<lparr>bo_invoice_day = 1, bo_due_in_days = 7, bo_suspend_after_days = 15,
     bo_payment_method = ''manual_pix'', bo_payment_instructions = None, bo_force = True, bo_client_id = None\<rparr>"

definition billing_world :: "db \<Rightarrow> unit world" where
  "billing_world d = \<lparr>w_db = d, w_saved = d, w_redis = (), w_metrics = [],
     w_breaker = new_breaker (default_settings [] []), w_pending = 0, w_correlation_id = [], w_source_ip = []\<rparr>"

lemmas billing_examples = billing_client_def forced_options_def billing_world_def empty_db_def

theorem invoices_generated_witness:
  "\<exists>g w'. generate_monthly_invoices id 0 forced_options (billing_world (empty_db\<lparr>clients := [billing_client]\<rparr>)) = (Inr g, w') \<and>
     g_reason g = None"
proof -
  let ?w = "billing_world (empty_db\<lparr>clients := [billing_client]\<rparr>)"
  have "invoices_ok (w_db ?w)" "quota_rows_ok (w_db ?w)" "distinct (map c_id (clients (w_db ?w)))"
    "bo_force forced_options" "0 \<le> bo_due_in_days forced_options"
    by (simp_all add: billing_examples invoices_ok_def quota_rows_ok_def)
  then show ?thesis using invoices_generated [of ?w forced_options 0 id] by blast
qed

text \<open>
  A re-run forgives: when the client's invoice for the previous month is already overdue, a
  further run sets it back to pending with a new due date counted from the run, so it no longer
  counts against the client, however long it has been overdue.
\<close>

theorem rerun_reopens_overdue:
  assumes "invoices_ok (w_db w)" and "quota_rows_ok (w_db w)" and "distinct (map c_id (clients (w_db w)))"
    and "bo_force opts \<or> dday (date_of now) = bo_invoice_day opts" and "0 \<le> bo_due_in_days opts"
    and "c \<in> set (clients (w_db w))" and "bo_client_id opts \<in> {None, Some (c_id c)}"
    and "invoice_at (w_db w) (c_id c, month_window (previous_month_date (date_of now))) = Some e"
    and "i_status e = ''overdue''"
  shows "\<exists>g w' i. generate_monthly_invoices via_float now opts w = (Inr g, w') \<and>
    invoice_at (w_db w') (c_id c, month_window (previous_month_date (date_of now))) = Some i \<and>
    i_id i = i_id e \<and> i_status i = ''pending'' \<and> i_due_at i = Some (now + days (bo_due_in_days opts))"
proof -
  let ?x = "snapshot_data via_float now opts (snapshot_of (w_db w) (previous_month_date (date_of now)) c)"
  have key: "data_key ?x = (c_id c, month_window (previous_month_date (date_of now)))"
    by (simp add: data_key_def snapshot_data_def build_invoice_record_data_def snapshot_of_def Let_def)
  obtain g w' where g: "generate_monthly_invoices via_float now opts w = (Inr g, w')"
    "billed now ?x (invoice_at (w_db w) (data_key ?x)) (invoice_at (w_db w') (data_key ?x))"
    using generate_spec [OF assms(1-5), of via_float] assms(6,7) by (auto simp: Let_def)
  then have "invoice_at (w_db w') (c_id c, month_window (previous_month_date (date_of now))) = Some (apply_invoice_data ?x e)"
    using assms(8,9) by (simp add: key billed_def settled_def)
  moreover have "i_id (apply_invoice_data ?x e) = i_id e" "i_status (apply_invoice_data ?x e) = ''pending''"
    "i_due_at (apply_invoice_data ?x e) = Some (now + days (bo_due_in_days opts))"
    by (simp_all add: apply_invoice_data_def snapshot_data_def build_invoice_record_data_def Let_def)
  ultimately show ?thesis using g(1) by blast
qed

definition overdue_invoice :: invoice where
  "overdue_invoice = \<lparr>i_id = 5, i_client_id = 1, i_billing_plan_id = None, i_pricing_rule_id = None,
     i_status = ''overdue'', i_currency = ''USD'', i_period_start = Date 1969 12 1, i_period_end = Date 1969 12 31,
     i_monthly_price = 0, i_included_tokens = 0, i_used_tokens = 0, i_overage_tokens = 0,
     i_overage_price_per_1k_tokens = 0, i_overage_cost = 0, i_total_amount = 0, i_payment_method = ''manual_pix'',
     i_payment_instructions = None, i_due_at = Some (- 99), i_paid_at = None, i_cancelled_at = None,
     i_created_at = - 999, i_updated_at = - 999\<rparr>"

lemma window_example: "month_window (previous_month_date (date_of 0)) = (Date 1969 12 1, Date 1969 12 31)"
  by code_simp

theorem rerun_reopens_overdue_witness:
  "\<exists>g w' i. generate_monthly_invoices id 0 forced_options
       (billing_world (empty_db\<lparr>next_id := 9, clients := [billing_client], invoices := [overdue_invoice]\<rparr>)) = (Inr g, w') \<and>
     invoice_at (w_db w') (1, Date 1969 12 1, Date 1969 12 31) = Some i \<and> i_status i = ''pending''"
proof -
  let ?w = "billing_world (empty_db\<lparr>next_id := 9, clients := [billing_client], invoices := [overdue_invoice]\<rparr>)"
  have "invoices_ok (w_db ?w)" "quota_rows_ok (w_db ?w)" "distinct (map c_id (clients (w_db ?w)))"
    "bo_force forced_options \<or> dday (date_of 0) = bo_invoice_day forced_options" "0 \<le> bo_due_in_days forced_options"
    "billing_client \<in> set (clients (w_db ?w))" "bo_client_id forced_options \<in> {None, Some (c_id billing_client)}"
    "invoice_at (w_db ?w) (c_id billing_client, month_window (previous_month_date (date_of 0))) = Some overdue_invoice"
    "i_status overdue_invoice = ''overdue''"
    by (simp_all add: window_example billing_examples overdue_invoice_def invoices_ok_def quota_rows_ok_def
        invoice_at_def invoice_key_def)
  from rerun_reopens_overdue [OF this, of id] show ?thesis
    by (auto simp: window_example billing_client_def)
qed

end
