(* ===== verification/TextUtils.thy ===== *)
theory TextUtils
  imports Schema
begin

text \<open>
  The pure text helpers (\<open>utils/\<close>): the token estimate, the detection of a model's architecture and
  its prompt template, the clean-up of assistant text and of backend responses, the summary kept in
  the request log, and the detection and truncation of repetition loops.
\<close>

section \<open>Token estimates (\<open>utils/token_estimator.py\<close>)\<close>

text \<open>\<open>int(n * 1.3)\<close> is \<open>13 * n div 10\<close>: the double nearest to 1.3 lies above it by less than \<open>10^-16\<close>.\<close>

definition estimate_tokens_from_text :: "string \<Rightarrow> int" where
  "estimate_tokens_from_text text =
     (if text = [] then 0 else max 1 (int (length (split_ws text)) * 13 div 10))"

definition message_tokens :: "(json \<Rightarrow> string) \<Rightarrow> dict \<Rightarrow> int" where
  "message_tokens rp message =
     estimate_tokens_from_text (py_str rp (case dict_get message ''content'' of None \<Rightarrow> JStr [] | Some v \<Rightarrow> v)) + 4"

definition estimate_prompt_tokens :: "(json \<Rightarrow> string) \<Rightarrow> dict list option \<Rightarrow> string option \<Rightarrow> int" where
  "estimate_prompt_tokens rp messages prompt =
     (case prompt of
        Some p \<Rightarrow> estimate_tokens_from_text p
      | None \<Rightarrow> (case messages of None \<Rightarrow> 0 | Some ms \<Rightarrow> sum_list (map (message_tokens rp) ms)))"

section \<open>Architectures and prompt templates (\<open>utils/model_prompting.py\<close>)\<close>

definition parse_metadata :: "jtext option \<Rightarrow> dict" where
  "parse_metadata raw =
     (if text_falsy raw then []
      else case loads (the raw) of Some (JObj d) \<Rightarrow> d | _ \<Rightarrow> [])"

fun first_named :: "dict \<Rightarrow> string list \<Rightarrow> string option" where
  "first_named d [] = None"
| "first_named d (k # ks) =
     (case dict_get d k of
        Some (JStr v) \<Rightarrow> if strip v \<noteq> [] then Some (lower (strip v)) else first_named d ks
      | _ \<Rightarrow> first_named d ks)"

definition detect_architecture :: "string \<Rightarrow> string \<Rightarrow> string option \<Rightarrow> jtext option \<Rightarrow> string option" where
  "detect_architecture model_id model_file model_alias metadata_json =
     (let metadata = parse_metadata metadata_json in
      case first_named metadata [''architecture'', ''model_architecture'', ''arch''] of
        Some a \<Rightarrow> Some a
      | None \<Rightarrow>
          (let joined = lower (join '' '' (filter (\<lambda>s. s \<noteq> [])
                 [model_id, model_file, (case model_alias of None \<Rightarrow> [] | Some a \<Rightarrow> a)])) in
           if contains ''gemma'' joined then Some ''gemma''
           else if contains ''qwen3'' joined then Some ''qwen3''
           else if contains ''bonsai'' joined \<or> contains ''bonzai'' joined then Some ''qwen3''
           else if contains ''qwen'' joined then Some ''qwen''
           else None))"

definition detect_prompt_template :: "string \<Rightarrow> string \<Rightarrow> string option \<Rightarrow> jtext option \<Rightarrow> string option" where
  "detect_prompt_template model_id model_file model_alias metadata_json =
     (case detect_architecture model_id model_file model_alias metadata_json of
        None \<Rightarrow> None
      | Some a \<Rightarrow> if a = ''gemma'' then Some ''gemma''
          else if starts_with ''qwen'' a then Some ''qwen'' else None)"

text \<open>The quoted escape sequence for a line feed inside the template.\<close>

definition quoted_newline :: string where
  "quoted_newline = [CHR 0x27, CHR 0x5C, CHR ''n'', CHR 0x27]"

definition chatml_template :: string where
  "chatml_template =
     ''{% for message in messages %}'' @
     ''{{'' @ [CHR 0x27] @ ''<|im_start|>'' @ [CHR 0x27] @ '' + message['' @ [CHR 0x27] @ ''role'' @ [CHR 0x27] @ ''] + '' @ quoted_newline @
     '' + message['' @ [CHR 0x27] @ ''content'' @ [CHR 0x27] @ ''] + '' @ [CHR 0x27] @ ''<|im_end|>'' @ [CHR 0x27] @
     '' + '' @ quoted_newline @ '' + '' @ quoted_newline @ ''}}'' @
     ''{% endfor %}'' @
     ''{% if add_generation_prompt %}'' @
     ''{{ '' @ [CHR 0x27] @ ''<|im_start|>assistant'' @ [CHR 0x5C, CHR ''n''] @ [CHR 0x27] @ '' }}'' @
     ''{% endif %}''"

text \<open>\<open>dict(d.get("chat_template_kwargs") or {})\<close> with thinking switched off; a value \<open>dict()\<close> refuses raises.\<close>

definition disable_thinking :: "dict \<Rightarrow> exc + dict" where
  "disable_thinking d =
     (let v = dict_get_or_null d ''chat_template_kwargs'' in
      let with_kwargs = (\<lambda>kw. Inr (dict_set ''chat_template_kwargs''
            (JObj (dict_set ''enable_thinking'' (JBool False) kw)) d)) in
      if \<not> truthy v then with_kwargs []
      else case v of JObj kw \<Rightarrow> with_kwargs kw | _ \<Rightarrow> Inl (TypeError ''chat_template_kwargs''))"

definition apply_prompt_template_settings ::
  "dict \<Rightarrow> string option \<Rightarrow> bool \<Rightarrow> string \<Rightarrow> string option \<Rightarrow> exc + dict" where
  "apply_prompt_template_settings request_payload prompt_template include_reasoning backend fallback =
     (if backend \<noteq> ''llama.cpp'' then Inr request_payload
      else if prompt_template = Some ''qwen'' then
        (let template = (case fallback of None \<Rightarrow> ''chatml'' | Some [] \<Rightarrow> ''chatml'' | Some t \<Rightarrow> t);
             template = (if template = ''chatml'' then chatml_template else template);
             updated = dict_set ''chat_template'' (JStr template) request_payload in
         if include_reasoning then Inr updated
         else disable_thinking (dict_set ''reasoning_format'' (JStr ''none'') updated))
      else if prompt_template = Some ''gemma'' then
        (let updated = dict_set ''repeat_penalty'' (JFloat (12 / 10)) request_payload in
         if include_reasoning then Inr updated
         else disable_thinking (dict_set ''reasoning_format'' (JStr ''none'') updated))
      else Inr request_payload)"

text \<open>
  The substitution of \<open><think>.*?</think>\<close>, ignoring case: from the leftmost opening tag to the next
  closing tag; an opening tag with none after it stays.
\<close>

definition starts_with_ci :: "string \<Rightarrow> string \<Rightarrow> bool" where
  "starts_with_ci p s = starts_with p (lower s)"

fun after_tag :: "string \<Rightarrow> string \<Rightarrow> string option" where
  "after_tag p [] = None"
| "after_tag p (c # s) = (if starts_with_ci p (c # s) then Some (drop (length p) (c # s)) else after_tag p s)"

lemma after_tag_shorter: "after_tag p s = Some r \<Longrightarrow> length r \<le> length s"
  by (induction p s rule: after_tag.induct) (auto split: if_splits)

function remove_think :: "string \<Rightarrow> string" where
  "remove_think [] = []"
| "remove_think (c # s) =
     (if starts_with_ci ''<think>'' (c # s) then
        (case after_tag ''</think>'' (drop 6 s) of
           None \<Rightarrow> c # remove_think s
         | Some rest \<Rightarrow> remove_think rest)
      else c # remove_think s)"
  by pat_completeness auto
termination
proof (relation "measure length", goal_cases)
  case (3 c s rest)
  then show ?case using after_tag_shorter [of "''</think>''" "drop 6 s" rest] by simp
qed simp_all

text \<open>The content is a decoded value; \<open>re.sub\<close> refuses what is not text.\<close>

definition sanitize_assistant_text :: "json \<Rightarrow> string option \<Rightarrow> bool \<Rightarrow> exc + json" where
  "sanitize_assistant_text content prompt_template include_reasoning =
     (if content = JNull \<or> include_reasoning then Inr content
      else if prompt_template = Some ''qwen'' then
        (case content of
           JStr s \<Rightarrow> Inr (JStr (strip (replace ''</think>'' [] (replace ''<think>'' [] (remove_think s)))))
         | _ \<Rightarrow> Inl (TypeError ''expected string''))
      else Inr content)"

section \<open>Backend responses (\<open>utils/openai_response.py\<close>)\<close>

text \<open>\<open>payload.get(...)\<close> on what should be an object.\<close>

fun as_dict :: "json \<Rightarrow> exc + dict" where
  "as_dict (JObj d) = Inr d"
| "as_dict _ = Inl (AttributeError ''get'')"

text \<open>\<open>value or {}\<close>, then used as an object.\<close>

definition or_empty_dict :: "json \<Rightarrow> exc + dict" where
  "or_empty_dict v = (if truthy v then as_dict v else Inr [])"

definition get_default :: "dict \<Rightarrow> string \<Rightarrow> json \<Rightarrow> json" where
  "get_default d k v = (case dict_get d k of None \<Rightarrow> v | Some x \<Rightarrow> x)"

text \<open>The entries \<open>if k in d: out[k] = d[k]\<close> adds.\<close>

definition copied :: "dict \<Rightarrow> string \<Rightarrow> dict" where
  "copied d k = (case dict_get d k of None \<Rightarrow> [] | Some v \<Rightarrow> [(k, v)])"

definition normalize_message :: "bool \<Rightarrow> string option \<Rightarrow> dict \<Rightarrow> exc + dict" where
  "normalize_message include_reasoning prompt_template message =
     bindS
       (case (dict_get message ''content'', dict_get message ''text'') of
          (Some v, _) \<Rightarrow> bindS (sanitize_assistant_text v prompt_template include_reasoning) (\<lambda>c. Inr [(''content'', c)])
        | (None, Some v) \<Rightarrow> bindS (sanitize_assistant_text v prompt_template include_reasoning) (\<lambda>c. Inr [(''content'', c)])
        | (None, None) \<Rightarrow> Inr [])
       (\<lambda>content. Inr (copied message ''role'' @ content @
          (if include_reasoning then copied message ''reasoning_content'' else []) @
          copied message ''tool_calls''))"

definition normalized_part :: "bool \<Rightarrow> string option \<Rightarrow> dict \<Rightarrow> string \<Rightarrow> exc + dict" where
  "normalized_part include_reasoning prompt_template choice k =
     (case dict_get choice k of
        None \<Rightarrow> Inr []
      | Some v \<Rightarrow> bindS (or_empty_dict v) (\<lambda>m.
          bindS (normalize_message include_reasoning prompt_template m) (\<lambda>n. Inr [(k, JObj n)])))"

definition normalize_choice :: "bool \<Rightarrow> string option \<Rightarrow> json \<Rightarrow> exc + json" where
  "normalize_choice include_reasoning prompt_template item =
     bindS (as_dict item) (\<lambda>choice.
     bindS (normalized_part include_reasoning prompt_template choice ''message'') (\<lambda>message.
     bindS (normalized_part include_reasoning prompt_template choice ''delta'') (\<lambda>delta.
     Inr (JObj ([(''index'', get_default choice ''index'' (JInt 0)),
                 (''finish_reason'', dict_get_or_null choice ''finish_reason'')] @
        message @ delta @ copied choice ''text'' @ copied choice ''logprobs'')))))"

text \<open>Iterating over what is not a list: an object gives its keys, text its characters.\<close>

definition iterate :: "json \<Rightarrow> exc + json list" where
  "iterate v = (case v of
       JArr xs \<Rightarrow> Inr xs
     | JObj d \<Rightarrow> Inr (map (\<lambda>(k, _). JStr k) d)
     | JStr s \<Rightarrow> Inr (map (\<lambda>c. JStr [c]) s)
     | _ \<Rightarrow> Inl (TypeError ''not iterable''))"

definition normalize_chat_completion :: "json \<Rightarrow> bool \<Rightarrow> string option \<Rightarrow> exc + dict" where
  "normalize_chat_completion payload include_reasoning prompt_template =
     bindS (as_dict payload) (\<lambda>p.
     bindS (iterate (get_default p ''choices'' (JArr []))) (\<lambda>items.
     bindS (mapS (normalize_choice include_reasoning prompt_template) items) (\<lambda>choices.
     Inr ([(''id'', dict_get_or_null p ''id''),
           (''object'', get_default p ''object'' (JStr ''chat.completion'')),
           (''created'', dict_get_or_null p ''created''),
           (''model'', dict_get_or_null p ''model''),
           (''choices'', JArr choices)] @
        copied p ''usage'' @ copied p ''system_fingerprint''))))"

text \<open>
  One line of an event stream. \<open>decode\<close> is \<open>json.loads\<close> on the text of the line; the line that goes
  out is either text as it came in or the encoding of an object.
\<close>

datatype stream_line = Raw string | Data dict

definition normalize_stream_payload :: "json \<Rightarrow> bool \<Rightarrow> string option \<Rightarrow> exc + stream_line option" where
  "normalize_stream_payload payload include_reasoning prompt_template =
     bindS (normalize_chat_completion payload include_reasoning prompt_template) (\<lambda>normalized.
       case dict_get normalized ''choices'' of
         Some (JArr (JObj choice # _)) \<Rightarrow>
           if dict_get choice ''delta'' = Some (JObj []) \<and> dict_get_or_null choice ''finish_reason'' = JNull
           then Inr None else Inr (Some (Data normalized))
       | _ \<Rightarrow> Inr (Some (Data normalized)))"

text \<open>A line that was built here (\<open>Data\<close>) decodes to what was encoded.\<close>

fun stream_payload :: "(string \<Rightarrow> json option) \<Rightarrow> stream_line \<Rightarrow> json option" where
  "stream_payload decode (Raw line) = decode (drop 6 line)"
| "stream_payload decode (Data d) = Some (JObj d)"

fun is_payload_line :: "stream_line \<Rightarrow> bool" where
  "is_payload_line (Raw line) = (starts_with ''data: '' line \<and> line \<noteq> ''data: [DONE]'')"
| "is_payload_line (Data d) = True"

definition normalize_chat_stream_line ::
  "(string \<Rightarrow> json option) \<Rightarrow> stream_line \<Rightarrow> bool \<Rightarrow> string option \<Rightarrow> exc + stream_line option" where
  "normalize_chat_stream_line decode line include_reasoning prompt_template =
     (if \<not> is_payload_line line then Inr (Some line)
      else case stream_payload decode line of
        None \<Rightarrow> Inl JSONDecodeError
      | Some payload \<Rightarrow> normalize_stream_payload payload include_reasoning prompt_template)"

section \<open>Request summaries (\<open>utils/request_summary.py\<close>)\<close>

text \<open>The messages are validated, so a role and a content, where present, are text.\<close>

definition text_of :: "dict \<Rightarrow> string \<Rightarrow> string \<Rightarrow> string" where
  "text_of d k v = (case dict_get d k of Some (JStr s) \<Rightarrow> s | _ \<Rightarrow> v)"

definition fingerprint :: "(string \<Rightarrow> string) \<Rightarrow> string \<Rightarrow> string" where
  "fingerprint sha256_hex value = take 16 (sha256_hex value)"

definition summarize_chat_request :: "(string \<Rightarrow> string) \<Rightarrow> dict list \<Rightarrow> bool \<Rightarrow> string" where
  "summarize_chat_request sha256_hex messages include_reasoning =
     (let roles = join '','' (map (\<lambda>m. text_of m ''role'' ''unknown'') (take 8 messages));
          total_chars = sum_list (map (\<lambda>m. length (text_of m ''content'' [])) messages);
          prompt_fingerprint = fingerprint sha256_hex (join '' '' (map (\<lambda>m. text_of m ''content'' []) messages)) in
      ''chat messages='' @ str_nat (length messages) @ '' roles='' @ roles @ '' chars='' @ str_nat total_chars @
      '' include_reasoning='' @ (if include_reasoning then ''true'' else ''false'') @
      '' prompt_sha256='' @ prompt_fingerprint)"

definition summarize_completion_request :: "(string \<Rightarrow> string) \<Rightarrow> string \<Rightarrow> string" where
  "summarize_completion_request sha256_hex prompt =
     ''completion chars='' @ str_nat (length prompt) @ '' prompt_sha256='' @ fingerprint sha256_hex prompt"

end
