(* ===== verification/AntiLoop.thy ===== *)
theory AntiLoop
  imports TextUtils "HOL-Library.Multiset"
begin

text \<open>
  Repetition loops in generated text (\<open>utils/anti_loop.py\<close>): when a text counts as repeating, and
  where it is cut.
\<close>

section \<open>Counting\<close>

text \<open>
  The loop shared by the detectors: count each item in a dict and stop at the first whose count
  goes above the bound. The position of that item is the number of items passed before it.
\<close>

fun first_over :: "nat \<Rightarrow> (string \<Rightarrow> nat) \<Rightarrow> nat \<Rightarrow> string list \<Rightarrow> nat option" where
  "first_over bound seen i [] = None"
| "first_over bound seen i (x # xs) =
     (let n = seen x + 1 in
      if n > bound then Some i else first_over bound (seen(x := n)) (Suc i) xs)"

definition exceeds :: "nat \<Rightarrow> string list \<Rightarrow> bool" where
  "exceeds bound xs = (first_over bound (\<lambda>_. 0) 0 xs \<noteq> None)"

section \<open>Detection\<close>

definition loop_blocks :: "string list" where
  "loop_blocks = [''Goal:'', ''Progress:'', ''Done:'', ''In Progress:'', ''Next Steps:'', ''Relevant Files:'']"

definition detect_block_repetition :: "string \<Rightarrow> nat \<Rightarrow> bool" where
  "detect_block_repetition text max_repeats =
     list_ex (\<lambda>block. count_sub block text > max_repeats) loop_blocks"

definition detect_long_line_repetition :: "string \<Rightarrow> nat \<Rightarrow> bool" where
  "detect_long_line_repetition text max_repeats =
     exceeds max_repeats (filter (\<lambda>line. length line > 40) (map strip (splitlines text)))"

text \<open>The check for a single dominating word: the first word to reach the threshold decides per step.\<close>

fun word_dominates :: "nat \<Rightarrow> nat \<Rightarrow> (string \<Rightarrow> nat) \<Rightarrow> string list \<Rightarrow> bool" where
  "word_dominates threshold total_words seen [] = False"
| "word_dominates threshold total_words seen (w # ws) =
     (let n = seen (lower w) + 1 in
      if n \<ge> threshold \<and> 2 * n \<ge> total_words then True
      else word_dominates threshold total_words (seen(lower w := n)) ws)"

definition ngrams :: "nat \<Rightarrow> string list \<Rightarrow> string list" where
  "ngrams ws words = map (\<lambda>i. join '' '' (take ws (drop i words))) [0..<length words + 1 - ws]"

definition window_sizes :: "nat list" where
  "window_sizes = [5, 8, 12, 20]"

definition detect_ngram_repetition :: "string \<Rightarrow> nat \<Rightarrow> bool" where
  "detect_ngram_repetition text threshold =
     (let stripped = strip text; words = split_ws stripped in
      if length stripped < 40 then False
      else if length words \<ge> 8 \<and> word_dominates 8 (length words) (\<lambda>_. 0) words then True
      else list_ex (\<lambda>ws. length words \<ge> ws * threshold \<and> exceeds (threshold - 1) (ngrams ws words)) window_sizes)"

text \<open>
  \<open>re.split(r"([.!?]\s*)", text)\<close>: chunks and separators in turn; without the group, the chunks.
\<close>

definition is_sentence_end :: "char \<Rightarrow> bool" where
  "is_sentence_end c = (c = CHR ''.'' \<or> c = CHR ''!'' \<or> c = CHR ''?'')"

function sentence_pieces :: "string \<Rightarrow> string \<Rightarrow> string list" where
  "sentence_pieces acc [] = [rev acc]"
| "sentence_pieces acc (c # s) =
     (if is_sentence_end c
      then rev acc # (c # takeWhile is_space s) # sentence_pieces [] (dropWhile is_space s)
      else sentence_pieces (c # acc) s)"
  by pat_completeness auto
termination
  by (relation "measure (\<lambda>(acc, s). length s)") (auto simp: le_imp_less_Suc length_dropWhile_le)

fun even_items :: "'a list \<Rightarrow> 'a list" where
  "even_items [] = []"
| "even_items [x] = [x]"
| "even_items (x # y # zs) = x # even_items zs"

definition sentences :: "string \<Rightarrow> string list" where
  "sentences text = even_items (sentence_pieces [] text)"

definition detect_short_phrase_repetition :: "string \<Rightarrow> nat \<Rightarrow> bool" where
  "detect_short_phrase_repetition text max_repeats =
     (if exceeds max_repeats (filter (\<lambda>l. 10 \<le> length l \<and> length l \<le> 40) (map strip (splitlines text))) then True
      else exceeds max_repeats (filter (\<lambda>s. 10 \<le> length s \<and> length s \<le> 60) (map strip (sentences text))))"

definition ngram_threshold :: "string option \<Rightarrow> nat" where
  "ngram_threshold prompt_template = (if prompt_template = Some ''gemma'' then 3 else 4)"

definition detect_repetition :: "string \<Rightarrow> nat \<Rightarrow> string option \<Rightarrow> bool" where
  "detect_repetition text max_repeats prompt_template =
     (if detect_block_repetition text max_repeats then True
      else if detect_long_line_repetition text max_repeats then True
      else if detect_ngram_repetition text (ngram_threshold prompt_template) then True
      else if detect_short_phrase_repetition text max_repeats then True
      else False)"

section \<open>Truncation\<close>

definition truncation_mark :: string where
  "truncation_mark = [CHR 0x0A, CHR 0x0A] @ ''[Truncated due to repetition loop]''"

fun truncate_blocks :: "string list \<Rightarrow> string \<Rightarrow> nat \<Rightarrow> string option" where
  "truncate_blocks [] text max_repeats = None"
| "truncate_blocks (block # blocks) text max_repeats =
     (let indices = occurrences block 0 0 text in
      if length indices > max_repeats
      then Some (strip (take (indices ! max_repeats) text) @ truncation_mark)
      else truncate_blocks blocks text max_repeats)"

fun truncate_ngrams :: "nat list \<Rightarrow> string \<Rightarrow> nat \<Rightarrow> string option" where
  "truncate_ngrams [] text threshold = None"
| "truncate_ngrams (ws # sizes) text threshold =
     (let words = split_ws text in
      case first_over (threshold - 1) (\<lambda>_. 0) 0 (ngrams ws words) of
        Some i \<Rightarrow> Some (strip (take (length (join '' '' (take i words))) text) @ truncation_mark)
      | None \<Rightarrow> truncate_ngrams sizes text threshold)"

text \<open>The loop over the lines: only lines of ten to forty characters are counted.\<close>

fun truncate_lines :: "nat \<Rightarrow> (string \<Rightarrow> nat) \<Rightarrow> string list \<Rightarrow> string list \<Rightarrow> string option" where
  "truncate_lines max_repeats seen passed [] = None"
| "truncate_lines max_repeats seen passed (line # rest) =
     (let stripped = strip line in
      if 10 \<le> length stripped \<and> length stripped \<le> 40 then
        (let n = seen stripped + 1 in
         if n > max_repeats then Some (strip (join [CHR 0x0A] passed) @ truncation_mark)
         else truncate_lines max_repeats (seen(stripped := n)) (passed @ [line]) rest)
      else truncate_lines max_repeats seen (passed @ [line]) rest)"

fun is_separator :: "string \<Rightarrow> bool" where
  "is_separator [] = False"
| "is_separator (c # s) = (is_sentence_end c \<and> list_all is_space s)"

text \<open>The loop over chunks and separators, with the text put together so far.\<close>

fun truncate_sentences :: "nat \<Rightarrow> (string \<Rightarrow> nat) \<Rightarrow> string \<Rightarrow> string list \<Rightarrow> string option" where
  "truncate_sentences max_repeats seen reconstructed [] = None"
| "truncate_sentences max_repeats seen reconstructed [chunk] = None"
| "truncate_sentences max_repeats seen reconstructed (chunk # sep # rest) =
     (if is_separator sep then
        (let phrase = strip (chunk @ sep); n = seen phrase + 1 in
         if n > max_repeats then Some (strip reconstructed @ truncation_mark)
         else truncate_sentences max_repeats (seen(phrase := n)) (reconstructed @ chunk @ sep) rest)
      else truncate_sentences max_repeats seen (reconstructed @ chunk) (sep # rest))"

definition truncate_phrases :: "string \<Rightarrow> nat \<Rightarrow> string option" where
  "truncate_phrases text max_repeats =
     (case truncate_lines max_repeats (\<lambda>_. 0) [] (splitlines text) of
        Some r \<Rightarrow> Some r
      | None \<Rightarrow> truncate_sentences max_repeats (\<lambda>_. 0) [] (sentence_pieces [] text))"

definition truncate_at_repetition :: "string \<Rightarrow> nat \<Rightarrow> string option \<Rightarrow> string" where
  "truncate_at_repetition text max_repeats prompt_template =
     (case truncate_blocks loop_blocks text max_repeats of
        Some r \<Rightarrow> r
      | None \<Rightarrow>
          (case (if detect_ngram_repetition text (ngram_threshold prompt_template)
                 then truncate_ngrams window_sizes text (ngram_threshold prompt_template) else None) of
             Some r \<Rightarrow> r
           | None \<Rightarrow>
               (case (if detect_short_phrase_repetition text max_repeats
                      then truncate_phrases text max_repeats else None) of
                  Some r \<Rightarrow> r
                | None \<Rightarrow> text)))"

section \<open>Facts\<close>

lemma first_over_iff:
  "first_over bound seen i xs \<noteq> None \<longleftrightarrow> (\<exists>x\<in>set xs. seen x + count_list xs x > bound)"
proof (induction xs arbitrary: seen i)
  case Nil
  then show ?case by simp
next
  case (Cons x xs)
  show ?case
  proof (cases "seen x + 1 > bound")
    case True
    then show ?thesis by (auto intro!: exI [of _ x])
  next
    case False
    have eq: "(seen(x := seen x + 1)) y + count_list xs y = seen y + count_list (x # xs) y" for y by simp
    have "\<not> seen x + count_list (x # xs) x > bound" if "x \<notin> set xs"
      using False that count_list_0_iff [of xs x] by simp
    then have "(\<exists>y\<in>set xs. (seen(x := seen x + 1)) y + count_list xs y > bound) \<longleftrightarrow>
        (\<exists>y\<in>set (x # xs). seen y + count_list (x # xs) y > bound)"
      unfolding eq set_simps by blast
    moreover have "first_over bound seen i (x # xs) = first_over bound (seen(x := seen x + 1)) (Suc i) xs"
      using False by (simp add: Let_def)
    ultimately show ?thesis using Cons.IH [of "seen(x := seen x + 1)" "Suc i"] by metis
  qed
qed

text \<open>The positions of an occurrence, and those that fit into a prefix.\<close>

lemma occurrences_ge: "j \<in> set (occurrences p i k s) \<Longrightarrow> i \<le> j"
  by (induction p i k s rule: occurrences.induct) (auto split: if_splits)

lemma occurrences_sorted: "sorted_wrt (<) (occurrences p i k s)"
  by (induction p i k s rule: occurrences.induct) (auto dest: occurrences_ge simp: Suc_le_eq)

lemma starts_with_length: "starts_with p s \<Longrightarrow> length p \<le> length s"
  by (auto simp: starts_with_split)

lemma occurrences_short: "length s < length p \<Longrightarrow> occurrences p i k s = []"
  by (induction p i k s rule: occurrences.induct) (auto dest: starts_with_length)

lemma starts_with_take: "starts_with p (take n s) \<longleftrightarrow> starts_with p s \<and> (length p \<le> n \<or> length p \<le> length (take n s))"
  by (auto simp: starts_with_def min_def split: if_splits)

lemma occurrences_take:
  assumes "p \<noteq> []"
  shows "occurrences p i k (take n s) = filter (\<lambda>j. j + length p \<le> i + n) (occurrences p i k s)"
  using assms
proof (induction p i k s arbitrary: n rule: occurrences.induct)
  case (1 p i skip)
  then show ?case by simp
next
  case (2 p i skip c s)
  show ?case
  proof (cases n)
    case 0
    have "filter (\<lambda>j. j + length p \<le> i) (occurrences p (Suc i) skip s) = []"
      by (auto simp: filter_empty_conv dest: occurrences_ge)
    with 0 show ?thesis by simp
  next
    case (Suc m)
    then show ?thesis using "2.IH" [of m] "2.prems" by simp
  qed
next
  case (3 p i c s)
  have none: "filter (\<lambda>j. j + length p \<le> i + n) (occurrences p (Suc i) k s) = []" if "n < length p" for k
    using that by (auto simp: filter_empty_conv dest: occurrences_ge)
  show ?case
  proof (cases "starts_with p (take n (c # s))")
    case True
    then have n: "length p \<le> n" and st: "starts_with p (c # s)"
      using starts_with_length [OF True] by (auto simp: starts_with_take)
    obtain m where m: "n = Suc m" using n "3.prems" by (cases n) auto
    show ?thesis using True st n "3.IH"(1) [OF st "3.prems", of m] by (simp add: m)
  next
    case False
    show ?thesis
    proof (cases "starts_with p (c # s)")
      case True
      with False have n: "n < length p" by (auto simp: starts_with_take)
      then have "occurrences p i 0 (take n (c # s)) = []" by (intro occurrences_short) simp
      with True n none show ?thesis by simp
    next
      case nst: False
      show ?thesis
      proof (cases n)
        case 0
        then show ?thesis using nst none [of 0] "3.prems" by simp
      next
        case (Suc m)
        then show ?thesis using False nst "3.IH"(2) [OF nst "3.prems", of m] by simp
      qed
    qed
  qed
qed

lemma sorted_below_nth:
  assumes "sorted_wrt (<) (xs :: nat list)" and "k < length xs"
  shows "length (filter (\<lambda>j. j < xs ! k) xs) \<le> k"
proof -
  have "filter (\<lambda>j. j < xs ! k) (take k xs @ drop k xs) = filter (\<lambda>j. j < xs ! k) (take k xs)"
  proof -
    have "\<not> j < xs ! k" if j: "j \<in> set (drop k xs)" for j
    proof -
      obtain m where m: "m < length (drop k xs)" "j = drop k xs ! m"
        using j unfolding in_set_conv_nth by blast
      then have jm: "k + m < length xs" "j = xs ! (k + m)" using assms(2) by simp_all
      show ?thesis
      proof (cases "m = 0")
        case True
        then show ?thesis using jm by simp
      next
        case False
        then have "xs ! k < xs ! (k + m)" using jm(1) by (intro sorted_wrt_nth_less [OF assms(1)]) simp_all
        then show ?thesis using jm(2) by simp
      qed
    qed
    then have "filter (\<lambda>j. j < xs ! k) (drop k xs) = []" unfolding filter_empty_conv by blast
    then show ?thesis unfolding filter_append by simp
  qed
  then have "length (filter (\<lambda>j. j < xs ! k) xs) \<le> length (take k xs)"
    by (metis append_take_drop_id length_filter_le)
  then show ?thesis by simp
qed

lemma count_take_le:
  assumes "p \<noteq> []"
  shows "count_sub p (take n s) \<le> count_sub p s"
  by (simp add: count_sub_def occurrences_take [OF assms])

lemma occurrences_shift: "occurrences p (d + i) k s = map ((+) d) (occurrences p i k s)"
  by (induction p i k s rule: occurrences.induct) auto

lemma count_lstrip:
  assumes "p \<noteq> []" and "\<not> is_space (hd p)"
  shows "count_sub p (lstrip s) = count_sub p s"
proof (induction s)
  case (Cons c s)
  show ?case
  proof (cases "is_space c")
    case True
    then have "\<not> starts_with p (c # s)" using assms by (cases p) (auto simp: starts_with_def)
    then have "count_sub p (c # s) = count_sub p s"
      using occurrences_shift [of p 1 0 0 s] by (simp add: count_sub_def)
    with True Cons show ?thesis by (simp add: lstrip_def)
  qed (simp add: lstrip_def)
qed (simp add: lstrip_def)

lemma rstrip_take: "rstrip s = take (length (rstrip s)) s"
proof -
  have "s = rev (dropWhile is_space (rev s)) @ rev (takeWhile is_space (rev s))"
    by (metis rev_append rev_rev_ident takeWhile_dropWhile_id)
  then show ?thesis unfolding rstrip_def by (metis append_eq_conv_conj)
qed

lemma count_strip_le:
  assumes "p \<noteq> []" and "\<not> is_space (hd p)"
  shows "count_sub p (strip s) \<le> count_sub p s"
  unfolding strip_def using count_take_le [OF assms(1), of "length (rstrip (lstrip s))" "lstrip s"]
  by (metis assms count_lstrip rstrip_take)

lemma cut_before_excess:
  assumes "p \<noteq> []" and "\<not> is_space (hd p)" and "k < length (occurrences p 0 0 s)"
  shows "count_sub p (strip (take (occurrences p 0 0 s ! k) s)) \<le> k"
proof -
  let ?o = "occurrences p 0 0 s"
  have "count_sub p (take (?o ! k) s) = length (filter (\<lambda>j. j + length p \<le> ?o ! k) ?o)"
    by (simp add: count_sub_def occurrences_take [OF assms(1)])
  also have "\<dots> \<le> length (filter (\<lambda>j. j < ?o ! k) ?o)"
  proof -
    have "filter (\<lambda>j. j + length p \<le> ?o ! k) ?o =
        filter (\<lambda>j. j + length p \<le> ?o ! k) (filter (\<lambda>j. j < ?o ! k) ?o)"
      unfolding filter_filter using assms(1) by (intro filter_cong) (auto simp: neq_Nil_conv)
    then show ?thesis by (metis length_filter_le)
  qed
  also have "\<dots> \<le> k" by (rule sorted_below_nth [OF occurrences_sorted assms(3)])
  finally show ?thesis using count_strip_le [OF assms(1,2)] le_trans by blast
qed

lemma loop_blocks_ok: "block \<in> set loop_blocks \<Longrightarrow> block \<noteq> [] \<and> \<not> is_space (hd block)"
  by (auto simp: loop_blocks_def is_space_def py_ord_def Let_def)

lemma truncate_blocks_spec:
  assumes "\<forall>b\<in>set bs. b \<noteq> [] \<and> \<not> is_space (hd b)" and "list_ex (\<lambda>b. count_sub b text > n) bs"
  shows "\<exists>block\<in>set bs. \<exists>k. truncate_blocks bs text n = Some (strip (take k text) @ truncation_mark) \<and>
    count_sub block text > n \<and> count_sub block (strip (take k text)) \<le> n"
  using assms
proof (induction bs)
  case (Cons b bs)
  show ?case
  proof (cases "count_sub b text > n")
    case True
    then have "truncate_blocks (b # bs) text n =
        Some (strip (take (occurrences b 0 0 text ! n) text) @ truncation_mark)"
      by (simp add: count_sub_def Let_def)
    moreover have "count_sub b (strip (take (occurrences b 0 0 text ! n) text)) \<le> n"
      using Cons.prems(1) True by (intro cut_before_excess) (simp_all add: count_sub_def)
    ultimately show ?thesis using True by auto
  next
    case False
    then have "truncate_blocks (b # bs) text n = truncate_blocks bs text n" by (simp add: count_sub_def Let_def)
    then show ?thesis using Cons False by simp
  qed
qed simp

text \<open>
  C12. Truncation breaks the loop: a text in which a planning heading occurs too often is cut to a
  prefix, with the mark added, in which that heading occurs at most the allowed number of times.
\<close>

theorem block_loops_are_cut:
  assumes "detect_block_repetition text max_repeats"
  shows "\<exists>block\<in>set loop_blocks. \<exists>k.
    truncate_at_repetition text max_repeats template = strip (take k text) @ truncation_mark \<and>
    count_sub block text > max_repeats \<and> count_sub block (strip (take k text)) \<le> max_repeats"
proof -
  have "list_ex (\<lambda>b. count_sub b text > max_repeats) loop_blocks"
    using assms by (simp add: detect_block_repetition_def)
  then obtain block k where b: "block \<in> set loop_blocks"
    "truncate_blocks loop_blocks text max_repeats = Some (strip (take k text) @ truncation_mark)"
    "count_sub block text > max_repeats" "count_sub block (strip (take k text)) \<le> max_repeats"
    using truncate_blocks_spec [of loop_blocks max_repeats "text"] loop_blocks_ok by blast
  then have "truncate_at_repetition text max_repeats template = strip (take k text) @ truncation_mark"
    by (simp add: truncate_at_repetition_def)
  with b show ?thesis by blast
qed

theorem block_loops_are_cut_witness:
  "\<exists>k. truncate_at_repetition ''Goal: a Goal: b Goal: c'' 2 None = strip (take k ''Goal: a Goal: b Goal: c'') @ truncation_mark"
proof -
  have "detect_block_repetition ''Goal: a Goal: b Goal: c'' 2"
    by (simp add: detect_block_repetition_def loop_blocks_def count_sub_def starts_with_def eval_nat_numeral)
  from block_loops_are_cut [OF this, of None] show ?thesis by blast
qed

text \<open>Words of lower case letters only, which none of the scanners stops at.\<close>

definition plain :: "string \<Rightarrow> bool" where
  "plain s = list_all is_lower s"

lemma plain_char:
  assumes "is_lower c"
  shows "\<not> is_space c" and "\<not> is_linebreak c" and "py_ord c \<noteq> 13" and "\<not> is_sentence_end c"
  using assms by (auto simp: is_lower_def is_space_def is_linebreak_def is_sentence_end_def py_ord_def Let_def)

lemma splitlines_acc_plain: "plain l \<Longrightarrow> splitlines_acc acc (l @ s) = splitlines_acc (rev l @ acc) s"
  by (induction l arbitrary: acc) (auto simp: plain_def plain_char)

lemma split_acc_plain: "plain l \<Longrightarrow> split_acc acc (l @ s) = split_acc (rev l @ acc) s"
  by (induction l arbitrary: acc) (auto simp: plain_def plain_char)

lemma sentence_pieces_plain: "plain l \<Longrightarrow> sentence_pieces acc (l @ s) = sentence_pieces (rev l @ acc) s"
  by (induction l arbitrary: acc) (auto simp: plain_def plain_char)

lemma strip_plain_text: "s \<noteq> [] \<Longrightarrow> \<not> is_space (hd s) \<Longrightarrow> \<not> is_space (last s) \<Longrightarrow> strip s = s"
  by (cases s rule: rev_cases) (auto simp: strip_def rstrip_def lstrip_id)

lemma occurrences_absent: "p \<noteq> [] \<Longrightarrow> hd p \<notin> set s \<Longrightarrow> occurrences p i k s = []"
proof (induction p i k s rule: occurrences.induct)
  case (3 p i c s)
  then have "\<not> starts_with p (c # s)" by (cases p) (auto simp: starts_with_def)
  with 3 show ?case by simp
qed auto

definition three_lines :: "string \<Rightarrow> string" where
  "three_lines l = l @ CHR 0x0A # l @ CHR 0x0A # l"

lemma newline_char: "is_space (CHR 0x0A)" "is_linebreak (CHR 0x0A)" "py_ord (CHR 0x0A) \<noteq> 13"
  "\<not> is_sentence_end (CHR 0x0A)"
  by (simp_all add: is_space_def is_linebreak_def is_sentence_end_def py_ord_def Let_def)

lemma three_lines_scans:
  assumes "plain l" and "l \<noteq> []"
  shows "splitlines (three_lines l) = [l, l, l]" and "split_ws (three_lines l) = [l, l, l]"
    and "sentences (three_lines l) = [three_lines l]" and "strip (three_lines l) = three_lines l"
    and "strip l = l"
proof -
  have l: "\<not> is_space (hd l)" "\<not> is_space (last l)"
    using assms plain_char(1) by (simp_all add: plain_def list_all_iff)
  show "splitlines (three_lines l) = [l, l, l]" "split_ws (three_lines l) = [l, l, l]"
    using assms splitlines_acc_plain [OF assms(1), of _ "[]"] split_acc_plain [OF assms(1), of _ "[]"]
    by (simp_all add: splitlines_def split_ws_def three_lines_def splitlines_acc_plain split_acc_plain newline_char)
  show "sentences (three_lines l) = [three_lines l]"
    using sentence_pieces_plain [OF assms(1), of _ "[]"]
    by (simp add: sentences_def three_lines_def sentence_pieces_plain assms(1) newline_char)
  show "strip (three_lines l) = three_lines l" "strip l = l"
    using assms(2) l by (simp_all add: strip_plain_text three_lines_def)
qed

text \<open>
  Detection and truncation disagree: three equal lines, each a single word of more than sixty
  letters, count as a repetition, yet the truncation returns the text unchanged.
\<close>

theorem long_lines_not_cut:
  assumes "plain l" and "60 < length l"
  shows "detect_repetition (three_lines l) 2 template \<and>
    truncate_at_repetition (three_lines l) 2 template = three_lines l"
proof -
  have ne: "l \<noteq> []" using assms(2) by auto
  note scans = three_lines_scans [OF assms(1) ne]
  have "\<forall>c\<in>set (three_lines l). \<not> is_upper c"
    using assms(1) by (auto simp: three_lines_def plain_def list_all_iff is_lower_def is_upper_def py_ord_def)
  moreover have "is_upper (hd b)" if "b \<in> set loop_blocks" for b
    using that by (auto simp: loop_blocks_def is_upper_def py_ord_def)
  ultimately have "hd b \<notin> set (three_lines l)" if "b \<in> set loop_blocks" for b
    using that by blast
  then have none: "occurrences b 0 0 (three_lines l) = []" if "b \<in> set loop_blocks" for b
    using that loop_blocks_ok occurrences_absent by blast
  have "truncate_blocks bs (three_lines l) 2 = None" if "set bs \<subseteq> set loop_blocks" for bs
    using that none by (induction bs) auto
  then have blocks: "truncate_blocks loop_blocks (three_lines l) 2 = None" by simp
  have long: "detect_long_line_repetition (three_lines l) 2"
    using assms(2) by (simp add: detect_long_line_repetition_def scans exceeds_def)
  have ngram: "\<not> detect_ngram_repetition (three_lines l) (ngram_threshold template)"
    by (simp add: detect_ngram_repetition_def scans window_sizes_def ngram_threshold_def Let_def)
  have "60 < length (three_lines l)" using assms(2) by (simp add: three_lines_def)
  then have short: "\<not> detect_short_phrase_repetition (three_lines l) 2"
    using assms(2) by (simp add: detect_short_phrase_repetition_def scans exceeds_def)
  show ?thesis
    using long ngram short by (simp add: detect_repetition_def truncate_at_repetition_def blocks)
qed

theorem long_lines_not_cut_witness:
  "detect_repetition (three_lines (replicate 61 (CHR ''a''))) 2 None"
proof -
  have "plain (replicate 61 (CHR ''a''))" by (simp add: plain_def list_all_iff is_lower_def py_ord_def)
  from long_lines_not_cut [OF this, of None] show ?thesis by simp
qed

end
