(* ===== verification/Registry.thy ===== *)
theory Registry
  imports World TextUtils
begin

text \<open>
  Seeding of the registries (\<open>services/backend_registry.py\<close>, \<open>services/model_registry.py\<close>): the
  built-in backends, the built-in models with their routes, and the default flags.
\<close>

section \<open>Backends\<close>

record backend_payload =
  bp_name :: string
  bp_provider :: string
  bp_backend_url :: string
  bp_healthcheck_path :: string
  bp_is_active :: bool
  bp_is_default :: bool
  bp_status :: string
  bp_max_parallel_requests :: int
  bp_metadata :: json

definition default_backend_payloads :: "settings \<Rightarrow> backend_payload list" where
  "default_backend_payloads cfg = [
     \<lparr>bp_name = ''gemma-local'', bp_provider = ''llama.cpp'', bp_backend_url = data_plane_base_url cfg,
      bp_healthcheck_path = ''/health'', bp_is_active = True, bp_is_default = True,
      bp_status = ''configured'', bp_max_parallel_requests = 1,
      bp_metadata = JObj [(''service_name'', JStr ''data-plane-gemma'')]\<rparr>,
     \<lparr>bp_name = ''bonsai-local'', bp_provider = ''llama.cpp'', bp_backend_url = bonsai_base_url cfg,
      bp_healthcheck_path = ''/health'', bp_is_active = bonsai_enabled cfg, bp_is_default = False,
      bp_status = (if bonsai_enabled cfg then ''configured'' else ''optional-disabled''),
      bp_max_parallel_requests = 1,
      bp_metadata = JObj [(''service_name'', JStr ''data-plane-bonsai''), (''test_backend'', JBool False)]\<rparr>,
     \<lparr>bp_name = ''ollama-local'', bp_provider = ''ollama'', bp_backend_url = ollama_base_url cfg,
      bp_healthcheck_path = ''/api/tags'', bp_is_active = False, bp_is_default = False,
      bp_status = ''optional'', bp_max_parallel_requests = 1,
      bp_metadata = JObj [(''service_name'', JStr ''data-plane-ollama'')]\<rparr>,
     \<lparr>bp_name = ''fallback-local'', bp_provider = ''llama.cpp'', bp_backend_url = ''http://data-plane-mock:8081'',
      bp_healthcheck_path = ''/health'', bp_is_active = False, bp_is_default = False,
      bp_status = ''test-disabled'', bp_max_parallel_requests = 8,
      bp_metadata = JObj [(''service_name'', JStr ''data-plane-mock''), (''test_backend'', JBool True)]\<rparr>]"

definition new_backend :: "timestamp \<Rightarrow> uuid \<Rightarrow> backend_payload \<Rightarrow> backend" where
  "new_backend now bid p = \<lparr>b_id = bid, b_name = bp_name p, b_provider = bp_provider p,
     b_backend_url = bp_backend_url p, b_healthcheck_path = bp_healthcheck_path p,
     b_is_active = bp_is_active p, b_is_default = bp_is_default p, b_status = bp_status p,
     b_max_parallel_requests = bp_max_parallel_requests p, b_current_running = 0,
     b_metadata_json = Some (dumps (bp_metadata p)), b_created_at = now, b_updated_at = now\<rparr>"

text \<open>The \<open>setattr\<close> loop; the activation and status of the Ollama backend are the operator's.\<close>

definition apply_backend :: "backend_payload \<Rightarrow> backend \<Rightarrow> backend" where
  "apply_backend p b = b\<lparr>b_provider := bp_provider p, b_backend_url := bp_backend_url p,
     b_healthcheck_path := bp_healthcheck_path p,
     b_is_active := (if b_name b = ''ollama-local'' then b_is_active b else bp_is_active p),
     b_is_default := bp_is_default p,
     b_status := (if b_name b = ''ollama-local'' then b_status b else bp_status p),
     b_max_parallel_requests := bp_max_parallel_requests p,
     b_metadata_json := Some (dumps (bp_metadata p))\<rparr>"

definition backend_by_name :: "db \<Rightarrow> string \<Rightarrow> backend option" where
  "backend_by_name d name = List.find (\<lambda>b. b_name b = name) (backends d)"

definition ensure_backend :: "timestamp \<Rightarrow> backend_payload \<Rightarrow> ('r, uuid) act" where
  "ensure_backend now p =
     bindE (query (\<lambda>d. backend_by_name d (bp_name p))) (\<lambda>existing.
     case existing of
       None \<Rightarrow> bindE fresh_id (\<lambda>bid.
         seqE (update (\<lambda>d. d\<lparr>backends := backends d @ [new_backend now bid p]\<rparr>)) (ret bid))
     | Some b \<Rightarrow>
         seqE (update (\<lambda>d. d\<lparr>backends := upd_where (\<lambda>x. b_id x = b_id b) (apply_backend p) (backends d)\<rparr>))
           (ret (b_id b)))"

text \<open>The identifiers by name; the first of them is the default backend.\<close>

definition ensure_default_backends :: "settings \<Rightarrow> timestamp \<Rightarrow> ('r, (string \<times> uuid) list) act" where
  "ensure_default_backends cfg now =
     (let payloads = default_backend_payloads cfg in
      bindE (forE payloads (ensure_backend now)) (\<lambda>ids.
      let created = zip (map bp_name payloads) ids; default_id = hd ids in
      seqE (update (\<lambda>d. d\<lparr>backends := upd_where (\<lambda>b. b_id b \<in> set ids)
              (\<lambda>b. b\<lparr>b_is_default := (b_id b = default_id)\<rparr>) (backends d)\<rparr>))
        (ret created)))"

section \<open>Models\<close>

definition build_metadata :: "string \<Rightarrow> string \<Rightarrow> string \<Rightarrow> string option \<Rightarrow> jtext" where
  "build_metadata recommended_quantization gpu_profile backend_name architecture =
     dumps (JObj ([(''recommended_quantization'', JStr recommended_quantization),
        (''gpu_profile'', JStr gpu_profile), (''backend'', JStr ''llama.cpp''),
        (''backend_name'', JStr backend_name)] @
       (case architecture of None \<Rightarrow> [] | Some a \<Rightarrow> if a = [] then [] else [(''architecture'', JStr a)])))"

definition route_between :: "uuid \<Rightarrow> uuid \<Rightarrow> route \<Rightarrow> bool" where
  "route_between mid bid r = (r_model_registry_id r = mid \<and> r_inference_backend_id r = bid)"

text \<open>The body the two route functions share but for the priority.\<close>

definition ensure_route :: "timestamp \<Rightarrow> int \<Rightarrow> uuid \<Rightarrow> uuid \<Rightarrow> ('r, unit) act" where
  "ensure_route now priority mid bid =
     bindE (query (\<lambda>d. (filter (route_between mid bid) (routes d),
        case backend_of d bid of None \<Rightarrow> False | Some b \<Rightarrow> b_is_active b))) (\<lambda>(rows, active).
     bindE (liftE (scalar_one_or_none rows)) (\<lambda>route.
     case route of
       None \<Rightarrow> bindE fresh_id (\<lambda>rid. update (\<lambda>d. d\<lparr>routes := routes d @
         [\<lparr>r_id = Some rid, r_model_registry_id = mid, r_inference_backend_id = bid, r_priority = priority,
           r_weight = 100, r_state = (if active then ''healthy'' else ''disabled''),
           r_created_at = now, r_updated_at = now\<rparr>]\<rparr>))
     | Some r \<Rightarrow> update (\<lambda>d. d\<lparr>routes := upd_where (\<lambda>x. r_id x = r_id r)
         (\<lambda>x. x\<lparr>r_priority := priority, r_weight := 100,
                r_state := (if \<not> active then ''disabled''
                            else if r_state x = ''disabled'' then ''healthy'' else r_state x)\<rparr>) (routes d)\<rparr>)))"

definition ensure_fallback_route :: "timestamp \<Rightarrow> uuid \<Rightarrow> uuid \<Rightarrow> ('r, unit) act" where
  "ensure_fallback_route now mid bid = ensure_route now 2 mid bid"

definition ensure_default_route :: "timestamp \<Rightarrow> uuid \<Rightarrow> uuid \<Rightarrow> ('r, unit) act" where
  "ensure_default_route now mid bid = ensure_route now 1 mid bid"

definition new_model ::
  "settings \<Rightarrow> timestamp \<Rightarrow> uuid \<Rightarrow> string \<Rightarrow> string \<Rightarrow> string \<Rightarrow> uuid \<Rightarrow> bool \<Rightarrow> bool \<Rightarrow> string option \<Rightarrow> jtext \<Rightarrow> model" where
  "new_model cfg now mid the_id alias file bid is_default is_active template metadata =
     \<lparr>m_id = mid, m_model_id = the_id, m_model_alias = Some alias, m_inference_backend_id = Some bid,
      m_provider = ''llama.cpp'', m_model_file = file, m_context_length = max_context_tokens cfg,
      m_is_active = is_active, m_is_default = is_default,
      m_status = (if is_active then ''configured'' else ''optional-disabled''),
      m_prompt_template = template, m_metadata_json = Some metadata,
      m_created_at = now, m_updated_at = now\<rparr>"

definition ensure_model_entry ::
  "settings \<Rightarrow> timestamp \<Rightarrow> string \<Rightarrow> string \<Rightarrow> string \<Rightarrow> uuid \<Rightarrow> bool \<Rightarrow> bool \<Rightarrow> jtext \<Rightarrow> ('r, uuid) act" where
  "ensure_model_entry cfg now the_id alias file bid is_default is_active metadata =
     bindE (query (\<lambda>d. filter (\<lambda>m. m_model_id m = the_id \<or> m_model_alias m = Some alias) (models d))) (\<lambda>rows.
     bindE (liftE (scalar_one_or_none rows)) (\<lambda>existing.
     let template = detect_prompt_template the_id file (Some alias) (Some metadata) in
     bindE
       (case existing of
          None \<Rightarrow> bindE fresh_id (\<lambda>mid.
            seqE (update (\<lambda>d. d\<lparr>models := models d @
              [new_model cfg now mid the_id alias file bid is_default is_active template metadata]\<rparr>)) (ret mid))
        | Some m \<Rightarrow>
            seqE (update (\<lambda>d. d\<lparr>models := upd_where (\<lambda>x. m_id x = m_id m)
              (\<lambda>x. x\<lparr>m_model_alias := Some alias, m_inference_backend_id := Some bid,
                     m_provider := ''llama.cpp'', m_model_file := file,
                     m_context_length := max_context_tokens cfg, m_is_default := is_default,
                     m_is_active := is_active,
                     m_status := (if is_active then ''configured'' else ''optional-disabled''),
                     m_prompt_template := template, m_metadata_json := Some metadata\<rparr>) (models d)\<rparr>))
              (ret (m_id m)))
       (\<lambda>mid. seqE (ensure_default_route now mid bid) (ret mid))))"

definition the_backend :: "(string \<times> uuid) list \<Rightarrow> string \<Rightarrow> ('r, uuid) act" where
  "the_backend created name = (case map_of created name of None \<Rightarrow> raise (KeyError name) | Some b \<Rightarrow> ret b)"

definition ensure_default_model :: "settings \<Rightarrow> timestamp \<Rightarrow> ('r, uuid) act" where
  "ensure_default_model cfg now =
     bindE (ensure_default_backends cfg now) (\<lambda>created.
     bindE (the_backend created ''gemma-local'') (\<lambda>gemma_backend.
     bindE (the_backend created ''bonsai-local'') (\<lambda>bonsai_backend.
     bindE (query (\<lambda>d. case backend_of d bonsai_backend of None \<Rightarrow> False | Some b \<Rightarrow> b_is_active b)) (\<lambda>bonsai_active.
     bindE (ensure_model_entry cfg now (cfg_model_id cfg) ''gemma'' (cfg_model_file cfg) gemma_backend True True
       (build_metadata ''Q4_K_M'' ''RTX 4050 6GB'' ''gemma-local'' (Some ''gemma''))) (\<lambda>gemma_model.
     seqE (case map_of created ''fallback-local'' of None \<Rightarrow> ret ()
           | Some fallback \<Rightarrow> ensure_fallback_route now gemma_model fallback)
     (seqE (ensure_model_entry cfg now (bonsai_model_id cfg) ''bonsai'' (bonsai_model_file cfg) bonsai_backend False bonsai_active
        (build_metadata ''Q4_K_M'' ''RTX 4050 6GB'' ''bonsai-local'' (Some ''qwen3'')))
     (seqE (ensure_model_entry cfg now (bonsai_model_id cfg @ ''/alias-bonzai'') ''bonzai'' (bonsai_model_file cfg) bonsai_backend False bonsai_active
        (build_metadata ''Q4_K_M'' ''RTX 4050 6GB'' ''bonsai-local'' (Some ''qwen3'')))
     (seqE (update (\<lambda>d. d\<lparr>models := upd_where (\<lambda>m. m_id m \<noteq> gemma_model \<and> m_is_default m)
        (\<lambda>m. m\<lparr>m_is_default := False\<rparr>) (models d)\<rparr>))
     (ret gemma_model)))))))))"

end
