(* ===== verification/Routing.thy ===== *)
theory Routing
  imports World TextUtils "HOL-Library.Multiset"
begin

text \<open>
  Which model answers a request and on which backends it is tried (\<open>services/model_policy.py\<close>):
  the models a client may use, the resolution of the requested name, and the order of the routes.
  The relationship attributes are loaded eagerly by every caller, so they are read off the tables.
\<close>

section \<open>Allowed models\<close>

definition SUPPORTED_BACKENDS :: "string list" where
  "SUPPORTED_BACKENDS = [''llama.cpp'', ''ollama'', ''vllm'']"

definition ROUTE_STATE_ORDER :: "(string \<times> int) list" where
  "ROUTE_STATE_ORDER = [(''healthy'', 0), (''degraded'', 1), (''unhealthy'', 2), (''disabled'', 3)]"

definition state_order :: "string \<Rightarrow> int" where
  "state_order state = (case map_of ROUTE_STATE_ORDER state of None \<Rightarrow> 99 | Some n \<Rightarrow> n)"

definition parse_allowed_models :: "(json \<Rightarrow> string) \<Rightarrow> jtext option \<Rightarrow> string list" where
  "parse_allowed_models rp raw =
     (if text_falsy raw then []
      else case loads (the raw) of
             Some (JArr items) \<Rightarrow> map (py_str rp) (filter (\<lambda>x. strip (py_str rp x) \<noteq> []) items)
           | _ \<Rightarrow> [])"

definition get_effective_allowed_models :: "(json \<Rightarrow> string) \<Rightarrow> db \<Rightarrow> client \<Rightarrow> string list" where
  "get_effective_allowed_models rp d client =
     (let client_allowed = parse_allowed_models rp (c_allowed_models_json client) in
      if client_allowed \<noteq> [] then client_allowed
      else case client_plan d client of
             None \<Rightarrow> []
           | Some plan \<Rightarrow> parse_allowed_models rp (p_allowed_models_json plan))"

section \<open>Active models and their routes\<close>

definition list_active_registry_models :: "db \<Rightarrow> model list" where
  "list_active_registry_models d =
     filter (\<lambda>m. case model_backend d m of None \<Rightarrow> True | Some b \<Rightarrow> b_is_active b)
       (sort_key (\<lambda>m. (if m_is_default m then 0 else 1 :: int, m_created_at m))
          (filter m_is_active (models d)))"

definition route_usable :: "db \<Rightarrow> route \<Rightarrow> bool" where
  "route_usable d r =
     ((case backend_of d (r_inference_backend_id r) of None \<Rightarrow> False | Some b \<Rightarrow> b_is_active b) \<and>
      r_state r \<noteq> ''disabled'')"

definition synthetic_route :: "model \<Rightarrow> backend \<Rightarrow> route" where
  "synthetic_route m b = \<lparr>r_id = None, r_model_registry_id = m_id m, r_inference_backend_id = b_id b,
     r_priority = 1, r_weight = 100, r_state = ''healthy'', r_created_at = 0, r_updated_at = 0\<rparr>"

definition route_rank :: "route \<Rightarrow> int \<times> int \<times> int \<times> int" where
  "route_rank r = (state_order (r_state r), r_priority r, - r_weight r, r_created_at r)"

definition get_routing_candidates :: "db \<Rightarrow> model \<Rightarrow> route list" where
  "get_routing_candidates d m =
     (let usable = filter (route_usable d) (model_routes d m) in
      case (usable, model_backend d m) of
        ([], Some b) \<Rightarrow> if b_is_active b then [synthetic_route m b] else []
      | _ \<Rightarrow> sort_key route_rank usable)"

text \<open>
  What the session has loaded of a model and of its routes is known to SQLAlchemy: \<open>unloaded\<close> and
  \<open>route_unloaded\<close> are the names \<open>inspect(...).unloaded\<close> lists. The queries of this module load everything,
  which makes the check pass; the query of the worker does not.
\<close>

definition ensure_model_routing_loaded ::
  "string list \<Rightarrow> (route \<Rightarrow> string list) \<Rightarrow> bool \<Rightarrow> db \<Rightarrow> model \<Rightarrow> exc + unit" where
  "ensure_model_routing_loaded unloaded route_unloaded require_primary_backend d m =
     (let missing_routes = (if ''backend_routes'' \<in> set unloaded then [''ModelRegistry.backend_routes''] else []);
          needs_primary_backend = (require_primary_backend \<or>
            missing_routes = [] \<and> model_routes d m = [] \<and> m_inference_backend_id m \<noteq> None);
          missing = missing_routes @
            (if needs_primary_backend \<and> ''inference_backend'' \<in> set unloaded then [''ModelRegistry.inference_backend''] else []) in
      if missing \<noteq> [] then Inl (RuntimeError
        (''ModelRegistry routing relationships must be eagerly loaded before serialization: '' @ join '', '' missing))
      else if list_ex (\<lambda>r. ''inference_backend'' \<in> set (route_unloaded r)) (model_routes d m) then Inl (RuntimeError
        ''ModelBackendRoute.inference_backend must be eagerly loaded before routing serialization'')
      else Inr ())"

lemma eagerly_loaded [simp]: "ensure_model_routing_loaded [] (\<lambda>_. []) require d m = Inr ()"
  by (simp add: ensure_model_routing_loaded_def list_ex_iff)

lemma routes_loaded:
  "ensure_model_routing_loaded [''inference_backend''] (\<lambda>_. []) False d m =
     (if model_routes d m = [] \<and> m_inference_backend_id m \<noteq> None
      then Inl (RuntimeError
        ''ModelRegistry routing relationships must be eagerly loaded before serialization: ModelRegistry.inference_backend'')
      else Inr ())"
  by (simp add: ensure_model_routing_loaded_def list_ex_iff)

definition names_model :: "string \<Rightarrow> model \<Rightarrow> bool" where
  "names_model requested m = (m_model_id m = requested \<or> m_model_alias m = Some requested)"

definition resolve_requested_model :: "(json \<Rightarrow> string) \<Rightarrow> db \<Rightarrow> client \<Rightarrow> string \<Rightarrow> exc + model \<times> string" where
  "resolve_requested_model rp d client requested_model =
     (let active_models = list_active_registry_models d in
      if active_models = [] then Inl (http_error 503 ''no active models configured'')
      else
        let selected = List.find (names_model requested_model) active_models;
            selected = (if selected = None \<and> requested_model \<in> {[], ''default''}
              then (case List.find m_is_default active_models of None \<Rightarrow> Some (hd active_models) | Some m \<Rightarrow> Some m)
              else selected) in
        case selected of
          None \<Rightarrow> Inl (http_error 404 ''requested model not found'')
        | Some m \<Rightarrow>
            if get_routing_candidates d m = [] then Inl (http_error 503 ''model backend is not active'')
            else
              let allowed = get_effective_allowed_models rp d client in
              if allowed \<noteq> [] \<and> m_model_id m \<notin> set allowed \<and>
                 (case m_model_alias m of None \<Rightarrow> [] | Some a \<Rightarrow> a) \<notin> set allowed
              then Inl (http_error 403 ''requested model is not allowed for this client'')
              else Inr (m, requested_model))"

section \<open>The order in which routes are tried\<close>

text \<open>
  Within a group of equal state and priority the next route is drawn by weight. \<open>pick\<close> is the random
  generator: the index it draws in its \<open>n\<close>-th call from a list of weights.
\<close>

type_synonym rng = "nat \<Rightarrow> int list \<Rightarrow> nat"

function drain_bucket :: "rng \<Rightarrow> nat \<Rightarrow> route list \<Rightarrow> route list" where
  "drain_bucket pick n bucket =
     (case bucket of
        [] \<Rightarrow> []
      | [r] \<Rightarrow> [r]
      | _ \<Rightarrow>
          let i = pick n (map (\<lambda>r. max (r_weight r) 1) bucket) in
          if i < length bucket
          then bucket ! i # drain_bucket pick (Suc n) (take i bucket @ drop (Suc i) bucket)
          else [])"
  by pat_completeness auto
termination
  by (relation "measure (\<lambda>(pick, n, bucket). length bucket)") (auto simp: min_def)

declare drain_bucket.simps [simp del]

definition group_key :: "route \<Rightarrow> int \<times> int" where
  "group_key r = (state_order (r_state r), r_priority r)"

text \<open>The calls of the generator in the groups before are counted in.\<close>

fun drain_groups :: "rng \<Rightarrow> nat \<Rightarrow> route list \<Rightarrow> (int \<times> int) list \<Rightarrow> route list" where
  "drain_groups pick n rs [] = []"
| "drain_groups pick n rs (k # ks) =
     (let bucket = filter (\<lambda>r. group_key r = k) rs in
      drain_bucket pick n bucket @ drain_groups pick (n + (length bucket - 1)) rs ks)"

definition plan_routing_order :: "rng \<Rightarrow> db \<Rightarrow> model \<Rightarrow> route list" where
  "plan_routing_order pick d m =
     (let rs = get_routing_candidates d m in
      if length rs \<le> 1 then rs
      else drain_groups pick 0 rs (sorted_list_of_set (set (map group_key rs))))"

definition serialize_routing_table :: "rng \<Rightarrow> db \<Rightarrow> model \<Rightarrow> json" where
  "serialize_routing_table rng0 d m = JArr (map (\<lambda>r.
     let b = backend_of d (r_inference_backend_id r) in
     JObj [(''route_id'', jopt (\<lambda>u. JStr (uuid_str u)) (r_id r)),
           (''backend_id'', JStr (uuid_str (r_inference_backend_id r))),
           (''backend_name'', jopt (\<lambda>b. JStr (b_name b)) b),
           (''backend_url'', jopt (\<lambda>b. JStr (b_backend_url b)) b),
           (''provider'', jopt (\<lambda>b. JStr (b_provider b)) b),
           (''priority'', JInt (r_priority r)),
           (''weight'', JInt (r_weight r)),
           (''state'', JStr (r_state r))]) (plan_routing_order rng0 d m))"

definition alias_or_id :: "model \<Rightarrow> string" where
  "alias_or_id m = (case m_model_alias m of None \<Rightarrow> m_model_id m | Some [] \<Rightarrow> m_model_id m | Some a \<Rightarrow> a)"

text \<open>The \<open>**metadata\<close> of the card wants an object.\<close>

definition serialize_model_card :: "model \<Rightarrow> exc + json" where
  "serialize_model_card m =
     bindS (if text_falsy (m_metadata_json m) then Inr []
       else case the (m_metadata_json m) of
              JText (JObj d) \<Rightarrow> Inr d
            | JText _ \<Rightarrow> Inl (TypeError ''not a mapping'')
            | BadText s \<Rightarrow> Inr [(''raw_metadata'', JStr s)]) (\<lambda>metadata.
     Inr (JObj [(''id'', JStr (alias_or_id m)), (''object'', JStr ''model''), (''owned_by'', JStr (m_provider m)),
       (''metadata'', JObj (foldl (\<lambda>d (k, v). dict_set k v d) metadata
          [(''model_id'', JStr (m_model_id m)), (''model_alias'', jopt JStr (m_model_alias m)),
           (''provider'', JStr (m_provider m)), (''context_length'', JInt (m_context_length m)),
           (''is_default'', JBool (m_is_default m))]))]))"

definition get_model_by_id :: "db \<Rightarrow> uuid \<Rightarrow> model option" where
  "get_model_by_id d mid = List.find (\<lambda>m. m_id m = mid) (models d)"

definition find_model_by_public_name :: "db \<Rightarrow> string \<Rightarrow> exc + model option" where
  "find_model_by_public_name d public_name = scalar_one_or_none (filter (names_model public_name) (models d))"

section \<open>Facts\<close>

text \<open>What the generator promises: it draws an index of the list.\<close>

definition draws_within :: "rng \<Rightarrow> bool" where
  "draws_within pick \<longleftrightarrow> (\<forall>n ws. ws \<noteq> [] \<longrightarrow> pick n ws < length ws)"

lemma mset_remove_nth: "i < length xs \<Longrightarrow> add_mset (xs ! i) (mset (take i xs @ drop (Suc i) xs)) = mset xs"
  by (metis Cons_nth_drop_Suc append_take_drop_id mset.simps(2) mset_append union_mset_add_mset_right)

lemma drain_bucket_mset:
  assumes "draws_within pick"
  shows "mset (drain_bucket pick n bucket) = mset bucket"
proof (induction "length bucket" arbitrary: n bucket rule: less_induct)
  case less
  show ?case
  proof (cases bucket rule: remdups_adj.cases)
    case (3 x y xs)
    let ?i = "pick n (map (\<lambda>r. max (r_weight r) 1) bucket)"
    have "?i < length (map (\<lambda>r. max (r_weight r) 1) bucket)"
      using assms 3 unfolding draws_within_def by (meson list.simps(3) map_is_Nil_conv)
    then have i: "?i < length bucket" by simp
    have "drain_bucket pick n bucket = bucket ! ?i # drain_bucket pick (Suc n) (take ?i bucket @ drop (Suc ?i) bucket)"
      using i by (subst drain_bucket.simps) (simp add: 3 Let_def)
    moreover have "mset (drain_bucket pick (Suc n) (take ?i bucket @ drop (Suc ?i) bucket)) =
        mset (take ?i bucket @ drop (Suc ?i) bucket)"
      using i by (intro less) simp
    ultimately show ?thesis using mset_remove_nth [OF i] by simp
  qed (simp_all add: drain_bucket.simps)
qed

lemma drain_groups_spec:
  assumes "draws_within pick" and "sorted_wrt (<) ks"
  shows "mset (drain_groups pick n rs ks) = filter_mset (\<lambda>r. group_key r \<in> set ks) (mset rs) \<and>
    sorted (map group_key (drain_groups pick n rs ks))"
  using assms(2)
proof (induction ks arbitrary: n)
  case Nil
  then show ?case by simp
next
  case (Cons k ks)
  let ?b = "filter (\<lambda>r. group_key r = k) rs"
  note M = drain_bucket_mset [OF assms(1), of n ?b]
  have IH: "mset (drain_groups pick m rs ks) = filter_mset (\<lambda>r. group_key r \<in> set ks) (mset rs)"
    "sorted (map group_key (drain_groups pick m rs ks))" for m
    using Cons by simp_all
  have k: "k \<notin> set ks" using Cons.prems by auto
  have "filter_mset (\<lambda>r. group_key r = k) (mset rs) + filter_mset (\<lambda>r. group_key r \<in> set ks) (mset rs) =
      filter_mset (\<lambda>r. group_key r \<in> set (k # ks)) (mset rs)"
    using k by (induction rs) auto
  then have mset: "mset (drain_groups pick n rs (k # ks)) = filter_mset (\<lambda>r. group_key r \<in> set (k # ks)) (mset rs)"
    using M IH(1) by (simp add: Let_def)
  have first: "r \<in> set (drain_bucket pick n ?b) \<Longrightarrow> group_key r = k" for r
    using mset_eq_setD [OF M] by auto
  have rest: "r \<in> set (drain_groups pick m rs ks) \<Longrightarrow> group_key r \<in> set ks" for r m
  proof -
    assume "r \<in> set (drain_groups pick m rs ks)"
    then have "r \<in># filter_mset (\<lambda>r. group_key r \<in> set ks) (mset rs)" using IH(1) [of m] by (metis set_mset_mset)
    then show "group_key r \<in> set ks" by simp
  qed
  have "sorted (map group_key xs)" if "\<And>r. r \<in> set xs \<Longrightarrow> group_key r = k" for xs
    using that by (induction xs) auto
  then have "sorted (map group_key (drain_bucket pick n ?b))" using first by blast
  moreover have "\<forall>r\<in>set (drain_bucket pick n ?b). \<forall>q\<in>set (drain_groups pick m rs ks). group_key r \<le> group_key q" for m
  proof (intro ballI)
    fix r q
    assume "r \<in> set (drain_bucket pick n ?b)" and "q \<in> set (drain_groups pick m rs ks)"
    then have "group_key r = k" "group_key q \<in> set ks" using first rest by blast+
    then show "group_key r \<le> group_key q" using Cons.prems by (simp add: less_imp_le)
  qed
  ultimately have "sorted (map group_key (drain_groups pick n rs (k # ks)))"
    using IH(2) by (auto simp: sorted_append Let_def)
  with mset show ?case by blast
qed

lemma plan_rearranges:
  assumes "draws_within pick"
  shows "mset (plan_routing_order pick d m) = mset (get_routing_candidates d m) \<and>
    sorted (map group_key (plan_routing_order pick d m))"
proof (cases "length (get_routing_candidates d m) \<le> 1")
  case True
  then have "get_routing_candidates d m = [] \<or> (\<exists>r. get_routing_candidates d m = [r])"
    by (cases "get_routing_candidates d m") auto
  then show ?thesis by (auto simp: plan_routing_order_def)
next
  case False
  let ?rs = "get_routing_candidates d m"
  let ?ks = "sorted_list_of_set (set (map group_key ?rs))"
  have "filter_mset (\<lambda>r. group_key r \<in> set ?ks) (mset ?rs) = mset ?rs"
    by (auto simp: filter_mset_eq_conv)
  moreover have "sorted_wrt (<) ?ks" by simp
  ultimately show ?thesis
    using drain_groups_spec [OF assms, of ?ks 0 ?rs] False by (simp add: plan_routing_order_def Let_def)
qed

text \<open>
  C13. The routing plan is a reordering of the candidates: every usable route is tried once, whatever
  the random generator draws, and the plan goes through the groups in order, so no route is tried
  before one in a better state, or in the same state with a smaller priority number.
\<close>

theorem routing_plan_sound:
  assumes "draws_within pick"
  shows "mset (plan_routing_order pick d m) = mset (get_routing_candidates d m) \<and>
    sorted (map group_key (plan_routing_order pick d m))"
  by (rule plan_rearranges [OF assms])

lemma candidates_usable:
  "r \<in> set (get_routing_candidates d m) \<Longrightarrow>
     (r \<in> set (model_routes d m) \<and> route_usable d r) \<or>
     (\<exists>b. model_backend d m = Some b \<and> b_is_active b \<and> r = synthetic_route m b)"
proof -
  assume r: "r \<in> set (get_routing_candidates d m)"
  show ?thesis
  proof (cases "filter (route_usable d) (model_routes d m)")
    case Nil
    with r show ?thesis by (auto simp: get_routing_candidates_def split: option.splits if_splits)
  next
    case (Cons q qs)
    then have "get_routing_candidates d m = sort_key route_rank (filter (route_usable d) (model_routes d m))"
      by (simp add: get_routing_candidates_def)
    with r show ?thesis by simp
  qed
qed

lemma active_models_sound:
  "m \<in> set (list_active_registry_models d) \<longleftrightarrow>
     m \<in> set (models d) \<and> m_is_active m \<and> (case model_backend d m of None \<Rightarrow> True | Some b \<Rightarrow> b_is_active b)"
  by (auto simp: list_active_registry_models_def)

text \<open>A name that passes the allow list is on it: no entry of a parsed list is empty.\<close>

lemma no_empty_entry: "[] \<notin> set (parse_allowed_models rp raw)"
  by (auto simp: parse_allowed_models_def strip_def lstrip_def rstrip_def split: option.splits json.splits)

lemma effective_allowed_no_empty: "[] \<notin> set (get_effective_allowed_models rp d client)"
  by (simp add: get_effective_allowed_models_def no_empty_entry Let_def split: option.split)

lemma selected_model:
  assumes "ms \<noteq> []"
    and "(if List.find (names_model requested) ms = None \<and> requested \<in> {[], ''default''}
      then (case List.find m_is_default ms of None \<Rightarrow> Some (hd ms) | Some m \<Rightarrow> Some m)
      else List.find (names_model requested) ms) = Some m"
  shows "m \<in> set ms \<and> (names_model requested m \<or>
    requested \<in> {[], ''default''} \<and> (\<forall>x\<in>set ms. \<not> names_model requested x) \<and>
    (m_is_default m \<or> (\<forall>x\<in>set ms. \<not> m_is_default x)))"
proof (cases "List.find (names_model requested) ms")
  case (Some x)
  with assms(2) have "x = m" by simp
  then show ?thesis using find_Some_set [OF Some] by simp
next
  case None
  then have r: "requested \<in> {[], ''default''}" using assms(2) by (auto split: if_splits)
  have none: "\<forall>x\<in>set ms. \<not> names_model requested x" using None by (simp add: find_None_set)
  show ?thesis
  proof (cases "List.find m_is_default ms")
    case None
    then have "m = hd ms" using assms(2) r \<open>List.find (names_model requested) ms = None\<close> by simp
    then show ?thesis using r none None assms(1) by (simp add: find_None_set)
  next
    case (Some x)
    then have "m = x" using assms(2) r \<open>List.find (names_model requested) ms = None\<close> by simp
    then show ?thesis using r none find_Some_set [OF Some] by simp
  qed
qed

text \<open>
  C14. Resolution is safe. A resolved model is a row of the registry whose active flag is set, and
  its own backend, if it has one, is active. It can be reached: over a route of its own that is not
  disabled and leads to an active backend, or over its own backend. The allow list of the client,
  or that of its plan where the client has none, is empty or contains the model's id or its alias.
  And it is the model asked for: the request gives its id or its alias, or the request leaves the
  choice open, no available model has such a name, and it is a default model if there is one.
\<close>

theorem resolved_model_allowed:
  assumes "resolve_requested_model rp d client requested = Inr (m, name)"
  defines "available \<equiv> \<lambda>x. x \<in> set (models d) \<and> m_is_active x \<and> (\<forall>b. model_backend d x = Some b \<longrightarrow> b_is_active b)"
    and "asked \<equiv> \<lambda>x. m_model_id x = requested \<or> m_model_alias x = Some requested"
    and "own \<equiv> parse_allowed_models rp (c_allowed_models_json client)"
    and "of_plan \<equiv> (case client_plan d client of None \<Rightarrow> [] | Some p \<Rightarrow> parse_allowed_models rp (p_allowed_models_json p))"
    and "names \<equiv> \<lambda>xs. m_model_id m \<in> set xs \<or> (\<exists>a\<in>set xs. m_model_alias m = Some a)"
  shows "name = requested \<and> available m \<and>
    ((\<exists>r\<in>set (routes d). r_model_registry_id r = m_id m \<and> r_state r \<noteq> ''disabled'' \<and>
        (\<exists>b. backend_of d (r_inference_backend_id r) = Some b \<and> b_is_active b)) \<or>
      (\<exists>b. model_backend d m = Some b \<and> b_is_active b)) \<and>
    (if own \<noteq> [] then names own else of_plan = [] \<or> names of_plan) \<and>
    (asked m \<or> requested \<in> {[], ''default''} \<and> (\<forall>x. available x \<longrightarrow> \<not> asked x) \<and>
      (m_is_default m \<or> (\<forall>x. available x \<longrightarrow> \<not> m_is_default x)))"
proof -
  let ?ms = "list_active_registry_models d"
  let ?allowed = "get_effective_allowed_models rp d client"
  have ms: "?ms \<noteq> []" and cand: "get_routing_candidates d m \<noteq> []" and name: "name = requested"
    and sel: "(if List.find (names_model requested) ?ms = None \<and> requested \<in> {[], ''default''}
      then (case List.find m_is_default ?ms of None \<Rightarrow> Some (hd ?ms) | Some m \<Rightarrow> Some m)
      else List.find (names_model requested) ?ms) = Some m"
    and allowed: "?allowed = [] \<or> m_model_id m \<in> set ?allowed \<or>
      (case m_model_alias m of None \<Rightarrow> [] | Some a \<Rightarrow> a) \<in> set ?allowed"
    using assms(1) unfolding resolve_requested_model_def Let_def by (auto split: if_splits option.splits)
  have av: "available = (\<lambda>x. x \<in> set ?ms)" and asked: "asked = names_model requested"
    by (auto simp: available_def asked_def active_models_sound names_model_def fun_eq_iff split: option.splits)
  have reach: "(\<exists>r\<in>set (routes d). r_model_registry_id r = m_id m \<and> r_state r \<noteq> ''disabled'' \<and>
        (\<exists>b. backend_of d (r_inference_backend_id r) = Some b \<and> b_is_active b)) \<or>
      (\<exists>b. model_backend d m = Some b \<and> b_is_active b)"
    using candidates_usable [of "hd (get_routing_candidates d m)" d m] cand
    by (auto simp: route_usable_def model_routes_def split: option.splits)
  have "?allowed = [] \<or> names ?allowed"
    using allowed effective_allowed_no_empty [of rp d client] by (auto simp: names_def split: option.splits)
  then have list: "if own \<noteq> [] then names own else of_plan = [] \<or> names of_plan"
    by (auto simp: own_def of_plan_def get_effective_allowed_models_def Let_def split: if_splits option.splits)
  show ?thesis
    using name reach list selected_model [OF ms sel] unfolding av asked by blast
qed

section \<open>Examples\<close>

definition example_model :: model where
  "example_model = \<lparr>m_id = 3, m_model_id = ''org/gemma'', m_model_alias = Some ''gemma'',
     m_inference_backend_id = Some 7, m_provider = ''llama.cpp'', m_model_file = ''g.gguf'',
     m_context_length = 4096, m_is_active = True, m_is_default = True, m_status = ''configured'',
     m_prompt_template = Some ''gemma'', m_metadata_json = None, m_created_at = 0, m_updated_at = 0\<rparr>"

definition example_route :: "uuid \<Rightarrow> uuid \<Rightarrow> int \<Rightarrow> string \<Rightarrow> route" where
  "example_route rid bid prio state = \<lparr>r_id = Some rid, r_model_registry_id = 3, r_inference_backend_id = bid,
     r_priority = prio, r_weight = 100, r_state = state, r_created_at = 0, r_updated_at = 0\<rparr>"

definition route_backend :: "uuid \<Rightarrow> string \<Rightarrow> backend" where
  "route_backend bid name = \<lparr>b_id = bid, b_name = name, b_provider = ''llama.cpp'', b_backend_url = ''http://b'',
     b_healthcheck_path = ''/health'', b_is_active = True, b_is_default = True, b_status = ''configured'',
     b_max_parallel_requests = 1, b_current_running = 0, b_metadata_json = None, b_created_at = 0,
     b_updated_at = 0\<rparr>"

definition routing_db :: db where
  "routing_db = empty_db\<lparr>models := [example_model], backends := [route_backend 7 ''a'', route_backend 8 ''b''],
     routes := [example_route 1 8 2 ''healthy'', example_route 2 7 1 ''healthy'']\<rparr>"

definition routing_client :: client where
  "routing_client = \<lparr>c_id = 1, c_name = ''acme'', c_description = None, c_is_blocked = False,
     c_billing_status = ''active'', c_billing_plan_id = None, c_rate_limit_per_minute = 5,
     c_daily_token_quota = 100, c_monthly_token_quota = 1000, c_max_context_tokens = 2048,
     c_max_output_tokens = 512, c_allowed_models_json = Some (dumps (JArr [JStr ''gemma''])),
     c_ip_allowlist_json = None, c_ip_blocklist_json = None, c_system_prompt = None,
     c_metadata_json = None, c_deleted_at = None, c_created_at = 0, c_updated_at = 0\<rparr>"

lemmas routing_examples = routing_db_def example_model_def example_route_def route_backend_def empty_db_def

theorem routing_plan_sound_witness:
  "sorted (map group_key (plan_routing_order (\<lambda>_ _. 0) routing_db example_model))"
proof -
  have "draws_within (\<lambda>_ _. 0)" by (simp add: draws_within_def)
  from routing_plan_sound [OF this] show ?thesis by blast
qed

theorem resolved_model_allowed_witness:
  "example_model \<in> set (models routing_db) \<and> m_is_active example_model"
proof -
  have "resolve_requested_model (\<lambda>_. []) routing_db routing_client ''gemma'' = Inr (example_model, ''gemma'')"
    by (simp add: resolve_requested_model_def list_active_registry_models_def get_routing_candidates_def
        model_routes_def model_backend_def backend_of_def route_usable_def names_model_def
        get_effective_allowed_models_def parse_allowed_models_def routing_client_def routing_examples
        strip_def lstrip_def rstrip_def is_space_def py_ord_def dumps_def route_rank_def state_order_def ROUTE_STATE_ORDER_def)
  from resolved_model_allowed [OF this] show ?thesis by blast
qed

end
