(* ===== verification/ResponseCache.thy ===== *)
theory ResponseCache
  imports World
begin

text \<open>
  The exact response cache (\<open>services/response_cache.py\<close>): its keys, lookup, store, clearing and
  statistics, and the store/lookup contract the chat and completion handlers rely on.
  \<open>hash_json\<close> is SHA-256 over the canonical JSON text of the key's payload.
\<close>

section \<open>Keys\<close>

definition CACHE_SCHEMA_VERSION :: int where
  "CACHE_SCHEMA_VERSION = 2"

definition chat_key_payload :: "string \<Rightarrow> json \<Rightarrow> json \<Rightarrow> json \<Rightarrow> json \<Rightarrow> bool \<Rightarrow> json" where
  "chat_key_payload model messages temperature top_p max_tokens include_reasoning = JObj [
     (''cache_schema_version'', JInt CACHE_SCHEMA_VERSION), (''kind'', JStr ''chat''),
     (''model'', JStr model), (''messages'', messages), (''temperature'', temperature),
     (''top_p'', top_p), (''max_tokens'', max_tokens),
     (''include_reasoning'', JBool include_reasoning)]"

definition build_chat_cache_key ::
  "(json \<Rightarrow> string) \<Rightarrow> string \<Rightarrow> json list \<Rightarrow> json \<Rightarrow> json \<Rightarrow> json \<Rightarrow> bool \<Rightarrow> string \<times> string" where
  "build_chat_cache_key hash_json model messages temperature top_p max_tokens include_reasoning =
     (hash_json (chat_key_payload model (JArr messages) temperature top_p max_tokens include_reasoning),
      ''chat:'' @ model @ '':'' @ str_nat (length messages))"

definition completion_key_payload :: "string \<Rightarrow> string \<Rightarrow> json \<Rightarrow> json \<Rightarrow> json \<Rightarrow> json" where
  "completion_key_payload model prompt temperature top_p max_tokens = JObj [
     (''kind'', JStr ''completion''), (''model'', JStr model), (''prompt'', JStr prompt),
     (''temperature'', temperature), (''top_p'', top_p), (''max_tokens'', max_tokens)]"

definition build_completion_cache_key ::
  "(json \<Rightarrow> string) \<Rightarrow> string \<Rightarrow> string \<Rightarrow> json \<Rightarrow> json \<Rightarrow> json \<Rightarrow> string \<times> string" where
  "build_completion_cache_key hash_json model prompt temperature top_p max_tokens =
     (hash_json (completion_key_payload model prompt temperature top_p max_tokens),
      ''completion:'' @ model @ '':'' @ str_nat (length prompt))"

section \<open>Operations\<close>

record cache_result =
  cr_hit :: bool
  cr_payload :: "json option"
  cr_completion_tokens :: int
  cr_prompt_tokens :: int

definition cache_miss :: cache_result where
  "cache_miss = \<lparr>cr_hit = False, cr_payload = None, cr_completion_tokens = 0, cr_prompt_tokens = 0\<rparr>"

definition exact_row :: "string \<Rightarrow> string \<Rightarrow> string \<Rightarrow> cache_row \<Rightarrow> bool" where
  "exact_row endpoint model request_hash x =
     (x_cache_type x = ''exact'' \<and> x_endpoint x = endpoint \<and> x_model x = model \<and> x_request_hash x = request_hash)"

definition lookup_exact_cache ::
  "settings \<Rightarrow> timestamp \<Rightarrow> string \<Rightarrow> string \<Rightarrow> string \<Rightarrow> ('r, cache_result) act" where
  "lookup_exact_cache cfg now endpoint model request_hash =
     (if \<not> response_cache_enabled cfg
      then seqE (emit (Count ''CACHE_RESULT_COUNTER'' [endpoint, ''disabled''])) (ret cache_miss)
      else
        bindE (query (\<lambda>d. filter (\<lambda>x. exact_row endpoint model request_hash x \<and> x_is_active x \<and> x_expires_at x > now)
          (cache_rows d))) (\<lambda>rows.
        bindE (liftE (scalar_one_or_none rows)) (\<lambda>row.
        case row of
          None \<Rightarrow> seqE (emit (Count ''CACHE_RESULT_COUNTER'' [endpoint, ''miss''])) (ret cache_miss)
        | Some x \<Rightarrow>
            seqE (update (\<lambda>d. d\<lparr>cache_rows := upd_where (\<lambda>y. x_id y = x_id x)
              (\<lambda>y. y\<lparr>x_hit_count := x_hit_count y + 1, x_last_hit_at := Some now, x_updated_at := now\<rparr>)
              (cache_rows d)\<rparr>))
            (seqE (emit (Count ''CACHE_RESULT_COUNTER'' [endpoint, ''hit'']))
              (case loads (x_response_json x) of
                 None \<Rightarrow> raise JSONDecodeError
               | Some payload \<Rightarrow> ret \<lparr>cr_hit = True, cr_payload = Some payload,
                   cr_completion_tokens = x_completion_tokens x, cr_prompt_tokens = x_prompt_tokens x\<rparr>)))))"

definition store_exact_cache ::
  "settings \<Rightarrow> timestamp \<Rightarrow> string \<Rightarrow> string \<Rightarrow> string \<Rightarrow> string \<Rightarrow> json \<Rightarrow> int \<Rightarrow> int \<Rightarrow> ('r, unit) act" where
  "store_exact_cache cfg now endpoint model request_hash request_fingerprint response_payload
     prompt_tokens completion_tokens =
     (if \<not> response_cache_enabled cfg then ret ()
      else
        let expires_at = now + response_cache_ttl_seconds cfg * 1000000 in
        bindE (query (\<lambda>d. filter (exact_row endpoint model request_hash) (cache_rows d))) (\<lambda>rows.
        bindE (liftE (scalar_one_or_none rows)) (\<lambda>row.
        case row of
          None \<Rightarrow> bindE fresh_id (\<lambda>xid. update (\<lambda>d. d\<lparr>cache_rows := cache_rows d @
            [\<lparr>x_id = xid, x_cache_type = ''exact'', x_endpoint = endpoint, x_model = model,
              x_request_hash = request_hash, x_request_fingerprint = Some request_fingerprint,
              x_response_json = dumps response_payload, x_prompt_tokens = prompt_tokens,
              x_completion_tokens = completion_tokens, x_hit_count = 0, x_last_hit_at = None,
              x_expires_at = expires_at, x_is_active = True, x_created_at = now, x_updated_at = now\<rparr>]\<rparr>))
        | Some x \<Rightarrow> update (\<lambda>d. d\<lparr>cache_rows := upd_where (\<lambda>y. x_id y = x_id x)
            (\<lambda>y. y\<lparr>x_request_fingerprint := Some request_fingerprint,
                   x_response_json := dumps response_payload, x_prompt_tokens := prompt_tokens,
                   x_completion_tokens := completion_tokens, x_expires_at := expires_at,
                   x_is_active := True, x_updated_at := now\<rparr>) (cache_rows d)\<rparr>))))"

definition clear_response_cache :: "('r, int) act" where
  "clear_response_cache = bindE (query (\<lambda>d. int (length (cache_rows d)))) (\<lambda>n.
     seqE (update (\<lambda>d. d\<lparr>cache_rows := []\<rparr>)) (ret n))"

text \<open>\<open>round4\<close> is \<open>round(x, 4)\<close> on floats.\<close>

definition get_response_cache_stats :: "settings \<Rightarrow> (rat \<Rightarrow> rat) \<Rightarrow> timestamp \<Rightarrow> db \<Rightarrow> json" where
  "get_response_cache_stats cfg round4 now d =
     (let entries_total = int (length (cache_rows d));
          expired = int (length (filter (\<lambda>x. x_expires_at x \<le> now) (cache_rows d)));
          reuses = sum_list (map x_hit_count (cache_rows d));
          requests_total = int (length (request_logs d));
          hits_total = int (length (filter rl_cache_hit (request_logs d))) in
      JObj [(''enabled'', JBool (response_cache_enabled cfg)),
        (''semantic_cache_enabled'', JBool (semantic_cache_enabled cfg)),
        (''ttl_seconds'', JInt (response_cache_ttl_seconds cfg)),
        (''entries_total'', JInt entries_total), (''expired_entries'', JInt expired),
        (''cache_reuses'', JInt reuses), (''requests_total'', JInt requests_total),
        (''cache_hits_total'', JInt hits_total),
        (''cache_misses_total'', JInt (max (requests_total - hits_total) 0)),
        (''cache_hit_rate'', JFloat (if requests_total \<noteq> 0
            then round4 (of_int hits_total / of_int requests_total) else 0))])"

section \<open>The contract of the cache\<close>

text \<open>
  What a handler relies on: after a store, a lookup of the same key returns the stored response
  until it expires, lookups of other keys are not affected by a store, and a lookup changes what
  no lookup sees. A cache is seen through \<open>view\<close>, the response a lookup at a time would return.
\<close>

locale response_store =
  fixes ok :: "'s \<Rightarrow> bool"
    and view :: "'s \<Rightarrow> timestamp \<Rightarrow> 'k \<Rightarrow> 'v option"
    and lookup :: "timestamp \<Rightarrow> 'k \<Rightarrow> 's \<Rightarrow> 'v option \<times> 's"
    and store :: "timestamp \<Rightarrow> 'k \<Rightarrow> 'v \<Rightarrow> 's \<Rightarrow> 's"
    and ttl :: timestamp
  assumes lookup_view: "ok s \<Longrightarrow> fst (lookup now k s) = view s now k"
    and lookup_keeps: "ok s \<Longrightarrow> ok (snd (lookup now k s)) \<and> view (snd (lookup now k s)) = view s"
    and store_view: "ok s \<Longrightarrow> ok (store now k v s) \<and>
      view (store now k v s) t = (view s t)(k := if t < now + ttl then Some v else None)"
begin

text \<open>Any number of lookups and stores of other keys may lie between a store and its lookup.\<close>

fun run :: "(timestamp \<times> 'k \<times> 'v option) list \<Rightarrow> 's \<Rightarrow> 's" where
  "run [] s = s"
| "run ((now, k, None) # ops) s = run ops (snd (lookup now k s))"
| "run ((now, k, Some v) # ops) s = run ops (store now k v s)"

lemma run_view:
  "ok s \<Longrightarrow> \<forall>(_, k', v)\<in>set ops. k' = k \<longrightarrow> v = None \<Longrightarrow> ok (run ops s) \<and> view (run ops s) t k = view s t k"
proof (induction ops s rule: run.induct)
  case (2 now k' ops s)
  then show ?case using lookup_keeps [of s now k'] by simp
next
  case (3 now k' v ops s)
  then show ?case using store_view [of s now k' v t] by auto
qed auto

lemma lookup_after_store:
  assumes "ok s" and "\<forall>(_, k', v)\<in>set ops. k' = k \<longrightarrow> v = None"
  shows "fst (lookup now k (run ops (store then_at k v s))) = (if now < then_at + ttl then Some v else None)"
proof -
  let ?s = "store then_at k v s"
  have s: "ok ?s" "view ?s now k = (if now < then_at + ttl then Some v else None)"
    using store_view [OF assms(1), of then_at k v now] by simp_all
  have "ok (run ops ?s)" "view (run ops ?s) now k = view ?s now k"
    using run_view [OF s(1) assms(2), of now] by simp_all
  then show ?thesis using lookup_view s(2) by simp
qed

end

section \<open>The table keeps the contract\<close>

definition row_key :: "cache_row \<Rightarrow> string \<times> string \<times> string \<times> string" where
  "row_key x = (x_cache_type x, x_endpoint x, x_model x, x_request_hash x)"

text \<open>Distinct identifiers, one row per key (a constraint of the table), and responses that decode.\<close>

definition cache_ok :: "db \<Rightarrow> bool" where
  "cache_ok d \<longleftrightarrow> distinct (map x_id (cache_rows d)) \<and> (\<forall>x\<in>set (cache_rows d). x_id x < next_id d) \<and>
     distinct (map row_key (cache_rows d)) \<and> (\<forall>x\<in>set (cache_rows d). loads (x_response_json x) \<noteq> None)"

type_synonym cache_key = "string \<times> string \<times> string"

definition exact_key :: "cache_key \<Rightarrow> string \<times> string \<times> string \<times> string" where
  "exact_key k = (''exact'', k)"

definition row_at :: "db \<Rightarrow> cache_key \<Rightarrow> cache_row option" where
  "row_at d k = List.find (\<lambda>x. row_key x = exact_key k) (cache_rows d)"

definition row_response :: "timestamp \<Rightarrow> cache_row \<Rightarrow> (json \<times> int \<times> int) option" where
  "row_response now x = (if x_is_active x \<and> now < x_expires_at x
     then map_option (\<lambda>p. (p, x_prompt_tokens x, x_completion_tokens x)) (loads (x_response_json x)) else None)"

definition cached :: "db \<Rightarrow> timestamp \<Rightarrow> cache_key \<Rightarrow> (json \<times> int \<times> int) option" where
  "cached d now k = (case row_at d k of None \<Rightarrow> None | Some x \<Rightarrow> row_response now x)"

definition result_response :: "cache_result \<Rightarrow> (json \<times> int \<times> int) option" where
  "result_response c = (if cr_hit c then Some (the (cr_payload c), cr_prompt_tokens c, cr_completion_tokens c) else None)"

lemma exact_row_key: "exact_row e m h = (\<lambda>x. row_key x = exact_key (e, m, h))"
  by (auto simp: exact_row_def row_key_def exact_key_def fun_eq_iff)

lemma live_rows:
  assumes "cache_ok d"
  shows "scalar_one_or_none (filter (\<lambda>x. exact_row e m h x \<and> x_is_active x \<and> x_expires_at x > now) (cache_rows d)) =
    Inr (case row_at d (e, m, h) of None \<Rightarrow> None | Some x \<Rightarrow> if x_is_active x \<and> now < x_expires_at x then Some x else None)"
proof -
  have "filter (\<lambda>x. exact_row e m h x \<and> x_is_active x \<and> x_expires_at x > now) (cache_rows d) =
      filter (\<lambda>x. x_is_active x \<and> x_expires_at x > now) (filter (\<lambda>x. row_key x = exact_key (e, m, h)) (cache_rows d))"
    by (simp add: exact_row_key)
  also have "filter (\<lambda>x. row_key x = exact_key (e, m, h)) (cache_rows d) =
      (case row_at d (e, m, h) of None \<Rightarrow> [] | Some x \<Rightarrow> [x])"
    using filter_key_unique [of row_key "cache_rows d"] assms by (simp add: cache_ok_def row_at_def)
  finally show ?thesis by (auto split: option.splits)
qed

lemma row_at_upd:
  assumes "cache_ok d" and "x \<in> set (cache_rows d)" and "\<And>y. row_key (f y) = row_key y"
  shows "row_at (d\<lparr>cache_rows := upd_where (\<lambda>y. x_id y = x_id x) f (cache_rows d)\<rparr>) k =
    (if exact_key k = row_key x then Some (f x) else row_at d k)"
  using find_upd_by_id [of x_id "cache_rows d" row_key x f "exact_key k"] assms
  by (simp add: row_at_def cache_ok_def)

lemma cache_ok_upd:
  assumes "cache_ok d" and "\<And>y. row_key (f y) = row_key y" and "\<And>y. x_id (f y) = x_id y"
    and "\<And>y. loads (x_response_json y) \<noteq> None \<Longrightarrow> loads (x_response_json (f y)) \<noteq> None"
  shows "cache_ok (d\<lparr>cache_rows := upd_where P f (cache_rows d)\<rparr>)"
  using assms by (auto simp: cache_ok_def set_upd_where)

text \<open>Counting a hit changes neither what is cached nor until when.\<close>

lemma cached_counted_hit:
  fixes now :: timestamp
  assumes ok: "cache_ok d" and x: "row_at d (e, m, h) = Some x" "x \<in> set (cache_rows d)" "row_key x = exact_key (e, m, h)"
  defines "f \<equiv> \<lambda>y. y\<lparr>x_hit_count := x_hit_count y + 1, x_last_hit_at := Some now, x_updated_at := now\<rparr>"
  defines "d' \<equiv> d\<lparr>cache_rows := upd_where (\<lambda>y. x_id y = x_id x) f (cache_rows d)\<rparr>"
  shows "cache_ok d'" and "cached d' = cached d"
proof -
  have f: "row_key (f y) = row_key y" "x_id (f y) = x_id y" for y by (simp_all add: f_def row_key_def)
  show "cache_ok d'" unfolding d'_def using cache_ok_upd [OF ok, of f] f by (simp add: f_def)
  have "cached d' t k = cached d t k" for t k
  proof (cases "exact_key k = row_key x")
    case True
    then have "k = (e, m, h)" using x(3) by (simp add: exact_key_def)
    then show ?thesis
      unfolding d'_def using row_at_upd [OF ok x(2) f(1), of k] True x(1) by (simp add: cached_def row_response_def f_def)
  next
    case False
    then show ?thesis unfolding d'_def using row_at_upd [OF ok x(2) f(1), of k] by (simp add: cached_def)
  qed
  then show "cached d' = cached d" by (simp add: fun_eq_iff)
qed

lemma lookup_spec:
  assumes cfg: "response_cache_enabled cfg" and ok: "cache_ok (w_db w)"
  obtains c w' where "lookup_exact_cache cfg now e m h w = (Inr c, w')" "cache_ok (w_db w')"
    "result_response c = cached (w_db w) now (e, m, h)" "cached (w_db w') = cached (w_db w)"
proof -
  let ?d = "w_db w" and ?k = "(e, m, h)"
  note result = that
  note live = live_rows [OF ok, of e m h now]
  have miss: ?thesis
    if r: "(case row_at ?d ?k of None \<Rightarrow> None | Some x \<Rightarrow> if x_is_active x \<and> now < x_expires_at x then Some x else None) = None"
  proof (rule result)
    show "lookup_exact_cache cfg now e m h w =
        (Inr cache_miss, w\<lparr>w_metrics := w_metrics w @ [Count ''CACHE_RESULT_COUNTER'' [e, ''miss'']]\<rparr>)"
      using cfg live r by (simp add: lookup_exact_cache_def bindE_apply)
    show "result_response cache_miss = cached ?d now ?k"
      using r by (auto simp: result_response_def cache_miss_def cached_def row_response_def split: option.splits if_splits)
  qed (use ok in simp_all)
  show ?thesis
  proof (cases "row_at ?d ?k")
    case None
    then show ?thesis by (intro miss) simp
  next
    case (Some x)
    have x: "x \<in> set (cache_rows ?d)" "row_key x = exact_key ?k"
      using find_Some_set [OF Some [unfolded row_at_def]] by simp_all
    show ?thesis
    proof (cases "x_is_active x \<and> now < x_expires_at x")
      case False
      with Some show ?thesis by (intro miss) simp
    next
      case True
      obtain p where p: "loads (x_response_json x) = Some p" using ok x(1) by (auto simp: cache_ok_def)
      let ?f = "\<lambda>y. y\<lparr>x_hit_count := x_hit_count y + 1, x_last_hit_at := Some now, x_updated_at := now\<rparr>"
      let ?d' = "?d\<lparr>cache_rows := upd_where (\<lambda>y. x_id y = x_id x) ?f (cache_rows ?d)\<rparr>"
      note counted = cached_counted_hit [OF ok Some x, where now = now]
      show ?thesis
      proof (rule that)
        show "lookup_exact_cache cfg now e m h w =
           (Inr \<lparr>cr_hit = True, cr_payload = Some p, cr_completion_tokens = x_completion_tokens x, cr_prompt_tokens = x_prompt_tokens x\<rparr>,
            w\<lparr>w_db := ?d', w_metrics := w_metrics w @ [Count ''CACHE_RESULT_COUNTER'' [e, ''hit'']]\<rparr>)"
          using cfg live Some True p by (simp add: lookup_exact_cache_def bindE_apply)
        show "cache_ok (w_db (w\<lparr>w_db := ?d', w_metrics := w_metrics w @ [Count ''CACHE_RESULT_COUNTER'' [e, ''hit'']]\<rparr>))"
          using counted(1) by simp
        show "cached (w_db (w\<lparr>w_db := ?d', w_metrics := w_metrics w @ [Count ''CACHE_RESULT_COUNTER'' [e, ''hit'']]\<rparr>)) = cached ?d"
          using counted(2) by simp
        show "result_response \<lparr>cr_hit = True, cr_payload = Some p, cr_completion_tokens = x_completion_tokens x, cr_prompt_tokens = x_prompt_tokens x\<rparr> =
            cached ?d now ?k"
          using Some True p by (simp add: result_response_def cached_def row_response_def)
      qed
    qed
  qed
qed

lemma store_spec:
  assumes cfg: "response_cache_enabled cfg" and ok: "cache_ok (w_db w)"
  obtains w' where "store_exact_cache cfg now e m h fp payload pt ct w = (Inr (), w')" "cache_ok (w_db w')"
    "\<And>t. cached (w_db w') t = (cached (w_db w) t)((e, m, h) :=
       if t < now + response_cache_ttl_seconds cfg * 1000000 then Some (payload, pt, ct) else None)"
proof -
  let ?d = "w_db w" and ?k = "(e, m, h)" and ?x = "now + response_cache_ttl_seconds cfg * 1000000"
  have look: "scalar_one_or_none (filter (exact_row e m h) (cache_rows ?d)) = Inr (row_at ?d ?k)"
    using scalar_key_unique [of row_key "cache_rows ?d"] ok by (simp add: exact_row_key cache_ok_def row_at_def)
  show ?thesis
  proof (cases "row_at ?d ?k")
    case None
    let ?r = "\<lparr>x_id = next_id ?d, x_cache_type = ''exact'', x_endpoint = e, x_model = m,
        x_request_hash = h, x_request_fingerprint = Some fp, x_response_json = dumps payload,
        x_prompt_tokens = pt, x_completion_tokens = ct, x_hit_count = 0, x_last_hit_at = None,
        x_expires_at = ?x, x_is_active = True, x_created_at = now, x_updated_at = now\<rparr>"
    let ?d' = "?d\<lparr>next_id := Suc (next_id ?d), cache_rows := cache_rows ?d @ [?r]\<rparr>"
    have key: "row_key ?r = exact_key ?k" by (simp add: row_key_def exact_key_def)
    have fresh: "\<forall>y\<in>set (cache_rows ?d). row_key y \<noteq> exact_key ?k"
      using None by (simp add: row_at_def find_None_set)
    show ?thesis
    proof (rule that)
      show "store_exact_cache cfg now e m h fp payload pt ct w = (Inr (), w\<lparr>w_db := ?d'\<rparr>)"
        using cfg look None by (simp add: store_exact_cache_def bindE_apply Let_def)
      show "cache_ok (w_db (w\<lparr>w_db := ?d'\<rparr>))"
        using ok fresh key by (auto simp: cache_ok_def less_Suc_eq)
      have at: "row_at ?d' k = (if k = ?k then Some ?r else row_at ?d k)" for k
        using None key by (cases "row_at ?d k") (auto simp: row_at_def find_snoc exact_key_def)
      show "cached (w_db (w\<lparr>w_db := ?d'\<rparr>)) t = (cached ?d t)(?k := if t < ?x then Some (payload, pt, ct) else None)" for t
        using at by (auto simp: cached_def row_response_def fun_eq_iff)
    qed
  next
    case (Some x)
    have x: "x \<in> set (cache_rows ?d)" "row_key x = exact_key ?k"
      using find_Some_set [OF Some [unfolded row_at_def]] by simp_all
    let ?f = "\<lambda>y. y\<lparr>x_request_fingerprint := Some fp, x_response_json := dumps payload, x_prompt_tokens := pt,
      x_completion_tokens := ct, x_expires_at := ?x, x_is_active := True, x_updated_at := now\<rparr>"
    let ?d' = "?d\<lparr>cache_rows := upd_where (\<lambda>y. x_id y = x_id x) ?f (cache_rows ?d)\<rparr>"
    have f: "row_key (?f y) = row_key y" "x_id (?f y) = x_id y" for y by (simp_all add: row_key_def)
    show ?thesis
    proof (rule that)
      show "store_exact_cache cfg now e m h fp payload pt ct w = (Inr (), w\<lparr>w_db := ?d'\<rparr>)"
        using cfg look Some by (simp add: store_exact_cache_def bindE_apply Let_def)
      show "cache_ok (w_db (w\<lparr>w_db := ?d'\<rparr>))" using cache_ok_upd [OF ok, of ?f] f by simp
      have at: "row_at ?d' k = (if k = ?k then Some (?f x) else row_at ?d k)" for k
        using row_at_upd [OF ok x(1) f(1), of k] x(2) by (simp add: exact_key_def)
      show "cached (w_db (w\<lparr>w_db := ?d'\<rparr>)) t = (cached ?d t)(?k := if t < ?x then Some (payload, pt, ct) else None)" for t
        using at by (auto simp: cached_def row_response_def fun_eq_iff)
    qed
  qed
qed

text \<open>The two operations on the state, as the contract has them.\<close>

definition cache_get :: "settings \<Rightarrow> timestamp \<Rightarrow> cache_key \<Rightarrow> 'r world \<Rightarrow> (json \<times> int \<times> int) option \<times> 'r world" where
  "cache_get cfg now k w = (case k of (e, m, h) \<Rightarrow> (case lookup_exact_cache cfg now e m h w of
     (Inr c, w') \<Rightarrow> (result_response c, w') | (Inl _, w') \<Rightarrow> (None, w')))"

definition cache_put :: "settings \<Rightarrow> string \<Rightarrow> timestamp \<Rightarrow> cache_key \<Rightarrow> json \<times> int \<times> int \<Rightarrow> 'r world \<Rightarrow> 'r world" where
  "cache_put cfg fp now k v w = (case (k, v) of ((e, m, h), (payload, pt, ct)) \<Rightarrow>
     snd (store_exact_cache cfg now e m h fp payload pt ct w))"

interpretation table: response_store "\<lambda>w. response_cache_enabled cfg \<and> cache_ok (w_db w)"
    "\<lambda>w. cached (w_db w)" "cache_get cfg" "cache_put cfg fp" "response_cache_ttl_seconds cfg * 1000000" for cfg fp
proof unfold_locales
  fix w :: "'a world" and now and k :: cache_key
  obtain e m h where k: "k = (e, m, h)" by (cases k)
  assume a: "response_cache_enabled cfg \<and> cache_ok (w_db w)"
  then obtain c w' where L: "lookup_exact_cache cfg now e m h w = (Inr c, w')" "cache_ok (w_db w')"
    "result_response c = cached (w_db w) now (e, m, h)" "cached (w_db w') = cached (w_db w)"
    using lookup_spec by blast
  then show "fst (cache_get cfg now k w) = cached (w_db w) now k" by (simp add: cache_get_def k)
  show "(response_cache_enabled cfg \<and> cache_ok (w_db (snd (cache_get cfg now k w)))) \<and>
      cached (w_db (snd (cache_get cfg now k w))) = cached (w_db w)"
    using L a by (simp add: cache_get_def k)
next
  fix w :: "'a world" and now t and k :: cache_key and v :: "json \<times> int \<times> int"
  obtain e m h payload pt ct where kv: "k = (e, m, h)" "v = (payload, pt, ct)" by (cases k; cases v)
  assume a: "response_cache_enabled cfg \<and> cache_ok (w_db w)"
  then obtain w' where S: "store_exact_cache cfg now e m h fp payload pt ct w = (Inr (), w')" "cache_ok (w_db w')"
    "\<And>t. cached (w_db w') t = (cached (w_db w) t)((e, m, h) :=
       if t < now + response_cache_ttl_seconds cfg * 1000000 then Some (payload, pt, ct) else None)"
    using store_spec [of cfg w now e m h fp payload pt ct] by blast
  then show "(response_cache_enabled cfg \<and> cache_ok (w_db (cache_put cfg fp now k v w))) \<and>
      cached (w_db (cache_put cfg fp now k v w)) t =
        (cached (w_db w) t)(k := if t < now + response_cache_ttl_seconds cfg * 1000000 then Some v else None)"
    using a by (simp add: cache_put_def kv)
qed

text \<open>
  C15. Cache coherence: after a response is stored, a lookup of the same endpoint, model and request
  hash returns that response with its token counts until the time to live has passed, and misses
  afterwards, whatever lookups and stores of other keys happen in between.
\<close>

theorem cache_returns_what_was_stored:
  assumes "response_cache_enabled cfg" and "cache_ok (w_db w)" and "\<forall>(_, k', v)\<in>set ops. k' = k \<longrightarrow> v = None"
  shows "fst (cache_get cfg now k (response_store.run (cache_get cfg) (cache_put cfg fp) ops (cache_put cfg fp then_at k v w))) =
    (if now < then_at + response_cache_ttl_seconds cfg * 1000000 then Some v else None)"
  using assms by (intro table.lookup_after_store) auto

definition cache_world :: "unit world" where
  "cache_world = \<lparr>w_db = empty_db, w_saved = empty_db, w_redis = (), w_metrics = [],
     w_breaker = new_breaker (default_settings [] []), w_pending = 0, w_correlation_id = [], w_source_ip = []\<rparr>"

theorem cache_returns_what_was_stored_witness:
  "fst (cache_get (default_settings [] []) 100 (''e'', ''m'', ''h'')
     (cache_put (default_settings [] []) ''f'' 0 (''e'', ''m'', ''h'') (JStr ''hello'', 3, 5) cache_world)) =
   Some (JStr ''hello'', 3, 5)"
  using cache_returns_what_was_stored [of "default_settings [] []" cache_world "[]" "(''e'', ''m'', ''h'')" 100 "''f''" 0 "(JStr ''hello'', 3, 5)"]
  by (simp add: default_settings_def cache_ok_def cache_world_def empty_db_def table.run.simps)

end
