(* ===== verification/Security.thy ===== *)
theory Security
  imports RateLimit Quota
begin

text \<open>
  Secrets and access: API keys and their hashes (\<open>core/security.py\<close>, \<open>core/runtime_security.py\<close>),
  the security events and the detectors behind them (\<open>services/security_monitor.py\<close>), and the request
  log (\<open>services/audit.py\<close>).
\<close>

section \<open>Secrets (\<open>core/security.py\<close>)\<close>

text \<open>\<open>kdf secret salt\<close> is the hexadecimal PBKDF2 digest; random tokens are arguments.\<close>

definition generate_api_key :: "string \<Rightarrow> string" where
  "generate_api_key token = ''sk-local-'' @ token"

definition hash_secret :: "(string \<Rightarrow> string \<Rightarrow> string) \<Rightarrow> string \<Rightarrow> string \<Rightarrow> string" where
  "hash_secret kdf secret salt = salt @ ''$'' @ kdf secret salt"

definition verify_secret :: "(string \<Rightarrow> string \<Rightarrow> string) \<Rightarrow> string \<Rightarrow> string \<Rightarrow> exc + bool" where
  "verify_secret kdf secret stored_hash =
     (case partition_at (CHR ''$'') stored_hash of
        None \<Rightarrow> Inl (ValueError ''not enough values to unpack'')
      | Some (salt, expected) \<Rightarrow> Inr (kdf secret salt = expected))"

definition short_prefix :: "string \<Rightarrow> string" where
  "short_prefix secret = take 12 secret"

lemma partition_at_append: "d \<notin> set a \<Longrightarrow> partition_at d (a @ d # b) = Some (a, b)"
  by (induction a) auto

text \<open>A stored hash accepts exactly the secrets with the digest of the original.\<close>

lemma verify_hashed_secret:
  "CHR ''$'' \<notin> set salt \<Longrightarrow>
   verify_secret kdf attempt (hash_secret kdf secret salt) = Inr (kdf attempt salt = kdf secret salt)"
  using partition_at_append [of "CHR ''$''" salt "kdf secret salt"] by (simp add: verify_secret_def hash_secret_def)

section \<open>Startup check (\<open>core/runtime_security.py\<close>)\<close>

definition is_strong_admin_token :: "string \<Rightarrow> bool" where
  "is_strong_admin_token token =
     (if length token < 24 \<or> token = ''change-this-admin-token'' then False
      else
        let classes = (if list_ex is_lower token then 1 else 0) + (if list_ex is_upper token then 1 else 0) +
              (if list_ex is_digit token then 1 else 0) +
              (if list_ex (\<lambda>c. \<not> (is_lower c \<or> is_upper c \<or> is_digit c)) token then 1 else 0 :: nat) in
        classes \<ge> 3)"

definition validate_runtime_security :: "settings \<Rightarrow> exc + unit" where
  "validate_runtime_security cfg =
     (if public_exposure cfg \<and> \<not> is_strong_admin_token (admin_token cfg)
      then Inl (RuntimeError ''PUBLIC_EXPOSURE=true requires a strong ADMIN_TOKEN with at least 24 chars and mixed classes'')
      else Inr ())"

section \<open>Events (\<open>services/security_monitor.py\<close>)\<close>

definition INVALID_API_ATTEMPT_THRESHOLD :: int where "INVALID_API_ATTEMPT_THRESHOLD = 5"
definition REQUEST_ERROR_THRESHOLD :: int where "REQUEST_ERROR_THRESHOLD = 5"
definition LARGE_PROMPT_TOKENS :: int where "LARGE_PROMPT_TOKENS = 2048"
definition REPEATED_PROMPT_THRESHOLD :: int where "REPEATED_PROMPT_THRESHOLD = 3"
definition PLAN_USAGE_THRESHOLD :: rat where "PLAN_USAGE_THRESHOLD = 9 / 10"

definition parse_json_list :: "(json \<Rightarrow> string) \<Rightarrow> jtext option \<Rightarrow> string list" where
  "parse_json_list rp raw =
     (if text_falsy raw then []
      else case loads (the raw) of
             Some (JArr items) \<Rightarrow> filter (\<lambda>s. s \<noteq> []) (map (\<lambda>x. strip (py_str rp x)) items)
           | _ \<Rightarrow> [])"

definition serialize_security_event :: "security_event \<Rightarrow> json" where
  "serialize_security_event e = JObj [
     (''id'', JStr (uuid_str (e_id e))),
     (''client_id'', jopt (\<lambda>u. JStr (uuid_str u)) (e_client_id e)),
     (''request_log_id'', jopt (\<lambda>u. JStr (uuid_str u)) (e_request_log_id e)),
     (''event_type'', JStr (e_event_type e)),
     (''severity'', JStr (e_severity e)),
     (''correlation_id'', jopt JStr (e_correlation_id e)),
     (''source_ip'', jopt JStr (e_source_ip e)),
     (''api_key_prefix'', jopt JStr (e_api_key_prefix e)),
     (''title'', JStr (e_title e)),
     (''details'', if text_falsy (e_detail_json e) then JObj []
        else case the (e_detail_json e) of JText v \<Rightarrow> v | BadText s \<Rightarrow> JObj [(''raw'', JStr s)]),
     (''created_at'', jtime (e_created_at e))]"

text \<open>\<open>given or from_context or None\<close> for a text.\<close>

definition or_context :: "string option \<Rightarrow> string \<Rightarrow> string option" where
  "or_context given ctx = (case given of Some (c # s) \<Rightarrow> Some (c # s) | _ \<Rightarrow> if ctx = [] then None else Some ctx)"

record event_data =
  ev_type :: string
  ev_severity :: string
  ev_title :: string
  ev_client_id :: "uuid option"
  ev_source_ip :: "string option"
  ev_api_key_prefix :: "string option"
  ev_details :: dict

definition log_security_event :: "timestamp \<Rightarrow> event_data \<Rightarrow> ('r, unit) act" where
  "log_security_event now ev = (\<lambda>w.
     seqE (bindE fresh_id (\<lambda>eid. update (\<lambda>d. d\<lparr>security_events := security_events d @
        [\<lparr>e_id = eid, e_client_id = ev_client_id ev, e_request_log_id = None, e_event_type = ev_type ev,
          e_severity = ev_severity ev, e_correlation_id = or_context None (w_correlation_id w),
          e_source_ip = or_context (ev_source_ip ev) (w_source_ip w),
          e_api_key_prefix = ev_api_key_prefix ev, e_title = ev_title ev,
          e_detail_json = (if ev_details ev = [] then None else Some (dumps (JObj (ev_details ev)))),
          e_created_at = now\<rparr>]\<rparr>)))
       (emit (Count ''SECURITY_EVENT_COUNTER'' [ev_type ev, ev_severity ev])) w)"

definition client_event :: "string \<Rightarrow> string \<Rightarrow> string \<Rightarrow> uuid \<Rightarrow> dict \<Rightarrow> event_data" where
  "client_event type severity title cid details = \<lparr>ev_type = type, ev_severity = severity, ev_title = title,
     ev_client_id = Some cid, ev_source_ip = None, ev_api_key_prefix = None, ev_details = details\<rparr>"

definition prompt_fingerprint :: "(string \<Rightarrow> string) \<Rightarrow> string \<Rightarrow> string" where
  "prompt_fingerprint sha256_hex payload = sha256_hex payload"

definition enforce_client_ip_policy ::
  "(json \<Rightarrow> string) \<Rightarrow> timestamp \<Rightarrow> client \<Rightarrow> string \<Rightarrow> ('r, unit) act" where
  "enforce_client_ip_policy rp now client source_ip =
     (let allowlist = parse_json_list rp (c_ip_allowlist_json client);
          blocklist = parse_json_list rp (c_ip_blocklist_json client) in
      if source_ip \<in> set blocklist then
        seqE (log_security_event now (client_event ''ip_blocklist_match'' ''high'' ''Request from blocked IP''
                (c_id client) [(''source_ip'', JStr source_ip)]))
          (seqE commit (raise (http_error 403 ''source ip is blocked for this client'')))
      else if allowlist \<noteq> [] \<and> source_ip \<notin> set allowlist then
        seqE (log_security_event now (client_event ''ip_allowlist_miss'' ''high'' ''Request outside allowlist''
                (c_id client) [(''source_ip'', JStr source_ip), (''allowlist_size'', JInt (int (length allowlist)))]))
          (seqE commit (raise (http_error 403 ''source ip is not allowed for this client'')))
      else ret ())"

text \<open>
  Counting with an expiry, and the gate that lets an event through once per count: shared by the
  detectors below, which repeat these lines.
\<close>

definition count_hit :: "'r redis_ops \<Rightarrow> timestamp \<Rightarrow> string \<Rightarrow> int \<Rightarrow> ('r, int) act" where
  "count_hit ops now key ttl =
     bindE (redis_call (rd_incr ops now key)) (\<lambda>n.
     seqE (if n = 1 then redis_call (rd_expire ops now key ttl) else ret ()) (ret n))"

definition event_gate :: "string \<Rightarrow> int \<Rightarrow> string" where
  "event_gate key n = key @ '':event:'' @ str_int n"

definition invalid_key_counter :: "string \<Rightarrow> string option \<Rightarrow> string" where
  "invalid_key_counter source_ip api_key_prefix =
     ''security:invalid-api-key:'' @ source_ip @ '':'' @
     (case api_key_prefix of Some (c # s) \<Rightarrow> c # s | _ \<Rightarrow> ''missing'')"

definition record_invalid_api_key_attempt ::
  "'r redis_ops \<Rightarrow> timestamp \<Rightarrow> string \<Rightarrow> string option \<Rightarrow> string \<Rightarrow> ('r, unit) act" where
  "record_invalid_api_key_attempt ops now source_ip api_key_prefix reason =
     (let key = invalid_key_counter source_ip api_key_prefix in
      bindE (count_hit ops now key 600) (\<lambda>attempts.
      if attempts \<ge> INVALID_API_ATTEMPT_THRESHOLD then
        bindE (redis_call (rd_set_nx ops now (event_gate key attempts) 600)) (\<lambda>first.
        if first then
          seqE (log_security_event now \<lparr>ev_type = ''invalid_api_key_attempts'', ev_severity = ''high'',
                  ev_title = ''Many invalid API key attempts'', ev_client_id = None,
                  ev_source_ip = Some source_ip, ev_api_key_prefix = api_key_prefix,
                  ev_details = [(''attempts'', JInt attempts), (''window_seconds'', JInt 600),
                                (''reason'', JStr reason)]\<rparr>) commit
        else ret ())
      else ret ()))"

definition maybe_record_repeated_large_prompt ::
  "'r redis_ops \<Rightarrow> timestamp \<Rightarrow> client \<Rightarrow> int \<Rightarrow> string \<Rightarrow> string \<Rightarrow> ('r, unit) act" where
  "maybe_record_repeated_large_prompt ops now client prompt_tokens prompt_key endpoint =
     (if prompt_tokens < LARGE_PROMPT_TOKENS then ret ()
      else
        let key = ''security:prompt-repeat:'' @ uuid_str (c_id client) @ '':'' @ prompt_key in
        bindE (count_hit ops now key 900) (\<lambda>seen.
        if seen \<ge> REPEATED_PROMPT_THRESHOLD then
          bindE (redis_call (rd_set_nx ops now (event_gate key seen) 900)) (\<lambda>first.
          if first then
            log_security_event now (client_event ''repeated_large_prompt'' ''medium''
              ''Large prompt repeated multiple times'' (c_id client)
              [(''endpoint'', JStr endpoint), (''prompt_tokens'', JInt prompt_tokens), (''repetitions'', JInt seen)])
          else ret ())
        else ret ()))"

definition usage_ratio :: "int \<Rightarrow> int \<Rightarrow> rat" where
  "usage_ratio used limit = (if limit = 0 then 0 else of_int used / of_int limit)"

definition maybe_record_plan_usage_anomaly ::
  "(rat \<Rightarrow> rat) \<Rightarrow> timestamp \<Rightarrow> client \<Rightarrow> int \<Rightarrow> int \<Rightarrow> int \<Rightarrow> int \<Rightarrow> int \<Rightarrow> ('r, unit) act" where
  "maybe_record_plan_usage_anomaly round4 now client daily_limit monthly_limit incoming_tokens
     daily_used_before monthly_used_before =
     (let daily_ratio = usage_ratio (daily_used_before + incoming_tokens) daily_limit;
          monthly_ratio = usage_ratio (monthly_used_before + incoming_tokens) monthly_limit in
      if max daily_ratio monthly_ratio < PLAN_USAGE_THRESHOLD then ret ()
      else log_security_event now (client_event ''usage_above_plan_pattern'' ''medium''
             ''Usage pattern above expected plan threshold'' (c_id client)
             [(''incoming_tokens'', JInt incoming_tokens), (''daily_ratio'', JFloat (round4 daily_ratio)),
              (''monthly_ratio'', JFloat (round4 monthly_ratio))]))"

definition maybe_record_request_error_burst ::
  "'r redis_ops \<Rightarrow> timestamp \<Rightarrow> uuid \<Rightarrow> string \<Rightarrow> int \<Rightarrow> string option \<Rightarrow> ('r, unit) act" where
  "maybe_record_request_error_burst ops now client_id endpoint status_code backend_name =
     (if status_code < 400 then ret ()
      else
        let key = ''security:error-burst:'' @ uuid_str client_id @ '':'' @ str_int (status_code div 100) in
        bindE (count_hit ops now key 900) (\<lambda>total.
        if total \<ge> REQUEST_ERROR_THRESHOLD then
          bindE (redis_call (rd_set_nx ops now (event_gate key total) 900)) (\<lambda>first.
          if first then
            log_security_event now (client_event ''request_error_burst''
              (if status_code \<ge> 500 then ''high'' else ''medium'') ''Many request errors for client'' client_id
              [(''endpoint'', JStr endpoint), (''status_code'', JInt status_code), (''count'', JInt total),
               (''backend_name'', jopt JStr backend_name)])
          else ret ())
        else ret ()))"

definition list_security_events :: "db \<Rightarrow> json" where
  "list_security_events d =
     JArr (map serialize_security_event (take 500 (sort_key (\<lambda>e. - e_created_at e) (security_events d))))"

definition observe_billing_status_metrics :: "('r, unit) act" where
  "observe_billing_status_metrics =
     bindE (query (\<lambda>d. map (\<lambda>s. (s, int (length (filter (\<lambda>c. c_billing_status c = s) (clients d)))))
       (remdups (map c_billing_status (clients d))))) (\<lambda>rows.
     seqE (forE [''active'', ''past_due'', ''suspended''] (\<lambda>s. emit (Gauge ''BILLING_STATUS_GAUGE'' [s] 0)))
     (bindE (forE rows (\<lambda>(s, n). emit (Gauge ''BILLING_STATUS_GAUGE'' [s] n))) (\<lambda>_. ret ())))"

text \<open>
  The client's metadata as the suspension functions read it. They assign keys to it, which fails
  on a decoded value that is not an object.
\<close>

definition suspension_metadata :: "client \<Rightarrow> exc + dict" where
  "suspension_metadata client =
     (if text_falsy (c_metadata_json client) then Inr []
      else case the (c_metadata_json client) of
             BadText s \<Rightarrow> Inr [(''raw_metadata'', JStr s)]
           | JText (JObj d) \<Rightarrow> Inr d
           | JText _ \<Rightarrow> Inl (TypeError ''item assignment''))"

definition set_client :: "uuid \<Rightarrow> (client \<Rightarrow> client) \<Rightarrow> ('r, unit) act" where
  "set_client cid f = update (\<lambda>d. d\<lparr>clients := upd_where (\<lambda>c. c_id c = cid) f (clients d)\<rparr>)"

definition suspend_client_for_security :: "timestamp \<Rightarrow> client \<Rightarrow> string \<Rightarrow> ('r, unit) act" where
  "suspend_client_for_security now client reason =
     seqE (set_client (c_id client) (\<lambda>c. c\<lparr>c_is_blocked := True\<rparr>))
     (bindE (liftE (suspension_metadata client)) (\<lambda>metadata.
      let metadata = dict_set ''security_suspended_at'' (jtime now)
            (dict_set ''security_suspension_reason'' (JStr reason) metadata) in
      seqE (set_client (c_id client) (\<lambda>c. c\<lparr>c_metadata_json := Some (dumps (JObj metadata)), c_updated_at := now\<rparr>))
        (log_security_event now (client_event ''client_suspended'' ''high'' ''Client suspended by security action''
           (c_id client) [(''reason'', JStr reason)]))))"

definition unsuspend_client_for_security :: "timestamp \<Rightarrow> client \<Rightarrow> ('r, unit) act" where
  "unsuspend_client_for_security now client =
     seqE (set_client (c_id client) (\<lambda>c. c\<lparr>c_is_blocked := False\<rparr>))
     (bindE (liftE (suspension_metadata client)) (\<lambda>metadata.
      let metadata = dict_set ''security_unsuspended_at'' (jtime now)
            (dict_pop ''security_suspension_reason'' metadata) in
      seqE (set_client (c_id client) (\<lambda>c. c\<lparr>c_metadata_json := Some (dumps (JObj metadata)), c_updated_at := now\<rparr>))
        (log_security_event now (client_event ''client_unsuspended'' ''medium'' ''Client unsuspended by security action''
           (c_id client) []))))"

section \<open>The request log (\<open>services/audit.py\<close>)\<close>

record log_entry =
  lg_client_id :: uuid
  lg_model :: string
  lg_endpoint :: string
  lg_prompt_tokens :: int
  lg_completion_tokens :: int
  lg_latency_ms :: int
  lg_status_code :: int
  lg_is_stream :: bool
  lg_estimated_cost_usd :: rat
  lg_backend_name :: "string option"
  lg_attempts :: int
  lg_fallback_used :: bool
  lg_cache_hit :: bool
  lg_backend_errors :: "json list option"
  lg_error_message :: "string option"
  lg_request_summary :: "string option"
  lg_safety_profile :: "string option"
  lg_correlation_id :: "string option"
  lg_source_ip :: "string option"

definition log_row :: "timestamp \<Rightarrow> uuid \<Rightarrow> string \<Rightarrow> string \<Rightarrow> log_entry \<Rightarrow> request_log" where
  "log_row now lid correlation source g = \<lparr>rl_id = lid, rl_client_id = lg_client_id g, rl_model = lg_model g,
     rl_endpoint = lg_endpoint g, rl_prompt_tokens = lg_prompt_tokens g,
     rl_completion_tokens = lg_completion_tokens g, rl_latency_ms = lg_latency_ms g,
     rl_http_status = lg_status_code g, rl_is_stream = lg_is_stream g,
     rl_estimated_cost_usd = lg_estimated_cost_usd g, rl_backend_name = lg_backend_name g,
     rl_attempts = lg_attempts g, rl_fallback_used = lg_fallback_used g, rl_cache_hit = lg_cache_hit g,
     rl_backend_errors_json = (case lg_backend_errors g of None \<Rightarrow> None | Some [] \<Rightarrow> None
       | Some es \<Rightarrow> Some (dumps (JArr es))),
     rl_error_message = lg_error_message g, rl_request_summary = lg_request_summary g,
     rl_safety_profile = lg_safety_profile g,
     rl_correlation_id = or_context (lg_correlation_id g) correlation,
     rl_source_ip = or_context (lg_source_ip g) source, rl_created_at = now\<rparr>"

definition log_request :: "timestamp \<Rightarrow> log_entry \<Rightarrow> ('r, unit) act" where
  "log_request now g = (\<lambda>w.
     seqE (bindE fresh_id (\<lambda>lid. update (\<lambda>d. d\<lparr>request_logs := request_logs d @
             [log_row now lid (w_correlation_id w) (w_source_ip w) g]\<rparr>)))
       (emit (Count ''CLIENT_REQUEST_COUNTER'' [uuid_str (lg_client_id g), lg_endpoint g,
          str_int (lg_status_code g div 100) @ ''xx''])) w)"

end
