(* ===== verification/Access.thy ===== *)
theory Access
  imports Security
begin

text \<open>
  Who may call what: the request context set up by the middleware (\<open>middleware.py\<close>) and the two
  authentication dependencies (\<open>services/auth.py\<close>).
\<close>

section \<open>The middleware\<close>

text \<open>Header names are lower case; a missing header is \<open>None\<close>.\<close>

record request =
  rq_path :: string
  rq_headers :: "string \<Rightarrow> string option"
  rq_client_host :: "string option"

record response =
  rs_status :: int
  rs_headers :: "(string \<times> string) list"
  rs_body :: json

definition header :: "request \<Rightarrow> string \<Rightarrow> string" where
  "header r name = (case rq_headers r name of None \<Rightarrow> [] | Some v \<Rightarrow> v)"

definition resolve_source_ip :: "request \<Rightarrow> string" where
  "resolve_source_ip r =
     (let forwarded_for = header r ''x-forwarded-for''; real_ip = strip (header r ''x-real-ip'') in
      if forwarded_for \<noteq> [] then strip (hd (split_on (CHR '','') forwarded_for))
      else if real_ip \<noteq> [] then real_ip
      else case rq_client_host r of Some h \<Rightarrow> h | None \<Rightarrow> ''unknown'')"

definition error_response :: "int \<Rightarrow> string \<Rightarrow> response" where
  "error_response status detail = \<lparr>rs_status = status, rs_headers = [], rs_body = JObj [(''detail'', JStr detail)]\<rparr>"

definition hidden_path :: "string \<Rightarrow> bool" where
  "hidden_path path = (path \<in> {''/admin-dashboard'', ''/admin-lab''} \<or> starts_with ''/static/admin/'' path \<or>
     starts_with ''/static/admin-lab/'' path)"

definition security_headers :: "string \<Rightarrow> (string \<times> string) list" where
  "security_headers correlation_id = [(''X-Correlation-ID'', correlation_id), (''X-Content-Type-Options'', ''nosniff''),
     (''X-Frame-Options'', ''SAMEORIGIN''), (''Referrer-Policy'', ''no-referrer''),
     (''Permissions-Policy'', ''geolocation=(), microphone=(), camera=()'')]"

text \<open>\<open>headers[name] = value\<close>: the first header of that name is replaced and its repetitions go.\<close>

fun set_header :: "string \<Rightarrow> string \<Rightarrow> (string \<times> string) list \<Rightarrow> (string \<times> string) list" where
  "set_header n v [] = [(n, v)]"
| "set_header n v ((m, u) # hs) =
     (if lower m = lower n then (m, v) # filter (\<lambda>(m', _). lower m' \<noteq> lower n) hs
      else (m, u) # set_header n v hs)"

definition set_context :: "string \<Rightarrow> string \<Rightarrow> ('r, unit) act" where
  "set_context correlation_id source_ip =
     modifyE (\<lambda>w. w\<lparr>w_correlation_id := correlation_id, w_source_ip := source_ip\<rparr>)"

text \<open>
  \<open>parse_int\<close> is Python's \<open>int\<close> on the header text, \<open>new_uuid\<close> the text of a fresh UUID. The
  application behind the middleware gets the source address.
\<close>

definition request_context_middleware ::
  "settings \<Rightarrow> (string \<Rightarrow> int option) \<Rightarrow> string \<Rightarrow> (string \<Rightarrow> ('r, response) act) \<Rightarrow> request \<Rightarrow> ('r, response) act" where
  "request_context_middleware cfg parse_int new_uuid call_next r =
     (let content_length = header r ''content-length'' in
      bindE (if content_length = [] then ret False
             else case parse_int content_length of
                    None \<Rightarrow> raise (ValueError ''invalid literal for int()'')
                  | Some n \<Rightarrow> ret (n > max_request_body_size_bytes cfg)) (\<lambda>too_large.
      if too_large then ret (error_response 413 ''request body too large'')
      else if public_exposure cfg \<and> hidden_path (rq_path r) then
        ret (error_response 404 (if contains ''admin-lab'' (rq_path r)
          then ''admin lab disabled in public exposure mode''
          else ''admin dashboard disabled in public exposure mode''))
      else
        let given = strip (header r ''x-correlation-id'');
            correlation_id = (if given \<noteq> [] then given else new_uuid);
            source_ip = resolve_source_ip r in
        seqE (set_context correlation_id source_ip)
        (bindE (finallyE (call_next source_ip) (set_context [] [])) (\<lambda>resp.
         ret (resp\<lparr>rs_headers := foldl (\<lambda>hs (n, v). set_header n v hs) (rs_headers resp)
            (security_headers correlation_id)\<rparr>)))))"

section \<open>Authentication\<close>

definition require_admin :: "settings \<Rightarrow> string option \<Rightarrow> ('r, unit) act" where
  "require_admin cfg x_admin_token =
     (case x_admin_token of
        None \<Rightarrow> raise (http_error 401 ''invalid admin token'')
      | Some t \<Rightarrow> if t = [] \<or> t \<noteq> admin_token cfg then raise (http_error 401 ''invalid admin token'') else ret ())"

text \<open>\<open>next(... if verify_secret(...))\<close>: a hash that does not parse raises when it is reached.\<close>

fun first_verified :: "(string \<Rightarrow> string \<Rightarrow> string) \<Rightarrow> string \<Rightarrow> api_key list \<Rightarrow> exc + api_key option" where
  "first_verified kdf plaintext [] = Inr None"
| "first_verified kdf plaintext (k # ks) =
     bindS (verify_secret kdf plaintext (k_key_hash k)) (\<lambda>ok.
       if ok then Inr (Some k) else first_verified kdf plaintext ks)"

definition candidate_keys :: "db \<Rightarrow> string \<Rightarrow> api_key list" where
  "candidate_keys d prefix = sort_key (\<lambda>k. - k_created_at k)
     (filter (\<lambda>k. k_key_prefix k = prefix \<and> k_revoked_at k = None) (api_keys d))"

definition require_client ::
  "(string \<Rightarrow> string \<Rightarrow> string) \<Rightarrow> (json \<Rightarrow> string) \<Rightarrow> 'r redis_ops \<Rightarrow> timestamp \<Rightarrow> string \<Rightarrow> string option \<Rightarrow> ('r, client) act" where
  "require_client kdf rp ops now source_ip auth_creds =
     (case auth_creds of
        None \<Rightarrow>
          seqE (record_invalid_api_key_attempt ops now source_ip None ''missing bearer token'')
            (raise (http_error 401 ''missing bearer token''))
      | Some credentials \<Rightarrow>
          (let plaintext = strip credentials; prefix = take 12 plaintext in
           bindE (query (\<lambda>d. candidate_keys d prefix)) (\<lambda>keys.
           bindE (liftE (first_verified kdf plaintext keys)) (\<lambda>api_key.
           case api_key of
             None \<Rightarrow>
               seqE (record_invalid_api_key_attempt ops now source_ip (Some prefix) ''invalid api key'')
                 (raise (http_error 401 ''invalid api key''))
           | Some k \<Rightarrow>
               bindE (query (\<lambda>d. List.find (\<lambda>c. c_id c = k_client_id k) (clients d))) (\<lambda>client.
               case client of
                 None \<Rightarrow> raise (http_error 403 ''client blocked or not found'')
               | Some c \<Rightarrow>
                   if c_is_blocked c then raise (http_error 403 ''client blocked or not found'')
                   else if c_billing_status c = ''suspended'' then raise (http_error 403 ''client suspended for billing'')
                   else
                     seqE (enforce_client_ip_policy rp now c source_ip)
                     (seqE (update (\<lambda>d. d\<lparr>api_keys := upd_where (\<lambda>x. k_id x = k_id k)
                        (\<lambda>x. x\<lparr>k_last_used_at := Some now\<rparr>) (api_keys d)\<rparr>))
                       (ret c)))))))"

section \<open>Facts\<close>

lemma first_verified_sound:
  "first_verified kdf p ks = Inr (Some k) \<Longrightarrow> k \<in> set ks \<and> verify_secret kdf p (k_key_hash k) = Inr True"
  by (induction ks) (auto simp: bindS_eq_Inr split: if_splits)

lemma first_verified_only:
  assumes "k \<in> set ks" and "verify_secret kdf p (k_key_hash k) = Inr True"
    and "\<forall>x\<in>set ks. x \<noteq> k \<longrightarrow> verify_secret kdf p (k_key_hash x) = Inr False"
  shows "first_verified kdf p ks = Inr (Some k)"
  using assms by (induction ks) auto

lemma enforce_no_lists:
  "c_ip_blocklist_json c = None \<Longrightarrow> c_ip_allowlist_json c = None \<Longrightarrow> enforce_client_ip_policy rp now c ip w = (Inr (), w)"
  by (simp add: enforce_client_ip_policy_def parse_json_list_def Let_def)

text \<open>A stored key that is not revoked opens the API to its client, when no other key of its prefix takes the text.\<close>

lemma stored_key_opens:
  assumes "k \<in> set (api_keys (w_db w))" and "k_key_prefix k = take 12 p" and "k_revoked_at k = None"
    and "verify_secret kdf p (k_key_hash k) = Inr True" and "strip p = p"
    and "\<forall>x\<in>set (candidate_keys (w_db w) (take 12 p)). x \<noteq> k \<longrightarrow> verify_secret kdf p (k_key_hash x) = Inr False"
    and "List.find (\<lambda>x. c_id x = k_client_id k) (clients (w_db w)) = Some c"
    and "\<not> c_is_blocked c" and "c_billing_status c \<noteq> ''suspended''"
    and "c_ip_blocklist_json c = None" and "c_ip_allowlist_json c = None"
  shows "fst (require_client kdf rp ops now ip (Some p) w) = Inr c"
proof -
  have "k \<in> set (candidate_keys (w_db w) (take 12 p))" using assms(1-3) by (simp add: candidate_keys_def)
  from first_verified_only [OF this assms(4,6)] show ?thesis
    using assms(5,7-11) by (simp add: require_client_def Let_def bindE_def seqE_def enforce_no_lists)
qed

lemma enforce_ip_ok:
  "enforce_client_ip_policy rp now c ip w = (Inr u, w') \<Longrightarrow> w' = w \<and>
     ip \<notin> set (parse_json_list rp (c_ip_blocklist_json c)) \<and>
     (parse_json_list rp (c_ip_allowlist_json c) = [] \<or> ip \<in> set (parse_json_list rp (c_ip_allowlist_json c)))"
  by (auto simp: enforce_client_ip_policy_def Let_def seqE_eq_Inr bindE_eq_Inr split: if_splits)

lemma authenticated_keys:
  assumes "require_client kdf rp ops now ip creds w = (Inr c, w')"
  shows "\<exists>token k. creds = Some token \<and> k \<in> set (api_keys (w_db w)) \<and> k_client_id k = c_id c \<and>
    k_revoked_at k = None \<and> k_key_prefix k = take 12 (strip token) \<and>
    verify_secret kdf (strip token) (k_key_hash k) = Inr True \<and>
    c \<in> set (clients (w_db w)) \<and> \<not> c_is_blocked c \<and> c_billing_status c \<noteq> ''suspended'' \<and>
    ip \<notin> set (parse_json_list rp (c_ip_blocklist_json c)) \<and>
    (parse_json_list rp (c_ip_allowlist_json c) = [] \<or> ip \<in> set (parse_json_list rp (c_ip_allowlist_json c))) \<and>
    w' = w\<lparr>w_db := (w_db w)\<lparr>api_keys := upd_where (\<lambda>x. k_id x = k_id k)
      (\<lambda>x. x\<lparr>k_last_used_at := Some now\<rparr>) (api_keys (w_db w))\<rparr>\<rparr>"
proof (cases creds)
  case None
  with assms show ?thesis by (auto simp: require_client_def seqE_eq_Inr)
next
  case (Some token)
  let ?keys = "candidate_keys (w_db w) (take 12 (strip token))"
  from assms Some obtain k where k: "first_verified kdf (strip token) ?keys = Inr (Some k)"
    and rest: "(case List.find (\<lambda>c. c_id c = k_client_id k) (clients (w_db w)) of
       None \<Rightarrow> raise (http_error 403 ''client blocked or not found'')
     | Some c \<Rightarrow>
         if c_is_blocked c then raise (http_error 403 ''client blocked or not found'')
         else if c_billing_status c = ''suspended'' then raise (http_error 403 ''client suspended for billing'')
         else seqE (enforce_client_ip_policy rp now c ip)
           (seqE (update (\<lambda>d. d\<lparr>api_keys := upd_where (\<lambda>x. k_id x = k_id k)
              (\<lambda>x. x\<lparr>k_last_used_at := Some now\<rparr>) (api_keys d)\<rparr>)) (ret c))) w = (Inr c, w')"
    by (auto simp: require_client_def Let_def bindE_eq_Inr seqE_eq_Inr split: option.splits)
  obtain c' where c': "List.find (\<lambda>c. c_id c = k_client_id k) (clients (w_db w)) = Some c'"
    using rest by (auto split: option.splits)
  have ok: "\<not> c_is_blocked c'" "c_billing_status c' \<noteq> ''suspended''"
    using rest c' by (auto split: if_splits)
  obtain u w1 where ip: "enforce_client_ip_policy rp now c' ip w = (Inr u, w1)"
    and fin: "w' = w1\<lparr>w_db := (w_db w1)\<lparr>api_keys := upd_where (\<lambda>x. k_id x = k_id k)
      (\<lambda>x. x\<lparr>k_last_used_at := Some now\<rparr>) (api_keys (w_db w1))\<rparr>\<rparr>" "c' = c"
    using rest c' ok by (auto simp: seqE_eq_Inr)
  have "k \<in> set ?keys" "verify_secret kdf (strip token) (k_key_hash k) = Inr True"
    using first_verified_sound [OF k] by simp_all
  then show ?thesis
    using Some ok fin enforce_ip_ok [OF ip] find_Some_set [OF c'] by (auto simp: candidate_keys_def)
qed

text \<open>
  C16. Authentication is sound: a request is let through as a client only with the text of a key of
  that client that is stored, not revoked and verified against its hash, and only if the client is
  neither blocked nor suspended for billing and its address lists admit the caller's address. All
  it changes is the time the key was last used.
\<close>

theorem authenticated_client:
  assumes "require_client kdf rp ops now ip creds w = (Inr c, w')"
  shows "\<exists>token k. creds = Some token \<and> k \<in> set (api_keys (w_db w)) \<and> k_client_id k = c_id c \<and>
    k_revoked_at k = None \<and> k_key_prefix k = take 12 (strip token) \<and>
    verify_secret kdf (strip token) (k_key_hash k) = Inr True \<and>
    c \<in> set (clients (w_db w)) \<and> \<not> c_is_blocked c \<and> c_billing_status c \<noteq> ''suspended'' \<and>
    ip \<notin> set (parse_json_list rp (c_ip_blocklist_json c)) \<and>
    (parse_json_list rp (c_ip_allowlist_json c) = [] \<or> ip \<in> set (parse_json_list rp (c_ip_allowlist_json c))) \<and>
    w' = w\<lparr>w_db := (w_db w)\<lparr>api_keys := upd_where (\<lambda>x. k_id x = k_id k)
      (\<lambda>x. x\<lparr>k_last_used_at := Some now\<rparr>) (api_keys (w_db w))\<rparr>\<rparr>"
  by (rule authenticated_keys [OF assms])

definition access_client :: client where
  "access_client = \<lparr>c_id = 1, c_name = ''acme'', c_description = None, c_is_blocked = False,
     c_billing_status = ''active'', c_billing_plan_id = None, c_rate_limit_per_minute = 5,
     c_daily_token_quota = 100, c_monthly_token_quota = 1000, c_max_context_tokens = 2048,
     c_max_output_tokens = 512, c_allowed_models_json = None, c_ip_allowlist_json = None,
     c_ip_blocklist_json = None, c_system_prompt = None, c_metadata_json = None, c_deleted_at = None,
     c_created_at = 0, c_updated_at = 0\<rparr>"

definition toy_kdf :: "string \<Rightarrow> string \<Rightarrow> string" where
  "toy_kdf secret salt = secret @ salt"

definition access_key :: api_key where
  "access_key = \<lparr>k_id = 2, k_client_id = 1, k_name = ''default'', k_key_prefix = ''sk-local-abc'',
     k_key_hash = hash_secret toy_kdf ''sk-local-abcdef'' ''00'', k_scopes_json = None, k_created_at = 0,
     k_revoked_at = None, k_last_used_at = None\<rparr>"

definition access_world :: "store world" where
  "access_world = (let d = empty_db\<lparr>clients := [access_client], api_keys := [access_key]\<rparr> in
     \<lparr>w_db = d, w_saved = d, w_redis = empty_store, w_metrics = [],
      w_breaker = new_breaker (default_settings [] []), w_pending = 0, w_correlation_id = [], w_source_ip = []\<rparr>)"

theorem authenticated_client_witness:
  "\<exists>k\<in>set (api_keys (w_db access_world)). verify_secret toy_kdf ''sk-local-abcdef'' (k_key_hash k) = Inr True"
proof -
  have strip: "strip ''sk-local-abcdef'' = ''sk-local-abcdef''"
    by (simp add: strip_def lstrip_def rstrip_def is_space_def py_ord_def)
  have v: "verify_secret toy_kdf ''sk-local-abcdef'' (k_key_hash access_key) = Inr True"
    by (simp add: access_key_def verify_hashed_secret)
  obtain w' where "require_client toy_kdf (\<lambda>_. []) store_ops 5 ''10.0.0.1'' (Some ''sk-local-abcdef'') access_world = (Inr access_client, w')"
    using v by (simp add: require_client_def strip candidate_keys_def bindE_apply seqE_apply enforce_client_ip_policy_def
        parse_json_list_def access_world_def access_client_def access_key_def empty_db_def Let_def)
  from authenticated_client [OF this] strip show ?thesis by auto
qed

section \<open>Invalid keys\<close>

text \<open>Failed attempts with the same address and prefix, at the given times.\<close>

fun failed_attempts :: "'r redis_ops \<Rightarrow> string \<Rightarrow> string option \<Rightarrow> string \<Rightarrow> timestamp list \<Rightarrow> 'r world \<Rightarrow> 'r world" where
  "failed_attempts ops ip prefix reason [] w = w"
| "failed_attempts ops ip prefix reason (t # ts) w =
     failed_attempts ops ip prefix reason ts (snd (record_invalid_api_key_attempt ops t ip prefix reason w))"

lemma event_gate_inject: "event_gate k m = event_gate k n \<longleftrightarrow> m = n"
  by (simp add: event_gate_def)

lemma event_gate_other: "event_gate k n \<noteq> k"
  by (simp add: event_gate_def)

lemma log_security_event_events:
  "w_redis (snd (log_security_event now ev w)) = w_redis w \<and>
   length (security_events (w_db (snd (log_security_event now ev w)))) = Suc (length (security_events (w_db w)))"
  by (simp add: log_security_event_def seqE_apply bindE_apply)

context redis_server
begin

lemma count_hit_eq: "count_hit ops now key ttl w =
  (case hit now key ttl (w_redis w) of (n, r') \<Rightarrow> (Inr n, w\<lparr>w_redis := r'\<rparr>))"
  by (auto simp: count_hit_def hit_def bindE_apply seqE_apply redis_call_apply split: prod.splits)

text \<open>After \<open>n\<close> attempts: the counter stands at \<open>n\<close> until \<open>e\<close>, and no gate above it is set.\<close>

definition attempts_seen :: "string \<Rightarrow> nat \<Rightarrow> timestamp \<Rightarrow> 'r \<Rightarrow> bool" where
  "attempts_seen k n e r \<longleftrightarrow> (if n = 0 then entries r k = None else entries r k = Some (int n, Some e)) \<and>
     (\<forall>m > int n. entries r (event_gate k m) = None)"

lemma attempt_step:
  assumes "attempts_seen k n e (w_redis w)" and "k = invalid_key_counter ip prefix"
    and "n = 0 \<Longrightarrow> e = t + seconds 600" and "t < e"
  shows "attempts_seen k (Suc n) e (w_redis (snd (record_invalid_api_key_attempt ops t ip prefix reason w))) \<and>
    length (security_events (w_db (snd (record_invalid_api_key_attempt ops t ip prefix reason w)))) =
      length (security_events (w_db w)) + (if 4 \<le> n then 1 else 0)"
proof -
  obtain m r1 where h: "hit t k 600 (w_redis w) = (m, r1)" by force
  have m: "m = int (Suc n)" and r1: "entries r1 = (entries (w_redis w))(k := Some (int (Suc n), Some e))"
  proof -
    have "m = int (Suc n) \<and> entries r1 = (entries (w_redis w))(k := Some (int (Suc n), Some e))"
    proof (cases "n = 0")
      case True
      then have "live t (entries (w_redis w) k) = None" using assms(1) by (simp add: attempts_seen_def live_def)
      from hit_absent [OF this, of 600] show ?thesis using True assms(3) by (simp add: h)
    next
      case False
      then have "live t (entries (w_redis w) k) = Some (int n, Some e)"
        using assms(1,4) by (simp add: attempts_seen_def live_def)
      from hit_present [OF this, of 600] show ?thesis using False by (simp add: h add.commute)
    qed
    then show "m = int (Suc n)" "entries r1 = (entries (w_redis w))(k := Some (int (Suc n), Some e))" by simp_all
  qed
  have gates: "\<forall>j > int n. entries r1 (event_gate k j) = None"
    using assms(1) event_gate_other by (simp add: r1 attempts_seen_def)
  let ?w1 = "w\<lparr>w_redis := r1\<rparr>"
  show ?thesis
  proof (cases "4 \<le> n")
    case False
    then have "record_invalid_api_key_attempt ops t ip prefix reason w = (Inr (), ?w1)"
      using h m by (simp add: record_invalid_api_key_attempt_def assms(2) [symmetric] count_hit_eq bindE_apply
          INVALID_API_ATTEMPT_THRESHOLD_def Let_def)
    then show ?thesis using False r1 gates by (simp add: attempts_seen_def)
  next
    case True
    obtain first r2 where g: "rd_set_nx ops t (event_gate k m) 600 r1 = (first, r2)" by force
    have none: "live t (entries r1 (event_gate k m)) = None" using gates m by (simp add: live_def)
    have first: "first" and r2: "entries r2 = (entries r1)(event_gate k m := Some (1, Some (t + seconds 600)))"
      using set_nx_result [of t "event_gate k m" 600 r1] set_nx_entries [of t "event_gate k m" 600 r1] none g by simp_all
    let ?ev = "\<lparr>ev_type = ''invalid_api_key_attempts'', ev_severity = ''high'',
                  ev_title = ''Many invalid API key attempts'', ev_client_id = None,
                  ev_source_ip = Some ip, ev_api_key_prefix = prefix,
                  ev_details = [(''attempts'', JInt m), (''window_seconds'', JInt 600), (''reason'', JStr reason)]\<rparr>"
    have "record_invalid_api_key_attempt ops t ip prefix reason w =
        seqE (log_security_event t ?ev) commit (w\<lparr>w_redis := r2\<rparr>)"
      using h m g first True by (simp add: record_invalid_api_key_attempt_def assms(2) [symmetric] count_hit_eq bindE_apply
          redis_call_apply INVALID_API_ATTEMPT_THRESHOLD_def Let_def)
    moreover have "w_redis (snd (seqE (log_security_event t ?ev) commit (w\<lparr>w_redis := r2\<rparr>))) = r2 \<and>
        length (security_events (w_db (snd (seqE (log_security_event t ?ev) commit (w\<lparr>w_redis := r2\<rparr>))))) =
          Suc (length (security_events (w_db w)))"
      by (simp add: log_security_event_def seqE_apply bindE_apply)
    moreover have "attempts_seen k (Suc n) e r2"
      using r1 r2 gates m event_gate_other [of k m] by (auto simp: attempts_seen_def event_gate_inject dest: sym)
    ultimately show ?thesis using True by simp
  qed
qed

lemma attempts_run:
  assumes "attempts_seen k n e (w_redis w)" and "k = invalid_key_counter ip prefix"
    and "n = 0 \<Longrightarrow> ts \<noteq> [] \<Longrightarrow> e = hd ts + seconds 600" and "\<forall>t\<in>set ts. t < e"
  shows "length (security_events (w_db (failed_attempts ops ip prefix reason ts w))) =
    length (security_events (w_db w)) + ((n + length ts) - max 4 n)"
  using assms
proof (induction ts arbitrary: n w)
  case (Cons t ts)
  let ?w = "snd (record_invalid_api_key_attempt ops t ip prefix reason w)"
  have "attempts_seen k (Suc n) e (w_redis ?w)"
    "length (security_events (w_db ?w)) = length (security_events (w_db w)) + (if 4 \<le> n then 1 else 0)"
    using attempt_step [OF Cons.prems(1,2)] Cons.prems(3,4) by auto
  then show ?case using Cons.IH [of "Suc n" ?w] Cons.prems by auto
qed simp

end

text \<open>
  The gate on key-guessing alarms holds nothing back: within the ten minutes that start with the
  first failed attempt of an address and prefix, every attempt from the fifth on records an event of
  its own, because the name of the gate contains the attempt's number.
\<close>

theorem every_further_attempt_recorded:
  assumes "redis_server ops entries queues" and "entries (w_redis w) = (\<lambda>_. None)" and "ts \<noteq> []"
    and "\<forall>t\<in>set ts. t < hd ts + 600 * 1000000"
  shows "length (security_events (w_db (failed_attempts ops ip prefix reason ts w))) =
    length (security_events (w_db w)) + (length ts - 4)"
proof -
  let ?k = "invalid_key_counter ip prefix" and ?e = "hd ts + seconds 600"
  have "redis_server.attempts_seen entries ?k 0 ?e (w_redis w)"
    using assms(2) by (simp add: redis_server.attempts_seen_def [OF assms(1)])
  from redis_server.attempts_run [OF assms(1) this refl, of ts reason] show ?thesis
    using assms(3,4) by (simp add: seconds_def)
qed

theorem every_further_attempt_recorded_witness:
  "length (security_events (w_db (failed_attempts store_ops ''10.0.0.9'' None ''x'' [0, 1, 2, 3, 4, 5, 6] access_world))) = 3"
  by (subst every_further_attempt_recorded [OF kv.redis_server_axioms])
     (simp_all add: access_world_def empty_store_def empty_db_def Let_def)

end
