(* ===== verification/Validation.thy ===== *)
theory Validation
  imports BillingPlans TextUtils
begin

text \<open>
  Requests: the bodies the inference endpoints accept (\<open>schemas/inference.py\<close>), with the constraints
  their fields declare, and the parameters and messages a handler works with
  (\<open>utils/validation.py\<close>).
\<close>

section \<open>Request bodies (\<open>schemas/inference.py\<close>)\<close>

record content_part =
  cp_type :: string
  cp_text :: "string option"
  cp_image_url :: "dict option"

datatype content = Text string | Parts "content_part list"

record chat_message =
  cm_role :: string
  cm_content :: content

record sampling =
  sm_temperature :: "rat option"
  sm_top_p :: "rat option"
  sm_max_tokens :: "int option"
  sm_stream :: bool
  sm_safety_profile :: string

record chat_request =
  cq_model :: string
  cq_messages :: "chat_message list"
  cq_sampling :: sampling
  cq_include_reasoning :: bool

record completion_request =
  nq_model :: string
  nq_prompt :: string
  nq_sampling :: sampling

definition in_bounds :: "'a::linorder option \<Rightarrow> 'a \<Rightarrow> 'a \<Rightarrow> bool" where
  "in_bounds x low high = (case x of None \<Rightarrow> True | Some v \<Rightarrow> low \<le> v \<and> v \<le> high)"

definition valid_sampling :: "sampling \<Rightarrow> bool" where
  "valid_sampling s \<longleftrightarrow> in_bounds (sm_temperature s) 0 2 \<and> in_bounds (sm_top_p s) 0 1 \<and>
     in_bounds (sm_max_tokens s) 1 1000000 \<and> sm_safety_profile s \<in> {''default'', ''strict'', ''relaxed''}"

definition valid_message :: "chat_message \<Rightarrow> bool" where
  "valid_message m \<longleftrightarrow> cm_role m \<in> {''system'', ''user'', ''assistant'', ''tool''} \<and>
     (case cm_content m of Text _ \<Rightarrow> True | Parts ps \<Rightarrow> (\<forall>p\<in>set ps. cp_type p \<in> {''text'', ''image_url''}))"

definition ensure_non_empty_user_content :: "chat_request \<Rightarrow> exc + chat_request" where
  "ensure_non_empty_user_content q =
     (if \<not> list_ex (\<lambda>m. cm_role m = ''user'') (cq_messages q)
      then Inl (ValueError ''at least one user message is required'') else Inr q)"

definition valid_chat_request :: "chat_request \<Rightarrow> bool" where
  "valid_chat_request q \<longleftrightarrow> 1 \<le> length (cq_model q) \<and> length (cq_model q) \<le> 255 \<and>
     1 \<le> length (cq_messages q) \<and> length (cq_messages q) \<le> 128 \<and> list_all valid_message (cq_messages q) \<and>
     valid_sampling (cq_sampling q) \<and> ensure_non_empty_user_content q = Inr q"

definition valid_completion_request :: "completion_request \<Rightarrow> bool" where
  "valid_completion_request q \<longleftrightarrow> 1 \<le> length (nq_model q) \<and> length (nq_model q) \<le> 255 \<and>
     1 \<le> length (nq_prompt q) \<and> length (nq_prompt q) \<le> 20000 \<and> valid_sampling (nq_sampling q)"

subsection \<open>\<open>model_dump\<close>\<close>

definition dump_part :: "content_part \<Rightarrow> json" where
  "dump_part p = JObj [(''type'', JStr (cp_type p)), (''text'', jopt JStr (cp_text p)),
     (''image_url'', jopt JObj (cp_image_url p))]"

definition dump_message :: "chat_message \<Rightarrow> dict" where
  "dump_message m = [(''role'', JStr (cm_role m)),
     (''content'', case cm_content m of Text s \<Rightarrow> JStr s | Parts ps \<Rightarrow> JArr (map dump_part ps))]"

definition dump_sampling :: "sampling \<Rightarrow> dict" where
  "dump_sampling s = [(''temperature'', jopt JFloat (sm_temperature s)), (''top_p'', jopt JFloat (sm_top_p s)),
     (''max_tokens'', jopt JInt (sm_max_tokens s)), (''stream'', JBool (sm_stream s)),
     (''safety_profile'', JStr (sm_safety_profile s))]"

definition dump_chat_request :: "chat_request \<Rightarrow> dict" where
  "dump_chat_request q = [(''model'', JStr (cq_model q)),
     (''messages'', JArr (map (\<lambda>m. JObj (dump_message m)) (cq_messages q)))] @ dump_sampling (cq_sampling q) @
     [(''include_reasoning'', JBool (cq_include_reasoning q))]"

definition dump_completion_request :: "completion_request \<Rightarrow> dict" where
  "dump_completion_request q = [(''model'', JStr (nq_model q)), (''prompt'', JStr (nq_prompt q))] @
     dump_sampling (nq_sampling q)"

section \<open>Numbers in decoded JSON\<close>

text \<open>The value of a number; a boolean is one to Python as well.\<close>

fun number :: "json \<Rightarrow> rat option" where
  "number (JInt i) = Some (of_int i)"
| "number (JFloat q) = Some q"
| "number (JBool b) = Some (if b then 1 else 0)"
| "number _ = None"

text \<open>\<open>v > limit\<close> raises for what is not a number.\<close>

definition exceeds_limit :: "json \<Rightarrow> rat \<Rightarrow> exc + bool" where
  "exceeds_limit v limit = (case number v of None \<Rightarrow> Inl (TypeError ''>'') | Some q \<Rightarrow> Inr (q > limit))"

text \<open>\<open>min(v, bound)\<close> and \<open>max(v, bound)\<close> give the first argument back when it is as good.\<close>

definition number_of :: "json \<Rightarrow> rat" where
  "number_of v = (case number v of None \<Rightarrow> 0 | Some q \<Rightarrow> q)"

definition py_min :: "json \<Rightarrow> rat \<Rightarrow> json" where
  "py_min v bound = (if bound < number_of v then JFloat bound else v)"

definition py_max :: "json \<Rightarrow> rat \<Rightarrow> json" where
  "py_max v bound = (if number_of v < bound then JFloat bound else v)"

section \<open>Parameters (\<open>utils/validation.py\<close>)\<close>

record params =
  pa_max_tokens :: json
  pa_temperature :: json
  pa_top_p :: json
  pa_plan :: effective_plan

text \<open>\<open>client_defaults.get\<close>: what the column decodes to may not be an object.\<close>

definition client_defaults :: "client \<Rightarrow> json" where
  "client_defaults c = (if text_falsy (c_metadata_json c) then JObj []
     else case c_metadata_json c of None \<Rightarrow> JObj [] | Some t \<Rightarrow>
       (case loads t of None \<Rightarrow> JObj [] | Some v \<Rightarrow> v))"

definition default_of :: "client \<Rightarrow> string \<Rightarrow> exc + json" where
  "default_of c k = bindS (as_dict (client_defaults c)) (\<lambda>d. Inr (dict_get_or_null d k))"

definition requested_max_tokens :: "settings \<Rightarrow> client \<Rightarrow> sampling \<Rightarrow> exc + json" where
  "requested_max_tokens cfg c s =
     (if sm_max_tokens s \<noteq> None \<and> sm_max_tokens s \<noteq> Some 0 then Inr (jopt JInt (sm_max_tokens s))
      else bindS (default_of c ''max_tokens'') (\<lambda>v.
        Inr (if truthy v then v else JInt (default_max_tokens cfg))))"

definition chosen :: "client \<Rightarrow> string \<Rightarrow> rat option \<Rightarrow> rat \<Rightarrow> exc + json" where
  "chosen c k requested configured =
     (case requested of
        Some q \<Rightarrow> Inr (JFloat q)
      | None \<Rightarrow> bindS (default_of c k) (\<lambda>v. Inr (if v = JNull then JFloat configured else v)))"

definition validate_params :: "settings \<Rightarrow> db \<Rightarrow> client \<Rightarrow> sampling \<Rightarrow> exc + params" where
  "validate_params cfg d c s =
     (let plan = resolve_effective_plan d c;
          limit = min (ep_max_output_tokens plan) (max_completion_tokens cfg) in
      bindS (requested_max_tokens cfg c s) (\<lambda>max_tokens.
      bindS (exceeds_limit max_tokens (of_int limit)) (\<lambda>too_many.
      if too_many then Inl (http_error 400
          (''max_tokens exceeds allowed limit ('' @ str_int limit @ '') for this client''))
      else
      bindS (chosen c ''temperature'' (sm_temperature s) (default_temperature cfg)) (\<lambda>temperature.
      bindS (chosen c ''top_p'' (sm_top_p s) (default_top_p cfg)) (\<lambda>top_p.
      if sm_stream s \<and> \<not> ep_allow_streaming plan
      then Inl (http_error 403 ''streaming is not allowed for this billing plan'')
      else
      bindS (exceeds_limit temperature (max_temperature cfg)) (\<lambda>too_hot.
      if too_hot then Inl (http_error 422 ''temperature exceeds configured maximum'')
      else
      bindS (exceeds_limit top_p (max_top_p cfg)) (\<lambda>too_wide.
      if too_wide then Inl (http_error 422 ''top_p exceeds configured maximum'')
      else Inr \<lparr>pa_max_tokens = max_tokens, pa_temperature = temperature, pa_top_p = top_p, pa_plan = plan\<rparr>)))))))"

text \<open>
  The messages with a list of parts as content become text. A part that is not an object and a
  text that is not one raise.
\<close>

fun part_texts :: "json list \<Rightarrow> exc + string list" where
  "part_texts [] = Inr []"
| "part_texts (part # parts) =
     bindS (as_dict part) (\<lambda>p.
     let part_type = dict_get_or_null p ''type'' in
     if part_type = JStr ''text'' then
       (let v = dict_get_or_null p ''text'' in
        bindS (part_texts parts) (\<lambda>rest.
        case (if truthy v then v else JStr []) of
          JStr s \<Rightarrow> Inr (s # rest)
        | _ \<Rightarrow> Inl (TypeError ''sequence item'')))
     else if part_type = JStr ''image_url'' then
       Inl (http_error 422 ''image_url is not supported yet. Only text content parts are allowed.'')
     else part_texts parts)"

definition newline :: string where
  "newline = [CHR 0x0A]"

definition normalize_one_message :: "dict \<Rightarrow> exc + dict" where
  "normalize_one_message msg =
     (case dict_get_or_null msg ''content'' of
        JArr parts \<Rightarrow> bindS (part_texts parts) (\<lambda>texts. Inr (dict_set ''content'' (JStr (join newline texts)) msg))
      | _ \<Rightarrow> Inr msg)"

definition normalize_messages :: "dict list \<Rightarrow> exc + dict list" where
  "normalize_messages messages = mapS normalize_one_message messages"

section \<open>Properties\<close>

text \<open>The text a message's content stands for, and the parts that are refused.\<close>

definition content_text :: "content \<Rightarrow> string" where
  "content_text c = (case c of Text s \<Rightarrow> s
     | Parts ps \<Rightarrow> join newline (map (\<lambda>p. case cp_text p of None \<Rightarrow> [] | Some s \<Rightarrow> s)
         (filter (\<lambda>p. cp_type p = ''text'') ps)))"

definition has_image :: "chat_message \<Rightarrow> bool" where
  "has_image m = (case cm_content m of Text _ \<Rightarrow> False | Parts ps \<Rightarrow> \<exists>p\<in>set ps. cp_type p = ''image_url'')"

abbreviation image_error :: exc where
  "image_error \<equiv> http_error 422 ''image_url is not supported yet. Only text content parts are allowed.''"

lemma dump_part_get:
  "dict_get_or_null [(''type'', JStr t), (''text'', u), (''image_url'', i)] ''type'' = JStr t"
  "dict_get_or_null [(''type'', JStr t), (''text'', u), (''image_url'', i)] ''text'' = u"
  by (simp_all add: dict_get_or_null_def)

lemma part_texts_dump:
  "part_texts (map dump_part ps) =
     (if \<exists>p\<in>set ps. cp_type p = ''image_url'' then Inl image_error
      else Inr (map (\<lambda>p. case cp_text p of None \<Rightarrow> [] | Some s \<Rightarrow> s) (filter (\<lambda>p. cp_type p = ''text'') ps)))"
proof (induction ps)
  case Nil
  show ?case by simp
next
  case (Cons p ps)
  then show ?case
    by (cases "cp_text p") (auto simp: dump_part_def dump_part_get Let_def)
qed

lemma normalize_dumped_message:
  "normalize_one_message (dump_message m) =
     (if has_image m then Inl image_error
      else Inr [(''role'', JStr (cm_role m)), (''content'', JStr (content_text (cm_content m)))])"
  by (cases "cm_content m")
    (auto simp: normalize_one_message_def dump_message_def dict_get_or_null_def part_texts_dump has_image_def content_text_def)

text \<open>
  The messages of a request become messages whose content is the text of their parts, role and
  order kept; a part with an image anywhere refuses the request, and nothing else does.
\<close>

theorem messages_normalized:
  "normalize_messages (map dump_message ms) =
     (if \<exists>m\<in>set ms. has_image m then Inl image_error
      else Inr (map (\<lambda>m. [(''role'', JStr (cm_role m)), (''content'', JStr (content_text (cm_content m)))]) ms))"
  unfolding normalize_messages_def
  by (induction ms) (auto simp: normalize_dumped_message)

lemma exceeds_limit_False: "exceeds_limit v b = Inr False \<longleftrightarrow> (\<exists>q. number v = Some q \<and> q \<le> b)"
  by (auto simp: exceeds_limit_def split: option.splits)

text \<open>
  C22. The parameters a request is served with: its own where it names them, never above what the
  plan and the settings allow, and a stream only on a plan that has streaming.
\<close>

theorem params_within_limits:
  assumes "validate_params cfg d c s = Inr p"
  shows "let plan = resolve_effective_plan d c in
     pa_plan p = plan \<and>
     (\<forall>n. sm_max_tokens s = Some n \<and> n \<noteq> 0 \<longrightarrow> pa_max_tokens p = JInt n) \<and>
     (\<forall>q. sm_temperature s = Some q \<longrightarrow> pa_temperature p = JFloat q) \<and>
     (\<forall>q. sm_top_p s = Some q \<longrightarrow> pa_top_p p = JFloat q) \<and>
     (sm_stream s \<longrightarrow> ep_allow_streaming plan) \<and>
     (\<exists>n. number (pa_max_tokens p) = Some n \<and>
        n \<le> of_int (ep_max_output_tokens plan) \<and> n \<le> of_int (max_completion_tokens cfg)) \<and>
     (\<exists>q. number (pa_temperature p) = Some q \<and> q \<le> max_temperature cfg) \<and>
     (\<exists>q. number (pa_top_p p) = Some q \<and> q \<le> max_top_p cfg)"
proof -
  let ?plan = "resolve_effective_plan d c"
  let ?limit = "of_int (min (ep_max_output_tokens ?plan) (max_completion_tokens cfg)) :: rat"
  obtain m t w where chosen: "requested_max_tokens cfg c s = Inr m"
      "chosen c ''temperature'' (sm_temperature s) (default_temperature cfg) = Inr t"
      "chosen c ''top_p'' (sm_top_p s) (default_top_p cfg) = Inr w"
    and steps: "exceeds_limit m ?limit = Inr False"
      "exceeds_limit t (max_temperature cfg) = Inr False" "exceeds_limit w (max_top_p cfg) = Inr False"
      "\<not> (sm_stream s \<and> \<not> ep_allow_streaming ?plan)"
      "p = \<lparr>pa_max_tokens = m, pa_temperature = t, pa_top_p = w, pa_plan = ?plan\<rparr>"
    using assms by (auto simp: validate_params_def Let_def bindS_eq_Inr split: if_splits)
  obtain n where n: "number m = Some n" "n \<le> ?limit" using steps(1) by (auto simp: exceeds_limit_False)
  have "?limit \<le> of_int (ep_max_output_tokens ?plan)" "?limit \<le> of_int (max_completion_tokens cfg)"
    by (simp_all only: of_int_le_iff min.cobounded1 min.cobounded2)
  with n have "n \<le> of_int (ep_max_output_tokens ?plan)" "n \<le> of_int (max_completion_tokens cfg)" by linarith+
  moreover have "\<forall>n. sm_max_tokens s = Some n \<and> n \<noteq> 0 \<longrightarrow> m = JInt n" using chosen(1) by (auto simp: requested_max_tokens_def)
  moreover have "\<forall>q. sm_temperature s = Some q \<longrightarrow> t = JFloat q" "\<forall>q. sm_top_p s = Some q \<longrightarrow> w = JFloat q"
    using chosen(2,3) by (auto simp: chosen_def)
  ultimately show ?thesis using n steps by (auto simp: exceeds_limit_False Let_def)
qed

section \<open>Witness\<close>

definition legacy_client :: client where
  "legacy_client = \<lparr>c_id = 1, c_name = ''a'', c_description = None, c_is_blocked = False,
     c_billing_status = ''active'', c_billing_plan_id = None, c_rate_limit_per_minute = 5,
     c_daily_token_quota = 100, c_monthly_token_quota = 1000, c_max_context_tokens = 50,
     c_max_output_tokens = 64, c_allowed_models_json = None, c_ip_allowlist_json = None,
     c_ip_blocklist_json = None, c_system_prompt = None,
     c_metadata_json = Some (JText (JObj [(''temperature'', JInt 1)])), c_deleted_at = None,
     c_created_at = 0, c_updated_at = 0\<rparr>"

definition terse :: sampling where
  "terse = \<lparr>sm_temperature = None, sm_top_p = None, sm_max_tokens = Some 60, sm_stream = True,
     sm_safety_profile = ''default''\<rparr>"

definition terse_params :: params where
  "terse_params = \<lparr>pa_max_tokens = JInt 60, pa_temperature = JInt 1, pa_top_p = JFloat (95 / 100),
     pa_plan = resolve_effective_plan empty_db legacy_client\<rparr>"

theorem params_within_limits_witness:
  "validate_params (default_settings [] []) empty_db legacy_client terse = Inr terse_params \<and>
   (\<exists>n. number (pa_max_tokens terse_params) = Some n \<and>
      n \<le> of_int (ep_max_output_tokens (resolve_effective_plan empty_db legacy_client)))"
proof -
  have run: "validate_params (default_settings [] []) empty_db legacy_client terse = Inr terse_params"
    by (simp add: validate_params_def requested_max_tokens_def chosen_def exceeds_limit_def default_of_def
        client_defaults_def terse_def terse_params_def legacy_client_def default_settings_def
        resolve_effective_plan_def client_plan_def dict_get_or_null_def Let_def)
  with params_within_limits [OF run] show ?thesis by (auto simp: Let_def)
qed

end
