(* ===== verification/InferenceProxy.thy ===== *)
theory InferenceProxy
  imports SlotManager AntiLoop
begin

text \<open>
  Forwarding to a backend (\<open>services/inference_proxy.py\<close>): the retried JSON call, the stream and
  its relay, the translation for Ollama, and the guards around them (breaker, queue, slot). What
  the network answers and when is an argument; the latency histograms and the log are left out.
\<close>

section \<open>What a backend answers\<close>

text \<open>
  The answer to a call: a status with the decoded body, its text and the reason phrase, or a
  \<open>TransportError\<close>. The body of a stream is there before it is relayed only when the transport
  has already read it; over the network it has not.
\<close>

datatype reply = Answer int "json option" string string | NoAnswer

datatype stream_reply =
    Opened int "(json option \<times> string \<times> string) option" "string list" "string option"
  | NotOpened

text \<open>
  What comes from outside during one forwarded call: the readings of the monotonic clock when the
  breaker is asked and when a failure is counted, the turns of other tasks while it waits for a
  slot, the answer to each attempt (by number, URL, path and payload), and the seconds Ollama
  answers are stamped with.
\<close>

record 'r exchange =
  xc_before :: rat
  xc_after :: rat
  xc_waits :: "('r world \<Rightarrow> 'r world) list"
  xc_post :: "nat \<Rightarrow> string \<Rightarrow> string \<Rightarrow> dict \<Rightarrow> reply"
  xc_stream :: "string \<Rightarrow> string \<Rightarrow> dict \<Rightarrow> stream_reply"
  xc_decode :: "string \<Rightarrow> json option"
  xc_created :: int

definition status_error :: "int \<Rightarrow> json option \<Rightarrow> string \<Rightarrow> string \<Rightarrow> exc" where
  "status_error status body text reason = HTTPStatusError status
     (case body of Some v \<Rightarrow> v | None \<Rightarrow> JStr (if take 500 text = [] then reason else take 500 text))"

text \<open>\<open>raise_for_status\<close>: everything but 2xx is an error.\<close>

fun reply_error :: "reply \<Rightarrow> exc option" where
  "reply_error NoAnswer = Some TransportError"
| "reply_error (Answer status body text reason) =
     (if 200 \<le> status \<and> status < 300 then None else Some (status_error status body text reason))"

fun should_trip_circuit_breaker :: "exc \<Rightarrow> bool" where
  "should_trip_circuit_breaker TransportError = True"
| "should_trip_circuit_breaker (HTTPStatusError status _) = (status \<ge> 500)"
| "should_trip_circuit_breaker _ = False"

fun backend_error_detail :: "exc \<Rightarrow> json" where
  "backend_error_detail (HTTPStatusError status response) =
     JObj [(''message'', JStr ''data plane rejected request''), (''backend_status_code'', JInt status),
           (''backend_response'', response)]"
| "backend_error_detail _ = JStr ''data plane unavailable''"

text \<open>The exception a failed call ends in, and the status its metric is labelled with.\<close>

fun backend_failure :: "exc \<Rightarrow> exc" where
  "backend_failure (HTTPStatusError status response) =
     (if status < 500 then HTTPException status (backend_error_detail (HTTPStatusError status response))
      else http_error 503 ''data plane unavailable'')"
| "backend_failure _ = http_error 503 ''data plane unavailable''"

fun error_status :: "exc \<Rightarrow> int" where
  "error_status (HTTPStatusError status _) = status"
| "error_status _ = 503"

definition client_for_backend :: "string \<Rightarrow> exc + unit" where
  "client_for_backend backend =
     (if backend \<notin> {''llama.cpp'', ''ollama'', ''vllm''}
      then Inl (http_error 503 ''unsupported model backend'') else Inr ())"

section \<open>Ollama\<close>

definition dict_item :: "dict \<Rightarrow> string \<Rightarrow> exc + json" where
  "dict_item d k = (case dict_get d k of None \<Rightarrow> Inl (KeyError k) | Some v \<Rightarrow> Inr v)"

definition ollama_options :: "dict \<Rightarrow> json" where
  "ollama_options payload = JObj [(''temperature'', dict_get_or_null payload ''temperature''),
     (''top_p'', dict_get_or_null payload ''top_p''),
     (''num_predict'', dict_get_or_null payload ''max_tokens'')]"

definition translate_ollama_request :: "string \<Rightarrow> dict \<Rightarrow> bool \<Rightarrow> exc + string \<times> dict" where
  "translate_ollama_request endpoint payload stream =
     bindS (dict_item payload ''model'') (\<lambda>model.
     if endpoint = ''/v1/chat/completions'' then
       Inr (''/api/chat'', [(''model'', model), (''messages'', get_default payload ''messages'' (JArr [])),
         (''stream'', JBool stream), (''options'', ollama_options payload)])
     else
       Inr (''/api/generate'', [(''model'', model), (''prompt'', get_default payload ''prompt'' (JStr [])),
         (''stream'', JBool stream), (''options'', ollama_options payload)]))"

definition no_usage :: json where
  "no_usage = JObj [(''prompt_tokens'', JInt 0), (''completion_tokens'', JInt 0), (''total_tokens'', JInt 0)]"

text \<open>\<open>(payload.get("message") or {}).get("content")\<close>.\<close>

definition ollama_message_content :: "dict \<Rightarrow> exc + json" where
  "ollama_message_content p =
     bindS (or_empty_dict (dict_get_or_null p ''message'')) (\<lambda>m. Inr (dict_get_or_null m ''content''))"

text \<open>The name is put into the identifier with its \<open>str\<close>; it is text in every request.\<close>

definition translate_ollama_response :: "int \<Rightarrow> json \<Rightarrow> string \<Rightarrow> string \<Rightarrow> exc + json" where
  "translate_ollama_response created payload endpoint model_name =
     bindS (as_dict payload) (\<lambda>p.
     if endpoint = ''/v1/chat/completions'' then
       bindS (ollama_message_content p) (\<lambda>c.
       let content = (if truthy c then c else get_default p ''response'' (JStr [])) in
       Inr (JObj [(''id'', JStr (''chatcmpl-ollama-'' @ model_name)), (''object'', JStr ''chat.completion''),
         (''created'', JInt created), (''model'', JStr model_name),
         (''choices'', JArr [JObj [(''index'', JInt 0), (''finish_reason'', JStr ''stop''),
            (''message'', JObj [(''role'', JStr ''assistant''), (''content'', content)])]]),
         (''usage'', no_usage)]))
     else
       Inr (JObj [(''id'', JStr (''cmpl-ollama-'' @ model_name)), (''object'', JStr ''text_completion''),
         (''created'', JInt created), (''model'', JStr model_name),
         (''choices'', JArr [JObj [(''index'', JInt 0), (''finish_reason'', JStr ''stop''),
            (''text'', get_default p ''response'' (JStr []))]]),
         (''usage'', no_usage)]))"

definition translate_ollama_stream_line ::
  "(string \<Rightarrow> json option) \<Rightarrow> int \<Rightarrow> string \<Rightarrow> string \<Rightarrow> string \<Rightarrow> exc + stream_line option" where
  "translate_ollama_stream_line decode created line endpoint model_name =
     (case decode line of
        None \<Rightarrow> Inr None
      | Some payload \<Rightarrow> bindS (as_dict payload) (\<lambda>p.
          if endpoint = ''/v1/chat/completions'' then
            bindS (ollama_message_content p) (\<lambda>c.
            Inr (Some (Data [(''id'', JStr (''chatcmpl-ollama-'' @ model_name)),
              (''object'', JStr ''chat.completion.chunk''), (''created'', JInt created), (''model'', JStr model_name),
              (''choices'', JArr [JObj [(''index'', JInt 0),
                 (''delta'', JObj [(''content'', if truthy c then c else JStr [])]), (''finish_reason'', JNull)]])])))
          else
            Inr (Some (Data [(''id'', JStr (''cmpl-ollama-'' @ model_name)),
              (''object'', JStr ''text_completion''), (''created'', JInt created), (''model'', JStr model_name),
              (''choices'', JArr [JObj [(''index'', JInt 0), (''text'', get_default p ''response'' (JStr [])),
                 (''finish_reason'', JNull)]])]))))"

section \<open>The JSON call\<close>

datatype response_body =
    JsonBody int json
  | StreamBody "string list" "string option" string string string bool "string option"

text \<open>
  \<open>ForwardResult\<close>. A stream body holds what its generator closes over: the lines to come and the
  error that breaks them off, the endpoint, the backend, the model name and the two options.
\<close>

record forward_result =
  fr_response :: response_body
  fr_backend_name :: string
  fr_attempts :: int
  fr_fallback_used :: bool
  fr_backend_errors :: "json list"

definition forwarded :: "response_body \<Rightarrow> string \<Rightarrow> forward_result" where
  "forwarded response backend_name = \<lparr>fr_response = response, fr_backend_name = backend_name,
     fr_attempts = 1, fr_fallback_used = False, fr_backend_errors = []\<rparr>"

text \<open>
  The attempts of \<open>_json_forward\<close>: another one follows a failure that may pass (no answer, or
  5xx) while \<open>k\<close> retries are left.
\<close>

fun retriable :: "reply \<Rightarrow> bool" where
  "retriable NoAnswer = True"
| "retriable (Answer status _ _ _) = (status \<ge> 500)"

fun tries :: "(nat \<Rightarrow> reply) \<Rightarrow> nat \<Rightarrow> nat \<Rightarrow> reply" where
  "tries post attempt 0 = post attempt"
| "tries post attempt (Suc k) = (if retriable (post attempt) then tries post (Suc attempt) k else post attempt)"

definition prepared_request ::
  "settings \<Rightarrow> string \<Rightarrow> dict \<Rightarrow> bool \<Rightarrow> string \<Rightarrow> string option \<Rightarrow> bool \<Rightarrow> exc + string \<times> dict" where
  "prepared_request cfg endpoint payload include_reasoning backend prompt_template stream =
     bindS (apply_prompt_template_settings payload prompt_template include_reasoning backend
              (bonsai_chat_template cfg)) (\<lambda>request.
     if backend = ''ollama'' then translate_ollama_request endpoint payload stream
     else Inr (endpoint, request))"

text \<open>The first choice of a normalised completion, cut where its text starts to loop.\<close>

definition apply_anti_loop :: "string option \<Rightarrow> dict \<Rightarrow> exc + dict" where
  "apply_anti_loop prompt_template completion =
     (case dict_get completion ''choices'' of
        Some (JArr (JObj choice # others)) \<Rightarrow>
          (case dict_get choice ''message'' of
             Some (JObj message) \<Rightarrow>
               let content = get_default message ''content'' (JStr []) in
               if \<not> truthy content then Inr completion
               else (case content of
                  JStr text \<Rightarrow>
                    if detect_repetition text 2 prompt_template then
                      let cut = JObj (dict_set ''content'' (JStr (truncate_at_repetition text 2 prompt_template)) message);
                          choice = dict_set ''finish_reason'' (JStr ''length'') (dict_set ''message'' cut choice) in
                      Inr (dict_set ''choices'' (JArr (JObj choice # others)) completion)
                    else Inr completion
                | _ \<Rightarrow> Inl (AttributeError ''count''))
           | _ \<Rightarrow> Inr completion)
      | _ \<Rightarrow> Inr completion)"

definition json_body ::
  "int \<Rightarrow> string \<Rightarrow> dict \<Rightarrow> bool \<Rightarrow> string \<Rightarrow> string option \<Rightarrow> json option \<Rightarrow> exc + json" where
  "json_body created endpoint payload include_reasoning backend prompt_template decoded =
     bindS (case decoded of None \<Rightarrow> Inl JSONDecodeError | Some v \<Rightarrow> Inr v) (\<lambda>v.
     bindS (if backend = ''ollama'' then translate_ollama_response created v endpoint (text_of payload ''model'' [])
            else Inr v) (\<lambda>v.
     if endpoint = ''/v1/chat/completions'' then
       bindS (normalize_chat_completion v include_reasoning prompt_template) (\<lambda>completion.
       bindS (apply_anti_loop prompt_template completion) (\<lambda>c. Inr (JObj c)))
     else Inr v))"

definition failed_call :: "'r exchange \<Rightarrow> string \<Rightarrow> string \<Rightarrow> exc \<Rightarrow> ('r, unit) act" where
  "failed_call x endpoint backend_label e =
     seqE (if should_trip_circuit_breaker e then on_breaker (modifyE (record_failure (xc_after x))) else ret ())
       (seqE (emit (Count ''REQUEST_COUNTER'' [endpoint, ''error'']))
          (emit (Count ''BACKEND_ERROR_COUNTER'' [backend_label, endpoint, str_int (error_status e)])))"

definition backend_label :: "string \<Rightarrow> string \<Rightarrow> string" where
  "backend_label backend_name backend = (if backend_name = [] then backend else backend_name)"

definition json_forward ::
  "settings \<Rightarrow> 'r exchange \<Rightarrow> string \<Rightarrow> dict \<Rightarrow> bool \<Rightarrow> string \<Rightarrow> string \<Rightarrow> string \<Rightarrow> string option \<Rightarrow>
   ('r, forward_result) act" where
  "json_forward cfg x endpoint payload include_reasoning backend backend_url backend_name prompt_template =
     bindE (liftE (client_for_backend backend)) (\<lambda>_.
     bindE (liftE (prepared_request cfg endpoint payload include_reasoning backend prompt_template False))
       (\<lambda>(target_endpoint, request_payload).
     case tries (\<lambda>n. xc_post x n backend_url target_endpoint request_payload) 1 (retry_attempts cfg) of
       NoAnswer \<Rightarrow> seqE (failed_call x endpoint (backend_label backend_name backend) TransportError)
         (raise (backend_failure TransportError))
     | Answer status decoded text reason \<Rightarrow>
         (case reply_error (Answer status decoded text reason) of
            Some e \<Rightarrow> seqE (failed_call x endpoint (backend_label backend_name backend) e) (raise (backend_failure e))
          | None \<Rightarrow>
              seqE (on_breaker (modifyE record_success))
                (seqE (emit (Count ''REQUEST_COUNTER'' [endpoint, ''success'']))
                  (bindE (liftE (json_body (xc_created x) endpoint payload include_reasoning backend
                                   prompt_template decoded)) (\<lambda>content.
                   ret (forwarded (JsonBody status content) backend_name)))))))"

section \<open>Streams\<close>

text \<open>
  Setting a stream up. The detail of a 4xx is read from the response, and reading the body of a
  response that is still a stream raises (\<open>ResponseNotRead\<close>, a \<open>RuntimeError\<close>).
\<close>

definition streaming_forward ::
  "settings \<Rightarrow> 'r exchange \<Rightarrow> string \<Rightarrow> dict \<Rightarrow> bool \<Rightarrow> string \<Rightarrow> string \<Rightarrow> string \<Rightarrow> string option \<Rightarrow>
   ('r, forward_result) act" where
  "streaming_forward cfg x endpoint payload include_reasoning backend backend_url backend_name prompt_template =
     bindE (liftE (client_for_backend backend)) (\<lambda>_.
     bindE (liftE (prepared_request cfg endpoint payload include_reasoning backend prompt_template True))
       (\<lambda>(target_endpoint, request_payload).
     case xc_stream x backend_url target_endpoint request_payload of
       NotOpened \<Rightarrow> seqE (failed_call x endpoint (backend_label backend_name backend) TransportError)
         (raise (backend_failure TransportError))
     | Opened status body lines broken \<Rightarrow>
         if 200 \<le> status \<and> status < 300 then
           seqE (on_breaker (modifyE record_success))
             (ret (forwarded (StreamBody lines broken endpoint backend (text_of payload ''model'' [])
                     include_reasoning prompt_template) backend_name))
         else
           (let e = (case body of Some (v, text, reason) \<Rightarrow> status_error status v text reason
                     | None \<Rightarrow> HTTPStatusError status JNull) in
            seqE (failed_call x endpoint (backend_label backend_name backend) e)
              (raise (if body = None \<and> status < 500 then RuntimeError ''ResponseNotRead'' else backend_failure e)))))"

text \<open>\<open>parsed.get("choices", [{}])[0]\<close>, then the text of the delta or of the choice.\<close>

definition first_item :: "json \<Rightarrow> exc + json" where
  "first_item v = (case v of
       JArr [] \<Rightarrow> Inl (IndexError ''list index out of range'')
     | JArr (y # _) \<Rightarrow> Inr y
     | JStr [] \<Rightarrow> Inl (IndexError ''string index out of range'')
     | JStr (c # _) \<Rightarrow> Inr (JStr [c])
     | JObj _ \<Rightarrow> Inl (KeyError ''0'')
     | _ \<Rightarrow> Inl (TypeError ''not subscriptable''))"

definition stream_delta :: "json \<Rightarrow> exc + string" where
  "stream_delta parsed =
     bindS (as_dict parsed) (\<lambda>p.
     bindS (bindS (first_item (get_default p ''choices'' (JArr [JObj []]))) as_dict) (\<lambda>choice.
     bindS (as_dict (get_default choice ''delta'' (JObj []))) (\<lambda>delta.
     let content = get_default delta ''content'' (JStr []) in
     case (if truthy content then content else get_default choice ''text'' (JStr [])) of
       JStr text \<Rightarrow> Inr text
     | _ \<Rightarrow> Inl (TypeError ''sequence item''))))"

definition truncation_chunk :: dict where
  "truncation_chunk = [(''choices'', JArr [JObj [(''index'', JInt 0),
     (''delta'', JObj [(''content'', JStr truncation_mark)]), (''finish_reason'', JStr ''length'')]])]"

record relay_options =
  ro_decode :: "string \<Rightarrow> json option"
  ro_created :: int
  ro_endpoint :: string
  ro_backend :: string
  ro_model :: string
  ro_include_reasoning :: bool
  ro_template :: "string option"

text \<open>The line as it is relayed (an empty one is not, nor is one that Ollama sent and that does not decode).\<close>

definition line_in :: "relay_options \<Rightarrow> string \<Rightarrow> exc + stream_line option" where
  "line_in ro line =
     (if line = [] then Inr None
      else if ro_backend ro = ''ollama''
      then translate_ollama_stream_line (ro_decode ro) (ro_created ro) line (ro_endpoint ro) (ro_model ro)
      else Inr (Some (Raw line)))"

definition line_delta :: "relay_options \<Rightarrow> stream_line \<Rightarrow> exc + string option" where
  "line_delta ro sl =
     (if is_payload_line sl then
        (case stream_payload (ro_decode ro) sl of
           None \<Rightarrow> Inr None
         | Some parsed \<Rightarrow> bindS (stream_delta parsed) (\<lambda>delta. Inr (Some delta)))
      else Inr None)"

definition line_out :: "relay_options \<Rightarrow> stream_line \<Rightarrow> exc + stream_line list" where
  "line_out ro sl =
     (if ro_endpoint ro = ''/v1/chat/completions'' then
        bindS (normalize_chat_stream_line (ro_decode ro) sl (ro_include_reasoning ro) (ro_template ro)) (\<lambda>n.
        Inr (case n of None \<Rightarrow> [] | Some out \<Rightarrow> [out]))
      else Inr [sl])"

text \<open>The text is looked at after every fifth fragment.\<close>

definition loops_now :: "relay_options \<Rightarrow> string list \<Rightarrow> bool" where
  "loops_now ro fragments = (length fragments mod 5 = 0 \<and> detect_repetition (concat fragments) 2 (ro_template ro))"

text \<open>
  One line of the stream, with the fragments so far: what goes out, the fragments after it, and
  whether the relay stops because the text loops.
\<close>

definition relay_line ::
  "relay_options \<Rightarrow> string \<Rightarrow> string list \<Rightarrow> exc + stream_line list \<times> string list \<times> bool" where
  "relay_line ro line fragments =
     bindS (line_in ro line) (\<lambda>translated.
     case translated of
       None \<Rightarrow> Inr ([], fragments, False)
     | Some sl \<Rightarrow>
         bindS (line_delta ro sl) (\<lambda>delta.
         let after = (case delta of None \<Rightarrow> fragments | Some d \<Rightarrow> fragments @ [d]) in
         if delta \<noteq> None \<and> loops_now ro after
         then Inr ([Data truncation_chunk, Raw ''data: [DONE]''], after, True)
         else bindS (line_out ro sl) (\<lambda>out. Inr (out, after, False))))"

text \<open>The lines relayed, and how the relay ended: with an exception, or stopped early, or not.\<close>

fun relay :: "relay_options \<Rightarrow> string list \<Rightarrow> string list \<Rightarrow> stream_line list \<times> (exc + bool)" where
  "relay ro [] fragments = ([], Inr False)"
| "relay ro (line # lines) fragments =
     (case relay_line ro line fragments of
        Inl e \<Rightarrow> ([], Inl e)
      | Inr (out, fragments', stop) \<Rightarrow>
          if stop then (out, Inr True)
          else (case relay ro lines fragments' of (rest, r) \<Rightarrow> (out @ rest, r)))"

definition interrupted_chunk :: "string \<Rightarrow> dict" where
  "interrupted_chunk name = [(''error'', JObj [(''message'', JStr ''stream interrupted''), (''type'', JStr name)])]"

text \<open>
  The generator behind a stream body: the chunks it yields, with the exception it may end in. A
  transport error that breaks the lines off is reported as a chunk and counted by the breaker.
\<close>

definition event_stream ::
  "relay_options \<Rightarrow> rat \<Rightarrow> string list \<Rightarrow> string option \<Rightarrow> ('r, stream_line list \<times> exc option) act" where
  "event_stream ro clock lines broken =
     (case relay ro lines [] of
        (out, Inl e) \<Rightarrow> seqE (emit (Count ''REQUEST_COUNTER'' [ro_endpoint ro, ''success''])) (ret (out, Some e))
      | (out, Inr stopped) \<Rightarrow>
          (case (if stopped then None else broken) of
             None \<Rightarrow> seqE (emit (Count ''REQUEST_COUNTER'' [ro_endpoint ro, ''success''])) (ret (out, None))
           | Some name \<Rightarrow> seqE (on_breaker (modifyE (record_failure clock)))
               (seqE (emit (Count ''REQUEST_COUNTER'' [ro_endpoint ro, ''success'']))
                 (ret (out @ [Data (interrupted_chunk name)], None)))))"

section \<open>The guards\<close>

definition forward_body ::
  "settings \<Rightarrow> 'r exchange \<Rightarrow> string \<Rightarrow> dict \<Rightarrow> bool \<Rightarrow> bool \<Rightarrow> string \<Rightarrow> string \<Rightarrow> string \<Rightarrow> string option \<Rightarrow>
   ('r, forward_result) act" where
  "forward_body cfg x endpoint payload stream include_reasoning backend backend_url backend_name prompt_template =
     (let url = (if backend_url = [] then data_plane_base_url cfg else backend_url) in
      if stream then streaming_forward cfg x endpoint payload include_reasoning backend url backend_name prompt_template
      else json_forward cfg x endpoint payload include_reasoning backend url backend_name prompt_template)"

fun guard_failure :: "exc \<Rightarrow> exc" where
  "guard_failure (CircuitBreakerOpen m) = http_error 503 m"
| "guard_failure (QueueOverloaded m) = http_error 429 m"
| "guard_failure (QueueTimeout m) = http_error 504 m"
| "guard_failure e = e"

definition forward ::
  "settings \<Rightarrow> 'r exchange \<Rightarrow> timestamp \<Rightarrow> string \<Rightarrow> dict \<Rightarrow> bool \<Rightarrow> bool \<Rightarrow> string \<Rightarrow> string \<Rightarrow> string \<Rightarrow>
   uuid option \<Rightarrow> string option \<Rightarrow> bool \<Rightarrow> ('r, forward_result) act" where
  "forward cfg x now endpoint payload stream include_reasoning backend backend_url backend_name
     backend_id prompt_template manage_slot =
     (let body = forward_body cfg x endpoint payload stream include_reasoning backend backend_url
                   backend_name prompt_template in
      catchE
        (seqE (on_breaker (before_call (xc_before x)))
           (if manage_slot then slot cfg now backend_id (xc_waits x) body else body))
        (\<lambda>e. raise (guard_failure e)))"

definition chat ::
  "settings \<Rightarrow> 'r exchange \<Rightarrow> timestamp \<Rightarrow> dict \<Rightarrow> bool \<Rightarrow> bool \<Rightarrow> backend \<Rightarrow> string option \<Rightarrow> bool \<Rightarrow>
   ('r, forward_result) act" where
  "chat cfg x now payload stream include_reasoning b prompt_template manage_slot =
     forward cfg x now ''/v1/chat/completions'' payload stream include_reasoning (b_provider b)
       (b_backend_url b) (b_name b) (Some (b_id b)) prompt_template manage_slot"

definition complete ::
  "settings \<Rightarrow> 'r exchange \<Rightarrow> timestamp \<Rightarrow> dict \<Rightarrow> bool \<Rightarrow> backend \<Rightarrow> ('r, forward_result) act" where
  "complete cfg x now payload stream b =
     forward cfg x now ''/v1/completions'' payload stream False (b_provider b)
       (b_backend_url b) (b_name b) (Some (b_id b)) None True"

section \<open>Health and models of a backend\<close>

text \<open>A \<open>GET\<close> of a path under a base URL is answered by \<open>get\<close>.\<close>

fun health_reply :: "reply \<Rightarrow> bool" where
  "health_reply (Answer status _ _ _) = (status = 200)"
| "health_reply NoAnswer = False"

definition health_url :: "(string \<Rightarrow> string \<Rightarrow> reply) \<Rightarrow> string \<Rightarrow> string \<Rightarrow> bool" where
  "health_url get base_url healthcheck_path = health_reply (get base_url healthcheck_path)"

definition health :: "settings \<Rightarrow> (string \<Rightarrow> string \<Rightarrow> reply) \<Rightarrow> bool" where
  "health cfg get = health_url get (data_plane_base_url cfg) ''/health''"

definition health_backend :: "(string \<Rightarrow> string \<Rightarrow> reply) \<Rightarrow> rat \<Rightarrow> backend \<Rightarrow> json" where
  "health_backend get latency_ms b = JObj [
     (''backend_id'', JStr (uuid_str (b_id b))), (''name'', JStr (b_name b)), (''provider'', JStr (b_provider b)),
     (''backend_url'', JStr (b_backend_url b)), (''max_parallel_requests'', JInt (b_max_parallel_requests b)),
     (''current_running'', JInt (b_current_running b)),
     (''ok'', JBool (health_url get (b_backend_url b) (b_healthcheck_path b))), (''latency_ms'', JFloat latency_ms)]"

definition list_models ::
  "settings \<Rightarrow> (string \<Rightarrow> string \<Rightarrow> reply) \<Rightarrow> rat \<Rightarrow> rat \<Rightarrow> string option \<Rightarrow> ('r, json) act" where
  "list_models cfg get before after base_url =
     (let url = (case base_url of None \<Rightarrow> data_plane_base_url cfg | Some [] \<Rightarrow> data_plane_base_url cfg | Some u \<Rightarrow> u) in
      catchE
        (seqE (on_breaker (before_call before))
          (case get url ''/v1/models'' of
             NoAnswer \<Rightarrow> raise TransportError
           | Answer status decoded text reason \<Rightarrow>
               (case reply_error (Answer status decoded text reason) of
                  Some e \<Rightarrow> raise e
                | None \<Rightarrow> seqE (on_breaker (modifyE record_success))
                    (case decoded of None \<Rightarrow> raise JSONDecodeError | Some v \<Rightarrow> ret v))))
        (\<lambda>e. case e of
            CircuitBreakerOpen _ \<Rightarrow> raise (http_error 503 ''data plane unavailable'')
          | TransportError \<Rightarrow> seqE (on_breaker (modifyE (record_failure after))) (raise (backend_failure e))
          | HTTPStatusError status _ \<Rightarrow>
              seqE (if should_trip_circuit_breaker e then on_breaker (modifyE (record_failure after)) else ret ())
                (raise (backend_failure e))
          | _ \<Rightarrow> raise e))"

section \<open>Retries\<close>

lemma tries_shift: "tries post (Suc n) k = tries (\<lambda>i. post (Suc i)) n k"
  by (induction k arbitrary: n) simp_all

text \<open>The attempt that decides is the first that is not retried.\<close>

lemma retries_exact:
  "tries post attempt k = post (attempt + length (takeWhile (\<lambda>i. retriable (post i)) [attempt..<attempt + k]))"
proof (induction k arbitrary: attempt)
  case 0
  show ?case by simp
next
  case (Suc k)
  have "[attempt..<attempt + Suc k] = attempt # [Suc attempt..<Suc attempt + k]"
    by (simp add: upt_rec)
  with Suc.IH [of "Suc attempt"] show ?case by simp
qed

lemma retriable_trips: "reply_error r = Some e \<Longrightarrow> should_trip_circuit_breaker e = retriable r"
  by (cases r) (auto simp: status_error_def split: if_splits)

section \<open>What forwarding touches\<close>

definition only_breaker :: "('r, 'a) act \<Rightarrow> bool" where
  "only_breaker m \<longleftrightarrow> (\<forall>w. let t = snd (m w) in t = w\<lparr>w_breaker := w_breaker t, w_metrics := w_metrics t\<rparr>)"

lemma only_breakerD:
  "only_breaker m \<Longrightarrow> m w = (r, t) \<Longrightarrow> t = w\<lparr>w_breaker := w_breaker t, w_metrics := w_metrics t\<rparr>"
  unfolding only_breaker_def Let_def by (metis snd_conv)

lemma only_breaker_pure [keeps_intros]:
  "only_breaker (ret x)" "only_breaker (raise e)" "only_breaker (liftE r)" "only_breaker (emit m)"
  by (simp_all add: only_breaker_def)

lemma only_breaker_on_breaker [keeps_intros]: "only_breaker (on_breaker m)"
  by (simp add: only_breaker_def on_breaker_def split: prod.splits)

lemma only_breaker_bind [keeps_intros]:
  assumes m: "only_breaker m" and f: "\<And>x. only_breaker (f x)"
  shows "only_breaker (bindE m f)"
  unfolding only_breaker_def Let_def
proof
  fix w
  obtain r t where first: "m w = (r, t)" by (cases "m w")
  note frame = only_breakerD [OF m first]
  show "snd (bindE m f w) = w\<lparr>w_breaker := w_breaker (snd (bindE m f w)), w_metrics := w_metrics (snd (bindE m f w))\<rparr>"
  proof (cases r)
    case (Inl e)
    with first frame show ?thesis by (simp add: bindE_Inl [of m w e t])
  next
    case (Inr y)
    obtain r' u where second: "f y t = (r', u)" by (cases "f y t")
    have "u = t\<lparr>w_breaker := w_breaker u, w_metrics := w_metrics u\<rparr>" by (rule only_breakerD [OF f second])
    also have "\<dots> = w\<lparr>w_breaker := w_breaker u, w_metrics := w_metrics u\<rparr>" by (subst frame) simp
    finally show ?thesis using first Inr second by (simp add: bindE_Inr [of m w y t])
  qed
qed

lemma only_breaker_seq [keeps_intros]: "only_breaker m \<Longrightarrow> only_breaker k \<Longrightarrow> only_breaker (seqE m k)"
  by (simp add: seqE_def only_breaker_bind)

lemma only_breaker_failed_call [keeps_intros]: "only_breaker (failed_call x endpoint label e)"
  by (simp add: failed_call_def keeps_intros)

lemma only_breaker_json_forward: "only_breaker (json_forward cfg x ep p ir be url bn tpl)"
  unfolding json_forward_def
  by (auto intro!: keeps_intros split: reply.split option.split)

lemma only_breaker_streaming_forward: "only_breaker (streaming_forward cfg x ep p ir be url bn tpl)"
  unfolding streaming_forward_def
  by (auto intro!: keeps_intros simp: Let_def split: stream_reply.split)

lemma only_breaker_forward_body: "only_breaker (forward_body cfg x ep p st ir be url bn tpl)"
  by (simp add: forward_body_def Let_def only_breaker_json_forward only_breaker_streaming_forward)


section \<open>The slot is given back\<close>

definition load :: "db \<Rightarrow> uuid \<Rightarrow> int option" where
  "load d bid = map_option b_current_running (backend_of d bid)"

text \<open>The queue counter and the committed slot counters are the same before and after.\<close>

definition same_load :: "'r world \<Rightarrow> 'r world \<Rightarrow> bool" where
  "same_load w t \<longleftrightarrow> w_pending t = w_pending w \<and> load (w_saved t) = load (w_saved w)"

lemma load_set_running:
  "load (set_running now bid f d) u = (if u = bid then map_option f (load d u) else load d u)"
proof -
  have "backend_of (set_running now bid f d) u = map_option (\<lambda>b. if b_id b = bid
      then b\<lparr>b_current_running := f (b_current_running b), b_updated_at := now\<rparr> else b) (backend_of d u)"
    unfolding backend_of_def set_running_def by (simp add: find_upd_map)
  moreover have "backend_of d u = Some b \<Longrightarrow> b_id b = u" for b
    unfolding backend_of_def using find_Some_set by fastforce
  ultimately show ?thesis by (cases "backend_of d u") (auto simp: load_def)
qed

lemma load_release: "load (release_db now bid d) u = (if u = bid then map_option (\<lambda>n. max (n - 1) 0) (load d u) else load d u)"
  by (auto simp: release_db_def load_set_running split: option.splits) (simp add: load_def)

lemma load_try_acquire:
  assumes "try_acquire_db now bid d = (ok, d')"
  shows "load d' u = (if ok \<and> u = bid then map_option (\<lambda>n. n + 1) (load d u) else load d u)"
  using assms by (auto simp: try_acquire_db_def load_set_running split: option.splits if_splits)

lemma acquire_load:
  assumes "acquire now bid waits w = (r, t)" and "\<forall>g\<in>set waits. \<forall>v. same_load v (g v)"
  shows "w_pending t = w_pending w \<and>
     load (w_saved t) u = (if r = Inr () \<and> u = bid then map_option (\<lambda>n. n + 1) (load (w_saved w) u) else load (w_saved w) u)"
  using assms
proof (induction waits arbitrary: w)
  case Nil
  obtain ok d where "try_acquire_db now bid (w_saved w) = (ok, d)" by (cases "try_acquire_db now bid (w_saved w)")
  with Nil show ?case using load_try_acquire [of now bid "w_saved w" ok d u]
    by (auto simp: try_acquire_def own_session_apply bindE_apply split: if_splits)
next
  case (Cons g gs)
  obtain ok d where acq: "try_acquire_db now bid (w_saved w) = (ok, d)" by (cases "try_acquire_db now bid (w_saved w)")
  show ?case
  proof (cases ok)
    case True
    with Cons acq show ?thesis using load_try_acquire [of now bid "w_saved w" ok d u]
      by (auto simp: try_acquire_def own_session_apply bindE_apply)
  next
    case False
    with acq have d: "d = w_saved w" by (simp add: try_acquire_db_False)
    let ?v = "w\<lparr>w_saved := d, w_db := snd (try_acquire_db now bid (w_db w))\<rparr>"
    have rest: "acquire now bid gs (g ?v) = (r, t)"
      using Cons.prems(1) False acq by (simp add: try_acquire_def own_session_apply bindE_apply)
    have same: "same_load ?v (g ?v)" using Cons.prems(2) by simp
    have "\<forall>g\<in>set gs. \<forall>v. same_load v (g v)" using Cons.prems(2) by simp
    from Cons.IH [OF rest this] same d show ?thesis by (simp add: same_load_def)
  qed
qed

lemma slot_same_load:
  assumes nonneg: "0 \<le> w_pending w" "\<And>u n. load (w_saved w) u = Some n \<Longrightarrow> 0 \<le> n"
    and waits: "\<forall>g\<in>set waits. \<forall>v. same_load v (g v)"
    and body: "\<And>v. same_load v (snd (body v))"
  shows "same_load w (snd (slot cfg now bid waits body w))"
proof (cases "w_pending w \<ge> max_queue_size cfg")
  case True
  then show ?thesis by (simp add: slot_def enter_queue_def seqE_def bindE_def same_load_def)
next
  case False
  let ?n = "w_pending w + 1"
  let ?w = "w\<lparr>w_pending := ?n, w_metrics := w_metrics w @ [Gauge ''QUEUE_DEPTH'' [] ?n]\<rparr>"
  have entered: "enter_queue cfg w = (Inr (), ?w)" using False by (simp add: enter_queue_def Let_def)
  define inner where "inner = seqE (case bid of None \<Rightarrow> ret () | Some b \<Rightarrow> acquire now b waits)
     (seqE (emit (Gauge ''ACTIVE_GENERATIONS'' [''inc''] 1))
        (finallyE body (seqE (emit (Gauge ''ACTIVE_GENERATIONS'' [''dec''] (-1)))
           (case bid of None \<Rightarrow> ret () | Some b \<Rightarrow> release now b))))"
  have "w_pending (snd (inner ?w)) = ?n \<and> load (w_saved (snd (inner ?w))) u = load (w_saved w) u" for u
  proof (cases bid)
    case None
    obtain r t where b: "body (?w\<lparr>w_metrics := w_metrics ?w @ [Gauge ''ACTIVE_GENERATIONS'' [''inc''] 1]\<rparr>) = (r, t)"
      by (cases "body (?w\<lparr>w_metrics := w_metrics ?w @ [Gauge ''ACTIVE_GENERATIONS'' [''inc''] 1]\<rparr>)")
    with None body [of "?w\<lparr>w_metrics := w_metrics ?w @ [Gauge ''ACTIVE_GENERATIONS'' [''inc''] 1]\<rparr>"]
    show ?thesis by (simp add: inner_def finallyE_def same_load_def seqE_def bindE_def)
  next
    case (Some b)
    obtain r v where acq: "acquire now b waits ?w = (r, v)" by (cases "acquire now b waits ?w")
    note loads = acquire_load [OF acq waits]
    show ?thesis
    proof (cases r)
      case (Inl e)
      with acq loads Some show ?thesis by (simp add: inner_def seqE_def bindE_def)
    next
      case (Inr y)
      let ?v = "v\<lparr>w_metrics := w_metrics v @ [Gauge ''ACTIVE_GENERATIONS'' [''inc''] 1]\<rparr>"
      obtain s t where b: "body ?v = (s, t)" by (cases "body ?v")
      have same: "same_load ?v t" using body [of ?v] b by simp
      have "inner ?w = (s, t\<lparr>w_metrics := w_metrics t @ [Gauge ''ACTIVE_GENERATIONS'' [''dec''] (-1)],
          w_saved := release_db now b (w_saved t), w_db := release_db now b (w_db t)\<rparr>)"
        using acq Inr Some b by (simp add: inner_def seqE_def bindE_def finallyE_def release_def own_session_def)
      with same loads [of u] Inr nonneg(2) [of u] show ?thesis
        by (cases "load (w_saved w) u") (auto simp: same_load_def load_release)
    qed
  qed
  moreover have "slot cfg now bid waits body w = finallyE inner leave_queue ?w"
    using entered by (simp add: slot_def inner_def seqE_def [of "enter_queue cfg"] bindE_def)
  ultimately show ?thesis using nonneg(1)
    by (auto simp: finallyE_def leave_queue_def Let_def same_load_def split: prod.splits)
qed

lemma only_breaker_same_load: "only_breaker m \<Longrightarrow> same_load v (snd (m v))"
  unfolding only_breaker_def Let_def same_load_def
  by (metis (no_types, lifting) world.ext_inject world.surjective world.update_convs(4) world.update_convs(5))


section \<open>Properties\<close>

lemma seq_ret [simp]: "seqE (ret y) k = k"
  by (simp add: seqE_def)

lemma bind_liftE [simp]: "bindE (liftE (Inr y)) f = f y" "bindE (liftE (Inl e)) f' = raise e"
  by (simp_all add: bindE_def liftE_def raise_def)

lemma on_breaker_seq: "seqE (on_breaker (modifyE f)) k w = k (w\<lparr>w_breaker := f (w_breaker w)\<rparr>)"
  by (simp add: seqE_def bindE_def on_breaker_def)

lemma failed_call_apply:
  "failed_call x ep label e w = (Inr (), w\<lparr>
     w_breaker := (if should_trip_circuit_breaker e then record_failure (xc_after x) (w_breaker w) else w_breaker w),
     w_metrics := w_metrics w @ [Count ''REQUEST_COUNTER'' [ep, ''error''],
        Count ''BACKEND_ERROR_COUNTER'' [label, ep, str_int (error_status e)]]\<rparr>)"
  by (simp add: failed_call_def on_breaker_seq)

lemma seq_failed_call:
  "seqE (failed_call x ep label e) (raise e') w = (Inl e', snd (failed_call x ep label e w))"
  by (simp add: seqE_def bindE_def failed_call_apply)

lemma bind_liftE_ret [simp]: "snd (bindE (liftE r) (\<lambda>c. ret (f c)) w) = w"
  by (cases r) simp_all

text \<open>
  C17. A JSON call is decided by the first attempt that either succeeds or fails for good, or by
  the last of the \<open>retry_attempts + 1\<close> attempts: a success closes the breaker and is answered with the
  status and the cleaned-up body of that attempt; a failure is raised as the error of that one answer, and
  counts once for the breaker however often it was retried, and not at all when the backend refused
  the request (below 500).
\<close>

theorem json_call_outcome:
  assumes "client_for_backend backend = Inr ()"
    and "prepared_request cfg endpoint payload include_reasoning backend template False = Inr (target, request)"
  shows "let post = (\<lambda>n. xc_post x n url target request);
             final = post (1 + length (takeWhile (\<lambda>i. retriable (post i)) [1..<1 + retry_attempts cfg]));
             (result, t) = json_forward cfg x endpoint payload include_reasoning backend url name template w
         in case reply_error final of
              None \<Rightarrow> w_breaker t = record_success (w_breaker w) \<and>
                (\<exists>status decoded text reason. final = Answer status decoded text reason \<and>
                   result = bindS (json_body (xc_created x) endpoint payload include_reasoning backend template decoded)
                     (\<lambda>content. Inr (forwarded (JsonBody status content) name)))
            | Some e \<Rightarrow> result = Inl (backend_failure e) \<and>
                w_breaker t = (if retriable final then record_failure (xc_after x) (w_breaker w) else w_breaker w)"
proof -
  let ?post = "\<lambda>n. xc_post x n url target request"
  let ?final = "?post (1 + length (takeWhile (\<lambda>i. retriable (?post i)) [1..<1 + retry_attempts cfg]))"
  have final: "tries ?post 1 (retry_attempts cfg) = ?final" by (rule retries_exact)
  show ?thesis
  proof (cases "reply_error ?final")
    case None
    then obtain s j u r where ans: "?final = Answer s j u r" by (cases ?final) auto
    let ?body = "json_body (xc_created x) endpoint payload include_reasoning backend template j"
    have "w_breaker (snd (json_forward cfg x endpoint payload include_reasoning backend url name template w)) =
        record_success (w_breaker w)"
      unfolding json_forward_def by (simp add: assms final ans None [unfolded ans] on_breaker_seq del: reply_error.simps One_nat_def)
    moreover have "fst (json_forward cfg x endpoint payload include_reasoning backend url name template w) =
        bindS ?body (\<lambda>content. Inr (forwarded (JsonBody s content) name))"
      unfolding json_forward_def
      by (cases ?body) (simp_all add: assms final ans None [unfolded ans] on_breaker_apply modifyE_apply seqE_apply bindE_apply
          del: reply_error.simps One_nat_def)
    ultimately show ?thesis using None ans by (simp add: Let_def split_beta)
  next
    case (Some e)
    have "json_forward cfg x endpoint payload include_reasoning backend url name template w =
        (Inl (backend_failure e), snd (failed_call x endpoint (backend_label name backend) e w))"
      using Some unfolding json_forward_def
      by (cases ?final) (simp_all add: assms final seq_failed_call del: reply_error.simps(2) One_nat_def)
    with Some retriable_trips [OF Some] show ?thesis by (simp add: Let_def split_beta failed_call_apply)
  qed
qed

text \<open>
  C18. While the breaker is open a call is refused with 503 at once, whatever the backend would
  answer: nothing is sent, no place in the queue and no slot is taken, and only the gauge changes.
\<close>

theorem open_breaker_refuses:
  assumes "failure_threshold (w_breaker w) \<le> failures (w_breaker w)"
    and "xc_before x - opened_at (w_breaker w) < of_int (recovery_seconds (w_breaker w))"
  shows "forward cfg x now endpoint payload stream include_reasoning backend url name bid template manage_slot w =
     (Inl (http_error 503 ''data plane circuit breaker is open''),
      w\<lparr>w_breaker := (w_breaker w)\<lparr>state_gauge := 1\<rparr>\<rparr>)"
  using assms
  by (simp add: forward_def Let_def catchE_def seqE_def bindE_def on_breaker_def before_call_def)

lemma on_breaker_frame: "on_breaker m w = (r, t) \<Longrightarrow> t = w\<lparr>w_breaker := w_breaker t\<rparr>"
  by (auto simp: on_breaker_def split: prod.splits)

text \<open>
  C19. However a forwarded call ends (answer, stream, error of the backend, body that does not
  decode, full queue, timeout), the queue counter and every slot counter are what they were, provided
  the other tasks that run while it waits leave them so. For a stream this is the state in which
  the handler returns, so the slot is free again before the first line has been relayed.
\<close>

theorem slot_given_back:
  assumes "0 \<le> w_pending w" and "\<forall>u n. load (w_saved w) u = Some n \<longrightarrow> 0 \<le> n"
    and "\<forall>g\<in>set (xc_waits x). \<forall>v. same_load v (g v)"
  shows "same_load w (snd (forward cfg x now endpoint payload stream include_reasoning backend url name
     bid template manage_slot w))"
proof -
  let ?body = "forward_body cfg x endpoint payload stream include_reasoning backend url name template"
  let ?m = "if manage_slot then slot cfg now bid (xc_waits x) ?body else ?body"
  have body: "same_load v (snd (?body v))" for v
    by (rule only_breaker_same_load [OF only_breaker_forward_body])
  obtain r t where asked: "on_breaker (before_call (xc_before x)) w = (r, t)"
    by (cases "on_breaker (before_call (xc_before x)) w")
  note t = on_breaker_frame [OF asked]
  have "same_load t (snd (?m t))"
  proof (cases manage_slot)
    case True
    have "w_pending t = w_pending w" by (subst t) simp
    moreover have "w_saved t = w_saved w" by (subst t) simp
    ultimately have "0 \<le> w_pending t" "\<And>u n. load (w_saved t) u = Some n \<Longrightarrow> 0 \<le> n"
      using assms(1,2) by simp_all
    from slot_same_load [OF this assms(3) body] True show ?thesis by simp
  qed (simp add: body)
  then have "same_load w (snd (?m t))" by (subst (asm) t) (simp add: same_load_def)
  moreover have "same_load w t" by (subst t) (simp add: same_load_def)
  ultimately show ?thesis using asked
    by (cases r) (auto simp: forward_def Let_def catchE_def seqE_def bindE_def split: prod.splits sum.splits)
qed

text \<open>The text of a stream: the fragments of its lines, as far as they decode.\<close>

definition fragments_of :: "relay_options \<Rightarrow> string list \<Rightarrow> string list" where
  "fragments_of ro lines = concat (map (\<lambda>line.
     case line_in ro line of
       Inr (Some sl) \<Rightarrow> (case line_delta ro sl of Inr (Some d) \<Rightarrow> [d] | _ \<Rightarrow> [])
     | _ \<Rightarrow> []) lines)"

lemma fragments_of_Nil [simp]: "fragments_of ro [] = []"
  by (simp add: fragments_of_def)

lemma fragments_of_Cons: "fragments_of ro (l # ls) = fragments_of ro [l] @ fragments_of ro ls"
  by (simp add: fragments_of_def)

lemma relay_line_cases:
  assumes "relay_line ro line fragments = Inr (out, after, stop)"
  shows "after = fragments @ fragments_of ro [line]"
    and "stop \<longleftrightarrow> fragments_of ro [line] \<noteq> [] \<and> loops_now ro after"
    and "length (fragments_of ro [line]) \<le> 1"
    and "stop \<Longrightarrow> out = [Data truncation_chunk, Raw ''data: [DONE]'']"
proof -
  obtain tr where tr: "line_in ro line = Inr tr" using assms by (auto simp: relay_line_def bindS_eq_Inr)
  have "after = fragments @ fragments_of ro [line] \<and>
      (stop \<longleftrightarrow> fragments_of ro [line] \<noteq> [] \<and> loops_now ro after) \<and> length (fragments_of ro [line]) \<le> 1 \<and>
      (stop \<longrightarrow> out = [Data truncation_chunk, Raw ''data: [DONE]''])"
  proof (cases tr)
    case None
    with tr assms show ?thesis by (simp add: relay_line_def fragments_of_def)
  next
    case (Some sl)
    then obtain delta where delta: "line_delta ro sl = Inr delta"
      using tr assms by (auto simp: relay_line_def bindS_eq_Inr)
    with Some tr assms show ?thesis
      by (cases delta) (auto simp: relay_line_def fragments_of_def bindS_eq_Inr Let_def split: if_splits)
  qed
  then show "after = fragments @ fragments_of ro [line]"
    and "stop \<longleftrightarrow> fragments_of ro [line] \<noteq> [] \<and> loops_now ro after"
    and "length (fragments_of ro [line]) \<le> 1"
    and "stop \<Longrightarrow> out = [Data truncation_chunk, Raw ''data: [DONE]'']" by blast+
qed

definition loops_within :: "relay_options \<Rightarrow> string list \<Rightarrow> nat \<Rightarrow> bool" where
  "loops_within ro fragments from \<longleftrightarrow> (\<exists>n. from < n \<and> n \<le> length fragments \<and> loops_now ro (take n fragments))"

lemma relay_stops_iff:
  "relay ro lines fragments = (out, Inr stopped) \<Longrightarrow>
   (stopped \<longleftrightarrow> loops_within ro (fragments @ fragments_of ro lines) (length fragments)) \<and>
   (stopped \<longrightarrow> (\<exists>before. out = before @ [Data truncation_chunk, Raw ''data: [DONE]'']))"
proof (induction lines arbitrary: fragments out)
  case Nil
  then show ?case by (auto simp: loops_within_def)
next
  case (Cons line lines)
  note run = Cons.prems
  obtain o1 after stop where step: "relay_line ro line fragments = Inr (o1, after, stop)"
    using run by (auto split: sum.splits)
  note facts = relay_line_cases [OF step]
  let ?d = "fragments_of ro [line]" and ?rest = "fragments_of ro lines"
  have all: "fragments @ fragments_of ro (line # lines) = after @ ?rest"
    using facts(1) by (simp add: fragments_of_Cons [of ro line lines])
  show ?case
  proof (cases stop)
    case True
    then have "stopped" "out = o1" using run step by simp_all
    moreover have "loops_within ro (after @ ?rest) (length fragments)"
      unfolding loops_within_def
      by (rule exI [where x = "length after"]) (use True facts(1,2) in auto)
    ultimately show ?thesis using facts(4) True all by auto
  next
    case False
    then obtain o2 where rest: "relay ro lines after = (o2, Inr stopped)" and out: "out = o1 @ o2"
      using run step by (auto split: prod.splits)
    have "loops_within ro (after @ ?rest) (length fragments) = loops_within ro (after @ ?rest) (length after)"
      (is "?l = ?r")
    proof
      assume ?l
      then obtain n where n: "length fragments < n" "n \<le> length (after @ ?rest)" "loops_now ro (take n (after @ ?rest))"
        unfolding loops_within_def by blast
      have "length after < n"
      proof (rule ccontr)
        assume "\<not> length after < n"
        with n(1) facts(1,3) have "n = length after" "?d \<noteq> []" by auto
        with n(3) facts(2) False show False by simp
      qed
      with n show ?r unfolding loops_within_def by blast
    next
      assume ?r
      then obtain n where "length after < n" "n \<le> length (after @ ?rest)" "loops_now ro (take n (after @ ?rest))"
        unfolding loops_within_def by blast
      moreover from this(1) facts(1) have "length fragments < n" by simp
      ultimately show ?l unfolding loops_within_def by blast
    qed
    with Cons.IH [OF rest] out all show ?thesis by auto
  qed
qed

text \<open>
  C20. The relay of a stream stops early exactly when the text has looped at the fifth, tenth, ...
  fragment, and then it ends with the notice and the end marker.
\<close>

theorem relay_cuts_loops:
  assumes "relay ro lines [] = (out, Inr stopped)"
  shows "(stopped \<longleftrightarrow> (\<exists>n. 0 < n \<and> n \<le> length (fragments_of ro lines) \<and> n mod 5 = 0 \<and>
            detect_repetition (concat (take n (fragments_of ro lines))) 2 (ro_template ro))) \<and>
         (stopped \<longrightarrow> (\<exists>before. out = before @ [Data truncation_chunk, Raw ''data: [DONE]'']))"
proof -
  have "loops_within ro ([] @ fragments_of ro lines) (length ([] :: string list)) \<longleftrightarrow>
      (\<exists>n. 0 < n \<and> n \<le> length (fragments_of ro lines) \<and> n mod 5 = 0 \<and>
         detect_repetition (concat (take n (fragments_of ro lines))) 2 (ro_template ro))"
    unfolding loops_within_def loops_now_def by (rule iff_exI) (auto simp: min_def)
  with relay_stops_iff [OF assms] show ?thesis by simp
qed

text \<open>
  A backend that refuses a stream with a 4xx over the network (its body not read yet) makes the
  call end in a \<open>RuntimeError\<close>, not in the \<open>HTTPException\<close> with the status and the backend's answer.
\<close>

theorem refused_stream_loses_status:
  assumes "client_for_backend backend = Inr ()"
    and "prepared_request cfg endpoint payload include_reasoning backend template True = Inr (target, request)"
    and "xc_stream x url target request = Opened status None lines broken" and "400 \<le> status" and "status < 500"
  shows "fst (streaming_forward cfg x endpoint payload include_reasoning backend url name template w) =
     Inl (RuntimeError ''ResponseNotRead'')"
  using assms by (simp add: streaming_forward_def seq_failed_call)


section \<open>Witnesses\<close>

definition scripted :: "(nat \<Rightarrow> reply) \<Rightarrow> stream_reply \<Rightarrow> unit exchange" where
  "scripted post opened = \<lparr>xc_before = 110, xc_after = 111, xc_waits = [], xc_post = (\<lambda>n _ _ _. post n),
     xc_stream = (\<lambda>_ _ _. opened),
     xc_decode = (\<lambda>_. Some (JObj [(''choices'', JArr [JObj [(''text'', JStr ''Goal:'')]])])), xc_created = 0\<rparr>"

definition flaky :: "nat \<Rightarrow> reply" where
  "flaky n = (if n < 3 then NoAnswer else Answer 404 (Some (JStr ''no'')) [] [])"

definition proxy_settings :: settings where
  "proxy_settings = default_settings ''t'' ''u''"

definition proxy_world :: "unit world" where
  "proxy_world = example_world (empty_db\<lparr>backends := [example_backend]\<rparr>)"

lemmas proxy_examples = scripted_def flaky_def proxy_settings_def default_settings_def client_for_backend_def
  prepared_request_def apply_prompt_template_settings_def proxy_world_def example_world_def

theorem json_call_outcome_witness:
  "let (r, t) = json_forward proxy_settings (scripted flaky NotOpened) ''/v1/completions'' [(''model'', JStr ''m'')]
       False ''vllm'' ''u'' ''b'' None proxy_world
   in r = Inl (backend_failure (HTTPStatusError 404 (JStr ''no''))) \<and> w_breaker t = w_breaker proxy_world"
  using json_call_outcome [of "''vllm''" proxy_settings "''/v1/completions''" "[(''model'', JStr ''m'')]" False None
      "''/v1/completions''" "[(''model'', JStr ''m'')]" "scripted flaky NotOpened" "''u''" "''b''" proxy_world]
  by (simp add: proxy_examples status_error_def upt_rec split: prod.splits)

theorem open_breaker_refuses_witness:
  "isl (fst (forward proxy_settings (scripted flaky NotOpened) 0 ''/v1/completions'' [] False False ''vllm'' ''u'' ''b''
     None None True (proxy_world\<lparr>w_breaker := (new_breaker proxy_settings)\<lparr>failures := 3, opened_at := 100\<rparr>\<rparr>)))"
  by (subst open_breaker_refuses) (simp_all add: proxy_examples new_breaker_def)

theorem slot_given_back_witness:
  "same_load proxy_world (snd (forward proxy_settings (scripted flaky NotOpened) 0 ''/v1/completions''
     [(''model'', JStr ''m'')] False False ''vllm'' ''u'' ''b'' (Some 7) None True proxy_world))"
  by (rule slot_given_back) (auto simp: proxy_examples example_backend_def load_def backend_of_def
        empty_db_def split: if_splits)

definition relay_example :: relay_options where
  "relay_example = \<lparr>ro_decode = (\<lambda>_. Some (JObj [(''choices'', JArr [JObj [(''text'', JStr ''Goal:'')]])])),
     ro_created = 0, ro_endpoint = ''/v1/completions'', ro_backend = ''vllm'', ro_model = ''m'',
     ro_include_reasoning = False, ro_template = None\<rparr>"

lemma relay_example_runs:
  "fst (relay relay_example (replicate 6 ''data: x'') []) =
     replicate 4 (Raw ''data: x'') @ [Data truncation_chunk, Raw ''data: [DONE]''] \<and>
   snd (relay relay_example (replicate 6 ''data: x'') []) = Inr True"
  by code_simp

theorem relay_cuts_loops_witness:
  "\<exists>before. fst (relay relay_example (replicate 6 ''data: x'') []) = before @ [Data truncation_chunk, Raw ''data: [DONE]'']"
proof -
  have "relay relay_example (replicate 6 ''data: x'') [] =
      (fst (relay relay_example (replicate 6 ''data: x'') []), Inr True)"
    using relay_example_runs by (metis prod.collapse)
  from relay_cuts_loops [OF this] show ?thesis by blast
qed

theorem refused_stream_loses_status_witness:
  "fst (streaming_forward proxy_settings (scripted flaky (Opened 429 None [] None)) ''/v1/completions''
     [(''model'', JStr ''m'')] False ''vllm'' ''u'' ''b'' None proxy_world) = Inl (RuntimeError ''ResponseNotRead'')"
  by (rule refused_stream_loses_status [where target = "''/v1/completions''" and request = "[(''model'', JStr ''m'')]"
        and status = 429 and lines = "[]" and broken = None])
    (simp_all add: proxy_examples)

end
