(* ===== verification/ClientApi.thy ===== *)
theory ClientApi
  imports InferenceProxy Validation Routing ResponseCache Security Quota
begin

text \<open>
  The inference endpoints of a client (\<open>api/client.py\<close>): preparing a request, admitting it, serving it
  from the cache or from the backends of the model in turn, and accounting for it.
\<close>

section \<open>The surroundings of a request\<close>

text \<open>
  What a handler gets from outside: settings, Redis, the clock, the calendar day, the address the
  middleware found, and the functions of libraries (\<open>repr\<close> of a value, the digest of a canonical
  dump, SHA-256, the dump itself, the text of a response, rounding, \<open>float\<close>, the random draws, how
  the mapped class loads a model's own backend, see \<open>job_plan\<close>), and for each attempt at a backend what
  the network does.
\<close>

record 'r env =
  en_cfg :: settings
  en_ops :: "'r redis_ops"
  en_now :: timestamp
  en_today :: date
  en_source_ip :: string
  en_latency_ms :: int
  en_repr :: "json \<Rightarrow> string"
  en_hash_json :: "json \<Rightarrow> string"
  en_sha256 :: "string \<Rightarrow> string"
  en_dump :: "json \<Rightarrow> string"
  en_render :: "json \<Rightarrow> string"
  en_round4 :: "rat \<Rightarrow> rat"
  en_float :: "rat \<Rightarrow> rat"
  en_pick :: rng
  en_lazy :: "(db \<Rightarrow> model \<Rightarrow> exc option) option"
  en_call :: "nat \<Rightarrow> 'r exchange"

section \<open>Fallback over the routes\<close>

definition is_retryable_backend_error :: "int \<Rightarrow> bool" where
  "is_retryable_backend_error status = (status \<ge> 500 \<or> status \<in> {503, 504})"

definition serialize_backend_error :: "(json \<Rightarrow> string) \<Rightarrow> route \<Rightarrow> backend \<Rightarrow> int \<Rightarrow> json \<Rightarrow> json" where
  "serialize_backend_error rp r b status detail = JObj [
     (''backend_id'', JStr (uuid_str (r_inference_backend_id r))), (''backend_name'', JStr (b_name b)),
     (''provider'', JStr (b_provider b)), (''backend_url'', JStr (b_backend_url b)),
     (''route_priority'', JInt (r_priority r)), (''route_weight'', JInt (r_weight r)),
     (''route_state'', JStr (r_state r)), (''status_code'', JInt status),
     (''error'', JStr (py_str rp detail))]"

definition fallback_failed :: "(json \<Rightarrow> string) \<Rightarrow> json list \<Rightarrow> (int \<times> json) option \<Rightarrow> exc" where
  "fallback_failed rp errors last_exc =
     (case last_exc of
        None \<Rightarrow> http_error 503 ''model backend is not active''
      | Some (status, detail) \<Rightarrow> HTTPException status
          (JObj [(''message'', JStr (py_str rp detail)), (''backend_errors'', JArr errors)]))"

text \<open>
  The loop over the planned routes: \<open>attempt\<close> is the position, \<open>n_routes\<close> the number of routes. A route
  whose backend is gone is passed over; an error that may pass moves on to the next route.
\<close>

fun try_routes ::
  "(json \<Rightarrow> string) \<Rightarrow> (nat \<Rightarrow> backend \<Rightarrow> ('r, forward_result) act) \<Rightarrow> nat \<Rightarrow> nat \<Rightarrow>
   (route \<times> backend option) list \<Rightarrow> json list \<Rightarrow> (int \<times> json) option \<Rightarrow> ('r, forward_result) act" where
  "try_routes rp call n_routes attempt [] errors last_exc = raise (fallback_failed rp errors last_exc)"
| "try_routes rp call n_routes attempt ((r, None) # rs) errors last_exc =
     try_routes rp call n_routes (Suc attempt) rs errors last_exc"
| "try_routes rp call n_routes attempt ((r, Some b) # rs) errors last_exc = (\<lambda>w.
     case call attempt b w of
       (Inr result, t) \<Rightarrow>
         (Inr (result\<lparr>fr_attempts := int attempt, fr_fallback_used := attempt > 1, fr_backend_errors := errors\<rparr>), t)
     | (Inl (HTTPException status detail), t) \<Rightarrow>
         (let errors = errors @ [serialize_backend_error rp r b status detail] in
          if \<not> is_retryable_backend_error status \<or> attempt = n_routes
          then raise (fallback_failed rp errors (Some (status, detail))) t
          else try_routes rp call n_routes (Suc attempt) rs errors (Some (status, detail)) t)
     | (Inl e, t) \<Rightarrow> (Inl e, t))"

definition planned_routes :: "rng \<Rightarrow> db \<Rightarrow> model \<Rightarrow> (route \<times> backend option) list" where
  "planned_routes pick d m = map (\<lambda>r. (r, backend_of d (r_inference_backend_id r))) (plan_routing_order pick d m)"

definition chat_with_fallback ::
  "'r env \<Rightarrow> model \<Rightarrow> dict \<Rightarrow> bool \<Rightarrow> bool \<Rightarrow> ('r, forward_result) act" where
  "chat_with_fallback env m body stream include_reasoning =
     bindE (query (\<lambda>d. planned_routes (en_pick env) d m)) (\<lambda>rs.
     try_routes (en_repr env) (\<lambda>attempt b. chat (en_cfg env) (en_call env attempt) (en_now env) body stream
         include_reasoning b (m_prompt_template m) True)
       (length rs) 1 rs [] None)"

definition completion_with_fallback :: "'r env \<Rightarrow> model \<Rightarrow> dict \<Rightarrow> bool \<Rightarrow> ('r, forward_result) act" where
  "completion_with_fallback env m body stream =
     bindE (query (\<lambda>d. planned_routes (en_pick env) d m)) (\<lambda>rs.
     try_routes (en_repr env) (\<lambda>attempt b. complete (en_cfg env) (en_call env attempt) (en_now env) body stream b)
       (length rs) 1 rs [] None)"

definition error_message_for_log :: "(json \<Rightarrow> string) \<Rightarrow> json \<Rightarrow> string" where
  "error_message_for_log rp detail =
     (case detail of JObj d \<Rightarrow> py_str rp (get_default d ''message'' (JStr ''request failed'')) | _ \<Rightarrow> py_str rp detail)"

definition backend_errors_for_log :: "json \<Rightarrow> json list" where
  "backend_errors_for_log detail =
     (case detail of JObj d \<Rightarrow> (case dict_get d ''backend_errors'' of Some (JArr es) \<Rightarrow> es | _ \<Rightarrow> []) | _ \<Rightarrow> [])"

definition last_backend_name :: "json list \<Rightarrow> string option" where
  "last_backend_name errors =
     (if errors = [] then None
      else case last errors of JObj d \<Rightarrow> (case dict_get d ''backend_name'' of Some (JStr s) \<Rightarrow> Some s | _ \<Rightarrow> None) | _ \<Rightarrow> None)"

section \<open>Models\<close>

definition list_client_models :: "(json \<Rightarrow> string) \<Rightarrow> client \<Rightarrow> ('r, json list) act" where
  "list_client_models rp c =
     bindE (query (\<lambda>d. (get_effective_allowed_models rp d c, list_active_registry_models d))) (\<lambda>(allowed, ms).
     liftE (mapS serialize_model_card (filter (\<lambda>m. allowed = [] \<or> m_model_id m \<in> set allowed \<or>
       (case m_model_alias m of None \<Rightarrow> [] | Some a \<Rightarrow> a) \<in> set allowed) ms)))"

section \<open>Admission\<close>

text \<open>The address limit of the client API is the default of 60 requests per minute.\<close>

definition as_too_many :: "exc \<Rightarrow> exc" where
  "as_too_many e = (case e of RateLimitExceeded m \<Rightarrow> http_error 429 m | QuotaExceeded m \<Rightarrow> http_error 429 m | _ \<Rightarrow> e)"

definition admit :: "'r env \<Rightarrow> client \<Rightarrow> effective_plan \<Rightarrow> int \<Rightarrow> ('r, unit) act" where
  "admit env c plan incoming_tokens =
     catchE
       (seqE (enforce_ip_rate_limit (en_ops env) (en_now env) (en_source_ip env) 60)
         (seqE (enforce_rate_limit (en_ops env) (en_now env) (c_id c) (ep_rate_limit_per_minute plan))
           (ensure_quota (en_now env) (en_today env) (c_id c) (ep_daily_token_quota plan)
              (ep_monthly_token_quota plan) incoming_tokens)))
       (\<lambda>e. raise (as_too_many e))"

text \<open>
  The number of tokens a request may produce. A default in the client's metadata may be any number;
  a fraction, which no integer column of the usage tables takes, is outside the model and refused.
\<close>

definition token_count :: "json \<Rightarrow> exc + int" where
  "token_count v = (case v of JInt n \<Rightarrow> Inr n | JBool b \<Rightarrow> Inr (if b then 1 else 0) | _ \<Rightarrow> Inl (TypeError ''max_tokens''))"

text \<open>The safety profile moves the two sampling parameters of the body.\<close>

definition apply_safety_profile :: "string \<Rightarrow> params \<Rightarrow> dict \<Rightarrow> dict" where
  "apply_safety_profile profile p body =
     (if profile = ''strict'' then
        dict_set ''top_p'' (py_min (pa_top_p p) (8 / 10))
          (dict_set ''temperature'' (py_min (pa_temperature p) (5 / 10)) body)
      else if profile = ''relaxed'' then
        dict_set ''top_p'' (py_max (pa_top_p p) (9 / 10))
          (dict_set ''temperature'' (py_max (pa_temperature p) 1) body)
      else body)"

definition set_params :: "params \<Rightarrow> dict \<Rightarrow> dict" where
  "set_params p body = dict_set ''top_p'' (pa_top_p p) (dict_set ''temperature'' (pa_temperature p)
     (dict_set ''max_tokens'' (pa_max_tokens p) body))"

section \<open>Serving and accounting\<close>

text \<open>What is known of a request once it is admitted.\<close>

record admitted =
  ad_client :: client
  ad_model :: model
  ad_endpoint :: string
  ad_body :: dict
  ad_stream :: bool
  ad_include_reasoning :: bool
  ad_prompt_tokens :: int
  ad_max_tokens :: int
  ad_cost :: rat
  ad_summary :: string
  ad_safety_profile :: string
  ad_cache_key :: string
  ad_cache_fingerprint :: string

definition used_before :: "'r env \<Rightarrow> uuid \<Rightarrow> ('r, int \<times> int) act" where
  "used_before env cid = bindE (get_current_usage_snapshot (en_today env) cid) (\<lambda>(daily, monthly).
     ret (used_tokens_of daily, used_tokens_of monthly))"

definition request_cost :: "'r env \<Rightarrow> effective_plan \<Rightarrow> int \<Rightarrow> int \<Rightarrow> rat" where
  "request_cost env plan monthly_used_before incoming_tokens = en_float env (estimate_request_cost
     monthly_used_before incoming_tokens (ep_monthly_token_quota plan) (ep_overage_price_per_1k_tokens plan))"

definition watch_request ::
  "'r env \<Rightarrow> client \<Rightarrow> effective_plan \<Rightarrow> string \<Rightarrow> string \<Rightarrow> int \<Rightarrow> int \<Rightarrow> int \<times> int \<Rightarrow> ('r, unit) act" where
  "watch_request env c plan endpoint prompt_text prompt_tokens incoming_tokens used =
     seqE (maybe_record_repeated_large_prompt (en_ops env) (en_now env) c prompt_tokens
             (prompt_fingerprint (en_sha256 env) prompt_text) endpoint)
       (maybe_record_plan_usage_anomaly (en_round4 env) (en_now env) c (ep_daily_token_quota plan)
          (ep_monthly_token_quota plan) incoming_tokens (fst used) (snd used))"

definition request_log_entry ::
  "'r env \<Rightarrow> admitted \<Rightarrow> int \<Rightarrow> int \<Rightarrow> bool \<Rightarrow> string option \<Rightarrow> int \<Rightarrow> bool \<Rightarrow> bool \<Rightarrow> json list \<Rightarrow> string option \<Rightarrow> log_entry" where
  "request_log_entry env a completion_tokens status is_stream backend_name attempts fallback_used cache_hit
     backend_errors error_message = \<lparr>lg_client_id = c_id (ad_client a), lg_model = m_model_id (ad_model a),
     lg_endpoint = ad_endpoint a, lg_prompt_tokens = ad_prompt_tokens a, lg_completion_tokens = completion_tokens,
     lg_latency_ms = en_latency_ms env, lg_status_code = status, lg_is_stream = is_stream,
     lg_estimated_cost_usd = ad_cost a, lg_backend_name = backend_name, lg_attempts = attempts,
     lg_fallback_used = fallback_used, lg_cache_hit = cache_hit, lg_backend_errors = Some backend_errors,
     lg_error_message = error_message, lg_request_summary = Some (ad_summary a),
     lg_safety_profile = Some (ad_safety_profile a), lg_correlation_id = None, lg_source_ip = None\<rparr>"

text \<open>Usage, log and commit of a request that was answered.\<close>

definition account :: "'r env \<Rightarrow> admitted \<Rightarrow> int \<Rightarrow> log_entry \<Rightarrow> ('r, unit) act" where
  "account env a completion_tokens entry =
     seqE (record_usage (en_now env) (en_today env) (c_id (ad_client a)) (ad_prompt_tokens a) completion_tokens)
       (seqE (log_request (en_now env) entry) commit)"

definition serve_from_cache :: "'r env \<Rightarrow> admitted \<Rightarrow> cache_result \<Rightarrow> json \<Rightarrow> ('r, response_body) act" where
  "serve_from_cache env a hit payload =
     seqE (account env a (cr_completion_tokens hit)
             (request_log_entry env a (cr_completion_tokens hit) 200 False (Some ''cache:exact'') 0 False True [] None))
       (ret (JsonBody 200 payload))"

definition result_log_entry :: "'r env \<Rightarrow> admitted \<Rightarrow> forward_result \<Rightarrow> int \<Rightarrow> int \<Rightarrow> log_entry" where
  "result_log_entry env a result completion_tokens status =
     request_log_entry env a completion_tokens status (ad_stream a) (Some (fr_backend_name result))
       (fr_attempts result) (fr_fallback_used result) False (fr_backend_errors result) None"

definition account_for_result :: "'r env \<Rightarrow> admitted \<Rightarrow> forward_result \<Rightarrow> ('r, response_body) act" where
  "account_for_result env a result =
     (case fr_response result of
        StreamBody _ _ _ _ _ _ _ \<Rightarrow>
          seqE (account env a (ad_max_tokens a) (result_log_entry env a result (ad_max_tokens a) 200))
            (ret (fr_response result))
      | JsonBody status payload \<Rightarrow>
          (let completion_tokens = estimate_tokens_from_text (en_render env payload) in
           seqE (store_exact_cache (en_cfg env) (en_now env) (ad_endpoint a) (m_model_id (ad_model a))
                   (ad_cache_key a) (ad_cache_fingerprint a) payload (ad_prompt_tokens a) completion_tokens)
             (seqE (account env a completion_tokens (result_log_entry env a result completion_tokens status))
               (ret (fr_response result)))))"

text \<open>A stored payload that is JSON's null counts as no payload.\<close>

definition serve_request :: "'r env \<Rightarrow> admitted \<Rightarrow> ('r, forward_result) act \<Rightarrow> ('r, response_body) act" where
  "serve_request env a forwarded_call =
     bindE (if ad_stream a then ret cache_miss
            else lookup_exact_cache (en_cfg env) (en_now env) (ad_endpoint a) (m_model_id (ad_model a)) (ad_cache_key a))
       (\<lambda>hit. case cr_payload hit of
          Some payload \<Rightarrow>
            if cr_hit hit \<and> payload \<noteq> JNull then serve_from_cache env a hit payload
            else bindE forwarded_call (account_for_result env a)
        | None \<Rightarrow> bindE forwarded_call (account_for_result env a))"

definition log_failure :: "'r env \<Rightarrow> admitted \<Rightarrow> int \<Rightarrow> json \<Rightarrow> ('r, unit) act" where
  "log_failure env a status detail =
     (let errors = backend_errors_for_log detail in
      seqE (log_request (en_now env) (request_log_entry env a 0 status (ad_stream a) (last_backend_name errors)
              (max (int (length errors)) 1) (length errors > 1) False errors
              (Some (error_message_for_log (en_repr env) detail))))
        (seqE (maybe_record_request_error_burst (en_ops env) (en_now env) (c_id (ad_client a)) (ad_endpoint a)
                 status (last_backend_name errors))
          commit))"

definition served_or_logged :: "'r env \<Rightarrow> admitted \<Rightarrow> ('r, forward_result) act \<Rightarrow> ('r, response_body) act" where
  "served_or_logged env a forwarded_call =
     catchE (serve_request env a forwarded_call)
       (\<lambda>e. case e of
          HTTPException status detail \<Rightarrow> seqE (log_failure env a status detail) (raise e)
        | _ \<Rightarrow> raise e)"

section \<open>Chat completions\<close>

definition context_error :: exc where
  "context_error = http_error 413 ''prompt exceeds client context limit''"

text \<open>
  The client's system prompt goes in front of the first system message, or becomes one. The
  content put behind it is text after normalisation, and is formatted with its \<open>str\<close>.
\<close>

fun prepend_to_system :: "(json \<Rightarrow> string) \<Rightarrow> string \<Rightarrow> dict list \<Rightarrow> exc + dict list option" where
  "prepend_to_system rp system_prompt [] = Inr None"
| "prepend_to_system rp system_prompt (m # ms) =
     bindS (dict_item m ''role'') (\<lambda>role.
     if role = JStr ''system'' then
       bindS (dict_item m ''content'') (\<lambda>v.
       Inr (Some (dict_set ''content'' (JStr (system_prompt @ newline @ newline @ py_str rp v)) m # ms)))
     else bindS (prepend_to_system rp system_prompt ms) (\<lambda>r. Inr (map_option (Cons m) r)))"

definition apply_system_prompt :: "(json \<Rightarrow> string) \<Rightarrow> client \<Rightarrow> dict list \<Rightarrow> exc + dict list" where
  "apply_system_prompt rp c messages =
     (case c_system_prompt c of
        Some (x # xs) \<Rightarrow> bindS (prepend_to_system rp (x # xs) messages) (\<lambda>r.
          Inr (case r of Some ms \<Rightarrow> ms
             | None \<Rightarrow> [(''role'', JStr ''system''), (''content'', JStr (x # xs))] # messages))
      | _ \<Rightarrow> Inr messages)"

text \<open>The model, the messages, their tokens and the parameters of a request, or the error it ends in.\<close>

definition prepare_chat ::
  "'r env \<Rightarrow> db \<Rightarrow> client \<Rightarrow> chat_request \<Rightarrow> exc + model \<times> dict list \<times> int \<times> params" where
  "prepare_chat env d c q =
     bindS (resolve_requested_model (en_repr env) d c (cq_model q)) (\<lambda>(m, _).
     bindS (normalize_messages (map dump_message (cq_messages q))) (\<lambda>messages.
     if estimate_prompt_tokens (en_repr env) (Some messages) None > c_max_context_tokens c then Inl context_error
     else
     bindS (validate_params (en_cfg env) d c (cq_sampling q)) (\<lambda>p.
     bindS (apply_system_prompt (en_repr env) c messages) (\<lambda>messages.
     let prompt_tokens = estimate_prompt_tokens (en_repr env) (Some messages) None in
     if prompt_tokens > c_max_context_tokens c then Inl context_error
     else Inr (m, messages, prompt_tokens, p)))))"

definition json_messages :: "dict list \<Rightarrow> json list" where
  "json_messages messages = map JObj messages"

definition chat_body :: "chat_request \<Rightarrow> model \<Rightarrow> dict list \<Rightarrow> params \<Rightarrow> dict" where
  "chat_body q m messages p =
     apply_safety_profile (sm_safety_profile (cq_sampling q)) p
       (set_params p (dict_set ''model'' (JStr (m_model_id m)) (dict_set ''messages'' (JArr (json_messages messages))
          (dict_pop ''include_reasoning'' (dict_pop ''safety_profile'' (dump_chat_request q))))))"

definition chat_admitted ::
  "'r env \<Rightarrow> client \<Rightarrow> chat_request \<Rightarrow> model \<Rightarrow> dict list \<Rightarrow> int \<Rightarrow> params \<Rightarrow> int \<Rightarrow> rat \<Rightarrow> admitted" where
  "chat_admitted env c q m messages prompt_tokens p max_tokens cost =
     (let body = chat_body q m messages p;
          (key, fingerprint) = build_chat_cache_key (en_hash_json env) (m_model_id m) (json_messages messages)
             (dict_get_or_null body ''temperature'') (dict_get_or_null body ''top_p'') (pa_max_tokens p)
             (cq_include_reasoning q) in
      \<lparr>ad_client = c, ad_model = m, ad_endpoint = ''/v1/chat/completions'', ad_body = body,
       ad_stream = sm_stream (cq_sampling q), ad_include_reasoning = cq_include_reasoning q,
       ad_prompt_tokens = prompt_tokens, ad_max_tokens = max_tokens, ad_cost = cost,
       ad_summary = summarize_chat_request (en_sha256 env) messages (cq_include_reasoning q),
       ad_safety_profile = sm_safety_profile (cq_sampling q), ad_cache_key = key, ad_cache_fingerprint = fingerprint\<rparr>)"

definition chat_completions :: "'r env \<Rightarrow> client \<Rightarrow> chat_request \<Rightarrow> ('r, response_body) act" where
  "chat_completions env c q =
     bindE (query (\<lambda>d. prepare_chat env d c q)) (\<lambda>prepared.
     bindE (liftE prepared) (\<lambda>(m, messages, prompt_tokens, p).
     bindE (liftE (token_count (pa_max_tokens p))) (\<lambda>max_tokens.
     let plan = pa_plan p; incoming_tokens = prompt_tokens + max_tokens in
     seqE (admit env c plan incoming_tokens)
     (bindE (used_before env (c_id c)) (\<lambda>used.
      let a = chat_admitted env c q m messages prompt_tokens p max_tokens
                (request_cost env plan (snd used) incoming_tokens) in
      seqE (watch_request env c plan ''/v1/chat/completions'' (en_dump env (JArr (json_messages messages)))
              prompt_tokens incoming_tokens used)
        (served_or_logged env a
           (chat_with_fallback env m (ad_body a) (ad_stream a) (ad_include_reasoning a))))))))"

section \<open>Completions\<close>

text \<open>The prompt with the client's system prompt in front, put into the model's template.\<close>

definition with_system_prompt :: "client \<Rightarrow> string \<Rightarrow> string" where
  "with_system_prompt c prompt =
     (case c_system_prompt c of Some (x # xs) \<Rightarrow> (x # xs) @ newline @ newline @ prompt | _ \<Rightarrow> prompt)"

definition with_prompt_template :: "model \<Rightarrow> string \<Rightarrow> string" where
  "with_prompt_template m prompt =
     (case m_prompt_template m of
        Some (x # xs) \<Rightarrow>
          if contains ''{{prompt}}'' (x # xs) then replace ''{{prompt}}'' prompt (x # xs)
          else (x # xs) @ newline @ prompt
      | _ \<Rightarrow> prompt)"

definition completion_body :: "completion_request \<Rightarrow> model \<Rightarrow> string \<Rightarrow> params \<Rightarrow> dict" where
  "completion_body q m prompt p =
     apply_safety_profile (sm_safety_profile (nq_sampling q)) p
       (set_params p (dict_set ''model'' (JStr (m_model_id m)) (dict_set ''prompt'' (JStr prompt)
          (dict_pop ''safety_profile'' (dump_completion_request q)))))"

definition completion_admitted ::
  "'r env \<Rightarrow> client \<Rightarrow> completion_request \<Rightarrow> model \<Rightarrow> string \<Rightarrow> int \<Rightarrow> params \<Rightarrow> int \<Rightarrow> rat \<Rightarrow> admitted" where
  "completion_admitted env c q m prompt prompt_tokens p max_tokens cost =
     (let body = completion_body q m prompt p;
          (key, fingerprint) = build_completion_cache_key (en_hash_json env) (m_model_id m) prompt
             (dict_get_or_null body ''temperature'') (dict_get_or_null body ''top_p'') (pa_max_tokens p) in
      \<lparr>ad_client = c, ad_model = m, ad_endpoint = ''/v1/completions'', ad_body = body,
       ad_stream = sm_stream (nq_sampling q), ad_include_reasoning = False,
       ad_prompt_tokens = prompt_tokens, ad_max_tokens = max_tokens, ad_cost = cost,
       ad_summary = summarize_completion_request (en_sha256 env) (nq_prompt q),
       ad_safety_profile = sm_safety_profile (nq_sampling q), ad_cache_key = key, ad_cache_fingerprint = fingerprint\<rparr>)"

text \<open>The call itself, from the cache lookup to the error branches: the same code as for chat requests.\<close>

definition serve_completion :: "'r env \<Rightarrow> model \<Rightarrow> admitted \<Rightarrow> ('r, response_body) act" where
  "serve_completion env m a = served_or_logged env a (completion_with_fallback env m (ad_body a) (ad_stream a))"

text \<open>
  The handler calls \<open>_validated_params\<close>, a name that Python looks up in the module when the call is
  reached. The body is modelled with the function found as an argument.
\<close>

definition completions_with ::
  "(settings \<Rightarrow> db \<Rightarrow> client \<Rightarrow> sampling \<Rightarrow> exc + params) \<Rightarrow> 'r env \<Rightarrow> client \<Rightarrow> completion_request \<Rightarrow>
   ('r, response_body) act" where
  "completions_with validated_params env c q =
     bindE (query (\<lambda>d. resolve_requested_model (en_repr env) d c (nq_model q))) (\<lambda>resolved.
     bindE (liftE resolved) (\<lambda>(m, _).
     if estimate_prompt_tokens (en_repr env) None (Some (nq_prompt q)) > c_max_context_tokens c then raise context_error
     else
     bindE (query (\<lambda>d. validated_params (en_cfg env) d c (nq_sampling q))) (\<lambda>checked.
     bindE (liftE checked) (\<lambda>p.
     let prompt = with_prompt_template m (with_system_prompt c (nq_prompt q));
         prompt_tokens = estimate_prompt_tokens (en_repr env) None (Some prompt); plan = pa_plan p in
     if prompt_tokens > c_max_context_tokens c then raise context_error
     else
     bindE (liftE (token_count (pa_max_tokens p))) (\<lambda>max_tokens.
     let incoming_tokens = prompt_tokens + max_tokens in
     seqE (admit env c plan incoming_tokens)
     (bindE (used_before env (c_id c)) (\<lambda>used.
      let a = completion_admitted env c q m prompt prompt_tokens p max_tokens
                (request_cost env plan (snd used) incoming_tokens) in
      seqE (watch_request env c plan ''/v1/completions'' (nq_prompt q) prompt_tokens incoming_tokens used)
        (serve_completion env m a))))))))"

text \<open>The global names of \<open>api/client.py\<close>: what it imports, assigns and defines, in its order.\<close>

definition client_module_names :: "string list" where
  "client_module_names =
     [''json'', ''logging'', ''perf_counter'', ''uuid'', ''APIRouter'', ''Depends'', ''HTTPException'', ''Request'',
      ''AsyncSession'', ''JSONResponse'', ''get_inference_proxy'', ''get_settings'', ''get_db_session'', ''get_redis'',
      ''Client'', ''ModelBackendRoute'', ''ChatCompletionRequest'', ''ChatCompletionResponse'', ''CompletionRequest'',
      ''GenerationJobResponse'', ''JobAcceptedResponse'', ''ModelList'', ''log_request'', ''require_client'',
      ''estimate_request_cost'', ''get_current_usage_snapshot'', ''resolve_effective_plan'', ''cancel_job'',
      ''create_chat_generation_job'', ''enqueue_generation_job'', ''get_job_for_client'', ''serialize_job'',
      ''InferenceProxy'', ''get_effective_allowed_models'', ''list_active_registry_models'', ''plan_routing_order'',
      ''resolve_requested_model'', ''serialize_model_card'', ''QuotaExceeded'', ''ensure_quota'', ''record_usage'',
      ''RateLimitExceeded'', ''enforce_rate_limit'', ''enforce_ip_rate_limit'', ''build_chat_cache_key'',
      ''build_completion_cache_key'', ''lookup_exact_cache'', ''store_exact_cache'', ''maybe_record_plan_usage_anomaly'',
      ''maybe_record_repeated_large_prompt'', ''maybe_record_request_error_burst'', ''prompt_fingerprint'',
      ''summarize_chat_request'', ''summarize_completion_request'', ''estimate_prompt_tokens'',
      ''estimate_tokens_from_text'', ''normalize_messages'', ''validate_params'', ''logger'', ''router'', ''settings'',
      ''_is_retryable_backend_error'', ''_serialize_backend_error'', ''_chat_with_fallback'',
      ''_completion_with_fallback'', ''_error_message_for_log'', ''_backend_errors_for_log'', ''list_models'',
      ''chat_completions'', ''chat_completions_async'', ''get_job_status'', ''cancel_generation_job'', ''completions'']"

text \<open>A name that is there would be the function \<open>validate_params\<close>; one that is not raises.\<close>

definition called_validation ::
  "string \<Rightarrow> settings \<Rightarrow> db \<Rightarrow> client \<Rightarrow> sampling \<Rightarrow> exc + params" where
  "called_validation name cfg d c s =
     (if name \<in> set client_module_names then validate_params cfg d c s else Inl (NameError name))"

definition completions :: "'r env \<Rightarrow> client \<Rightarrow> completion_request \<Rightarrow> ('r, response_body) act" where
  "completions = completions_with (called_validation ''_validated_params'')"

end
