(* ===== verification/RequestAccounting.thy ===== *)
theory RequestAccounting
  imports ClientApi
begin

text \<open>
  What a client request does to the usage tables and the request log, whichever way it ends: the
  steps before the accounting leave both alone, an answered request is accounted for once, a failed
  one not at all. The fallback loop over the routes is characterised by the runs it admits.
\<close>

section \<open>What is left alone until a request is accounted for\<close>

text \<open>No usage recorded and no request logged: the ledger is \<open>L\<close> and the log is \<open>R\<close>.\<close>

definition unbilled :: "(uuid \<times> date \<times> string \<Rightarrow> int) \<Rightarrow> request_log list \<Rightarrow> db \<Rightarrow> bool" where
  "unbilled L R d \<longleftrightarrow> quota_inv d \<and> ledger d = L \<and> request_logs d = R"

lemma unbilled_cong:
  assumes "unbilled L R d" and "quota_counters d' = quota_counters d" and "usage_records d' = usage_records d"
    and "request_logs d' = request_logs d" and "next_id d \<le> next_id d'"
  shows "unbilled L R d'"
proof -
  have "quota_rows_ok d'" using assms by (auto simp: unbilled_def quota_inv_def quota_rows_ok_def)
  moreover have "ledger d' = L" "accounted d' = L"
    using assms(1) ledger_cong [OF assms(2)] accounted_cong [OF assms(3)] unfolding unbilled_def quota_inv_def by metis+
  ultimately show ?thesis using assms(1,4) by (simp add: unbilled_def quota_inv_def)
qed

lemma unbilled_fresh [keeps_intros]: "keeps (db_inv (unbilled L R)) fresh_id"
  by (rule keeps_fresh) (erule unbilled_cong; simp)

lemma unbilled_cache_update [keeps_intros]: "keeps (db_inv (unbilled L R)) (update (\<lambda>d. d\<lparr>cache_rows := f d\<rparr>))"
  and unbilled_event_update [keeps_intros]: "keeps (db_inv (unbilled L R)) (update (\<lambda>d. d\<lparr>security_events := g d\<rparr>))"
  by (rule keeps_update, erule unbilled_cong; simp)+

lemma unbilled_slots [keeps_intros]:
  "keeps (db_inv (unbilled L R)) (try_acquire now bid)" "keeps (db_inv (unbilled L R)) (release now bid)"
  unfolding try_acquire_def release_def
  by (rule keeps_own_session, erule unbilled_cong,
      auto simp: try_acquire_db_def release_db_def set_running_def split: option.splits)+

text \<open>What other tasks may do meanwhile: anything that leaves the usage tables and the log alone.\<close>

definition leaves_usage :: "db \<Rightarrow> db \<Rightarrow> bool" where
  "leaves_usage d d' \<longleftrightarrow> quota_counters d' = quota_counters d \<and> usage_records d' = usage_records d \<and>
     request_logs d' = request_logs d \<and> next_id d \<le> next_id d'"

definition bystander :: "('r world \<Rightarrow> 'r world) \<Rightarrow> bool" where
  "bystander g \<longleftrightarrow> (\<forall>w. leaves_usage (w_db w) (w_db (g w)) \<and> leaves_usage (w_saved w) (w_saved (g w)))"

lemma unbilled_acquire:
  "list_all bystander gs \<Longrightarrow> keeps (db_inv (unbilled L R)) (acquire now bid gs)"
proof (induction gs)
  case Nil
  show ?case by (auto intro!: keeps_intros)
next
  case (Cons g gs)
  have "keeps (db_inv (unbilled L R)) (\<lambda>w. acquire now bid gs (g w))"
  proof (rule keepsI)
    fix w :: "'a world"
    assume "db_inv (unbilled L R) w"
    then have "db_inv (unbilled L R) (g w)" using Cons.prems
      by (auto simp: db_inv_def bystander_def leaves_usage_def intro: unbilled_cong)
    with Cons show "db_inv (unbilled L R) (snd (acquire now bid gs (g w)))" by (simp add: keepsD)
  qed
  then show ?case by (auto intro!: keeps_intros)
qed

lemma unbilled_enter: "keeps (db_inv J) (enter_queue cfg)" and unbilled_leave: "keeps (db_inv J) leave_queue"
  by (auto simp: keeps_def db_inv_def enter_queue_def leave_queue_def Let_def)

lemma unbilled_slot:
  "list_all bystander gs \<Longrightarrow> keeps (db_inv (unbilled L R)) body \<Longrightarrow>
   keeps (db_inv (unbilled L R)) (slot cfg now bid gs body)"
  unfolding slot_def
  by (auto intro!: keeps_intros unbilled_enter unbilled_leave unbilled_acquire split: option.split)

lemma only_breaker_keeps: "only_breaker m \<Longrightarrow> keeps (db_inv J) m"
proof (rule keepsI)
  fix w :: "'a world"
  assume m: "only_breaker m" and w: "db_inv J w"
  obtain r t where run: "m w = (r, t)" by (cases "m w")
  have "w_db t = w_db w" by (subst only_breakerD [OF m run]) simp
  moreover have "w_saved t = w_saved w" by (subst only_breakerD [OF m run]) simp
  ultimately show "db_inv J (snd (m w))" using w run by (simp add: db_inv_def)
qed

lemma forward_body_keeps: "keeps (db_inv J) (forward_body cfg x ep p st ir be url bn tpl)"
  by (rule only_breaker_keeps [OF only_breaker_forward_body])

lemma unbilled_forward:
  "list_all bystander (xc_waits x) \<Longrightarrow>
   keeps (db_inv (unbilled L R)) (forward cfg x now ep p st ir be url bn bid tpl manage)"
  unfolding forward_def Let_def by (auto intro!: keeps_intros unbilled_slot forward_body_keeps)

lemma try_routes_keeps:
  assumes "\<And>n b. keeps I (call n b)"
  shows "keeps I (try_routes rp call n k rs errors last_exc)"
proof (induction rs arbitrary: k errors last_exc)
  case Nil
  show ?case by (simp add: keeps_raise)
next
  case (Cons p rs)
  obtain r b where p: "p = (r, b)" by (cases p)
  show ?case
  proof (cases b)
    case None
    with p Cons show ?thesis by simp
  next
    case (Some y)
    show ?thesis
    proof (rule keepsI)
      fix s
      assume "I s"
      obtain res t where call: "call k y s = (res, t)" by (cases "call k y s")
      then have "I t" using keepsD2 [OF assms \<open>I s\<close>] by blast
      with call p Some Cons show "I (snd (try_routes rp call n k (p # rs) errors last_exc s))"
        by (auto simp: Let_def keepsD split: sum.splits exc.splits)
    qed
  qed
qed

lemma unbilled_fallback:
  assumes "\<And>n. list_all bystander (xc_waits (en_call env n))"
  shows "keeps (db_inv (unbilled L R)) (chat_with_fallback env m body st ir)"
    and "keeps (db_inv (unbilled L R)) (completion_with_fallback env m body st)"
  unfolding chat_with_fallback_def completion_with_fallback_def chat_def complete_def
  by (auto intro!: keeps_intros try_routes_keeps unbilled_forward assms)

lemma unbilled_security [keeps_intros]:
  "keeps (db_inv (unbilled L R)) (log_security_event now ev)"
  by (rule keepsI) (auto simp: db_inv_def log_security_event_def seqE_def bindE_def elim!: unbilled_cong)

lemma unbilled_watch [keeps_intros]: "keeps (db_inv (unbilled L R)) (watch_request env c plan ep text n k used)"
  unfolding watch_request_def maybe_record_repeated_large_prompt_def maybe_record_plan_usage_anomaly_def
    count_hit_def Let_def
  by (auto intro!: keeps_intros)

lemma unbilled_rate [keeps_intros]:
  "keeps (db_inv J) (enforce_ip_rate_limit ops now ip k)" "keeps (db_inv J) (enforce_rate_limit ops now cid k)"
  unfolding enforce_ip_rate_limit_def enforce_rate_limit_def Let_def by (auto intro!: keeps_intros)

lemma unbilled_used_before [keeps_intros]: "keeps (db_inv J) (used_before env cid)"
  unfolding used_before_def get_current_usage_snapshot_def get_usage_snapshot_for_date_def usage_snapshot_period_def
  by (auto intro!: keeps_intros)

lemma unbilled_cache [keeps_intros]:
  "keeps (db_inv (unbilled L R)) (lookup_exact_cache cfg now ep m h)"
  "keeps (db_inv (unbilled L R)) (store_exact_cache cfg now ep m h f p n k)"
  unfolding lookup_exact_cache_def store_exact_cache_def Let_def
  by (auto intro!: keeps_intros split: option.split)

lemma unbilled_burst [keeps_intros]:
  "keeps (db_inv (unbilled L R)) (maybe_record_request_error_burst ops now cid ep s b)"
  unfolding maybe_record_request_error_burst_def count_hit_def Let_def by (auto intro!: keeps_intros)

lemma saved_prims [keeps_intros]:
  "keeps (\<lambda>w. w_saved w = S) (update f)" "keeps (\<lambda>w. w_saved w = S) fresh_id"
  by (simp_all add: keeps_def)

lemma logs_update: "(\<And>d. request_logs (f d) = request_logs d) \<Longrightarrow> keeps (\<lambda>w. request_logs (w_db w) = R) (update f)"
  and logs_fresh [keeps_intros]: "keeps (\<lambda>w. request_logs (w_db w) = R) fresh_id"
  by (simp_all add: keeps_def)

lemma quota_frame:
  "keeps (\<lambda>w. w_saved w = S) (ensure_quota now today cid dl ml n)"
  "keeps (\<lambda>w. request_logs (w_db w) = R) (ensure_quota now today cid dl ml n)"
  unfolding ensure_quota_def get_or_create_counter_def Let_def
  by (auto intro!: keeps_intros logs_update split: option.split)

lemma unbilled_quota [keeps_intros]: "keeps (db_inv (unbilled L R)) (ensure_quota now today cid dl ml n)"
proof (rule keepsI)
  fix w :: "'a world"
  assume w: "db_inv (unbilled L R) w"
  then have inv: "quota_inv (w_db w)" and led: "ledger (w_db w) = L" and logs: "request_logs (w_db w) = R"
    by (auto simp: db_inv_def unbilled_def)
  let ?t = "snd (ensure_quota now today cid dl ml n w)"
  have "request_logs (w_db ?t) = R" using keepsD [OF quota_frame(2)] logs by blast
  moreover have "w_saved ?t = w_saved w" using keepsD [OF quota_frame(1)] by blast
  moreover have "quota_inv (w_db ?t)" "ledger (w_db ?t) = L"
    by (rule ensure_quota_spec [OF inv, of now today cid dl ml n], use led in simp)+
  ultimately show "db_inv (unbilled L R) ?t" using w by (simp add: db_inv_def unbilled_def)
qed

lemma unbilled_admit [keeps_intros]: "keeps (db_inv (unbilled L R)) (admit env c plan n)"
  unfolding admit_def by (auto intro!: keeps_intros)


section \<open>Accounting\<close>

text \<open>The row \<open>log_request\<close> writes, up to its identifier and the context variables.\<close>

definition logs_entry :: "log_entry \<Rightarrow> request_log \<Rightarrow> bool" where
  "logs_entry g row \<longleftrightarrow> (\<exists>now i corr src. row = log_row now i corr src g)"

text \<open>
  The state after a request of client \<open>c\<close> with \<open>n\<close> tokens: added to the ledger of its day and month,
  one row in the log, all of it committed.
\<close>

definition billed_once :: "(uuid \<times> date \<times> string \<Rightarrow> int) \<Rightarrow> request_log list \<Rightarrow> date \<Rightarrow> log_entry \<Rightarrow> 'r world \<Rightarrow> bool" where
  "billed_once L R today g t \<longleftrightarrow> w_saved t = w_db t \<and> quota_inv (w_db t) \<and>
     ledger (w_db t) = add_usage (lg_client_id g) today (lg_prompt_tokens g + lg_completion_tokens g) L \<and>
     (\<exists>row. request_logs (w_db t) = R @ [row] \<and> logs_entry g row)"

lemma logs_record_usage:
  "keeps (\<lambda>w. request_logs (w_db w) = R) (record_usage now today c p n)"
  unfolding record_usage_def record_usage_in_def get_or_create_counter_def get_or_create_usage_record_def Let_def
  by (auto intro!: keeps_intros logs_update split: option.split)

lemma log_request_run:
  "\<exists>t row. log_request now g w = (Inr (), t) \<and> w_saved t = w_saved w \<and>
     quota_counters (w_db t) = quota_counters (w_db w) \<and> usage_records (w_db t) = usage_records (w_db w) \<and>
     next_id (w_db w) \<le> next_id (w_db t) \<and>
     request_logs (w_db t) = request_logs (w_db w) @ [row] \<and> logs_entry g row"
  by (auto simp: log_request_def seqE_def bindE_def logs_entry_def)

lemma quota_inv_cong:
  assumes "quota_inv d" and "quota_counters d' = quota_counters d" and "usage_records d' = usage_records d"
    and "next_id d \<le> next_id d'"
  shows "quota_inv d'" and "ledger d' = ledger d"
proof -
  show led: "ledger d' = ledger d" by (rule ledger_cong [OF assms(2)])
  have "quota_rows_ok d'" using assms by (auto simp: quota_inv_def quota_rows_ok_def)
  with assms(1) led accounted_cong [OF assms(3)] show "quota_inv d'" unfolding quota_inv_def by metis
qed

lemma account_billed:
  assumes w: "db_inv (unbilled L R) w" and "lg_client_id g = c_id (ad_client a)"
    and "lg_prompt_tokens g = ad_prompt_tokens a" and "lg_completion_tokens g = n"
  shows "\<exists>t. account env a n g w = (Inr (), t) \<and> billed_once L R (en_today env) g t"
proof -
  have inv: "quota_inv (w_db w)" and led: "ledger (w_db w) = L" and logs: "request_logs (w_db w) = R"
    using w by (auto simp: db_inv_def unbilled_def)
  obtain u where u: "record_usage (en_now env) (en_today env) (c_id (ad_client a)) (ad_prompt_tokens a) n w = (Inr (), u)"
    "quota_inv (w_db u)" "ledger (w_db u) = add_usage (c_id (ad_client a)) (en_today env) (ad_prompt_tokens a + n) L"
    by (rule record_usage_spec [OF inv, of "en_now env" "en_today env" "c_id (ad_client a)" "ad_prompt_tokens a" n])
      (use led in simp)
  have R: "request_logs (w_db u) = R" using keepsD2 [OF logs_record_usage logs u(1)] .
  obtain v row where v: "log_request (en_now env) g u = (Inr (), v)"
    "quota_counters (w_db v) = quota_counters (w_db u)" "usage_records (w_db v) = usage_records (w_db u)"
    "next_id (w_db u) \<le> next_id (w_db v)" "request_logs (w_db v) = R @ [row]" "logs_entry g row"
    using log_request_run [of "en_now env" g u] R by auto
  have "account env a n g w = (Inr (), v\<lparr>w_saved := w_db v\<rparr>)"
    by (simp add: account_def seqE_apply u(1) v(1))
  moreover have "billed_once L R (en_today env) g (v\<lparr>w_saved := w_db v\<rparr>)"
    using quota_inv_cong [OF u(2) v(2-4)] u(3) v(5,6) assms by (auto simp: billed_once_def)
  ultimately show ?thesis by blast
qed


text \<open>What a served request ends in: billed once when it is answered, nothing used when it is not.\<close>

definition billed_end ::
  "(uuid \<times> date \<times> string \<Rightarrow> int) \<Rightarrow> request_log list \<Rightarrow> 'r env \<Rightarrow> admitted \<Rightarrow> exc + response_body \<Rightarrow> 'r world \<Rightarrow> bool" where
  "billed_end L R env a r t \<longleftrightarrow> (case r of Inl e \<Rightarrow> db_inv (unbilled L R) t
    | Inr body \<Rightarrow> \<exists>g. lg_client_id g = c_id (ad_client a) \<and> lg_prompt_tokens g = ad_prompt_tokens a \<and>
        lg_error_message g = None \<and> billed_once L R (en_today env) g t)"

lemma cached_billed:
  assumes u: "db_inv (unbilled L R) u" and run: "serve_from_cache env a h payload u = (r, t)"
  shows "billed_end L R env a r t"
proof -
  let ?g = "request_log_entry env a (cr_completion_tokens h) 200 False (Some ''cache:exact'') 0 False True [] None"
  obtain v where "account env a (cr_completion_tokens h) ?g u = (Inr (), v)" "billed_once L R (en_today env) ?g v"
    using account_billed [OF u, of ?g a "cr_completion_tokens h" env] by (auto simp: request_log_entry_def)
  with run show ?thesis
    by (auto simp: billed_end_def serve_from_cache_def seqE_apply request_log_entry_def intro!: exI [where x = ?g])
qed

lemma result_billed:
  assumes v: "db_inv (unbilled L R) v" and run: "account_for_result env a x v = (r, t)"
  shows "billed_end L R env a r t"
proof (cases "fr_response x")
  case (StreamBody x21 x22 x23 x24 x25 x26 x27)
  let ?g = "result_log_entry env a x (ad_max_tokens a) 200"
  obtain z where "account env a (ad_max_tokens a) ?g v = (Inr (), z)" "billed_once L R (en_today env) ?g z"
    using account_billed [OF v, of ?g a "ad_max_tokens a" env] by (auto simp: result_log_entry_def request_log_entry_def)
  with run StreamBody show ?thesis
    by (auto simp: billed_end_def account_for_result_def seqE_apply result_log_entry_def request_log_entry_def intro!: exI [where x = ?g])
next
  case (JsonBody s p)
  let ?n = "estimate_tokens_from_text (en_render env p)"
  let ?g = "result_log_entry env a x ?n s"
  let ?store = "store_exact_cache (en_cfg env) (en_now env) (ad_endpoint a) (m_model_id (ad_model a))
     (ad_cache_key a) (ad_cache_fingerprint a) p (ad_prompt_tokens a) ?n"
  obtain q y where st: "?store v = (q, y)" by (cases "?store v")
  have y: "db_inv (unbilled L R) y" by (rule keepsD2 [OF unbilled_cache(2) v st])
  obtain z where z: "account env a ?n ?g y = (Inr (), z)" "billed_once L R (en_today env) ?g z"
    using account_billed [OF y, of ?g a ?n env] by (auto simp: result_log_entry_def request_log_entry_def)
  with run JsonBody st y show ?thesis
    by (cases q) (auto simp: billed_end_def account_for_result_def seqE_apply Let_def result_log_entry_def request_log_entry_def
        intro!: exI [where x = ?g])
qed

lemma serve_billed:
  assumes w: "db_inv (unbilled L R) w" and call: "keeps (db_inv (unbilled L R)) call"
    and run: "serve_request env a call w = (r, t)"
  shows "billed_end L R env a r t"
proof -
  let ?lookup = "if ad_stream a then ret cache_miss
    else lookup_exact_cache (en_cfg env) (en_now env) (ad_endpoint a) (m_model_id (ad_model a)) (ad_cache_key a)"
  have "keeps (db_inv (unbilled L R)) ?lookup" by (auto intro!: keeps_intros)
  then obtain hit u where lk: "?lookup w = (hit, u)" and u: "db_inv (unbilled L R) u"
    using w keepsD by (metis prod.collapse)
  show ?thesis
  proof (cases hit)
    case (Inl e)
    with lk run u show ?thesis by (auto simp: billed_end_def serve_request_def bindE_apply)
  next
    case (Inr h)
    let ?forwarded = "bindE call (account_for_result env a)"
    have rest: "serve_request env a call w = (case cr_payload h of
        Some payload \<Rightarrow> if cr_hit h \<and> payload \<noteq> JNull then serve_from_cache env a h payload u else ?forwarded u
      | None \<Rightarrow> ?forwarded u)"
      using lk Inr by (simp add: serve_request_def bindE_apply [of ?lookup] split: option.splits)
    have forwarded: ?thesis if f: "?forwarded u = (r, t)"
    proof -
      obtain res v where c: "call u = (res, v)" by (cases "call u")
      have v: "db_inv (unbilled L R) v" by (rule keepsD2 [OF call u c])
      show ?thesis
      proof (cases res)
        case (Inl e)
        with f c v show ?thesis by (auto simp: billed_end_def bindE_apply)
      next
        case (Inr x)
        with f c have "account_for_result env a x v = (r, t)" by (simp add: bindE_apply)
        then show ?thesis by (rule result_billed [OF v])
      qed
    qed
    show ?thesis
      using run cached_billed [OF u] forwarded unfolding rest by (auto split: option.splits if_splits)
  qed
qed

text \<open>The error report at the end of a failed request keeps what the session sees of the usage.\<close>

definition view_inv :: "(db \<Rightarrow> bool) \<Rightarrow> 'r world \<Rightarrow> bool" where
  "view_inv J w \<longleftrightarrow> J (w_db w)"

lemma view_prims [keeps_intros]:
  "keeps (view_inv J) (redis_call h)" "keeps (view_inv J) (emit x)" "keeps (view_inv J) commit"
  by (auto simp: keeps_def view_inv_def redis_call_def split: prod.splits)

lemma view_security [keeps_intros]: "keeps (view_inv (unbilled L R)) (log_security_event now ev)"
  by (rule keepsI) (auto simp: view_inv_def log_security_event_def seqE_def bindE_def elim!: unbilled_cong)

lemma view_burst: "keeps (view_inv (unbilled L R)) (maybe_record_request_error_burst ops now cid ep s b)"
  unfolding maybe_record_request_error_burst_def count_hit_def Let_def by (auto intro!: keeps_intros)

lemma burst_total: "fst (maybe_record_request_error_burst ops now cid ep s b w) = Inr ()"
  by (auto simp: maybe_record_request_error_burst_def count_hit_def log_security_event_def Let_def eff_simps
      split: prod.splits)

lemma log_failure_logged:
  assumes w: "db_inv (unbilled L R) w"
  shows "\<exists>t row. log_failure env a status detail w = (Inr (), t) \<and> w_saved t = w_db t \<and>
     unbilled L (R @ [row]) (w_db t) \<and> rl_client_id row = c_id (ad_client a) \<and>
     rl_http_status row = status \<and> rl_completion_tokens row = 0"
proof -
  let ?errors = "backend_errors_for_log detail"
  let ?g = "request_log_entry env a 0 status (ad_stream a) (last_backend_name ?errors)
     (max (int (length ?errors)) 1) (length ?errors > 1) False ?errors (Some (error_message_for_log (en_repr env) detail))"
  obtain u row where u: "log_request (en_now env) ?g w = (Inr (), u)"
    "quota_counters (w_db u) = quota_counters (w_db w)" "usage_records (w_db u) = usage_records (w_db w)"
    "next_id (w_db w) \<le> next_id (w_db u)" "request_logs (w_db u) = request_logs (w_db w) @ [row]" "logs_entry ?g row"
    using log_request_run [of "en_now env" ?g w] by blast
  have "unbilled L R (w_db w)" using w by (simp add: db_inv_def)
  with u(2-5) have seen: "unbilled L (R @ [row]) (w_db u)"
    using quota_inv_cong [of "w_db w" "w_db u"] by (simp add: unbilled_def)
  let ?burst = "maybe_record_request_error_burst (en_ops env) (en_now env) (c_id (ad_client a)) (ad_endpoint a)
     status (last_backend_name ?errors)"
  obtain v where v: "?burst u = (Inr (), v)" using burst_total by (metis prod.collapse)
  have "unbilled L (R @ [row]) (w_db v)" using keepsD2 [OF view_burst _ v] seen by (simp add: view_inv_def)
  moreover have "log_failure env a status detail w = (Inr (), v\<lparr>w_saved := w_db v\<rparr>)"
    using u(1) v by (simp add: log_failure_def Let_def seqE_apply)
  ultimately show ?thesis using u(6)
    by (auto simp: logs_entry_def log_row_def request_log_entry_def intro!: exI [where x = row])
qed

text \<open>
  A request that fails has used nothing, neither in what the session sees nor in what is committed.
  If the failure is an \<open>HTTPException\<close> raised while it was being served, the log has one row for it.
\<close>

definition unused :: "(uuid \<times> date \<times> string \<Rightarrow> int) \<Rightarrow> request_log list \<Rightarrow> exc \<Rightarrow> 'r world \<Rightarrow> bool" where
  "unused L R e t \<longleftrightarrow> ledger (w_db t) = L \<and> ledger (w_saved t) = L \<and>
     (request_logs (w_saved t) = R \<or>
      (\<exists>row status detail. request_logs (w_saved t) = R @ [row] \<and> e = HTTPException status detail \<and>
         rl_http_status row = status \<and> rl_completion_tokens row = 0))"

lemma db_inv_unused: "db_inv (unbilled L R) t \<Longrightarrow> unused L R e t"
  by (simp add: db_inv_def unused_def unbilled_def)

lemma served_or_logged_billed:
  assumes w: "db_inv (unbilled L R) w" and call: "keeps (db_inv (unbilled L R)) call"
    and run: "served_or_logged env a call w = (r, t)"
  shows "case r of Inl e \<Rightarrow> unused L R e t
    | Inr body \<Rightarrow> \<exists>g. lg_client_id g = c_id (ad_client a) \<and> lg_prompt_tokens g = ad_prompt_tokens a \<and>
        lg_error_message g = None \<and> billed_once L R (en_today env) g t"
proof -
  obtain q u where s: "serve_request env a call w = (q, u)" by (cases "serve_request env a call w")
  note S = serve_billed [OF w call s, unfolded billed_end_def]
  show ?thesis
  proof (cases q)
    case (Inr body)
    with S s run show ?thesis by (auto simp: served_or_logged_def catchE_def)
  next
    case (Inl e)
    with S have u: "db_inv (unbilled L R) u" by simp
    have other: ?thesis if "r = Inl e" "t = u" using that u by (simp add: db_inv_unused)
    show ?thesis
    proof (cases e)
      case (HTTPException status detail)
      obtain v row where v: "log_failure env a status detail u = (Inr (), v)" "w_saved v = w_db v"
        "unbilled L (R @ [row]) (w_db v)" "rl_http_status row = status" "rl_completion_tokens row = 0"
        using log_failure_logged [OF u, of env a status detail] by blast
      with s run Inl HTTPException have "r = Inl e" "t = v"
        by (simp_all add: served_or_logged_def catchE_def seqE_apply)
      with v HTTPException show ?thesis by (auto simp: unused_def unbilled_def)
    qed (use s run Inl other in \<open>simp_all add: served_or_logged_def catchE_def\<close>)
  qed
qed


definition answered_or_unused ::
  "(uuid \<times> date \<times> string \<Rightarrow> int) \<Rightarrow> request_log list \<Rightarrow> date \<Rightarrow> uuid \<Rightarrow> exc + response_body \<Rightarrow> 'r world \<Rightarrow> bool" where
  "answered_or_unused L R today c r t = (case r of Inl e \<Rightarrow> unused L R e t
     | Inr body \<Rightarrow> \<exists>g. lg_client_id g = c \<and> lg_error_message g = None \<and> billed_once L R today g t)"

lemma ends_served:
  assumes "keeps (db_inv (unbilled L R)) call" and "c_id (ad_client a) = c"
  shows "ends (db_inv (unbilled L R)) (answered_or_unused L R (en_today env) c) (served_or_logged env a call)"
proof (rule endsI)
  fix w r and t :: "'a world"
  assume "db_inv (unbilled L R) w" and "served_or_logged env a call w = (r, t)"
  from served_or_logged_billed [OF this(1) assms(1) this(2)] assms(2)
  show "answered_or_unused L R (en_today env) c r t"
    by (cases r) (auto simp: answered_or_unused_def)
qed

lemma failure_unused: "db_inv (unbilled L R) t \<Longrightarrow> answered_or_unused L R today c (Inl e) t"
  by (simp add: answered_or_unused_def db_inv_unused)

lemma chat_ends:
  assumes "\<And>n. list_all bystander (xc_waits (en_call env n))"
  shows "ends (db_inv (unbilled L R)) (answered_or_unused L R (en_today env) (c_id c)) (chat_completions env c q)"
  unfolding chat_completions_def Let_def
  by (auto intro!: ends_intros keeps_intros failure_unused ends_served unbilled_fallback assms
      simp: chat_admitted_def Let_def split: prod.splits)

section \<open>The runs of the fallback loop\<close>

text \<open>
  The routes the loop leaves behind: those whose backend is gone, and those whose backend failed in
  a way that may pass. Each failure is reported, and the next attempt starts where it ended.
\<close>

inductive left_behind ::
  "(json \<Rightarrow> string) \<Rightarrow> (nat \<Rightarrow> backend \<Rightarrow> ('r, forward_result) act) \<Rightarrow> nat \<Rightarrow> (route \<times> backend option) list \<Rightarrow>
   'r world \<Rightarrow> json list \<Rightarrow> 'r world \<Rightarrow> bool" for rp call where
  start: "left_behind rp call k [] w [] w"
| gone: "left_behind rp call (Suc k) rs w errors t \<Longrightarrow> left_behind rp call k ((r, None) # rs) w errors t"
| failed: "call k b w = (Inl (HTTPException status detail), u) \<Longrightarrow> is_retryable_backend_error status \<Longrightarrow>
    left_behind rp call (Suc k) rs u errors t \<Longrightarrow>
    left_behind rp call k ((r, Some b) # rs) w (serialize_backend_error rp r b status detail # errors) t"

inductive_simps left_behind_Nil [simp]: "left_behind rp call k [] w errors t"
inductive_simps left_behind_gone [simp]: "left_behind rp call k ((r, None) # rs) w errors t"
inductive_simps left_behind_failed: "left_behind rp call k ((r, Some b) # rs) w errors t"

definition fallback_result :: "nat \<Rightarrow> json list \<Rightarrow> forward_result \<Rightarrow> forward_result" where
  "fallback_result attempt errors x =
     x\<lparr>fr_attempts := int attempt, fr_fallback_used := attempt > 1, fr_backend_errors := errors\<rparr>"

definition answers_after ::
  "(json \<Rightarrow> string) \<Rightarrow> (nat \<Rightarrow> backend \<Rightarrow> ('r, forward_result) act) \<Rightarrow> nat \<Rightarrow> (route \<times> backend option) list \<Rightarrow>
   json list \<Rightarrow> 'r world \<Rightarrow> forward_result \<Rightarrow> 'r world \<Rightarrow> bool" where
  "answers_after rp call k rs errors w res t \<longleftrightarrow> (\<exists>before r b after new u x.
     rs = before @ (r, Some b) # after \<and> left_behind rp call k before w new u \<and>
     call (k + length before) b u = (Inr x, t) \<and> res = fallback_result (k + length before) (errors @ new) x)"

lemma answers_after_Nil [simp]: "\<not> answers_after rp call k [] errors w res t"
  by (simp add: answers_after_def)

lemma answers_after_gone [simp]:
  "answers_after rp call k ((r, None) # rs) errors w res t \<longleftrightarrow> answers_after rp call (Suc k) rs errors w res t"
proof
  assume "answers_after rp call k ((r, None) # rs) errors w res t"
  then obtain before r' b after new u x where *: "(r, None) # rs = before @ (r', Some b) # after"
    "left_behind rp call k before w new u" "call (k + length before) b u = (Inr x, t)"
    "res = fallback_result (k + length before) (errors @ new) x"
    unfolding answers_after_def by blast
  then obtain before' where "before = (r, None) # before'" by (cases before) auto
  with * show "answers_after rp call (Suc k) rs errors w res t" unfolding answers_after_def by fastforce
next
  assume "answers_after rp call (Suc k) rs errors w res t"
  then obtain before r' b after new u x where *: "rs = before @ (r', Some b) # after"
    "left_behind rp call (Suc k) before w new u" "call (Suc k + length before) b u = (Inr x, t)"
    "res = fallback_result (Suc k + length before) (errors @ new) x"
    unfolding answers_after_def by blast
  then show "answers_after rp call k ((r, None) # rs) errors w res t"
    unfolding answers_after_def
    by (intro exI [of _ "(r, None) # before"] exI [of _ r'] exI [of _ b] exI [of _ after] exI [of _ new]
        exI [of _ u] exI [of _ x]) simp
qed

lemma answers_after_here:
  "answers_after rp call k ((r, Some b) # rs) errors w res t \<longleftrightarrow>
     (\<exists>x. call k b w = (Inr x, t) \<and> res = fallback_result k errors x) \<or>
     (\<exists>status detail u. call k b w = (Inl (HTTPException status detail), u) \<and> is_retryable_backend_error status \<and>
        answers_after rp call (Suc k) rs (errors @ [serialize_backend_error rp r b status detail]) u res t)"
    (is "?here \<longleftrightarrow> ?now \<or> ?later")
proof
  assume ?here
  then obtain before r' b' after new u x where *: "(r, Some b) # rs = before @ (r', Some b') # after"
    "left_behind rp call k before w new u" "call (k + length before) b' u = (Inr x, t)"
    "res = fallback_result (k + length before) (errors @ new) x"
    unfolding answers_after_def by blast
  show "?now \<or> ?later"
  proof (cases before)
    case Nil
    with * show ?thesis by auto
  next
    case (Cons p before')
    with * show ?thesis unfolding answers_after_def by (fastforce simp: left_behind_failed)
  qed
next
  assume "?now \<or> ?later"
  then show ?here
  proof
    assume ?now
    then obtain x where "call k b w = (Inr x, t)" "res = fallback_result k errors x" by blast
    then show ?here unfolding answers_after_def by (intro exI [of _ "[]"]) simp
  next
    assume ?later
    then obtain status detail v before r' b' after new u x where *:
      "call k b w = (Inl (HTTPException status detail), v)" "is_retryable_backend_error status"
      "rs = before @ (r', Some b') # after" "left_behind rp call (Suc k) before v new u"
      "call (Suc k + length before) b' u = (Inr x, t)"
      "res = fallback_result (Suc k + length before)
         ((errors @ [serialize_backend_error rp r b status detail]) @ new) x"
      unfolding answers_after_def by blast
    have "left_behind rp call k ((r, Some b) # before) w (serialize_backend_error rp r b status detail # new) u"
      by (rule left_behind.failed [OF *(1,2,4)])
    with * show ?here unfolding answers_after_def
      by (intro exI [of _ "(r, Some b) # before"] exI [of _ r'] exI [of _ b'] exI [of _ after]
          exI [of _ "serialize_backend_error rp r b status detail # new"] exI [of _ u] exI [of _ x]) simp
  qed
qed

lemma try_routes_answers:
  "k + length rs = Suc n \<Longrightarrow>
   try_routes rp call n k rs errors last_exc w = (Inr res, t) \<longleftrightarrow> answers_after rp call k rs errors w res t"
proof (induction rs arbitrary: k errors last_exc w)
  case Nil
  show ?case by simp
next
  case (Cons p rs)
  obtain r b where p: "p = (r, b)" by (cases p)
  show ?case
  proof (cases b)
    case None
    with p Cons show ?thesis by simp
  next
    case (Some y)
    have last: "k = n \<Longrightarrow> rs = []" using Cons.prems by simp
    have next_route: "Suc k + length rs = Suc n" using Cons.prems by simp
    note IH = Cons.IH [OF next_route]
    obtain q u where call: "call k y w = (q, u)" by (cases "call k y w")
    show ?thesis
    proof (cases q)
      case (Inr x)
      with call p Some show ?thesis by (auto simp: answers_after_here fallback_result_def)
    next
      case (Inl e)
      with call p Some last show ?thesis by (cases e) (auto simp: answers_after_here Let_def IH)
    qed
  qed
qed



section \<open>Properties\<close>

text \<open>
  C23. Accounting of a chat request. If it is answered, from the cache, by a backend or by the
  opening of a stream, one row is added to the request log, its tokens are added to the ledger of
  the client's day and month and to nothing else, and both are committed. If it fails, however it
  fails, the usage is what it was, in the session and in what is committed, and the log has at most
  one more row, which carries the status of the answer and no completion tokens. Other tasks may run
  while the request waits for a slot, as long as they leave the usage tables and the log alone.
\<close>

theorem chat_accounted_once:
  assumes "quota_inv (w_db w)" and "w_saved w = w_db w"
    and "\<forall>n. list_all bystander (xc_waits (en_call env n))"
    and "chat_completions env c q w = (r, t)"
  shows "case r of
      Inr body \<Rightarrow> w_saved t = w_db t \<and> (\<exists>row. request_logs (w_db t) = request_logs (w_db w) @ [row] \<and>
        rl_client_id row = c_id c \<and> rl_error_message row = None \<and>
        ledger (w_db t) = add_usage (c_id c) (en_today env) (rl_prompt_tokens row + rl_completion_tokens row)
          (ledger (w_db w)))
    | Inl e \<Rightarrow> ledger (w_db t) = ledger (w_db w) \<and> ledger (w_saved t) = ledger (w_db w) \<and>
        (request_logs (w_saved t) = request_logs (w_db w) \<or>
         (\<exists>row status detail. request_logs (w_saved t) = request_logs (w_db w) @ [row] \<and>
            e = HTTPException status detail \<and> rl_http_status row = status \<and> rl_completion_tokens row = 0))"
proof -
  have "db_inv (unbilled (ledger (w_db w)) (request_logs (w_db w))) w"
    using assms(1,2) by (simp add: db_inv_def unbilled_def)
  with assms(3,4) have "answered_or_unused (ledger (w_db w)) (request_logs (w_db w)) (en_today env) (c_id c) r t"
    using endsD [OF chat_ends] by blast
  then show ?thesis
    by (cases r) (auto simp: answered_or_unused_def unused_def billed_once_def logs_entry_def log_row_def)
qed

text \<open>
  C24. Fallback. A chat request is answered exactly when the routes before the answering one were
  left behind, each because its backend is gone or failed with a status of 500 or more; the answer
  carries the position of its route as the number of attempts, says whether it was not the first,
  and lists one report for each failure, in the order of the attempts.
\<close>

theorem fallback_answers:
  "chat_with_fallback env m body stream include_reasoning w = (Inr res, t) \<longleftrightarrow>
     (\<exists>before r b after errors u x.
        let call = \<lambda>attempt b. chat (en_cfg env) (en_call env attempt) (en_now env) body stream include_reasoning b
          (m_prompt_template m) True
        in planned_routes (en_pick env) (w_db w) m = before @ (r, Some b) # after \<and>
           left_behind (en_repr env) call 1 before w errors u \<and>
           call (Suc (length before)) b u = (Inr x, t) \<and>
           res = x\<lparr>fr_attempts := int (Suc (length before)), fr_fallback_used := before \<noteq> [],
                    fr_backend_errors := errors\<rparr>)"
  using try_routes_answers [of 1 "planned_routes (en_pick env) (w_db w) m" "length (planned_routes (en_pick env) (w_db w) m)"
      "en_repr env" "\<lambda>attempt b. chat (en_cfg env) (en_call env attempt) (en_now env) body stream include_reasoning b
          (m_prompt_template m) True" "[]" None w res t]
  by (simp add: chat_with_fallback_def answers_after_def fallback_result_def Let_def)

section \<open>Witnesses\<close>

definition chat_client :: client where
  "chat_client = routing_client\<lparr>c_daily_token_quota := 1000\<rparr>"

definition chat_question :: chat_request where
  "chat_question = \<lparr>cq_model = ''gemma'', cq_messages = [\<lparr>cm_role = ''user'', cm_content = Text ''hi''\<rparr>],
     cq_sampling = terse, cq_include_reasoning = False\<rparr>"

definition chat_env :: "unit redis_ops \<Rightarrow> (nat \<Rightarrow> unit exchange) \<Rightarrow> unit env" where
  "chat_env ops call = \<lparr>en_cfg = proxy_settings, en_ops = ops, en_now = 0, en_today = Date 2026 5 2,
     en_source_ip = ''10.0.0.1'', en_latency_ms = 3, en_repr = (\<lambda>_. ''?''), en_hash_json = (\<lambda>_. ''h''),
     en_sha256 = (\<lambda>_. ''s''), en_dump = (\<lambda>_. ''d''), en_render = (\<lambda>_. ''some text''), en_round4 = (\<lambda>x. x),
     en_float = (\<lambda>x. x), en_pick = (\<lambda>_ _. 0), en_lazy = None, en_call = call\<rparr>"

definition idle_redis :: "unit redis_ops" where
  "idle_redis = \<lparr>rd_incr = (\<lambda>_ _ _. (1, ())), rd_expire = (\<lambda>_ _ _ _. ((), ())), rd_set_nx = (\<lambda>_ _ _ _. (True, ())),
     rd_rpush = (\<lambda>_ _ _. (1, ())), rd_llen = (\<lambda>_ _. (0, ())), rd_lpop = (\<lambda>_ _. (None, ()))\<rparr>"

definition chat_world :: "unit world" where
  "chat_world = example_world routing_db"

definition second_answers :: "nat \<Rightarrow> unit exchange" where
  "second_answers n = scripted (\<lambda>_. NoAnswer) (if n = 1 then NotOpened else Opened 200 None [] None)"

text \<open>
  A streamed request whose first backend cannot be reached and whose second one answers: 5 tokens of
  the prompt and the 60 reserved for the answer are accounted for.
\<close>

lemma chat_example_run:
  "let (r, t) = chat_completions (chat_env idle_redis second_answers) chat_client chat_question chat_world in
     isl r = False \<and> map (\<lambda>row. rl_prompt_tokens row + rl_completion_tokens row) (request_logs (w_db t)) = [65]"
  by code_simp

theorem chat_accounted_once_witness:
  "ledger (w_db (snd (chat_completions (chat_env idle_redis second_answers) chat_client chat_question chat_world)))
     (1, Date 2026 5 2, ''daily'') = 65"
proof -
  obtain r t where run: "chat_completions (chat_env idle_redis second_answers) chat_client chat_question chat_world = (r, t)"
    by (cases "chat_completions (chat_env idle_redis second_answers) chat_client chat_question chat_world")
  have "quota_inv (w_db chat_world)"
    by (simp add: quota_inv_def quota_rows_ok_def chat_world_def example_world_def routing_db_def empty_db_def
        ledger_def accounted_def fun_eq_iff)
  moreover have "w_saved chat_world = w_db chat_world" by (simp add: chat_world_def example_world_def)
  moreover have "\<forall>n. list_all bystander (xc_waits (en_call (chat_env idle_redis second_answers) n))"
    by (simp add: chat_env_def second_answers_def scripted_def)
  ultimately have ends: "case r of Inr body \<Rightarrow> w_saved t = w_db t \<and>
      (\<exists>row. request_logs (w_db t) = request_logs (w_db chat_world) @ [row] \<and> rl_client_id row = c_id chat_client \<and>
         rl_error_message row = None \<and>
         ledger (w_db t) = add_usage (c_id chat_client) (en_today (chat_env idle_redis second_answers))
           (rl_prompt_tokens row + rl_completion_tokens row) (ledger (w_db chat_world))) | Inl e \<Rightarrow> True"
    using chat_accounted_once [OF _ _ _ run] by (cases r) simp_all
  have "isl r = False" "map (\<lambda>row. rl_prompt_tokens row + rl_completion_tokens row) (request_logs (w_db t)) = [65]"
    using chat_example_run run by simp_all
  with ends have "ledger (w_db t) = add_usage 1 (Date 2026 5 2) 65 (ledger (w_db chat_world))"
    by (cases r) (auto simp: chat_client_def routing_client_def chat_env_def chat_world_def example_world_def
        routing_db_def empty_db_def)
  with run show ?thesis
    by (simp add: add_usage_def chat_world_def example_world_def routing_db_def empty_db_def ledger_def)
qed

end
