(* ===== verification/GenerationJobs.thy ===== *)
theory GenerationJobs
  imports RequestAccounting
begin

text \<open>
  Asynchronous chat jobs (\<open>services/generation_jobs.py\<close>, the three endpoints of \<open>api/client.py\<close> and
  \<open>workers/generation_worker.py\<close>): a request becomes a row and an entry of a Redis list, the worker
  takes entries from the list and moves the row through its states.
\<close>

section \<open>Rows\<close>

definition parse_json :: "jtext option \<Rightarrow> json" where
  "parse_json raw =
     (if text_falsy raw then JNull
      else case raw of Some (JText v) \<Rightarrow> v | Some (BadText s) \<Rightarrow> JObj [(''raw'', JStr s)] | None \<Rightarrow> JNull)"

definition serialize_job :: "(rat \<Rightarrow> rat) \<Rightarrow> job \<Rightarrow> json" where
  "serialize_job flt j = JObj [
     (''id'', JStr (uuid_str (j_id j))),
     (''client_id'', JStr (uuid_str (j_client_id j))),
     (''model_registry_id'', jopt (\<lambda>u. JStr (uuid_str u)) (j_model_registry_id j)),
     (''inference_backend_id'', jopt (\<lambda>u. JStr (uuid_str u)) (j_inference_backend_id j)),
     (''endpoint'', JStr (j_endpoint j)),
     (''requested_model'', JStr (j_requested_model j)),
     (''resolved_model'', JStr (j_resolved_model j)),
     (''status'', JStr (j_status j)),
     (''include_reasoning'', JBool (j_include_reasoning j)),
     (''backend_name'', jopt JStr (j_backend_name j)),
     (''attempts'', JInt (j_attempts j)),
     (''fallback_used'', JBool (j_fallback_used j)),
     (''prompt_tokens_estimated'', JInt (j_prompt_tokens j)),
     (''completion_tokens_estimated'', JInt (j_completion_tokens j)),
     (''estimated_cost_usd'', JFloat (flt (j_estimated_cost_usd j))),
     (''max_tokens_requested'', JInt (j_max_tokens_requested j)),
     (''response'', parse_json (j_response_json j)),
     (''error'', jopt JStr (j_error_message j)),
     (''backend_errors'', let v = parse_json (j_backend_errors_json j) in if truthy v then v else JArr []),
     (''queued_at'', jtime (j_queued_at j)),
     (''started_at'', jopt jtime (j_started_at j)),
     (''completed_at'', jopt jtime (j_completed_at j)),
     (''cancelled_at'', jopt jtime (j_cancelled_at j)),
     (''created_at'', jtime (j_created_at j)),
     (''updated_at'', jtime (j_updated_at j))]"

definition set_job :: "uuid \<Rightarrow> (job \<Rightarrow> job) \<Rightarrow> db \<Rightarrow> db" where
  "set_job jid f d = d\<lparr>jobs := upd_where (\<lambda>j. j_id j = jid) f (jobs d)\<rparr>"

section \<open>Creating a job\<close>

record prepared_job =
  pj_selected_model_id :: string
  pj_selected_model_db_id :: uuid
  pj_requested_model :: string
  pj_request_body :: dict
  pj_prompt_tokens :: int
  pj_max_tokens :: int
  pj_estimated_request_cost :: rat
  pj_request_summary :: string

definition async_endpoint :: string where
  "async_endpoint = ''/v1/chat/completions/async''"

text \<open>What the request asks for, before anything is counted: neither stream nor too long a prompt.\<close>

definition check_async_chat ::
  "'r env \<Rightarrow> db \<Rightarrow> client \<Rightarrow> chat_request \<Rightarrow> exc + model \<times> string \<times> dict list \<times> int \<times> params" where
  "check_async_chat env d c q =
     (if sm_stream (cq_sampling q) then Inl (http_error 422 ''stream is not supported for async jobs'')
      else
      bindS (resolve_requested_model (en_repr env) d c (cq_model q)) (\<lambda>(m, requested).
      bindS (normalize_messages (map dump_message (cq_messages q))) (\<lambda>messages.
      let prompt_tokens = estimate_prompt_tokens (en_repr env) (Some messages) None in
      if prompt_tokens > c_max_context_tokens c then Inl context_error
      else bindS (validate_params (en_cfg env) d c (cq_sampling q)) (\<lambda>p.
      Inr (m, requested, messages, prompt_tokens, p)))))"

definition admit_job :: "'r env \<Rightarrow> client \<Rightarrow> effective_plan \<Rightarrow> int \<Rightarrow> ('r, unit) act" where
  "admit_job env c plan incoming_tokens =
     catchE
       (seqE (enforce_rate_limit (en_ops env) (en_now env) (c_id c) (ep_rate_limit_per_minute plan))
         (ensure_quota (en_now env) (en_today env) (c_id c) (ep_daily_token_quota plan)
            (ep_monthly_token_quota plan) incoming_tokens))
       (\<lambda>e. raise (as_too_many e))"

definition job_body :: "chat_request \<Rightarrow> model \<Rightarrow> dict list \<Rightarrow> params \<Rightarrow> dict" where
  "job_body q m messages p =
     dict_set ''include_reasoning'' (JBool (cq_include_reasoning q))
       (set_params p (dict_set ''model'' (JStr (m_model_id m)) (dict_set ''messages'' (JArr (json_messages messages))
          (dict_pop ''include_reasoning'' (dump_chat_request q)))))"

definition prepare_async_chat_job :: "'r env \<Rightarrow> client \<Rightarrow> chat_request \<Rightarrow> ('r, prepared_job) act" where
  "prepare_async_chat_job env c q =
     bindE (query (\<lambda>d. check_async_chat env d c q)) (\<lambda>checked.
     bindE (liftE checked) (\<lambda>(m, requested, messages, prompt_tokens, p).
     bindE (liftE (token_count (pa_max_tokens p))) (\<lambda>max_tokens.
     let plan = pa_plan p; incoming_tokens = prompt_tokens + max_tokens in
     seqE (admit_job env c plan incoming_tokens)
     (bindE (used_before env (c_id c)) (\<lambda>used.
      seqE (watch_request env c plan async_endpoint (en_dump env (JArr (json_messages messages)))
              prompt_tokens incoming_tokens used)
        (ret \<lparr>pj_selected_model_id = m_model_id m, pj_selected_model_db_id = m_id m,
              pj_requested_model = requested, pj_request_body = job_body q m messages p,
              pj_prompt_tokens = prompt_tokens, pj_max_tokens = max_tokens,
              pj_estimated_request_cost = request_cost env plan (snd used) incoming_tokens,
              pj_request_summary = summarize_chat_request (en_sha256 env) messages (cq_include_reasoning q)\<rparr>))))))"

definition new_job :: "timestamp \<Rightarrow> uuid \<Rightarrow> uuid \<Rightarrow> chat_request \<Rightarrow> prepared_job \<Rightarrow> job" where
  "new_job now jid client_id q prepared = \<lparr>j_id = jid, j_client_id = client_id,
     j_model_registry_id = Some (pj_selected_model_db_id prepared), j_inference_backend_id = None,
     j_endpoint = async_endpoint, j_requested_model = pj_requested_model prepared,
     j_resolved_model = pj_selected_model_id prepared, j_status = ''queued'', j_is_stream = False,
     j_include_reasoning = cq_include_reasoning q, j_request_json = dumps (JObj (pj_request_body prepared)),
     j_response_json = None, j_error_message = None, j_backend_name = None, j_attempts = 0,
     j_fallback_used = False, j_backend_errors_json = None, j_prompt_tokens = pj_prompt_tokens prepared,
     j_completion_tokens = 0, j_estimated_cost_usd = pj_estimated_request_cost prepared,
     j_max_tokens_requested = pj_max_tokens prepared, j_queued_at = now, j_started_at = None,
     j_completed_at = None, j_cancelled_at = None, j_created_at = now, j_updated_at = now\<rparr>"

definition create_chat_generation_job :: "'r env \<Rightarrow> client \<Rightarrow> chat_request \<Rightarrow> ('r, job) act" where
  "create_chat_generation_job env c q =
     bindE (prepare_async_chat_job env c q) (\<lambda>prepared.
     bindE fresh_id (\<lambda>jid.
     let j = new_job (en_now env) jid (c_id c) q prepared in
     seqE (update (\<lambda>d. d\<lparr>jobs := jobs d @ [j]\<rparr>)) (ret j)))"

definition enqueue_generation_job :: "'r env \<Rightarrow> uuid \<Rightarrow> ('r, unit) act" where
  "enqueue_generation_job env jid =
     bindE (redis_call (rd_rpush (en_ops env) (async_job_queue_name (en_cfg env)) (uuid_str jid))) (\<lambda>queue_depth.
     seqE (emit (Gauge ''ASYNC_QUEUE_DEPTH'' [] queue_depth)) (emit (Count ''ASYNC_JOB_COUNTER'' [''queued''])))"

definition chat_completions_async :: "'r env \<Rightarrow> client \<Rightarrow> chat_request \<Rightarrow> ('r, json) act" where
  "chat_completions_async env c q =
     bindE (create_chat_generation_job env c q) (\<lambda>j.
     seqE commit (seqE (enqueue_generation_job env (j_id j))
       (ret (JObj [(''id'', JStr (uuid_str (j_id j))), (''status'', JStr (j_status j)),
          (''endpoint'', JStr (j_endpoint j)), (''requested_model'', JStr (j_requested_model j)),
          (''resolved_model'', JStr (j_resolved_model j))]))))"

section \<open>Reading and cancelling\<close>

definition get_job_for_client :: "uuid \<Rightarrow> uuid \<Rightarrow> ('r, job option) act" where
  "get_job_for_client client_id jid =
     bindE (query (\<lambda>d. filter (\<lambda>j. j_id j = jid \<and> j_client_id j = client_id) (jobs d))) (\<lambda>rows.
     liftE (scalar_one_or_none rows))"

definition get_job_status :: "'r env \<Rightarrow> client \<Rightarrow> uuid \<Rightarrow> ('r, json) act" where
  "get_job_status env c jid =
     bindE (get_job_for_client (c_id c) jid) (\<lambda>found. case found of
       None \<Rightarrow> raise (http_error 404 ''job not found'')
     | Some j \<Rightarrow> ret (serialize_job (en_float env) j))"

definition cancelled :: "timestamp \<Rightarrow> job \<Rightarrow> job" where
  "cancelled now j = j\<lparr>j_status := ''cancelled'', j_cancelled_at := Some now, j_updated_at := now\<rparr>"

definition cancel_job :: "timestamp \<Rightarrow> uuid \<Rightarrow> uuid \<Rightarrow> ('r, job) act" where
  "cancel_job now client_id jid =
     bindE (get_job_for_client client_id jid) (\<lambda>found. case found of
       None \<Rightarrow> raise (http_error 404 ''job not found'')
     | Some j \<Rightarrow>
         if j_status j \<noteq> ''queued'' then raise (http_error 409 ''job can only be cancelled while queued'')
         else seqE (update (set_job jid (cancelled now)))
           (seqE (emit (Count ''ASYNC_JOB_COUNTER'' [''cancelled''])) (ret (cancelled now j))))"

definition cancel_generation_job :: "'r env \<Rightarrow> client \<Rightarrow> uuid \<Rightarrow> ('r, json) act" where
  "cancel_generation_job env c jid =
     bindE (cancel_job (en_now env) (c_id c) jid) (\<lambda>j. seqE commit (ret (serialize_job (en_float env) j)))"

text \<open>The latest two hundred rows; rows of the same instant stay in the order of the table.\<close>

definition queue_depth :: "'r env \<Rightarrow> ('r, int) act" where
  "queue_depth env =
     bindE (redis_call (rd_llen (en_ops env) (async_job_queue_name (en_cfg env)))) (\<lambda>n.
     seqE (emit (Gauge ''ASYNC_QUEUE_DEPTH'' [] n)) (ret n))"

definition jobs_with_status :: "string \<Rightarrow> db \<Rightarrow> json" where
  "jobs_with_status status d = JInt (int (length (filter (\<lambda>j. j_status j = status) (jobs d))))"

definition get_admin_job_snapshot :: "'r env \<Rightarrow> ('r, json) act" where
  "get_admin_job_snapshot env =
     bindE (query (\<lambda>d. d)) (\<lambda>d.
     bindE (queue_depth env) (\<lambda>n.
     ret (JObj [
       (''summary'', JObj [(''total'', JInt (int (length (jobs d)))), (''queued'', jobs_with_status ''queued'' d),
          (''running'', jobs_with_status ''running'' d), (''completed'', jobs_with_status ''completed'' d),
          (''failed'', jobs_with_status ''failed'' d), (''cancelled'', jobs_with_status ''cancelled'' d),
          (''queue_depth_redis'', JInt n)]),
       (''jobs'', JArr (map (serialize_job (en_float env)) (take 200 (sort_key (\<lambda>j. - j_created_at j) (jobs d)))))])))"

section \<open>Processing\<close>

text \<open>The writes to a row at the end of each way through.\<close>

definition job_failed :: "timestamp \<Rightarrow> string \<Rightarrow> job \<Rightarrow> job" where
  "job_failed now message j =
     j\<lparr>j_status := ''failed'', j_error_message := Some message, j_completed_at := Some now, j_updated_at := now\<rparr>"

definition job_cached :: "timestamp \<Rightarrow> json \<Rightarrow> int \<Rightarrow> job \<Rightarrow> job" where
  "job_cached now payload completion_tokens j =
     j\<lparr>j_status := ''completed'', j_backend_name := Some ''cache:exact'', j_response_json := Some (dumps payload),
       j_attempts := 0, j_fallback_used := False, j_completion_tokens := completion_tokens,
       j_completed_at := Some now, j_updated_at := now\<rparr>"

definition job_running :: "timestamp \<Rightarrow> route \<Rightarrow> backend \<Rightarrow> job \<Rightarrow> job" where
  "job_running now r b j =
     j\<lparr>j_status := ''running'', j_started_at := Some now, j_updated_at := now,
       j_inference_backend_id := Some (r_inference_backend_id r), j_backend_name := Some (b_name b)\<rparr>"

definition errors_json :: "json list \<Rightarrow> jtext option" where
  "errors_json errors = (if errors = [] then None else Some (dumps (JArr errors)))"

definition job_completed :: "timestamp \<Rightarrow> json \<Rightarrow> forward_result \<Rightarrow> int \<Rightarrow> job \<Rightarrow> job" where
  "job_completed finished payload result completion_tokens j =
     j\<lparr>j_status := ''completed'', j_response_json := Some (dumps payload), j_attempts := fr_attempts result,
       j_fallback_used := fr_fallback_used result, j_backend_errors_json := errors_json (fr_backend_errors result),
       j_completion_tokens := completion_tokens, j_completed_at := Some finished, j_updated_at := finished\<rparr>"

definition job_rejected :: "timestamp \<Rightarrow> string \<Rightarrow> json list \<Rightarrow> job \<Rightarrow> job" where
  "job_rejected finished message errors j =
     j\<lparr>j_status := ''failed'', j_error_message := Some message, j_attempts := max (int (length errors)) 1,
       j_fallback_used := length errors > 1, j_backend_errors_json := errors_json errors,
       j_completed_at := Some finished, j_updated_at := finished\<rparr>"

definition finish_job :: "uuid \<Rightarrow> string \<Rightarrow> (job \<Rightarrow> job) \<Rightarrow> ('r, string) act" where
  "finish_job jid status f =
     seqE (update (set_job jid f)) (seqE commit
       (seqE (emit (Count ''ASYNC_JOB_COUNTER'' [status])) (ret status)))"

text \<open>The stored body without its flag. A row's messages are the list its creation stored.\<close>

definition job_request :: "job \<Rightarrow> exc + dict \<times> bool" where
  "job_request j = (case loads (j_request_json j) of
       None \<Rightarrow> Inl JSONDecodeError
     | Some (JObj body) \<Rightarrow> Inr (dict_pop ''include_reasoning'' body,
         truthy (get_default body ''include_reasoning'' (JBool False)))
     | Some _ \<Rightarrow> Inl (AttributeError ''pop''))"

definition job_messages :: "dict \<Rightarrow> exc + json list" where
  "job_messages body = (case get_default body ''messages'' (JArr []) of
       JArr ms \<Rightarrow> Inr ms | _ \<Rightarrow> Inl (TypeError ''messages''))"

definition job_cache_key :: "'r env \<Rightarrow> job \<Rightarrow> dict \<Rightarrow> json list \<Rightarrow> bool \<Rightarrow> string \<times> string" where
  "job_cache_key env j body messages include_reasoning =
     build_chat_cache_key (en_hash_json env) (j_resolved_model j) messages (dict_get_or_null body ''temperature'')
       (dict_get_or_null body ''top_p'') (dict_get_or_null body ''max_tokens'') include_reasoning"

definition job_summary :: "'r env \<Rightarrow> json list \<Rightarrow> bool \<Rightarrow> exc + string" where
  "job_summary env messages include_reasoning =
     bindS (mapS as_dict messages) (\<lambda>ms. Inr (summarize_chat_request (en_sha256 env) ms include_reasoning))"

definition job_log_entry ::
  "job \<Rightarrow> int \<Rightarrow> int \<Rightarrow> string option \<Rightarrow> int \<Rightarrow> bool \<Rightarrow> bool \<Rightarrow> json list \<Rightarrow> string option \<Rightarrow> string \<Rightarrow> log_entry" where
  "job_log_entry j completion_tokens status backend_name attempts fallback_used cache_hit errors error_message summary =
     \<lparr>lg_client_id = j_client_id j, lg_model = j_resolved_model j, lg_endpoint = async_endpoint,
      lg_prompt_tokens = j_prompt_tokens j, lg_completion_tokens = completion_tokens, lg_latency_ms = 0,
      lg_status_code = status, lg_is_stream = False, lg_estimated_cost_usd = j_estimated_cost_usd j,
      lg_backend_name = backend_name, lg_attempts = attempts, lg_fallback_used = fallback_used,
      lg_cache_hit = cache_hit, lg_backend_errors = Some errors, lg_error_message = error_message,
      lg_request_summary = Some summary, lg_safety_profile = Some ''default'', lg_correlation_id = None,
      lg_source_ip = None\<rparr>"

definition complete_from_cache ::
  "'r env \<Rightarrow> job \<Rightarrow> json list \<Rightarrow> bool \<Rightarrow> cache_result \<Rightarrow> json \<Rightarrow> ('r, string) act" where
  "complete_from_cache env j messages include_reasoning hit payload =
     (let n = cr_completion_tokens hit in
      seqE (record_usage (en_now env) (en_today env) (j_client_id j) (j_prompt_tokens j) n)
        (bindE (liftE (job_summary env messages include_reasoning)) (\<lambda>summary.
         seqE (log_request (en_now env) (job_log_entry j n 200 (Some ''cache:exact'') 0 False True [] None summary))
           (finish_job (j_id j) ''completed'' (job_cached (en_now env) payload n)))))"

text \<open>The first route of the plan whose backend has a slot free.\<close>

fun first_free :: "timestamp \<Rightarrow> (route \<times> backend option) list \<Rightarrow> ('r, (route \<times> backend) option) act" where
  "first_free now [] = ret None"
| "first_free now ((r, None) # rs) = first_free now rs"
| "first_free now ((r, Some b) # rs) =
     bindE (try_acquire now (b_id b)) (\<lambda>taken. if taken then ret (Some (r, b)) else first_free now rs)"

definition start_job :: "timestamp \<Rightarrow> uuid \<Rightarrow> route \<Rightarrow> backend \<Rightarrow> ('r, unit) act" where
  "start_job now jid r b = seqE (update (set_job jid (job_running now r b))) commit"

text \<open>The call of the backend and what follows an answer. \<open>finished\<close> is the clock at the end.\<close>

definition job_call ::
  "'r env \<Rightarrow> timestamp \<Rightarrow> job \<Rightarrow> dict \<Rightarrow> json list \<Rightarrow> bool \<Rightarrow> model \<Rightarrow> backend \<Rightarrow> ('r, string) act" where
  "job_call env finished j body messages include_reasoning m b =
     bindE (chat (en_cfg env) (en_call env 1) (en_now env) body False include_reasoning b (m_prompt_template m) False)
       (\<lambda>result. case fr_response result of
          StreamBody _ _ _ _ _ _ _ \<Rightarrow> raise (AttributeError ''body'')
        | JsonBody status payload \<Rightarrow>
            (let n = estimate_tokens_from_text (en_render env payload);
                 (key, fingerprint) = job_cache_key env j body messages include_reasoning in
             seqE (store_exact_cache (en_cfg env) (en_now env) ''/v1/chat/completions'' (j_resolved_model j)
                     key fingerprint payload (j_prompt_tokens j) n)
               (seqE (record_usage (en_now env) (en_today env) (j_client_id j) (j_prompt_tokens j) n)
                 (bindE (liftE (job_summary env messages include_reasoning)) (\<lambda>summary.
                  seqE (log_request (en_now env) (job_log_entry j n status (Some (fr_backend_name result))
                          (fr_attempts result) (fr_fallback_used result) False (fr_backend_errors result) None summary))
                    (finish_job (j_id j) ''completed'' (job_completed finished payload result n)))))))"

definition detail_message :: "(json \<Rightarrow> string) \<Rightarrow> json \<Rightarrow> string" where
  "detail_message rp detail =
     (case detail of JObj d \<Rightarrow> py_str rp (dict_get_or_null d ''message'') | _ \<Rightarrow> py_str rp detail)"

definition reject_job ::
  "'r env \<Rightarrow> timestamp \<Rightarrow> job \<Rightarrow> json list \<Rightarrow> bool \<Rightarrow> string \<Rightarrow> int \<Rightarrow> json \<Rightarrow> ('r, string) act" where
  "reject_job env finished j messages include_reasoning backend_name status detail =
     (let errors = backend_errors_for_log detail; message = detail_message (en_repr env) detail in
      bindE (liftE (job_summary env messages include_reasoning)) (\<lambda>summary.
      seqE (log_request (en_now env) (job_log_entry j 0 status (Some backend_name) (max (int (length errors)) 1)
              (length errors > 1) False errors (Some message) summary))
        (seqE (update (set_job (j_id j) (job_rejected finished message errors)))
          (seqE (maybe_record_request_error_burst (en_ops env) (en_now env) (j_client_id j) async_endpoint
                   status (Some backend_name))
            (seqE commit (seqE (emit (Count ''ASYNC_JOB_COUNTER'' [''failed''])) (ret ''failed'')))))))"

definition run_job ::
  "'r env \<Rightarrow> timestamp \<Rightarrow> ('r world \<Rightarrow> 'r world) \<Rightarrow> job \<Rightarrow> dict \<Rightarrow> json list \<Rightarrow> bool \<Rightarrow> model \<Rightarrow> route \<Rightarrow> backend \<Rightarrow>
   ('r, string) act" where
  "run_job env finished others j body messages include_reasoning m r b =
     finallyE
       (catchE (seqE (modifyE others) (job_call env finished j body messages include_reasoning m b))
          (\<lambda>e. case e of
             HTTPException status detail \<Rightarrow>
               reject_job env finished j messages include_reasoning (b_name b) status detail
           | _ \<Rightarrow> raise e))
       (release (en_now env) (r_inference_backend_id r))"

text \<open>
  Neither blocked nor suspended nor gone. The row is read once; what other tasks do while the
  processing waits comes in at two points: \<open>others 0\<close> between the reading of the row and the first
  write to it, \<open>others 1\<close> during the call of the backend.
\<close>

definition job_client_usable :: "db \<Rightarrow> job \<Rightarrow> bool" where
  "job_client_usable d j = (case List.find (\<lambda>c. c_id c = j_client_id j) (clients d) of
       None \<Rightarrow> False
     | Some c \<Rightarrow> \<not> c_is_blocked c \<and> c_billing_status c \<noteq> ''suspended'')"

definition job_model :: "db \<Rightarrow> job \<Rightarrow> model option" where
  "job_model d j = (case j_model_registry_id j of None \<Rightarrow> None
     | Some mid \<Rightarrow> List.find (\<lambda>m. m_id m = mid) (models d))"

definition claim_and_run ::
  "'r env \<Rightarrow> timestamp \<Rightarrow> ('r world \<Rightarrow> 'r world) \<Rightarrow> job \<Rightarrow> model option \<Rightarrow> exc + (route \<times> backend option) list \<Rightarrow>
   dict \<Rightarrow> json list \<Rightarrow> bool \<Rightarrow> ('r, string) act" where
  "claim_and_run env finished others j found planned body messages include_reasoning =
     (case found of
        None \<Rightarrow> finish_job (j_id j) ''failed'' (job_failed (en_now env) ''configured model no longer exists'')
      | Some m \<Rightarrow>
          bindE (liftE planned) (\<lambda>planned.
          bindE (first_free (en_now env) planned) (\<lambda>chosen_route. case chosen_route of
            None \<Rightarrow> bindE (queue_depth env) (\<lambda>_. ret ''requeue'')
          | Some (r, b) \<Rightarrow>
              seqE (start_job (en_now env) (j_id j) r b)
                (run_job env finished others j body messages include_reasoning m r b))))"

definition process_queued ::
  "'r env \<Rightarrow> timestamp \<Rightarrow> (nat \<Rightarrow> 'r world \<Rightarrow> 'r world) \<Rightarrow> job \<Rightarrow> model option \<Rightarrow> exc + (route \<times> backend option) list \<Rightarrow>
   ('r, string) act" where
  "process_queued env finished others j found planned =
     bindE (liftE (job_request j)) (\<lambda>(body, include_reasoning).
     bindE (liftE (job_messages body)) (\<lambda>messages.
     bindE (lookup_exact_cache (en_cfg env) (en_now env) ''/v1/chat/completions'' (j_resolved_model j)
              (fst (job_cache_key env j body messages include_reasoning))) (\<lambda>hit.
     seqE (modifyE (others 0))
       (case cr_payload hit of
          Some payload \<Rightarrow>
            if cr_hit hit \<and> payload \<noteq> JNull
            then complete_from_cache env j messages include_reasoning hit payload
            else claim_and_run env finished (others 1) j found planned body messages include_reasoning
        | None \<Rightarrow> claim_and_run env finished (others 1) j found planned body messages include_reasoning))))"

text \<open>
  The query of the job names the routes of the model and their backends, but not the model's own
  backend. With \<open>en_lazy = None\<close> the mapped class loads it anyway. Otherwise the check of the routing finds it
  missing when the model has no routes, and where no route is usable the plan reads it all the same:
  \<open>en_lazy\<close> then says which exception that read raises, if any.
\<close>

definition read_primary :: "'r env \<Rightarrow> db \<Rightarrow> model \<Rightarrow> exc + unit" where
  "read_primary env d m = (case en_lazy env of
       None \<Rightarrow> Inr ()
     | Some raised \<Rightarrow> if list_ex (route_usable d) (model_routes d m) then Inr ()
         else (case raised d m of None \<Rightarrow> Inr () | Some e \<Rightarrow> Inl e))"

definition job_plan :: "'r env \<Rightarrow> db \<Rightarrow> job \<Rightarrow> exc + (route \<times> backend option) list" where
  "job_plan env d j = (case job_model d j of
       None \<Rightarrow> Inr []
     | Some m \<Rightarrow>
         bindS (ensure_model_routing_loaded (if en_lazy env = None then [] else [''inference_backend'']) (\<lambda>_. []) False d m) (\<lambda>_.
         bindS (read_primary env d m) (\<lambda>_. Inr (planned_routes (en_pick env) d m))))"

definition process_generation_job ::
  "'r env \<Rightarrow> timestamp \<Rightarrow> (nat \<Rightarrow> 'r world \<Rightarrow> 'r world) \<Rightarrow> uuid \<Rightarrow> ('r, string) act" where
  "process_generation_job env finished others jid =
     bindE (query (\<lambda>d. d)) (\<lambda>d.
     bindE (liftE (scalar_one_or_none (filter (\<lambda>j. j_id j = jid) (jobs d)))) (\<lambda>found. case found of
       None \<Rightarrow> ret ''missing''
     | Some j \<Rightarrow>
         if j_status j \<in> {''completed'', ''failed'', ''cancelled''} then ret ''skipped''
         else if j_status j \<noteq> ''queued'' then ret ''skipped''
         else if \<not> job_client_usable d j
         then finish_job jid ''failed'' (job_failed (en_now env) ''client blocked, missing or suspended'')
         else process_queued env finished others j (job_model d j) (job_plan env d j)))"

section \<open>The worker\<close>

text \<open>
  \<open>uuid.UUID(text)\<close>: prefixes, braces and hyphens are dropped, thirty-two characters must be left,
  and they are read as a hexadecimal number the way \<open>int(text, 16)\<close> does.
\<close>

definition hex_value :: "char \<Rightarrow> nat option" where
  "hex_value c = (let n = py_ord c in
     if 48 \<le> n \<and> n \<le> 57 then Some (n - 48)
     else if 97 \<le> n \<and> n \<le> 102 then Some (n - 87)
     else if 65 \<le> n \<and> n \<le> 70 then Some (n - 55) else None)"

fun read_hex :: "bool \<Rightarrow> nat \<Rightarrow> string \<Rightarrow> nat option" where
  "read_hex after_digit n [] = (if after_digit then Some n else None)"
| "read_hex after_digit n (c # s) = (case hex_value c of
       Some d \<Rightarrow> read_hex True (16 * n + d) s
     | None \<Rightarrow> if c = CHR ''_'' \<and> after_digit then read_hex False n s else None)"

definition hex_int :: "string \<Rightarrow> nat option" where
  "hex_int text = (let s = strip text; s = (if starts_with ''+'' s then drop 1 s else s) in
     if starts_with ''0x'' s \<or> starts_with ''0X'' s
     then (let rest = drop 2 s in read_hex False 0 (if starts_with ''_'' rest then drop 1 rest else rest))
     else read_hex False 0 s)"

definition strip_braces :: "string \<Rightarrow> string" where
  "strip_braces s = (let brace = (\<lambda>c. c = CHR ''{'' \<or> c = CHR ''}'') in
     rev (dropWhile brace (rev (dropWhile brace s))))"

definition uuid_of_text :: "string \<Rightarrow> uuid option" where
  "uuid_of_text text =
     (let hex = filter (\<lambda>c. c \<noteq> CHR ''-'') (strip_braces (replace ''uuid:'' [] (replace ''urn:'' [] text))) in
      if length hex \<noteq> 32 then None else hex_int hex)"

definition run_once :: "'r env \<Rightarrow> timestamp \<Rightarrow> (nat \<Rightarrow> 'r world \<Rightarrow> 'r world) \<Rightarrow> ('r, unit) act" where
  "run_once env finished others =
     (let queue = async_job_queue_name (en_cfg env) in
      bindE (redis_call (rd_lpop (en_ops env) queue)) (\<lambda>item.
      bindE (queue_depth env) (\<lambda>_.
      case item of
        None \<Rightarrow> ret ()
      | Some raw_job_id \<Rightarrow>
          (case uuid_of_text raw_job_id of
             None \<Rightarrow> ret ()
           | Some jid \<Rightarrow> handle (bindE (process_generation_job env finished others jid) (\<lambda>result.
               if result = ''requeue''
               then bindE (redis_call (rd_rpush (en_ops env) queue (uuid_str jid))) (\<lambda>_.
                 bindE (queue_depth env) (\<lambda>_. ret ()))
               else ret ()))))))"

text \<open>The loop of \<open>main\<close>, for as many turns as are given. An exception of a turn ends the process.\<close>

definition worker_turns ::
  "('r env \<times> timestamp \<times> (nat \<Rightarrow> 'r world \<Rightarrow> 'r world)) list \<Rightarrow> ('r, unit) act" where
  "worker_turns turns = bindE (forE turns (\<lambda>(env, finished, others). run_once env finished others)) (\<lambda>_. ret ())"

end
