(* ===== verification/JobLifecycle.thy ===== *)
theory JobLifecycle
  imports GenerationJobs
begin

text \<open>
  What the processing of a job does to its row, to the usage tables and to the request log, for
  every way it ends; and what the operations keep of the well-formedness of the job table.
\<close>

section \<open>Rules\<close>

lemma ends_catchE:
  assumes m: "ends I Q m" and h: "\<And>e. ends (Q (Inl e)) Q' (h e)" and ok: "\<And>x t. Q (Inr x) t \<Longrightarrow> Q' (Inr x) t"
  shows "ends I Q' (catchE m h)"
proof (rule endsI)
  fix s r t
  assume I: "I s" and run: "catchE m h s = (r, t)"
  obtain x u where x: "m s = (x, u)" by (cases "m s")
  note Q = endsD [OF m I x]
  show "Q' r t"
  proof (cases x)
    case (Inl e)
    with run x have "h e u = (r, t)" by (simp add: catchE_def)
    with Q Inl show ?thesis by (simp add: endsD [OF h])
  next
    case (Inr y)
    with run x Q ok show ?thesis by (auto simp: catchE_def)
  qed
qed

lemma ends_finallyE:
  assumes m: "ends I Q m" and c: "\<And>r. ends (Q r) (\<lambda>r' t. (case r' of Inl e \<Rightarrow> Q' (Inl e) t | Inr _ \<Rightarrow> Q' r t)) c"
  shows "ends I Q' (finallyE m c)"
proof (rule endsI)
  fix s r t
  assume I: "I s" and run: "finallyE m c s = (r, t)"
  obtain x u where x: "m s = (x, u)" by (cases "m s")
  obtain y v where y: "c u = (y, v)" by (cases "c u")
  from endsD [OF c endsD [OF m I x] y] run x y show "Q' r t"
    by (cases y) (auto simp: finallyE_def)
qed

lemma ends_weaken: "ends I Q m \<Longrightarrow> (\<And>s. J s \<Longrightarrow> I s) \<Longrightarrow> (\<And>r t. Q r t \<Longrightarrow> Q' r t) \<Longrightarrow> ends J Q' m"
  unfolding ends_def by blast

lemma ends_step:
  assumes m: "ends I Q m" and f: "\<And>x. ends (Q (Inr x)) Q' (f x)" and e: "\<And>e t. Q (Inl e) t \<Longrightarrow> Q' (Inl e) t"
  shows "ends I Q' (bindE m f)"
proof (rule endsI)
  fix s r t
  assume I: "I s" and run: "bindE m f s = (r, t)"
  obtain x u where x: "m s = (x, u)" by (cases "m s")
  from endsD [OF m I x] run x e show "Q' r t" by (cases x) (auto simp: bindE_apply dest: endsD [OF f])
qed

lemma keeps_conj: "keeps I m \<Longrightarrow> keeps J m \<Longrightarrow> keeps (\<lambda>s. I s \<and> J s) m"
  by (simp add: keeps_def)

lemma keeps_ends: "keeps I m \<Longrightarrow> ends I (\<lambda>_ t. I t) m"
  by (auto simp: keeps_def ends_def)

section \<open>The job table along a run\<close>

text \<open>The table \<open>J\<close> with the row \<open>jid\<close> replaced.\<close>

definition put_job :: "uuid \<Rightarrow> job \<Rightarrow> job list \<Rightarrow> job list" where
  "put_job jid j J = upd_where (\<lambda>x. j_id x = jid) (\<lambda>_. j) J"

lemma put_job_same: "filter (\<lambda>x. j_id x = jid) J = [j] \<Longrightarrow> put_job jid j J = J"
proof -
  assume one: "filter (\<lambda>x. j_id x = jid) J = [j]"
  have "x = j" if "x \<in> set J" "j_id x = jid" for x
  proof -
    from that have "x \<in> set (filter (\<lambda>x. j_id x = jid) J)" by simp
    with one show ?thesis by simp
  qed
  then show ?thesis unfolding put_job_def by (intro upd_where_id) auto
qed

lemma set_put_job:
  assumes "j_id j = jid" and "j_id (f j) = jid"
  shows "upd_where (\<lambda>x. j_id x = jid) f (put_job jid j J) = put_job jid (f j) J"
  using assms by (induction J) (auto simp: put_job_def)

text \<open>Nothing used yet, and the job table is \<open>T\<close>, both in the session and in what is committed.\<close>

definition job_inv :: "(uuid \<times> date \<times> string \<Rightarrow> int) \<Rightarrow> request_log list \<Rightarrow> job list \<Rightarrow> 'r world \<Rightarrow> bool" where
  "job_inv L R T w \<longleftrightarrow> db_inv (unbilled L R) w \<and> db_inv (\<lambda>d. jobs d = T) w"

lemma job_inv_keeps:
  "keeps (db_inv (unbilled L R)) m \<Longrightarrow> keeps (db_inv (\<lambda>d. jobs d = T)) m \<Longrightarrow> keeps (job_inv L R T) m"
  by (simp add: keeps_def job_inv_def)

text \<open>Steps that do not touch the job table.\<close>

lemma jobs_fresh [keeps_intros]: "keeps (db_inv (\<lambda>d. jobs d = T)) fresh_id"
  by (rule keeps_fresh) simp

lemma jobs_cache [keeps_intros]:
  "keeps (db_inv (\<lambda>d. jobs d = T)) (lookup_exact_cache cfg now ep m h)"
  "keeps (db_inv (\<lambda>d. jobs d = T)) (store_exact_cache cfg now ep m h f p n k)"
  unfolding lookup_exact_cache_def store_exact_cache_def Let_def
  by (auto intro!: keeps_intros keeps_update split: option.split)

lemma jobs_slots [keeps_intros]:
  "keeps (db_inv (\<lambda>d. jobs d = T)) (try_acquire now bid)" "keeps (db_inv (\<lambda>d. jobs d = T)) (release now bid)"
  unfolding try_acquire_def release_def
  by (rule keeps_own_session, auto simp: try_acquire_db_def release_db_def set_running_def split: option.splits)+

lemma jobs_record_usage [keeps_intros]: "keeps (db_inv (\<lambda>d. jobs d = T)) (record_usage now today c p n)"
  unfolding record_usage_def record_usage_in_def get_or_create_counter_def get_or_create_usage_record_def Let_def
  by (auto intro!: keeps_intros keeps_update split: option.split)

lemma jobs_log_request [keeps_intros]: "keeps (db_inv (\<lambda>d. jobs d = T)) (log_request now g)"
  by (rule keepsI) (auto simp: db_inv_def log_request_def seqE_def bindE_def)

lemma job_chat [keeps_intros]:
  "keeps (job_inv L R T) (chat cfg x now body st ir b tpl False)"
proof (rule job_inv_keeps)
  show "keeps (db_inv (unbilled L R)) (chat cfg x now body st ir b tpl False)"
    unfolding chat_def forward_def Let_def if_False by (auto intro!: keeps_intros forward_body_keeps)
  show "keeps (db_inv (\<lambda>d. jobs d = T)) (chat cfg x now body st ir b tpl False)"
    unfolding chat_def forward_def Let_def if_False by (auto intro!: keeps_intros forward_body_keeps)
qed

lemma job_cache [keeps_intros]:
  "keeps (job_inv L R T) (lookup_exact_cache cfg now ep m h)"
  "keeps (job_inv L R T) (store_exact_cache cfg now ep m h f p n k)"
  by (auto intro!: job_inv_keeps keeps_intros)

lemma job_slots [keeps_intros]:
  "keeps (job_inv L R T) (try_acquire now bid)" "keeps (job_inv L R T) (release now bid)"
  by (auto intro!: job_inv_keeps keeps_intros)

lemma job_depth [keeps_intros]: "keeps (job_inv L R T) (queue_depth env)"
  unfolding queue_depth_def by (auto intro!: job_inv_keeps keeps_intros)

lemma job_first_free [keeps_intros]: "keeps (job_inv L R T) (first_free now rs)"
proof (induction rs)
  case Nil
  show ?case by (simp add: keeps_ret)
next
  case (Cons p rs)
  obtain r b where "p = (r, b)" by (cases p)
  with Cons show ?case by (cases b) (auto intro!: keeps_intros)
qed

text \<open>What other tasks may do meanwhile: anything that leaves the usage, the log and the jobs alone.\<close>

definition job_bystander :: "('r world \<Rightarrow> 'r world) \<Rightarrow> bool" where
  "job_bystander g \<longleftrightarrow> bystander g \<and> (\<forall>w. jobs (w_db (g w)) = jobs (w_db w) \<and> jobs (w_saved (g w)) = jobs (w_saved w))"

lemma job_bystander_keeps: "job_bystander g \<Longrightarrow> keeps (job_inv L R T) (modifyE g)"
  by (rule keeps_modifyE)
    (auto simp: job_inv_def db_inv_def job_bystander_def bystander_def leaves_usage_def intro: unbilled_cong)

section \<open>The ends of a run\<close>

text \<open>
  The committed state a run ends in, from the row \<open>j\<close> of the table \<open>J\<close>: completed and accounted
  for, failed with nothing used, or left as it was; after an exception, at most running.
\<close>

definition committed_row :: "job list \<Rightarrow> uuid \<Rightarrow> string \<Rightarrow> (job \<Rightarrow> bool) \<Rightarrow> 'r world \<Rightarrow> bool" where
  "committed_row J jid status P t \<longleftrightarrow>
     (\<exists>j. jobs (w_saved t) = put_job jid j J \<and> j_id j = jid \<and> j_status j = status \<and> P j)"

definition unused_saved :: "(uuid \<times> date \<times> string \<Rightarrow> int) \<Rightarrow> request_log list \<Rightarrow> 'r world \<Rightarrow> bool" where
  "unused_saved L R t \<longleftrightarrow> ledger (w_saved t) = L \<and> request_logs (w_saved t) = R"

definition completed_end ::
  "(uuid \<times> date \<times> string \<Rightarrow> int) \<Rightarrow> request_log list \<Rightarrow> job list \<Rightarrow> date \<Rightarrow> job \<Rightarrow> 'r world \<Rightarrow> bool" where
  "completed_end L R J today j0 t \<longleftrightarrow>
     committed_row J (j_id j0) ''completed'' (\<lambda>j. j_response_json j \<noteq> None \<and> j_completed_at j \<noteq> None \<and>
       ledger (w_saved t) = add_usage (j_client_id j0) today (j_prompt_tokens j0 + j_completion_tokens j) L \<and>
       (\<exists>row. request_logs (w_saved t) = R @ [row] \<and> rl_client_id row = j_client_id j0 \<and>
          rl_prompt_tokens row = j_prompt_tokens j0 \<and> rl_completion_tokens row = j_completion_tokens j)) t"

definition failed_end ::
  "(uuid \<times> date \<times> string \<Rightarrow> int) \<Rightarrow> request_log list \<Rightarrow> job list \<Rightarrow> uuid \<Rightarrow> 'r world \<Rightarrow> bool" where
  "failed_end L R J jid t \<longleftrightarrow>
     committed_row J jid ''failed'' (\<lambda>j. j_error_message j \<noteq> None \<and> j_completed_at j \<noteq> None) t \<and>
     ledger (w_saved t) = L \<and> (\<exists>rows. request_logs (w_saved t) = R @ rows \<and> length rows \<le> 1)"

definition job_end ::
  "(uuid \<times> date \<times> string \<Rightarrow> int) \<Rightarrow> request_log list \<Rightarrow> job list \<Rightarrow> date \<Rightarrow> job \<Rightarrow> exc + string \<Rightarrow> 'r world \<Rightarrow> bool" where
  "job_end L R J today j0 r t = (case r of
       Inl e \<Rightarrow> unused_saved L R t \<and>
         (jobs (w_saved t) = J \<or> committed_row J (j_id j0) ''running'' (\<lambda>_. True) t)
     | Inr status \<Rightarrow>
         if status = ''completed'' then completed_end L R J today j0 t
         else if status = ''failed'' then failed_end L R J (j_id j0) t
         else unused_saved L R t \<and> jobs (w_saved t) = J)"

text \<open>The writes keep the identity of the row, and set the status they stand for.\<close>

definition writes :: "string \<Rightarrow> (job \<Rightarrow> bool) \<Rightarrow> (job \<Rightarrow> job) \<Rightarrow> bool" where
  "writes status P f \<longleftrightarrow> (\<forall>j. j_id (f j) = j_id j \<and> j_status (f j) = status \<and> j_completed_at (f j) \<noteq> None \<and> P (f j))"

lemma job_writes [simp]:
  "writes ''failed'' (\<lambda>j. j_error_message j \<noteq> None) (job_failed now m)"
  "writes ''completed'' (\<lambda>j. j_response_json j \<noteq> None \<and> j_completion_tokens j = n) (job_cached now p n)"
  "writes ''completed'' (\<lambda>j. j_response_json j \<noteq> None \<and> j_completion_tokens j = n) (job_completed now p x n)"
  "writes ''failed'' (\<lambda>j. j_error_message j \<noteq> None) (job_rejected now m es)"
  by (simp_all add: writes_def job_failed_def job_cached_def job_completed_def job_rejected_def)

lemma finish_job_run:
  "finish_job jid status f w = (Inr status, w\<lparr>w_db := set_job jid f (w_db w), w_saved := set_job jid f (w_db w),
     w_metrics := w_metrics w @ [Count ''ASYNC_JOB_COUNTER'' [status]]\<rparr>)"
  by (simp add: finish_job_def)

lemma set_job_tables [simp]:
  "quota_counters (set_job jid f d) = quota_counters d" "usage_records (set_job jid f d) = usage_records d"
  "request_logs (set_job jid f d) = request_logs d" "next_id (set_job jid f d) = next_id d"
  "jobs (set_job jid f d) = upd_where (\<lambda>j. j_id j = jid) f (jobs d)"
  by (simp_all add: set_job_def)

lemma set_job_ledger [simp]: "ledger (set_job jid f d) = ledger d"
  by (rule ledger_cong) simp

lemma finish_failed:
  assumes w: "job_inv L R (put_job jid j J) w" and j: "j_id j = jid"
    and f: "writes ''failed'' (\<lambda>j. j_error_message j \<noteq> None) f"
  shows "\<exists>t. finish_job jid ''failed'' f w = (Inr ''failed'', t) \<and> failed_end L R J jid t"
proof -
  have "jobs (w_db w) = put_job jid j J" "ledger (w_db w) = L" "request_logs (w_db w) = R"
    using w by (auto simp: job_inv_def db_inv_def unbilled_def)
  then show ?thesis using f j
    by (auto simp: finish_job_run failed_end_def committed_row_def writes_def set_put_job intro!: exI [where x = "f j"])
qed

lemma mapS_error: "mapS f xs = Inl e \<Longrightarrow> \<exists>x\<in>set xs. f x = Inl e"
proof (induction xs)
  case (Cons x xs)
  then show ?case by (cases "f x"; cases "mapS f xs") auto
qed simp

lemma job_summary_error: "job_summary env ms ir = Inl e \<Longrightarrow> e \<noteq> HTTPException s d"
proof -
  assume "job_summary env ms ir = Inl e"
  then have "mapS as_dict ms = Inl e" by (cases "mapS as_dict ms") (auto simp: job_summary_def)
  then obtain v where "as_dict v = Inl e" using mapS_error [of as_dict ms e] by blast
  then show ?thesis by (cases v) auto
qed

lemma saved_record_usage: "keeps (\<lambda>w. w_saved w = S) (record_usage now today c p n)"
  unfolding record_usage_def record_usage_in_def get_or_create_counter_def get_or_create_usage_record_def Let_def
  by (auto intro!: keeps_intros split: option.split)

lemma jobs_of_session:
  "keeps (\<lambda>w. jobs (w_db w) = T) (record_usage now today c p n)"
  "keeps (\<lambda>w. jobs (w_db w) = T) (log_request now g)"
proof -
  have update: "keeps (\<lambda>w. jobs (w_db w) = T) (update f)" if "\<And>d. jobs (f d) = jobs d" for f :: "db \<Rightarrow> db"
    using that by (simp add: keeps_def)
  have fresh: "keeps (\<lambda>w. jobs (w_db w) = T) fresh_id" by (simp add: keeps_def)
  show "keeps (\<lambda>w. jobs (w_db w) = T) (record_usage now today c p n)"
    unfolding record_usage_def record_usage_in_def get_or_create_counter_def get_or_create_usage_record_def Let_def
    by (auto intro!: keeps_intros update fresh split: option.split)
  show "keeps (\<lambda>w. jobs (w_db w) = T) (log_request now g)"
    by (rule keepsI) (auto simp: log_request_def seqE_def bindE_def)
qed

lemma jobs_prims [keeps_intros]:
  "keeps (\<lambda>w. jobs (w_db w) = T) (redis_call h)" "keeps (\<lambda>w. jobs (w_db w) = T) (emit x)"
  "keeps (\<lambda>w. jobs (w_db w) = T) (log_security_event now ev)"
  by (auto simp: keeps_def redis_call_def log_security_event_def seqE_def bindE_def split: prod.splits)

lemma jobs_burst: "keeps (\<lambda>w. jobs (w_db w) = T) (maybe_record_request_error_burst ops now cid ep s b)"
  unfolding maybe_record_request_error_burst_def count_hit_def Let_def by (auto intro!: keeps_intros)

text \<open>The accounting of an answered job: what \<open>complete_from_cache\<close> and \<open>job_call\<close> end in.\<close>

definition completed_or_clean ::
  "(uuid \<times> date \<times> string \<Rightarrow> int) \<Rightarrow> request_log list \<Rightarrow> job list \<Rightarrow> date \<Rightarrow> job \<Rightarrow> job \<Rightarrow> exc + string \<Rightarrow> 'r world \<Rightarrow> bool" where
  "completed_or_clean L R J today j0 j r t = (case r of
       Inr status \<Rightarrow> status = ''completed'' \<and> completed_end L R J today j0 t
     | Inl e \<Rightarrow> job_inv L R (put_job (j_id j0) j J) t \<or>
         (\<forall>s d. e \<noteq> HTTPException s d) \<and> unused_saved L R t \<and> jobs (w_saved t) = put_job (j_id j0) j J)"

lemma completed_tail:
  assumes j: "j_id j = j_id j0"
    and f: "writes ''completed'' (\<lambda>j. j_response_json j \<noteq> None \<and> j_completion_tokens j = n) f"
    and G: "\<And>s. lg_client_id (G s) = j_client_id j0 \<and> lg_prompt_tokens (G s) = j_prompt_tokens j0 \<and>
      lg_completion_tokens (G s) = n"
  shows "ends (job_inv L R (put_job (j_id j0) j J)) (completed_or_clean L R J today j0 j)
    (seqE (record_usage now today (j_client_id j0) (j_prompt_tokens j0) n)
      (bindE (liftE (job_summary env ms ir)) (\<lambda>s. seqE (log_request now (G s)) (finish_job (j_id j0) ''completed'' f))))"
    (is "ends _ _ (seqE ?record (bindE _ ?rest))")
proof (rule endsI)
  fix w r t
  assume w: "job_inv L R (put_job (j_id j0) j J) w"
    and run: "seqE ?record (bindE (liftE (job_summary env ms ir)) ?rest) w = (r, t)"
  have inv: "quota_inv (w_db w)" and led: "ledger (w_db w) = L" and logs: "request_logs (w_db w) = R"
    and tab: "jobs (w_db w) = put_job (j_id j0) j J"
    using w by (auto simp: job_inv_def db_inv_def unbilled_def)
  obtain u where u: "?record w = (Inr (), u)" "quota_inv (w_db u)"
    "ledger (w_db u) = add_usage (j_client_id j0) today (j_prompt_tokens j0 + n) L"
    by (rule record_usage_spec [OF inv, of now today "j_client_id j0" "j_prompt_tokens j0" n]) (use led in simp)
  have R: "request_logs (w_db u) = R" by (rule keepsD2 [OF logs_record_usage logs u(1)])
  have T: "jobs (w_db u) = put_job (j_id j0) j J" by (rule keepsD2 [OF jobs_of_session(1) tab u(1)])
  have S: "w_saved u = w_saved w" by (rule keepsD2 [OF saved_record_usage refl u(1)])
  show "completed_or_clean L R J today j0 j r t"
  proof (cases "job_summary env ms ir")
    case (Inl e)
    with run u(1) have "r = Inl e" "t = u" by (simp_all add: seqE_apply)
    with job_summary_error [OF Inl] S w show ?thesis
      by (auto simp: completed_or_clean_def unused_saved_def job_inv_def db_inv_def unbilled_def)
  next
    case (Inr s)
    obtain v row where v: "log_request now (G s) u = (Inr (), v)"
      "quota_counters (w_db v) = quota_counters (w_db u)" "usage_records (w_db v) = usage_records (w_db u)"
      "next_id (w_db u) \<le> next_id (w_db v)" "request_logs (w_db v) = R @ [row]" "logs_entry (G s) row"
      using log_request_run [of now "G s" u] R by auto
    have T: "jobs (w_db v) = put_job (j_id j0) j J" by (rule keepsD2 [OF jobs_of_session(2) T v(1)])
    have L: "ledger (w_db v) = add_usage (j_client_id j0) today (j_prompt_tokens j0 + n) L"
      using quota_inv_cong(2) [OF u(2) v(2-4)] u(3) by simp
    have rt: "(r, t) = finish_job (j_id j0) ''completed'' f v"
      using run u(1) v(1) Inr by (simp add: seqE_apply)
    have "jobs (w_saved t) = put_job (j_id j0) (f j) J"
      using rt T f j by (simp add: finish_job_run set_put_job writes_def)
    moreover have "ledger (w_saved t) = add_usage (j_client_id j0) today (j_prompt_tokens j0 + n) L"
      "request_logs (w_saved t) = R @ [row]" "r = Inr ''completed''"
      using rt L v(5) by (simp_all add: finish_job_run)
    ultimately show ?thesis using f j v(6) G [of s]
      by (auto simp: completed_or_clean_def completed_end_def committed_row_def writes_def logs_entry_def log_row_def
          intro!: exI [where x = "f j"])
  qed
qed

lemma cached_ends:
  assumes "j_id j = j_id j0" and "j = j0"
  shows "ends (job_inv L R (put_job (j_id j0) j J)) (completed_or_clean L R J (en_today env) j0 j)
     (complete_from_cache env j0 ms ir hit payload)"
  unfolding complete_from_cache_def Let_def
  by (rule completed_tail [OF assms(1) job_writes(2)]) (simp add: job_log_entry_def)

lemma job_call_ends:
  assumes "j_id j = j_id j0"
  shows "ends (job_inv L R (put_job (j_id j0) j J)) (completed_or_clean L R J (en_today env) j0 j)
     (job_call env finished j0 body ms ir m b)"
proof -
  have clean: "completed_or_clean L R J (en_today env) j0 j (Inl e) t"
    if "job_inv L R (put_job (j_id j0) j J) t" for e t
    using that by (simp add: completed_or_clean_def)
  have tail: "ends (job_inv L R (put_job (j_id j0) j J)) (completed_or_clean L R J (en_today env) j0 j)
      (seqE (store_exact_cache (en_cfg env) (en_now env) ep mo h fp payload p n)
        (seqE (record_usage (en_now env) (en_today env) (j_client_id j0) (j_prompt_tokens j0) n)
          (bindE (liftE (job_summary env ms ir)) (\<lambda>s.
           seqE (log_request (en_now env) (job_log_entry j0 n status bn k fb ch es em s))
             (finish_job (j_id j0) ''completed'' (job_completed finished payload x n))))))"
    for ep mo h fp payload p n status bn k fb ch es em x
  proof (rule ends_seqE [OF job_cache(2)])
    show "completed_or_clean L R J (en_today env) j0 j (Inl e) t" if "job_inv L R (put_job (j_id j0) j J) t"
      for e t
      by (rule clean [OF that])
  qed (rule completed_tail [OF assms job_writes(3)], simp add: job_log_entry_def)
  show ?thesis
    unfolding job_call_def
    by (intro ends_bindE keeps_intros clean)
      (auto split: response_body.split prod.split simp: Let_def intro!: ends_raise clean tail)
qed

text \<open>The rejection of a job whose call failed: one row in the log, the row failed, nothing used.\<close>

lemma reject_ends:
  assumes j: "j_id j = j_id j0"
  shows "ends (job_inv L R (put_job (j_id j0) j J))
     (\<lambda>r t. case r of Inr status \<Rightarrow> status = ''failed'' \<and> failed_end L R J (j_id j0) t
        | Inl e \<Rightarrow> job_inv L R (put_job (j_id j0) j J) t)
     (reject_job env finished j0 ms ir bn status detail)"
proof (rule endsI)
  fix w r t
  assume w: "job_inv L R (put_job (j_id j0) j J) w" and run: "reject_job env finished j0 ms ir bn status detail w = (r, t)"
  let ?errors = "backend_errors_for_log detail" and ?m = "detail_message (en_repr env) detail"
  show "case r of Inr status \<Rightarrow> status = ''failed'' \<and> failed_end L R J (j_id j0) t
        | Inl e \<Rightarrow> job_inv L R (put_job (j_id j0) j J) t"
  proof (cases "job_summary env ms ir")
    case (Inl e)
    with run have "r = Inl e" "t = w" by (simp_all add: reject_job_def Let_def)
    with w show ?thesis by simp
  next
    case (Inr s)
    let ?g = "job_log_entry j0 0 status (Some bn) (max (int (length ?errors)) 1) (length ?errors > 1) False ?errors (Some ?m) s"
    have logs: "request_logs (w_db w) = R" and tab: "jobs (w_db w) = put_job (j_id j0) j J"
      and seen: "unbilled L R (w_db w)"
      using w by (auto simp: job_inv_def db_inv_def unbilled_def)
    obtain u row where u: "log_request (en_now env) ?g w = (Inr (), u)"
      "quota_counters (w_db u) = quota_counters (w_db w)" "usage_records (w_db u) = usage_records (w_db w)"
      "next_id (w_db w) \<le> next_id (w_db u)" "request_logs (w_db u) = R @ [row]"
      using log_request_run [of "en_now env" ?g w] logs by auto
    have T: "jobs (w_db u) = put_job (j_id j0) j J" by (rule keepsD2 [OF jobs_of_session(2) tab u(1)])
    have U: "unbilled L (R @ [row]) (w_db u)"
      using seen u(2-5) quota_inv_cong [of "w_db w" "w_db u"] by (simp add: unbilled_def)
    let ?f = "job_rejected finished ?m ?errors"
    let ?v = "u\<lparr>w_db := set_job (j_id j0) ?f (w_db u)\<rparr>"
    have V: "view_inv (unbilled L (R @ [row])) ?v"
      unfolding view_inv_def by (simp, rule unbilled_cong [OF U]) simp_all
    let ?burst = "maybe_record_request_error_burst (en_ops env) (en_now env) (j_client_id j0) async_endpoint status (Some bn)"
    obtain x where x: "?burst ?v = (Inr (), x)" using burst_total by (metis prod.collapse)
    have X: "unbilled L (R @ [row]) (w_db x)" using keepsD2 [OF view_burst V x] by (simp add: view_inv_def)
    have "jobs (w_db ?v) = put_job (j_id j0) (?f j) J" using T j by (simp add: set_put_job job_rejected_def)
    then have TX: "jobs (w_db x) = put_job (j_id j0) (?f j) J" by (rule keepsD2 [OF jobs_burst _ x])
    have "(r, t) = (Inr ''failed'', x\<lparr>w_saved := w_db x, w_metrics := w_metrics x @ [Count ''ASYNC_JOB_COUNTER'' [''failed'']]\<rparr>)"
      using run Inr u(1) x by (simp add: reject_job_def Let_def seqE_apply [of "log_request _ _"] seqE_apply [of ?burst])
    with TX X j show ?thesis
      by (auto simp: failed_end_def committed_row_def unbilled_def job_rejected_def intro!: exI [where x = "?f j"])
  qed
qed

text \<open>Giving the slot back changes nothing of this.\<close>

lemma release_frame:
  assumes "release now bid w = (r, t)"
  shows "r = Inr ()" and "jobs (w_saved t) = jobs (w_saved w)" and "request_logs (w_saved t) = request_logs (w_saved w)"
    and "ledger (w_saved t) = ledger (w_saved w)"
proof -
  have d: "jobs (release_db now bid d) = jobs d" "request_logs (release_db now bid d) = request_logs d"
    "ledger (release_db now bid d) = ledger d" for d
    by (auto simp: release_db_def set_running_def split: option.splits intro: ledger_cong)
  show "r = Inr ()" and "jobs (w_saved t) = jobs (w_saved w)" and "request_logs (w_saved t) = request_logs (w_saved w)"
    and "ledger (w_saved t) = ledger (w_saved w)"
    using assms d by (auto simp: release_def own_session_apply)
qed

lemma job_end_saved:
  assumes "jobs (w_saved t) = jobs (w_saved w)" and "request_logs (w_saved t) = request_logs (w_saved w)"
    and "ledger (w_saved t) = ledger (w_saved w)"
  shows "job_end L R J today j0 r t = job_end L R J today j0 r w"
  using assms
  by (simp add: job_end_def unused_saved_def completed_end_def failed_end_def committed_row_def split: sum.split)

lemma run_job_ends:
  assumes j: "j_id j = j_id j0" and running: "j_status j = ''running''" and others: "job_bystander others"
  shows "ends (job_inv L R (put_job (j_id j0) j J)) (job_end L R J (en_today env) j0)
     (run_job env finished others j0 body ms ir m r b)"
proof -
  let ?I = "job_inv L R (put_job (j_id j0) j J)" and ?Q = "completed_or_clean L R J (en_today env) j0 j"
  have clean: "?Q (Inl e) t" if "?I t" for e t
    using that by (simp add: completed_or_clean_def)
  have left: "job_end L R J (en_today env) j0 (Inl e) t"
    if "unused_saved L R t" "jobs (w_saved t) = put_job (j_id j0) j J" for e t
    using that j running by (auto simp: job_end_def committed_row_def)
  have left_clean: "job_end L R J (en_today env) j0 (Inl e) t" if "?I t" for e t
    using that by (intro left) (auto simp: job_inv_def db_inv_def unbilled_def unused_saved_def)
  have body: "ends ?I ?Q (seqE (modifyE others) (job_call env finished j0 body ms ir m b))"
    by (rule ends_seqE [OF job_bystander_keeps [OF others] clean job_call_ends [OF j]])
  have handler: "ends (?Q (Inl e)) (job_end L R J (en_today env) j0)
     (case e of HTTPException status detail \<Rightarrow> reject_job env finished j0 ms ir (b_name b) status detail | _ \<Rightarrow> raise e)" for e
  proof (cases e)
    case (HTTPException status detail)
    have "ends ?I (job_end L R J (en_today env) j0) (reject_job env finished j0 ms ir (b_name b) status detail)"
      by (rule ends_weaken [OF reject_ends [OF j]]) (auto simp: job_end_def [of _ _ _ _ _ "Inr _"] left_clean split: sum.splits)
    then show ?thesis using HTTPException by (auto simp: completed_or_clean_def ends_def)
  qed (auto simp: ends_def completed_or_clean_def left left_clean)
  have "ends ?I (job_end L R J (en_today env) j0) (catchE (seqE (modifyE others) (job_call env finished j0 body ms ir m b))
     (\<lambda>e. case e of HTTPException status detail \<Rightarrow> reject_job env finished j0 ms ir (b_name b) status detail | _ \<Rightarrow> raise e))"
    by (rule ends_catchE [OF body handler]) (auto simp: completed_or_clean_def job_end_def)
  then show ?thesis unfolding run_job_def
  proof (rule ends_finallyE)
    fix x
    show "ends (job_end L R J (en_today env) j0 x)
       (\<lambda>r' t. case r' of Inl e \<Rightarrow> job_end L R J (en_today env) j0 (Inl e) t | Inr _ \<Rightarrow> job_end L R J (en_today env) j0 x t)
       (release (en_now env) (r_inference_backend_id r))"
    proof (rule endsI)
      fix w r' t
      assume w: "job_end L R J (en_today env) j0 x w" and rel: "release (en_now env) (r_inference_backend_id r) w = (r', t)"
      from w release_frame [OF rel] job_end_saved [of t w]
      show "case r' of Inl e \<Rightarrow> job_end L R J (en_today env) j0 (Inl e) t | Inr _ \<Rightarrow> job_end L R J (en_today env) j0 x t"
        by auto
    qed
  qed
qed

lemma filter_put:
  "filter (\<lambda>x. j_id x = jid) T = [j] \<Longrightarrow> j_id j = jid"
  by (metis (mono_tags, lifting) filter_eq_ConsD)

lemma requeue_end: "job_inv L R J t \<Longrightarrow> s \<noteq> ''completed'' \<Longrightarrow> s \<noteq> ''failed'' \<Longrightarrow> job_end L R J today j0 (Inr s) t"
  and error_end: "job_inv L R J t \<Longrightarrow> job_end L R J today j0 (Inl e) t"
  by (auto simp: job_end_def job_inv_def db_inv_def unbilled_def unused_saved_def)

lemma finish_failed_ends:
  assumes "j_id j = j_id j0" and "writes ''failed'' (\<lambda>j. j_error_message j \<noteq> None) f"
  shows "ends (job_inv L R (put_job (j_id j0) j J)) (job_end L R J today j0) (finish_job (j_id j0) ''failed'' f)"
proof (rule endsI)
  fix w r t
  assume "job_inv L R (put_job (j_id j0) j J) w" and "finish_job (j_id j0) ''failed'' f w = (r, t)"
  with finish_failed [OF this(1) assms] show "job_end L R J today j0 r t" by (auto simp: job_end_def)
qed

text \<open>From the claim on, with the row \<open>j\<close> in the table, whatever row \<open>j0\<close> was read.\<close>

lemma claim_ends:
  assumes row: "filter (\<lambda>x. j_id x = j_id j0) T = [j]" and others: "job_bystander others"
  shows "ends (job_inv L R T) (job_end L R T (en_today env) j0) (claim_and_run env finished others j0 found planned body ms ir)"
proof -
  note id = filter_put [OF row] and T = put_job_same [OF row]
  show ?thesis
  proof (cases found)
    case None
    from finish_failed_ends [OF id job_writes(1), of L R T "en_today env"] show ?thesis
      by (simp add: claim_and_run_def None T)
  next
    case (Some m)
    have start: "ends (job_inv L R T) (\<lambda>x t. x = Inr () \<and> job_inv L R (put_job (j_id j0) (job_running (en_now env) r b j) T) t)
        (start_job (en_now env) (j_id j0) r b)" for r b
    proof (rule endsI)
      fix w x t
      assume w: "job_inv L R T w" and run: "start_job (en_now env) (j_id j0) r b w = (x, t)"
      let ?d = "set_job (j_id j0) (job_running (en_now env) r b) (w_db w)"
      have t: "x = Inr ()" "t = w\<lparr>w_db := ?d, w_saved := ?d\<rparr>" using run by (simp_all add: start_job_def)
      have "unbilled L R ?d" using w by (auto simp: job_inv_def db_inv_def intro: unbilled_cong)
      moreover have "jobs ?d = put_job (j_id j0) (job_running (en_now env) r b j) T"
        using w id set_put_job [of j "j_id j0" "job_running (en_now env) r b" T]
        by (simp add: job_inv_def db_inv_def T job_running_def)
      ultimately show "x = Inr () \<and> job_inv L R (put_job (j_id j0) (job_running (en_now env) r b j) T) t"
        using t by (simp add: job_inv_def db_inv_def)
    qed
    have go: "ends (job_inv L R T) (job_end L R T (en_today env) j0)
       (seqE (start_job (en_now env) (j_id j0) r b) (run_job env finished others j0 body ms ir m r b))" for r b
      unfolding seqE_def
    proof (rule ends_step [OF start])
      show "ends (\<lambda>t. Inr x = Inr () \<and> job_inv L R (put_job (j_id j0) (job_running (en_now env) r b j) T) t)
          (job_end L R T (en_today env) j0) (run_job env finished others j0 body ms ir m r b)" for x
        using run_job_ends [of "job_running (en_now env) r b j" j0 others L R T env finished body ms ir m r b] id others
        by (auto simp: ends_def job_running_def)
    qed simp
    show ?thesis unfolding claim_and_run_def Some
      by (auto intro!: ends_intros keeps_intros error_end requeue_end go split: option.split)
  qed
qed

text \<open>The row may change between the reading and the claim: from the table \<open>J\<close> to \<open>T\<close>.\<close>

definition gives_up_or_ends ::
  "(uuid \<times> date \<times> string \<Rightarrow> int) \<Rightarrow> request_log list \<Rightarrow> job list \<Rightarrow> job list \<Rightarrow> date \<Rightarrow> job \<Rightarrow> exc + string \<Rightarrow> 'r world \<Rightarrow> bool" where
  "gives_up_or_ends L R J T today j0 r t \<longleftrightarrow> isl r \<and> job_inv L R J t \<or> job_end L R T today j0 r t"

lemma process_queued_ends:
  assumes first: "\<And>w. job_inv L R J w \<Longrightarrow> job_inv L R T (others 0 w)"
    and row: "filter (\<lambda>x. j_id x = j_id j0) T = [j]" and others: "job_bystander (others 1)"
  shows "ends (job_inv L R J) (gives_up_or_ends L R J T (en_today env) j0)
     (process_queued env finished others j0 found planned)"
    (is "ends _ ?Q _")
proof -
  note T = put_job_same [OF row]
  have cached: "ends (job_inv L R T) ?Q (complete_from_cache env j0 ms ir hit payload)" for ms ir hit payload
  proof -
    have "ends (job_inv L R (put_job (j_id j0) j T)) (completed_or_clean L R T (en_today env) j0 j)
        (complete_from_cache env j0 ms ir hit payload)"
      unfolding complete_from_cache_def Let_def
      by (rule completed_tail [OF filter_put [OF row] job_writes(2)]) (simp add: job_log_entry_def)
    then show ?thesis unfolding T
      by (rule ends_weaken)
        (auto simp: gives_up_or_ends_def completed_or_clean_def job_end_def T job_inv_def db_inv_def unbilled_def
          unused_saved_def split: sum.splits)
  qed
  have claim: "ends (job_inv L R T) ?Q (claim_and_run env finished (others 1) j0 found planned body ms ir)" for body ms ir
    by (rule ends_weaken [OF claim_ends [OF row others]]) (auto simp: gives_up_or_ends_def)
  have rest: "ends (job_inv L R J) ?Q (seqE (modifyE (others 0)) k)" if "ends (job_inv L R T) ?Q k" for k
    using that first unfolding ends_def by auto
  have gives_up: "job_inv L R J t \<Longrightarrow> ?Q (Inl e) t" for e t by (simp add: gives_up_or_ends_def)
  show ?thesis unfolding process_queued_def
    by (auto intro!: ends_bindE keeps_intros rest cached claim gives_up split: option.split prod.split simp del: One_nat_def)
qed

section \<open>The queue\<close>

text \<open>Reading back the text of a UUID.\<close>

lemma py_ord_hex_char: "d < 16 \<Longrightarrow> py_ord (hex_char d) = (if d < 10 then 48 + d else 87 + d)"
  by (simp add: py_ord_def hex_char_def take_bit_eq_mod)

lemma hex_value_char: "d < 16 \<Longrightarrow> hex_value (hex_char d) = Some d"
  by (auto simp: hex_value_def py_ord_hex_char Let_def)

lemma hex_digits_chars: "c \<in> set (hex_digits k n) \<Longrightarrow> \<exists>d<16. c = hex_char d"
proof (induction k arbitrary: n)
  case (Suc k)
  show ?case
  proof (cases "c = hex_char (n mod 16)")
    case True
    then show ?thesis by (intro exI [of _ "n mod 16"]) simp
  next
    case False
    with Suc show ?thesis by auto
  qed
qed simp

lemma hex_char_plain:
  assumes "d < 16"
  shows "hex_char d \<notin> set ''-{}u_+xX''" and "\<not> is_space (hex_char d)"
proof -
  have "\<forall>c\<in>set ''-{}u_+xX''. py_ord c \<in> {45, 123, 125, 117, 95, 43, 120, 88}" by (simp add: py_ord_def)
  moreover have "py_ord (hex_char d) \<notin> {45, 123, 125, 117, 95, 43, 120, 88}" using assms by (auto simp: py_ord_hex_char)
  ultimately show "hex_char d \<notin> set ''-{}u_+xX''" by blast
  show "\<not> is_space (hex_char d)" using assms by (auto simp: is_space_def py_ord_hex_char Let_def)
qed

lemma read_hex_digits:
  "read_hex b n (hex_digits k m @ s) = (if k = 0 then read_hex b n s else read_hex True (n * 16 ^ k + m mod 16 ^ k) s)"
proof (induction k arbitrary: b n m s)
  case (Suc k)
  have mod: "m mod (16 * 16 ^ k) = 16 * (m div 16 mod 16 ^ k) + m mod 16"
    by (simp add: mod_mult2_eq)
  with Suc show ?case by (auto simp: hex_value_char algebra_simps)
qed simp

lemma hex_digits_append: "hex_digits (k + l) n = hex_digits k (n div 16 ^ l) @ hex_digits l n"
  by (induction l arbitrary: n) (simp_all add: div_mult2_eq)

lemma uuid_of_text_str:
  assumes "u < 16 ^ 32"
  shows "uuid_of_text (uuid_str u) = Some u"
proof -
  have chars: "c = CHR ''-'' \<or> (\<exists>d<16. c = hex_char d)" if "c \<in> set (uuid_str u)" for c
    using that hex_digits_chars by (auto simp: uuid_str_def)
  then have plain: "CHR ''u'' \<notin> set (uuid_str u)" "\<forall>c\<in>set (uuid_str u). \<not> (c = CHR ''{'' \<or> c = CHR ''}'')"
    using hex_char_plain(1) by fastforce+
  have hex: "filter (\<lambda>c. c \<noteq> CHR ''-'') (hex_digits k n) = hex_digits k n" for k n
    using hex_digits_chars hex_char_plain(1) by (fastforce simp: filter_id_conv)
  have "hex_digits 32 u = hex_digits 8 (u div 16 ^ 24) @ hex_digits 4 (u div 16 ^ 20) @ hex_digits 4 (u div 16 ^ 16) @
     hex_digits 4 (u div 16 ^ 12) @ hex_digits 12 u"
    using hex_digits_append [of 8 24 u] hex_digits_append [of 4 20 u] hex_digits_append [of 4 16 u]
      hex_digits_append [of 4 12 u] by simp
  then have joined: "filter (\<lambda>c. c \<noteq> CHR ''-'') (uuid_str u) = hex_digits 32 u"
    unfolding uuid_str_def filter_append hex by simp
  have spaces: "\<forall>c\<in>set (hex_digits 32 u). \<not> is_space c"
    using hex_digits_chars hex_char_plain(2) by blast
  have signs: "\<forall>c\<in>set (hex_digits 32 u). c \<notin> set ''+xX''"
    using hex_digits_chars hex_char_plain(1) by fastforce
  have strip: "strip (hex_digits 32 u) = hex_digits 32 u"
    using spaces by (simp only: strip_def lstrip_def rstrip_def dropWhile_absent set_rev rev_rev_ident)
  have len: "length (hex_digits 32 u) = 32" by simp
  obtain a b s where split: "hex_digits 32 u = a # b # s"
    using len by (cases "hex_digits 32 u"; cases "tl (hex_digits 32 u)") auto
  then have "\<not> starts_with ''+'' (hex_digits 32 u)" "\<not> starts_with ''0x'' (hex_digits 32 u)"
    "\<not> starts_with ''0X'' (hex_digits 32 u)"
    using signs by (auto simp: starts_with_def)
  then have "hex_int (hex_digits 32 u) = read_hex False 0 (hex_digits 32 u)"
    by (simp only: hex_int_def strip Let_def if_False simp_thms)
  also have "\<dots> = Some u" using read_hex_digits [of False 0 32 u "[]"] assms by simp
  finally have "hex_int (hex_digits 32 u) = Some u" .
  moreover have "strip_braces (uuid_str u) = uuid_str u"
    using plain(2) unfolding strip_braces_def Let_def by (simp only: dropWhile_absent set_rev rev_rev_ident)
  ultimately show ?thesis
    using plain(1) joined len by (simp only: uuid_of_text_def replace_absent Let_def simp_thms if_False)
qed

context redis_server
begin

lemma enqueue_all:
  assumes "en_ops env = ops"
  shows "\<exists>us t. forE ids (enqueue_generation_job env) w = (Inr us, t) \<and>
     queues (w_redis t) (async_job_queue_name (en_cfg env)) =
       queues (w_redis w) (async_job_queue_name (en_cfg env)) @ map uuid_str ids"
proof (induction ids arbitrary: w)
  case Nil
  show ?case by simp
next
  case (Cons i ids)
  let ?q = "async_job_queue_name (en_cfg env)"
  obtain n r where push: "rd_rpush ops ?q (uuid_str i) (w_redis w) = (n, r)"
    by (cases "rd_rpush ops ?q (uuid_str i) (w_redis w)")
  obtain v where v: "enqueue_generation_job env i w = (Inr (), v)" "w_redis v = r"
    using push assms by (simp add: enqueue_generation_job_def redis_call_def bindE_def seqE_def)
  obtain us t where rest: "forE ids (enqueue_generation_job env) v = (Inr us, t)"
    "queues (w_redis t) ?q = queues (w_redis v) ?q @ map uuid_str ids"
    using Cons.IH by blast
  have "forE (i # ids) (enqueue_generation_job env) w = (Inr (() # us), t)"
    by (simp add: bindE_def v(1) rest(1))
  with rest(2) rpush [OF push] v(2) show ?case by simp
qed

lemma pop_all:
  assumes "queues (w_redis w) q = map uuid_str ids @ rest"
  shows "\<exists>t. forE ids (\<lambda>_. redis_call (rd_lpop ops q)) w = (Inr (map (\<lambda>i. Some (uuid_str i)) ids), t) \<and>
     queues (w_redis t) q = rest"
  using assms
proof (induction ids arbitrary: w)
  case Nil
  then show ?case by simp
next
  case (Cons i ids)
  obtain x r where pop: "rd_lpop ops q (w_redis w) = (x, r)" by (cases "rd_lpop ops q (w_redis w)")
  have "x = Some (uuid_str i)" "queues r q = map uuid_str ids @ rest" using lpop [OF pop] Cons.prems by simp_all
  then show ?case using Cons.IH [of "w\<lparr>w_redis := r\<rparr>"] pop by (auto simp: redis_call_def bindE_def)
qed

end

section \<open>Properties\<close>

lemma process_cases:
  assumes "filter (\<lambda>x. j_id x = jid) (jobs (w_db w)) = [j0]"
  shows "process_generation_job env finished others jid w =
     (if j_status j0 \<noteq> ''queued'' then (Inr ''skipped'', w)
      else if \<not> job_client_usable (w_db w) j0
      then finish_job jid ''failed'' (job_failed (en_now env) ''client blocked, missing or suspended'') w
      else process_queued env finished others j0 (job_model (w_db w) j0) (job_plan env (w_db w) j0) w)"
  using assms by (simp add: process_generation_job_def)

lemma start_inv:
  assumes "quota_inv (w_db w)" and "w_saved w = w_db w"
  shows "job_inv (ledger (w_db w)) (request_logs (w_db w)) (jobs (w_db w)) w"
  using assms by (simp add: job_inv_def db_inv_def unbilled_def)

text \<open>
  C26. Processing a job, while the other tasks leave the usage, the log and the jobs alone, has four
  ends. A row that is not queued is left alone. Otherwise, if the processing says
  completed, the row is committed as completed with its response, its tokens are added to the usage
  of its client, and the log has one row for it; if it says failed, the row is committed as failed
  with a message, and nothing is used; if it puts the job back, the row is queued and nothing is
  used. If it ends in an exception, nothing is used either, and the committed row is as it was or says
  running: such a row is not taken up again. No other row changes.
\<close>

theorem job_processed:
  assumes "quota_inv (w_db w)" and "w_saved w = w_db w"
    and "filter (\<lambda>x. j_id x = jid) (jobs (w_db w)) = [j0]"
    and "\<forall>n. job_bystander (others n)"
    and "process_generation_job env finished others jid w = (r, t)"
  shows "(j_status j0 \<noteq> ''queued'' \<longrightarrow> r = Inr ''skipped'' \<and> t = w) \<and>
     job_end (ledger (w_db w)) (request_logs (w_db w)) (jobs (w_db w)) (en_today env) j0 r t"
proof -
  let ?L = "ledger (w_db w)" and ?R = "request_logs (w_db w)" and ?J = "jobs (w_db w)"
  note inv = start_inv [OF assms(1,2)] and id = filter_put [OF assms(3)] and run = assms(5)
  note J = put_job_same [OF assms(3)]
  show ?thesis
  proof (cases "j_status j0 = ''queued''")
    case False
    with run inv show ?thesis by (auto simp: process_cases [OF assms(3)] intro: requeue_end)
  next
    case True
    show ?thesis
    proof (cases "job_client_usable (w_db w) j0")
      case False
      have "ends (job_inv ?L ?R ?J) (job_end ?L ?R ?J (en_today env) j0)
         (finish_job jid ''failed'' (job_failed (en_now env) ''client blocked, missing or suspended''))"
        using finish_failed_ends [OF _ job_writes(1), of j0 j0 ?L ?R ?J "en_today env"] id J by simp
      from endsD [OF this inv] run False True show ?thesis by (simp add: process_cases [OF assms(3)])
    next
      case True
      have stay: "job_inv ?L ?R ?J w \<Longrightarrow> job_inv ?L ?R ?J (others 0 w)" for w
        using keepsD [OF job_bystander_keeps [of "others 0" ?L ?R ?J], of w] assms(4) by simp
      have turn: "job_bystander (others 1)" using assms(4) by simp
      have row: "filter (\<lambda>x. j_id x = j_id j0) ?J = [j0]" using assms(3) id by simp
      have "process_queued env finished others j0 (job_model (w_db w) j0) (job_plan env (w_db w) j0) w = (r, t)"
        using run True \<open>j_status j0 = ''queued''\<close> by (simp add: process_cases [OF assms(3)])
      from endsD [OF process_queued_ends [OF stay row turn] inv this] \<open>j_status j0 = ''queued''\<close>
      show ?thesis by (cases r) (auto simp: gives_up_or_ends_def intro: error_end)
    qed
  qed
qed

text \<open>
  A cancellation can be lost. If the client cancels a queued job after the worker has read its
  row, the cancellation is committed and acknowledged, and the worker still runs the job: what it
  ends in is written over the cancelled row, and a completed job is charged to the client.
\<close>

theorem cancelled_job_still_runs:
  assumes "quota_inv (w_db w)" and "w_saved w = w_db w"
    and "filter (\<lambda>x. j_id x = jid) (jobs (w_db w)) = [j0]"
    and "others 0 = (\<lambda>v. v\<lparr>w_db := set_job jid (cancelled now) (w_db v), w_saved := set_job jid (cancelled now) (w_saved v)\<rparr>)"
    and "job_bystander (others 1)"
    and "process_generation_job env finished others jid w = (Inr ''completed'', t)"
  shows "\<exists>j. filter (\<lambda>x. j_id x = jid) (jobs (w_saved t)) = [j] \<and> j_status j = ''completed'' \<and>
     ledger (w_saved t) = add_usage (j_client_id j0) (en_today env) (j_prompt_tokens j0 + j_completion_tokens j)
       (ledger (w_db w))"
proof -
  let ?L = "ledger (w_db w)" and ?R = "request_logs (w_db w)" and ?J = "jobs (w_db w)"
  let ?T = "put_job jid (cancelled now j0) ?J"
  note inv = start_inv [OF assms(1,2)] and id = filter_put [OF assms(3)] and run = assms(6)
  have upd: "upd_where (\<lambda>x. j_id x = jid) (cancelled now) ?J = ?T"
    using set_put_job [OF id, of "cancelled now" ?J] id put_job_same [OF assms(3)] by (simp add: cancelled_def)
  have first: "job_inv ?L ?R ?J v \<Longrightarrow> job_inv ?L ?R ?T (others 0 v)" for v
    using upd by (auto simp: assms(4) job_inv_def db_inv_def intro: unbilled_cong)
  have one: "filter (\<lambda>x. j_id x = jid) (put_job jid j ?J) = [j]" if "j_id j = jid" for j
  proof -
    have "filter (\<lambda>x. j_id x = jid) (put_job jid j xs) = map (\<lambda>_. j) (filter (\<lambda>x. j_id x = jid) xs)" for xs
      using that by (induction xs) (auto simp: put_job_def)
    with assms(3) show ?thesis by simp
  qed
  have row: "filter (\<lambda>x. j_id x = j_id j0) ?T = [cancelled now j0]"
    using one [of "cancelled now j0"] id by (simp add: cancelled_def)
  have put: "put_job jid j ?T = put_job jid j ?J" if "j_id j = jid" for j
    using id that by (induction ?J) (auto simp: put_job_def upd_where_def cancelled_def)
  have "process_queued env finished others j0 (job_model (w_db w) j0) (job_plan env (w_db w) j0) w = (Inr ''completed'', t)"
    using run by (auto simp: process_cases [OF assms(3)] finish_job_run split: if_splits)
  from endsD [OF process_queued_ends [OF first row assms(5)] inv this]
  obtain j where "jobs (w_saved t) = put_job jid j ?T" "j_id j = jid" "j_status j = ''completed''"
    "ledger (w_saved t) = add_usage (j_client_id j0) (en_today env) (j_prompt_tokens j0 + j_completion_tokens j) ?L"
    using id by (auto simp: gives_up_or_ends_def job_end_def completed_end_def committed_row_def)
  with one put show ?thesis by auto
qed

text \<open>
  A backend that answers 200 with a body that is not JSON strands the job: the exception ends
  the run (and with it the worker process), the slot is given back, the row stays committed as
  running, and no later processing takes it up again.
\<close>

theorem undecodable_reply_strands_job:
  assumes "client_for_backend (b_provider b) = Inr ()"
    and "prepared_request (en_cfg env) ''/v1/chat/completions'' body include_reasoning (b_provider b)
      (m_prompt_template m) False = Inr (target, request)"
    and "url = (if b_backend_url b = [] then data_plane_base_url (en_cfg env) else b_backend_url b)"
    and "tries (\<lambda>n. xc_post (en_call env 1) n url target request) 1 (retry_attempts (en_cfg env)) = Answer 200 None text reason"
    and "job_bystander others" and "failures (w_breaker (others w)) < failure_threshold (w_breaker (others w))"
    and "filter (\<lambda>x. j_id x = jid) (jobs (w_saved w)) = [j]" and "j_status j = ''running''"
    and "run_job env finished others j0 body messages include_reasoning m r b w = (res, t)"
  shows "res = Inl JSONDecodeError \<and> filter (\<lambda>x. j_id x = jid) (jobs (w_saved t)) = [j] \<and>
     process_generation_job env' finished' others' jid (t\<lparr>w_db := w_saved t\<rparr>) =
       (Inr ''skipped'', t\<lparr>w_db := w_saved t\<rparr>)"
proof -
  have "\<exists>v. job_call env finished j0 body messages include_reasoning m b (others w) = (Inl JSONDecodeError, v) \<and>
      w_saved v = w_saved (others w)"
    using assms(1-4,6)
    by (simp add: job_call_def chat_def forward_def forward_body_def json_forward_def json_body_def Let_def
        before_call_def on_breaker_def seqE_def bindE_def catchE_def record_success_def)
  then obtain v where v: "job_call env finished j0 body messages include_reasoning m b (others w) = (Inl JSONDecodeError, v)"
    "w_saved v = w_saved (others w)" by blast
  obtain y z where rel: "release (en_now env) (r_inference_backend_id r) v = (y, z)"
    by (cases "release (en_now env) (r_inference_backend_id r) v")
  have "res = Inl JSONDecodeError" "t = z"
    using assms(9) v(1) rel release_frame(1) [OF rel] by (simp_all add: run_job_def finallyE_def catchE_def)
  moreover have "jobs (w_saved z) = jobs (w_saved w)"
    using release_frame(2) [OF rel] v(2) assms(5) by (simp add: job_bystander_def)
  ultimately show ?thesis using assms(7,8) by (simp add: process_generation_job_def)
qed

text \<open>
  The jobs come out of the queue in the order in which they went in, and each entry is read
  back as the identifier it was written for.
\<close>

theorem queue_is_first_in_first_out:
  assumes "redis_server (en_ops env) entries queues" and "\<forall>i\<in>set ids. i < 16 ^ 32"
    and "queues (w_redis w) (async_job_queue_name (en_cfg env)) = []"
    and "bindE (forE ids (enqueue_generation_job env))
           (\<lambda>_. forE ids (\<lambda>_. redis_call (rd_lpop (en_ops env) (async_job_queue_name (en_cfg env))))) w = (Inr items, t)"
  shows "map (\<lambda>item. Option.bind item uuid_of_text) items = map Some ids"
proof -
  obtain us v where v: "forE ids (enqueue_generation_job env) w = (Inr us, v)"
    "queues (w_redis v) (async_job_queue_name (en_cfg env)) = map uuid_str ids @ []"
    using redis_server.enqueue_all [OF assms(1) refl, of ids w] assms(3) by auto
  obtain z where "forE ids (\<lambda>_. redis_call (rd_lpop (en_ops env) (async_job_queue_name (en_cfg env)))) v =
      (Inr (map (\<lambda>i. Some (uuid_str i)) ids), z)"
    using redis_server.pop_all [OF assms(1) v(2)] by blast
  with v(1) assms(4) have "items = map (\<lambda>i. Some (uuid_str i)) ids" by (simp add: bindE_def)
  with assms(2) show ?thesis by (simp add: uuid_of_text_str)
qed

section \<open>Witnesses\<close>

definition queued_example :: job where
  "queued_example = new_job 0 20 1 chat_question \<lparr>pj_selected_model_id = ''org/gemma'', pj_selected_model_db_id = 3,
     pj_requested_model = ''gemma'', pj_request_body = [(''include_reasoning'', JBool False), (''model'', JStr ''org/gemma''),
       (''messages'', JArr [JObj [(''role'', JStr ''user''), (''content'', JStr ''hi'')]])],
     pj_prompt_tokens = 5, pj_max_tokens = 60, pj_estimated_request_cost = 0, pj_request_summary = []\<rparr>"

definition job_world :: "unit world" where
  "job_world = example_world (routing_db\<lparr>next_id := 30, clients := [chat_client], jobs := [queued_example]\<rparr>)"

definition answer :: json where
  "answer = JObj [(''choices'', JArr [JObj [(''message'', JObj [(''content'', JStr ''hello'')])]])]"

definition job_env :: "unit env" where
  "job_env = chat_env idle_redis (\<lambda>_. scripted (\<lambda>_. Answer 200 (Some answer) [] []) NotOpened)"


lemma job_example_run:
  "let (r, t) = process_generation_job job_env 9 (\<lambda>_ w. w) 20 job_world in r = Inr ''completed'' \<and>
     map (\<lambda>j. (j_status j, j_completion_tokens j)) (jobs (w_saved t)) = [(''completed'', 2)]"
  by code_simp

lemma job_world_start:
  "quota_inv (w_db job_world)" "w_saved job_world = w_db job_world" "ledger (w_db job_world) = (\<lambda>_. 0)"
  "filter (\<lambda>x. j_id x = 20) (jobs (w_db job_world)) = [queued_example]"
  by (simp_all add: job_world_def example_world_def routing_db_def empty_db_def quota_inv_def quota_rows_ok_def
      ledger_def accounted_def fun_eq_iff queued_example_def new_job_def)

lemma queued_example_fields:
  "j_id queued_example = 20" "j_client_id queued_example = 1" "j_prompt_tokens queued_example = 5"
  "jobs (w_db job_world) = [queued_example]"
  by (simp_all add: queued_example_def new_job_def job_world_def example_world_def)

lemma idle_bystander: "job_bystander (\<lambda>w. w)"
  by (simp add: job_bystander_def bystander_def leaves_usage_def)

theorem job_processed_witness:
  "let (r, t) = process_generation_job job_env 9 (\<lambda>_ w. w) 20 job_world in
     r = Inr ''completed'' \<and> ledger (w_saved t) (1, Date 2026 5 2, ''daily'') = 7"
proof -
  obtain r t where run: "process_generation_job job_env 9 (\<lambda>_ w. w) 20 job_world = (r, t)"
    by (cases "process_generation_job job_env 9 (\<lambda>_ w. w) 20 job_world")
  have fin: "r = Inr ''completed''" "map (\<lambda>j. (j_status j, j_completion_tokens j)) (jobs (w_saved t)) = [(''completed'', 2)]"
    using job_example_run run by simp_all
  have "\<forall>n::nat. job_bystander (\<lambda>w :: unit world. w)" by (simp add: idle_bystander)
  from job_processed [OF job_world_start(1,2,4) this run] fin(1)
  have "completed_end (\<lambda>_. 0) (request_logs (w_db job_world)) [queued_example] (en_today job_env) queued_example t"
    unfolding job_world_start(3) queued_example_fields(4) by (simp add: job_end_def)
  then obtain j where j: "jobs (w_saved t) = put_job 20 j [queued_example]"
    "ledger (w_saved t) = add_usage 1 (en_today job_env) (5 + j_completion_tokens j) (\<lambda>_. 0)"
    by (auto simp: completed_end_def committed_row_def queued_example_fields)
  then have "j_completion_tokens j = 2"
    using fin(2) by (simp add: put_job_def queued_example_fields)
  with j(2) fin(1) run show ?thesis by (simp add: add_usage_def job_env_def chat_env_def)
qed

definition cancelling :: "nat \<Rightarrow> unit world \<Rightarrow> unit world" where
  "cancelling n = (if n = 0
     then (\<lambda>v. v\<lparr>w_db := set_job 20 (cancelled 4) (w_db v), w_saved := set_job 20 (cancelled 4) (w_saved v)\<rparr>)
     else (\<lambda>w. w))"

lemma cancelling_run:
  "fst (process_generation_job job_env 9 cancelling 20 job_world) = Inr ''completed''"
  by code_simp

theorem cancelled_job_still_runs_witness:
  "\<exists>j. filter (\<lambda>x. j_id x = 20) (jobs (w_saved (snd (process_generation_job job_env 9 cancelling 20 job_world)))) = [j] \<and>
     j_status j = ''completed''"
proof -
  obtain t where run: "process_generation_job job_env 9 cancelling 20 job_world = (Inr ''completed'', t)"
    using cancelling_run by (cases "process_generation_job job_env 9 cancelling 20 job_world") simp
  have "job_bystander (cancelling 1)" by (simp add: cancelling_def idle_bystander)
  from cancelled_job_still_runs [OF job_world_start(1,2,4) _ this run, of 4] run
  show ?thesis by (auto simp: cancelling_def)
qed

definition garbled_env :: "unit env" where
  "garbled_env = chat_env idle_redis (\<lambda>_. scripted (\<lambda>_. Answer 200 None ''<html>'' []) NotOpened)"

definition running_world :: "unit world" where
  "running_world = example_world (routing_db\<lparr>next_id := 30, clients := [chat_client],
     jobs := [queued_example\<lparr>j_status := ''running''\<rparr>]\<rparr>)"

theorem undecodable_reply_strands_job_witness:
  "fst (run_job garbled_env 9 (\<lambda>w. w) queued_example [(''model'', JStr ''org/gemma'')] [] False example_model
     (example_route 2 7 1 ''healthy'') (route_backend 7 ''a'') running_world) = Inl JSONDecodeError"
proof -
  let ?run = "run_job garbled_env 9 (\<lambda>w. w) queued_example [(''model'', JStr ''org/gemma'')] [] False example_model
     (example_route 2 7 1 ''healthy'') (route_backend 7 ''a'') running_world"
  obtain res t where run: "?run = (res, t)" by (cases ?run)
  let ?request = "prepared_request (en_cfg garbled_env) ''/v1/chat/completions'' [(''model'', JStr ''org/gemma'')] False
      (b_provider (route_backend 7 ''a'')) (m_prompt_template example_model) False"
  have "\<not> isl ?request" by code_simp
  then obtain target request where request: "?request = Inr (target, request)"
    by (cases ?request) auto
  have "res = Inl JSONDecodeError"
    using undecodable_reply_strands_job [OF _ request refl _ idle_bystander _ _ _ run,
        of "''<html>''" "[]" 20 "queued_example\<lparr>j_status := ''running''\<rparr>"]
    by (simp add: client_for_backend_def route_backend_def garbled_env_def chat_env_def scripted_def proxy_settings_def
        default_settings_def running_world_def example_world_def new_breaker_def queued_example_fields
        routing_db_def numeral_2_eq_2)
  with run show ?thesis by simp
qed

definition idle_call :: "store exchange" where
  "idle_call = \<lparr>xc_before = 0, xc_after = 0, xc_waits = [], xc_post = (\<lambda>_ _ _ _. NoAnswer),
     xc_stream = (\<lambda>_ _ _. NotOpened), xc_decode = (\<lambda>_. None), xc_created = 0\<rparr>"

definition store_env :: "store env" where
  "store_env = \<lparr>en_cfg = proxy_settings, en_ops = store_ops, en_now = 0, en_today = Date 2026 5 2,
     en_source_ip = [], en_latency_ms = 0, en_repr = (\<lambda>_. []), en_hash_json = (\<lambda>_. []),
     en_sha256 = (\<lambda>_. []), en_dump = (\<lambda>_. []), en_render = (\<lambda>_. []), en_round4 = (\<lambda>x. x),
     en_float = (\<lambda>x. x), en_pick = (\<lambda>_ _. 0), en_lazy = None, en_call = (\<lambda>_. idle_call)\<rparr>"

definition store_world :: "store world" where
  "store_world = \<lparr>w_db = empty_db, w_saved = empty_db, w_redis = empty_store, w_metrics = [],
     w_breaker = new_breaker proxy_settings, w_pending = 0, w_correlation_id = [], w_source_ip = []\<rparr>"

theorem queue_is_first_in_first_out_witness:
  "let (r, t) = bindE (forE [7, 5, 7] (enqueue_generation_job store_env))
      (\<lambda>_. forE [7 :: nat, 5, 7] (\<lambda>_. redis_call (rd_lpop store_ops (async_job_queue_name proxy_settings)))) store_world
   in map (\<lambda>item. Option.bind item uuid_of_text) (projr r) = [Some 7, Some 5, Some 7]"
proof -
  let ?run = "bindE (forE [7, 5, 7] (enqueue_generation_job store_env))
      (\<lambda>_. forE [7 :: nat, 5, 7] (\<lambda>_. redis_call (rd_lpop (en_ops store_env) (async_job_queue_name (en_cfg store_env))))) store_world"
  have fields: "en_ops store_env = store_ops" "en_cfg store_env = proxy_settings" by (simp_all add: store_env_def)
  obtain items t where run: "?run = (Inr items, t)"
  proof -
    have "\<not> isl (fst ?run)"
      by code_simp
    then show ?thesis using that by (cases ?run; cases "fst ?run") auto
  qed
  have server: "redis_server (en_ops store_env) st_entries st_queues" unfolding fields by (rule kv.redis_server_axioms)
  have "st_queues (w_redis store_world) (async_job_queue_name (en_cfg store_env)) = []"
    by (simp add: store_world_def empty_store_def)
  from queue_is_first_in_first_out [OF server _ this run]
  have "map (\<lambda>item. Option.bind item uuid_of_text) items = map Some [7, 5, 7]" by simp
  with run show ?thesis by (simp add: fields)
qed

end
