(* ===== verification/AsyncAnswers.thy ===== *)
theory AsyncAnswers
  imports JobLifecycle
begin

text \<open>
  Asynchronous chat requests from end to end: what an accepted request leaves in the database and in the queue,
  what the worker's next turn makes of it, and what the client then reads. The last property is the
  one way a queued job stops the worker although a synchronous request would be answered.
\<close>

section \<open>Accepting a request\<close>

text \<open>What the admission of an asynchronous request leaves alone: the jobs, the queue, and the identifiers given out.\<close>

definition queue_inv :: "('r \<Rightarrow> string \<Rightarrow> string list) \<Rightarrow> job list \<Rightarrow> nat \<Rightarrow> (string \<Rightarrow> string list) \<Rightarrow> 'r world \<Rightarrow> bool" where
  "queue_inv queues J n Q w \<longleftrightarrow> jobs (w_db w) = J \<and> n \<le> next_id (w_db w) \<and> queues (w_redis w) = Q"

lemma queue_inv_prims [keeps_intros]:
  "keeps (queue_inv queues J n Q) (emit x)" "keeps (queue_inv queues J n Q) fresh_id"
  "keeps (queue_inv queues J n Q) (log_security_event now ev)"
  "keeps (queue_inv queues J n Q) (update (\<lambda>d. d\<lparr>quota_counters := f d\<rparr>))"
  by (auto simp: keeps_def queue_inv_def log_security_event_def seqE_def bindE_def)

context redis_server
begin

lemma queue_inv_redis [keeps_intros]:
  "keeps (queue_inv queues J n Q) (redis_call (rd_incr ops now k))"
  "keeps (queue_inv queues J n Q) (redis_call (rd_expire ops now k s))"
  "keeps (queue_inv queues J n Q) (redis_call (rd_set_nx ops now k s))"
  by (auto simp: keeps_def queue_inv_def redis_call_def split: prod.splits)
    (metis incr_queues snd_conv, metis expire_queues snd_conv, metis set_nx_queues snd_conv)

lemma queue_inv_admission:
  assumes "en_ops env = ops"
  shows "keeps (queue_inv queues J n Q) (prepare_async_chat_job env c q)"
  unfolding prepare_async_chat_job_def admit_job_def enforce_rate_limit_def ensure_quota_def get_or_create_counter_def
    watch_request_def maybe_record_repeated_large_prompt_def maybe_record_plan_usage_anomaly_def count_hit_def
    used_before_def get_current_usage_snapshot_def get_usage_snapshot_for_date_def usage_snapshot_period_def Let_def assms
  by (auto intro!: keeps_intros split: option.split prod.split)


lemma admitted_job:
  assumes env: "en_ops env = ops"
    and run: "prepare_async_chat_job env c q w = (Inr prepared, t)"
  obtains m requested messages n p where "check_async_chat env (w_db w) c q = Inr (m, requested, messages, n, p)"
    "pj_selected_model_db_id prepared = m_id m" "pj_selected_model_id prepared = m_model_id m"
    "pj_request_body prepared = job_body q m messages p"
    "jobs (w_db t) = jobs (w_db w)" "next_id (w_db w) \<le> next_id (w_db t)" "queues (w_redis t) = queues (w_redis w)"
proof -
  obtain m requested messages n p where checked: "check_async_chat env (w_db w) c q = Inr (m, requested, messages, n, p)"
    using run by (cases "check_async_chat env (w_db w) c q") (auto simp: prepare_async_chat_job_def)
  have "queue_inv queues (jobs (w_db w)) (next_id (w_db w)) (queues (w_redis w)) w" by (simp add: queue_inv_def)
  from keepsD2 [OF queue_inv_admission [OF env] this run]
  have frame: "jobs (w_db t) = jobs (w_db w)" "next_id (w_db w) \<le> next_id (w_db t)" "queues (w_redis t) = queues (w_redis w)"
    by (simp_all add: queue_inv_def)
  show ?thesis
    by (rule that [OF checked _ _ _ frame])
      (use run checked in \<open>auto simp: prepare_async_chat_job_def Let_def seqE_def bindE_def liftE_def split: prod.splits sum.splits\<close>)
qed

lemma accepted_job:
  assumes env: "en_ops env = ops"
    and run: "chat_completions_async env c q w = (Inr accepted, t)"
  obtains jid prepared m requested messages n p where
    "check_async_chat env (w_db w) c q = Inr (m, requested, messages, n, p)"
    "pj_selected_model_db_id prepared = m_id m" "pj_selected_model_id prepared = m_model_id m"
    "pj_request_body prepared = job_body q m messages p"
    "jobs (w_db t) = jobs (w_db w) @ [new_job (en_now env) jid (c_id c) q prepared]" "w_saved t = w_db t"
    "next_id (w_db w) \<le> jid" "jid < next_id (w_db t)"
    "queues (w_redis t) = (queues (w_redis w)) (async_job_queue_name (en_cfg env) :=
       queues (w_redis w) (async_job_queue_name (en_cfg env)) @ [uuid_str jid])"
    "\<exists>rest. accepted = JObj ((''id'', JStr (uuid_str jid)) # rest)"
proof -
  obtain prepared u where first: "prepare_async_chat_job env c q w = (Inr prepared, u)"
    using run by (auto simp: chat_completions_async_def create_chat_generation_job_def bindE_def split: prod.splits sum.splits)
  show ?thesis
  proof (rule admitted_job [OF env first])
    fix m requested messages n p
    assume checked: "check_async_chat env (w_db w) c q = Inr (m, requested, messages, n, p)"
      "pj_selected_model_db_id prepared = m_id m" "pj_selected_model_id prepared = m_model_id m"
      "pj_request_body prepared = job_body q m messages p"
      and frame: "jobs (w_db u) = jobs (w_db w)" "next_id (w_db w) \<le> next_id (w_db u)" "queues (w_redis u) = queues (w_redis w)"
    let ?jid = "next_id (w_db u)" and ?name = "async_job_queue_name (en_cfg env)"
    let ?j = "new_job (en_now env) ?jid (c_id c) q prepared"
    let ?d = "(w_db u)\<lparr>next_id := Suc ?jid, jobs := jobs (w_db w) @ [?j]\<rparr>"
    obtain k r where push: "rd_rpush ops ?name (uuid_str ?jid) (w_redis u) = (k, r)" by fastforce
    have id: "j_id ?j = ?jid" by (simp add: new_job_def)
    have "t = u\<lparr>w_db := ?d, w_saved := ?d, w_redis := r,
        w_metrics := w_metrics u @ [Gauge ''ASYNC_QUEUE_DEPTH'' [] k, Count ''ASYNC_JOB_COUNTER'' [''queued'']]\<rparr> \<and>
      accepted = JObj [(''id'', JStr (uuid_str ?jid)), (''status'', JStr (j_status ?j)),
          (''endpoint'', JStr (j_endpoint ?j)), (''requested_model'', JStr (j_requested_model ?j)),
          (''resolved_model'', JStr (j_resolved_model ?j))]"
      using run first push frame(1) env
      by (simp add: chat_completions_async_def create_chat_generation_job_def enqueue_generation_job_def bindE_def seqE_def
          fresh_id_def update_def modifyE_def commit_def redis_call_def emit_def ret_def id Let_def)
    with rpush [OF push] frame show ?thesis
      by (intro that [OF checked, of ?jid]) auto
  qed
qed

end

section \<open>Answering a job\<close>

text \<open>The JSON call behind a backend, answered with \<open>content\<close> whatever went wrong in earlier attempts.\<close>

definition backend_answers :: "'r env \<Rightarrow> dict \<Rightarrow> bool \<Rightarrow> model \<Rightarrow> backend \<Rightarrow> int \<Rightarrow> json \<Rightarrow> bool" where
  "backend_answers env body include_reasoning m b status content \<longleftrightarrow>
     (let cfg = en_cfg env; x = en_call env 1; endpoint = ''/v1/chat/completions'';
          url = (if b_backend_url b = [] then data_plane_base_url cfg else b_backend_url b) in
      client_for_backend (b_provider b) = Inr () \<and>
      (\<exists>target request v text reason.
         prepared_request cfg endpoint body include_reasoning (b_provider b) (m_prompt_template m) False = Inr (target, request) \<and>
         tries (\<lambda>n. xc_post x n url target request) 1 (retry_attempts cfg) = Answer status (Some v) text reason \<and>
         reply_error (Answer status (Some v) text reason) = None \<and>
         json_body (xc_created x) endpoint body include_reasoning (b_provider b) (m_prompt_template m) (Some v) = Inr content))"

lemma chat_answers:
  assumes "backend_answers env body ir m b status content" and "failures (w_breaker w) < failure_threshold (w_breaker w)"
  shows "chat (en_cfg env) (en_call env 1) (en_now env) body False ir b (m_prompt_template m) False w =
     (Inr (forwarded (JsonBody status content) (b_name b)), w\<lparr>w_breaker := record_success (w_breaker w),
        w_metrics := w_metrics w @ [Count ''REQUEST_COUNTER'' [''/v1/chat/completions'', ''success'']]\<rparr>)"
  using assms
  by (auto simp: backend_answers_def Let_def chat_def forward_def forward_body_def json_forward_def
      before_call_def on_breaker_def seqE_def bindE_def catchE_def record_success_def)

lemma lookup_misses:
  assumes "response_cache_enabled cfg \<longrightarrow> cache_ok (w_db w) \<and> cached (w_db w) now (e, m, h) = None"
  shows "\<exists>ms. lookup_exact_cache cfg now e m h w = (Inr cache_miss, w\<lparr>w_metrics := ms\<rparr>)"
proof (cases "response_cache_enabled cfg")
  case True
  with assms have ok: "cache_ok (w_db w)" and miss: "cached (w_db w) now (e, m, h) = None" by simp_all
  have "(case row_at (w_db w) (e, m, h) of None \<Rightarrow> None | Some x \<Rightarrow> if x_is_active x \<and> now < x_expires_at x then Some x else None) = None"
  proof (cases "row_at (w_db w) (e, m, h)")
    case (Some x)
    then have "loads (x_response_json x) \<noteq> None"
      using ok find_Some_set [OF Some [unfolded row_at_def]] by (simp add: cache_ok_def)
    with miss Some show ?thesis by (auto simp: cached_def row_response_def split: if_splits)
  qed simp
  with True live_rows [OF ok, of e m h now] show ?thesis by (auto simp: lookup_exact_cache_def bindE_apply)
qed (auto simp: lookup_exact_cache_def seqE_apply)

lemma store_succeeds:
  assumes "response_cache_enabled cfg \<longrightarrow> cache_ok (w_db w)"
  shows "fst (store_exact_cache cfg now e m h fp payload pt ct w) = Inr ()"
proof (cases "response_cache_enabled cfg")
  case True
  with assms have "cache_ok (w_db w)" by simp
  from store_spec [OF True this, of now e m h fp payload pt ct] show ?thesis by (metis fst_conv)
qed (simp add: store_exact_cache_def)

text \<open>What the answering of a job leaves alone.\<close>

lemma redis_frame:
  "keeps (\<lambda>w. w_redis w = R) (record_usage now today c p n)" "keeps (\<lambda>w. w_redis w = R) (log_request now g)"
  "keeps (\<lambda>w. w_redis w = R) (store_exact_cache cfg now e m h fp payload p n)"
proof -
  have prims: "keeps (\<lambda>w. w_redis w = R) (update f)" "keeps (\<lambda>w. w_redis w = R) fresh_id" for f
    by (simp_all add: keeps_def)
  show "keeps (\<lambda>w. w_redis w = R) (record_usage now today c p n)"
    unfolding record_usage_def record_usage_in_def get_or_create_counter_def get_or_create_usage_record_def Let_def
    by (auto intro!: keeps_intros prims split: option.split)
  show "keeps (\<lambda>w. w_redis w = R) (log_request now g)"
    by (rule keepsI) (auto simp: log_request_def seqE_def bindE_def)
  show "keeps (\<lambda>w. w_redis w = R) (store_exact_cache cfg now e m h fp payload p n)"
    unfolding store_exact_cache_def Let_def by (auto intro!: keeps_intros prims split: option.split)
qed

lemma job_call_completes:
  assumes "backend_answers env body ir m b status content" and "failures (w_breaker w) < failure_threshold (w_breaker w)"
    and "job_inv L R T w" and "response_cache_enabled (en_cfg env) \<longrightarrow> cache_ok (w_db w)"
    and "job_summary env ms ir = Inr s"
  obtains t result n where "job_call env finished j body ms ir m b w = (Inr ''completed'', t)"
    "jobs (w_saved t) = upd_where (\<lambda>x. j_id x = j_id j) (job_completed finished content result n) T"
    "w_redis t = w_redis w"
proof -
  let ?r = "forwarded (JsonBody status content) (b_name b)" and ?n = "estimate_tokens_from_text (en_render env content)"
  let ?w = "w\<lparr>w_breaker := record_success (w_breaker w),
      w_metrics := w_metrics w @ [Count ''REQUEST_COUNTER'' [''/v1/chat/completions'', ''success'']]\<rparr>"
  have chat: "chat (en_cfg env) (en_call env 1) (en_now env) body False ir b (m_prompt_template m) False w = (Inr ?r, ?w)"
    by (rule chat_answers [OF assms(1,2)])
  obtain key fp where key: "job_cache_key env j body ms ir = (key, fp)" by fastforce
  let ?store = "store_exact_cache (en_cfg env) (en_now env) ''/v1/chat/completions'' (j_resolved_model j) key fp content
      (j_prompt_tokens j) ?n"
  let ?usage = "record_usage (en_now env) (en_today env) (j_client_id j) (j_prompt_tokens j) ?n"
  have "fst (?store ?w) = Inr ()" by (rule store_succeeds) (use assms(4) in simp)
  then obtain u where u: "?store ?w = (Inr (), u)" by (cases "?store ?w") simp
  have "job_inv L R T ?w" using assms(3) by (simp add: job_inv_def db_inv_def)
  from keepsD2 [OF job_cache(2) this u] have inv: "quota_inv (w_db u)" "jobs (w_db u) = T"
    by (simp_all add: job_inv_def db_inv_def unbilled_def)
  obtain v where v: "?usage u = (Inr (), v)"
    by (rule record_usage_spec [OF inv(1), of "en_now env" "en_today env" "j_client_id j" "j_prompt_tokens j" ?n])
  let ?log = "log_request (en_now env) (job_log_entry j ?n status (Some (b_name b)) 1 False False [] None s)"
  obtain x where x: "?log v = (Inr (), x)"
    using log_request_run [of "en_now env" "job_log_entry j ?n status (Some (b_name b)) 1 False False [] None s" v] by blast
  have jobs: "jobs (w_db x) = T"
    by (rule keepsD2 [OF jobs_of_session(2) keepsD2 [OF jobs_of_session(1) inv(2) v] x])
  have "w_redis ?w = w_redis w" by simp
  from keepsD2 [OF redis_frame(2) keepsD2 [OF redis_frame(1) keepsD2 [OF redis_frame(3) this u] v] x]
  have redis: "w_redis x = w_redis w" .
  let ?f = "job_completed finished content ?r ?n"
  have "job_call env finished j body ms ir m b w = finish_job (j_id j) ''completed'' ?f x"
    using chat u v x key assms(5)
    by (simp add: job_call_def bindE_apply seqE_apply forwarded_def Let_def)
  then show ?thesis unfolding finish_job_run by (rule that) (simp_all add: jobs redis)
qed

text \<open>
  Everything a queued job needs to be answered with \<open>content\<close>: its client may be served, the plan of its model
  starts with a backend that has a slot free, the breaker is closed, and the backend answers.
\<close>

definition job_ready :: "'r env \<Rightarrow> 'r world \<Rightarrow> job \<Rightarrow> dict \<Rightarrow> bool \<Rightarrow> json list \<Rightarrow> json \<Rightarrow> bool" where
  "job_ready env w j body include_reasoning messages content \<longleftrightarrow>
     job_client_usable (w_db w) j \<and>
     (\<exists>m r b planned status. job_model (w_db w) j = Some m \<and> job_plan env (w_db w) j = Inr ((r, Some b) # planned) \<and>
        backend_of (w_db w) (b_id b) = Some b \<and> b_is_active b \<and> b_current_running b < slot_limit b \<and>
        backend_answers env body include_reasoning m b status content) \<and>
     failures (w_breaker w) < failure_threshold (w_breaker w) \<and>
     (response_cache_enabled (en_cfg env) \<longrightarrow> cache_ok (w_db w) \<and>
        cached (w_db w) (en_now env) (''/v1/chat/completions'', j_resolved_model j,
          fst (job_cache_key env j body messages include_reasoning)) = None)"

lemma set_running_tables [simp]:
  "quota_counters (set_running now bid f d) = quota_counters d" "usage_records (set_running now bid f d) = usage_records d"
  "request_logs (set_running now bid f d) = request_logs d" "next_id (set_running now bid f d) = next_id d"
  "jobs (set_running now bid f d) = jobs d" "cache_rows (set_running now bid f d) = cache_rows d"
  by (simp_all add: set_running_def)

lemma process_completes:
  assumes row: "filter (\<lambda>x. j_id x = jid) (jobs (w_db w)) = [j]" and queued: "j_status j = ''queued''"
    and clean: "w_saved w = w_db w" and quota: "quota_inv (w_db w)"
    and body: "job_request j = Inr (body, ir)" "job_messages body = Inr ms" "job_summary env ms ir = Inr s"
    and ready: "job_ready env w j body ir ms content"
  obtains t x where "process_generation_job env finished (\<lambda>_ w. w) jid w = (Inr ''completed'', t)"
    "jobs (w_saved t) = put_job jid x (jobs (w_db w))" "j_id x = jid" "j_client_id x = j_client_id j"
    "j_status x = ''completed''" "j_response_json x = Some (dumps content)" "w_redis t = w_redis w"
proof -
  let ?d = "w_db w"
  obtain m r b planned status where m: "job_model ?d j = Some m" "job_plan env ?d j = Inr ((r, Some b) # planned)"
    "backend_of ?d (b_id b) = Some b" "b_is_active b" "b_current_running b < slot_limit b"
    "backend_answers env body ir m b status content"
    using ready by (auto simp: job_ready_def)
  have id: "j_id j = jid" by (rule filter_put [OF row])
  obtain met where look: "lookup_exact_cache (en_cfg env) (en_now env) ''/v1/chat/completions'' (j_resolved_model j)
      (fst (job_cache_key env j body ms ir)) w = (Inr cache_miss, w\<lparr>w_metrics := met\<rparr>)"
    using lookup_misses [of "en_cfg env" w "en_now env" "''/v1/chat/completions''" "j_resolved_model j"
        "fst (job_cache_key env j body ms ir)"] ready by (auto simp: job_ready_def)
  let ?e = "set_running (en_now env) (b_id b) (\<lambda>n. n + 1) ?d"
  have slot: "try_acquire_db (en_now env) (b_id b) ?d = (True, ?e)"
    using m(3-5) by (auto simp: try_acquire_db_True)
  let ?g = "set_job jid (job_running (en_now env) r b) ?e"
  let ?v = "w\<lparr>w_metrics := met, w_db := ?g, w_saved := ?g\<rparr>"
  let ?run = "run_job env finished (\<lambda>w. w) j body ms ir m r b"
  have claim: "process_generation_job env finished (\<lambda>_ w. w) jid w = ?run ?v"
    using row queued ready body(1,2) look m(1,2) slot clean id
    by (simp add: process_generation_job_def job_ready_def process_queued_def claim_and_run_def bindE_apply seqE_apply
        cache_miss_def try_acquire_def own_session_apply start_job_def)
  let ?x = "job_running (en_now env) r b j"
  have T: "jobs ?g = put_job jid ?x (jobs ?d)"
    using set_put_job [of j jid "job_running (en_now env) r b" "jobs ?d"] id put_job_same [OF row] by (simp add: job_running_def)
  have "unbilled (ledger ?d) (request_logs ?d) ?g"
    by (rule unbilled_cong [of _ _ ?d]) (simp_all add: unbilled_def quota)
  with T have inv: "job_inv (ledger ?d) (request_logs ?d) (put_job jid ?x (jobs ?d)) ?v"
    by (simp add: job_inv_def db_inv_def)
  have "response_cache_enabled (en_cfg env) \<longrightarrow> cache_ok (w_db ?v)"
    using ready by (simp add: job_ready_def cache_ok_def set_job_def)
  moreover have "failures (w_breaker ?v) < failure_threshold (w_breaker ?v)" using ready by (simp add: job_ready_def)
  ultimately obtain u result n where u: "job_call env finished j body ms ir m b ?v = (Inr ''completed'', u)"
    "jobs (w_saved u) = upd_where (\<lambda>x. j_id x = j_id j) (job_completed finished content result n) (put_job jid ?x (jobs ?d))"
    "w_redis u = w_redis ?v"
    using job_call_completes [OF m(6) _ inv _ body(3)] by metis
  obtain y t where rel: "release (en_now env) (r_inference_backend_id r) u = (y, t)" by fastforce
  have done_run: "?run ?v = (Inr ''completed'', t)"
    using u(1) rel release_frame(1) [OF rel] by (simp add: run_job_def finallyE_def catchE_def seqE_apply)
  let ?z = "job_completed finished content result n ?x"
  have "jobs (w_saved t) = put_job jid ?z (jobs ?d)"
    using release_frame(2) [OF rel] u(2) id
      set_put_job [of ?x jid "job_completed finished content result n" "jobs ?d"]
    by (simp add: job_running_def job_completed_def)
  moreover have "w_redis t = w_redis w"
    using rel u(3) by (auto simp: release_def own_session_apply)
  ultimately show ?thesis
    using claim done_run id by (intro that [of t ?z]) (simp_all add: job_running_def job_completed_def)
qed

section \<open>From the request to the answer\<close>

text \<open>The row a request leaves is read back by the worker as the body that was stored.\<close>

definition stored_body :: "chat_request \<Rightarrow> model \<Rightarrow> dict list \<Rightarrow> params \<Rightarrow> dict" where
  "stored_body q m messages p = dict_pop ''include_reasoning'' (job_body q m messages p)"

lemma job_of_request:
  assumes "pj_request_body prepared = job_body q m messages p"
  shows "job_request (new_job now jid cid q prepared) = Inr (stored_body q m messages p, cq_include_reasoning q)"
    and "job_messages (stored_body q m messages p) = Inr (json_messages messages)"
    and "\<exists>s. job_summary env (json_messages messages) ir = Inr s"
proof -
  show "job_request (new_job now jid cid q prepared) = Inr (stored_body q m messages p, cq_include_reasoning q)"
    using assms
    by (simp add: job_request_def new_job_def stored_body_def get_default_def job_body_def dict_get_set)
  show "job_messages (stored_body q m messages p) = Inr (json_messages messages)"
    by (simp add: job_messages_def stored_body_def get_default_def job_body_def set_params_def dict_get_set dict_get_pop)
  have "mapS as_dict (map JObj xs) = Inr xs" for xs by (induction xs) simp_all
  then show "\<exists>s. job_summary env (json_messages messages) ir = Inr s"
    by (simp add: job_summary_def json_messages_def)
qed

lemma put_job_found:
  "filter (\<lambda>x. j_id x = jid) J = [j] \<Longrightarrow> j_id z = jid \<Longrightarrow> filter (\<lambda>x. j_id x = jid) (put_job jid z J) = [z]"
proof -
  assume "filter (\<lambda>x. j_id x = jid) J = [j]" and z: "j_id z = jid"
  moreover have "filter (\<lambda>x. j_id x = jid) (put_job jid z J) = map (\<lambda>_. z) (filter (\<lambda>x. j_id x = jid) J)"
    using z by (induction J) (auto simp: put_job_def upd_where_def)
  ultimately show ?thesis by simp
qed

text \<open>The worker's next turn, with the entry of a job that has all it needs at the head of the queue.\<close>

lemma turn_completes:
  assumes server: "redis_server (en_ops env) entries queues" and id: "jid < 16 ^ 32"
    and queue: "queues (w_redis w) (async_job_queue_name (en_cfg env)) = uuid_str jid # waiting"
    and row: "filter (\<lambda>x. j_id x = jid) (jobs (w_db w)) = [j]" and queued: "j_status j = ''queued''"
    and clean: "w_saved w = w_db w" and quota: "quota_inv (w_db w)"
    and body: "job_request j = Inr (body, ir)" "job_messages body = Inr ms" "job_summary env ms ir = Inr s"
    and ready: "job_ready env w j body ir ms content"
  obtains v x where "run_once env finished (\<lambda>_ w. w) w = (Inr (), v)"
    "queues (w_redis v) (async_job_queue_name (en_cfg env)) = waiting"
    "filter (\<lambda>x. j_id x = jid) (jobs (w_db v)) = [x]" "j_client_id x = j_client_id j"
    "j_status x = ''completed''" "j_response_json x = Some (dumps content)"
proof -
  let ?q = "async_job_queue_name (en_cfg env)"
  obtain e r where pop: "rd_lpop (en_ops env) ?q (w_redis w) = (e, r)" by fastforce
  have popped: "e = Some (uuid_str jid)" "queues r ?q = waiting"
    using redis_server.lpop [OF server pop] queue by simp_all
  obtain k where depth: "rd_llen (en_ops env) ?q r = (k, r)" using redis_server.llen [OF server] by blast
  let ?u = "w\<lparr>w_redis := r, w_metrics := w_metrics w @ [Gauge ''ASYNC_QUEUE_DEPTH'' [] k]\<rparr>"
  have start: "filter (\<lambda>x. j_id x = jid) (jobs (w_db ?u)) = [j]" "w_saved ?u = w_db ?u" "quota_inv (w_db ?u)"
    "job_ready env ?u j body ir ms content"
    using row clean quota ready by (simp_all add: job_ready_def)
  obtain v x where v: "process_generation_job env finished (\<lambda>_ w. w) jid ?u = (Inr ''completed'', v)"
    "jobs (w_saved v) = put_job jid x (jobs (w_db ?u))" "j_id x = jid" "j_client_id x = j_client_id j"
    "j_status x = ''completed''" "j_response_json x = Some (dumps content)" "w_redis v = w_redis ?u"
    by (rule process_completes [OF start(1) queued start(2,3) body start(4)])
  have "run_once env finished (\<lambda>_ w. w) w = (Inr (), v\<lparr>w_db := w_saved v\<rparr>)"
    using pop popped(1) depth v(1) uuid_of_text_str [OF id]
    by (simp add: run_once_def redis_call_def queue_depth_def emit_def bindE_apply seqE_apply modifyE_def handle_def Let_def)
  then show ?thesis
    by (rule that [of _ x]) (use popped(2) v(2,4-7) put_job_found [OF row v(3)] in simp_all)
qed

text \<open>What its client then reads.\<close>

lemma completed_job_read:
  assumes "filter (\<lambda>x. j_id x = jid) (jobs (w_db w)) = [x]" and "j_client_id x = c_id c"
    and "j_status x = ''completed''" and "j_response_json x = Some (dumps content)"
  shows "\<exists>fields. get_job_status reader c jid w = (Inr (JObj fields), w) \<and>
    dict_get fields ''status'' = Some (JStr ''completed'') \<and> dict_get fields ''response'' = Some content"
proof -
  have "filter (\<lambda>x. j_id x = jid \<and> j_client_id x = c_id c) (jobs (w_db w)) =
      filter (\<lambda>x. j_client_id x = c_id c) (filter (\<lambda>x. j_id x = jid) (jobs (w_db w)))"
    by (simp add: conj_commute)
  with assms show ?thesis
    by (simp add: get_job_status_def get_job_for_client_def bindE_apply serialize_job_def parse_json_def dumps_def text_falsy_def)
qed

text \<open>
  C27. Accepted is answered. After a chat request has been accepted as a job into an empty queue, and
  the jobs and the queue are as the acceptance left them, the worker's next turn answers it, run on its
  own, if: the client may be served, the first backend of the routing plan is active, has a slot free
  and answers, the breaker is closed, and the cache has no live entry for the request. The client then
  reads the job as completed, with the response the backend gave, and the queue is empty again.
\<close>

theorem accepted_job_is_answered:
  assumes "redis_server (en_ops env) entries queues" and "chat_completions_async env c q w = (Inr accepted, t)"
    and "check_async_chat env (w_db w) c q = Inr (m, requested, messages, n, p)"
    and "\<forall>j\<in>set (jobs (w_db w)). j_id j < next_id (w_db w)" and "next_id (w_db t) \<le> 16 ^ 32"
    and "queues (w_redis w) (async_job_queue_name (en_cfg env)) = []"
    and "w_redis u = w_redis t" and "jobs (w_db u) = jobs (w_db t)" and "w_saved u = w_db u" and "quota_inv (w_db u)"
    and "en_ops later = en_ops env" and "async_job_queue_name (en_cfg later) = async_job_queue_name (en_cfg env)"
    and "\<forall>j. j_client_id j = c_id c \<and> j_model_registry_id j = Some (m_id m) \<and> j_resolved_model j = m_model_id m \<longrightarrow>
      job_ready later u j (stored_body q m messages p) (cq_include_reasoning q) (json_messages messages) content"
  shows "\<exists>jid v fields. run_once later finished (\<lambda>_ w. w) u = (Inr (), v) \<and>
     queues (w_redis v) (async_job_queue_name (en_cfg env)) = [] \<and>
     (\<exists>rest. accepted = JObj ((''id'', JStr (uuid_str jid)) # rest)) \<and>
     get_job_status reader c jid v = (Inr (JObj fields), v) \<and>
     dict_get fields ''status'' = Some (JStr ''completed'') \<and> dict_get fields ''response'' = Some content"
proof -
  let ?q = "async_job_queue_name (en_cfg env)"
  obtain jid prepared m' requested' messages' n' p' where
    "check_async_chat env (w_db w) c q = Inr (m', requested', messages', n', p')"
    and job: "pj_selected_model_db_id prepared = m_id m'" "pj_selected_model_id prepared = m_model_id m'"
      "pj_request_body prepared = job_body q m' messages' p'"
      "jobs (w_db t) = jobs (w_db w) @ [new_job (en_now env) jid (c_id c) q prepared]" "w_saved t = w_db t"
      "next_id (w_db w) \<le> jid" "jid < next_id (w_db t)"
      "queues (w_redis t) = (queues (w_redis w)) (?q := queues (w_redis w) ?q @ [uuid_str jid])"
      "\<exists>rest. accepted = JObj ((''id'', JStr (uuid_str jid)) # rest)"
    by (rule redis_server.accepted_job [OF assms(1) refl assms(2)])
  then have same: "m' = m" "messages' = messages" "p' = p" using assms(3) by simp_all
  let ?j = "new_job (en_now env) jid (c_id c) q prepared"
  have row: "filter (\<lambda>x. j_id x = jid) (jobs (w_db u)) = [?j]"
    using assms(4,8) job(4,6) by (auto simp: filter_empty_conv new_job_def)
  note body = job_of_request(1) [OF job(3) [unfolded same], of "en_now env" jid "c_id c"]
    and messages = job_of_request(2) [OF job(3) [unfolded same]]
  obtain s where summary: "job_summary later (json_messages messages) (cq_include_reasoning q) = Inr s"
    using job_of_request(3) [OF job(3) [unfolded same]] by blast
  have queue: "queues (w_redis u) (async_job_queue_name (en_cfg later)) = uuid_str jid # []"
    using assms(6,7,12) job(8) by simp
  have ready: "job_ready later u ?j (stored_body q m messages p) (cq_include_reasoning q) (json_messages messages) content"
    using assms(13) job(1,2) same by (simp add: new_job_def)
  have queued: "j_status ?j = ''queued''" "jid < 16 ^ 32"
    using job(7) assms(5) by (simp_all add: new_job_def)
  have server: "redis_server (en_ops later) entries queues" using assms(1,11) by simp
  obtain v z where v: "run_once later finished (\<lambda>_ w. w) u = (Inr (), v)"
    "queues (w_redis v) (async_job_queue_name (en_cfg later)) = []"
    "filter (\<lambda>x. j_id x = jid) (jobs (w_db v)) = [z]" "j_client_id z = j_client_id ?j"
    "j_status z = ''completed''" "j_response_json z = Some (dumps content)"
    by (rule turn_completes [OF server queued(2) queue row queued(1) assms(9,10) body messages summary ready])
  have "j_client_id z = c_id c" using v(4) by (simp add: new_job_def)
  from completed_job_read [OF v(3) this v(5,6), of reader] v(1,2) job(9) assms(12) show ?thesis by auto
qed

section \<open>A model without routes\<close>

text \<open>
  C28. A model without routes stops the worker. A request for such a model goes to the model's own backend when it is
  answered at once. As a job it ends in a \<open>RuntimeError\<close>, unless the mapped class loads that backend by
  itself: the worker's turn raises, no later turn is taken, the entry is gone from the queue, and the row
  stays queued.
\<close>

theorem unrouted_model_stops_worker:
  assumes "redis_server (en_ops env) entries queues"
    and "queues (w_redis w) (async_job_queue_name (en_cfg env)) = uuid_str jid # waiting" and "jid < 16 ^ 32"
    and "filter (\<lambda>x. j_id x = jid) (jobs (w_db w)) = [j]" and "j_status j = ''queued''" and "job_client_usable (w_db w) j"
    and "job_request j = Inr (body, include_reasoning)" and "job_messages body = Inr messages"
    and "response_cache_enabled (en_cfg env) \<longrightarrow> cache_ok (w_db w) \<and>
      cached (w_db w) (en_now env) (''/v1/chat/completions'', j_resolved_model j,
        fst (job_cache_key env j body messages include_reasoning)) = None"
    and "en_lazy env = Some raised" and "job_model (w_db w) j = Some m" and "model_routes (w_db w) m = []"
    and "model_backend (w_db w) m = Some b" and "b_is_active b" and "w_saved w = w_db w"
  shows "map (r_inference_backend_id \<circ> fst) (planned_routes (en_pick env) (w_db w) m) = [b_id b] \<and>
     (\<exists>t. worker_turns ((env, finished, \<lambda>_ w. w) # turns) w = (Inl (RuntimeError
         ''ModelRegistry routing relationships must be eagerly loaded before serialization: ModelRegistry.inference_backend''), t) \<and>
       queues (w_redis t) (async_job_queue_name (en_cfg env)) = waiting \<and>
       filter (\<lambda>x. j_id x = jid) (jobs (w_saved t)) = [j])"
proof -
  let ?q = "async_job_queue_name (en_cfg env)"
  let ?e = "RuntimeError ''ModelRegistry routing relationships must be eagerly loaded before serialization: ModelRegistry.inference_backend''"
  have own: "m_inference_backend_id m \<noteq> None"
    using assms(13) by (auto simp: model_backend_def split: option.splits)
  have plan: "job_plan env (w_db w) j = Inl ?e"
    using assms(10-12) own by (simp add: job_plan_def routes_loaded)
  obtain x r where pop: "rd_lpop (en_ops env) ?q (w_redis w) = (x, r)" by fastforce
  have popped: "x = Some (uuid_str jid)" "queues r = (queues (w_redis w)) (?q := waiting)"
    using redis_server.lpop [OF assms(1) pop] assms(2) by simp_all
  obtain k where depth: "rd_llen (en_ops env) ?q r = (k, r)" using redis_server.llen [OF assms(1)] by blast
  let ?u = "w\<lparr>w_redis := r, w_metrics := w_metrics w @ [Gauge ''ASYNC_QUEUE_DEPTH'' [] k]\<rparr>"
  obtain met where look: "lookup_exact_cache (en_cfg env) (en_now env) ''/v1/chat/completions'' (j_resolved_model j)
      (fst (job_cache_key env j body messages include_reasoning)) ?u = (Inr cache_miss, ?u\<lparr>w_metrics := met\<rparr>)"
    using lookup_misses [of "en_cfg env" ?u "en_now env" "''/v1/chat/completions''" "j_resolved_model j"
        "fst (job_cache_key env j body messages include_reasoning)"] assms(9) by auto
  have process: "process_generation_job env finished (\<lambda>_ w. w) jid ?u = (Inl ?e, ?u\<lparr>w_metrics := met\<rparr>)"
    using assms(4-8,11) look plan
    by (simp add: process_generation_job_def process_queued_def claim_and_run_def bindE_apply seqE_apply cache_miss_def)
  have id: "uuid_of_text (uuid_str jid) = Some jid" by (rule uuid_of_text_str) (rule assms(3))
  let ?t = "?u\<lparr>w_metrics := met, w_db := w_saved w\<rparr>"
  have "run_once env finished (\<lambda>_ w. w) w = (Inl ?e, ?t)"
    using pop popped(1) depth process id
    by (simp add: run_once_def redis_call_def queue_depth_def emit_def bindE_apply seqE_apply modifyE_def handle_def Let_def)
  then have "worker_turns ((env, finished, \<lambda>_ w. w) # turns) w = (Inl ?e, ?t)"
    by (simp add: worker_turns_def bindE_apply)
  moreover have "map (r_inference_backend_id \<circ> fst) (planned_routes (en_pick env) (w_db w) m) = [b_id b]"
    using assms(12-14) by (simp add: planned_routes_def plan_routing_order_def get_routing_candidates_def synthetic_route_def)
  ultimately show ?thesis using popped(2) assms(4,15) by simp
qed

section \<open>Witnesses\<close>

definition async_env :: "store env" where
  "async_env = store_env\<lparr>en_call := (\<lambda>_. idle_call\<lparr>xc_post := (\<lambda>_ _ _ _. Answer 200 (Some answer) [] [])\<rparr>)\<rparr>"

definition async_world :: "store world" where
  "async_world = store_world\<lparr>w_db := routing_db\<lparr>next_id := 30, clients := [chat_client]\<rparr>,
     w_saved := routing_db\<lparr>next_id := 30, clients := [chat_client]\<rparr>\<rparr>"

definition async_question :: chat_request where
  "async_question = chat_question\<lparr>cq_sampling := terse\<lparr>sm_stream := False\<rparr>\<rparr>"

definition async_params :: params where
  "async_params = \<lparr>pa_max_tokens = JInt 60, pa_temperature = JFloat (7 / 10), pa_top_p = JFloat (19 / 20),
     pa_plan = resolve_effective_plan (w_db async_world) chat_client\<rparr>"

definition async_messages :: "dict list" where
  "async_messages = [[(''role'', JStr ''user''), (''content'', JStr ''hi'')]]"

lemma async_checked:
  "check_async_chat async_env (w_db async_world) chat_client async_question =
     Inr (example_model, ''gemma'', async_messages, 5, async_params)"
  by code_simp

lemma async_accepted: "\<not> isl (fst (chat_completions_async async_env chat_client async_question async_world))"
  by code_simp

lemma async_next_id:
  "next_id (w_db (snd (chat_completions_async async_env chat_client async_question async_world))) = 33"
  by code_simp

lemma async_answer:
  "case prepared_request proxy_settings ''/v1/chat/completions'' (stored_body async_question example_model async_messages async_params)
       False ''llama.cpp'' (Some ''gemma'') False of Inl _ \<Rightarrow> False | Inr _ \<Rightarrow>
     \<not> isl (json_body 0 ''/v1/chat/completions'' (stored_body async_question example_model async_messages async_params)
       False ''llama.cpp'' (Some ''gemma'') (Some answer))"
  by code_simp

lemma async_plan:
  "planned_routes (\<lambda>_ _. 0) (w_db async_world) example_model =
     [(example_route 2 7 1 ''healthy'', Some (route_backend 7 ''a'')), (example_route 1 8 2 ''healthy'', Some (route_backend 8 ''b''))]"
  by code_simp

lemma planned_routes_jobs: "planned_routes pick (d\<lparr>next_id := n, jobs := J\<rparr>) m = planned_routes pick d m"
proof -
  have b: "backend_of (d\<lparr>next_id := n, jobs := J\<rparr>) bid = backend_of d bid" for bid by (simp add: backend_of_def)
  then have "model_backend (d\<lparr>next_id := n, jobs := J\<rparr>) m = model_backend d m" "model_routes (d\<lparr>next_id := n, jobs := J\<rparr>) m = model_routes d m"
    "route_usable (d\<lparr>next_id := n, jobs := J\<rparr>) = route_usable d"
    by (simp_all add: fun_eq_iff model_backend_def model_routes_def route_usable_def split: option.split)
  with b show ?thesis by (simp add: planned_routes_def plan_routing_order_def get_routing_candidates_def)
qed

text \<open>The worker finds the accepted job, nothing else having happened to its tables since.\<close>

definition async_later :: "store world" where
  "async_later = (let t = snd (chat_completions_async async_env chat_client async_question async_world);
       d = (w_db async_world)\<lparr>next_id := 33, jobs := jobs (w_db t)\<rparr> in
     async_world\<lparr>w_db := d, w_saved := d, w_redis := w_redis t\<rparr>)"

lemma async_ready:
  "\<exists>content. \<forall>j :: job. j_client_id j = 1 \<longrightarrow> j_model_registry_id j = Some 3 \<longrightarrow>
    job_ready async_env async_later j (stored_body async_question example_model async_messages async_params) False
      (json_messages async_messages) content"
proof -
  let ?body = "stored_body async_question example_model async_messages async_params"
  obtain target request where request: "prepared_request proxy_settings ''/v1/chat/completions'' ?body False ''llama.cpp'' (Some ''gemma'') False =
      Inr (target, request)"
    and "\<not> isl (json_body 0 ''/v1/chat/completions'' ?body False ''llama.cpp'' (Some ''gemma'') (Some answer))"
    using async_answer by (auto split: sum.splits)
  then obtain content where body: "json_body 0 ''/v1/chat/completions'' ?body False ''llama.cpp'' (Some ''gemma'') (Some answer) = Inr content"
    by (cases "json_body 0 ''/v1/chat/completions'' ?body False ''llama.cpp'' (Some ''gemma'') (Some answer)") auto
  have answers: "backend_answers async_env ?body False example_model (route_backend 7 ''a'') 200 content"
    using request body
    by (simp add: backend_answers_def async_env_def store_env_def idle_call_def route_backend_def client_for_backend_def
        example_model_def proxy_settings_def default_settings_def numeral_2_eq_2 Let_def)
  have db: "w_db async_later = (w_db async_world)\<lparr>next_id := 33, jobs := jobs (w_db async_later)\<rparr>"
    by (simp add: async_later_def Let_def)
  have same: "planned_routes pick (w_db async_later) m = planned_routes pick (w_db async_world) m" for pick m
    by (subst db) (rule planned_routes_jobs)
  have env: "en_lazy async_env = None" "en_pick async_env = (\<lambda>_ _. 0)" by (simp_all add: async_env_def store_env_def)
  have closed: "failures (w_breaker async_later) < failure_threshold (w_breaker async_later)"
    by (simp add: async_later_def async_world_def store_world_def new_breaker_def proxy_settings_def default_settings_def Let_def)
  have slot: "b_id (route_backend 7 ''a'') = 7" "b_is_active (route_backend 7 ''a'')"
    "b_current_running (route_backend 7 ''a'') < slot_limit (route_backend 7 ''a'')"
    by (simp_all add: route_backend_def slot_limit_def)
  show ?thesis
  proof (intro exI allI impI)
    fix j :: job
    assume j: "j_client_id j = 1" "j_model_registry_id j = Some 3"
    have "job_client_usable (w_db async_later) j"
      using j by (subst db) (simp add: job_client_usable_def async_world_def chat_client_def routing_client_def)
    moreover have "job_model (w_db async_later) j = Some example_model"
      using j by (subst db) (simp add: job_model_def async_world_def routing_db_def example_model_def)
    moreover have "backend_of (w_db async_later) 7 = Some (route_backend 7 ''a'')"
      by (subst db) (simp add: backend_of_def async_world_def routing_db_def route_backend_def)
    moreover have "cached (w_db async_later) now k = None" "cache_ok (w_db async_later)" for now k
      by (subst db, simp add: cached_def row_at_def cache_ok_def async_world_def routing_db_def empty_db_def)+
    moreover have "job_plan async_env (w_db async_later) j =
        Inr ((example_route 2 7 1 ''healthy'', Some (route_backend 7 ''a'')) # [(example_route 1 8 2 ''healthy'', Some (route_backend 8 ''b''))])"
      if "job_model (w_db async_later) j = Some example_model"
      using that async_plan by (simp add: job_plan_def read_primary_def same env)
    ultimately show "job_ready async_env async_later j ?body False (json_messages async_messages) content"
      using answers closed slot unfolding job_ready_def by fastforce
  qed
qed

theorem accepted_job_is_answered_witness:
  "\<exists>jid v fields. run_once async_env 9 (\<lambda>_ w. w) async_later = (Inr (), v) \<and>
     get_job_status async_env chat_client jid v = (Inr (JObj fields), v) \<and>
     dict_get fields ''status'' = Some (JStr ''completed'')"
proof -
  obtain accepted t where run: "chat_completions_async async_env chat_client async_question async_world = (Inr accepted, t)"
    using async_accepted by (cases "chat_completions_async async_env chat_client async_question async_world"; cases "fst (chat_completions_async async_env chat_client async_question async_world)") auto
  obtain content where ready: "\<forall>j :: job. j_client_id j = 1 \<longrightarrow> j_model_registry_id j = Some 3 \<longrightarrow>
    job_ready async_env async_later j (stored_body async_question example_model async_messages async_params) False
      (json_messages async_messages) content"
    using async_ready by blast
  have server: "redis_server (en_ops async_env) st_entries st_queues"
    using kv.redis_server_axioms by (simp add: async_env_def store_env_def)
  have later: "w_redis async_later = w_redis t" "jobs (w_db async_later) = jobs (w_db t)" "w_saved async_later = w_db async_later"
    using run by (simp_all add: async_later_def Let_def)
  have "quota_inv (w_db async_later)"
    by (simp add: async_later_def Let_def async_world_def routing_db_def empty_db_def quota_inv_def quota_rows_ok_def
        ledger_def accounted_def fun_eq_iff)
  moreover have "jobs (w_db async_world) = []" "st_queues (w_redis async_world) k = []" for k
    by (simp_all add: async_world_def routing_db_def empty_db_def store_world_def empty_store_def)
  moreover have "next_id (w_db t) \<le> 16 ^ 32" using async_next_id run by simp
  moreover have "cq_include_reasoning async_question = False" "c_id chat_client = 1" "m_id example_model = 3"
    by (simp_all add: async_question_def chat_question_def chat_client_def routing_client_def example_model_def)
  ultimately show ?thesis
    using accepted_job_is_answered [OF server run async_checked _ _ _ later, of async_env content 9 async_env] ready
    by auto
qed

definition unrouted_env :: "store env" where
  "unrouted_env = async_env\<lparr>en_lazy := Some (\<lambda>_ _. None)\<rparr>"

definition unrouted_world :: "store world" where
  "unrouted_world = (let d = routing_db\<lparr>next_id := 30, clients := [chat_client], jobs := [queued_example], routes := []\<rparr> in
     store_world\<lparr>w_db := d, w_saved := d,
       w_redis := empty_store\<lparr>st_queues := (\<lambda>_. []) (async_job_queue_name proxy_settings := [uuid_str 20])\<rparr>\<rparr>)"

theorem unrouted_model_stops_worker_witness:
  "fst (worker_turns [(unrouted_env, 9, \<lambda>_ w. w), (unrouted_env, 9, \<lambda>_ w. w)] unrouted_world) = Inl (RuntimeError
     ''ModelRegistry routing relationships must be eagerly loaded before serialization: ModelRegistry.inference_backend'')"
proof -
  have db: "w_db unrouted_world = routing_db\<lparr>next_id := 30, clients := [chat_client], jobs := [queued_example], routes := []\<rparr>"
    "w_saved unrouted_world = w_db unrouted_world"
    by (simp_all add: unrouted_world_def Let_def)
  have env: "en_ops unrouted_env = store_ops" "en_cfg unrouted_env = proxy_settings" "en_lazy unrouted_env = Some (\<lambda>_ _. None)"
    by (simp_all add: unrouted_env_def async_env_def store_env_def)
  have server: "redis_server (en_ops unrouted_env) st_entries st_queues" unfolding env by (rule kv.redis_server_axioms)
  have queue: "st_queues (w_redis unrouted_world) (async_job_queue_name (en_cfg unrouted_env)) = uuid_str 20 # []"
    by (simp add: unrouted_world_def env Let_def)
  have row: "filter (\<lambda>x. j_id x = 20) (jobs (w_db unrouted_world)) = [queued_example]" "j_status queued_example = ''queued''"
    by (simp_all add: db queued_example_def new_job_def)
  have client: "job_client_usable (w_db unrouted_world) queued_example"
    by (simp add: db job_client_usable_def queued_example_fields chat_client_def routing_client_def)
  let ?body = "[(''model'', JStr ''org/gemma''), (''messages'', JArr [JObj [(''role'', JStr ''user''), (''content'', JStr ''hi'')]])]"
  have body: "job_request queued_example = Inr (?body, False)"
      "job_messages ?body = Inr [JObj [(''role'', JStr ''user''), (''content'', JStr ''hi'')]]"
    by (simp_all add: job_request_def job_messages_def queued_example_def new_job_def dict_pop_def get_default_def)
  have cache: "response_cache_enabled (en_cfg unrouted_env) \<longrightarrow> cache_ok (w_db unrouted_world) \<and>
      cached (w_db unrouted_world) (en_now unrouted_env) k = None" for k
    by (simp add: db cached_def row_at_def cache_ok_def routing_db_def empty_db_def)
  have model: "job_model (w_db unrouted_world) queued_example = Some example_model" "model_routes (w_db unrouted_world) example_model = []"
      "model_backend (w_db unrouted_world) example_model = Some (route_backend 7 ''a'')" "b_is_active (route_backend 7 ''a'')"
    by (simp_all add: db job_model_def queued_example_def new_job_def routing_db_def example_model_def model_routes_def
        model_backend_def backend_of_def route_backend_def)
  show ?thesis
    using unrouted_model_stops_worker [OF server queue _ row client body cache env(3) model(1-4) db(2),
        of 9 "[(unrouted_env, 9, \<lambda>_ w. w)]"]
    by auto
qed

end
