(* ===== verification/StreamText.thy ===== *)
theory StreamText
  imports InferenceProxy
begin

text \<open>
  The text of a stream, from the lines of the backend to what the client puts together: every chunk
  goes through the same clean-up as a whole answer.
\<close>

section \<open>The clean-up of text without tags\<close>

lemma char_lower_bracket: "c \<noteq> CHR ''<'' \<Longrightarrow> char_lower c \<noteq> CHR ''<''"
proof -
  assume c: "c \<noteq> CHR ''<''"
  have "char_of (py_ord c + 32) \<noteq> CHR ''<''" if "65 \<le> py_ord c" "py_ord c \<le> 222"
  proof
    assume "char_of (py_ord c + 32) = CHR ''<''"
    then have "of_char (char_of (py_ord c + 32) :: char) = (60 :: nat)" by simp
    then have "(py_ord c + 32) mod 256 = 60" by simp
    with that show False by simp
  qed
  then show ?thesis using c by (auto simp: char_lower_def is_upper_def)
qed

lemma remove_think_absent: "CHR ''<'' \<notin> set s \<Longrightarrow> remove_think s = s"
proof (induction s)
  case (Cons c s)
  then have "c \<noteq> CHR ''<''" by auto
  then have "char_lower c \<noteq> CHR ''<''" by (rule char_lower_bracket)
  then have "\<not> starts_with_ci ''<think>'' (c # s)" by (simp add: starts_with_ci_def starts_with_def lower_def)
  with Cons show ?case by simp
qed simp

lemma sanitize_without_tags:
  assumes "CHR ''<'' \<notin> set s"
  shows "sanitize_assistant_text (JStr s) t ir = Inr (JStr (if t = Some ''qwen'' \<and> \<not> ir then strip s else s))"
  using assms by (auto simp: sanitize_assistant_text_def remove_think_absent replace_absent)

text \<open>A chunk of text as OpenAI-compatible servers send it, with whatever fields around the choices.\<close>

definition text_chunk :: "dict \<Rightarrow> string \<Rightarrow> json" where
  "text_chunk meta content = JObj (meta @ [(''choices'', JArr [JObj [(''index'', JInt 0),
     (''delta'', JObj [(''content'', JStr content)]), (''finish_reason'', JNull)]])])"

text \<open>The text a client puts together from what is relayed.\<close>

definition delivered :: "stream_line list \<Rightarrow> string" where
  "delivered out = concat (map (\<lambda>sl. case sl of
     Data d \<Rightarrow> (case stream_delta (JObj d) of Inr text \<Rightarrow> text | Inl _ \<Rightarrow> []) | Raw _ \<Rightarrow> []) out)"

definition kept_text :: "relay_options \<Rightarrow> string \<Rightarrow> string" where
  "kept_text ro c = (if ro_template ro = Some ''qwen'' \<and> \<not> ro_include_reasoning ro then strip c else c)"

lemma relay_text_line:
  assumes "ro_endpoint ro = ''/v1/chat/completions''" and "ro_backend ro \<noteq> ''ollama''"
    and "ro_decode ro l = Some (text_chunk meta c)" and "l \<noteq> ''[DONE]''" and "dict_get meta ''choices'' = None"
    and "CHR ''<'' \<notin> set c" and "\<not> loops_now ro (fs @ [c])"
  obtains d where "relay_line ro (''data: '' @ l) fs = Inr ([Data d], fs @ [c], False)" "delivered [Data d] = kept_text ro c"
proof -
  let ?p = "meta @ [(''choices'', JArr [JObj [(''index'', JInt 0),
     (''delta'', JObj [(''content'', JStr c)]), (''finish_reason'', JNull)]])]"
  have p: "dict_get ?p ''choices'' = Some (JArr [JObj [(''index'', JInt 0),
     (''delta'', JObj [(''content'', JStr c)]), (''finish_reason'', JNull)]])"
    using assms(5) by (simp add: dict_get_append)
  let ?d = "[(''id'', dict_get_or_null ?p ''id''), (''object'', get_default ?p ''object'' (JStr ''chat.completion'')),
      (''created'', dict_get_or_null ?p ''created''), (''model'', dict_get_or_null ?p ''model''),
      (''choices'', JArr [JObj [(''index'', JInt 0), (''finish_reason'', JNull), (''delta'', JObj [(''content'', JStr (kept_text ro c))])]])] @
      copied ?p ''usage'' @ copied ?p ''system_fingerprint''"
  have norm: "normalize_chat_completion (JObj ?p) (ro_include_reasoning ro) (ro_template ro) = Inr ?d"
    using p assms(6)
    by (simp add: normalize_chat_completion_def get_default_def iterate_def normalize_choice_def
      normalized_part_def or_empty_dict_def normalize_message_def sanitize_without_tags kept_text_def copied_def dict_get_or_null_def)
  have "stream_delta (JObj ?p) = Inr c"
    using p by (simp add: stream_delta_def first_item_def get_default_def Let_def)
  moreover have "line_out ro (Raw (''data: '' @ l)) = Inr [Data ?d]"
    using assms(1,3,4) norm
    by (simp add: line_out_def normalize_chat_stream_line_def normalize_stream_payload_def text_chunk_def starts_with_def dict_get_or_null_def)
  ultimately have "relay_line ro (''data: '' @ l) fs = Inr ([Data ?d], fs @ [c], False)"
    using assms(2-4,7)
    by (simp add: relay_line_def line_in_def line_delta_def text_chunk_def starts_with_def)
  moreover have "delivered [Data ?d] = kept_text ro c"
    by (simp add: delivered_def stream_delta_def first_item_def get_default_def Let_def)
  ultimately show ?thesis by (rule that)
qed

definition carries_text :: "relay_options \<Rightarrow> string \<Rightarrow> string \<Rightarrow> bool" where
  "carries_text ro l c \<longleftrightarrow> (\<exists>meta. ro_decode ro l = Some (text_chunk meta c) \<and> dict_get meta ''choices'' = None) \<and>
     l \<noteq> ''[DONE]'' \<and> CHR ''<'' \<notin> set c"

lemma relay_texts:
  assumes "ro_endpoint ro = ''/v1/chat/completions''" and "ro_backend ro \<noteq> ''ollama''"
    and "list_all2 (carries_text ro) ls cs" and "\<forall>n < length cs. \<not> loops_now ro (fs @ take (Suc n) cs)"
  shows "\<exists>out. relay ro (concat (map (\<lambda>l. [''data: '' @ l, []]) ls) @ [''data: [DONE]'', []]) fs =
      (out @ [Raw ''data: [DONE]''], Inr False) \<and> delivered out = concat (map (kept_text ro) cs)"
  using assms(3,4)
proof (induction ls cs arbitrary: fs rule: list_all2_induct)
  case Nil
  show ?case
    using assms(1,2)
    by (intro exI [of _ "[]"])
      (simp add: delivered_def relay_line_def line_in_def line_delta_def line_out_def normalize_chat_stream_line_def)
next
  case (Cons l ls c cs)
  have "\<not> loops_now ro (fs @ [c])" using Cons.prems by (auto dest: spec [of _ 0])
  with assms(1,2) Cons.hyps(1) obtain d
    where d: "relay_line ro (''data: '' @ l) fs = Inr ([Data d], fs @ [c], False)" "delivered [Data d] = kept_text ro c"
    unfolding carries_text_def by (blast intro: relay_text_line)
  have "\<forall>n < length cs. \<not> loops_now ro ((fs @ [c]) @ take (Suc n) cs)"
    using Cons.prems by (auto dest: spec [of _ "Suc n" for n])
  from Cons.IH [OF this] obtain out
    where out: "relay ro (concat (map (\<lambda>l. [''data: '' @ l, []]) ls) @ [''data: [DONE]'', []]) (fs @ [c]) =
      (out @ [Raw ''data: [DONE]''], Inr False)" "delivered out = concat (map (kept_text ro) cs)" by blast
  have "relay_line ro [] (fs @ [c]) = Inr ([], fs @ [c], False)" by (simp add: relay_line_def line_in_def)
  with d out show ?case by (intro exI [of _ "Data d # out"]) (simp add: delivered_def)
qed


text \<open>
  C21. A stream is delivered chunk by chunk. Text without tags that does not loop arrives whole and in order, followed by the end
  mark, and the request counts as a success; but with the Qwen template and reasoning left out, the clean-up strips each chunk: the
  white space between the chunks is lost and the words are glued together, which the same text in one JSON answer is not.
\<close>

theorem stream_text_delivered:
  assumes "ro_endpoint ro = ''/v1/chat/completions''" and "ro_backend ro \<noteq> ''ollama''"
    and "list_all2 (carries_text ro) ls cs" and "\<forall>n < length cs. \<not> loops_now ro (take (Suc n) cs)"
  shows "\<exists>out. event_stream ro clock (concat (map (\<lambda>l. [''data: '' @ l, []]) ls) @ [''data: [DONE]'', []]) None w =
      (Inr (out @ [Raw ''data: [DONE]''], None),
       w\<lparr>w_metrics := w_metrics w @ [Count ''REQUEST_COUNTER'' [''/v1/chat/completions'', ''success'']]\<rparr>) \<and>
    delivered out = concat (map (\<lambda>c. if ro_template ro = Some ''qwen'' \<and> \<not> ro_include_reasoning ro then strip c else c) cs)"
proof -
  obtain out where "relay ro (concat (map (\<lambda>l. [''data: '' @ l, []]) ls) @ [''data: [DONE]'', []]) [] =
      (out @ [Raw ''data: [DONE]''], Inr False)" "delivered out = concat (map (kept_text ro) cs)"
    using relay_texts [OF assms(1-3), of "[]"] assms(4) by auto
  with assms(1) show ?thesis
    by (intro exI [of _ out]) (simp add: event_stream_def seqE_apply kept_text_def [abs_def])
qed

definition qwen_stream :: relay_options where
  "qwen_stream = \<lparr>ro_decode = (\<lambda>s. Some (text_chunk [] (drop 1 s))), ro_created = 0,
     ro_endpoint = ''/v1/chat/completions'', ro_backend = ''llama.cpp'', ro_model = ''bonsai'',
     ro_include_reasoning = False, ro_template = Some ''qwen''\<rparr>"

theorem stream_text_delivered_witness:
  "\<exists>out. event_stream qwen_stream 0 [''data: {I am'', [], ''data: { here'', [], ''data: [DONE]'', []] None (example_world empty_db) =
      (Inr (out @ [Raw ''data: [DONE]''], None), (example_world empty_db)
        \<lparr>w_metrics := [Count ''REQUEST_COUNTER'' [''/v1/chat/completions'', ''success'']]\<rparr>) \<and> delivered out = ''I amhere''"
proof -
  have "list_all2 (carries_text qwen_stream) [''{I am'', ''{ here''] [''I am'', '' here'']"
    by (auto simp: carries_text_def qwen_stream_def intro!: exI [of _ "[]"])
  moreover have "strip '' here'' = ''here''" "strip ''I am'' = ''I am''" by code_simp+
  ultimately show ?thesis
    using stream_text_delivered [of qwen_stream "[''{I am'', ''{ here'']" "[''I am'', '' here'']" 0 "example_world empty_db"]
    by (simp add: qwen_stream_def loops_now_def less_Suc_eq example_world_def)
qed

end
