(* ===== verification/MockDataPlane.thy ===== *)
theory MockDataPlane
  imports StreamText AsyncAnswers
begin

text \<open>
  The mock data plane (\<open>data_plane_mock/main.py\<close>), the backend behind \<open>fallback-local\<close>, and what the proxy makes
  of its answers. The seconds of the clock are arguments, \<open>encode\<close> is \<open>json.dumps\<close> as text.
\<close>

section \<open>The handlers\<close>

definition mock_sentence :: string where
  "mock_sentence = ''This is a mock response from the fallback backend.''"

definition mock_health :: json where
  "mock_health = JObj [(''status'', JStr ''ok'')]"

definition mock_models :: "int \<Rightarrow> json" where
  "mock_models seconds_now = JObj [(''object'', JStr ''list''), (''data'', JArr [JObj [(''id'', JStr ''mock-model''),
     (''object'', JStr ''model''), (''created'', JInt seconds_now), (''owned_by'', JStr ''mock'')]])]"

definition mock_chunk :: "int \<Rightarrow> json \<Rightarrow> string \<Rightarrow> json" where
  "mock_chunk seconds_now model word = JObj [(''id'', JStr ''chatcmpl-mock''), (''object'', JStr ''chat.completion.chunk''),
     (''created'', JInt seconds_now), (''model'', model),
     (''choices'', JArr [JObj [(''index'', JInt 0), (''delta'', JObj [(''content'', JStr (word @ '' ''))]),
        (''finish_reason'', JNull)]])]"

text \<open>The events the generator yields; \<open>clock i\<close> is the time of the \<open>i\<close>-th.\<close>

definition mock_lines :: "(json \<Rightarrow> string) \<Rightarrow> (nat \<Rightarrow> int) \<Rightarrow> json \<Rightarrow> string list" where
  "mock_lines encode clock model =
     (let words = split_ws mock_sentence in
      map2 (\<lambda>i word. ''data: '' @ encode (mock_chunk (clock i) model word)) [0..<length words] words @ [''data: [DONE]''])"

definition mock_events :: "(json \<Rightarrow> string) \<Rightarrow> (nat \<Rightarrow> int) \<Rightarrow> json \<Rightarrow> string list" where
  "mock_events encode clock model = map (\<lambda>l. l @ [CHR 0x0A, CHR 0x0A]) (mock_lines encode clock model)"

definition mock_completion :: "int \<Rightarrow> json \<Rightarrow> json" where
  "mock_completion seconds_now model = JObj [(''id'', JStr ''chatcmpl-mock''), (''object'', JStr ''chat.completion''),
     (''created'', JInt seconds_now), (''model'', model),
     (''choices'', JArr [JObj [(''index'', JInt 0),
        (''message'', JObj [(''role'', JStr ''assistant''), (''content'', JStr mock_sentence)]),
        (''finish_reason'', JStr ''stop'')]]),
     (''usage'', JObj [(''prompt_tokens'', JInt 10), (''completion_tokens'', JInt 10), (''total_tokens'', JInt 20)])]"

datatype mock_reply = MockStream "string list" | MockJson json

definition mock_chat_completions :: "(json \<Rightarrow> string) \<Rightarrow> (nat \<Rightarrow> int) \<Rightarrow> dict \<Rightarrow> mock_reply" where
  "mock_chat_completions encode clock body =
     (let model = get_default body ''model'' (JStr ''mock-model''); stream = get_default body ''stream'' (JBool False) in
      if truthy stream then MockStream (mock_events encode clock model)
      else MockJson (mock_completion (clock 0) model))"

section \<open>Behind the proxy\<close>

lemma mock_words: "split_ws mock_sentence =
  [''This'', ''is'', ''a'', ''mock'', ''response'', ''from'', ''the'', ''fallback'', ''backend.'']"
  by code_simp

lemma ngram_threshold_cases: "ngram_threshold t \<in> {ngram_threshold None, ngram_threshold (Some ''gemma'')}"
  by (simp add: ngram_threshold_def)

lemma mock_sentence_runs:
  "\<not> detect_block_repetition mock_sentence 2" "\<not> detect_long_line_repetition mock_sentence 2"
  "\<not> detect_ngram_repetition mock_sentence 3" "\<not> detect_ngram_repetition mock_sentence 4"
  "\<not> detect_short_phrase_repetition mock_sentence 2"
  by code_simp+

lemma mock_sentence_plain: "\<not> detect_repetition mock_sentence 2 t"
  using mock_sentence_runs by (simp add: detect_repetition_def ngram_threshold_def)

lemma mock_sentence_clean: "sanitize_assistant_text (JStr mock_sentence) t ir = Inr (JStr mock_sentence)"
proof -
  have "strip mock_sentence = mock_sentence" by code_simp
  then show ?thesis by (simp add: sanitize_without_tags mock_sentence_def)
qed

text \<open>What the client of the proxy gets: the completion with its parts in the order of the clean-up.\<close>

definition mock_answer :: "int \<Rightarrow> json \<Rightarrow> json" where
  "mock_answer seconds_now model = JObj [(''id'', JStr ''chatcmpl-mock''), (''object'', JStr ''chat.completion''),
     (''created'', JInt seconds_now), (''model'', model),
     (''choices'', JArr [JObj [(''index'', JInt 0), (''finish_reason'', JStr ''stop''),
        (''message'', JObj [(''role'', JStr ''assistant''), (''content'', JStr mock_sentence)])]]),
     (''usage'', JObj [(''prompt_tokens'', JInt 10), (''completion_tokens'', JInt 10), (''total_tokens'', JInt 20)])]"

lemma template_settings_keep:
  assumes "dict_get body ''chat_template_kwargs'' = None"
  obtains request where "apply_prompt_template_settings body t ir backend fallback = Inr request"
    "dict_get request ''model'' = dict_get body ''model''" "dict_get request ''stream'' = dict_get body ''stream''"
proof -
  have "\<exists>request. apply_prompt_template_settings body t ir backend fallback = Inr request \<and>
      dict_get request ''model'' = dict_get body ''model'' \<and> dict_get request ''stream'' = dict_get body ''stream''"
    using assms
    by (simp add: apply_prompt_template_settings_def disable_thinking_def dict_get_or_null_def dict_get_set Let_def)
  with that show ?thesis by blast
qed

lemma mock_json_body:
  "json_body created ''/v1/chat/completions'' body ir ''llama.cpp'' t (Some (mock_completion seconds_now model)) =
   Inr (mock_answer seconds_now model)"
  by (simp add: json_body_def mock_completion_def mock_answer_def normalize_chat_completion_def iterate_def get_default_def
      normalize_choice_def normalized_part_def or_empty_dict_def normalize_message_def mock_sentence_clean mock_sentence_plain copied_def
      dict_get_or_null_def apply_anti_loop_def Let_def)

text \<open>
  The mock as the backend of a JSON call: every request of the proxy is answered, and the answer is that of the mock.
  So a job planned on it is ready to be answered as far as the backend goes.
\<close>

theorem mock_backend_answers:
  assumes "b_provider b = ''llama.cpp''" and "dict_get body ''chat_template_kwargs'' = None"
    and "\<not> truthy (get_default body ''stream'' (JBool False))"
    and "\<forall>n url target request. xc_post (en_call env 1) n url target request =
      (case mock_chat_completions encode clock request of
         MockJson v \<Rightarrow> Answer 200 (Some v) [] [] | MockStream events \<Rightarrow> Answer 200 None (concat events) [])"
  shows "backend_answers env body ir m b 200 (mock_answer (clock 0) (get_default body ''model'' (JStr ''mock-model'')))"
proof -
  obtain request where r: "apply_prompt_template_settings body (m_prompt_template m) ir ''llama.cpp''
      (bonsai_chat_template (en_cfg env)) = Inr request" "dict_get request ''model'' = dict_get body ''model''"
    "dict_get request ''stream'' = dict_get body ''stream''"
    by (rule template_settings_keep [OF assms(2)])
  have "tries (\<lambda>n. xc_post (en_call env 1) n url target request) 1 k =
      Answer 200 (Some (mock_completion (clock 0) (get_default body ''model'' (JStr ''mock-model'')))) [] []" for url target k
    using assms(3,4) r(2,3) by (cases k) (simp_all add: mock_chat_completions_def get_default_def Let_def)
  with r(1) assms(1) show ?thesis
    by (simp add: backend_answers_def Let_def client_for_backend_def prepared_request_def mock_json_body)
qed

section \<open>The stream\<close>

lemma mock_chunk_text: "mock_chunk seconds_now model word =
  text_chunk [(''id'', JStr ''chatcmpl-mock''), (''object'', JStr ''chat.completion.chunk''), (''created'', JInt seconds_now),
    (''model'', model)] (word @ '' '')"
  by (simp add: mock_chunk_def text_chunk_def)

lemma mock_prefix_plain: "\<not> detect_repetition ''This is a mock response '' 2 t"
proof -
  have "\<not> detect_block_repetition ''This is a mock response '' 2" "\<not> detect_long_line_repetition ''This is a mock response '' 2"
    "\<not> detect_ngram_repetition ''This is a mock response '' 3" "\<not> detect_ngram_repetition ''This is a mock response '' 4"
    "\<not> detect_short_phrase_repetition ''This is a mock response '' 2" by code_simp+
  then show ?thesis by (simp add: detect_repetition_def ngram_threshold_def)
qed

text \<open>
  The mock's stream through the proxy: every word arrives; under the Qwen template they arrive without
  the spaces between them. The client that reads the lines turns each event into a line and an empty one.
\<close>

theorem mock_stream_delivered:
  assumes "ro_endpoint ro = ''/v1/chat/completions''" and "ro_backend ro = ''llama.cpp''"
    and "\<forall>d. ro_decode ro (encode (JObj d)) = Some (JObj d) \<and> encode (JObj d) \<noteq> ''[DONE]''"
  shows "\<exists>out. relay ro (concat (map (\<lambda>l. [l, []]) (mock_lines encode clock model))) [] = (out @ [Raw ''data: [DONE]''], Inr False) \<and>
    delivered out = (if ro_template ro = Some ''qwen'' \<and> \<not> ro_include_reasoning ro
      then ''Thisisamockresponsefromthefallbackbackend.'' else mock_sentence @ '' '')"
proof -
  let ?words = "split_ws mock_sentence"
  let ?ls = "map2 (\<lambda>i word. encode (mock_chunk (clock i) model word)) [0..<length ?words] ?words"
  have lines: "concat (map (\<lambda>l. [l, []]) (mock_lines encode clock model)) =
      concat (map (\<lambda>l. [''data: '' @ l, []]) ?ls) @ [''data: [DONE]'', []]"
    by (simp add: mock_lines_def mock_words)
  have "list_all2 (carries_text ro) ?ls (map (\<lambda>word. word @ '' '') ?words)"
    using assms(3) unfolding mock_words
    by (simp add: carries_text_def mock_chunk_text) (auto simp: text_chunk_def)
  moreover have "\<forall>n < length ?words. \<not> loops_now ro (take (Suc n) (map (\<lambda>word. word @ '' '') ?words))"
    unfolding mock_words by (simp add: loops_now_def less_Suc_eq all_conj_distrib mock_prefix_plain)
  ultimately obtain out where "relay ro (concat (map (\<lambda>l. [''data: '' @ l, []]) ?ls) @ [''data: [DONE]'', []]) [] =
      (out @ [Raw ''data: [DONE]''], Inr False)" "delivered out = concat (map (kept_text ro) (map (\<lambda>word. word @ '' '') ?words))"
    using relay_texts [of ro ?ls "map (\<lambda>word. word @ '' '') ?words" "[]"] assms(1,2) by auto
  moreover have "concat (map (\<lambda>word. strip (word @ '' '')) ?words) = ''Thisisamockresponsefromthefallbackbackend.''"
    unfolding mock_words by code_simp
  moreover have "concat (map (\<lambda>word. word @ '' '') ?words) = mock_sentence @ '' ''"
    unfolding mock_words by (simp add: mock_sentence_def)
  moreover have "kept_text ro = (if ro_template ro = Some ''qwen'' \<and> \<not> ro_include_reasoning ro then strip else id)"
    by (auto simp: kept_text_def)
  ultimately show ?thesis unfolding lines by (intro exI [of _ out]) (simp add: comp_def)
qed

end
