(* ===== verification/Wp.thy ===== *)
theory Wp
  imports Security
begin

text \<open>
  Weakest preconditions of effects: \<open>wp Q E m w\<close> says that \<open>m\<close>, run in \<open>w\<close>, ends in a result and a state
  of \<open>Q\<close> or in an exception and a state of \<open>E\<close>. The equations run a handler symbolically, one step after the
  other, with what it has read at hand; operations that are long have a rule of their own.
\<close>

definition wp :: "('a \<Rightarrow> 's \<Rightarrow> bool) \<Rightarrow> ('e \<Rightarrow> 's \<Rightarrow> bool) \<Rightarrow> ('s, 'e, 'a) eff \<Rightarrow> 's \<Rightarrow> bool" where
  "wp Q E m w = (case m w of (Inr x, t) \<Rightarrow> Q x t | (Inl e, t) \<Rightarrow> E e t)"

named_theorems wp_simps \<open>weakest preconditions of the primitive effects\<close>

lemma wpD: "wp Q E m w \<Longrightarrow> m w = (r, t) \<Longrightarrow> (case r of Inr x \<Rightarrow> Q x t | Inl e \<Rightarrow> E e t)"
  by (simp add: wp_def split: sum.splits)

lemma wpI: "(\<And>x t. m w = (Inr x, t) \<Longrightarrow> Q x t) \<Longrightarrow> (\<And>e t. m w = (Inl e, t) \<Longrightarrow> E e t) \<Longrightarrow> wp Q E m w"
  by (auto simp: wp_def split: prod.splits sum.splits)

lemma wp_mono:
  assumes "wp Q E m w" and "\<And>x t. Q x t \<Longrightarrow> Q' x t" and "\<And>e t. E e t \<Longrightarrow> E' e t"
  shows "wp Q' E' m w"
  using assms by (auto simp: wp_def split: prod.splits sum.splits)

text \<open>The same, to apply a rule for \<open>m\<close> whose two postconditions have been proved.\<close>

lemma wp_weaken:
  assumes "wp Q E m w"
  shows "(\<And>x t. Q x t \<Longrightarrow> Q' x t) \<Longrightarrow> (\<And>e t. E e t \<Longrightarrow> E' e t) \<Longrightarrow> wp Q' E' m w"
  by (rule wp_mono [OF assms])

lemma wp_bind [wp_simps]: "wp Q E (bindE m f) w = wp (\<lambda>x. wp Q E (f x)) E m w"
  by (simp add: wp_def bindE_def split: prod.splits sum.splits)

lemma wp_seq [wp_simps]: "wp Q E (seqE m k) w = wp (\<lambda>_. wp Q E k) E m w"
  by (simp add: seqE_def wp_bind)

lemma wp_ret [wp_simps]: "wp Q E (ret x) w = Q x w"
  by (simp add: wp_def)

lemma wp_raise [wp_simps]: "wp Q E (raise e) w = E e w"
  by (simp add: wp_def)

lemma wp_liftE [wp_simps]: "wp Q E (liftE r) w = (case r of Inr x \<Rightarrow> Q x w | Inl e \<Rightarrow> E e w)"
  by (simp add: wp_def liftE_def split: sum.splits)

lemma wp_catch [wp_simps]: "wp Q E (catchE m h) w = wp Q (\<lambda>e. wp Q E (h e)) m w"
  by (simp add: wp_def catchE_def split: prod.splits sum.splits)

lemma wp_if [wp_simps]: "wp Q E (if b then m else k) w = (if b then wp Q E m w else wp Q E k w)"
  by simp

lemma wp_option [wp_simps]: "wp Q E (case x of None \<Rightarrow> m | Some y \<Rightarrow> f y) w =
    (case x of None \<Rightarrow> wp Q E m w | Some y \<Rightarrow> wp Q E (f y) w)"
  by (simp split: option.splits)

lemma wp_prod [wp_simps]: "wp Q E (case p of (a, b) \<Rightarrow> g a b) w = (case p of (a, b) \<Rightarrow> wp Q E (g a b) w)"
  by (simp split: prod.splits)

lemma wp_let [wp_simps]: "wp Q E (Let v h) w = (let x = v in wp Q E (h x) w)"
  by simp

lemma wp_query [wp_simps]: "wp Q E (query f) w = Q (f (w_db w)) w"
  by (simp add: wp_def)

lemma wp_update [wp_simps]: "wp Q E (update g) w = Q () (w\<lparr>w_db := g (w_db w)\<rparr>)"
  and wp_commit [wp_simps]: "wp Q E commit w = Q () (w\<lparr>w_saved := w_db w\<rparr>)"
  and wp_emit [wp_simps]: "wp Q E (emit m) w = Q () (w\<lparr>w_metrics := w_metrics w @ [m]\<rparr>)"
  by (simp_all add: wp_def)

lemma wp_fresh [wp_simps]:
  "wp Q E fresh_id w = Q (next_id (w_db w)) (w\<lparr>w_db := (w_db w)\<lparr>next_id := Suc (next_id (w_db w))\<rparr>\<rparr>)"
  by (simp add: wp_def)

text \<open>A loop, by what holds after its first turns and their results; it keeps what each turn keeps.\<close>

lemma wp_for_results:
  assumes "I ys w" and "\<And>x ys t. x \<in> set xs \<Longrightarrow> I ys t \<Longrightarrow> wp (\<lambda>y. I (ys @ [y])) E (f x) t"
  shows "wp (\<lambda>zs. I (ys @ zs)) E (forE xs f) w"
  using assms
proof (induction xs arbitrary: ys w)
  case Nil
  then show ?case by (simp add: wp_def)
next
  case (Cons x xs)
  have "wp (\<lambda>zs. I ((ys @ [y]) @ zs)) E (forE xs f) t" if "I (ys @ [y]) t" for y t
    by (rule Cons.IH [OF that]) (use Cons.prems in auto)
  then have "wp (\<lambda>y. wp (\<lambda>zs. I ((ys @ [y]) @ zs)) E (forE xs f)) E (f x) w"
    by (intro wp_mono [OF Cons.prems(2) [of x ys w]]) (use Cons.prems(1) in auto)
  then show ?case by (simp add: wp_def bindE_def split: prod.splits sum.splits)
qed

lemma wp_for:
  assumes "I w" and "\<And>x t. x \<in> set xs \<Longrightarrow> I t \<Longrightarrow> wp (\<lambda>_. I) E (f x) t"
  shows "wp (\<lambda>_. I) E (forE xs f) w"
  by (rule wp_for_results [where I = "\<lambda>_. I" and ys = "[]"]) (use assms in auto)

text \<open>A security event is one more row and a metric.\<close>

lemma wp_log_event:
  assumes "\<And>t. w_saved t = w_saved w \<Longrightarrow> next_id (w_db t) = Suc (next_id (w_db w)) \<Longrightarrow>
      models (w_db t) = models (w_db w) \<Longrightarrow> backends (w_db t) = backends (w_db w) \<Longrightarrow> routes (w_db t) = routes (w_db w) \<Longrightarrow>
      request_logs (w_db t) = request_logs (w_db w) \<Longrightarrow> jobs (w_db t) = jobs (w_db w) \<Longrightarrow> Q () t"
  shows "wp Q E (log_security_event now ev) w"
  unfolding log_security_event_def by (simp add: wp_def seqE_def bindE_def) (intro conjI impI assms; simp)

text \<open>What the committed rows satisfy after a handler, if its two ends say so of them.\<close>

lemma wp_handle_saved:
  "wp (\<lambda>_ t. I (w_saved t)) (\<lambda>_ t. I (w_saved t)) m w \<Longrightarrow> I (w_saved (snd (handle m w)))"
  by (auto simp: wp_def handle_saved split: prod.splits sum.splits)

end
