(* ===== verification/AdminClients.thy ===== *)
theory AdminClients
  imports BillingPlans Access
begin

text \<open>
  The operator's handlers for clients and API keys (\<open>api/admin.py\<close>, the requests of
  \<open>schemas/admin.py\<close>). All of them run behind \<open>require_admin\<close>. A handler answers with the row its
  response model reads; the random parts of a key are arguments.
\<close>

section \<open>Clients\<close>

record client_create =
  cc_name :: string
  cc_description :: "string option"
  cc_billing_plan_id :: "uuid option"
  cc_rate_limit_per_minute :: int
  cc_daily_token_quota :: int
  cc_monthly_token_quota :: int
  cc_max_context_tokens :: int
  cc_max_output_tokens :: int
  cc_allowed_models :: "string list option"
  cc_ip_allowlist :: "string list option"
  cc_ip_blocklist :: "string list option"
  cc_system_prompt :: "string option"
  cc_metadata_json :: "jtext option"

definition at_most :: "nat \<Rightarrow> string option \<Rightarrow> bool" where
  "at_most n x = (case x of None \<Rightarrow> True | Some s \<Rightarrow> length s \<le> n)"

definition between :: "int \<Rightarrow> int \<Rightarrow> int \<Rightarrow> bool" where
  "between lo hi n = (lo \<le> n \<and> n \<le> hi)"

text \<open>The length of the metadata is the length of its text, which \<open>chars\<close> gives.\<close>

definition valid_client_create :: "(jtext \<Rightarrow> nat) \<Rightarrow> client_create \<Rightarrow> bool" where
  "valid_client_create chars q =
     (3 \<le> length (cc_name q) \<and> length (cc_name q) \<le> 120 \<and> at_most 500 (cc_description q) \<and>
      between 1 120 (cc_rate_limit_per_minute q) \<and> between 1000 10000000 (cc_daily_token_quota q) \<and>
      between 1000 100000000 (cc_monthly_token_quota q) \<and> between 512 131072 (cc_max_context_tokens q) \<and>
      between 128 32768 (cc_max_output_tokens q) \<and> at_most 5000 (cc_system_prompt q) \<and>
      (case cc_metadata_json q of None \<Rightarrow> True | Some t \<Rightarrow> chars t \<le> 5000))"

definition string_list_json :: "string list option \<Rightarrow> jtext option" where
  "string_list_json x = map_option (\<lambda>ss. dumps (JArr (map JStr ss))) x"

definition created_client :: "timestamp \<Rightarrow> uuid \<Rightarrow> uuid \<Rightarrow> client_create \<Rightarrow> client" where
  "created_client now cid plan_id q = \<lparr>c_id = cid, c_name = cc_name q, c_description = cc_description q,
     c_is_blocked = False, c_billing_status = ''active'', c_billing_plan_id = Some plan_id,
     c_rate_limit_per_minute = cc_rate_limit_per_minute q, c_daily_token_quota = cc_daily_token_quota q,
     c_monthly_token_quota = cc_monthly_token_quota q, c_max_context_tokens = cc_max_context_tokens q,
     c_max_output_tokens = cc_max_output_tokens q, c_allowed_models_json = string_list_json (cc_allowed_models q),
     c_ip_allowlist_json = string_list_json (cc_ip_allowlist q),
     c_ip_blocklist_json = string_list_json (cc_ip_blocklist q), c_system_prompt = cc_system_prompt q,
     c_metadata_json = cc_metadata_json q, c_deleted_at = None, c_created_at = now, c_updated_at = now\<rparr>"

definition find_plan :: "db \<Rightarrow> uuid \<Rightarrow> billing_plan option" where
  "find_plan d pid = List.find (\<lambda>p. p_id p = pid) (billing_plans d)"

definition find_client :: "db \<Rightarrow> uuid \<Rightarrow> client option" where
  "find_client d cid = List.find (\<lambda>c. c_id c = cid) (clients d)"

definition plan_or_free :: "uuid option \<Rightarrow> ('r, uuid) act" where
  "plan_or_free given = (case given of
       Some pid \<Rightarrow> ret pid
     | None \<Rightarrow> bindE (query (\<lambda>d. plan_by_code d ''free'')) (\<lambda>free.
         case free of None \<Rightarrow> raise (KeyError ''free'') | Some p \<Rightarrow> ret (p_id p)))"

definition create_client :: "timestamp \<Rightarrow> client_create \<Rightarrow> ('r, client) act" where
  "create_client now q =
     seqE (ensure_default_billing_plans now)
     (bindE (plan_or_free (cc_billing_plan_id q)) (\<lambda>plan_id.
      bindE (query (\<lambda>d. find_plan d plan_id)) (\<lambda>plan.
      if plan = None then raise (http_error 404 ''billing plan not found'')
      else bindE (query (\<lambda>d. cc_name q \<in> c_name ` set (clients d))) (\<lambda>name_taken.
        if name_taken then raise (IntegrityError ''clients.name'')
        else bindE fresh_id (\<lambda>cid.
          let c = created_client now cid plan_id q in
          seqE (update (\<lambda>d. d\<lparr>clients := clients d @ [c]\<rparr>)) (seqE commit (ret c)))))))"

definition list_clients :: "db \<Rightarrow> client list" where
  "list_clients d = newest_first c_created_at (filter (\<lambda>c. c_deleted_at c = None) (clients d))"

definition the_client :: "uuid \<Rightarrow> ('r, client) act" where
  "the_client cid = bindE (query (\<lambda>d. find_client d cid)) (\<lambda>found. case found of
       None \<Rightarrow> raise (http_error 404 ''client not found'')
     | Some c \<Rightarrow> ret c)"

text \<open>Writing a client, committing it and answering with the row as it is then.\<close>

definition write_client :: "uuid \<Rightarrow> (client \<Rightarrow> client) \<Rightarrow> ('r, client) act" where
  "write_client cid f = seqE (set_client cid f) (seqE commit (the_client cid))"

definition revoke_keys_of :: "timestamp \<Rightarrow> uuid \<Rightarrow> db \<Rightarrow> db" where
  "revoke_keys_of now cid d = d\<lparr>api_keys := upd_where (\<lambda>k. k_client_id k = cid)
     (\<lambda>k. k\<lparr>k_revoked_at := Some now\<rparr>) (api_keys d)\<rparr>"

definition delete_client :: "timestamp \<Rightarrow> uuid \<Rightarrow> ('r, unit) act" where
  "delete_client now cid =
     bindE (the_client cid) (\<lambda>c.
     if c_deleted_at c \<noteq> None then raise (http_error 404 ''client not found'')
     else bindE (query (\<lambda>d. filter (\<lambda>i. i_client_id i = cid \<and> i_status i = ''paid'') (invoices d))) (\<lambda>paid.
       if paid \<noteq> [] then raise (http_error 409 ''cannot delete client with paid invoices'')
       else seqE (set_client cid (\<lambda>c. c\<lparr>c_deleted_at := Some now\<rparr>))
         (seqE (update (revoke_keys_of now cid)) commit)))"

text \<open>
  The fields a patch sets, in the order of the schema. A field that is not nullable cannot be set to
  null: the database refuses the row.
\<close>

datatype client_field =
    Set_description "string option"
  | Set_is_blocked "bool option"
  | Set_billing_status "string option"
  | Set_billing_plan_id "uuid option"
  | Set_rate_limit_per_minute "int option"
  | Set_daily_token_quota "int option"
  | Set_monthly_token_quota "int option"
  | Set_max_context_tokens "int option"
  | Set_max_output_tokens "int option"
  | Set_allowed_models "string list option"
  | Set_ip_allowlist "string list option"
  | Set_ip_blocklist "string list option"
  | Set_system_prompt "string option"
  | Set_metadata_json "jtext option"

fun valid_client_field :: "(jtext \<Rightarrow> nat) \<Rightarrow> client_field \<Rightarrow> bool" where
  "valid_client_field chars (Set_description x) = at_most 500 x"
| "valid_client_field chars (Set_billing_status (Some s)) = (s \<in> {''active'', ''past_due'', ''suspended''})"
| "valid_client_field chars (Set_rate_limit_per_minute (Some n)) = between 1 120 n"
| "valid_client_field chars (Set_daily_token_quota (Some n)) = between 1000 10000000 n"
| "valid_client_field chars (Set_monthly_token_quota (Some n)) = between 1000 100000000 n"
| "valid_client_field chars (Set_max_context_tokens (Some n)) = between 512 131072 n"
| "valid_client_field chars (Set_max_output_tokens (Some n)) = between 128 32768 n"
| "valid_client_field chars (Set_system_prompt x) = at_most 5000 x"
| "valid_client_field chars (Set_metadata_json (Some t)) = (chars t \<le> 5000)"
| "valid_client_field chars _ = True"

fun set_client_field :: "client_field \<Rightarrow> client \<Rightarrow> client option" where
  "set_client_field (Set_description x) c = Some (c\<lparr>c_description := x\<rparr>)"
| "set_client_field (Set_is_blocked x) c = map_option (\<lambda>b. c\<lparr>c_is_blocked := b\<rparr>) x"
| "set_client_field (Set_billing_status x) c = map_option (\<lambda>s. c\<lparr>c_billing_status := s\<rparr>) x"
| "set_client_field (Set_billing_plan_id x) c = Some (c\<lparr>c_billing_plan_id := x\<rparr>)"
| "set_client_field (Set_rate_limit_per_minute x) c = map_option (\<lambda>n. c\<lparr>c_rate_limit_per_minute := n\<rparr>) x"
| "set_client_field (Set_daily_token_quota x) c = map_option (\<lambda>n. c\<lparr>c_daily_token_quota := n\<rparr>) x"
| "set_client_field (Set_monthly_token_quota x) c = map_option (\<lambda>n. c\<lparr>c_monthly_token_quota := n\<rparr>) x"
| "set_client_field (Set_max_context_tokens x) c = map_option (\<lambda>n. c\<lparr>c_max_context_tokens := n\<rparr>) x"
| "set_client_field (Set_max_output_tokens x) c = map_option (\<lambda>n. c\<lparr>c_max_output_tokens := n\<rparr>) x"
| "set_client_field (Set_allowed_models x) c = Some (c\<lparr>c_allowed_models_json := string_list_json x\<rparr>)"
| "set_client_field (Set_ip_allowlist x) c = Some (c\<lparr>c_ip_allowlist_json := string_list_json x\<rparr>)"
| "set_client_field (Set_ip_blocklist x) c = Some (c\<lparr>c_ip_blocklist_json := string_list_json x\<rparr>)"
| "set_client_field (Set_system_prompt x) c = Some (c\<lparr>c_system_prompt := x\<rparr>)"
| "set_client_field (Set_metadata_json x) c = Some (c\<lparr>c_metadata_json := x\<rparr>)"

fun set_client_fields :: "client_field list \<Rightarrow> client \<Rightarrow> client option" where
  "set_client_fields [] c = Some c"
| "set_client_fields (x # xs) c = Option.bind (set_client_field x c) (set_client_fields xs)"

definition unknown_plan :: "db \<Rightarrow> client_field \<Rightarrow> bool" where
  "unknown_plan d x = (case x of Set_billing_plan_id (Some pid) \<Rightarrow> find_plan d pid = None | _ \<Rightarrow> False)"

definition patch_client :: "timestamp \<Rightarrow> uuid \<Rightarrow> client_field list \<Rightarrow> ('r, client) act" where
  "patch_client now cid patch =
     bindE (the_client cid) (\<lambda>c.
     bindE (query (\<lambda>d. list_ex (unknown_plan d) patch)) (\<lambda>missing.
     if missing then raise (http_error 404 ''billing plan not found'')
     else case set_client_fields patch c of
         None \<Rightarrow> raise (IntegrityError ''clients'')
       | Some c' \<Rightarrow> write_client cid (\<lambda>_. c'\<lparr>c_updated_at := now\<rparr>)))"

definition set_client_billing_plan :: "timestamp \<Rightarrow> uuid \<Rightarrow> uuid \<Rightarrow> ('r, client) act" where
  "set_client_billing_plan now cid pid =
     bindE (the_client cid) (\<lambda>_.
     bindE (query (\<lambda>d. find_plan d pid)) (\<lambda>plan. case plan of
       None \<Rightarrow> raise (http_error 404 ''billing plan not found'')
     | Some p \<Rightarrow> write_client cid (\<lambda>c. c\<lparr>c_billing_plan_id := Some (p_id p), c_updated_at := now\<rparr>)))"

definition block_client :: "timestamp \<Rightarrow> uuid \<Rightarrow> ('r, client) act" where
  "block_client now cid = bindE (the_client cid) (\<lambda>_.
     write_client cid (\<lambda>c. c\<lparr>c_is_blocked := True, c_updated_at := now\<rparr>))"

definition unblock_client :: "timestamp \<Rightarrow> uuid \<Rightarrow> ('r, client) act" where
  "unblock_client now cid = bindE (the_client cid) (\<lambda>_.
     write_client cid (\<lambda>c. c\<lparr>c_is_blocked := False, c_updated_at := now\<rparr>))"

definition suspend_client_security :: "timestamp \<Rightarrow> uuid \<Rightarrow> ('r, client) act" where
  "suspend_client_security now cid = bindE (the_client cid) (\<lambda>c.
     seqE (suspend_client_for_security now c ''manual_admin_security_action'') (seqE commit (the_client cid)))"

definition unsuspend_client_security :: "timestamp \<Rightarrow> uuid \<Rightarrow> ('r, client) act" where
  "unsuspend_client_security now cid = bindE (the_client cid) (\<lambda>c.
     seqE (unsuspend_client_for_security now c) (seqE commit (the_client cid)))"

definition patch_client_system_prompt :: "timestamp \<Rightarrow> uuid \<Rightarrow> string option \<Rightarrow> ('r, client) act" where
  "patch_client_system_prompt now cid prompt = bindE (the_client cid) (\<lambda>_.
     write_client cid (\<lambda>c. c\<lparr>c_system_prompt := prompt, c_updated_at := now\<rparr>))"

section \<open>API keys\<close>

definition api_key_created :: "api_key \<Rightarrow> string \<Rightarrow> exc + json" where
  "api_key_created k plaintext =
     bindS (if text_falsy (k_scopes_json k) then Inr JNull
            else case loads (the (k_scopes_json k)) of None \<Rightarrow> Inl JSONDecodeError | Some v \<Rightarrow> Inr v) (\<lambda>scopes.
     Inr (JObj [(''id'', JStr (uuid_str (k_id k))), (''client_id'', JStr (uuid_str (k_client_id k))),
       (''name'', JStr (k_name k)), (''key_prefix'', JStr (k_key_prefix k)), (''api_key'', JStr plaintext),
       (''scopes'', scopes), (''created_at'', jtime (k_created_at k))]))"

definition issued_key ::
  "(string \<Rightarrow> string \<Rightarrow> string) \<Rightarrow> timestamp \<Rightarrow> uuid \<Rightarrow> uuid \<Rightarrow> string \<Rightarrow> jtext option \<Rightarrow> string \<Rightarrow> string \<Rightarrow> api_key" where
  "issued_key kdf now kid cid name scopes plaintext salt = \<lparr>k_id = kid, k_client_id = cid, k_name = name,
     k_key_prefix = short_prefix plaintext, k_key_hash = hash_secret kdf plaintext salt, k_scopes_json = scopes,
     k_created_at = now, k_revoked_at = None, k_last_used_at = None\<rparr>"

text \<open>Adding a key, committing and answering with it and its text.\<close>

definition issue_key ::
  "(string \<Rightarrow> string \<Rightarrow> string) \<Rightarrow> timestamp \<Rightarrow> string \<Rightarrow> string \<Rightarrow> uuid \<Rightarrow> string \<Rightarrow> jtext option \<Rightarrow> ('r, json) act" where
  "issue_key kdf now token salt cid name scopes =
     bindE fresh_id (\<lambda>kid.
     let plaintext = generate_api_key token; k = issued_key kdf now kid cid name scopes plaintext salt in
     seqE (update (\<lambda>d. d\<lparr>api_keys := api_keys d @ [k]\<rparr>))
       (seqE commit (liftE (api_key_created k plaintext))))"

definition create_api_key ::
  "(string \<Rightarrow> string \<Rightarrow> string) \<Rightarrow> timestamp \<Rightarrow> string \<Rightarrow> string \<Rightarrow> uuid \<Rightarrow> string \<Rightarrow> string list option \<Rightarrow> ('r, json) act" where
  "create_api_key kdf now token salt cid name scopes =
     bindE (the_client cid) (\<lambda>_.
     issue_key kdf now token salt cid name
       (case scopes of None \<Rightarrow> None | Some ss \<Rightarrow> if ss = [] then None else Some (dumps (JArr (map JStr ss)))))"

definition find_key :: "db \<Rightarrow> uuid \<Rightarrow> api_key option" where
  "find_key d kid = List.find (\<lambda>k. k_id k = kid) (api_keys d)"

definition revoke_key :: "timestamp \<Rightarrow> uuid \<Rightarrow> db \<Rightarrow> db" where
  "revoke_key now kid d = d\<lparr>api_keys := upd_where (\<lambda>k. k_id k = kid)
     (\<lambda>k. k\<lparr>k_revoked_at := Some now\<rparr>) (api_keys d)\<rparr>"

text \<open>The new key has the old one's name with a suffix, which the column may be too short for, and no scopes.\<close>

definition rotate_api_key ::
  "(string \<Rightarrow> string \<Rightarrow> string) \<Rightarrow> timestamp \<Rightarrow> string \<Rightarrow> string \<Rightarrow> uuid \<Rightarrow> ('r, json) act" where
  "rotate_api_key kdf now token salt kid =
     bindE (query (\<lambda>d. find_key d kid)) (\<lambda>found. case found of
       None \<Rightarrow> raise (http_error 404 ''api key not found'')
     | Some k \<Rightarrow>
         if k_revoked_at k \<noteq> None then raise (http_error 409 ''api key already revoked'')
         else seqE (update (revoke_key now kid))
           (let name = k_name k @ ''-rotated'' in
            if length name > 120 then raise (DataError ''api_keys.name'')
            else bindE (issue_key kdf now token salt (k_client_id k) name None) (\<lambda>created.
              ret (JObj [(''rotated_from_id'', JStr (uuid_str kid)), (''revoked_at'', jtime now),
                (''api_key'', created)]))))"

definition list_api_keys :: "db \<Rightarrow> json" where
  "list_api_keys d =
     JArr (map (\<lambda>(k, c). JObj [(''id'', JStr (uuid_str (k_id k))), (''client_id'', JStr (uuid_str (k_client_id k))),
         (''client_name'', JStr (c_name c)), (''name'', JStr (k_name k)), (''key_prefix'', JStr (k_key_prefix k)),
         (''created_at'', jtime (k_created_at k)), (''last_used_at'', jopt jtime (k_last_used_at k)),
         (''revoked_at'', jopt jtime (k_revoked_at k))])
       (take 200 (newest_first (\<lambda>(k, _). k_created_at k)
         (concat (map (\<lambda>k. map (Pair k) (filter (\<lambda>c. c_id c = k_client_id k) (clients d))) (api_keys d))))))"

definition revoke_api_key :: "timestamp \<Rightarrow> uuid \<Rightarrow> ('r, unit) act" where
  "revoke_api_key now kid =
     bindE (query (\<lambda>d. find_key d kid)) (\<lambda>found. case found of
       None \<Rightarrow> raise (http_error 404 ''api key not found'')
     | Some _ \<Rightarrow> seqE (update (revoke_key now kid)) commit)"

section \<open>Facts\<close>

lemma the_client_Inr: "the_client cid w = (Inr c, t) \<longleftrightarrow> find_client (w_db w) cid = Some c \<and> t = w"
  by (auto simp: the_client_def split: option.splits)

lemma find_clientD: "find_client d cid = Some c \<Longrightarrow> c \<in> set (clients d) \<and> c_id c = cid"
  unfolding find_client_def by (rule find_Some_set)

lemma find_client_upd:
  assumes "\<And>c. c_id (f c) = c_id c"
  shows "List.find (\<lambda>c. c_id c = cid) (upd_where (\<lambda>c. c_id c = cid) f cs) = map_option f (List.find (\<lambda>c. c_id c = cid) cs)"
  by (induction cs) (auto simp: upd_where_def assms)

text \<open>Issuing a key succeeds, and only adds it.\<close>

lemma issue_key_run:
  assumes "\<And>t. scopes = Some t \<Longrightarrow> loads t \<noteq> None"
  shows "\<exists>answer t. issue_key kdf now token salt cid name scopes w = (Inr answer, t) \<and> w_saved t = w_db t \<and>
     api_keys (w_db t) = api_keys (w_db w) @
       [issued_key kdf now (next_id (w_db w)) cid name scopes (generate_api_key token) salt] \<and>
     clients (w_db t) = clients (w_db w)"
  using assms
  by (cases scopes) (auto simp: issue_key_def api_key_created_def issued_key_def Let_def text_falsy_def split: option.splits)

text \<open>The text of an issued key opens the API to its client.\<close>

lemma issued_key_opens:
  fixes t :: "'r world"
  assumes "k = issued_key kdf now kid cid name scopes (generate_api_key token) salt"
    and "CHR ''$'' \<notin> set salt" and "\<forall>x\<in>set token. \<not> is_space x" and "k \<in> set (api_keys (w_db t))"
    and "\<forall>x\<in>set (candidate_keys (w_db t) (take 12 (generate_api_key token))). x \<noteq> k \<longrightarrow>
      verify_secret kdf (generate_api_key token) (k_key_hash x) = Inr False"
    and "find_client (w_db t) cid = Some c" and "\<not> c_is_blocked c" and "c_billing_status c \<noteq> ''suspended''"
    and "c_ip_blocklist_json c = None" and "c_ip_allowlist_json c = None"
  shows "fst (require_client kdf rp ops later ip (Some (generate_api_key token)) t) = Inr c"
proof (rule stored_key_opens [OF assms(4)])
  show "strip (generate_api_key token) = generate_api_key token"
    using assms(3) by (intro strip_plain) (auto simp: generate_api_key_def is_space_def py_ord_def)
  show "verify_secret kdf (generate_api_key token) (k_key_hash k) = Inr True"
    using assms(2) by (simp add: assms(1) issued_key_def verify_hashed_secret)
qed (use assms in \<open>auto simp: issued_key_def short_prefix_def find_client_def\<close>)

text \<open>Without a key of the client that is not revoked, nobody gets in as the client.\<close>

lemma no_live_key_no_entry:
  assumes "\<forall>k\<in>set (api_keys (w_db w)). k_client_id k = cid \<longrightarrow> k_revoked_at k \<noteq> None"
    and "require_client kdf rp ops now ip creds w = (Inr c, t)"
  shows "c_id c \<noteq> cid"
  using authenticated_keys [OF assms(2)] assms(1) by auto

section \<open>Properties\<close>

lemma rotate_run:
  fixes w t :: "'r world"
  assumes "find_key (w_db w) kid = Some k" and "rotate_api_key kdf now token salt kid w = (Inr answer, t)"
  shows "api_keys (w_db t) = upd_where (\<lambda>x. k_id x = kid) (\<lambda>x. x\<lparr>k_revoked_at := Some now\<rparr>) (api_keys (w_db w)) @
       [issued_key kdf now (next_id (w_db w)) (k_client_id k) (k_name k @ ''-rotated'') None (generate_api_key token) salt] \<and>
     clients (w_db t) = clients (w_db w) \<and> w_saved t = w_db t"
proof -
  let ?v = "w\<lparr>w_db := revoke_key now kid (w_db w)\<rparr>"
  obtain a u where run: "issue_key kdf now token salt (k_client_id k) (k_name k @ ''-rotated'') None ?v = (Inr a, u)"
    "w_saved u = w_db u" "clients (w_db u) = clients (w_db ?v)"
    "api_keys (w_db u) = api_keys (w_db ?v) @
       [issued_key kdf now (next_id (w_db ?v)) (k_client_id k) (k_name k @ ''-rotated'') None (generate_api_key token) salt]"
    using issue_key_run [of None kdf now token salt "k_client_id k" "k_name k @ ''-rotated''" ?v] by auto
  have "t = u"
    using assms(1,2) run(1) by (auto simp: rotate_api_key_def bindE_def Let_def split: if_splits)
  with run(2-4) show ?thesis by (simp add: revoke_key_def)
qed

text \<open>
  C32. Rotating a key hands access over. The new text opens the API to the same client at once, and a
  text that only the rotated key accepted opens nothing any more; both are committed together.
\<close>

theorem rotation_replaces_the_key:
  fixes w t :: "'r world"
  assumes "\<forall>x\<in>set (api_keys (w_db w)). k_id x < next_id (w_db w)" and "find_key (w_db w) kid = Some k"
    and "rotate_api_key kdf now token salt kid w = (Inr answer, t)"
    and "CHR ''$'' \<notin> set salt" and "\<forall>x\<in>set token. \<not> is_space x"
    and "\<forall>x\<in>set (candidate_keys (w_db w) (take 12 (generate_api_key token))).
      verify_secret kdf (generate_api_key token) (k_key_hash x) = Inr False"
    and "find_client (w_db w) (k_client_id k) = Some c" and "\<not> c_is_blocked c" and "c_billing_status c \<noteq> ''suspended''"
    and "c_ip_blocklist_json c = None" and "c_ip_allowlist_json c = None"
  shows "w_saved t = w_db t \<and>
     fst (require_client kdf rp ops later ip (Some (generate_api_key token)) t) = Inr c \<and>
     (\<forall>old. (\<forall>x\<in>set (api_keys (w_db w)). verify_secret kdf (strip old) (k_key_hash x) = Inr True \<longrightarrow> k_id x = kid) \<and>
        verify_secret kdf (strip old) (hash_secret kdf (generate_api_key token) salt) = Inr False \<longrightarrow>
        (\<forall>who. fst (require_client kdf rp ops later ip (Some old) t) \<noteq> Inr who))"
proof -
  let ?text = "generate_api_key token"
  let ?new = "issued_key kdf now (next_id (w_db w)) (k_client_id k) (k_name k @ ''-rotated'') None ?text salt"
  have t: "api_keys (w_db t) = upd_where (\<lambda>x. k_id x = kid) (\<lambda>x. x\<lparr>k_revoked_at := Some now\<rparr>) (api_keys (w_db w)) @ [?new]"
    "clients (w_db t) = clients (w_db w)" "w_saved t = w_db t"
    using rotate_run [OF assms(2,3)] by simp_all
  have live: "x \<in> set (api_keys (w_db w)) \<and> k_id x \<noteq> kid"
    if "x \<in> set (api_keys (w_db t))" "k_revoked_at x = None" "x \<noteq> ?new" for x
    using that by (auto simp: t(1) set_upd_where split: if_splits)
  have others: "\<forall>x\<in>set (candidate_keys (w_db t) (take 12 ?text)). x \<noteq> ?new \<longrightarrow>
      verify_secret kdf ?text (k_key_hash x) = Inr False"
    using live assms(6) by (auto simp: candidate_keys_def)
  have "fst (require_client kdf rp ops later ip (Some ?text) t) = Inr c"
    by (rule issued_key_opens [OF refl assms(4,5) _ others])
      (use assms(7-11) t in \<open>simp_all add: find_client_def\<close>)
  moreover have "fst (require_client kdf rp ops later ip (Some old) t) \<noteq> Inr who"
    if only: "\<forall>x\<in>set (api_keys (w_db w)). verify_secret kdf (strip old) (k_key_hash x) = Inr True \<longrightarrow> k_id x = kid"
      and new: "verify_secret kdf (strip old) (hash_secret kdf ?text salt) = Inr False" for old who
  proof
    assume "fst (require_client kdf rp ops later ip (Some old) t) = Inr who"
    then obtain u where "require_client kdf rp ops later ip (Some old) t = (Inr who, u)"
      by (cases "require_client kdf rp ops later ip (Some old) t") simp
    from authenticated_keys [OF this] obtain x where x: "x \<in> set (api_keys (w_db t))" "k_revoked_at x = None"
      "verify_secret kdf (strip old) (k_key_hash x) = Inr True" by auto
    then have "x \<noteq> ?new" using new by (auto simp: issued_key_def)
    with live [OF x(1,2)] only x(3) show False by auto
  qed
  ultimately show ?thesis using t(3) by blast
qed

text \<open>
  C33. Deleting a client locks it out: whatever is presented, nobody is let in as the client. But
  issuing keys does not look at the deletion, nor does authentication: a key created for the deleted
  client afterwards opens the API to it.
\<close>

theorem deletion_holds_until_a_key_is_issued:
  fixes w t :: "'r world"
  assumes "delete_client now cid w = (Inr (), t)"
  shows "w_saved t = w_db t \<and> (\<exists>c. find_client (w_db t) cid = Some c \<and> c_deleted_at c = Some now) \<and>
     (\<forall>creds who u. require_client kdf rp ops later ip creds t = (Inr who, u) \<longrightarrow> c_id who \<noteq> cid) \<and>
     (\<forall>c answer u. find_client (w_db t) cid = Some c \<and> \<not> c_is_blocked c \<and> c_billing_status c \<noteq> ''suspended'' \<and>
        c_ip_blocklist_json c = None \<and> c_ip_allowlist_json c = None \<and>
        CHR ''$'' \<notin> set salt \<and> (\<forall>x\<in>set token. \<not> is_space x) \<and>
        (\<forall>x\<in>set (candidate_keys (w_db t) (take 12 (generate_api_key token))).
           verify_secret kdf (generate_api_key token) (k_key_hash x) = Inr False) \<longrightarrow>
        create_api_key kdf later token salt cid name None t = (Inr answer, u) \<longrightarrow>
        fst (require_client kdf rp ops later ip (Some (generate_api_key token)) u) = Inr c)"
proof -
  obtain c where c: "find_client (w_db w) cid = Some c"
    and t: "t = (let d = (w_db w)\<lparr>clients := upd_where (\<lambda>c. c_id c = cid) (\<lambda>c. c\<lparr>c_deleted_at := Some now\<rparr>) (clients (w_db w)),
        api_keys := upd_where (\<lambda>k. k_client_id k = cid) (\<lambda>k. k\<lparr>k_revoked_at := Some now\<rparr>) (api_keys (w_db w))\<rparr>
      in w\<lparr>w_db := d, w_saved := d\<rparr>)"
    using assms by (auto simp: delete_client_def the_client_Inr bindE_eq_Inr seqE_eq_Inr set_client_def revoke_keys_of_def
        Let_def split: if_splits)
  have find: "find_client (w_db t) cid = Some (c\<lparr>c_deleted_at := Some now\<rparr>)"
    using c by (simp add: t Let_def find_client_def find_client_upd)
  have keys: "\<forall>k\<in>set (api_keys (w_db t)). k_client_id k = cid \<longrightarrow> k_revoked_at k \<noteq> None"
    unfolding t Let_def by (simp add: ball_upd_where)
  have reopen: "fst (require_client kdf rp ops later ip (Some (generate_api_key token)) u) = Inr c'"
    if c': "find_client (w_db t) cid = Some c'" "\<not> c_is_blocked c'" "c_billing_status c' \<noteq> ''suspended''"
        "c_ip_blocklist_json c' = None" "c_ip_allowlist_json c' = None" "CHR ''$'' \<notin> set salt" "\<forall>x\<in>set token. \<not> is_space x"
        "\<forall>x\<in>set (candidate_keys (w_db t) (take 12 (generate_api_key token))).
           verify_secret kdf (generate_api_key token) (k_key_hash x) = Inr False"
      and run: "create_api_key kdf later token salt cid name None t = (Inr answer, u)" for c' answer u
  proof -
    let ?k = "issued_key kdf later (next_id (w_db t)) cid name None (generate_api_key token) salt"
    have "issue_key kdf later token salt cid name None t = (Inr answer, u)"
      using run by (simp add: create_api_key_def bindE_eq_Inr the_client_Inr)
    then have u: "api_keys (w_db u) = api_keys (w_db t) @ [?k]" "clients (w_db u) = clients (w_db t)"
      using issue_key_run [of None kdf later token salt cid name t] by auto
    have "\<forall>x\<in>set (candidate_keys (w_db u) (take 12 (generate_api_key token))). x \<noteq> ?k \<longrightarrow>
        verify_secret kdf (generate_api_key token) (k_key_hash x) = Inr False"
      using c'(8) by (auto simp: candidate_keys_def u(1))
    from issued_key_opens [OF refl c'(6,7) _ this _ c'(2-5)] show ?thesis
      using c'(1) u by (simp add: find_client_def)
  qed
  show ?thesis
  proof (intro conjI allI impI)
    show "w_saved t = w_db t" by (simp add: t Let_def)
    show "\<exists>c. find_client (w_db t) cid = Some c \<and> c_deleted_at c = Some now" using find by simp
    show "c_id who \<noteq> cid" if "require_client kdf rp ops later ip creds t = (Inr who, u)" for creds who u
      by (rule no_live_key_no_entry [OF keys that])
  qed (use reopen in blast)
qed

section \<open>Witnesses\<close>

definition keyed_world :: "store world" where
  "keyed_world = access_world\<lparr>w_db := (w_db access_world)\<lparr>next_id := 9\<rparr>\<rparr>"

lemma keyed_world_rows:
  "api_keys (w_db keyed_world) = [access_key]" "clients (w_db keyed_world) = [access_client]" "next_id (w_db keyed_world) = 9"
  by (simp_all add: keyed_world_def access_world_def Let_def)

theorem rotation_replaces_the_key_witness:
  "fst (require_client toy_kdf (\<lambda>_. []) store_ops 9 ''10.0.0.1'' (Some ''sk-local-xyzuvw'')
     (snd (rotate_api_key toy_kdf 7 ''xyzuvw'' ''00'' 2 keyed_world))) = Inr access_client"
proof -
  let ?run = "rotate_api_key toy_kdf 7 ''xyzuvw'' ''00'' 2 keyed_world"
  have plaintext: "generate_api_key ''xyzuvw'' = ''sk-local-xyzuvw''" by code_simp
  have "\<not> isl (fst ?run)" by code_simp
  then obtain answer where run: "?run = (Inr answer, snd ?run)" by (cases ?run; cases "fst ?run") auto
  have "candidate_keys (w_db keyed_world) (take 12 ''sk-local-xyzuvw'') = []" by code_simp
  then have none: "\<forall>x\<in>set (candidate_keys (w_db keyed_world) (take 12 (generate_api_key ''xyzuvw''))).
      verify_secret toy_kdf (generate_api_key ''xyzuvw'') (k_key_hash x) = Inr False"
    by (simp add: plaintext)
  have plain: "\<forall>x\<in>set ''xyzuvw''. \<not> is_space x" by (simp add: is_space_def py_ord_def)
  from rotation_replaces_the_key [OF _ _ run _ plain none, of access_key access_client] show ?thesis
    by (simp add: keyed_world_rows access_key_def access_client_def find_key_def find_client_def plaintext)
qed

theorem deletion_holds_until_a_key_is_issued_witness:
  "\<exists>c. find_client (w_db (snd (delete_client 7 1 keyed_world))) 1 = Some c \<and> c_deleted_at c = Some 7"
proof -
  let ?run = "delete_client 7 1 keyed_world"
  have "fst ?run = Inr ()" by code_simp
  then have "?run = (Inr (), snd ?run)" by (cases ?run) simp
  from deletion_holds_until_a_key_is_issued [OF this, where kdf = toy_kdf and rp = "\<lambda>_. []" and ops = store_ops]
  show ?thesis by blast
qed

end
