(* ===== verification/PublicApi.thy ===== *)
theory PublicApi
  imports GenerationJobs Invoices Registry Access
begin

text \<open>
  What is open to everyone (\<open>services/public_onboarding.py\<close>, \<open>api/public.py\<close>): the list of plans,
  signing up, and the webhook of the payment provider; and the seeding of the defaults at start
  (\<open>services/seed.py\<close>).
\<close>

section \<open>Names of accounts\<close>

definition slug_char :: "char \<Rightarrow> bool" where
  "slug_char c = (is_digit c \<or> is_lower c)"

text \<open>A run of other characters becomes one hyphen; \<open>in_run\<close> says that one has just been written.\<close>

fun hyphenate :: "bool \<Rightarrow> string \<Rightarrow> string" where
  "hyphenate in_run [] = []"
| "hyphenate in_run (c # s) =
     (if slug_char c then c # hyphenate False s
      else if in_run then hyphenate True s else CHR ''-'' # hyphenate True s)"

definition strip_char :: "char \<Rightarrow> string \<Rightarrow> string" where
  "strip_char c s = rev (dropWhile (\<lambda>x. x = c) (rev (dropWhile (\<lambda>x. x = c) s)))"

definition slugify :: "string \<Rightarrow> string" where
  "slugify value = (let normalized = strip_char (CHR ''-'') (hyphenate False (lower value)) in
     if normalized = [] then ''tenant'' else normalized)"

definition build_account_name :: "(string \<Rightarrow> string) \<Rightarrow> string \<Rightarrow> string" where
  "build_account_name sha1_hex email =
     (let base = slugify (takeWhile (\<lambda>c. c \<noteq> CHR ''@'') email) in
      take 48 base @ ''-'' @ take 8 (sha1_hex (lower (strip email))))"

definition normalize_email :: "string \<Rightarrow> exc + string" where
  "normalize_email email =
     (let value = lower (strip email) in
      if CHR ''@'' \<notin> set value \<or> starts_with ''@'' value \<or> ends_with ''@'' value
      then Inl (http_error 422 ''invalid email'') else Inr value)"

section \<open>Plans\<close>

definition PUBLIC_PLAN_FEATURES :: "(string \<times> string list) list" where
  "PUBLIC_PLAN_FEATURES = [
     (''free'', [''No credit card required'', ''Basic shared capacity'', ''Community-grade response times'']),
     (''basic'', [''Streaming enabled'', ''Production API key'', ''Email support'']),
     (''pro'', [''Higher throughput'', ''Priority queueing'', ''Launch support for production'']),
     (''enterprise'', [''Dedicated rollout planning'', ''Custom quotas and routing'', ''Priority support channel''])]"

text \<open>The client that is made up for the preview of a plan; only its plan matters.\<close>

definition preview_client :: "settings \<Rightarrow> billing_plan \<Rightarrow> client" where
  "preview_client cfg plan = \<lparr>c_id = 0, c_name = ''preview'', c_description = None, c_is_blocked = False,
     c_billing_status = ''active'', c_billing_plan_id = Some (p_id plan),
     c_rate_limit_per_minute = p_rate_limit_per_minute plan, c_daily_token_quota = p_daily_token_quota plan,
     c_monthly_token_quota = p_monthly_token_quota plan, c_max_context_tokens = max_context_tokens cfg,
     c_max_output_tokens = p_max_output_tokens plan, c_allowed_models_json = None, c_ip_allowlist_json = None,
     c_ip_blocklist_json = None, c_system_prompt = None, c_metadata_json = None, c_deleted_at = None,
     c_created_at = 0, c_updated_at = 0\<rparr>"

definition marketing_summary :: "settings \<Rightarrow> db \<Rightarrow> billing_plan \<Rightarrow> json" where
  "marketing_summary cfg d plan =
     (let effective = resolve_effective_plan d (preview_client cfg plan) in JObj [
        (''code'', JStr (p_code plan)), (''name'', JStr (p_name plan)), (''description'', jopt JStr (p_description plan)),
        (''monthly_price'', JFloat (ep_monthly_price effective)), (''currency'', JStr (ep_currency effective)),
        (''rate_limit_per_minute'', JInt (ep_rate_limit_per_minute effective)),
        (''daily_token_quota'', JInt (ep_daily_token_quota effective)),
        (''monthly_token_quota'', JInt (ep_monthly_token_quota effective)),
        (''max_output_tokens'', JInt (ep_max_output_tokens effective)),
        (''allow_streaming'', JBool (ep_allow_streaming effective)),
        (''overage_price_per_1k_tokens'', JFloat (ep_overage_price_per_1k_tokens effective)),
        (''features'', JArr (map JStr (case map_of PUBLIC_PLAN_FEATURES (p_code plan) of None \<Rightarrow> [] | Some fs \<Rightarrow> fs))),
        (''highlight'', JBool (p_code plan = ''pro''))])"

definition list_public_plans :: "settings \<Rightarrow> db \<Rightarrow> json list" where
  "list_public_plans cfg d = map (marketing_summary cfg d) (sort_key p_created_at (filter p_is_active (billing_plans d)))"

definition public_plans :: "settings \<Rightarrow> db \<Rightarrow> json" where
  "public_plans cfg d = JObj [(''brand_name'', JStr (public_brand_name cfg)), (''plans'', JArr (list_public_plans cfg d))]"

section \<open>Signing up\<close>

record signup_request =
  su_full_name :: string
  su_email :: string
  su_company :: "string option"
  su_plan_code :: string
  su_use_case :: "string option"

definition valid_signup_request :: "signup_request \<Rightarrow> bool" where
  "valid_signup_request q =
     (3 \<le> length (su_full_name q) \<and> length (su_full_name q) \<le> 120 \<and>
      5 \<le> length (su_email q) \<and> length (su_email q) \<le> 255 \<and>
      (case su_company q of None \<Rightarrow> True | Some s \<Rightarrow> length s \<le> 120) \<and>
      2 \<le> length (su_plan_code q) \<and> length (su_plan_code q) \<le> 32 \<and>
      (\<forall>c\<in>set (su_plan_code q). slug_char c \<or> c = CHR ''_'' \<or> c = CHR ''-'') \<and>
      (case su_use_case q of None \<Rightarrow> True | Some s \<Rightarrow> length s \<le> 500))"

definition or_empty :: "string option \<Rightarrow> string" where
  "or_empty x = (case x of None \<Rightarrow> [] | Some s \<Rightarrow> s)"

definition stripped_or_null :: "string option \<Rightarrow> json" where
  "stripped_or_null x = (let s = strip (or_empty x) in if s = [] then JNull else JStr s)"

definition signup_metadata :: "signup_request \<Rightarrow> string \<Rightarrow> json" where
  "signup_metadata q email = JObj [(''signup_source'', JStr ''public_web''),
     (''full_name'', JStr (strip (su_full_name q))), (''email'', JStr email),
     (''company'', stripped_or_null (su_company q)), (''use_case'', stripped_or_null (su_use_case q))]"

definition signup_client :: "settings \<Rightarrow> timestamp \<Rightarrow> uuid \<Rightarrow> signup_request \<Rightarrow> string \<Rightarrow> string \<Rightarrow> billing_plan \<Rightarrow> client" where
  "signup_client cfg now cid q account_name email plan = \<lparr>c_id = cid, c_name = account_name,
     c_description = Some (strip (if or_empty (su_company q) = [] then su_full_name q else or_empty (su_company q))),
     c_is_blocked = False, c_billing_status = ''active'', c_billing_plan_id = Some (p_id plan),
     c_rate_limit_per_minute = p_rate_limit_per_minute plan, c_daily_token_quota = p_daily_token_quota plan,
     c_monthly_token_quota = p_monthly_token_quota plan, c_max_context_tokens = max_context_tokens cfg,
     c_max_output_tokens = p_max_output_tokens plan, c_allowed_models_json = None, c_ip_allowlist_json = None,
     c_ip_blocklist_json = None, c_system_prompt = None, c_metadata_json = Some (dumps (signup_metadata q email)),
     c_deleted_at = None, c_created_at = now, c_updated_at = now\<rparr>"

text \<open>The random parts (the token of the key and the salt of its hash) are arguments, as is the key derivation.\<close>

definition signup_key ::
  "(string \<Rightarrow> string \<Rightarrow> string) \<Rightarrow> timestamp \<Rightarrow> uuid \<Rightarrow> uuid \<Rightarrow> string \<Rightarrow> string \<Rightarrow> api_key" where
  "signup_key kdf now kid cid plaintext salt = \<lparr>k_id = kid, k_client_id = cid, k_name = ''default'',
     k_key_prefix = short_prefix plaintext, k_key_hash = hash_secret kdf plaintext salt,
     k_scopes_json = Some (dumps (JArr [JStr ''inference:chat'', JStr ''portal:read''])),
     k_created_at = now, k_revoked_at = None, k_last_used_at = None\<rparr>"

definition create_public_signup ::
  "settings \<Rightarrow> (string \<Rightarrow> string) \<Rightarrow> (string \<Rightarrow> string \<Rightarrow> string) \<Rightarrow> timestamp \<Rightarrow> string \<Rightarrow> string \<Rightarrow> signup_request \<Rightarrow>
   ('r, client \<times> billing_plan \<times> api_key \<times> string) act" where
  "create_public_signup cfg sha1_hex kdf now token salt q =
     bindE (liftE (normalize_email (su_email q))) (\<lambda>email.
     let account_name = build_account_name sha1_hex email in
     bindE (query (\<lambda>d. filter (\<lambda>c. c_name c = account_name) (clients d))) (\<lambda>rows.
     bindE (liftE (scalar_one_or_none rows)) (\<lambda>existing.
     if existing \<noteq> None then raise (http_error 409 ''account already exists for this email'')
     else
     bindE (query (\<lambda>d. filter (\<lambda>p. p_code p = su_plan_code q \<and> p_is_active p) (billing_plans d))) (\<lambda>rows.
     bindE (liftE (scalar_one_or_none rows)) (\<lambda>found. case found of
       None \<Rightarrow> raise (http_error 404 ''billing plan not found'')
     | Some plan \<Rightarrow>
         bindE fresh_id (\<lambda>cid.
         let c = signup_client cfg now cid q account_name email plan in
         seqE (update (\<lambda>d. d\<lparr>clients := clients d @ [c]\<rparr>))
           (bindE fresh_id (\<lambda>kid.
            let plaintext = generate_api_key token; k = signup_key kdf now kid cid plaintext salt in
            seqE (update (\<lambda>d. d\<lparr>api_keys := api_keys d @ [k]\<rparr>))
              (seqE commit (ret (c, plan, k, plaintext)))))))))))"

definition rstrip_slash :: "string \<Rightarrow> string" where
  "rstrip_slash s = rev (dropWhile (\<lambda>c. c = CHR ''/'') (rev s))"

definition base_url :: "settings \<Rightarrow> string \<Rightarrow> string" where
  "base_url cfg request_base = rstrip_slash (if public_base_url cfg = [] then request_base else public_base_url cfg)"

definition public_signup ::
  "settings \<Rightarrow> (string \<Rightarrow> string) \<Rightarrow> (string \<Rightarrow> string \<Rightarrow> string) \<Rightarrow> timestamp \<Rightarrow> string \<Rightarrow> string \<Rightarrow> string \<Rightarrow>
   signup_request \<Rightarrow> ('r, json) act" where
  "public_signup cfg sha1_hex kdf now token salt request_base q =
     (if \<not> public_signup_enabled cfg then raise (http_error 404 ''public signup disabled'')
      else bindE (create_public_signup cfg sha1_hex kdf now token salt q) (\<lambda>(c, plan, k, plaintext).
        let base = base_url cfg request_base in
        ret (JObj [(''client_id'', JStr (uuid_str (c_id c))), (''account_name'', JStr (c_name c)),
          (''plan_code'', JStr (p_code plan)), (''plan_name'', JStr (p_name plan)), (''api_key'', JStr plaintext),
          (''api_key_prefix'', JStr (k_key_prefix k)), (''portal_url'', JStr (base @ ''/client-portal'')),
          (''api_base_url'', JStr (base @ ''/v1'')), (''support_email'', JStr (public_support_email cfg)),
          (''next_steps'', JArr [
             JStr ''Open the client portal with the API key returned in this response.'',
             JStr ''Call /v1/models to confirm access and list enabled models.'',
             JStr ''Store the API key now. It is only returned once.''])])))"

section \<open>The payment webhook\<close>

record webhook_payload =
  wp_invoice_id :: string
  wp_status :: string
  wp_payment_reference :: "string option"

definition valid_webhook_payload :: "webhook_payload \<Rightarrow> bool" where
  "valid_webhook_payload q = (length (wp_invoice_id q) = 36 \<and> wp_status q \<in> {''paid'', ''failed''} \<and>
     (case wp_payment_reference q of None \<Rightarrow> True | Some s \<Rightarrow> length s \<le> 120))"

definition invoice_paid :: "timestamp \<Rightarrow> invoice \<Rightarrow> invoice" where
  "invoice_paid now i = i\<lparr>i_status := ''paid'', i_paid_at := Some now, i_updated_at := now\<rparr>"

definition payment_paid :: "timestamp \<Rightarrow> string \<Rightarrow> payment \<Rightarrow> payment" where
  "payment_paid now reference y =
     y\<lparr>y_status := ''paid'', y_payment_reference := Some reference, y_paid_at := Some now, y_updated_at := now\<rparr>"

definition extra_payment :: "timestamp \<Rightarrow> uuid \<Rightarrow> string \<Rightarrow> invoice \<Rightarrow> payment" where
  "extra_payment now yid reference i = \<lparr>y_id = yid, y_invoice_id = i_id i, y_client_id = i_client_id i,
     y_status = ''paid'', y_amount = i_total_amount i, y_currency = i_currency i,
     y_payment_method = i_payment_method i, y_payment_reference = Some reference, y_note = None,
     y_paid_at = Some now, y_cancelled_at = None, y_created_at = now, y_updated_at = now\<rparr>"

definition settle_payment :: "timestamp \<Rightarrow> string \<Rightarrow> invoice \<Rightarrow> ('r, unit) act" where
  "settle_payment now reference i =
     bindE (query (\<lambda>d. List.find (\<lambda>y. y_status y \<in> {''pending'', ''overdue''}) (invoice_payments d i))) (\<lambda>open.
     case open of
       Some y \<Rightarrow> update (\<lambda>d. d\<lparr>payments := upd_where (\<lambda>x. y_id x = y_id y) (payment_paid now reference) (payments d)\<rparr>)
     | None \<Rightarrow> bindE fresh_id (\<lambda>yid.
         update (\<lambda>d. d\<lparr>payments := payments d @ [extra_payment now yid reference i]\<rparr>)))"

definition webhook_reference :: "webhook_payload \<Rightarrow> string" where
  "webhook_reference q = (if or_empty (wp_payment_reference q) = [] then ''pix_webhook'' else or_empty (wp_payment_reference q))"

text \<open>The refresh at the end reads the clock again: \<open>later\<close>.\<close>

definition pix_webhook :: "settings \<Rightarrow> timestamp \<Rightarrow> timestamp \<Rightarrow> webhook_payload \<Rightarrow> ('r, json) act" where
  "pix_webhook cfg now later q =
     (case uuid_of_text (wp_invoice_id q) of
        None \<Rightarrow> raise (http_error 400 ''invalid invoice_id format'')
      | Some iid \<Rightarrow>
          bindE (query (\<lambda>d. filter (\<lambda>i. i_id i = iid) (invoices d))) (\<lambda>rows.
          bindE (liftE (scalar_one_or_none rows)) (\<lambda>found. case found of
            None \<Rightarrow> raise (http_error 404 ''invoice not found'')
          | Some i \<Rightarrow>
              if i_status i = ''paid'' then ret (JObj [(''status'', JStr ''already_paid'')])
              else if wp_status q = ''paid'' then
                seqE (update (\<lambda>d. d\<lparr>invoices := upd_where (\<lambda>x. i_id x = iid) (invoice_paid now) (invoices d)\<rparr>))
                  (seqE (settle_payment now (webhook_reference q) i)
                    (seqE (update (\<lambda>d. snd (refresh_billing_statuses later (billing_suspend_after_days cfg) d)))
                      (seqE commit (ret (JObj [(''status'', JStr ''paid_successfully'')])))))
              else ret (JObj [(''status'', JStr ''ignored'')]))))"

section \<open>Facts\<close>

lemma signup_run:
  assumes "create_public_signup cfg sha1 kdf now token salt q w = (Inr (c, plan, k, plaintext), t)"
  shows "\<exists>email. c = signup_client cfg now (next_id (w_db w)) q (build_account_name sha1 email) email plan \<and>
     plaintext = generate_api_key token \<and> k = signup_key kdf now (Suc (next_id (w_db w))) (c_id c) plaintext salt \<and>
     clients (w_db t) = clients (w_db w) @ [c] \<and> api_keys (w_db t) = api_keys (w_db w) @ [k] \<and> w_saved t = w_db t"
proof -
  obtain email where e: "normalize_email (su_email q) = Inr email"
    using assms by (cases "normalize_email (su_email q)") (simp_all add: create_public_signup_def)
  let ?name = "build_account_name sha1 email"
  let ?same = "scalar_one_or_none (filter (\<lambda>c. c_name c = ?name) (clients (w_db w)))"
  let ?found = "scalar_one_or_none (filter (\<lambda>p. p_code p = su_plan_code q \<and> p_is_active p) (billing_plans (w_db w)))"
  have run: "create_public_signup cfg sha1 kdf now token salt q w =
     bindE (liftE ?same) (\<lambda>existing. if existing \<noteq> None then raise (http_error 409 ''account already exists for this email'')
       else bindE (liftE ?found) (\<lambda>found. case found of None \<Rightarrow> raise (http_error 404 ''billing plan not found'')
       | Some plan \<Rightarrow> bindE fresh_id (\<lambda>cid. let c = signup_client cfg now cid q ?name email plan in
           seqE (update (\<lambda>d. d\<lparr>clients := clients d @ [c]\<rparr>)) (bindE fresh_id (\<lambda>kid.
            let plaintext = generate_api_key token; k = signup_key kdf now kid cid plaintext salt in
            seqE (update (\<lambda>d. d\<lparr>api_keys := api_keys d @ [k]\<rparr>)) (seqE commit (ret (c, plan, k, plaintext)))))))) w"
    by (cases ?same) (auto simp: create_public_signup_def e Let_def)
  have same: "?same = Inr None" using assms unfolding run by (cases ?same) (auto split: if_splits)
  have found: "?found = Inr (Some plan)"
    using assms unfolding run same by (cases ?found) (auto simp: Let_def split: option.splits)
  show ?thesis
    using assms unfolding run same found by (intro exI [of _ email]) (auto simp: Let_def signup_client_def)
qed

text \<open>
  C29. The key a new account is answered with opens the API: whatever happened to be stored before,
  as long as no other key of the same prefix accepts it, a request that carries it is authenticated
  as the new client, from any address and at any later time until something changes.
\<close>

theorem signup_key_opens_the_api:
  assumes "\<forall>x\<in>set (clients (w_db w)). c_id x < next_id (w_db w)"
    and "CHR ''$'' \<notin> set salt" and "\<forall>x\<in>set token. \<not> is_space x"
    and "\<forall>x\<in>set (candidate_keys (w_db w) (take 12 (generate_api_key token))).
      verify_secret kdf (generate_api_key token) (k_key_hash x) = Inr False"
    and "create_public_signup cfg sha1 kdf now token salt q w = (Inr (c, plan, k, plaintext), t)"
  shows "fst (require_client kdf rp ops later ip (Some plaintext) t) = Inr c"
proof -
  obtain email where c: "c = signup_client cfg now (next_id (w_db w)) q (build_account_name sha1 email) email plan"
    and p: "plaintext = generate_api_key token"
    and k: "k = signup_key kdf now (Suc (next_id (w_db w))) (c_id c) plaintext salt"
    and t: "clients (w_db t) = clients (w_db w) @ [c]" "api_keys (w_db t) = api_keys (w_db w) @ [k]"
    using signup_run [OF assms(5)] by blast
  have strip: "strip plaintext = plaintext"
    using assms(3) by (intro strip_plain) (auto simp: p generate_api_key_def is_space_def py_ord_def)
  let ?keys = "candidate_keys (w_db t) (take 12 plaintext)"
  have keys: "set ?keys = insert k (set (candidate_keys (w_db w) (take 12 plaintext)))"
    by (auto simp: candidate_keys_def t k signup_key_def short_prefix_def)
  have ok: "verify_secret kdf plaintext (k_key_hash k) = Inr True"
    using assms(2) by (simp add: k signup_key_def verify_hashed_secret)
  have "List.find (\<lambda>x. c_id x = k_client_id k) (clients (w_db t)) = Some c"
  proof -
    have "List.find (\<lambda>x. c_id x = c_id c) (clients (w_db w)) = None"
      using assms(1) by (simp only: find_None_set) (auto simp: c signup_client_def)
    then show ?thesis by (simp add: t k signup_key_def find_snoc)
  qed
  then show ?thesis
    using keys ok assms(4) strip by (intro stored_key_opens [of k])
      (auto simp: t p k c signup_key_def signup_client_def short_prefix_def)
qed

lemma settle_frame:
  "\<exists>u. settle_payment now ref i w = (Inr (), u) \<and> invoices (w_db u) = invoices (w_db w) \<and> clients (w_db u) = clients (w_db w)"
  by (auto simp: settle_payment_def bindE_def split: option.splits)

text \<open>
  C30. The payment webhook, for any caller: an invoice that is not paid yet, a cancelled one as well,
  is paid from then on, everything is committed, and a client with no other late invoice is active
  again, also one that was suspended.
\<close>

theorem webhook_settles:
  assumes "uuid_of_text (wp_invoice_id q) = Some iid" and "filter (\<lambda>i. i_id i = iid) (invoices (w_db w)) = [i]"
    and "i_status i \<noteq> ''paid''" and "wp_status q = ''paid''"
    and "pix_webhook cfg now later q w = (r, t)"
  shows "r = Inr (JObj [(''status'', JStr ''paid_successfully'')]) \<and> w_saved t = w_db t \<and>
     filter (\<lambda>i. i_id i = iid) (invoices (w_saved t)) = [invoice_paid now i] \<and>
     (\<forall>c\<in>set (clients (w_saved t)). c_id c = i_client_id i \<and>
        (\<forall>x\<in>set (invoices (w_db w)). i_client_id x = c_id c \<and> i_id x \<noteq> iid \<longrightarrow>
           i_status x \<noteq> ''overdue'' \<and> \<not> is_late later x) \<longrightarrow> c_billing_status c = ''active'')"
proof -
  let ?w = "w\<lparr>w_db := (w_db w)\<lparr>invoices := upd_where (\<lambda>x. i_id x = iid) (invoice_paid now) (invoices (w_db w))\<rparr>\<rparr>"
  obtain u where u: "settle_payment now (webhook_reference q) i ?w = (Inr (), u)"
    "invoices (w_db u) = upd_where (\<lambda>x. i_id x = iid) (invoice_paid now) (invoices (w_db w))"
    using settle_frame [of now "webhook_reference q" i ?w] by auto
  let ?d = "snd (refresh_billing_statuses later (billing_suspend_after_days cfg) (w_db u))"
  have run: "r = Inr (JObj [(''status'', JStr ''paid_successfully'')])" "t = u\<lparr>w_db := ?d, w_saved := ?d\<rparr>"
    using assms u(1) by (simp_all add: pix_webhook_def seqE_apply)
  have inv: "invoices ?d = upd_where (is_late later) (\<lambda>i. i\<lparr>i_status := ''overdue'', i_updated_at := later\<rparr>)
      (upd_where (\<lambda>x. i_id x = iid) (invoice_paid now) (invoices (w_db w)))"
    by (simp add: invoices_refresh u(2))
  have filt: "filter (\<lambda>i. i_id i = iid) (upd_where P f xs) = upd_where P f (filter (\<lambda>i. i_id i = iid) xs)"
    if "\<And>x. i_id (f x) = i_id x" for P f and xs :: "invoice list"
    using that by (intro filter_upd_where) simp
  have id: "i_id i = iid" using assms(2) by (metis (mono_tags, lifting) filter_eq_ConsD)
  have mine: "filter (\<lambda>i. i_id i = iid) (invoices ?d) = [invoice_paid now i]"
    by (simp add: inv filt invoice_paid_def assms(2) id is_late_def)
  have "c_billing_status c = ''active''"
    if c: "c \<in> set (clients ?d)" and own: "c_id c = i_client_id i"
      and others: "\<forall>x\<in>set (invoices (w_db w)). i_client_id x = c_id c \<and> i_id x \<noteq> iid \<longrightarrow>
        i_status x \<noteq> ''overdue'' \<and> \<not> is_late later x" for c
  proof -
    have none: "overdue_invoices ?d c = []"
      using others by (auto simp: overdue_invoices_def client_invoices_def inv upd_where_def invoice_paid_def is_late_def
          filter_empty_conv)
    from c obtain c0 where c0: "c0 \<in> set (clients (w_db u))"
      "c = (let s = next_billing_status later (billing_suspend_after_days cfg) (mark_late_invoices later (w_db u)) c0 in
         if s \<noteq> c_billing_status c0 then c0\<lparr>c_billing_status := s, c_updated_at := later\<rparr> else c0)"
      by (auto simp: refresh_billing_statuses_def refresh_clients_def Let_def mark_late_invoices_def)
    then have status: "c_billing_status c = next_billing_status later (billing_suspend_after_days cfg) (mark_late_invoices later (w_db u)) c0"
      and "c_id c = c_id c0" by (auto simp: Let_def)
    moreover have "overdue_invoices (mark_late_invoices later (w_db u)) c0 = overdue_invoices ?d c"
      using \<open>c_id c = c_id c0\<close>
      by (simp add: overdue_invoices_def client_invoices_def refresh_billing_statuses_def refresh_clients_def Let_def)
    ultimately show ?thesis
      using none by (simp add: next_billing_status_def should_suspend_def derive_client_billing_status_def)
  qed
  with run mine show ?thesis by simp
qed

section \<open>Witnesses\<close>

definition free_plan :: billing_plan where
  "free_plan = new_plan 0 4 (hd DEFAULT_BILLING_PLANS)"

definition signup_world :: "unit world" where
  "signup_world = example_world (empty_db\<lparr>next_id := 10, billing_plans := [free_plan]\<rparr>)"

definition ada :: signup_request where
  "ada = \<lparr>su_full_name = ''Ada L'', su_email = '' Ada@x.org'', su_company = None, su_plan_code = ''free'', su_use_case = None\<rparr>"

definition signup_example :: "unit world \<Rightarrow> (exc + client \<times> billing_plan \<times> api_key \<times> string) \<times> unit world" where
  "signup_example = create_public_signup proxy_settings (\<lambda>_. ''0123456789'') toy_kdf 5 ''tok'' ''00'' ada"

lemma signup_example_run: "\<not> isl (fst (signup_example signup_world))"
  by code_simp

theorem signup_key_opens_the_api_witness:
  "let (r, t) = signup_example signup_world; (c, plan, k, plaintext) = projr r
   in fst (require_client toy_kdf (\<lambda>_. []) idle_redis 9 ''10.0.0.1'' (Some plaintext) t) = Inr c"
proof -
  obtain r t where run: "signup_example signup_world = (r, t)" by (cases "signup_example signup_world")
  with signup_example_run obtain c plan k plaintext where r: "r = Inr (c, plan, k, plaintext)"
    by (cases r) auto
  have "fst (require_client toy_kdf (\<lambda>_. []) idle_redis 9 ''10.0.0.1'' (Some plaintext) t) = Inr c"
    by (rule signup_key_opens_the_api [where token = "''tok''" and salt = "''00''"])
      (use run r in \<open>simp_all add: signup_example_def signup_world_def example_world_def empty_db_def
         candidate_keys_def is_space_def py_ord_def Let_def\<close>)
  with run r show ?thesis by simp
qed

definition cancelled_invoice :: invoice where
  "cancelled_invoice = \<lparr>i_id = 9, i_client_id = 1, i_billing_plan_id = None, i_pricing_rule_id = None,
     i_status = ''cancelled'', i_currency = ''USD'', i_period_start = Date 2026 4 1, i_period_end = Date 2026 4 30,
     i_monthly_price = 29, i_included_tokens = 0, i_used_tokens = 0, i_overage_tokens = 0,
     i_overage_price_per_1k_tokens = 0, i_overage_cost = 0, i_total_amount = 29, i_payment_method = ''manual_pix'',
     i_payment_instructions = None, i_due_at = None, i_paid_at = None, i_cancelled_at = Some 3, i_created_at = 0,
     i_updated_at = 3\<rparr>"

definition webhook_world :: "unit world" where
  "webhook_world = example_world (empty_db\<lparr>next_id := 10, clients := [chat_client\<lparr>c_billing_status := ''suspended''\<rparr>],
     invoices := [cancelled_invoice]\<rparr>)"

definition paid_event :: webhook_payload where
  "paid_event = \<lparr>wp_invoice_id = uuid_str 9, wp_status = ''paid'', wp_payment_reference = None\<rparr>"

lemma webhook_uuid: "uuid_of_text (wp_invoice_id paid_event) = Some 9"
  by code_simp

theorem webhook_settles_witness:
  "filter (\<lambda>i. i_id i = 9) (invoices (w_saved (snd (pix_webhook proxy_settings 7 8 paid_event webhook_world)))) =
     [invoice_paid 7 cancelled_invoice]"
proof -
  obtain r t where run: "pix_webhook proxy_settings 7 8 paid_event webhook_world = (r, t)"
    by (cases "pix_webhook proxy_settings 7 8 paid_event webhook_world")
  have "filter (\<lambda>i. i_id i = 9) (invoices (w_db webhook_world)) = [cancelled_invoice]"
    by (simp add: webhook_world_def example_world_def cancelled_invoice_def)
  moreover have "i_status cancelled_invoice \<noteq> ''paid''" "wp_status paid_event = ''paid''"
    by (simp_all add: cancelled_invoice_def paid_event_def)
  ultimately have "filter (\<lambda>i. i_id i = 9) (invoices (w_saved t)) = [invoice_paid 7 cancelled_invoice]"
    using webhook_settles [OF webhook_uuid _ _ _ run] by blast
  with run show ?thesis by simp
qed

end
