(* ===== verification/ModelManagement.thy ===== *)
theory ModelManagement
  imports AdminClients PublicApi Routing "HOL-Library.List_Lexorder"
begin

text \<open>
  What the operator's model handlers share (\<open>services/admin_model_management.py\<close>): metadata, file names,
  the containers of backends, the lists of allowed models of the plans, and the archiving of models. The
  directory of model files and the container runtime are arguments.
\<close>

section \<open>Metadata\<close>

text \<open>\<open>sort_keys\<close> sorts the keys of the objects inside as well.\<close>

fun sort_keys :: "json \<Rightarrow> json" where
  "sort_keys (JArr xs) = JArr (map sort_keys xs)"
| "sort_keys (JObj d) = JObj (sort_key fst (map (\<lambda>(k, v). (k, sort_keys v)) d))"
| "sort_keys v = v"

definition dump_metadata :: "dict \<Rightarrow> jtext" where
  "dump_metadata payload = dumps (sort_keys (JObj payload))"

text \<open>A null takes the key away.\<close>

definition merge_metadata :: "jtext option \<Rightarrow> (string \<times> json) list \<Rightarrow> jtext" where
  "merge_metadata existing updates = dump_metadata (foldl (\<lambda>payload (key, value).
     if value = JNull then dict_pop key payload else dict_set key value payload) (parse_metadata existing) updates)"

definition stripped_string :: "json \<Rightarrow> string option" where
  "stripped_string v = (case v of JStr s \<Rightarrow> if strip s = [] then None else Some (strip s) | _ \<Rightarrow> None)"

definition display_name_for_model :: "model \<Rightarrow> string" where
  "display_name_for_model m =
     (case stripped_string (dict_get_or_null (parse_metadata (m_metadata_json m)) ''display_name'') of
        Some s \<Rightarrow> s | None \<Rightarrow> alias_or_id m)"

definition bool_or_null :: "json \<Rightarrow> json" where
  "bool_or_null v = (case v of JBool b \<Rightarrow> JBool b | _ \<Rightarrow> JNull)"

definition reasoning_default :: "string \<Rightarrow> model \<Rightarrow> json" where
  "reasoning_default key m = bool_or_null (dict_get_or_null (parse_metadata (m_metadata_json m)) key)"

definition architecture_for_model :: "model \<Rightarrow> string option" where
  "architecture_for_model m = detect_architecture (m_model_id m) (m_model_file m) (m_model_alias m) (m_metadata_json m)"

definition prompt_template_for_payload ::
  "string option \<Rightarrow> string \<Rightarrow> string \<Rightarrow> string option \<Rightarrow> jtext option \<Rightarrow> string" where
  "prompt_template_for_payload template model_id model_file model_alias metadata =
     (case template of
        Some t \<Rightarrow> if t \<noteq> [] \<and> t \<noteq> ''auto'' then t
          else (case detect_prompt_template model_id model_file model_alias metadata of None \<Rightarrow> ''auto'' | Some x \<Rightarrow> x)
      | None \<Rightarrow> (case detect_prompt_template model_id model_file model_alias metadata of None \<Rightarrow> ''auto'' | Some x \<Rightarrow> x))"

section \<open>File names\<close>

text \<open>The parts of a relative \<open>PurePosixPath\<close>, and its last one.\<close>

definition path_parts :: "string \<Rightarrow> string list" where
  "path_parts s = filter (\<lambda>p. p \<noteq> [] \<and> p \<noteq> ''.'') (split_on (CHR ''/'') s)"

definition path_name :: "string \<Rightarrow> string" where
  "path_name s = (if path_parts s = [] then [] else last (path_parts s))"

definition sanitize_model_filename :: "string \<Rightarrow> string \<Rightarrow> exc + string" where
  "sanitize_model_filename filename provider =
     (let value = strip filename in
      if value = [] then Inl (ValueError ''model file is required'')
      else if starts_with ''/'' value \<or> ''..'' \<in> set (path_parts value)
      then Inl (ValueError ''model file must stay inside /models'')
      else if path_name value \<noteq> value then Inl (ValueError ''model file must be a filename inside /models'')
      else if provider = ''llama.cpp'' \<and> \<not> ends_with ''.gguf'' (lower (path_name value))
      then Inl (ValueError ''llama.cpp models must use .gguf files'')
      else Inr (path_name value))"

text \<open>
  The directory of model files: its path, whether it exists, whether a name resolves to a place
  inside it and to a file, and its entries with their sizes and times.
\<close>

record model_dir =
  md_path :: string
  md_exists :: bool
  md_inside :: "string \<Rightarrow> bool"
  md_is_file :: "string \<Rightarrow> bool"
  md_entries :: "(string \<times> int \<times> string) list"

definition ensure_model_file_exists :: "model_dir \<Rightarrow> string \<Rightarrow> string \<Rightarrow> exc + string" where
  "ensure_model_file_exists dir filename provider =
     bindS (sanitize_model_filename filename provider) (\<lambda>normalized.
     if md_exists dir \<and> \<not> md_inside dir normalized then Inl (ValueError ''model file must stay inside /models'')
     else if \<not> md_is_file dir normalized
     then Inl (FileNotFoundError (''model file not found in '' @ md_path dir))
     else Inr normalized)"

definition char_upper :: "char \<Rightarrow> char" where
  "char_upper c = (if is_lower c then char_of (py_ord c - 32) else c)"

definition is_alnum :: "char \<Rightarrow> bool" where
  "is_alnum c = (is_digit c \<or> is_lower c \<or> is_upper c)"

text \<open>The groups \<open>(?:_[0-9A-Z]+)+\<close> at the start of a text, as far as they go; empty when there is none.\<close>

function quant_groups :: "string \<Rightarrow> string" where
  "quant_groups s = (case s of
       [] \<Rightarrow> []
     | c # rest \<Rightarrow>
         let w = takeWhile is_alnum rest in
         if c = CHR ''_'' \<and> w \<noteq> [] then c # w @ quant_groups (dropWhile is_alnum rest) else [])"
  by pat_completeness auto
termination
  by (relation "measure length") (auto simp: le_imp_less_Suc length_dropWhile_le)

declare quant_groups.simps [simp del]

text \<open>\<open>letter\d(_...)+\<close>, and the fixed words, at the start of a text; letters count in either case.\<close>

definition quant_after :: "string \<Rightarrow> string \<Rightarrow> string option" where
  "quant_after prefix s =
     (let rest = drop (length prefix) s in
      if map char_upper (take (length prefix) s) = prefix \<and> rest \<noteq> [] \<and> is_digit (hd rest) \<and> quant_groups (tl rest) \<noteq> []
      then Some (take (Suc (length prefix)) s @ quant_groups (tl rest)) else None)"

definition quant_word :: "string \<Rightarrow> string \<Rightarrow> string option" where
  "quant_word word s = (if map char_upper (take (length word) s) = word then Some (take (length word) s) else None)"

definition first_some :: "'a option list \<Rightarrow> 'a option" where
  "first_some xs = (case filter (\<lambda>x. x \<noteq> None) xs of [] \<Rightarrow> None | x # _ \<Rightarrow> x)"

definition quant_here :: "string \<Rightarrow> string option" where
  "quant_here s = first_some [quant_after ''Q'' s, quant_after ''IQ'' s, quant_word ''FP16'' s, quant_word ''F16'' s,
     quant_word ''BF16'' s]"

fun quant_search :: "string \<Rightarrow> string option" where
  "quant_search [] = None"
| "quant_search (c # s) = (case quant_here (c # s) of Some m \<Rightarrow> Some m | None \<Rightarrow> quant_search s)"

definition detect_quantization :: "string \<Rightarrow> string option" where
  "detect_quantization filename = map_option (map char_upper) (quant_search filename)"

text \<open>The name without its last suffix (\<open>Path.stem\<close>): a dot that starts or ends the name begins none.\<close>

definition path_stem :: "string \<Rightarrow> string" where
  "path_stem name =
     (let stem = rev (drop 1 (dropWhile (\<lambda>c. c \<noteq> CHR ''.'') (rev name))) in
      if CHR ''.'' \<notin> set name \<or> stem = [] \<or> last name = CHR ''.'' then name else stem)"

definition registered_files :: "db \<Rightarrow> (string \<times> string) list" where
  "registered_files d = rev (map (\<lambda>m. (m_model_file m, m_status m)) (filter (\<lambda>m. m_model_file m \<noteq> []) (models d)))"

definition list_model_files :: "model_dir \<Rightarrow> db \<Rightarrow> json list" where
  "list_model_files dir d =
     (if \<not> md_exists dir then []
      else map (\<lambda>(name, size, modified). JObj [(''filename'', JStr name), (''size_bytes'', JInt size),
          (''modified_at'', JStr modified),
          (''detected_architecture'', jopt JStr (detect_architecture name name (Some (path_stem name)) None)),
          (''quantization'', jopt JStr (detect_quantization name)),
          (''already_registered'', JBool (name \<in> fst ` set (registered_files d))),
          (''registered_status'', jopt JStr (map_of (registered_files d) name))])
        (filter (\<lambda>(name, _). md_is_file dir name \<and> ends_with ''.gguf'' (lower name))
          (sort_key (\<lambda>(name, _). lower name) (md_entries dir))))"

section \<open>Containers\<close>

definition ALLOWED_DOCKER_SERVICES :: "string list" where
  "ALLOWED_DOCKER_SERVICES = [''data-plane-gemma'', ''data-plane-bonsai'', ''data-plane-mock'', ''data-plane-ollama'']"

datatype process_outcome =
    NoSuchProgram
  | TimedOut "string option" "string option"
  | Exited int string string

text \<open>
  The host: the compose file and the environment file if they exist, what a command does within
  its time limit, and how its output decodes.
\<close>

record host =
  ho_compose_file :: "string option"
  ho_env_file :: "string option"
  ho_run :: "string list \<Rightarrow> int \<Rightarrow> process_outcome"
  ho_decode :: "string \<Rightarrow> json option"

record docker_result =
  dk_ok :: bool
  dk_command :: "string list"
  dk_stdout :: string
  dk_stderr :: string
  dk_exit_code :: int
  dk_detail :: "string option"

definition backend_service_name :: "backend \<Rightarrow> string option" where
  "backend_service_name b = stripped_string (dict_get_or_null (parse_metadata (b_metadata_json b)) ''service_name'')"

definition docker_actions_allowed :: "settings \<Rightarrow> host \<Rightarrow> backend \<Rightarrow> bool" where
  "docker_actions_allowed cfg h b =
     (test_tools_enabled cfg \<and> \<not> public_exposure cfg \<and>
      (case backend_service_name b of None \<Rightarrow> False | Some s \<Rightarrow> s \<in> set ALLOWED_DOCKER_SERVICES) \<and>
      ho_compose_file h \<noteq> None)"

definition backend_runtime_capabilities :: "settings \<Rightarrow> host \<Rightarrow> backend \<Rightarrow> dict" where
  "backend_runtime_capabilities cfg h b = [
     (''service_name'', jopt JStr (backend_service_name b)),
     (''compose_available'', JBool (ho_compose_file h \<noteq> None)),
     (''docker_actions_allowed'', JBool (docker_actions_allowed cfg h b)),
     (''test_tools_enabled'', JBool (test_tools_enabled cfg)),
     (''public_exposure'', JBool (public_exposure cfg))]"

definition docker_command :: "host \<Rightarrow> string list \<Rightarrow> string list" where
  "docker_command h args =
     [''docker'', ''compose'', ''-f'', or_empty (ho_compose_file h)] @
     (case ho_env_file h of None \<Rightarrow> [] | Some f \<Rightarrow> [''--env-file'', f]) @ args"

definition run_backend_docker_command ::
  "settings \<Rightarrow> host \<Rightarrow> backend \<Rightarrow> string list \<Rightarrow> int \<Rightarrow> docker_result" where
  "run_backend_docker_command cfg h b args timeout_seconds =
     (if \<not> docker_actions_allowed cfg h b
      then \<lparr>dk_ok = False, dk_command = [], dk_stdout = [], dk_stderr = [], dk_exit_code = 403,
            dk_detail = Some ''docker actions disabled for this backend''\<rparr>
      else let command = docker_command h args in
        case ho_run h command timeout_seconds of
          NoSuchProgram \<Rightarrow> \<lparr>dk_ok = False, dk_command = command, dk_stdout = [],
            dk_stderr = ''docker compose not available'', dk_exit_code = 127,
            dk_detail = Some ''docker compose not available''\<rparr>
        | TimedOut out err \<Rightarrow> \<lparr>dk_ok = False, dk_command = command, dk_stdout = or_empty out,
            dk_stderr = (if or_empty err = [] then ''timeout'' else or_empty err), dk_exit_code = 124,
            dk_detail = Some ''docker command timed out''\<rparr>
        | Exited code out err \<Rightarrow> \<lparr>dk_ok = (code = 0), dk_command = command, dk_stdout = out, dk_stderr = err,
            dk_exit_code = code, dk_detail = (if code = 0 then None else Some ''docker command failed'')\<rparr>)"

text \<open>\<open>a or b or default\<close> of texts.\<close>

definition first_text :: "string list \<Rightarrow> string" where
  "first_text ss = (case filter (\<lambda>s. s \<noteq> []) ss of [] \<Rightarrow> [] | s # _ \<Rightarrow> s)"

text \<open>\<open>str(item.get(a) or item.get(b) or default)\<close>.\<close>

definition field_text :: "(json \<Rightarrow> string) \<Rightarrow> string \<Rightarrow> string \<Rightarrow> string \<Rightarrow> json \<Rightarrow> exc + string" where
  "field_text rp a b fallback item =
     bindS (as_dict item) (\<lambda>d.
     let x = dict_get_or_null d a; y = dict_get_or_null d b in
     Inr (py_str rp (if truthy x then x else if truthy y then y else JStr fallback)))"

fun find_service :: "(json \<Rightarrow> string) \<Rightarrow> string \<Rightarrow> json list \<Rightarrow> exc + json option" where
  "find_service rp name [] = Inr None"
| "find_service rp name (item # items) = bindS (field_text rp ''Service'' ''Name'' [] item) (\<lambda>s.
     if strip s = name then Inr (Some item) else find_service rp name items)"

definition listed_services :: "host \<Rightarrow> string \<Rightarrow> json list" where
  "listed_services h raw =
     (if raw = [] then [] else case ho_decode h raw of
        Some (JObj d) \<Rightarrow> [JObj d] | Some (JArr items) \<Rightarrow> items | _ \<Rightarrow> [])"

definition backend_container_snapshot :: "(json \<Rightarrow> string) \<Rightarrow> settings \<Rightarrow> host \<Rightarrow> backend \<Rightarrow> exc + json" where
  "backend_container_snapshot rp cfg h b =
     (let snapshot = foldl (\<lambda>d (k, v). dict_set k v d)
            [(''service_name'', jopt JStr (backend_service_name b)), (''available'', JBool False),
             (''container_found'', JBool False), (''status'', JStr ''unavailable''), (''raw'', JNull), (''detail'', JNull)]
            (backend_runtime_capabilities cfg h b);
          detail = (\<lambda>s d. dict_set ''detail'' (JStr s) d) in
      case backend_service_name b of
        None \<Rightarrow> Inr (JObj (detail ''compose metadata unavailable'' snapshot))
      | Some name \<Rightarrow>
          if ho_compose_file h = None then Inr (JObj (detail ''compose metadata unavailable'' snapshot))
          else
            let result = run_backend_docker_command cfg h b [''ps'', ''--format'', ''json''] 30 in
            if \<not> dk_ok result then
              Inr (JObj (dict_set ''error'' (JStr (first_text [strip (dk_stderr result), strip (dk_stdout result)]))
                (detail (first_text [or_empty (dk_detail result), strip (dk_stderr result), ''docker status unavailable''])
                  snapshot)))
            else
              let snapshot = dict_set ''available'' (JBool True) snapshot in
              bindS (find_service rp name (listed_services h (strip (dk_stdout result)))) (\<lambda>found. case found of
                None \<Rightarrow> Inr (JObj (detail ''service not present in docker compose ps''
                  (dict_set ''status'' (JStr ''not-created'') snapshot)))
              | Some row \<Rightarrow> bindS (field_text rp ''State'' ''Status'' ''unknown'' row) (\<lambda>state.
                  Inr (JObj (dict_set ''raw'' row (dict_set ''status'' (JStr (lower state))
                    (dict_set ''container_found'' (JBool True) snapshot)))))))"

section \<open>The lists of the plans\<close>

definition requested_codes :: "string list \<Rightarrow> string list" where
  "requested_codes codes = filter (\<lambda>s. s \<noteq> []) (map strip codes)"

definition unknown_codes :: "db \<Rightarrow> string list \<Rightarrow> string list" where
  "unknown_codes d codes = sort (remdups (filter (\<lambda>s. s \<notin> p_code ` set (billing_plans d)) (requested_codes codes)))"

definition public_names :: "model \<Rightarrow> string list" where
  "public_names m = m_model_id m # (case m_model_alias m of None \<Rightarrow> [] | Some a \<Rightarrow> if a = [] then [] else [a])"

definition plan_after_sync :: "(json \<Rightarrow> string) \<Rightarrow> timestamp \<Rightarrow> model \<Rightarrow> string list \<Rightarrow> billing_plan \<Rightarrow> billing_plan" where
  "plan_after_sync rp now m requested p =
     (let others = filter (\<lambda>s. s \<notin> set (public_names m)) (parse_allowed_models rp (p_allowed_models_json p));
          current = (if p_code p \<in> set requested then others @ public_names m else others) in
      p\<lparr>p_allowed_models_json := Some (dumps (JArr (map JStr (sort (remdups current))))), p_updated_at := now\<rparr>)"

definition sync_allowed_plans ::
  "(json \<Rightarrow> string) \<Rightarrow> timestamp \<Rightarrow> model \<Rightarrow> string list option \<Rightarrow> ('r, unit) act" where
  "sync_allowed_plans rp now m allowed_plan_codes = (case allowed_plan_codes of
       None \<Rightarrow> ret ()
     | Some codes \<Rightarrow> bindE (query (\<lambda>d. unknown_codes d codes)) (\<lambda>unknown.
         if unknown \<noteq> [] then raise (ValueError (''unknown billing plan codes: '' @ join '', '' unknown))
         else update (\<lambda>d. d\<lparr>billing_plans := map (plan_after_sync rp now m (requested_codes codes)) (billing_plans d)\<rparr>)))"

section \<open>Removing a model\<close>

definition remove_model_routes :: "model \<Rightarrow> ('r, int) act" where
  "remove_model_routes m = bindE (query (\<lambda>d. int (length (model_routes d m)))) (\<lambda>n.
     seqE (update (\<lambda>d. d\<lparr>routes := filter (\<lambda>r. r_model_registry_id r \<noteq> m_id m) (routes d)\<rparr>)) (ret n))"

definition id_suffix :: "uuid \<Rightarrow> string" where
  "id_suffix u = takeWhile (\<lambda>c. c \<noteq> CHR ''-'') (uuid_str u)"

definition archive_model_identity :: "timestamp \<Rightarrow> model \<Rightarrow> model" where
  "archive_model_identity now m =
     (let suffix = id_suffix (m_id m);
          metadata = dict_set ''deleted_at'' (jtime now) (dict_set ''deleted_public_model_alias'' (jopt JStr (m_model_alias m))
            (dict_set ''deleted_public_model_id'' (JStr (m_model_id m)) (parse_metadata (m_metadata_json m)))) in
      m\<lparr>m_model_id := take 255 (m_model_id m @ ''::deleted::'' @ suffix),
        m_model_alias := (case m_model_alias m of None \<Rightarrow> None
          | Some a \<Rightarrow> if a = [] then Some a else Some (take 128 (a @ ''-deleted-'' @ suffix))),
        m_metadata_json := Some (dump_metadata metadata), m_is_active := False, m_is_default := False,
        m_status := ''soft-deleted'', m_inference_backend_id := None, m_updated_at := now\<rparr>)"

section \<open>Facts about file names\<close>

lemma split_on_absent: "c \<notin> set s \<Longrightarrow> split_on c s = [s]"
  by (induction c s rule: split_on.induct) auto

lemma split_on_parts: "p \<in> set (split_on c s) \<Longrightarrow> c \<notin> set p"
  by (induction c s arbitrary: p rule: split_on.induct) (auto split: list.splits if_splits)

lemma path_parts_single:
  assumes "CHR ''/'' \<notin> set n" and "n \<noteq> []" and "n \<noteq> ''.''"
  shows "path_parts n = [n]"
  using assms by (simp add: path_parts_def split_on_absent)

lemma path_name_self:
  assumes "path_name n = n" and "n \<noteq> []"
  shows "path_parts n \<noteq> [] \<and> n \<in> set (path_parts n)"
proof -
  have parts: "path_parts n \<noteq> []" using assms by (auto simp: path_name_def)
  then have "path_name n = last (path_parts n)" by (simp add: path_name_def split: list.splits)
  with parts assms(1) last_in_set [OF parts] show ?thesis by simp
qed

text \<open>
  Exactly the names of files directly inside the model directory are accepted: the stripped text
  must be a single path component, neither empty nor a dot name, and end in \<open>.gguf\<close> for llama.cpp; it is
  taken as it is. Nothing accepted can point anywhere else.
\<close>

theorem accepted_file_names:
  "sanitize_model_filename filename provider = Inr n \<longleftrightarrow>
     n = strip filename \<and> n \<notin> {[], ''.'', ''..''} \<and> CHR ''/'' \<notin> set n \<and>
     (provider = ''llama.cpp'' \<longrightarrow> ends_with ''.gguf'' (lower n))"
proof -
  let ?v = "strip filename"
  have single: "CHR ''/'' \<notin> set ?v \<and> ?v \<noteq> ''.'' \<and> ?v \<noteq> ''..''"
    if "?v \<noteq> []" "''..'' \<notin> set (path_parts ?v)" "path_name ?v = ?v"
  proof -
    have "?v \<in> set (path_parts ?v)" using path_name_self [OF that(3,1)] by blast
    then have "?v \<in> set (split_on (CHR ''/'') ?v)" "?v \<noteq> ''.''" by (auto simp: path_parts_def)
    with split_on_parts that(2) \<open>?v \<in> set (path_parts ?v)\<close> show ?thesis by auto
  qed
  have accept: "path_parts ?v = [?v]" "path_name ?v = ?v" "\<not> starts_with ''/'' ?v"
    if "CHR ''/'' \<notin> set ?v" "?v \<noteq> []" "?v \<noteq> ''.''"
    using path_parts_single [OF that] that(1) by (auto simp: path_name_def starts_with_split)
  show ?thesis (is "?run = ?ok")
  proof
    assume ?run
    then show ?ok using single by (auto simp: sanitize_model_filename_def Let_def split: if_splits)
  next
    assume ok: ?ok
    then have "path_parts ?v = [?v]" "path_name ?v = ?v" "\<not> starts_with ''/'' ?v" using accept by auto
    with ok show ?run by (auto simp: sanitize_model_filename_def Let_def)
  qed
qed

section \<open>Facts about the lists\<close>

lemma parse_synced:
  assumes "\<forall>s\<in>set ss. strip s \<noteq> []"
  shows "parse_allowed_models rp (Some (dumps (JArr (map JStr ss)))) = ss"
proof -
  have "filter (\<lambda>x. strip (py_str rp x) \<noteq> []) (map JStr ss) = map JStr ss"
    using assms by (simp add: filter_id_conv)
  then show ?thesis by (simp add: parse_allowed_models_def comp_def)
qed

lemma parse_allowed_nonblank: "s \<in> set (parse_allowed_models rp raw) \<Longrightarrow> strip s \<noteq> []"
  by (auto simp: parse_allowed_models_def split: option.splits json.splits if_splits)

lemma find_map_key:
  assumes "\<And>x. k (f x) = k x"
  shows "List.find (\<lambda>x. k x = v) (map f xs) = map_option f (List.find (\<lambda>x. k x = v) xs)"
  by (induction xs) (auto simp: assms)

lemma plan_after_sync_names:
  assumes "\<forall>s\<in>set (public_names m). strip s \<noteq> []"
  shows "set (parse_allowed_models rp (p_allowed_models_json (plan_after_sync rp now m requested p))) =
     (set (parse_allowed_models rp (p_allowed_models_json p)) - set (public_names m)) \<union>
     (if p_code p \<in> set requested then set (public_names m) else {})"
proof -
  let ?old = "parse_allowed_models rp (p_allowed_models_json p)"
  have "\<forall>s\<in>set ?old. strip s \<noteq> []" using parse_allowed_nonblank by blast
  define current where "current = (let others = filter (\<lambda>s. s \<notin> set (public_names m)) ?old in
      if p_code p \<in> set requested then others @ public_names m else others)"
  have "\<forall>s\<in>set (sort (remdups current)). strip s \<noteq> []"
    using assms \<open>\<forall>s\<in>set ?old. strip s \<noteq> []\<close> by (auto simp: current_def Let_def split: if_splits)
  from parse_synced [OF this] have "parse_allowed_models rp (p_allowed_models_json (plan_after_sync rp now m requested p)) =
      sort (remdups current)"
    by (simp add: plan_after_sync_def Let_def current_def)
  then show ?thesis by (auto simp: current_def Let_def)
qed

text \<open>
  C38. What choosing the plans of a model does. Afterwards the list of every plan names the model exactly
  if the plan was chosen, and other models as before. But an empty list allows everything: taking
  the model off a plan that named nothing else opens that plan to every model, and choosing a plan that
  had no list restricts it to this model.
\<close>

theorem plan_lists_after_sync:
  fixes w t :: "'r world"
  assumes "sync_allowed_plans rp now m (Some codes) w = (Inr (), t)" and "\<forall>s\<in>set (public_names m). strip s \<noteq> []"
    and "find_plan (w_db w) pid = Some p" and "c_billing_plan_id c = Some pid"
    and "parse_allowed_models rp (c_allowed_models_json c) = []"
  defines "before \<equiv> set (get_effective_allowed_models rp (w_db w) c)"
  shows "set (get_effective_allowed_models rp (w_db t) c) =
       (before - set (public_names m)) \<union> (if p_code p \<in> set (requested_codes codes) then set (public_names m) else {}) \<and>
     (before \<subseteq> set (public_names m) \<and> p_code p \<notin> set (requested_codes codes) \<longrightarrow>
        get_effective_allowed_models rp (w_db t) c = []) \<and>
     (before = {} \<and> p_code p \<in> set (requested_codes codes) \<longrightarrow>
        set (get_effective_allowed_models rp (w_db t) c) = set (public_names m))"
proof -
  let ?after = "plan_after_sync rp now m (requested_codes codes)"
  have t: "billing_plans (w_db t) = map ?after (billing_plans (w_db w))"
    using assms(1) by (auto simp: sync_allowed_plans_def split: if_splits)
  have id: "p_id (?after x) = p_id x" for x by (simp add: plan_after_sync_def Let_def)
  have "client_plan (w_db t) c = Some (?after p)"
    using assms(3,4) by (simp add: client_plan_def t find_map_key [where k = p_id and f = ?after, OF id] find_plan_def)
  then have t_list: "get_effective_allowed_models rp (w_db t) c = parse_allowed_models rp (p_allowed_models_json (?after p))"
    using assms(5) by (simp add: get_effective_allowed_models_def)
  have "client_plan (w_db w) c = Some p" using assms(3,4) by (simp add: client_plan_def find_plan_def)
  then have w_list: "before = set (parse_allowed_models rp (p_allowed_models_json p))"
    using assms(5) by (simp add: before_def get_effective_allowed_models_def)
  have after: "set (get_effective_allowed_models rp (w_db t) c) =
       (before - set (public_names m)) \<union> (if p_code p \<in> set (requested_codes codes) then set (public_names m) else {})"
    unfolding t_list w_list by (rule plan_after_sync_names [OF assms(2)])
  moreover have "get_effective_allowed_models rp (w_db t) c = []"
    if "before \<subseteq> set (public_names m)" "p_code p \<notin> set (requested_codes codes)"
    using after that by (simp flip: set_empty)
  ultimately show ?thesis by auto
qed

section \<open>Witnesses\<close>

definition listed_plan :: billing_plan where
  "listed_plan = \<lparr>p_id = 4, p_code = ''pro'', p_name = ''Pro'', p_description = None, p_rate_limit_per_minute = 10,
     p_daily_token_quota = 1000, p_monthly_token_quota = 10000, p_max_output_tokens = 512, p_allow_streaming = True,
     p_is_active = True, p_allowed_models_json = Some (dumps (JArr [JStr ''org/gemma''])), p_created_at = 0,
     p_updated_at = 0\<rparr>"

definition listed_world :: "store world" where
  "listed_world = access_world\<lparr>w_db := empty_db\<lparr>billing_plans := [listed_plan]\<rparr>\<rparr>"

theorem plan_lists_after_sync_witness:
  "get_effective_allowed_models (\<lambda>_. []) (w_db (snd (sync_allowed_plans (\<lambda>_. []) 9 example_model (Some []) listed_world)))
     (access_client\<lparr>c_billing_plan_id := Some 4\<rparr>) = []"
proof -
  let ?c = "access_client\<lparr>c_billing_plan_id := Some 4\<rparr>"
  let ?t = "snd (sync_allowed_plans (\<lambda>_. []) 9 example_model (Some []) listed_world)"
  have run: "sync_allowed_plans (\<lambda>_. []) 9 example_model (Some []) listed_world = (Inr (), ?t)"
    by (simp add: sync_allowed_plans_def unknown_codes_def requested_codes_def)
  have names: "public_names example_model = [''org/gemma'', ''gemma'']" by code_simp
  have blank: "\<forall>s\<in>set (public_names example_model). strip s \<noteq> []"
    by (simp add: names strip_def lstrip_def rstrip_def is_space_def py_ord_def)
  have "find_plan (w_db listed_world) 4 = Some listed_plan"
    by (simp add: find_plan_def listed_world_def listed_plan_def empty_db_def)
  moreover have "c_billing_plan_id ?c = Some 4" "parse_allowed_models (\<lambda>_. []) (c_allowed_models_json ?c) = []"
    by (simp_all add: access_client_def parse_allowed_models_def)
  moreover have "set (get_effective_allowed_models (\<lambda>_. []) (w_db listed_world) ?c) \<subseteq> set (public_names example_model)"
    by code_simp
  moreover have "p_code listed_plan \<notin> set (requested_codes [])" by (simp add: requested_codes_def)
  ultimately show ?thesis using plan_lists_after_sync [OF run blank, of 4 listed_plan ?c] by blast
qed

end
