(* ===== verification/AdminBackends.thy ===== *)
theory AdminBackends
  imports ModelManagement InferenceProxy GenerationJobs Registry
begin

text \<open>
  The operator's handlers for backends, for the state of routes and for the local test tools
  (\<open>api/admin.py\<close>, the requests of \<open>schemas/admin.py\<close>).
\<close>

section \<open>The world outside\<close>

text \<open>
  What these handlers ask of their surroundings: the settings, the host, the directory of model files, the
  answers of backends to a \<open>GET\<close>, the measured latencies, the text of decoded values and of JSON
  columns, random draws.
\<close>

record admin_env =
  ae_settings :: settings
  ae_host :: host
  ae_dir :: model_dir
  ae_get :: "string \<Rightarrow> string \<Rightarrow> reply"
  ae_latency :: "uuid \<Rightarrow> rat"
  ae_rp :: "json \<Rightarrow> string"
  ae_text :: "jtext \<Rightarrow> string"
  ae_pick :: rng

definition backend_health_now :: "admin_env \<Rightarrow> backend \<Rightarrow> json" where
  "backend_health_now env b = health_backend (ae_get env) (ae_latency env (b_id b)) b"

section \<open>Serialisation\<close>

definition is_test_backend :: "backend \<Rightarrow> bool" where
  "is_test_backend b =
     (truthy (dict_get_or_null (parse_metadata (b_metadata_json b)) ''test_backend'') \<or> starts_with ''fallback-'' (b_name b))"

definition backend_fields :: "admin_env \<Rightarrow> backend \<Rightarrow> dict" where
  "backend_fields env b = [(''id'', JStr (uuid_str (b_id b))), (''name'', JStr (b_name b)), (''provider'', JStr (b_provider b)),
     (''backend_url'', JStr (b_backend_url b)), (''healthcheck_path'', JStr (b_healthcheck_path b)),
     (''is_active'', JBool (b_is_active b)), (''is_default'', JBool (b_is_default b)), (''status'', JStr (b_status b)),
     (''max_parallel_requests'', JInt (b_max_parallel_requests b)), (''current_running'', JInt (b_current_running b)),
     (''metadata_json'', jopt (\<lambda>t. JStr (ae_text env t)) (b_metadata_json b))]"

definition serialize_backend_admin :: "admin_env \<Rightarrow> backend \<Rightarrow> json \<Rightarrow> exc + json" where
  "serialize_backend_admin env b health_json =
     bindS (backend_container_snapshot (ae_rp env) (ae_settings env) (ae_host env) b) (\<lambda>runtime.
     Inr (JObj (backend_fields env b @ [(''service_name'', jopt JStr (backend_service_name b)), (''docker'', runtime),
       (''health'', health_json), (''created_at'', jtime (b_created_at b)), (''updated_at'', jtime (b_updated_at b))])))"

section \<open>Listing, creating and changing backends\<close>

definition backends_by_age :: "db \<Rightarrow> backend list" where
  "backends_by_age d = sort_key b_created_at (backends d)"

definition list_backends :: "admin_env \<Rightarrow> timestamp \<Rightarrow> ('r, json) act" where
  "list_backends env now =
     seqE (ensure_default_backends (ae_settings env) now)
     (seqE commit
     (bindE (query backends_by_age) (\<lambda>rows.
      bindE (liftE (mapS (\<lambda>b. serialize_backend_admin env b (backend_health_now env b)) rows)) (\<lambda>items.
      ret (JArr items)))))"

record backend_create =
  bc_name :: string
  bc_provider :: string
  bc_backend_url :: string
  bc_healthcheck_path :: string
  bc_is_active :: bool
  bc_is_default :: bool
  bc_status :: string
  bc_max_parallel_requests :: int
  bc_metadata_json :: "jtext option"

definition long_between :: "nat \<Rightarrow> nat \<Rightarrow> string \<Rightarrow> bool" where
  "long_between lo hi s = (lo \<le> length s \<and> length s \<le> hi)"

definition valid_backend_create :: "backend_create \<Rightarrow> bool" where
  "valid_backend_create q = (long_between 2 120 (bc_name q) \<and> bc_provider q \<in> set SUPPORTED_BACKENDS \<and>
     long_between 8 255 (bc_backend_url q) \<and> long_between 1 64 (bc_healthcheck_path q) \<and>
     long_between 2 32 (bc_status q) \<and> between 1 64 (bc_max_parallel_requests q))"

definition created_backend :: "timestamp \<Rightarrow> uuid \<Rightarrow> backend_create \<Rightarrow> backend" where
  "created_backend now bid q = \<lparr>b_id = bid, b_name = bc_name q, b_provider = bc_provider q,
     b_backend_url = bc_backend_url q, b_healthcheck_path = bc_healthcheck_path q, b_is_active = bc_is_active q,
     b_is_default = bc_is_default q, b_status = bc_status q, b_max_parallel_requests = bc_max_parallel_requests q,
     b_current_running = 0, b_metadata_json = bc_metadata_json q, b_created_at = now, b_updated_at = now\<rparr>"

definition backend_name_taken :: "string \<Rightarrow> ('r, bool) act" where
  "backend_name_taken name =
     bindE (query (\<lambda>d. scalar_one_or_none (filter (\<lambda>b. b_name b = name) (backends d)))) (\<lambda>rows.
     bindE (liftE rows) (\<lambda>existing. ret (existing \<noteq> None)))"

text \<open>\<open>is_default = False\<close> on every default row, but for the one with an identifier.\<close>

definition clear_default_backends :: "uuid option \<Rightarrow> db \<Rightarrow> db" where
  "clear_default_backends keep d = d\<lparr>backends := upd_where (\<lambda>b. b_is_default b \<and> keep \<noteq> Some (b_id b))
     (\<lambda>b. b\<lparr>b_is_default := False\<rparr>) (backends d)\<rparr>"

definition create_backend :: "admin_env \<Rightarrow> timestamp \<Rightarrow> backend_create \<Rightarrow> ('r, json) act" where
  "create_backend env now q =
     bindE (backend_name_taken (bc_name q)) (\<lambda>taken.
     if taken then raise (http_error 409 ''backend name already exists'')
     else seqE (if bc_is_default q then update (clear_default_backends None) else ret ())
       (bindE fresh_id (\<lambda>bid.
        let b = created_backend now bid q in
        seqE (update (\<lambda>d. d\<lparr>backends := backends d @ [b]\<rparr>)) (seqE commit (ret (JObj (backend_fields env b)))))))"

datatype backend_field =
    Backend_name "string option"
  | Backend_provider "string option"
  | Backend_url "string option"
  | Backend_healthcheck_path "string option"
  | Backend_is_active "bool option"
  | Backend_is_default "bool option"
  | Backend_status "string option"
  | Backend_max_parallel_requests "int option"
  | Backend_metadata_json "jtext option"

fun valid_backend_field :: "backend_field \<Rightarrow> bool" where
  "valid_backend_field (Backend_name (Some s)) = long_between 2 120 s"
| "valid_backend_field (Backend_provider (Some s)) = (s \<in> set SUPPORTED_BACKENDS)"
| "valid_backend_field (Backend_url (Some s)) = long_between 8 255 s"
| "valid_backend_field (Backend_healthcheck_path (Some s)) = long_between 1 64 s"
| "valid_backend_field (Backend_status (Some s)) = long_between 2 32 s"
| "valid_backend_field (Backend_max_parallel_requests (Some n)) = between 1 64 n"
| "valid_backend_field _ = True"

fun set_backend_field :: "backend_field \<Rightarrow> backend \<Rightarrow> backend option" where
  "set_backend_field (Backend_name x) b = map_option (\<lambda>s. b\<lparr>b_name := s\<rparr>) x"
| "set_backend_field (Backend_provider x) b = map_option (\<lambda>s. b\<lparr>b_provider := s\<rparr>) x"
| "set_backend_field (Backend_url x) b = map_option (\<lambda>s. b\<lparr>b_backend_url := s\<rparr>) x"
| "set_backend_field (Backend_healthcheck_path x) b = map_option (\<lambda>s. b\<lparr>b_healthcheck_path := s\<rparr>) x"
| "set_backend_field (Backend_is_active x) b = map_option (\<lambda>v. b\<lparr>b_is_active := v\<rparr>) x"
| "set_backend_field (Backend_is_default x) b = map_option (\<lambda>v. b\<lparr>b_is_default := v\<rparr>) x"
| "set_backend_field (Backend_status x) b = map_option (\<lambda>s. b\<lparr>b_status := s\<rparr>) x"
| "set_backend_field (Backend_max_parallel_requests x) b = map_option (\<lambda>n. b\<lparr>b_max_parallel_requests := n\<rparr>) x"
| "set_backend_field (Backend_metadata_json x) b = Some (b\<lparr>b_metadata_json := x\<rparr>)"

text \<open>The \<open>setattr\<close> loop over a patch; a null in a column that cannot hold one is refused by the database.\<close>

fun set_fields :: "('p \<Rightarrow> 'a \<Rightarrow> 'a option) \<Rightarrow> 'p list \<Rightarrow> 'a \<Rightarrow> 'a option" where
  "set_fields set_one [] row = Some row"
| "set_fields set_one (x # xs) row = Option.bind (set_one x row) (set_fields set_one xs)"

definition renamed_to :: "backend \<Rightarrow> backend_field list \<Rightarrow> string list" where
  "renamed_to b patch = concat (map (\<lambda>x. case x of Backend_name (Some s) \<Rightarrow> if s \<noteq> b_name b then [s] else [] | _ \<Rightarrow> []) patch)"

definition the_backend_row :: "uuid \<Rightarrow> ('r, backend) act" where
  "the_backend_row bid = bindE (query (\<lambda>d. backend_of d bid)) (\<lambda>found. case found of
       None \<Rightarrow> raise (http_error 404 ''backend not found'')
     | Some b \<Rightarrow> ret b)"

definition set_backend :: "uuid \<Rightarrow> (backend \<Rightarrow> backend) \<Rightarrow> db \<Rightarrow> db" where
  "set_backend bid f d = d\<lparr>backends := upd_where (\<lambda>b. b_id b = bid) f (backends d)\<rparr>"

definition patch_backend :: "admin_env \<Rightarrow> timestamp \<Rightarrow> uuid \<Rightarrow> backend_field list \<Rightarrow> ('r, json) act" where
  "patch_backend env now bid patch =
     bindE (the_backend_row bid) (\<lambda>b.
     bindE (forE (renamed_to b patch) backend_name_taken) (\<lambda>taken.
     if True \<in> set taken then raise (http_error 409 ''backend name already exists'')
     else seqE (if Backend_is_default (Some True) \<in> set patch then update (clear_default_backends (Some bid)) else ret ())
       (case set_fields set_backend_field patch b of
          None \<Rightarrow> raise (IntegrityError ''inference_backends'')
        | Some b' \<Rightarrow>
            seqE (update (set_backend bid (\<lambda>_. b'\<lparr>b_updated_at := now\<rparr>)))
              (seqE commit (ret (JObj (backend_fields env b')))))))"

section \<open>Health, logs and containers\<close>

definition backend_health :: "admin_env \<Rightarrow> uuid \<Rightarrow> ('r, json) act" where
  "backend_health env bid =
     bindE (the_backend_row bid) (\<lambda>b.
     bindE (liftE (serialize_backend_admin env b (backend_health_now env b))) (\<lambda>item.
     bindE (liftE (backend_container_snapshot (ae_rp env) (ae_settings env) (ae_host env) b)) (\<lambda>docker.
     ret (JObj [(''backend'', item), (''docker'', docker)]))))"

text \<open>\<open>s[-n:]\<close>.\<close>

definition last_chars :: "nat \<Rightarrow> string \<Rightarrow> string" where
  "last_chars n s = drop (length s - n) s"

definition backend_logs :: "admin_env \<Rightarrow> uuid \<Rightarrow> int \<Rightarrow> ('r, json) act" where
  "backend_logs env bid tail =
     bindE (the_backend_row bid) (\<lambda>b. case backend_service_name b of
       None \<Rightarrow> raise (http_error 409 ''backend is not mapped to a compose service'')
     | Some service \<Rightarrow>
         let result = run_backend_docker_command (ae_settings env) (ae_host env) b [''logs'', ''--tail'', str_int tail, service] 30 in
         if \<not> dk_ok result then raise (http_error 409
           (first_text [or_empty (dk_detail result), dk_stderr result, ''backend logs unavailable'']))
         else ret (JObj [(''backend_id'', JStr (uuid_str (b_id b))), (''backend_name'', JStr (b_name b)),
           (''service_name'', JStr service), (''tail'', JInt tail), (''logs'', JStr (last_chars 20000 (dk_stdout result)))]))"

datatype backend_action = Start | Stop | Restart

fun action_name :: "backend_action \<Rightarrow> string" where
  "action_name Start = ''start''"
| "action_name Stop = ''stop''"
| "action_name Restart = ''restart''"

fun action_command :: "backend_action \<Rightarrow> string \<Rightarrow> string list" where
  "action_command Start service = [''up'', ''-d'', service]"
| "action_command Stop service = [''stop'', service]"
| "action_command Restart service = [''restart'', service]"

fun action_status :: "backend_action \<Rightarrow> string" where
  "action_status Start = ''starting''"
| "action_status Stop = ''stopped''"
| "action_status Restart = ''restarting''"

definition blocked_detail :: "settings \<Rightarrow> string" where
  "blocked_detail cfg =
     (if public_exposure cfg then ''backend docker action blocked when PUBLIC_EXPOSURE=true''
      else if \<not> test_tools_enabled cfg then ''backend docker action blocked when TEST_TOOLS_ENABLED=false''
      else ''docker actions disabled'')"

definition admin_event :: "string \<Rightarrow> string \<Rightarrow> string \<Rightarrow> dict \<Rightarrow> event_data" where
  "admin_event type severity title details = \<lparr>ev_type = type, ev_severity = severity, ev_title = title,
     ev_client_id = None, ev_source_ip = None, ev_api_key_prefix = None, ev_details = details\<rparr>"

definition run_backend_action :: "admin_env \<Rightarrow> timestamp \<Rightarrow> uuid \<Rightarrow> backend_action \<Rightarrow> ('r, json) act" where
  "run_backend_action env now bid action =
     bindE (the_backend_row bid) (\<lambda>b.
     if \<not> docker_actions_allowed (ae_settings env) (ae_host env) b
     then raise (http_error 403 (blocked_detail (ae_settings env)))
     else case backend_service_name b of
       None \<Rightarrow> raise (http_error 409 ''backend is not mapped to a compose service'')
     | Some service \<Rightarrow>
         let result = run_backend_docker_command (ae_settings env) (ae_host env) b (action_command action service) 120 in
         if \<not> dk_ok result then raise (http_error 409
           (first_text [or_empty (dk_detail result), dk_stderr result, ''docker action failed'']))
         else
           seqE (update (set_backend bid (\<lambda>b. b\<lparr>b_status := action_status action, b_is_active := (action \<noteq> Stop),
             b_updated_at := now\<rparr>)))
           (seqE (log_security_event now (admin_event (''admin_backend_'' @ action_name action) ''high''
             (''Backend '' @ action_name action @ '' triggered via Admin Lab'')
             [(''backend_name'', JStr (b_name b)), (''service_name'', JStr service)]))
           (seqE commit
           (ret (JObj [(''status'', JStr (action_name action)), (''backend_id'', JStr (uuid_str (b_id b))),
             (''backend_name'', JStr (b_name b)), (''service_name'', JStr service),
             (''docker_stdout'', JStr (last_chars 4000 (dk_stdout result))),
             (''docker_stderr'', JStr (last_chars 2000 (dk_stderr result)))])))))"

definition start_backend :: "admin_env \<Rightarrow> timestamp \<Rightarrow> uuid \<Rightarrow> ('r, json) act" where
  "start_backend env now bid = run_backend_action env now bid Start"

definition stop_backend :: "admin_env \<Rightarrow> timestamp \<Rightarrow> uuid \<Rightarrow> ('r, json) act" where
  "stop_backend env now bid = run_backend_action env now bid Stop"

definition restart_backend :: "admin_env \<Rightarrow> timestamp \<Rightarrow> uuid \<Rightarrow> ('r, json) act" where
  "restart_backend env now bid = run_backend_action env now bid Restart"

definition reset_backend_circuit_breaker :: "timestamp \<Rightarrow> ('r, json) act" where
  "reset_backend_circuit_breaker now = seqE (on_breaker (modifyE reset))
     (ret (JObj [(''status'', JStr ''ok''), (''detail'', JStr ''circuit breaker reset''), (''reset_at'', jtime now),
       (''scope'', JStr ''in-memory control-plane process'')]))"

definition list_generation_jobs :: "'r env \<Rightarrow> ('r, json) act" where
  "list_generation_jobs env = get_admin_job_snapshot env"

definition backends_health :: "admin_env \<Rightarrow> timestamp \<Rightarrow> db \<Rightarrow> json" where
  "backends_health env now d = JObj [(''generated_at'', jtime now),
     (''backends'', JArr (map (backend_health_now env) (backends_by_age d)))]"

section \<open>Routes\<close>

datatype route_field =
    Route_priority "int option"
  | Route_weight "int option"
  | Route_state "string option"

definition valid_state :: "string \<Rightarrow> bool" where
  "valid_state s = (s \<in> {''healthy'', ''degraded'', ''unhealthy'', ''disabled''})"

fun valid_route_field :: "route_field \<Rightarrow> bool" where
  "valid_route_field (Route_priority (Some n)) = between 1 10000 n"
| "valid_route_field (Route_weight (Some n)) = between 1 10000 n"
| "valid_route_field (Route_state (Some s)) = valid_state s"
| "valid_route_field _ = True"

fun set_route_field :: "route_field \<Rightarrow> route \<Rightarrow> route option" where
  "set_route_field (Route_priority x) r = map_option (\<lambda>n. r\<lparr>r_priority := n\<rparr>) x"
| "set_route_field (Route_weight x) r = map_option (\<lambda>n. r\<lparr>r_weight := n\<rparr>) x"
| "set_route_field (Route_state x) r = map_option (\<lambda>s. r\<lparr>r_state := s\<rparr>) x"

definition the_route :: "uuid \<Rightarrow> uuid \<Rightarrow> ('r, route) act" where
  "the_route mid bid =
     bindE (query (\<lambda>d. filter (route_between mid bid) (routes d))) (\<lambda>rows.
     bindE (liftE (scalar_one_or_none rows)) (\<lambda>found. case found of
       None \<Rightarrow> raise (http_error 404 ''model backend route not found'')
     | Some r \<Rightarrow> ret r))"

definition patch_model_backend_route :: "timestamp \<Rightarrow> uuid \<Rightarrow> uuid \<Rightarrow> route_field list \<Rightarrow> ('r, json) act" where
  "patch_model_backend_route now mid bid patch =
     bindE (the_route mid bid) (\<lambda>r. case set_fields set_route_field patch r of
       None \<Rightarrow> raise (IntegrityError ''model_backend_routes'')
     | Some r' \<Rightarrow>
         seqE (update (\<lambda>d. d\<lparr>routes := upd_where (route_between mid bid) (\<lambda>_. r'\<lparr>r_updated_at := now\<rparr>) (routes d)\<rparr>))
         (seqE commit (ret (JObj [(''id'', jopt (\<lambda>u. JStr (uuid_str u)) (r_id r')),
           (''model_id'', JStr (uuid_str mid)), (''backend_id'', JStr (uuid_str bid)),
           (''priority'', JInt (r_priority r')), (''weight'', JInt (r_weight r')), (''state'', JStr (r_state r')),
           (''updated_at'', jtime now)]))))"

text \<open>The table of routes the operator sees, with the health of the backends and the count of routes by state.\<close>

definition routes_shown :: "db \<Rightarrow> model \<Rightarrow> (route \<times> backend) list" where
  "routes_shown d m = concat (map (\<lambda>r. case backend_of d (r_inference_backend_id r) of None \<Rightarrow> [] | Some b \<Rightarrow> [(r, b)])
     (sort_key (\<lambda>r. (r_priority r, - r_weight r, r_created_at r)) (model_routes d m)))"

definition eligible_for_routing :: "route \<Rightarrow> backend \<Rightarrow> bool" where
  "eligible_for_routing r b = (b_is_active b \<and> r_state r \<noteq> ''disabled'')"

definition route_row :: "admin_env \<Rightarrow> db \<Rightarrow> route \<times> backend \<Rightarrow> json" where
  "route_row env d rb = (case rb of (r, b) \<Rightarrow>
     let health_row = (if b \<in> set (backends d) then backend_health_now env b else JObj []);
         shown = (\<lambda>k. case health_row of JObj h \<Rightarrow> dict_get_or_null h k | _ \<Rightarrow> JNull) in
     JObj [(''route_id'', jopt (\<lambda>u. JStr (uuid_str u)) (r_id r)), (''backend_id'', JStr (uuid_str (b_id b))),
       (''backend_name'', JStr (b_name b)), (''backend_url'', JStr (b_backend_url b)), (''provider'', JStr (b_provider b)),
       (''priority'', JInt (r_priority r)), (''weight'', JInt (r_weight r)), (''state'', JStr (r_state r)),
       (''health'', shown ''ok''), (''latency_ms'', shown ''latency_ms''), (''backend_is_active'', JBool (b_is_active b)),
       (''backend_status'', JStr (b_status b)), (''is_test_backend'', JBool (is_test_backend b)),
       (''eligible_for_routing'', JBool (eligible_for_routing r b))])"

fun count_state :: "(string \<times> int) list \<Rightarrow> string \<Rightarrow> (string \<times> int) list" where
  "count_state [] s = [(s, 1)]"
| "count_state ((k, n) # rest) s = (if k = s then (k, n + 1) # rest else (k, n) # count_state rest s)"

definition routing_summary :: "db \<Rightarrow> model list \<Rightarrow> (string \<times> int) list" where
  "routing_summary d ms = foldl count_state [(''healthy'', 0), (''degraded'', 0), (''unhealthy'', 0), (''disabled'', 0)]
     (concat (map (\<lambda>m. map (\<lambda>(r, b). r_state r) (routes_shown d m)) ms))"

definition backends_routing :: "admin_env \<Rightarrow> timestamp \<Rightarrow> db \<Rightarrow> json" where
  "backends_routing env now d =
     (let ms = sort_key m_created_at (models d) in
      JObj [(''generated_at'', jtime now),
        (''summary'', JObj (map (\<lambda>(s, n). (s, JInt n)) (routing_summary d ms))),
        (''models'', JArr (map (\<lambda>m. JObj [(''id'', JStr (uuid_str (m_id m))), (''model_id'', JStr (m_model_id m)),
           (''model_alias'', jopt JStr (m_model_alias m)), (''is_default'', JBool (m_is_default m)),
           (''routing_policy'', JStr ''weighted_priority_fallback''),
           (''routes'', JArr (map (route_row env d) (routes_shown d m)))]) ms))])"

section \<open>Local test tools\<close>

definition WHITELISTED_COMMANDS :: "(string \<times> string \<times> string \<times> string) list" where
  "WHITELISTED_COMMANDS = [
     (''health-full'', ''Health full'', ''Run full system health validation'', ''./scripts/validate-system-health.sh --full''),
     (''local-smoke'', ''Local production smoke'', ''Run local production smoke tests'', ''./scripts/local-production-smoke.sh''),
     (''ui-health'', ''UI health'', ''Check UI health'', ''./scripts/ui-health.sh''),
     (''validate-e2e'', ''Validate E2E'', ''Run full E2E validation'', ''./scripts/validate-e2e.sh''),
     (''backup'', ''Backup'', ''Trigger system backup'', ''./scripts/backup.sh''),
     (''dr-test'', ''DR test'', ''Run Disaster Recovery test'', ''./scripts/dr-test.sh''),
     (''benchmark'', ''Benchmark quick'', ''Run quick benchmark'', ''./scripts/benchmark.sh --quick''),
     (''test-bonsai'', ''Bonsai test'', ''Test Bonsai backend'', ''./scripts/test-bonsai.sh''),
     (''test-fallback'', ''Real fallback test'', ''Test real-world fallback routing'', ''./scripts/test-real-fallback.sh'')]"

definition test_tools_off :: "settings \<Rightarrow> bool" where
  "test_tools_off cfg = (\<not> test_tools_enabled cfg \<or> public_exposure cfg)"

definition reset_client_usage :: "settings \<Rightarrow> uuid \<Rightarrow> ('r, json) act" where
  "reset_client_usage cfg cid =
     (if test_tools_off cfg then raise (http_error 403 ''test tools disabled'')
      else bindE (the_client cid) (\<lambda>_.
        seqE (update (\<lambda>d. d\<lparr>quota_counters := filter (\<lambda>q. q_client_id q \<noteq> cid) (quota_counters d),
          usage_records := filter (\<lambda>u. u_client_id u \<noteq> cid) (usage_records d)\<rparr>))
        (seqE commit (ret (JObj [(''status'', JStr ''reset''), (''client_id'', JStr (uuid_str cid))])))))"

definition list_test_commands :: "settings \<Rightarrow> ('r, json) act" where
  "list_test_commands cfg =
     (if test_tools_off cfg then raise (http_error 403 ''test tools disabled'')
      else ret (JArr (map (\<lambda>(k, name, description, command). JObj [(''id'', JStr k), (''name'', JStr name),
        (''description'', JStr description), (''command'', JStr command)]) WHITELISTED_COMMANDS)))"

text \<open>What running a command line in a shell comes to: it ends, it is stopped after a minute, or it cannot run.\<close>

datatype shell_outcome =
    Ran int string string
  | Stopped "string option" "string option"
  | Failed string

fun run_response :: "shell_outcome \<Rightarrow> dict" where
  "run_response (Ran code out err) = [(''status'', JStr (if code = 0 then ''completed'' else ''failed'')),
     (''stdout'', JStr out), (''stderr'', JStr err), (''exit_code'', JInt code)]"
| "run_response (Stopped out err) = [(''status'', JStr ''timeout''), (''stdout'', JStr (or_empty out)),
     (''stderr'', JStr (if or_empty err = [] then ''Timeout after 60s'' else or_empty err)), (''exit_code'', JInt 124)]"
| "run_response (Failed message) = [(''status'', JStr ''error''), (''stdout'', JNull), (''stderr'', JStr message),
     (''exit_code'', JInt 1)]"

definition run_test_command ::
  "settings \<Rightarrow> (string \<Rightarrow> shell_outcome) \<Rightarrow> rat \<Rightarrow> timestamp \<Rightarrow> string \<Rightarrow> string \<Rightarrow> ('r, json) act" where
  "run_test_command cfg shell duration now run_id command_id =
     (if test_tools_off cfg then raise (http_error 403 ''test tools disabled'')
      else case map_of WHITELISTED_COMMANDS command_id of
        None \<Rightarrow> raise (http_error 404 ''command not found'')
      | Some (name, description, command) \<Rightarrow>
          ret (JObj ([(''run_id'', JStr run_id), (''command_id'', JStr command_id)] @ run_response (shell command) @
            [(''duration_seconds'', JFloat duration), (''created_at'', jtime now)])))"

end
