(* ===== verification/AdminModels.thy ===== *)
theory AdminModels
  imports AdminBackends
begin

text \<open>
  The operator's handlers for models and their routes (\<open>api/admin.py\<close>, the requests of
  \<open>schemas/admin.py\<close>): registering, changing, disabling and deleting a model, the default model, and
  trying a model out.
\<close>

section \<open>Serialisation\<close>

definition serialize_model_admin :: "admin_env \<Rightarrow> db \<Rightarrow> (uuid \<Rightarrow> json) \<Rightarrow> model \<Rightarrow> json" where
  "serialize_model_admin env d health_map m =
     JObj [(''id'', JStr (uuid_str (m_id m))), (''display_name'', JStr (display_name_for_model m)),
       (''model_id'', JStr (m_model_id m)), (''model_alias'', jopt JStr (m_model_alias m)),
       (''inference_backend_id'', jopt (\<lambda>u. JStr (uuid_str u)) (m_inference_backend_id m)),
       (''backend_name'', jopt (\<lambda>b. JStr (b_name b)) (model_backend d m)),
       (''backend_url'', jopt (\<lambda>b. JStr (b_backend_url b)) (model_backend d m)),
       (''provider'', JStr (m_provider m)), (''model_file'', JStr (m_model_file m)), (''status'', JStr (m_status m)),
       (''is_active'', JBool (m_is_active m)), (''is_default'', JBool (m_is_default m)),
       (''context_length'', JInt (m_context_length m)), (''prompt_template'', jopt JStr (m_prompt_template m)),
       (''architecture'', jopt JStr (architecture_for_model m)),
       (''quantization'', jopt JStr (detect_quantization (m_model_file m))),
       (''allow_reasoning'', reasoning_default ''allow_reasoning'' m),
       (''include_reasoning_default'', reasoning_default ''include_reasoning_default'' m),
       (''metadata_json'', jopt (\<lambda>t. JStr (ae_text env t)) (m_metadata_json m)),
       (''metadata'', JObj (parse_metadata (m_metadata_json m))),
       (''routes'', serialize_routing_table (ae_pick env) d m),
       (''backend_health'', (case m_inference_backend_id m of None \<Rightarrow> JNull | Some bid \<Rightarrow> health_map bid)),
       (''created_at'', jtime (m_created_at m)), (''updated_at'', jtime (m_updated_at m))]"

text \<open>The end of the handlers that answer with a model: it is read again and serialised.\<close>

definition answer_model :: "admin_env \<Rightarrow> uuid \<Rightarrow> string \<Rightarrow> ('r, json) act" where
  "answer_model env mid gone =
     bindE (query (\<lambda>d. (d, get_model_by_id d mid))) (\<lambda>(d, found). case found of
       None \<Rightarrow> raise (http_error 404 gone)
     | Some m \<Rightarrow> ret (serialize_model_admin env d (\<lambda>_. JNull) m))"

definition the_model :: "uuid \<Rightarrow> ('r, model) act" where
  "the_model mid = bindE (query (\<lambda>d. get_model_by_id d mid)) (\<lambda>found. case found of
       None \<Rightarrow> raise (http_error 404 ''model not found'')
     | Some m \<Rightarrow> ret m)"

definition set_model :: "uuid \<Rightarrow> (model \<Rightarrow> model) \<Rightarrow> db \<Rightarrow> db" where
  "set_model mid f d = d\<lparr>models := upd_where (\<lambda>m. m_id m = mid) f (models d)\<rparr>"

text \<open>\<open>is_default = False\<close> on every default row, but for the one with an identifier.\<close>

definition clear_default_models :: "uuid option \<Rightarrow> db \<Rightarrow> db" where
  "clear_default_models keep d = d\<lparr>models := upd_where (\<lambda>m. m_is_default m \<and> keep \<noteq> Some (m_id m))
     (\<lambda>m. m\<lparr>m_is_default := False\<rparr>) (models d)\<rparr>"

section \<open>Listing\<close>

definition backend_health_map :: "admin_env \<Rightarrow> db \<Rightarrow> uuid \<Rightarrow> json" where
  "backend_health_map env d bid = (case backend_of d bid of None \<Rightarrow> JNull | Some b \<Rightarrow> backend_health_now env b)"

definition get_models :: "admin_env \<Rightarrow> timestamp \<Rightarrow> ('r, json) act" where
  "get_models env now =
     seqE (ensure_default_backends (ae_settings env) now)
     (bindE (query (\<lambda>d. d)) (\<lambda>d.
      bindE (liftE (mapS (\<lambda>b. serialize_backend_admin env b (backend_health_map env d (b_id b))) (backends_by_age d))) (\<lambda>items.
      ret (JObj [
        (''registry'', JArr (map (serialize_model_admin env d (backend_health_map env d))
           (filter (\<lambda>m. m_status m \<noteq> ''soft-deleted'') (newest_first m_created_at (models d))))),
        (''plan_access'', JArr (map (\<lambda>p. JObj [(''billing_plan_id'', JStr (uuid_str (p_id p))),
           (''billing_plan_code'', JStr (p_code p)),
           (''allowed_models_json'', jopt (\<lambda>t. JStr (ae_text env t)) (p_allowed_models_json p))])
           (sort_key p_created_at (billing_plans d)))),
        (''backends'', JArr items)]))))"

definition get_model_files :: "admin_env \<Rightarrow> db \<Rightarrow> json" where
  "get_model_files env d = JObj [(''models_dir'', JStr (md_path (ae_dir env))),
     (''files'', JArr (list_model_files (ae_dir env) d))]"

section \<open>The routes of a model\<close>

record route_input =
  ri_backend :: uuid
  ri_priority :: int
  ri_weight :: int
  ri_state :: string

definition valid_route_input :: "route_input \<Rightarrow> bool" where
  "valid_route_input x = (between 1 10000 (ri_priority x) \<and> between 1 10000 (ri_weight x) \<and> valid_state (ri_state x))"

definition created_route :: "timestamp \<Rightarrow> uuid \<Rightarrow> uuid \<Rightarrow> route_input \<Rightarrow> route" where
  "created_route now rid mid x = \<lparr>r_id = Some rid, r_model_registry_id = mid, r_inference_backend_id = ri_backend x,
     r_priority = ri_priority x, r_weight = ri_weight x, r_state = ri_state x, r_created_at = now, r_updated_at = now\<rparr>"

definition rewrite_route :: "timestamp \<Rightarrow> route_input \<Rightarrow> route \<Rightarrow> route" where
  "rewrite_route now x r = r\<lparr>r_priority := ri_priority x, r_weight := ri_weight x, r_state := ri_state x, r_updated_at := now\<rparr>"

text \<open>One entry of the payload; \<open>existing\<close> are the backends the model had routes to when the handler began.\<close>

definition sync_route :: "timestamp \<Rightarrow> uuid \<Rightarrow> uuid list \<Rightarrow> route_input \<Rightarrow> ('r, unit) act" where
  "sync_route now mid existing x =
     seqE (the_backend_row (ri_backend x))
     (if ri_backend x \<in> set existing
      then update (\<lambda>d. d\<lparr>routes := upd_where (route_between mid (ri_backend x)) (rewrite_route now x) (routes d)\<rparr>)
      else bindE fresh_id (\<lambda>rid. update (\<lambda>d. d\<lparr>routes := routes d @ [created_route now rid mid x]\<rparr>)))"

text \<open>No two routes join the same model and backend: the constraint speaks when the rows are flushed.\<close>

definition route_ends :: "route \<Rightarrow> uuid \<times> uuid" where
  "route_ends r = (r_model_registry_id r, r_inference_backend_id r)"

definition flush_routes :: "('r, unit) act" where
  "flush_routes = bindE (query (\<lambda>d. distinct (map route_ends (routes d)))) (\<lambda>unique.
     if unique then ret () else raise (IntegrityError ''uq_model_backend_route''))"

definition sync_model_backend_routes :: "timestamp \<Rightarrow> uuid \<Rightarrow> route_input list \<Rightarrow> ('r, unit) act" where
  "sync_model_backend_routes now mid payload =
     bindE (query (\<lambda>d. map r_inference_backend_id (filter (\<lambda>r. r_model_registry_id r = mid) (routes d)))) (\<lambda>existing.
     seqE (forE payload (sync_route now mid existing))
     (seqE (update (\<lambda>d. d\<lparr>routes := filter (\<lambda>r. \<not> (r_model_registry_id r = mid \<and>
         r_inference_backend_id r \<in> set existing - ri_backend ` set payload)) (routes d)\<rparr>))
       flush_routes))"

definition as_input :: "route \<Rightarrow> route_input" where
  "as_input r = \<lparr>ri_backend = r_inference_backend_id r, ri_priority = r_priority r, ri_weight = r_weight r,
     ri_state = r_state r\<rparr>"

definition default_input :: "uuid \<Rightarrow> route_input" where
  "default_input bid = \<lparr>ri_backend = bid, ri_priority = 1, ri_weight = 100, ri_state = ''healthy''\<rparr>"

section \<open>Registering a model\<close>

record model_create =
  mc_display_name :: "string option"
  mc_model_id :: string
  mc_model_alias :: "string option"
  mc_inference_backend_id :: "uuid option"
  mc_provider :: string
  mc_model_file :: string
  mc_context_length :: int
  mc_is_active :: bool
  mc_is_default :: bool
  mc_status :: string
  mc_prompt_template :: "string option"
  mc_allow_reasoning :: "bool option"
  mc_include_reasoning_default :: "bool option"
  mc_allowed_plan_codes :: "string list option"
  mc_create_backend :: "backend_create option"
  mc_metadata_json :: "jtext option"
  mc_backend_routes :: "route_input list"

definition long_opt :: "nat \<Rightarrow> nat \<Rightarrow> string option \<Rightarrow> bool" where
  "long_opt lo hi x = (case x of None \<Rightarrow> True | Some s \<Rightarrow> long_between lo hi s)"

definition valid_model_create :: "model_create \<Rightarrow> bool" where
  "valid_model_create q = (long_opt 1 160 (mc_display_name q) \<and> long_between 1 255 (mc_model_id q) \<and>
     long_opt 1 128 (mc_model_alias q) \<and> mc_provider q \<in> set SUPPORTED_BACKENDS \<and> long_between 1 255 (mc_model_file q) \<and>
     between 512 131072 (mc_context_length q) \<and> long_between 2 32 (mc_status q) \<and> at_most 10000 (mc_prompt_template q) \<and>
     (case mc_create_backend q of None \<Rightarrow> True | Some b \<Rightarrow> valid_backend_create b) \<and>
     (\<forall>x\<in>set (mc_backend_routes q). valid_route_input x))"

definition file_error :: "exc \<Rightarrow> exc" where
  "file_error e = (case e of ValueError s \<Rightarrow> http_error 400 s | FileNotFoundError s \<Rightarrow> http_error 404 s | _ \<Rightarrow> e)"

text \<open>The accepted file name; the files of llama.cpp must be there.\<close>

definition checked_model_file :: "admin_env \<Rightarrow> string \<Rightarrow> string \<Rightarrow> exc + string" where
  "checked_model_file env file provider =
     (case bindS (sanitize_model_filename file provider) (\<lambda>name.
        if provider = ''llama.cpp'' then bindS (ensure_model_file_exists (ae_dir env) name provider) (\<lambda>_. Inr name)
        else Inr name) of
        Inl e \<Rightarrow> Inl (file_error e) | Inr name \<Rightarrow> Inr name)"

definition create_model_backend :: "timestamp \<Rightarrow> model_create \<Rightarrow> ('r, uuid option) act" where
  "create_model_backend now q = (case mc_create_backend q of
       None \<Rightarrow> ret (mc_inference_backend_id q)
     | Some bq \<Rightarrow>
         bindE (backend_name_taken (bc_name bq)) (\<lambda>taken.
         if taken then raise (http_error 409 ''backend name already exists'')
         else bindE fresh_id (\<lambda>bid.
           seqE (update (\<lambda>d. d\<lparr>backends := backends d @ [created_backend now bid bq]\<rparr>)) (ret (Some bid)))))"

definition backend_must_exist :: "uuid option \<Rightarrow> ('r, unit) act" where
  "backend_must_exist x = (case x of None \<Rightarrow> ret () | Some bid \<Rightarrow> seqE (the_backend_row bid) (ret ()))"

definition model_name_taken :: "(model \<Rightarrow> bool) \<Rightarrow> ('r, bool) act" where
  "model_name_taken clashes =
     bindE (query (\<lambda>d. scalar_one_or_none (filter clashes (models d)))) (\<lambda>rows.
     bindE (liftE rows) (\<lambda>existing. ret (existing \<noteq> None)))"

definition same_name :: "model_create \<Rightarrow> model \<Rightarrow> bool" where
  "same_name q m = (m_model_id m = mc_model_id q \<or> (or_empty (mc_model_alias q) \<noteq> [] \<and> m_model_alias m = mc_model_alias q))"

definition created_metadata :: "model_create \<Rightarrow> jtext" where
  "created_metadata q = merge_metadata (mc_metadata_json q) [(''display_name'', jopt JStr (mc_display_name q)),
     (''allow_reasoning'', jopt JBool (mc_allow_reasoning q)),
     (''include_reasoning_default'', jopt JBool (mc_include_reasoning_default q))]"

definition created_model :: "timestamp \<Rightarrow> uuid \<Rightarrow> uuid option \<Rightarrow> string \<Rightarrow> model_create \<Rightarrow> model" where
  "created_model now mid bid file q = \<lparr>m_id = mid, m_model_id = mc_model_id q, m_model_alias = mc_model_alias q,
     m_inference_backend_id = bid, m_provider = mc_provider q, m_model_file = file,
     m_context_length = mc_context_length q, m_is_active = mc_is_active q, m_is_default = mc_is_default q,
     m_status = mc_status q,
     m_prompt_template = Some (prompt_template_for_payload (mc_prompt_template q) (mc_model_id q) file
        (mc_model_alias q) (Some (created_metadata q))),
     m_metadata_json = Some (created_metadata q), m_created_at = now, m_updated_at = now\<rparr>"

definition sync_plans_or_400 :: "admin_env \<Rightarrow> timestamp \<Rightarrow> model \<Rightarrow> string list option \<Rightarrow> ('r, unit) act" where
  "sync_plans_or_400 env now m codes = catchE (sync_allowed_plans (ae_rp env) now m codes)
     (\<lambda>e. case e of ValueError s \<Rightarrow> raise (http_error 400 s) | _ \<Rightarrow> raise e)"

definition route_inputs :: "model_create \<Rightarrow> uuid option \<Rightarrow> route_input list" where
  "route_inputs q bid = (if mc_backend_routes q = [] then (case bid of None \<Rightarrow> [] | Some b \<Rightarrow> [default_input b])
     else mc_backend_routes q)"

text \<open>The handler from the insertion of the row to the answer.\<close>

definition insert_model :: "admin_env \<Rightarrow> timestamp \<Rightarrow> model_create \<Rightarrow> uuid option \<Rightarrow> string \<Rightarrow> ('r, json) act" where
  "insert_model env now q bid filename =
     bindE fresh_id (\<lambda>mid.
     let m = created_model now mid bid filename q in
     seqE (update (\<lambda>d. d\<lparr>models := models d @ [m]\<rparr>))
     (seqE (if route_inputs q bid \<noteq> [] then sync_model_backend_routes now mid (route_inputs q bid) else ret ())
     (seqE (sync_plans_or_400 env now m (mc_allowed_plan_codes q))
     (seqE (log_security_event now (admin_event ''admin_model_created'' ''medium'' ''Model created via Admin Lab''
        [(''model_id'', JStr (m_model_id m)), (''model_alias'', jopt JStr (m_model_alias m)),
         (''provider'', JStr (m_provider m))]))
     (seqE commit (answer_model env mid ''model not found after create''))))))"

definition create_model :: "admin_env \<Rightarrow> timestamp \<Rightarrow> model_create \<Rightarrow> ('r, json) act" where
  "create_model env now q =
     (if mc_inference_backend_id q \<noteq> None \<and> mc_create_backend q \<noteq> None
      then raise (http_error 409 ''choose an existing backend or create a new one'')
      else bindE (create_model_backend now q) (\<lambda>bid.
        seqE (backend_must_exist bid)
        (bindE (liftE (checked_model_file env (mc_model_file q) (mc_provider q))) (\<lambda>filename.
         bindE (model_name_taken (same_name q)) (\<lambda>taken.
         if taken then raise (http_error 409 ''model id or alias already exists'')
         else seqE (if mc_is_default q then update (clear_default_models None) else ret ())
           (insert_model env now q bid filename))))))"

section \<open>Changing a model\<close>

text \<open>A field is absent, null or set.\<close>

record model_patch =
  mp_display_name :: "string option option"
  mp_model_alias :: "string option option"
  mp_inference_backend_id :: "uuid option option"
  mp_provider :: "string option option"
  mp_model_file :: "string option option"
  mp_context_length :: "int option option"
  mp_is_default :: "bool option option"
  mp_is_active :: "bool option option"
  mp_status :: "string option option"
  mp_prompt_template :: "string option option"
  mp_allow_reasoning :: "bool option option"
  mp_include_reasoning_default :: "bool option option"
  mp_allowed_plan_codes :: "string list option"
  mp_metadata_json :: "jtext option option"
  mp_backend_routes :: "route_input list option"

definition patch_ok :: "('a \<Rightarrow> bool) \<Rightarrow> 'a option option \<Rightarrow> bool" where
  "patch_ok P x = (case x of Some (Some v) \<Rightarrow> P v | _ \<Rightarrow> True)"

definition valid_model_patch :: "model_patch \<Rightarrow> bool" where
  "valid_model_patch p = (patch_ok (long_between 1 160) (mp_display_name p) \<and> patch_ok (long_between 1 128) (mp_model_alias p) \<and>
     patch_ok (\<lambda>s. s \<in> set SUPPORTED_BACKENDS) (mp_provider p) \<and> patch_ok (long_between 1 255) (mp_model_file p) \<and>
     patch_ok (between 512 131072) (mp_context_length p) \<and> patch_ok (long_between 2 32) (mp_status p) \<and>
     patch_ok (\<lambda>s. length s \<le> 10000) (mp_prompt_template p) \<and>
     (case mp_backend_routes p of None \<Rightarrow> True | Some xs \<Rightarrow> \<forall>x\<in>set xs. valid_route_input x))"

definition nulls_required :: "model_patch \<Rightarrow> bool" where
  "nulls_required p = (mp_provider p = Some None \<or> mp_context_length p = Some None \<or> mp_is_default p = Some None \<or>
     mp_is_active p = Some None \<or> mp_status p = Some None)"

definition new_or :: "'a option option \<Rightarrow> 'a \<Rightarrow> 'a" where
  "new_or x old = (case x of Some (Some v) \<Rightarrow> v | _ \<Rightarrow> old)"

definition given_or :: "'a option option \<Rightarrow> 'a option \<Rightarrow> 'a option" where
  "given_or x old = (case x of Some v \<Rightarrow> v | None \<Rightarrow> old)"

definition metadata_updates :: "model_patch \<Rightarrow> (string \<times> json) list" where
  "metadata_updates p =
     (case mp_display_name p of None \<Rightarrow> [] | Some x \<Rightarrow> [(''display_name'', jopt JStr x)]) @
     (case mp_allow_reasoning p of None \<Rightarrow> [] | Some x \<Rightarrow> [(''allow_reasoning'', jopt JBool x)]) @
     (case mp_include_reasoning_default p of None \<Rightarrow> [] | Some x \<Rightarrow> [(''include_reasoning_default'', jopt JBool x)])"

definition patched_fields :: "string option \<Rightarrow> model_patch \<Rightarrow> model \<Rightarrow> model" where
  "patched_fields file p m = m\<lparr>m_model_alias := given_or (mp_model_alias p) (m_model_alias m),
     m_inference_backend_id := given_or (mp_inference_backend_id p) (m_inference_backend_id m),
     m_provider := new_or (mp_provider p) (m_provider m),
     m_model_file := (case file of None \<Rightarrow> m_model_file m | Some f \<Rightarrow> f),
     m_context_length := new_or (mp_context_length p) (m_context_length m),
     m_is_default := new_or (mp_is_default p) (m_is_default m), m_is_active := new_or (mp_is_active p) (m_is_active m),
     m_status := new_or (mp_status p) (m_status m),
     m_prompt_template := given_or (mp_prompt_template p) (m_prompt_template m),
     m_metadata_json := given_or (mp_metadata_json p) (m_metadata_json m)\<rparr>"

definition patched_metadata :: "model_patch \<Rightarrow> model \<Rightarrow> model" where
  "patched_metadata p m = (if metadata_updates p = [] then m
     else m\<lparr>m_metadata_json := Some (merge_metadata (m_metadata_json m) (metadata_updates p))\<rparr>)"

definition patched_template :: "model_patch \<Rightarrow> model \<Rightarrow> model" where
  "patched_template p m =
     (if mp_prompt_template p \<noteq> None \<or> mp_model_file p \<noteq> None \<or> mp_provider p \<noteq> None \<or> mp_model_alias p \<noteq> None
      then m\<lparr>m_prompt_template := Some (prompt_template_for_payload (m_prompt_template m) (m_model_id m) (m_model_file m)
        (m_model_alias m) (m_metadata_json m))\<rparr>
      else m)"

definition patched_file :: "admin_env \<Rightarrow> model_patch \<Rightarrow> model \<Rightarrow> exc + string option" where
  "patched_file env p m = (case mp_model_file p of
       None \<Rightarrow> Inr None
     | Some x \<Rightarrow> bindS (checked_model_file env (or_empty x) (or_empty (given_or (mp_provider p) (Some (m_provider m)))))
         (\<lambda>f. Inr (Some f)))"

definition patch_routes :: "timestamp \<Rightarrow> uuid \<Rightarrow> model_patch \<Rightarrow> ('r, unit) act" where
  "patch_routes now mid p = (case mp_backend_routes p of
       Some inputs \<Rightarrow> sync_model_backend_routes now mid inputs
     | None \<Rightarrow> (case mp_inference_backend_id p of
           Some (Some bid) \<Rightarrow> bindE (query (\<lambda>d. filter (\<lambda>r. r_model_registry_id r = mid) (routes d))) (\<lambda>rs.
             if bid \<in> r_inference_backend_id ` set rs then ret ()
             else sync_model_backend_routes now mid (map as_input rs @ [default_input bid]))
         | _ \<Rightarrow> ret ()))"

definition alias_free :: "uuid \<Rightarrow> model_patch \<Rightarrow> ('r, unit) act" where
  "alias_free mid p = (case mp_model_alias p of
       Some (Some a) \<Rightarrow> bindE (model_name_taken (\<lambda>m. m_model_alias m = Some a \<and> m_id m \<noteq> mid)) (\<lambda>taken.
         if taken then raise (http_error 409 ''model alias already exists'') else ret ())
     | _ \<Rightarrow> ret ())"

text \<open>The handler from the writes to the row to the answer; \<open>m\<close> is the row as read.\<close>

definition write_patch :: "admin_env \<Rightarrow> timestamp \<Rightarrow> uuid \<Rightarrow> model_patch \<Rightarrow> model \<Rightarrow> string option \<Rightarrow> ('r, json) act" where
  "write_patch env now mid p m filename =
     (let m' = patched_template p (patched_metadata p (patched_fields filename p m)) in
      seqE (update (set_model mid (\<lambda>_. m')))
      (seqE (patch_routes now mid p)
      (seqE (sync_plans_or_400 env now m' (mp_allowed_plan_codes p))
      (seqE (update (set_model mid (\<lambda>m. m\<lparr>m_updated_at := now\<rparr>)))
      (seqE (log_security_event now (admin_event ''admin_model_updated'' ''medium'' ''Model updated via Admin Lab''
         [(''model_id'', JStr (m_model_id m')), (''model_alias'', jopt JStr (m_model_alias m'))]))
      (seqE commit (answer_model env mid ''model not found after update'')))))))"

definition patch_model :: "admin_env \<Rightarrow> timestamp \<Rightarrow> uuid \<Rightarrow> model_patch \<Rightarrow> ('r, json) act" where
  "patch_model env now mid p =
     bindE (the_model mid) (\<lambda>m.
     seqE (backend_must_exist (given_or (mp_inference_backend_id p) None))
     (seqE (alias_free mid p)
     (seqE (if mp_is_default p = Some (Some True) then update (clear_default_models (Some mid)) else ret ())
     (if mp_is_active p = Some (Some False) \<and> m_is_default m
      then raise (http_error 409 ''default model cannot be disabled'')
      else bindE (liftE (patched_file env p m)) (\<lambda>filename.
        if nulls_required p then raise (IntegrityError ''model_registry'')
        else write_patch env now mid p m filename)))))"

definition patch_model_prompt_template :: "timestamp \<Rightarrow> uuid \<Rightarrow> string option \<Rightarrow> ('r, json) act" where
  "patch_model_prompt_template now mid template =
     bindE (the_model mid) (\<lambda>m.
     seqE (update (set_model mid (\<lambda>m. m\<lparr>m_prompt_template := template, m_updated_at := now\<rparr>)))
     (seqE commit (ret (JObj [(''id'', JStr (uuid_str mid)), (''model_id'', JStr (m_model_id m)),
       (''prompt_template'', jopt JStr template), (''updated_at'', jtime now)]))))"

section \<open>The default model\<close>

definition set_default_model :: "timestamp \<Rightarrow> uuid \<Rightarrow> ('r, json) act" where
  "set_default_model now mid =
     bindE (the_model mid) (\<lambda>_.
     seqE (update (clear_default_models (Some mid)))
     (seqE (update (set_model mid (\<lambda>m. m\<lparr>m_is_default := True, m_is_active := True, m_updated_at := now\<rparr>)))
     (seqE commit (ret (JObj [(''status'', JStr ''default-updated''), (''id'', JStr (uuid_str mid))])))))"

section \<open>Adding and removing routes\<close>

definition create_model_route :: "admin_env \<Rightarrow> timestamp \<Rightarrow> uuid \<Rightarrow> route_input \<Rightarrow> ('r, json) act" where
  "create_model_route env now mid x =
     bindE (the_model mid) (\<lambda>m.
     seqE (the_backend_row (ri_backend x))
     (bindE (query (\<lambda>d. model_routes d m)) (\<lambda>rs.
      if ri_backend x \<in> r_inference_backend_id ` set rs
      then raise (http_error 409 ''route already exists for this backend'')
      else
        seqE (sync_model_backend_routes now mid (map as_input rs @ [x]))
        (seqE (update (set_model mid (\<lambda>m. m\<lparr>m_inference_backend_id :=
            (if m_inference_backend_id m = None then Some (ri_backend x) else m_inference_backend_id m),
            m_updated_at := now\<rparr>)))
        (seqE commit (answer_model env mid ''model not found after route create''))))))"

definition delete_model_route :: "timestamp \<Rightarrow> uuid \<Rightarrow> uuid \<Rightarrow> ('r, json) act" where
  "delete_model_route now mid bid =
     bindE (the_route mid bid) (\<lambda>_.
     seqE (update (\<lambda>d. d\<lparr>routes := filter (\<lambda>r. \<not> route_between mid bid r) (routes d)\<rparr>))
     (seqE (update (\<lambda>d. d\<lparr>models := upd_where (\<lambda>m. m_id m = mid \<and> m_inference_backend_id m = Some bid)
        (\<lambda>m. m\<lparr>m_inference_backend_id := None, m_updated_at := now\<rparr>) (models d)\<rparr>))
     (seqE commit (ret (JObj [(''status'', JStr ''route-removed''), (''model_id'', JStr (uuid_str mid)),
       (''backend_id'', JStr (uuid_str bid))])))))"

section \<open>Enabling, disabling and deleting\<close>

definition bonsai_model :: "model \<Rightarrow> bool" where
  "bonsai_model m = (m_model_alias m \<in> {Some ''bonsai'', Some ''bonzai''} \<or> contains ''bonsai'' (lower (m_model_id m)))"

definition bonsai_offline :: "settings \<Rightarrow> db \<Rightarrow> model \<Rightarrow> bool" where
  "bonsai_offline cfg d m =
     (bonsai_model m \<and> (case model_backend d m of None \<Rightarrow> True | Some b \<Rightarrow> \<not> b_is_active b) \<and> \<not> bonsai_enabled cfg)"

definition enable_model :: "settings \<Rightarrow> timestamp \<Rightarrow> uuid \<Rightarrow> ('r, json) act" where
  "enable_model cfg now mid =
     bindE (the_model mid) (\<lambda>m.
     bindE (query (\<lambda>d. bonsai_offline cfg d m)) (\<lambda>offline.
     if offline then raise (http_error 409 ''bonsai backend offline'')
     else
       seqE (update (set_model mid (\<lambda>m. m\<lparr>m_is_active := True, m_status := ''configured'', m_updated_at := now\<rparr>)))
       (seqE commit (ret (JObj [(''status'', JStr ''enabled''), (''id'', JStr (uuid_str mid))])))))"

definition disable_model :: "timestamp \<Rightarrow> uuid \<Rightarrow> ('r, json) act" where
  "disable_model now mid =
     bindE (the_model mid) (\<lambda>m.
     if m_is_default m then raise (http_error 409 ''default model cannot be disabled'')
     else
       seqE (update (set_model mid (\<lambda>m. m\<lparr>m_is_active := False, m_status := ''disabled'', m_updated_at := now\<rparr>)))
       (seqE commit (ret (JObj [(''status'', JStr ''disabled''), (''id'', JStr (uuid_str mid))]))))"

record model_delete =
  md_confirm_route_removal :: bool
  md_mode :: string

definition valid_model_delete :: "model_delete \<Rightarrow> bool" where
  "valid_model_delete q = (md_mode q \<in> {''auto'', ''soft'', ''hard'', ''register-only''})"

definition request_count_of :: "db \<Rightarrow> model \<Rightarrow> int" where
  "request_count_of d m = int (length (filter (\<lambda>l. rl_model l = m_model_id m \<or> rl_model l = or_empty (m_model_alias m))
     (request_logs d)))"

text \<open>A job holds a reference to its model without a rule for deletion.\<close>

definition drop_model :: "uuid \<Rightarrow> ('r, unit) act" where
  "drop_model mid = bindE (query (\<lambda>d. Some mid \<in> j_model_registry_id ` set (jobs d))) (\<lambda>referenced.
     if referenced then raise (IntegrityError ''generation_jobs.model_registry_id'')
     else update (\<lambda>d. d\<lparr>models := filter (\<lambda>m. m_id m \<noteq> mid) (models d)\<rparr>))"

definition delete_model :: "timestamp \<Rightarrow> uuid \<Rightarrow> model_delete \<Rightarrow> ('r, json) act" where
  "delete_model now mid q =
     bindE (the_model mid) (\<lambda>m.
     if m_is_default m then raise (http_error 409 ''default model cannot be removed'')
     else bindE (query (\<lambda>d. (model_routes d m \<noteq> [], request_count_of d m))) (\<lambda>(routed, request_count).
       if routed \<and> \<not> md_confirm_route_removal q
       then raise (http_error 409 ''model still has active backend routes; confirm route removal'')
       else if md_mode q \<in> {''hard'', ''register-only''} \<and> request_count \<noteq> 0
       then raise (http_error 409 ''model has request history; use soft delete or disable it'')
       else bindE (remove_model_routes m) (\<lambda>removed.
         let soft = (md_mode q = ''soft'' \<or> md_mode q = ''auto'' \<and> request_count \<noteq> 0);
             m' = (if soft then archive_model_identity now m else m);
             result = (if soft then ''soft-deleted'' else ''deleted'') in
         seqE (if soft then update (set_model mid (\<lambda>_. m')) else drop_model mid)
         (seqE (log_security_event now (admin_event ''admin_model_deleted'' ''high'' ''Model removed via Admin Lab''
            [(''model_id'', JStr (m_model_id m')), (''model_alias'', jopt JStr (m_model_alias m')),
             (''mode'', JStr (md_mode q)), (''request_count'', JInt request_count), (''removed_routes'', JInt removed),
             (''result'', JStr result)]))
         (seqE commit (ret (JObj [(''status'', JStr result), (''id'', JStr (uuid_str mid)),
           (''request_count'', JInt request_count), (''removed_routes'', JInt removed)])))))))"

section \<open>Trying a model out\<close>

text \<open>The content of the first choice, when there is one.\<close>

definition or_value :: "json \<Rightarrow> json \<Rightarrow> json" where
  "or_value v w = (if truthy v then v else w)"

definition answered_content :: "dict \<Rightarrow> exc + json" where
  "answered_content payload =
     (if \<not> truthy (dict_get_or_null payload ''choices'') then Inr (JStr [])
      else bindS (first_item (dict_get_or_null payload ''choices'')) (\<lambda>choice.
        bindS (as_dict choice) (\<lambda>c.
        bindS (or_empty_dict (dict_get_or_null c ''message'')) (\<lambda>message.
        Inr (or_value (dict_get_or_null message ''content'') (JStr []))))))"

record prompt_test =
  pt_prompt :: string
  pt_max_tokens :: int
  pt_temperature :: rat
  pt_include_reasoning :: "bool option"

definition valid_prompt_test :: "prompt_test \<Rightarrow> bool" where
  "valid_prompt_test q = (long_between 1 12000 (pt_prompt q) \<and> between 1 4096 (pt_max_tokens q) \<and>
     0 \<le> pt_temperature q \<and> pt_temperature q \<le> 2)"

definition prompt_answer :: "rat \<Rightarrow> model \<Rightarrow> backend \<Rightarrow> nat \<Rightarrow> bool \<Rightarrow> json list \<Rightarrow> forward_result \<Rightarrow> exc + json" where
  "prompt_answer elapsed_ms m b attempt include_reasoning errors result = (case fr_response result of
       StreamBody _ _ _ _ _ _ _ \<Rightarrow> Inl (AttributeError ''body'')
     | JsonBody status raw \<Rightarrow>
         bindS (as_dict raw) (\<lambda>payload.
         bindS (answered_content payload) (\<lambda>content.
         Inr (JObj [(''response'', content), (''raw_response'', raw), (''model_used'', JStr (m_model_id m)),
           (''backend_used'', JStr (b_name b)), (''latency_ms'', JFloat elapsed_ms),
           (''tokens'', or_value (dict_get_or_null payload ''usage'') (JObj [])),
           (''attempts'', JInt (int attempt)), (''fallback_used'', JBool (attempt > 1)),
           (''include_reasoning'', JBool include_reasoning), (''prompt_template'', jopt JStr (m_prompt_template m)),
           (''backend_errors'', JArr errors)]))))"

text \<open>
  The routes in the planned order, numbered from one. Only an \<open>HTTPException\<close> of the call leads on to the next;
  \<open>call\<close> is what the outside does during each attempt.
\<close>

fun prompt_attempts ::
  "admin_env \<Rightarrow> (nat \<Rightarrow> 'r exchange) \<Rightarrow> timestamp \<Rightarrow> rat \<Rightarrow> dict \<Rightarrow> model \<Rightarrow> bool \<Rightarrow> nat \<Rightarrow> json list \<Rightarrow> route list \<Rightarrow>
   ('r, json) act" where
  "prompt_attempts env call now elapsed_ms body m include_reasoning n errors [] =
     raise (HTTPException 503 (JObj [(''message'', JStr ''all backend routes failed''), (''backend_errors'', JArr errors)]))"
| "prompt_attempts env call now elapsed_ms body m include_reasoning n errors (r # rs) =
     bindE (query (\<lambda>d. backend_of d (r_inference_backend_id r))) (\<lambda>found. case found of
       None \<Rightarrow> prompt_attempts env call now elapsed_ms body m include_reasoning (Suc n) errors rs
     | Some b \<Rightarrow>
         catchE
           (bindE (chat (ae_settings env) (call n) now body False include_reasoning b (m_prompt_template m) True) (\<lambda>result.
            liftE (prompt_answer elapsed_ms m b n include_reasoning errors result)))
           (\<lambda>e. case e of
              HTTPException status detail \<Rightarrow>
                prompt_attempts env call now elapsed_ms body m include_reasoning (Suc n)
                  (errors @ [JObj [(''backend_name'', JStr (b_name b)),
                     (''backend_id'', JStr (uuid_str (r_inference_backend_id r))),
                     (''status_code'', JInt status), (''error'', detail)]]) rs
            | _ \<Rightarrow> raise e))"

definition prompt_body :: "model \<Rightarrow> prompt_test \<Rightarrow> dict" where
  "prompt_body m q = [(''model'', JStr (m_model_id m)),
     (''messages'', JArr [JObj [(''role'', JStr ''user''), (''content'', JStr (pt_prompt q))]]),
     (''max_tokens'', JInt (pt_max_tokens q)), (''temperature'', JFloat (pt_temperature q))]"

definition test_model_prompt ::
  "admin_env \<Rightarrow> (nat \<Rightarrow> 'r exchange) \<Rightarrow> timestamp \<Rightarrow> rat \<Rightarrow> uuid \<Rightarrow> prompt_test \<Rightarrow> ('r, json) act" where
  "test_model_prompt env call now elapsed_ms mid q =
     bindE (the_model mid) (\<lambda>m.
     let include_reasoning = (case pt_include_reasoning q of Some b \<Rightarrow> b
           | None \<Rightarrow> truthy (reasoning_default ''include_reasoning_default'' m)) in
     bindE (query (\<lambda>d. plan_routing_order (ae_pick env) d m)) (\<lambda>rs.
     prompt_attempts env call now elapsed_ms (prompt_body m q) m include_reasoning 1 [] rs))"

definition reload_models :: "settings \<Rightarrow> timestamp \<Rightarrow> ('r, json) act" where
  "reload_models cfg now =
     seqE (ensure_default_model cfg now)
     (seqE commit (ret (JObj [(''status'', JStr ''accepted''), (''detail'',
       JStr ''registry reloaded from configuration; for a new GGUF file, restart the data-plane container'')])))"

end
