(* ===== verification/RegistryTypes.thy ===== *)
theory RegistryTypes
  imports Wp AdminModels
begin

text \<open>
  What the rows of the registries look like at all times: the types of their columns as the request models
  bound them, references that lead somewhere, identifiers and routes that are unique, and at most
  one default model.
\<close>

section \<open>Well-typed rows\<close>

definition backend_typed :: "backend \<Rightarrow> bool" where
  "backend_typed b \<longleftrightarrow> b_provider b \<in> set SUPPORTED_BACKENDS \<and> between 1 64 (b_max_parallel_requests b)"

definition route_typed :: "route \<Rightarrow> bool" where
  "route_typed r \<longleftrightarrow> between 1 10000 (r_priority r) \<and> between 1 10000 (r_weight r) \<and> valid_state (r_state r)"

definition model_typed :: "model \<Rightarrow> bool" where
  "model_typed m \<longleftrightarrow> m_provider m \<in> set SUPPORTED_BACKENDS \<and> between 512 131072 (m_context_length m)"

definition known_backend :: "backend list \<Rightarrow> uuid option \<Rightarrow> bool" where
  "known_backend bs x \<longleftrightarrow> (case x of None \<Rightarrow> True | Some bid \<Rightarrow> bid \<in> b_id ` set bs)"

definition route_joins :: "model list \<Rightarrow> backend list \<Rightarrow> route \<Rightarrow> bool" where
  "route_joins ms bs r \<longleftrightarrow> r_model_registry_id r \<in> m_id ` set ms \<and> r_inference_backend_id r \<in> b_id ` set bs"

definition rows_typed :: "db \<Rightarrow> bool" where
  "rows_typed d \<longleftrightarrow> distinct (map m_id (models d)) \<and> (\<forall>m\<in>set (models d). m_id m < next_id d) \<and>
     (\<forall>b\<in>set (backends d). backend_typed b) \<and>
     (\<forall>m\<in>set (models d). model_typed m \<and> known_backend (backends d) (m_inference_backend_id m)) \<and>
     (\<forall>r\<in>set (routes d). route_typed r \<and> route_joins (models d) (backends d) r)"

definition routes_unique :: "db \<Rightarrow> bool" where
  "routes_unique d \<longleftrightarrow> distinct (map route_ends (routes d))"

definition one_default :: "db \<Rightarrow> bool" where
  "one_default d \<longleftrightarrow> (\<exists>k. \<forall>m\<in>set (models d). m_is_default m \<longrightarrow> m_id m = k)"

definition registry_ok :: "db \<Rightarrow> bool" where
  "registry_ok d \<longleftrightarrow> rows_typed d \<and> routes_unique d \<and> one_default d"

section \<open>What keeps them so\<close>

lemma keys_upd_where:
  assumes "\<And>x. P x \<Longrightarrow> k (f x) = k x"
  shows "k ` set (upd_where P f xs) = k ` set xs"
  using assms by (induction xs) auto

lemma known_backend_mono: "set bs \<subseteq> set cs \<Longrightarrow> known_backend bs x \<Longrightarrow> known_backend cs x"
  by (auto simp: known_backend_def split: option.splits)

lemma route_joins_mono: "set ms \<subseteq> set ns \<Longrightarrow> set bs \<subseteq> set cs \<Longrightarrow> route_joins ms bs r \<Longrightarrow> route_joins ns cs r"
  unfolding route_joins_def by blast

lemma rows_typed_ids: "rows_typed d \<Longrightarrow> next_id d \<le> n \<Longrightarrow> m \<in> set (models d) \<Longrightarrow> m_id m < n"
  unfolding rows_typed_def by (meson less_le_trans)

lemma rows_typed_cong:
  assumes eq: "models e = models d" "backends e = backends d" "routes e = routes d"
    and n: "next_id d \<le> next_id e" and d: "rows_typed d"
  shows "rows_typed e"
  using d rows_typed_ids [OF d n] by (simp add: rows_typed_def eq)

lemma registry_ok_cong:
  assumes "models e = models d" and "backends e = backends d" and "routes e = routes d" and "next_id d \<le> next_id e"
    and "registry_ok d"
  shows "registry_ok e"
  using assms rows_typed_cong [OF assms(1-4)] by (simp add: registry_ok_def routes_unique_def one_default_def)

text \<open>
  The rules compare the tables of a state \<open>e\<close> with those of a state \<open>d\<close> before it, so that they apply however
  \<open>e\<close> was built.
\<close>

lemma rows_typed_models:
  assumes d: "rows_typed d" and e: "models e = upd_where P f (models d)" "backends e = backends d" "routes e = routes d"
    "next_id d \<le> next_id e"
    and f: "\<And>m. P m \<Longrightarrow> m_id (f m) = m_id m"
    "\<And>m. m \<in> set (models d) \<Longrightarrow> P m \<Longrightarrow> model_typed (f m) \<and> known_backend (backends d) (m_inference_backend_id (f m))"
  shows "rows_typed e"
proof -
  have ids: "map m_id (upd_where P f (models d)) = map m_id (models d)" unfolding upd_where_def using f(1) by simp
  then have "m_id ` set (upd_where P f (models d)) = m_id ` set (models d)" by (metis list.set_map)
  with ids show ?thesis
    using d f rows_typed_ids [OF d e(4)] by (simp add: rows_typed_def ball_upd_where route_joins_def e)
qed

lemma rows_typed_add_model:
  assumes d: "rows_typed d" and e: "models e = models d @ [m]" "backends e = backends d" "routes e = routes d"
    and n: "m_id m = next_id d" "next_id e = Suc (next_id d)"
    and m: "model_typed m" "known_backend (backends d) (m_inference_backend_id m)"
  shows "rows_typed e"
proof -
  have "next_id d \<notin> m_id ` set (models d)" using d by (auto simp: rows_typed_def)
  moreover have "route_joins (models d @ [m]) (backends d) r" if "route_joins (models d) (backends d) r" for r
    by (rule route_joins_mono [OF _ _ that]) auto
  ultimately show ?thesis using d m n by (simp add: rows_typed_def e less_Suc_eq)
qed

lemma rows_typed_backends:
  assumes d: "rows_typed d" and e: "models e = models d" "backends e = upd_where P f (backends d)" "routes e = routes d"
    "next_id d \<le> next_id e"
    and f: "\<And>b. P b \<Longrightarrow> b_id (f b) = b_id b" "\<And>b. b \<in> set (backends d) \<Longrightarrow> P b \<Longrightarrow> backend_typed (f b)"
  shows "rows_typed e"
proof -
  have "map b_id (upd_where P f (backends d)) = map b_id (backends d)" unfolding upd_where_def using f(1) by simp
  then have "b_id ` set (upd_where P f (backends d)) = b_id ` set (backends d)" by (metis list.set_map)
  then show ?thesis
    using d f rows_typed_ids [OF d e(4)]
    by (simp add: rows_typed_def ball_upd_where route_joins_def known_backend_def e split: option.splits)
qed

lemma rows_typed_add_backend:
  assumes d: "rows_typed d" and e: "models e = models d" "backends e = backends d @ [b]" "routes e = routes d"
    "next_id d \<le> next_id e" and b: "backend_typed b"
  shows "rows_typed e"
proof -
  have "route_joins (models d) (backends d @ [b]) r" if "route_joins (models d) (backends d) r" for r
    by (rule route_joins_mono [OF _ _ that]) auto
  moreover have "known_backend (backends d @ [b]) x" if "known_backend (backends d) x" for x
    by (rule known_backend_mono [OF _ that]) auto
  ultimately show ?thesis using d b rows_typed_ids [OF d e(4)] by (simp add: rows_typed_def e)
qed

lemma rows_typed_routes:
  assumes d: "rows_typed d" and e: "models e = models d" "backends e = backends d" "next_id d \<le> next_id e"
    and r: "\<And>r. r \<in> set (routes e) \<Longrightarrow> route_typed r \<and> route_joins (models d) (backends d) r"
  shows "rows_typed e"
  using d r rows_typed_ids [OF d e(3)] by (simp add: rows_typed_def e)

text \<open>A model goes, with its routes.\<close>

lemma rows_typed_drop_model:
  assumes d: "rows_typed d" and e: "models e = filter (\<lambda>m. m_id m \<noteq> mid) (models d)" "backends e = backends d"
    "routes e = filter (\<lambda>r. r_model_registry_id r \<noteq> mid) (routes d)" "next_id d \<le> next_id e"
  shows "rows_typed e"
proof -
  have "distinct (map m_id (models d))" using d by (simp add: rows_typed_def)
  then have "distinct (map m_id (models e))" by (simp add: e distinct_map_filter)
  moreover have "route_joins (models e) (backends d) r"
    if "route_joins (models d) (backends d) r" "r_model_registry_id r \<noteq> mid" for r
    using that by (auto simp: route_joins_def e)
  ultimately show ?thesis using d rows_typed_ids [OF d e(4)] by (simp add: rows_typed_def e)
qed

lemma one_default_models:
  assumes "one_default d" and "models e = upd_where P f (models d)"
    and "\<And>m. P m \<Longrightarrow> m_is_default (f m) \<Longrightarrow> m_is_default m \<and> m_id (f m) = m_id m"
  shows "one_default e"
  using assms unfolding one_default_def by (simp add: ball_upd_where) blast

lemma one_default_alone:
  assumes "\<And>m. m \<in> set (models e) \<Longrightarrow> m_is_default m \<Longrightarrow> m_id m = k"
  shows "one_default e"
  using assms unfolding one_default_def by blast

lemma one_default_subset: "one_default d \<Longrightarrow> set (models e) \<subseteq> set (models d) \<Longrightarrow> one_default e"
  unfolding one_default_def by blast

lemma routes_unique_upd:
  assumes "routes_unique d" and "routes e = upd_where P f (routes d)" and "\<And>r. P r \<Longrightarrow> route_ends (f r) = route_ends r"
  shows "routes_unique e"
proof -
  have "map route_ends (routes e) = map route_ends (routes d)"
    using assms(2,3) by (simp add: upd_where_def)
  with assms(1) show ?thesis by (simp add: routes_unique_def)
qed

lemma routes_unique_filter: "routes_unique d \<Longrightarrow> routes e = filter P (routes d) \<Longrightarrow> routes_unique e"
  by (simp add: routes_unique_def distinct_map_filter)

lemma routes_unique_cong: "routes e = routes d \<Longrightarrow> routes_unique e = routes_unique d"
  by (simp add: routes_unique_def)

lemma one_default_cong: "models e = models d \<Longrightarrow> one_default e = one_default d"
  by (simp add: one_default_def)

lemma registry_ok_routes:
  assumes "registry_ok d" and "set rs \<subseteq> set (routes d)" and "distinct (map route_ends rs)"
  shows "registry_ok (d\<lparr>routes := rs\<rparr>)"
proof -
  have "rows_typed (d\<lparr>routes := rs\<rparr>)"
    by (rule rows_typed_routes [where d = d]) (use assms(1,2) in \<open>auto simp: registry_ok_def rows_typed_def\<close>)
  then show ?thesis using assms by (simp add: registry_ok_def routes_unique_def one_default_def)
qed

section \<open>The routes of a model\<close>

lemma find_backend: "backend_of d bid = Some b \<Longrightarrow> b \<in> set (backends d) \<and> b_id b = bid"
  unfolding backend_of_def by (rule find_Some_set)

lemma find_model: "get_model_by_id d mid = Some m \<Longrightarrow> m \<in> set (models d) \<and> m_id m = mid"
  unfolding get_model_by_id_def by (rule find_Some_set)

lemma wp_the_backend_row:
  assumes "\<And>b. b \<in> set (backends (w_db w)) \<Longrightarrow> b_id b = bid \<Longrightarrow> Q b w" and "\<And>e. E e w"
  shows "wp Q E (the_backend_row bid) w"
  using assms by (auto simp: the_backend_row_def wp_simps split: option.splits dest: find_backend)

lemma wp_the_model:
  assumes "\<And>m. m \<in> set (models (w_db w)) \<Longrightarrow> m_id m = mid \<Longrightarrow> Q m w" and "\<And>e. E e w"
  shows "wp Q E (the_model mid) w"
  using assms by (auto simp: the_model_def wp_simps split: option.splits dest: find_model)

text \<open>What the turns of the loop over the payload keep.\<close>

definition while_routing :: "'r world \<Rightarrow> 'r world \<Rightarrow> bool" where
  "while_routing w t \<longleftrightarrow> w_saved t = w_saved w \<and> models (w_db t) = models (w_db w) \<and> backends (w_db t) = backends (w_db w) \<and>
     next_id (w_db w) \<le> next_id (w_db t) \<and> rows_typed (w_db t)"

lemma wp_sync_route:
  assumes "while_routing w t" and "mid \<in> m_id ` set (models (w_db w))" and "valid_route_input x"
    and E: "\<And>e u. w_saved u = w_saved w \<Longrightarrow> E e u"
  shows "wp (\<lambda>_. while_routing w) E (sync_route now mid existing x) t"
proof -
  have typed: "rows_typed (w_db t)" using assms(1) by (simp add: while_routing_def)
  have joins: "route_joins (models (w_db t)) (backends (w_db t)) r" if "r_model_registry_id r = mid"
    "r_inference_backend_id r = b_id b" "b \<in> set (backends (w_db t))" for r b
    using that assms(1,2) by (auto simp: route_joins_def while_routing_def)
  have old: "route_typed r \<and> route_joins (models (w_db t)) (backends (w_db t)) r" if "r \<in> set (routes (w_db t))" for r
    using typed that by (simp add: rows_typed_def)
  have rewritten: "rows_typed ((w_db t)\<lparr>routes := upd_where (route_between mid bid) (rewrite_route now x) (routes (w_db t))\<rparr>)" for bid
    by (rule rows_typed_routes [OF typed])
      (use old assms(3) in \<open>auto simp: upd_where_def rewrite_route_def route_typed_def route_joins_def valid_route_input_def\<close>)
  have added: "rows_typed ((w_db t)\<lparr>next_id := Suc (next_id (w_db t)),
      routes := routes (w_db t) @ [created_route now rid mid x]\<rparr>)" if "b \<in> set (backends (w_db t))" "b_id b = ri_backend x" for b rid
    by (rule rows_typed_routes [OF typed])
      (use old joins [of "created_route now rid mid x" b] that assms(3) in
        \<open>auto simp: created_route_def route_typed_def valid_route_input_def\<close>)
  show ?thesis
    unfolding sync_route_def wp_simps
    by (rule wp_the_backend_row)
      (use assms(1) rewritten added E in \<open>auto simp: wp_simps while_routing_def\<close>)
qed

lemma while_routing_filter:
  assumes "while_routing w t"
  shows "while_routing w (t\<lparr>w_db := (w_db t)\<lparr>routes := filter P (routes (w_db t))\<rparr>\<rparr>)"
proof -
  have "rows_typed ((w_db t)\<lparr>routes := filter P (routes (w_db t))\<rparr>)"
    by (rule rows_typed_routes [where d = "w_db t"]) (use assms in \<open>auto simp: while_routing_def rows_typed_def\<close>)
  with assms show ?thesis by (simp add: while_routing_def)
qed

lemma wp_sync_routes:
  assumes "rows_typed (w_db w)" and "mid \<in> m_id ` set (models (w_db w))" and "\<forall>x\<in>set inputs. valid_route_input x"
    and Q: "\<And>t. while_routing w t \<Longrightarrow> routes_unique (w_db t) \<Longrightarrow> Q () t"
    and E: "\<And>e t. w_saved t = w_saved w \<Longrightarrow> E e t"
  shows "wp Q E (sync_model_backend_routes now mid inputs) w"
  unfolding sync_model_backend_routes_def flush_routes_def wp_simps
proof (rule wp_weaken [OF wp_for [where I = "while_routing w" and E = E]], goal_cases)
  case 1
  show ?case using assms(1) by (simp add: while_routing_def)
next
  case (2 x t)
  show ?case by (rule wp_sync_route) (use 2 assms(2,3) E in auto)
next
  case (3 x t)
  from while_routing_filter [OF 3] show ?case
    by (auto intro!: Q E simp: routes_unique_def) (simp add: while_routing_def)
next
  case 4
  then show ?case by blast
qed

end
