(* ===== verification/RegistryInvariant.thy ===== *)
theory RegistryInvariant
  imports RegistryTypes
begin

text \<open>
  Every handler that writes models, backends or routes, run on committed rows as \<open>registry_ok\<close> describes
  them, commits rows of the same kind or nothing.
\<close>

definition safe :: "('r, 'a) act \<Rightarrow> 'r world \<Rightarrow> bool" where
  "safe m w \<longleftrightarrow> wp (\<lambda>_ t. registry_ok (w_saved t)) (\<lambda>_ t. registry_ok (w_saved t)) m w"

section \<open>Steps that only read, and steps on other tables\<close>

lemma wp_answer_model:
  assumes "\<And>x. Q x w" and "\<And>e. E e w"
  shows "wp Q E (answer_model env mid gone) w"
  using assms by (auto simp: answer_model_def wp_simps split: option.splits prod.splits)

lemma wp_model_name_taken:
  assumes "\<And>x. Q x w" and "\<And>e. E e w"
  shows "wp Q E (model_name_taken clashes) w"
  using assms by (auto simp: model_name_taken_def wp_simps split: sum.splits)

lemma wp_backend_name_taken:
  assumes "\<And>x. Q x w" and "\<And>e. E e w"
  shows "wp Q E (backend_name_taken name) w"
  using assms by (auto simp: backend_name_taken_def wp_simps split: sum.splits)

lemma wp_alias_free:
  assumes "Q () w" and "\<And>e. E e w"
  shows "wp Q E (alias_free mid p) w"
  using assms by (auto simp: alias_free_def wp_simps intro!: wp_model_name_taken split: option.splits)

lemma scalar_one_Some: "scalar_one_or_none xs = Inr (Some x) \<Longrightarrow> xs = [x]"
  by (cases xs rule: scalar_one_or_none.cases) auto

lemma wp_the_route:
  assumes "\<And>r. r \<in> set (routes (w_db w)) \<Longrightarrow> route_between mid bid r \<Longrightarrow> Q r w" and "\<And>e. E e w"
  shows "wp Q E (the_route mid bid) w"
proof -
  let ?rows = "filter (route_between mid bid) (routes (w_db w))"
  have "x \<in> set (routes (w_db w)) \<and> route_between mid bid x" if "scalar_one_or_none ?rows = Inr (Some x)" for x
    using scalar_one_Some [OF that] by (metis filter_eq_Cons_iff in_set_conv_decomp)
  then show ?thesis
    unfolding the_route_def wp_simps by (cases "scalar_one_or_none ?rows") (use assms in \<open>auto split: option.splits\<close>)
qed

lemma wp_backend_must_exist:
  assumes "known_backend (backends (w_db w)) x \<Longrightarrow> Q () w" and "\<And>e. E e w"
  shows "wp Q E (backend_must_exist x) w"
  using assms by (auto simp: backend_must_exist_def wp_simps known_backend_def intro!: wp_the_backend_row split: option.splits)

lemma wp_sync_plans:
  assumes "\<And>t. w_saved t = w_saved w \<Longrightarrow> next_id (w_db t) = next_id (w_db w) \<Longrightarrow> models (w_db t) = models (w_db w) \<Longrightarrow>
      backends (w_db t) = backends (w_db w) \<Longrightarrow> routes (w_db t) = routes (w_db w) \<Longrightarrow> Q () t"
    and "\<And>e. E e w"
  shows "wp Q E (sync_plans_or_400 env now m codes) w"
  using assms unfolding sync_plans_or_400_def sync_allowed_plans_def wp_simps
  by (auto simp: wp_simps split: option.splits)

section \<open>Writes\<close>

lemma registry_ok_clear_models: "registry_ok d \<Longrightarrow> registry_ok (clear_default_models keep d)"
proof -
  assume d: "registry_ok d"
  let ?P = "\<lambda>m. m_is_default m \<and> keep \<noteq> Some (m_id m)" and ?f = "\<lambda>m. m\<lparr>m_is_default := False\<rparr>"
  have "rows_typed (clear_default_models keep d)"
    by (rule rows_typed_models [where d = d and P = ?P and f = ?f])
      (use d in \<open>auto simp: clear_default_models_def registry_ok_def rows_typed_def model_typed_def\<close>)
  moreover have "one_default (clear_default_models keep d)"
    by (rule one_default_models [where d = d and P = ?P and f = ?f])
      (use d in \<open>auto simp: clear_default_models_def registry_ok_def\<close>)
  ultimately show ?thesis
    using d by (simp add: registry_ok_def clear_default_models_def routes_unique_def)
qed

lemma registry_ok_backends:
  assumes "registry_ok d" and "models e = models d" "backends e = upd_where P f (backends d)" "routes e = routes d"
    "next_id d \<le> next_id e"
    and "\<And>b. P b \<Longrightarrow> b_id (f b) = b_id b" "\<And>b. b \<in> set (backends d) \<Longrightarrow> P b \<Longrightarrow> backend_typed (f b)"
  shows "registry_ok e"
  using assms rows_typed_backends [OF _ assms(2-7)]
  by (simp add: registry_ok_def routes_unique_cong [OF assms(4)] one_default_cong [OF assms(2)])

lemma registry_ok_add_backend:
  assumes "registry_ok d" and "models e = models d" "backends e = backends d @ [b]" "routes e = routes d"
    "next_id d \<le> next_id e" and "backend_typed b"
  shows "registry_ok e"
  using assms rows_typed_add_backend [OF _ assms(2-6)]
  by (simp add: registry_ok_def routes_unique_cong [OF assms(4)] one_default_cong [OF assms(2)])

lemma registry_ok_clear_backends: "registry_ok d \<Longrightarrow> registry_ok (clear_default_backends keep d)"
  by (rule registry_ok_backends [where d = d and P = "\<lambda>b. b_is_default b \<and> keep \<noteq> Some (b_id b)"
        and f = "\<lambda>b. b\<lparr>b_is_default := False\<rparr>"])
    (auto simp: clear_default_backends_def registry_ok_def rows_typed_def backend_typed_def)

text \<open>Writing to the model with an identifier: it stays the default, or it is the only one.\<close>

lemma registry_ok_set_model:
  assumes d: "registry_ok d" and f: "\<And>m. m_id m = mid \<Longrightarrow> m_id (f m) = mid"
    "\<And>m. m \<in> set (models d) \<Longrightarrow> m_id m = mid \<Longrightarrow> model_typed (f m) \<and> known_backend (backends d) (m_inference_backend_id (f m))"
    and one: "(\<forall>m. m_id m = mid \<longrightarrow> m_is_default (f m) \<longrightarrow> m_is_default m) \<or> (\<forall>m\<in>set (models d). m_is_default m \<longrightarrow> m_id m = mid)"
  shows "registry_ok (set_model mid f d)"
proof -
  have "rows_typed (set_model mid f d)"
    by (rule rows_typed_models [where d = d and P = "\<lambda>m. m_id m = mid" and f = f])
      (use d f in \<open>auto simp: set_model_def registry_ok_def\<close>)
  moreover have "one_default (set_model mid f d)"
    using one
  proof
    assume all: "\<forall>m. m_id m = mid \<longrightarrow> m_is_default (f m) \<longrightarrow> m_is_default m"
    have "one_default d" using d by (simp add: registry_ok_def)
    then show ?thesis
    proof (rule one_default_models)
      show "models (set_model mid f d) = upd_where (\<lambda>m. m_id m = mid) f (models d)" by (simp add: set_model_def)
      show "m_is_default m \<and> m_id (f m) = m_id m" if "m_id m = mid" "m_is_default (f m)" for m
        using all f(1) [OF that(1)] that by simp
    qed
  next
    assume "\<forall>m\<in>set (models d). m_is_default m \<longrightarrow> m_id m = mid"
    then show ?thesis
      by (intro one_default_alone [where k = mid]) (use f in \<open>auto simp: set_model_def upd_where_def\<close>)
  qed
  ultimately show ?thesis using d by (simp add: registry_ok_def set_model_def routes_unique_def)
qed

lemma no_default_but:
  "m \<in> set (models (clear_default_models (Some mid) d)) \<Longrightarrow> m_is_default m \<Longrightarrow> m_id m = mid"
  by (auto simp: clear_default_models_def upd_where_def split: if_splits)

lemma backends_clear_models: "backends (clear_default_models keep d) = backends d"
  by (simp add: clear_default_models_def)

lemma no_default: "m \<in> set (models (clear_default_models None d)) \<Longrightarrow> \<not> m_is_default m"
  by (auto simp: clear_default_models_def upd_where_def split: if_splits)

lemma created_backend_typed: "valid_backend_create q \<Longrightarrow> backend_typed (created_backend now bid q)"
  by (simp add: valid_backend_create_def backend_typed_def created_backend_def)

section \<open>Backends\<close>

lemma safe_create_backend:
  assumes "registry_ok (w_db w)" and "registry_ok (w_saved w)" and "valid_backend_create q"
  shows "safe (create_backend env now q) w"
proof -
  note registry_ok_clear_backends [OF assms(1)]
  moreover have "registry_ok (d\<lparr>next_id := Suc (next_id d), backends := backends d @ [created_backend now bid q]\<rparr>)"
    if "registry_ok d" for d bid
    by (rule registry_ok_add_backend [OF that _ _ _ _ created_backend_typed [OF assms(3)]]) simp_all
  ultimately show ?thesis
    unfolding safe_def create_backend_def wp_simps Let_def
    by (intro wp_backend_name_taken) (use assms(1,2) in \<open>auto simp: wp_simps\<close>)
qed

text \<open>The fields of a patch keep the identifier and, within their bounds, the type.\<close>

lemma set_backend_fields_typed:
  assumes "set_fields set_backend_field patch b = Some b'" and "backend_typed b" and "\<forall>x\<in>set patch. valid_backend_field x"
  shows "backend_typed b' \<and> b_id b' = b_id b"
  using assms
proof (induction patch arbitrary: b)
  case Nil
  then show ?case by simp
next
  case (Cons x patch)
  then obtain b1 where b1: "set_backend_field x b = Some b1" and rest: "set_fields set_backend_field patch b1 = Some b'"
    by (auto simp: bind_eq_Some_conv)
  have "backend_typed b1 \<and> b_id b1 = b_id b"
    using b1 Cons.prems(2,3) by (cases x) (auto simp: backend_typed_def)
  with Cons.IH [OF rest] Cons.prems(3) show ?case by simp
qed

lemma safe_patch_backend:
  assumes "registry_ok (w_db w)" and "registry_ok (w_saved w)" and "\<forall>x\<in>set patch. valid_backend_field x"
  shows "safe (patch_backend env now bid patch) w"
proof -
  have written: "registry_ok (set_backend bid (\<lambda>_. b'\<lparr>b_updated_at := now\<rparr>) d)"
    if "registry_ok d" "b \<in> set (backends (w_db w))" "b_id b = bid" "set_fields set_backend_field patch b = Some b'" for d b b'
  proof (rule registry_ok_backends [where d = d and P = "\<lambda>b. b_id b = bid" and f = "\<lambda>_. b'\<lparr>b_updated_at := now\<rparr>"])
    have "backend_typed b" using assms(1) that(2) by (simp add: registry_ok_def rows_typed_def)
    from set_backend_fields_typed [OF that(4) this assms(3)]
    show "backend_typed (b'\<lparr>b_updated_at := now\<rparr>)" "b_id c = bid \<Longrightarrow> b_id (b'\<lparr>b_updated_at := now\<rparr>) = b_id c" for c
      using that(3) by (simp_all add: backend_typed_def)
  qed (use that(1) in \<open>auto simp: set_backend_def\<close>)
  show ?thesis
    unfolding safe_def patch_backend_def wp_simps
  proof (rule wp_the_backend_row, goal_cases)
    case (1 b)
    have named: "wp (\<lambda>_ t. t = w) (\<lambda>_ t. t = w) (forE (renamed_to b patch) backend_name_taken) w"
      by (rule wp_for) (auto intro!: wp_backend_name_taken)
    show ?case
      using written [OF assms(1) 1] written [OF registry_ok_clear_backends [OF assms(1)] 1] assms(2)
      by (intro wp_weaken [OF named]) (auto simp: wp_simps split: option.splits)
  qed (rule assms(2))
qed

lemma safe_run_backend_action:
  assumes "registry_ok (w_db w)" and "registry_ok (w_saved w)"
  shows "safe (run_backend_action env now bid action) w"
proof -
  let ?f = "\<lambda>b. b\<lparr>b_status := action_status action, b_is_active := (action \<noteq> Stop), b_updated_at := now\<rparr>"
  have written: "registry_ok (set_backend bid ?f (w_db w))"
    by (rule registry_ok_backends [where d = "w_db w" and P = "\<lambda>b. b_id b = bid" and f = ?f])
      (use assms(1) in \<open>auto simp: set_backend_def registry_ok_def rows_typed_def backend_typed_def\<close>)
  show ?thesis
    unfolding safe_def run_backend_action_def wp_simps Let_def
    by (rule wp_the_backend_row)
      (use assms(2) written in \<open>auto simp: wp_simps split: option.splits intro!: wp_log_event intro: registry_ok_cong [OF _ _ _ _ written]\<close>)
qed

lemma safe_patch_route:
  assumes "registry_ok (w_db w)" and "registry_ok (w_saved w)" and "\<forall>x\<in>set patch. valid_route_field x"
  shows "safe (patch_model_backend_route now mid bid patch) w"
proof -
  have fields: "route_typed r' \<and> route_ends r' = route_ends r"
    if "set_fields set_route_field ps r = Some r'" "route_typed r" "\<forall>x\<in>set ps. valid_route_field x" for ps r r'
    using that
  proof (induction ps arbitrary: r)
    case (Cons x ps)
    then obtain r1 where r1: "set_route_field x r = Some r1" and rest: "set_fields set_route_field ps r1 = Some r'"
      by (auto simp: bind_eq_Some_conv)
    have "route_typed r1 \<and> route_ends r1 = route_ends r"
      using r1 Cons.prems(2,3) by (cases x) (auto simp: route_typed_def route_ends_def)
    with Cons.IH [OF rest] Cons.prems(3) show ?case by simp
  qed simp
  have written: "registry_ok ((w_db w)\<lparr>routes := upd_where (route_between mid bid) (\<lambda>_. r'\<lparr>r_updated_at := now\<rparr>) (routes (w_db w))\<rparr>)"
    if "r \<in> set (routes (w_db w))" "route_between mid bid r" "set_fields set_route_field patch r = Some r'" for r r'
  proof -
    let ?e = "(w_db w)\<lparr>routes := upd_where (route_between mid bid) (\<lambda>_. r'\<lparr>r_updated_at := now\<rparr>) (routes (w_db w))\<rparr>"
    have typed: "rows_typed (w_db w)" and r: "route_typed r" "route_joins (models (w_db w)) (backends (w_db w)) r"
      using assms(1) that(1) by (auto simp: registry_ok_def rows_typed_def)
    have r': "route_typed r'" "route_ends r' = (mid, bid)"
      using fields [OF that(3) r(1) assms(3)] that(2) by (auto simp: route_ends_def route_between_def)
    have "rows_typed ?e"
      by (rule rows_typed_routes [OF typed])
        (use typed r' r that(2) in \<open>auto simp: upd_where_def rows_typed_def route_typed_def route_joins_def route_ends_def
          route_between_def split: if_splits\<close>)
    moreover have "routes_unique ?e"
      by (rule routes_unique_upd [where d = "w_db w" and P = "route_between mid bid" and f = "\<lambda>_. r'\<lparr>r_updated_at := now\<rparr>"])
        (use assms(1) r'(2) in \<open>auto simp: registry_ok_def route_between_def route_ends_def\<close>)
    ultimately show ?thesis using assms(1) by (simp add: registry_ok_def one_default_def)
  qed
  show ?thesis
    unfolding safe_def patch_model_backend_route_def wp_simps
    by (rule wp_the_route) (use assms(2) written in \<open>auto simp: wp_simps split: option.splits\<close>)
qed

section \<open>Models\<close>

text \<open>The state between the first write of a handler and its commit: another table may have changed as well.\<close>

lemma while_routing_ok:
  "while_routing w t \<Longrightarrow> routes_unique (w_db t) \<Longrightarrow> one_default (w_db w) \<Longrightarrow> registry_ok (w_db t)"
  by (simp add: while_routing_def registry_ok_def one_default_cong [of "w_db t" "w_db w"])

text \<open>What the ends of the writing handlers share: plans, the event, the commit and the answer.\<close>

lemma wp_event_commit_answer:
  assumes "registry_ok (w_db w)"
  shows "wp (\<lambda>_ t. registry_ok (w_saved t)) (\<lambda>_ t. registry_ok (w_saved t))
     (seqE (log_security_event now ev) (seqE commit (answer_model env mid gone))) w"
  unfolding wp_simps
  by (intro wp_log_event) (auto simp: wp_simps intro!: wp_answer_model intro: registry_ok_cong [OF _ _ _ _ assms])

lemma wp_event_commit_ret:
  assumes "registry_ok (w_db w)"
  shows "wp (\<lambda>_ t. registry_ok (w_saved t)) (\<lambda>_ t. registry_ok (w_saved t))
     (seqE (log_security_event now ev) (seqE commit (ret x))) w"
  unfolding wp_simps
  by (intro wp_log_event) (auto simp: wp_simps intro: registry_ok_cong [OF _ _ _ _ assms])

lemma wp_plans_event_commit_answer:
  assumes "registry_ok (w_db w)" and "registry_ok (w_saved w)"
  shows "wp (\<lambda>_ t. registry_ok (w_saved t)) (\<lambda>_ t. registry_ok (w_saved t))
     (seqE (sync_plans_or_400 env now m codes)
       (seqE (log_security_event now ev) (seqE commit (answer_model env mid gone)))) w"
  by (subst wp_seq, intro wp_sync_plans wp_event_commit_answer)
    (use assms(2) in \<open>auto intro: registry_ok_cong [OF _ _ _ _ assms(1)]\<close>)

lemma route_inputs_valid: "valid_model_create q \<Longrightarrow> \<forall>x\<in>set (route_inputs q bid). valid_route_input x"
  by (auto simp: route_inputs_def valid_model_create_def default_input_def valid_route_input_def between_def valid_state_def
      split: option.splits)

lemma wp_insert_model:
  fixes t :: "'r world"
  assumes "valid_model_create q" and ok: "registry_ok (w_db t)" and saved: "registry_ok (w_saved t)"
    and known: "known_backend (backends (w_db t)) bid"
    and none: "mc_is_default q \<Longrightarrow> \<forall>m\<in>set (models (w_db t)). \<not> m_is_default m"
  shows "wp (\<lambda>_ t. registry_ok (w_saved t)) (\<lambda>_ t. registry_ok (w_saved t)) (insert_model env now q bid filename) t"
proof -
  let ?mid = "next_id (w_db t)"
  let ?m = "created_model now ?mid bid filename q"
  let ?u = "t\<lparr>w_db := (w_db t)\<lparr>next_id := Suc ?mid, models := models (w_db t) @ [?m]\<rparr>\<rparr>"
  have typed: "model_typed ?m"
    using assms(1) by (simp add: valid_model_create_def model_typed_def created_model_def)
  have rows: "rows_typed (w_db ?u)"
    by (rule rows_typed_add_model [where d = "w_db t" and m = ?m])
      (use ok known typed in \<open>auto simp: registry_ok_def created_model_def\<close>)
  have one: "one_default (w_db ?u)"
    using ok none unfolding registry_ok_def one_default_def
    by (cases "mc_is_default q") (auto simp: created_model_def)
  have u: "registry_ok (w_db ?u)" "registry_ok (w_saved ?u)" "?mid \<in> m_id ` set (models (w_db ?u))"
    using rows one ok saved by (simp_all add: registry_ok_def routes_unique_def created_model_def)
  have after: "registry_ok (w_db v) \<and> registry_ok (w_saved v)" if "while_routing ?u v" "routes_unique (w_db v)" for v
    using while_routing_ok [OF that one] that(1) saved by (simp add: while_routing_def)
  have "wp (\<lambda>_ v. registry_ok (w_db v) \<and> registry_ok (w_saved v)) (\<lambda>_ v. registry_ok (w_saved v))
     (if route_inputs q bid \<noteq> [] then sync_model_backend_routes now ?mid (route_inputs q bid) else ret ()) ?u"
    using u after saved
    by (cases "route_inputs q bid = []")
      (auto simp: wp_simps intro!: wp_sync_routes [OF rows u(3) route_inputs_valid [OF assms(1)]])
  then show ?thesis
    unfolding insert_model_def Let_def
    by (subst wp_bind, subst wp_fresh, subst wp_seq, subst wp_update, subst wp_seq)
      (auto elim!: wp_mono intro: wp_plans_event_commit_answer)
qed

lemma wp_create_model_backend:
  assumes "registry_ok (w_db w)" and "valid_model_create q"
    and "\<And>bid t. w_saved t = w_saved w \<Longrightarrow> registry_ok (w_db t) \<Longrightarrow> Q bid t" and "\<And>e. E e w"
  shows "wp Q E (create_model_backend now q) w"
proof -
  have "registry_ok (d\<lparr>next_id := Suc (next_id d), backends := backends d @ [created_backend now bid b]\<rparr>)"
    if "registry_ok d" "mc_create_backend q = Some b" for d bid b
  proof (rule registry_ok_add_backend [OF that(1)])
    show "backend_typed (created_backend now bid b)"
      using assms(2) that(2) by (intro created_backend_typed) (simp add: valid_model_create_def)
  qed simp_all
  then show ?thesis
    unfolding create_model_backend_def
    using assms by (auto simp: wp_simps intro!: wp_backend_name_taken split: option.splits)
qed

lemma safe_create_model:
  assumes "registry_ok (w_db w)" and "registry_ok (w_saved w)" and "valid_model_create q"
  shows "safe (create_model env now q) w"
proof -
  let ?post = "\<lambda>m t. wp (\<lambda>_ t. registry_ok (w_saved t)) (\<lambda>_ t. registry_ok (w_saved t)) m t"
  have plain: "?post (insert_model env now q bid filename) t"
    if "registry_ok (w_db t)" "registry_ok (w_saved t)" "known_backend (backends (w_db t)) bid" "\<not> mc_is_default q" for t bid filename
    by (rule wp_insert_model [OF assms(3) that(1-3)]) (use that(4) in simp)
  have first: "?post (seqE (update (clear_default_models None)) (insert_model env now q bid filename)) t"
    if "registry_ok (w_db t)" "registry_ok (w_saved t)" "known_backend (backends (w_db t)) bid" for t bid filename
    unfolding wp_seq wp_update
    by (rule wp_insert_model [OF assms(3)])
      (use that registry_ok_clear_models [OF that(1), of None] no_default in \<open>auto simp: backends_clear_models\<close>)
  show ?thesis
    unfolding safe_def create_model_def
    using assms(2)
    by (simp add: wp_if wp_raise) (auto simp: wp_bind [where m = "create_model_backend now q"]
        wp_seq [where m = "backend_must_exist _"] wp_bind [where m = "liftE _"] wp_bind [where m = "model_name_taken _"]
        wp_liftE wp_if wp_raise intro!: wp_create_model_backend [OF assms(1,3)] wp_backend_must_exist wp_model_name_taken plain first
        split: sum.splits)
qed

text \<open>Patches.\<close>

lemma patched_same:
  "m_id (patched_template p (patched_metadata p m)) = m_id m"
  "m_is_default (patched_template p (patched_metadata p m)) = m_is_default m"
  "model_typed (patched_template p (patched_metadata p m)) = model_typed m"
  "m_inference_backend_id (patched_template p (patched_metadata p m)) = m_inference_backend_id m"
  by (simp_all add: patched_template_def patched_metadata_def model_typed_def)

lemma patched_fields_typed:
  assumes "valid_model_patch p" and "model_typed m"
  shows "model_typed (patched_fields filename p m)"
  using assms
  by (auto simp: valid_model_patch_def patch_ok_def patched_fields_def model_typed_def new_or_def split: option.splits)

lemma wp_patch_routes:
  assumes "rows_typed (w_db w)" and "routes_unique (w_db w)" and "mid \<in> m_id ` set (models (w_db w))" and "valid_model_patch p"
    and Q: "\<And>t. while_routing w t \<Longrightarrow> routes_unique (w_db t) \<Longrightarrow> Q () t"
    and E: "\<And>e t. w_saved t = w_saved w \<Longrightarrow> E e t"
  shows "wp Q E (patch_routes now mid p) w"
proof -
  have same: "Q () w" using Q [of w] assms(1,2) by (simp add: while_routing_def)
  have old: "valid_route_input (as_input r)" if "r \<in> set (routes (w_db w))" for r
    using assms(1) that by (simp add: rows_typed_def route_typed_def valid_route_input_def as_input_def)
  have new: "valid_route_input (default_input bid)" for bid
    by (simp add: default_input_def valid_route_input_def between_def valid_state_def)
  note sync = wp_sync_routes [where Q = Q and E = E, OF assms(1,3)]
  show ?thesis
    unfolding patch_routes_def
    using assms(4) old new same
    by (auto simp: wp_simps valid_model_patch_def intro!: sync Q E split: option.splits)
qed

lemma wp_write_patch:
  assumes ok: "registry_ok (w_db t)" and saved: "registry_ok (w_saved t)" and valid: "valid_model_patch p"
    and m: "m_id m = mid" "model_typed m" "known_backend (backends (w_db t)) (m_inference_backend_id m)"
      "mid \<in> m_id ` set (models (w_db t))"
    and known: "known_backend (backends (w_db t)) (given_or (mp_inference_backend_id p) None)"
    and default: "mp_is_default p = Some (Some True) \<Longrightarrow> \<forall>m\<in>set (models (w_db t)). m_is_default m \<longrightarrow> m_id m = mid"
      "mp_is_default p \<noteq> Some (Some True) \<Longrightarrow> m_is_default m \<Longrightarrow> \<forall>n\<in>set (models (w_db t)). m_is_default n \<longrightarrow> m_id n = mid"
  shows "wp (\<lambda>_ t. registry_ok (w_saved t)) (\<lambda>_ t. registry_ok (w_saved t)) (write_patch env now mid p m filename) t"
proof -
  define m' where "m' = patched_template p (patched_metadata p (patched_fields filename p m))"
  have m': "m_id m' = mid" "model_typed m'" "known_backend (backends (w_db t)) (m_inference_backend_id m')"
    using m known patched_fields_typed [OF valid m(2)]
    by (auto simp: m'_def patched_same patched_fields_def given_or_def split: option.splits)
  have "m_is_default m' \<Longrightarrow> \<forall>n\<in>set (models (w_db t)). m_is_default n \<longrightarrow> m_id n = mid"
    using default by (auto simp: m'_def patched_same patched_fields_def new_or_def split: option.splits)
  then have written: "registry_ok (set_model mid (\<lambda>_. m') (w_db t))"
    by (intro registry_ok_set_model [OF ok]) (use m' in auto)
  let ?u = "t\<lparr>w_db := set_model mid (\<lambda>_. m') (w_db t)\<rparr>"
  have "m_id ` set (upd_where (\<lambda>m. m_id m = mid) (\<lambda>_. m') (models (w_db t))) = m_id ` set (models (w_db t))"
    by (rule keys_upd_where) (simp add: m'(1))
  then have mid: "mid \<in> m_id ` set (models (w_db ?u))" using m(4) by (simp add: set_model_def)
  have touch: "registry_ok (set_model mid (\<lambda>m. m\<lparr>m_updated_at := now\<rparr>) d)" if "registry_ok d" for d
    by (rule registry_ok_set_model [OF that]) (use that in \<open>auto simp: registry_ok_def rows_typed_def model_typed_def\<close>)
  have end_ok: "wp (\<lambda>_ t. registry_ok (w_saved t)) (\<lambda>_ t. registry_ok (w_saved t))
      (seqE (sync_plans_or_400 env now m' codes) (seqE (update (set_model mid (\<lambda>m. m\<lparr>m_updated_at := now\<rparr>)))
        (seqE (log_security_event now ev) (seqE commit (answer_model env mid gone))))) v"
    if "registry_ok (w_db v)" "registry_ok (w_saved v)" for v codes ev gone
  proof (subst wp_seq, rule wp_sync_plans, goal_cases)
    case (1 u)
    then have "registry_ok (w_db u)" by (intro registry_ok_cong [OF _ _ _ _ that(1)]) simp_all
    from touch [OF this] show ?case by (subst wp_seq, subst wp_update) (intro wp_event_commit_answer, simp)
  qed (rule that(2))
  have rows: "rows_typed (w_db ?u)" "routes_unique (w_db ?u)" using written by (simp_all add: registry_ok_def)
  have after: "registry_ok (w_db v) \<and> registry_ok (w_saved v)" if "while_routing ?u v" "routes_unique (w_db v)" for v
    using while_routing_ok [OF that] written that(1) saved by (simp add: while_routing_def registry_ok_def)
  show ?thesis
    unfolding write_patch_def Let_def m'_def [symmetric]
  proof (subst wp_seq, subst wp_update, subst wp_seq, rule wp_patch_routes [OF rows mid valid], goal_cases)
    case (1 v)
    with after [OF 1] show ?case by (intro end_ok) auto
  qed (use saved in auto)
qed

lemma safe_patch_model:
  assumes "registry_ok (w_db w)" and "registry_ok (w_saved w)" and "valid_model_patch p"
  shows "safe (patch_model env now mid p) w"
proof -
  let ?cleared = "w\<lparr>w_db := clear_default_models (Some mid) (w_db w)\<rparr>"
  have other: "\<forall>n\<in>set (models (w_db w)). m_is_default n \<longrightarrow> m_id n = mid"
    if "m \<in> set (models (w_db w))" "m_id m = mid" "m_is_default m" for m
    using assms(1) that unfolding registry_ok_def one_default_def by auto
  have cleared: "registry_ok (w_db ?cleared)" using registry_ok_clear_models [OF assms(1)] by simp
  have ids: "m_id ` set (models (w_db ?cleared)) = m_id ` set (models (w_db w))"
    by (simp add: clear_default_models_def keys_upd_where)
  have m: "model_typed m \<and> known_backend (backends (w_db w)) (m_inference_backend_id m)" if "m \<in> set (models (w_db w))" for m
    using assms(1) that by (simp add: registry_ok_def rows_typed_def)
  have written: "wp (\<lambda>_ t. registry_ok (w_saved t)) (\<lambda>_ t. registry_ok (w_saved t)) (write_patch env now mid p m filename)
      (if mp_is_default p = Some (Some True) then ?cleared else w)"
    if "m \<in> set (models (w_db w))" "m_id m = mid" "known_backend (backends (w_db w)) (given_or (mp_inference_backend_id p) None)"
    for m filename
    by (rule wp_write_patch)
      (use that m [OF that(1)] assms cleared ids other [OF that(1,2)] no_default_but in
        \<open>auto simp: backends_clear_models split: if_splits\<close>)
  show ?thesis
    unfolding safe_def patch_model_def
    using assms(2) written
    by (auto simp: wp_bind wp_seq wp_if wp_update wp_ret wp_raise wp_liftE
        intro!: wp_the_model wp_backend_must_exist wp_alias_free split: sum.splits)
qed

section \<open>The handlers that write one row\<close>

lemma registry_ok_touch:
  assumes "registry_ok d"
    and "\<And>m. m_id (f m) = m_id m" "\<And>m. m_provider (f m) = m_provider m" "\<And>m. m_context_length (f m) = m_context_length m"
    and "\<And>m. known_backend (backends d) (m_inference_backend_id m) \<Longrightarrow> known_backend (backends d) (m_inference_backend_id (f m))"
    and "\<And>m. m_is_default (f m) \<Longrightarrow> m_is_default m"
  shows "registry_ok (set_model mid f d)"
  by (rule registry_ok_set_model [OF assms(1)])
    (use assms in \<open>auto simp: registry_ok_def rows_typed_def model_typed_def\<close>)

lemma safe_patch_prompt_template:
  assumes "registry_ok (w_db w)" and "registry_ok (w_saved w)"
  shows "safe (patch_model_prompt_template now mid template) w"
proof -
  have "registry_ok (set_model mid (\<lambda>m. m\<lparr>m_prompt_template := template, m_updated_at := now\<rparr>) (w_db w))"
    by (rule registry_ok_touch [OF assms(1)]) simp_all
  then show ?thesis
    unfolding safe_def patch_model_prompt_template_def wp_simps
    by (intro wp_the_model) (use assms(2) in \<open>auto simp: wp_simps\<close>)
qed

lemma safe_set_default_model:
  assumes "registry_ok (w_db w)" and "registry_ok (w_saved w)"
  shows "safe (set_default_model now mid) w"
proof -
  let ?f = "\<lambda>m. m\<lparr>m_is_default := True, m_is_active := True, m_updated_at := now\<rparr>"
  note cleared = registry_ok_clear_models [OF assms(1), of "Some mid"]
  have "registry_ok (set_model mid ?f (clear_default_models (Some mid) (w_db w)))"
    by (rule registry_ok_set_model [OF cleared])
      (use cleared no_default_but in \<open>auto simp: registry_ok_def rows_typed_def model_typed_def\<close>)
  then show ?thesis
    unfolding safe_def set_default_model_def wp_simps
    by (intro wp_the_model) (use assms(2) in \<open>auto simp: wp_simps\<close>)
qed

lemma safe_enable_model:
  assumes "registry_ok (w_db w)" and "registry_ok (w_saved w)"
  shows "safe (enable_model cfg now mid) w"
proof -
  have "registry_ok (set_model mid (\<lambda>m. m\<lparr>m_is_active := True, m_status := ''configured'', m_updated_at := now\<rparr>) (w_db w))"
    by (rule registry_ok_touch [OF assms(1)]) simp_all
  then show ?thesis
    unfolding safe_def enable_model_def wp_simps
    by (intro wp_the_model) (use assms(2) in \<open>auto simp: wp_simps\<close>)
qed

lemma safe_disable_model:
  assumes "registry_ok (w_db w)" and "registry_ok (w_saved w)"
  shows "safe (disable_model now mid) w"
proof -
  have "registry_ok (set_model mid (\<lambda>m. m\<lparr>m_is_active := False, m_status := ''disabled'', m_updated_at := now\<rparr>) (w_db w))"
    by (rule registry_ok_touch [OF assms(1)]) simp_all
  then show ?thesis
    unfolding safe_def disable_model_def wp_simps
    by (intro wp_the_model) (use assms(2) in \<open>auto simp: wp_simps\<close>)
qed

lemma safe_create_model_route:
  assumes "registry_ok (w_db w)" and "registry_ok (w_saved w)" and "valid_route_input x"
  shows "safe (create_model_route env now mid x) w"
proof -
  let ?f = "\<lambda>m. m\<lparr>m_inference_backend_id := (if m_inference_backend_id m = None then Some (ri_backend x)
      else m_inference_backend_id m), m_updated_at := now\<rparr>"
  have inputs: "\<forall>y\<in>set (map as_input (model_routes (w_db w) m) @ [x]). valid_route_input y" for m
    using assms(1,3) by (auto simp: registry_ok_def rows_typed_def route_typed_def valid_route_input_def as_input_def model_routes_def)
  have finished: "registry_ok (set_model mid ?f (w_db t)) \<and> registry_ok (w_saved t)"
    if "while_routing w t" "routes_unique (w_db t)" "b \<in> set (backends (w_db w))" "b_id b = ri_backend x" for t b
  proof -
    have "registry_ok (w_db t)" by (rule while_routing_ok [OF that(1,2)]) (use assms(1) in \<open>simp add: registry_ok_def\<close>)
    then have "registry_ok (set_model mid ?f (w_db t))"
      by (rule registry_ok_touch)
        (use that(1) imageI [OF that(3), of b_id] in \<open>auto simp: that(4) known_backend_def while_routing_def split: option.splits\<close>)
    with that(1) assms(2) show ?thesis by (simp add: while_routing_def)
  qed
  show ?thesis
    unfolding safe_def create_model_route_def wp_bind wp_seq wp_query wp_if wp_raise wp_update wp_commit
  proof (rule wp_the_model, rule wp_the_backend_row, goal_cases)
    case (1 m b)
    then have mid: "mid \<in> m_id ` set (models (w_db w))" by auto
    have "wp (\<lambda>_ t. wp (\<lambda>_ t. registry_ok (w_saved t)) (\<lambda>_ t. registry_ok (w_saved t))
          (answer_model env mid ''model not found after route create'')
          (t\<lparr>w_db := set_model mid ?f (w_db t), w_saved := set_model mid ?f (w_db t)\<rparr>)) (\<lambda>_ t. registry_ok (w_saved t))
        (sync_model_backend_routes now mid (map as_input (model_routes (w_db w) m) @ [x])) w"
      by (rule wp_sync_routes [OF _ mid inputs])
        (use assms(1,2) finished [OF _ _ 1(3,4)] in \<open>auto simp: registry_ok_def intro!: wp_answer_model\<close>)
    with assms(2) show ?case by simp
  qed (use assms(2) in auto)
qed

lemma safe_delete_model_route:
  assumes "registry_ok (w_db w)" and "registry_ok (w_saved w)"
  shows "safe (delete_model_route now mid bid) w"
proof -
  let ?P = "\<lambda>m. m_id m = mid \<and> m_inference_backend_id m = Some bid"
  let ?f = "\<lambda>m. m\<lparr>m_inference_backend_id := None, m_updated_at := now\<rparr>"
  let ?d = "(w_db w)\<lparr>routes := filter (\<lambda>r. \<not> route_between mid bid r) (routes (w_db w))\<rparr>"
  let ?e = "?d\<lparr>models := upd_where ?P ?f (models (w_db w))\<rparr>"
  have d: "registry_ok ?d"
    by (rule registry_ok_routes [OF assms(1)])
      (use assms(1) in \<open>auto simp: registry_ok_def routes_unique_def distinct_map_filter\<close>)
  have "rows_typed ?e"
    by (rule rows_typed_models [where d = ?d and P = ?P and f = ?f])
      (use d in \<open>auto simp: registry_ok_def rows_typed_def model_typed_def known_backend_def\<close>)
  moreover have "one_default ?e"
    by (rule one_default_models [where d = ?d and P = ?P and f = ?f]) (use d in \<open>auto simp: registry_ok_def\<close>)
  ultimately have "registry_ok ?e" using d by (simp add: registry_ok_def routes_unique_def)
  then show ?thesis
    unfolding safe_def delete_model_route_def wp_simps
    by (intro wp_the_route) (use assms(2) in \<open>auto simp: wp_simps\<close>)
qed

lemma safe_delete_model:
  assumes "registry_ok (w_db w)" and "registry_ok (w_saved w)"
  shows "safe (delete_model now mid q) w"
proof -
  let ?unrouted = "(w_db w)\<lparr>routes := filter (\<lambda>r. r_model_registry_id r \<noteq> mid) (routes (w_db w))\<rparr>"
  have u: "registry_ok ?unrouted"
    by (rule registry_ok_routes [OF assms(1)])
      (use assms(1) in \<open>auto simp: registry_ok_def routes_unique_def distinct_map_filter\<close>)
  have archived: "registry_ok (set_model mid (\<lambda>_. archive_model_identity now m) ?unrouted)"
    if "m \<in> set (models (w_db w))" "m_id m = mid" for m
    by (rule registry_ok_set_model [OF u])
      (use u that in \<open>auto simp: archive_model_identity_def Let_def registry_ok_def rows_typed_def model_typed_def known_backend_def\<close>)
  let ?dropped = "?unrouted\<lparr>models := filter (\<lambda>m. m_id m \<noteq> mid) (models (w_db w))\<rparr>"
  have "rows_typed ?dropped"
    by (rule rows_typed_drop_model [where d = "w_db w"]) (use assms(1) in \<open>auto simp: registry_ok_def\<close>)
  moreover have "one_default ?dropped"
    by (rule one_default_subset [where d = "w_db w"]) (use assms(1) in \<open>auto simp: registry_ok_def\<close>)
  ultimately have dropped: "registry_ok ?dropped" using u by (simp add: registry_ok_def routes_unique_def)
  show ?thesis
    unfolding safe_def delete_model_def wp_bind
  proof (rule wp_the_model, goal_cases)
    case (1 m)
    show ?case
      using archived [OF 1] dropped assms(2) 1
      by (auto simp: wp_bind wp_seq [where m = "if _ then _ else _"] wp_seq [where m = "update _"] wp_query wp_update wp_if
          wp_raise wp_ret wp_prod remove_model_routes_def drop_model_def Let_def intro!: wp_event_commit_ret)
  qed (rule assms(2))
qed

end
