(* ===== verification/RegistrySeeding.thy ===== *)
theory RegistrySeeding
  imports RegistryInvariant
begin

text \<open>
  The defaults written at every start, on every reload and before the listings: they are well typed, and
  whatever is a default model before, the built-in one is the only one afterwards.
\<close>

section \<open>Backends\<close>

text \<open>Between the writes no more is known of the default models than of the rows.\<close>

definition while_seeding :: "'r world \<Rightarrow> 'r world \<Rightarrow> bool" where
  "while_seeding w t \<longleftrightarrow> w_saved t = w_saved w \<and> rows_typed (w_db t) \<and> routes_unique (w_db t) \<and>
     b_id ` set (backends (w_db w)) \<subseteq> b_id ` set (backends (w_db t))"

definition payload_typed :: "backend_payload \<Rightarrow> bool" where
  "payload_typed p \<longleftrightarrow> bp_provider p \<in> set SUPPORTED_BACKENDS \<and> between 1 64 (bp_max_parallel_requests p)"

lemma default_payloads_typed: "p \<in> set (default_backend_payloads cfg) \<Longrightarrow> payload_typed p"
  by (auto simp: default_backend_payloads_def payload_typed_def SUPPORTED_BACKENDS_def between_def)

lemma wp_ensure_backend:
  assumes "rows_typed (w_db t)" and "routes_unique (w_db t)" and "payload_typed p"
    and "\<And>bid u. w_saved u = w_saved t \<Longrightarrow> models (w_db u) = models (w_db t) \<Longrightarrow> rows_typed (w_db u) \<Longrightarrow> routes_unique (w_db u) \<Longrightarrow>
      insert bid (b_id ` set (backends (w_db t))) \<subseteq> b_id ` set (backends (w_db u)) \<Longrightarrow> Q bid u"
  shows "wp Q E (ensure_backend now p) t"
proof -
  have add: "rows_typed ((w_db t)\<lparr>next_id := Suc (next_id (w_db t)), backends := backends (w_db t) @ [new_backend now bid p]\<rparr>)" for bid
    by (rule rows_typed_add_backend [where d = "w_db t" and b = "new_backend now bid p"])
      (use assms(1,3) in \<open>auto simp: backend_typed_def payload_typed_def new_backend_def\<close>)
  have upd: "rows_typed ((w_db t)\<lparr>backends := upd_where (\<lambda>x. b_id x = bid) (apply_backend p) (backends (w_db t))\<rparr>)" for bid
    by (rule rows_typed_backends [where d = "w_db t" and P = "\<lambda>x. b_id x = bid" and f = "apply_backend p"])
      (use assms(1,3) in \<open>auto simp: backend_typed_def payload_typed_def apply_backend_def\<close>)
  have ids: "b_id ` set (upd_where (\<lambda>x. b_id x = bid) (apply_backend p) bs) = b_id ` set bs" for bid bs
    by (rule keys_upd_where) (simp add: apply_backend_def)
  have found: "b_id b \<in> b_id ` set (backends (w_db t))" if "backend_by_name (w_db t) name = Some b" for b name
    using find_Some_set [OF that [unfolded backend_by_name_def]] by simp
  show ?thesis
    unfolding ensure_backend_def
    using add upd ids found assms(2)
    by (auto simp: wp_simps routes_unique_def new_backend_def intro!: assms(4) split: option.splits)
qed

lemma wp_ensure_default_backends:
  fixes w :: "'r world"
  assumes "rows_typed (w_db w)" and "routes_unique (w_db w)"
    and Q: "\<And>created t. while_seeding w t \<Longrightarrow> models (w_db t) = models (w_db w) \<Longrightarrow>
      snd ` set created \<subseteq> b_id ` set (backends (w_db t)) \<Longrightarrow> Q created t"
    and E: "\<And>e t. w_saved t = w_saved w \<Longrightarrow> E e t"
  shows "wp Q E (ensure_default_backends cfg now) w"
proof -
  define I where "I ids t \<longleftrightarrow> while_seeding w t \<and> models (w_db t) = models (w_db w) \<and>
      set ids \<subseteq> b_id ` set (backends (w_db t))" for ids t
  have start: "I [] w" using assms(1,2) by (simp add: I_def while_seeding_def)
  have "wp (\<lambda>ids. I ([] @ ids)) E (forE (default_backend_payloads cfg) (ensure_backend now)) w"
  proof (rule wp_for_results [of I "[]", OF start])
    fix p ids t assume p: "p \<in> set (default_backend_payloads cfg)" and I: "I ids t"
    show "wp (\<lambda>bid. I (ids @ [bid])) E (ensure_backend now p) t"
    proof (rule wp_ensure_backend [OF _ _ default_payloads_typed [OF p]])
      show "rows_typed (w_db t)" "routes_unique (w_db t)" using I by (simp_all add: I_def while_seeding_def)
      fix bid and u :: "'r world"
      assume "w_saved u = w_saved t" "models (w_db u) = models (w_db t)" "rows_typed (w_db u)" "routes_unique (w_db u)"
        and more: "insert bid (b_id ` set (backends (w_db t))) \<subseteq> b_id ` set (backends (w_db u))"
      moreover have "b_id ` set (backends (w_db w)) \<subseteq> b_id ` set (backends (w_db u))"
        "set (ids @ [bid]) \<subseteq> b_id ` set (backends (w_db u))"
        using I more unfolding I_def while_seeding_def by (meson insert_subset subset_trans, simp, meson subset_trans)
      ultimately show "I (ids @ [bid]) u" using I unfolding I_def while_seeding_def by simp
    qed
  qed
  moreover have "Q (zip (map bp_name (default_backend_payloads cfg)) ids)
      (t\<lparr>w_db := (w_db t)\<lparr>backends := upd_where (\<lambda>b. b_id b \<in> set ids) (\<lambda>b. b\<lparr>b_is_default := (b_id b = hd ids)\<rparr>) (backends (w_db t))\<rparr>\<rparr>)"
    (is "Q _ (t\<lparr>w_db := ?d\<rparr>)") if "I ids t" for ids t
  proof (rule Q)
    let ?f = "\<lambda>b. b\<lparr>b_is_default := (b_id b = hd ids)\<rparr>"
    have typed: "rows_typed ?d"
      by (rule rows_typed_backends [where d = "w_db t" and P = "\<lambda>b. b_id b \<in> set ids" and f = ?f])
        (use that in \<open>auto simp: I_def while_seeding_def rows_typed_def backend_typed_def\<close>)
    have keys: "b_id ` set (backends ?d) = b_id ` set (backends (w_db t))"
      by (simp add: keys_upd_where)
    show "while_seeding w (t\<lparr>w_db := ?d\<rparr>)" using that typed keys by (simp add: I_def while_seeding_def routes_unique_def)
    show "models (w_db (t\<lparr>w_db := ?d\<rparr>)) = models (w_db w)" using that by (simp add: I_def)
    show "snd ` set (zip (map bp_name (default_backend_payloads cfg)) ids) \<subseteq> b_id ` set (backends (w_db (t\<lparr>w_db := ?d\<rparr>)))"
      using that keys by (auto simp: I_def dest: set_zip_rightD)
  qed
  ultimately show ?thesis
    unfolding ensure_default_backends_def Let_def
    by (subst wp_bind) (auto simp: wp_seq wp_update wp_ret elim!: wp_mono intro: E simp: I_def while_seeding_def)
qed

section \<open>Models and their routes\<close>

definition while_registering :: "'r world \<Rightarrow> 'r world \<Rightarrow> bool" where
  "while_registering w t \<longleftrightarrow> w_saved t = w_saved w \<and> backends (w_db t) = backends (w_db w) \<and> rows_typed (w_db t) \<and>
     routes_unique (w_db t) \<and> m_id ` set (models (w_db w)) \<subseteq> m_id ` set (models (w_db t))"

lemma while_registering_trans: "while_registering w t \<Longrightarrow> while_registering t u \<Longrightarrow> while_registering w u"
  unfolding while_registering_def by (metis subset_trans)

lemma scalar_one_None: "scalar_one_or_none xs = Inr None \<Longrightarrow> xs = []"
  by (cases xs rule: scalar_one_or_none.cases) auto

lemma wp_ensure_route:
  assumes typed: "rows_typed (w_db w)" and unique: "routes_unique (w_db w)" and mid: "mid \<in> m_id ` set (models (w_db w))"
    and bid: "bid \<in> b_id ` set (backends (w_db w))" and priority: "between 1 10000 priority"
    and Q: "\<And>t. while_registering w t \<Longrightarrow> Q () t" and E: "\<And>e. E e w"
  shows "wp Q E (ensure_route now priority mid bid) w"
proof -
  let ?rows = "filter (route_between mid bid) (routes (w_db w))"
  let ?state = "\<lambda>active old. if \<not> active then ''disabled'' else if old = ''disabled'' then ''healthy'' else old"
  let ?new = "\<lambda>rid state. \<lparr>r_id = Some rid, r_model_registry_id = mid, r_inference_backend_id = bid, r_priority = priority,
      r_weight = 100, r_state = state, r_created_at = now, r_updated_at = now\<rparr>"
  have old: "route_typed r \<and> route_joins (models (w_db w)) (backends (w_db w)) r" if "r \<in> set (routes (w_db w))" for r
    using typed that by (simp add: rows_typed_def)
  have add: "while_registering w (w\<lparr>w_db := (w_db w)\<lparr>next_id := Suc (next_id (w_db w)),
      routes := routes (w_db w) @ [?new rid state]\<rparr>\<rparr>)" if "?rows = []" "valid_state state" for rid state
  proof -
    have "rows_typed ((w_db w)\<lparr>next_id := Suc (next_id (w_db w)), routes := routes (w_db w) @ [?new rid state]\<rparr>)"
      by (rule rows_typed_routes [OF typed])
        (use old mid bid priority that(2) in \<open>auto simp: route_typed_def route_joins_def between_def\<close>)
    moreover have "(mid, bid) \<notin> route_ends ` set (routes (w_db w))"
      using that(1) by (auto simp: filter_empty_conv route_ends_def route_between_def)
    ultimately show ?thesis using unique by (simp add: while_registering_def routes_unique_def route_ends_def)
  qed
  have state: "valid_state old \<Longrightarrow> valid_state (?state active old)" for active old
    by (auto simp: valid_state_def)
  have upd: "while_registering w (w\<lparr>w_db := (w_db w)\<lparr>routes := upd_where P
      (\<lambda>x. x\<lparr>r_priority := priority, r_weight := 100, r_state := ?state active (r_state x)\<rparr>) (routes (w_db w))\<rparr>\<rparr>)" for P active
  proof -
    let ?f = "\<lambda>x. x\<lparr>r_priority := priority, r_weight := 100, r_state := ?state active (r_state x)\<rparr>"
    have "route_typed (?f r) \<and> route_joins (models (w_db w)) (backends (w_db w)) (?f r)" if "r \<in> set (routes (w_db w))" for r
      using old [OF that] priority state [of "r_state r" active] by (simp add: route_typed_def route_joins_def between_def)
    then have "rows_typed ((w_db w)\<lparr>routes := upd_where P ?f (routes (w_db w))\<rparr>)"
      by (intro rows_typed_routes [OF typed]) (use old in \<open>auto simp: upd_where_def\<close>)
    moreover have "routes_unique ((w_db w)\<lparr>routes := upd_where P ?f (routes (w_db w))\<rparr>)"
      by (rule routes_unique_upd [OF unique, where P = P and f = ?f]) (simp_all add: route_ends_def)
    ultimately show ?thesis by (simp add: while_registering_def)
  qed
  show ?thesis
    unfolding ensure_route_def
    using add upd [where active = True, simplified] upd [where active = False, simplified] E
    by (auto simp: wp_simps valid_state_def intro!: Q split: option.splits sum.splits dest!: scalar_one_None)
qed

lemma wp_ensure_model_entry:
  fixes w :: "'r world"
  assumes typed: "rows_typed (w_db w)" and unique: "routes_unique (w_db w)"
    and bid: "bid \<in> b_id ` set (backends (w_db w))" and window: "between 512 131072 (max_context_tokens cfg)"
    and Q: "\<And>mid t. while_registering w t \<Longrightarrow> mid \<in> m_id ` set (models (w_db t)) \<Longrightarrow> Q mid t"
    and E: "\<And>e t. w_saved t = w_saved w \<Longrightarrow> E e t"
  shows "wp Q E (ensure_model_entry cfg now the_id alias fname bid is_default is_active metadata) w"
proof -
  have route: "wp (\<lambda>_. wp Q E (ret mid)) E (ensure_default_route now mid bid) t"
    if "while_registering w t" "mid \<in> m_id ` set (models (w_db t))" for mid and t :: "'r world"
    unfolding ensure_default_route_def
  proof (rule wp_ensure_route)
    fix u assume u: "while_registering t u"
    show "wp Q E (ret mid) u"
      unfolding wp_ret by (rule Q [OF while_registering_trans [OF that(1) u]]) (use u that(2) in \<open>auto simp: while_registering_def\<close>)
  qed (use that bid E in \<open>auto simp: while_registering_def between_def\<close>)
  have known: "known_backend (backends (w_db w)) (Some bid)" using bid by (simp add: known_backend_def)
  have add: "wp (\<lambda>_. wp Q E (ret (next_id (w_db w)))) E (ensure_default_route now (next_id (w_db w)) bid)
      (w\<lparr>w_db := (w_db w)\<lparr>next_id := Suc (next_id (w_db w)), models := models (w_db w) @
        [new_model cfg now (next_id (w_db w)) the_id alias fname bid is_default is_active template metadata]\<rparr>\<rparr>)" for template
  proof (rule route)
    have "rows_typed ((w_db w)\<lparr>next_id := Suc (next_id (w_db w)), models := models (w_db w) @
        [new_model cfg now (next_id (w_db w)) the_id alias fname bid is_default is_active template metadata]\<rparr>)"
      by (rule rows_typed_add_model [OF typed]) (use known window in \<open>auto simp: new_model_def model_typed_def SUPPORTED_BACKENDS_def\<close>)
    then show "while_registering w (w\<lparr>w_db := (w_db w)\<lparr>next_id := Suc (next_id (w_db w)), models := models (w_db w) @
        [new_model cfg now (next_id (w_db w)) the_id alias fname bid is_default is_active template metadata]\<rparr>\<rparr>)"
      using unique by (auto simp: while_registering_def routes_unique_def)
  qed (simp add: new_model_def)
  let ?f = "\<lambda>template x. x\<lparr>m_model_alias := Some alias, m_inference_backend_id := Some bid, m_provider := ''llama.cpp'',
      m_model_file := fname, m_context_length := max_context_tokens cfg, m_is_default := is_default, m_is_active := is_active,
      m_status := (if is_active then ''configured'' else ''optional-disabled''), m_prompt_template := template,
      m_metadata_json := Some metadata\<rparr>"
  have upd: "wp (\<lambda>_. wp Q E (ret mid)) E (ensure_default_route now mid bid)
      (w\<lparr>w_db := (w_db w)\<lparr>models := upd_where (\<lambda>x. m_id x = mid) (?f template) (models (w_db w))\<rparr>\<rparr>)"
    if "mid \<in> m_id ` set (models (w_db w))" for mid template
  proof (rule route)
    have keys: "m_id ` set (upd_where (\<lambda>x. m_id x = mid) (?f template) (models (w_db w))) = m_id ` set (models (w_db w))"
      by (rule keys_upd_where) simp
    have "rows_typed ((w_db w)\<lparr>models := upd_where (\<lambda>x. m_id x = mid) (?f template) (models (w_db w))\<rparr>)"
      by (rule rows_typed_models [OF typed, where P = "\<lambda>x. m_id x = mid" and f = "?f template"])
        (use known window in \<open>auto simp: model_typed_def SUPPORTED_BACKENDS_def\<close>)
    then show "while_registering w (w\<lparr>w_db := (w_db w)\<lparr>models := upd_where (\<lambda>x. m_id x = mid) (?f template) (models (w_db w))\<rparr>\<rparr>)"
      using unique keys by (simp add: while_registering_def routes_unique_def)
    show "mid \<in> m_id ` set (models (w_db (w\<lparr>w_db := (w_db w)\<lparr>models := upd_where (\<lambda>x. m_id x = mid) (?f template) (models (w_db w))\<rparr>\<rparr>)))"
      using that keys by simp
  qed
  have stored: "m_id m \<in> m_id ` set (models (w_db w))" if "scalar_one_or_none (filter P (models (w_db w))) = Inr (Some m)" for m P
    using arg_cong [OF scalar_one_Some [OF that], of set] by auto
  show ?thesis
    unfolding ensure_model_entry_def Let_def
    using add upd stored E
    by (auto simp: wp_simps split: option.splits sum.splits)
qed

section \<open>The defaults as a whole\<close>

lemma wp_the_backend:
  assumes "\<And>bid. bid \<in> snd ` set created \<Longrightarrow> Q bid w" and "\<And>e. E e w"
  shows "wp Q E (the_backend created name) w"
proof (cases "map_of created name")
  case None
  then show ?thesis using assms(2) by (simp add: the_backend_def wp_raise)
next
  case (Some bid)
  then have "bid \<in> snd ` set created" by (metis image_eqI map_of_SomeD snd_conv)
  with assms(1) Some show ?thesis by (simp add: the_backend_def wp_ret)
qed

lemma registering_entry:
  fixes t w :: "'r world"
  assumes t: "while_registering w t" and bid: "bid \<in> b_id ` set (backends (w_db w))"
    and window: "between 512 131072 (max_context_tokens cfg)"
    and Q: "\<And>mid u. while_registering w u \<Longrightarrow> while_registering t u \<Longrightarrow> mid \<in> m_id ` set (models (w_db u)) \<Longrightarrow> Q mid u"
    and E: "\<And>e u. w_saved u = w_saved w \<Longrightarrow> E e u"
  shows "wp Q E (ensure_model_entry cfg now the_id alias fname bid is_default is_active metadata) t"
proof (rule wp_ensure_model_entry [OF _ _ _ window])
  fix mid u assume u: "while_registering t u" and "mid \<in> m_id ` set (models (w_db u))"
  then show "Q mid u" by (rule Q [OF while_registering_trans [OF t u]])
qed (use t bid E in \<open>auto simp: while_registering_def\<close>)

text \<open>The two last parts of the built-in entry: the route to the fallback backend, and the default flag of all others.\<close>

lemma wp_clear_other_defaults:
  fixes t u :: "'r world"
  assumes "while_registering t u" and "w_saved t = w_saved w"
    and Q: "\<And>mid v. w_saved v = w_saved w \<Longrightarrow> registry_ok (w_db v) \<Longrightarrow> Q mid v"
  shows "wp Q E (seqE (update (\<lambda>d. d\<lparr>models := upd_where (\<lambda>m. m_id m \<noteq> gid \<and> m_is_default m)
      (\<lambda>m. m\<lparr>m_is_default := False\<rparr>) (models d)\<rparr>)) (ret gid)) u"
proof -
  let ?P = "\<lambda>m. m_id m \<noteq> gid \<and> m_is_default m" and ?f = "\<lambda>m. m\<lparr>m_is_default := False\<rparr>"
  let ?d = "(w_db u)\<lparr>models := upd_where ?P ?f (models (w_db u))\<rparr>"
  have "rows_typed ?d"
    by (rule rows_typed_models [where d = "w_db u" and P = ?P and f = ?f])
      (use assms in \<open>auto simp: while_registering_def rows_typed_def model_typed_def\<close>)
  moreover have "one_default ?d"
    by (rule one_default_alone [where k = gid]) (auto simp: upd_where_def split: if_splits)
  ultimately have "registry_ok ?d"
    using assms(1) by (simp add: registry_ok_def while_registering_def routes_unique_def)
  then show ?thesis using assms(1,2) by (simp add: wp_seq wp_update wp_ret while_registering_def Q)
qed

lemma wp_fallback_route:
  fixes t u :: "'r world"
  assumes "while_registering t u" and "gid \<in> m_id ` set (models (w_db u))" and "snd ` set created \<subseteq> b_id ` set (backends (w_db t))"
    and "\<And>v. while_registering t v \<Longrightarrow> Q () v" and "\<And>e v. w_saved v = w_saved t \<Longrightarrow> E e v"
  shows "wp Q E (case map_of created name of None \<Rightarrow> ret () | Some fb \<Rightarrow> ensure_fallback_route now gid fb) u"
proof (cases "map_of created name")
  case (Some fb)
  then have "fb \<in> b_id ` set (backends (w_db u))"
    using assms(1,3) by (auto simp: while_registering_def dest!: map_of_SomeD)
  then have "wp Q E (ensure_route now 2 gid fb) u"
    by (intro wp_ensure_route assms(4) while_registering_trans [OF assms(1)])
      (use assms(1,2,5) in \<open>auto simp: while_registering_def between_def\<close>)
  with Some show ?thesis by (simp add: ensure_fallback_route_def)
qed (use assms in \<open>simp add: wp_ret\<close>)

lemma wp_ensure_default_model:
  fixes w :: "'r world"
  assumes "rows_typed (w_db w)" and "routes_unique (w_db w)" and window: "between 512 131072 (max_context_tokens cfg)"
    and Q: "\<And>mid t. w_saved t = w_saved w \<Longrightarrow> registry_ok (w_db t) \<Longrightarrow> Q mid t"
    and E: "\<And>e t. w_saved t = w_saved w \<Longrightarrow> E e t"
  shows "wp Q E (ensure_default_model cfg now) w"
proof -
  show ?thesis
    unfolding ensure_default_model_def wp_bind wp_seq
  proof (rule wp_ensure_default_backends [OF assms(1,2)], goal_cases)
    case (1 created t)
    then have t: "while_registering t t" "w_saved t = w_saved w" by (simp_all add: while_seeding_def while_registering_def)
    have err: "E e u" if "w_saved u = w_saved t" for e u using E t(2) that by simp
    show ?case
    proof (rule wp_the_backend, rule wp_the_backend, unfold wp_query, goal_cases)
      case (1 gemma bonsai)
      with \<open>snd ` set created \<subseteq> b_id ` set (backends (w_db t))\<close>
      have bids: "gemma \<in> b_id ` set (backends (w_db t))" "bonsai \<in> b_id ` set (backends (w_db t))" by auto
      show ?case
      proof (rule registering_entry [OF t(1) bids(1) window _ err], goal_cases)
        case (1 gid u)
        show ?case
        proof (rule wp_fallback_route [OF 1(1,3) _ _ err], goal_cases)
          case 1
          show ?case by fact
        next
          case (2 v)
          show ?case
          proof (rule registering_entry [OF 2 bids(2) window _ err], goal_cases)
            case (1 b1 x)
            show ?case
              by (rule registering_entry [OF 1(1) bids(2) window _ err]) (rule wp_clear_other_defaults [unfolded wp_seq, OF _ t(2) Q])
          qed
        qed
      qed
    qed (use E t in auto)
  qed (rule E)
qed

lemma safe_reload_models:
  assumes "registry_ok (w_db w)" and "registry_ok (w_saved w)" and "between 512 131072 (max_context_tokens cfg)"
  shows "safe (reload_models cfg now) w"
  unfolding safe_def reload_models_def wp_seq
  by (rule wp_ensure_default_model) (use assms in \<open>auto simp: registry_ok_def wp_simps\<close>)

lemma seeded_backends_ok:
  "while_seeding w t \<Longrightarrow> models (w_db t) = models (w_db w) \<Longrightarrow> one_default (w_db w) \<Longrightarrow> registry_ok (w_db t)"
  by (simp add: while_seeding_def registry_ok_def one_default_cong [of "w_db t" "w_db w"])

lemma safe_list_backends:
  assumes "registry_ok (w_db w)" and "registry_ok (w_saved w)"
  shows "safe (list_backends env now) w"
  unfolding safe_def list_backends_def wp_seq
  by (rule wp_ensure_default_backends)
    (use assms seeded_backends_ok in \<open>auto simp: registry_ok_def wp_simps split: sum.splits\<close>)

lemma safe_get_models:
  assumes "registry_ok (w_db w)" and "registry_ok (w_saved w)"
  shows "safe (get_models env now) w"
  unfolding safe_def get_models_def wp_seq
  by (rule wp_ensure_default_backends)
    (use assms in \<open>auto simp: registry_ok_def wp_simps while_seeding_def split: sum.splits\<close>)

end
