(* ===== verification/Seed.thy ===== *)
theory Seed
  imports BillingPlans Registry Security
begin

text \<open>
  The defaults written at the start of every process (\<open>services/seed.py\<close>): the default model with its
  backends, the plans and prices, and a demo client with one key. The random parts of the key are
  arguments.
\<close>

definition demo_settings :: "settings \<Rightarrow> uuid \<Rightarrow> client \<Rightarrow> client" where
  "demo_settings cfg plan_id c = c\<lparr>c_description := Some ''Demo client seeded for local validation'',
     c_billing_status := ''active'', c_rate_limit_per_minute := demo_rate_limit_per_minute cfg,
     c_daily_token_quota := demo_daily_token_quota cfg, c_monthly_token_quota := demo_monthly_token_quota cfg,
     c_max_context_tokens := max_context_tokens cfg, c_max_output_tokens := max_completion_tokens cfg,
     c_billing_plan_id := Some plan_id\<rparr>"

definition demo_client :: "settings \<Rightarrow> timestamp \<Rightarrow> uuid \<Rightarrow> uuid \<Rightarrow> client" where
  "demo_client cfg now cid plan_id = demo_settings cfg plan_id
     \<lparr>c_id = cid, c_name = demo_client_name cfg, c_description = None, c_is_blocked = False,
      c_billing_status = ''active'', c_billing_plan_id = None, c_rate_limit_per_minute = 0, c_daily_token_quota = 0,
      c_monthly_token_quota = 0, c_max_context_tokens = 0, c_max_output_tokens = 0, c_allowed_models_json = None,
      c_ip_allowlist_json = None, c_ip_blocklist_json = None, c_system_prompt = None, c_metadata_json = None,
      c_deleted_at = None, c_created_at = now, c_updated_at = now\<rparr>"

definition demo_key ::
  "(string \<Rightarrow> string \<Rightarrow> string) \<Rightarrow> timestamp \<Rightarrow> uuid \<Rightarrow> uuid \<Rightarrow> string \<Rightarrow> string \<Rightarrow> api_key" where
  "demo_key kdf now kid cid plaintext salt = \<lparr>k_id = kid, k_client_id = cid, k_name = ''demo-default'',
     k_key_prefix = short_prefix plaintext, k_key_hash = hash_secret kdf plaintext salt, k_scopes_json = None,
     k_created_at = now, k_revoked_at = None, k_last_used_at = None\<rparr>"

definition ensure_demo_client :: "settings \<Rightarrow> timestamp \<Rightarrow> uuid \<Rightarrow> ('r, uuid) act" where
  "ensure_demo_client cfg now plan_id =
     bindE (query (\<lambda>d. filter (\<lambda>c. c_name c = demo_client_name cfg) (clients d))) (\<lambda>rows.
     bindE (liftE (scalar_one_or_none rows)) (\<lambda>existing. case existing of
       None \<Rightarrow> bindE fresh_id (\<lambda>cid.
         seqE (update (\<lambda>d. d\<lparr>clients := clients d @ [demo_client cfg now cid plan_id]\<rparr>)) (ret cid))
     | Some c \<Rightarrow> seqE (set_client (c_id c) (demo_settings cfg plan_id)) (ret (c_id c))))"

definition ensure_demo_key ::
  "(string \<Rightarrow> string \<Rightarrow> string) \<Rightarrow> timestamp \<Rightarrow> uuid \<Rightarrow> string \<Rightarrow> string \<Rightarrow> ('r, unit) act" where
  "ensure_demo_key kdf now cid token salt =
     bindE (query (\<lambda>d. filter (\<lambda>k. k_client_id k = cid \<and> k_name k = ''demo-default'') (api_keys d))) (\<lambda>rows.
     bindE (liftE (scalar_one_or_none rows)) (\<lambda>existing. case existing of
       None \<Rightarrow> bindE fresh_id (\<lambda>kid.
         update (\<lambda>d. d\<lparr>api_keys := api_keys d @ [demo_key kdf now kid cid (generate_api_key token) salt]\<rparr>))
     | Some _ \<Rightarrow> ret ()))"

definition seed_defaults ::
  "settings \<Rightarrow> (string \<Rightarrow> string \<Rightarrow> string) \<Rightarrow> timestamp \<Rightarrow> string \<Rightarrow> string \<Rightarrow> ('r, unit) act" where
  "seed_defaults cfg kdf now token salt =
     seqE (ensure_default_model cfg now)
       (seqE (ensure_default_billing_plans now)
         (seqE (ensure_default_pricing_rules now)
           (bindE (query (\<lambda>d. plan_by_code d ''basic'')) (\<lambda>demo_plan. case demo_plan of
              None \<Rightarrow> raise (KeyError ''basic'')
            | Some plan \<Rightarrow>
                bindE (ensure_demo_client cfg now (p_id plan)) (\<lambda>cid.
                ensure_demo_key kdf now cid token salt)))))"

end
