(* ===== verification/RegistrySteps.thy ===== *)
theory RegistrySteps
  imports RegistrySeeding Seed SlotManager
begin

text \<open>
  The registries over the life of the service: operators change them, requests take and return slots, every start
  and every reload writes the defaults, in any order. The rows keep their types, there is never
  more than one default model, and a deleted model is out of reach.
\<close>

section \<open>Steps\<close>

text \<open>The calls of an operator, with the payloads their request models accept.\<close>

inductive operator_call :: "settings \<Rightarrow> ('r, json) act \<Rightarrow> bool" for cfg where
  backends_listed: "ae_settings env = cfg \<Longrightarrow> operator_call cfg (list_backends env now)"
| backend_created: "valid_backend_create bq \<Longrightarrow> operator_call cfg (create_backend env now bq)"
| backend_patched: "\<forall>x\<in>set bp. valid_backend_field x \<Longrightarrow> operator_call cfg (patch_backend env now bid bp)"
| container_moved: "operator_call cfg (run_backend_action env now bid action)"
| models_listed: "ae_settings env = cfg \<Longrightarrow> operator_call cfg (get_models env now)"
| model_created: "valid_model_create mq \<Longrightarrow> operator_call cfg (create_model env now mq)"
| model_patched: "valid_model_patch mp \<Longrightarrow> operator_call cfg (patch_model env now mid mp)"
| template_patched: "operator_call cfg (patch_model_prompt_template now mid template)"
| default_set: "operator_call cfg (set_default_model now mid)"
| model_enabled: "operator_call cfg (enable_model cfg now mid)"
| model_disabled: "operator_call cfg (disable_model now mid)"
| model_deleted: "operator_call cfg (delete_model now mid dq)"
| route_created: "valid_route_input x \<Longrightarrow> operator_call cfg (create_model_route env now mid x)"
| route_patched: "\<forall>x\<in>set rp. valid_route_field x \<Longrightarrow> operator_call cfg (patch_model_backend_route now mid bid rp)"
| route_deleted: "operator_call cfg (delete_model_route now mid bid)"
| models_reloaded: "operator_call cfg (reload_models cfg now)"

text \<open>
  One step between two committed states. The last rule stands for every other handler and task: none of
  them writes models, backends or routes.
\<close>

inductive registry_step :: "settings \<Rightarrow> 'r world \<Rightarrow> 'r world \<Rightarrow> bool" for cfg where
  called: "operator_call cfg m \<Longrightarrow> handle m w = (r, t) \<Longrightarrow> registry_step cfg w t"
| started: "handle (seqE (seed_defaults cfg kdf now token salt) commit) w = (r1, t) \<Longrightarrow> registry_step cfg w t"
| slot_taken: "handle (try_acquire now bid) w = (r2, t) \<Longrightarrow> registry_step cfg w t"
| slot_returned: "handle (release now bid) w = (r3, t) \<Longrightarrow> registry_step cfg w t"
| elsewhere: "models (w_saved t) = models (w_saved w) \<Longrightarrow> backends (w_saved t) = backends (w_saved w) \<Longrightarrow>
    routes (w_saved t) = routes (w_saved w) \<Longrightarrow> next_id (w_saved w) \<le> next_id (w_saved t) \<Longrightarrow> w_db t = w_saved t \<Longrightarrow>
    registry_step cfg w t"

section \<open>The start of the service\<close>

lemma registry_keeps_other:
  assumes "\<And>d. models (f d) = models d" and "\<And>d. backends (f d) = backends d" and "\<And>d. routes (f d) = routes d"
    and "\<And>d. next_id d \<le> next_id (f d)"
  shows "keeps (db_inv registry_ok) (update f)"
  by (rule keeps_update) (rule registry_ok_cong [OF assms])

lemma registry_keeps_fresh [keeps_intros]: "keeps (db_inv registry_ok) fresh_id"
  by (rule keeps_fresh) (rule registry_ok_cong, simp_all)

lemma registry_keeps_plans [keeps_intros]: "keeps (db_inv registry_ok) (update (\<lambda>d. d\<lparr>billing_plans := f d\<rparr>))"
  by (rule registry_keeps_other) simp_all

lemma registry_keeps_rules [keeps_intros]: "keeps (db_inv registry_ok) (update (\<lambda>d. d\<lparr>pricing_rules := f d\<rparr>))"
  by (rule registry_keeps_other) simp_all

lemma registry_keeps_clients [keeps_intros]: "keeps (db_inv registry_ok) (update (\<lambda>d. d\<lparr>clients := f d\<rparr>))"
  by (rule registry_keeps_other) simp_all

lemma registry_keeps_keys [keeps_intros]: "keeps (db_inv registry_ok) (update (\<lambda>d. d\<lparr>api_keys := f d\<rparr>))"
  by (rule registry_keeps_other) simp_all

lemma registry_keeps_default_plan [keeps_intros]: "keeps (db_inv registry_ok) (ensure_default_plan now p)"
  unfolding ensure_default_plan_def by (intro keeps_intros)

lemma registry_keeps_default_rule [keeps_intros]: "keeps (db_inv registry_ok) (ensure_default_rule now e)"
  unfolding ensure_default_rule_def by (intro keeps_intros)

lemma registry_keeps_demo_client [keeps_intros]: "keeps (db_inv registry_ok) (ensure_demo_client cfg now pid)"
  unfolding ensure_demo_client_def set_client_def by (intro keeps_intros)

lemma registry_keeps_demo_key [keeps_intros]: "keeps (db_inv registry_ok) (ensure_demo_key kdf now cid token salt)"
  unfolding ensure_demo_key_def by (intro keeps_intros)

lemma keeps_wp: "keeps I m \<Longrightarrow> I w \<Longrightarrow> (\<And>t. I t \<Longrightarrow> J t) \<Longrightarrow> wp (\<lambda>_. J) (\<lambda>_. J) m w"
  using keepsD [of I m w] by (intro wpI) auto

lemma seqE_seqE: "seqE (seqE m k) l = seqE m (seqE k l)"
  by (simp add: seqE_def bindE_assoc)

lemma safe_seed:
  fixes w :: "'r world"
  assumes "registry_ok (w_db w)" and "registry_ok (w_saved w)" and "between 512 131072 (max_context_tokens cfg)"
  shows "safe (seqE (seed_defaults cfg kdf now token salt) commit) w"
proof -
  let ?saved = "\<lambda>_ t :: 'r world. registry_ok (w_saved t)"
  have rest: "keeps (db_inv registry_ok) (seqE (seqE (ensure_default_billing_plans now) (seqE (ensure_default_pricing_rules now)
      (bindE (query (\<lambda>d. plan_by_code d ''basic'')) (\<lambda>demo_plan. case demo_plan of
         None \<Rightarrow> raise (KeyError ''basic'')
       | Some plan \<Rightarrow> bindE (ensure_demo_client cfg now (p_id plan)) (\<lambda>cid. ensure_demo_key kdf now cid token salt))))) commit)"
    unfolding ensure_default_billing_plans_def ensure_default_pricing_rules_def by (intro keeps_intros)
  show ?thesis
    unfolding safe_def seed_defaults_def seqE_seqE [where m = "ensure_default_model cfg now"] wp_seq [where m = "ensure_default_model cfg now"]
    by (rule wp_ensure_default_model)
      (use assms in \<open>auto simp: registry_ok_def db_inv_def intro!: keeps_wp [OF rest]\<close>)
qed

section \<open>Every step keeps the rows as they should be\<close>

lemma operator_call_safe:
  assumes "operator_call cfg m" and "registry_ok (w_db w)" and "registry_ok (w_saved w)"
    and "between 512 131072 (max_context_tokens cfg)"
  shows "safe m w"
  using assms(1)
proof cases
  case backends_listed then show ?thesis using safe_list_backends [OF assms(2,3)] by simp
next
  case backend_created then show ?thesis using safe_create_backend [OF assms(2,3)] by simp
next
  case backend_patched then show ?thesis using safe_patch_backend [OF assms(2,3)] by simp
next
  case container_moved then show ?thesis using safe_run_backend_action [OF assms(2,3)] by simp
next
  case models_listed then show ?thesis using safe_get_models [OF assms(2,3)] by simp
next
  case model_created then show ?thesis using safe_create_model [OF assms(2,3)] by simp
next
  case model_patched then show ?thesis using safe_patch_model [OF assms(2,3)] by simp
next
  case template_patched then show ?thesis using safe_patch_prompt_template [OF assms(2,3)] by simp
next
  case default_set then show ?thesis using safe_set_default_model [OF assms(2,3)] by simp
next
  case model_enabled then show ?thesis using safe_enable_model [OF assms(2,3)] by simp
next
  case model_disabled then show ?thesis using safe_disable_model [OF assms(2,3)] by simp
next
  case model_deleted then show ?thesis using safe_delete_model [OF assms(2,3)] by simp
next
  case route_created then show ?thesis using safe_create_model_route [OF assms(2,3)] by simp
next
  case route_patched then show ?thesis using safe_patch_route [OF assms(2,3)] by simp
next
  case route_deleted then show ?thesis using safe_delete_model_route [OF assms(2,3)] by simp
next
  case models_reloaded then show ?thesis using safe_reload_models [OF assms(2-4)] by simp
qed

lemma handled_safe:
  assumes "handle m w = (r, t)" and "safe m w"
  shows "registry_ok (w_saved t) \<and> w_db t = w_saved t"
  using wp_handle_saved [OF assms(2) [unfolded safe_def]] assms(1) handle_saved [of m w] handle_db [of m w] by simp

lemma handled_keeps_registry:
  assumes "handle m w = (r, t)" and "keeps (db_inv registry_ok) m" and "registry_ok (w_saved w)" and "w_db w = w_saved w"
  shows "registry_ok (w_saved t) \<and> w_db t = w_saved t"
  by (rule handled_safe [OF assms(1)])
    (use assms(3,4) in \<open>auto simp: safe_def db_inv_def intro!: keeps_wp [OF assms(2)]\<close>)

lemma registry_ok_running: "registry_ok d \<Longrightarrow> registry_ok (set_running now bid f d)"
  by (rule registry_ok_backends [where d = d and P = "\<lambda>b. b_id b = bid"
        and f = "\<lambda>b. b\<lparr>b_current_running := f (b_current_running b), b_updated_at := now\<rparr>"])
    (auto simp: set_running_def registry_ok_def rows_typed_def backend_typed_def)

lemma registry_keeps_slots:
  "keeps (db_inv registry_ok) (try_acquire now bid)" "keeps (db_inv registry_ok) (release now bid)"
  unfolding try_acquire_def release_def
  by (auto intro!: keeps_own_session simp: try_acquire_db_def release_db_def registry_ok_running split: option.splits)

lemma registry_step_ok:
  assumes "registry_step cfg w t" and "registry_ok (w_saved w)" and "w_db w = w_saved w"
    and "between 512 131072 (max_context_tokens cfg)"
  shows "registry_ok (w_saved t) \<and> w_db t = w_saved t"
  using assms(1)
proof cases
  case (called m r)
  then show ?thesis using operator_call_safe [OF called(1), of w] assms by (intro handled_safe) auto
next
  case started
  then show ?thesis using safe_seed [of w] assms by (intro handled_safe) auto
next
  case slot_taken
  then show ?thesis by (rule handled_keeps_registry) (use assms registry_keeps_slots in auto)
next
  case slot_returned
  then show ?thesis by (rule handled_keeps_registry) (use assms registry_keeps_slots in auto)
next
  case elsewhere
  then show ?thesis using assms(2) by (auto intro: registry_ok_cong)
qed

lemma registry_steps_ok:
  assumes "(registry_step cfg)\<^sup>*\<^sup>* w t" and "registry_ok (w_saved w)" and "w_db w = w_saved w"
    and "between 512 131072 (max_context_tokens cfg)"
  shows "registry_ok (w_saved t) \<and> w_db t = w_saved t"
  using assms by (induction rule: rtranclp_induct) (blast dest: registry_step_ok)+

section \<open>Types and defaults\<close>

text \<open>
  C34. The rows of the registries are well typed at all times: whatever operators, requests and starts of the service
  do, in any order, a model names a supported provider, a context window between 512 and 131072 tokens
  and, if any, a backend that exists; a backend names a supported provider and between 1 and 64 parallel
  requests; a route joins a model and a backend that exist, the two only once, and its priority, weight and
  state are of their ranges.
\<close>

theorem registry_rows_well_typed:
  assumes "(registry_step cfg)\<^sup>*\<^sup>* w t" and "registry_ok (w_saved w)" and "w_db w = w_saved w"
    and "between 512 131072 (max_context_tokens cfg)"
  shows "(\<forall>m\<in>set (models (w_saved t)). m_provider m \<in> set SUPPORTED_BACKENDS \<and> between 512 131072 (m_context_length m) \<and>
       (\<forall>bid. m_inference_backend_id m = Some bid \<longrightarrow> backend_of (w_saved t) bid \<noteq> None)) \<and>
     (\<forall>b\<in>set (backends (w_saved t)). b_provider b \<in> set SUPPORTED_BACKENDS \<and> between 1 64 (b_max_parallel_requests b)) \<and>
     (\<forall>r\<in>set (routes (w_saved t)). get_model_by_id (w_saved t) (r_model_registry_id r) \<noteq> None \<and>
       backend_of (w_saved t) (r_inference_backend_id r) \<noteq> None \<and> between 1 10000 (r_priority r) \<and>
       between 1 10000 (r_weight r) \<and> valid_state (r_state r)) \<and>
     distinct (map route_ends (routes (w_saved t)))"
proof -
  have found: "backend_of d bid \<noteq> None \<longleftrightarrow> bid \<in> b_id ` set (backends d)"
    "get_model_by_id d mid \<noteq> None \<longleftrightarrow> mid \<in> m_id ` set (models d)" for d bid mid
    by (auto simp: backend_of_def get_model_by_id_def find_None_iff)
  have "registry_ok (w_saved t)" using registry_steps_ok [OF assms] by simp
  then show ?thesis
    unfolding found
    by (auto simp: registry_ok_def rows_typed_def routes_unique_def backend_typed_def route_typed_def model_typed_def
        known_backend_def route_joins_def)
qed

text \<open>
  C35. There is never more than one default model. Each handler clears the others before it sets one, the
  built-in entry clears them after it has set its own, and what is committed in between has one at most.
\<close>

theorem at_most_one_default_model:
  assumes "(registry_step cfg)\<^sup>*\<^sup>* w t" and "registry_ok (w_saved w)" and "w_db w = w_saved w"
    and "between 512 131072 (max_context_tokens cfg)"
  shows "length (filter m_is_default (models (w_saved t))) \<le> 1"
proof -
  let ?rows = "filter m_is_default (models (w_saved t))"
  have ok: "registry_ok (w_saved t)" using registry_steps_ok [OF assms] by simp
  then obtain k where "\<forall>m\<in>set (models (w_saved t)). m_is_default m \<longrightarrow> m_id m = k"
    unfolding registry_ok_def one_default_def by blast
  then have "set (map m_id ?rows) \<subseteq> {k}" by auto
  moreover have "distinct (map m_id ?rows)" using ok by (simp add: registry_ok_def rows_typed_def distinct_map_filter)
  ultimately have "length (map m_id ?rows) \<le> card {k}"
    by (metis card_mono distinct_card finite.emptyI finite.insertI)
  then show ?thesis by simp
qed

section \<open>Deleting a model\<close>

lemma resolved_is_routed:
  assumes "resolve_requested_model rp d c name = Inr (m, n)"
  shows "m \<in> set (models d) \<and> m_is_active m"
proof -
  have "m \<in> set (list_active_registry_models d)"
    using assms unfolding resolve_requested_model_def Let_def
    by (auto split: if_splits option.splits dest: find_Some_set)
  then show ?thesis by (simp add: list_active_registry_models_def)
qed

lemma find_by_key: "distinct (map k xs) \<Longrightarrow> x \<in> set xs \<Longrightarrow> List.find (\<lambda>y. k y = k x) xs = Some x"
  by (induction xs) (auto simp: rev_image_eqI)

definition deleted_softly :: "model_delete \<Rightarrow> int \<Rightarrow> bool" where
  "deleted_softly q request_count \<longleftrightarrow> md_mode q = ''soft'' \<or> md_mode q = ''auto'' \<and> request_count \<noteq> 0"

text \<open>The rows after an answered deletion of the model \<open>m\<close>, with the event \<open>ev\<close> it writes.\<close>

definition rows_without :: "timestamp \<Rightarrow> bool \<Rightarrow> model \<Rightarrow> security_event \<Rightarrow> db \<Rightarrow> db" where
  "rows_without now softly m ev d = d\<lparr>routes := filter (\<lambda>r. r_model_registry_id r \<noteq> m_id m) (routes d),
     models := (if softly then upd_where (\<lambda>x. m_id x = m_id m) (\<lambda>_. archive_model_identity now m) (models d)
       else filter (\<lambda>x. m_id x \<noteq> m_id m) (models d)),
     next_id := Suc (next_id d), security_events := security_events d @ [ev]\<rparr>"

lemma wp_log_event_row:
  assumes "\<And>ev ms. e_event_type ev = ev_type x \<Longrightarrow> e_client_id ev = ev_client_id x \<Longrightarrow> e_id ev = next_id (w_db w) \<Longrightarrow>
    Q () (w\<lparr>w_db := (w_db w)\<lparr>next_id := Suc (next_id (w_db w)), security_events := security_events (w_db w) @ [ev]\<rparr>,
      w_metrics := ms\<rparr>)"
  shows "wp Q E (log_security_event now x) w"
  unfolding log_security_event_def by (simp add: wp_def seqE_def bindE_def) (intro conjI impI assms; simp)

definition deletion_end :: "timestamp \<Rightarrow> uuid \<Rightarrow> model_delete \<Rightarrow> db \<Rightarrow> 'r world \<Rightarrow> bool" where
  "deletion_end now mid q d t \<longleftrightarrow> (\<exists>m ev. m \<in> set (models d) \<and> m_id m = mid \<and> \<not> m_is_default m \<and>
     (model_routes d m \<noteq> [] \<longrightarrow> md_confirm_route_removal q) \<and>
     (md_mode q \<in> {''hard'', ''register-only''} \<longrightarrow> request_count_of d m = 0) \<and>
     e_event_type ev = ''admin_model_deleted'' \<and>
     w_saved t = rows_without now (deleted_softly q (request_count_of d m)) m ev d)"

lemma deletion_endI:
  "m \<in> set (models d) \<Longrightarrow> m_id m = mid \<Longrightarrow> \<not> m_is_default m \<Longrightarrow>
   (model_routes d m \<noteq> [] \<longrightarrow> md_confirm_route_removal q) \<Longrightarrow>
   (md_mode q \<in> {''hard'', ''register-only''} \<longrightarrow> request_count_of d m = 0) \<Longrightarrow>
   e_event_type ev = ''admin_model_deleted'' \<Longrightarrow>
   w_saved t = rows_without now (deleted_softly q (request_count_of d m)) m ev d \<Longrightarrow> deletion_end now mid q d t"
  unfolding deletion_end_def by blast

lemma delete_model_done: "wp (\<lambda>_. deletion_end now mid q (w_db w)) (\<lambda>_ _. True) (delete_model now mid q) w"
  unfolding delete_model_def wp_bind
proof (rule wp_the_model, goal_cases)
  case (1 m)
  have written: "wp (\<lambda>_. wp (\<lambda>_. deletion_end now mid q (w_db w)) (\<lambda>_ _. True) (seqE commit (ret x))) (\<lambda>_ _. True)
      (log_security_event now (admin_event ''admin_model_deleted'' severity title details))
      (w\<lparr>w_db := (w_db w)\<lparr>routes := filter (\<lambda>r. r_model_registry_id r \<noteq> mid) (routes (w_db w)), models := ms\<rparr>\<rparr>)"
    if "\<not> m_is_default m" "model_routes (w_db w) m \<noteq> [] \<longrightarrow> md_confirm_route_removal q"
      "md_mode q \<in> {''hard'', ''register-only''} \<longrightarrow> request_count_of (w_db w) m = 0"
      "ms = (if deleted_softly q (request_count_of (w_db w) m)
        then upd_where (\<lambda>x. m_id x = mid) (\<lambda>_. archive_model_identity now m) (models (w_db w))
        else filter (\<lambda>x. m_id x \<noteq> mid) (models (w_db w)))"
    for x severity title details ms
    by (rule wp_log_event_row, simp add: wp_simps, rule deletion_endI [of m])
      (use 1 that in \<open>simp_all add: rows_without_def admin_event_def, intro conjI impI refl\<close>)
  show ?case
    using 1 by (simp add: wp_simps remove_model_routes_def drop_model_def set_model_def Let_def)
      (intro conjI impI written; auto simp: deleted_softly_def)
qed simp

text \<open>
  C36. Deleting a model withdraws it and does nothing else. An answered deletion was not of the default
  model; it was confirmed where the model had routes, and not a hard one where it had requests in the log. It has
  removed the routes of this model and no others; the model itself, or, when the deletion is a soft one or an
  automatic one of a model with requests in the log, has put the archived row in its place; and
  written one security event. Every other row of every table is as it was. No client gets the model
  any more, whatever it asks for.
\<close>

theorem deletion_withdraws_the_model:
  fixes w t :: "'r world"
  assumes "handle (delete_model now mid q) w = (Inr answer, t)" and "distinct (map m_id (models (w_db w)))"
  shows "(\<forall>rp c name m n. resolve_requested_model rp (w_saved t) c name = Inr (m, n) \<longrightarrow> m_id m \<noteq> mid) \<and>
     (\<exists>m ev. get_model_by_id (w_db w) mid = Some m \<and> \<not> m_is_default m \<and>
       ((\<exists>r\<in>set (routes (w_db w)). r_model_registry_id r = mid) \<longrightarrow> md_confirm_route_removal q) \<and>
       (md_mode q \<in> {''hard'', ''register-only''} \<longrightarrow> request_count_of (w_db w) m = 0) \<and>
       e_event_type ev = ''admin_model_deleted'' \<and>
       w_saved t = (w_db w)\<lparr>routes := filter (\<lambda>r. r_model_registry_id r \<noteq> mid) (routes (w_db w)),
         models := (if md_mode q = ''soft'' \<or> md_mode q = ''auto'' \<and> request_count_of (w_db w) m \<noteq> 0
           then map (\<lambda>x. if m_id x = mid then archive_model_identity now m else x) (models (w_db w))
           else filter (\<lambda>x. m_id x \<noteq> mid) (models (w_db w))),
         next_id := Suc (next_id (w_db w)), security_events := security_events (w_db w) @ [ev]\<rparr>)"
proof -
  obtain u where run: "delete_model now mid q w = (Inr answer, u)" and u: "w_saved t = w_saved u"
    using assms(1) by (auto simp: handle_def split: prod.splits)
  obtain m ev where m: "m \<in> set (models (w_db w))" "m_id m = mid" "\<not> m_is_default m"
    and guards: "model_routes (w_db w) m \<noteq> [] \<longrightarrow> md_confirm_route_removal q"
      "md_mode q \<in> {''hard'', ''register-only''} \<longrightarrow> request_count_of (w_db w) m = 0"
    and ev: "e_event_type ev = ''admin_model_deleted''"
    and rows: "w_saved t = rows_without now (deleted_softly q (request_count_of (w_db w) m)) m ev (w_db w)"
    using wpD [OF delete_model_done run] u by (auto simp: deletion_end_def)
  have found: "get_model_by_id (w_db w) mid = Some m"
    unfolding get_model_by_id_def using find_by_key [OF assms(2) m(1)] m(2) by simp
  have "\<not> m_is_active (archive_model_identity now m)" by (simp add: archive_model_identity_def Let_def)
  then have inactive: "\<not> m_is_active x" if "x \<in> set (models (w_saved t))" "m_id x = mid" for x
    using that m(2) by (auto simp: rows rows_without_def upd_where_def split: if_splits)
  have "m_id x \<noteq> mid" if "resolve_requested_model rp (w_saved t) c name = Inr (x, n)" for rp c name x n
    using inactive resolved_is_routed [OF that] by blast
  moreover have "(\<exists>r\<in>set (routes (w_db w)). r_model_registry_id r = mid) \<longrightarrow> md_confirm_route_removal q"
    using guards(1) m(2) by (auto simp: model_routes_def filter_empty_conv)
  moreover have "w_saved t = (w_db w)\<lparr>routes := filter (\<lambda>r. r_model_registry_id r \<noteq> mid) (routes (w_db w)),
      models := (if md_mode q = ''soft'' \<or> md_mode q = ''auto'' \<and> request_count_of (w_db w) m \<noteq> 0
        then map (\<lambda>x. if m_id x = mid then archive_model_identity now m else x) (models (w_db w))
        else filter (\<lambda>x. m_id x \<noteq> mid) (models (w_db w))),
      next_id := Suc (next_id (w_db w)), security_events := security_events (w_db w) @ [ev]\<rparr>"
    unfolding rows rows_without_def deleted_softly_def m(2) upd_where_def by simp
  ultimately show ?thesis
    using found m(3) guards(2) ev by blast
qed

section \<open>Witnesses\<close>

text \<open>An empty database, loaded with the defaults; then the second model becomes the default.\<close>

definition registry_start :: "unit world" where
  "registry_start = snd (handle (reload_models (default_settings [] []) 5) (example_world empty_db))"

definition registry_moved :: "unit world" where
  "registry_moved = snd (handle (set_default_model 6 7) registry_start)"

lemma registry_moved_reached: "(registry_step (default_settings [] []))\<^sup>*\<^sup>* (example_world empty_db) registry_moved"
proof -
  have call: "registry_step cfg w (snd (handle m w))" if "operator_call cfg m" for cfg m and w :: "unit world"
    by (rule called [OF that, where r = "fst (handle m w)"]) simp
  have "registry_step (default_settings [] []) (example_world empty_db) registry_start"
    unfolding registry_start_def by (rule call) (rule models_reloaded)
  moreover have "registry_step (default_settings [] []) registry_start registry_moved"
    unfolding registry_moved_def by (rule call) (rule default_set)
  ultimately show ?thesis by (meson converse_rtranclp_into_rtranclp r_into_rtranclp)
qed

lemma registry_start_ok:
  "registry_ok (w_saved (example_world empty_db))" "w_db (example_world empty_db) = w_saved (example_world empty_db)"
  "between 512 131072 (max_context_tokens (default_settings [] []))"
  by (simp_all add: registry_ok_def rows_typed_def routes_unique_def one_default_def example_defs between_def)

theorem registry_rows_well_typed_witness:
  "distinct (map route_ends (routes (w_saved registry_moved))) \<and>
   map (\<lambda>m. (m_id m, m_context_length m)) (models (w_saved registry_moved)) = [(4, 32768), (7, 32768), (9, 32768)]"
proof
  show "distinct (map route_ends (routes (w_saved registry_moved)))"
    using registry_rows_well_typed [OF registry_moved_reached registry_start_ok] by blast
  show "map (\<lambda>m. (m_id m, m_context_length m)) (models (w_saved registry_moved)) = [(4, 32768), (7, 32768), (9, 32768)]"
    by code_simp
qed

theorem at_most_one_default_model_witness:
  "length (filter m_is_default (models (w_saved registry_moved))) \<le> 1 \<and>
   map m_is_default (models (w_saved registry_moved)) = [False, True, False]"
proof
  show "length (filter m_is_default (models (w_saved registry_moved))) \<le> 1"
    by (rule at_most_one_default_model [OF registry_moved_reached registry_start_ok])
  show "map m_is_default (models (w_saved registry_moved)) = [False, True, False]"
    by code_simp
qed

definition confirmed_delete :: model_delete where
  "confirmed_delete = \<lparr>md_confirm_route_removal = True, md_mode = ''auto''\<rparr>"

theorem deletion_withdraws_the_model_witness:
  "get_model_by_id (w_saved (snd (handle (delete_model 8 4 confirmed_delete) registry_moved))) 4 = None \<and>
   get_model_by_id (w_saved registry_moved) 4 \<noteq> None"
proof -
  let ?run = "handle (delete_model 8 4 confirmed_delete) registry_moved"
  have ok: "isl (fst ?run) = False" by code_simp
  then obtain answer where "fst ?run = Inr answer" by (cases "fst ?run") auto
  then have run: "?run = (Inr answer, snd ?run)" by (metis prod.collapse)
  have "distinct (map m_id (models (w_db registry_moved)))" by code_simp
  from deletion_withdraws_the_model [OF run this]
  obtain m ev where m: "get_model_by_id (w_db registry_moved) 4 = Some m"
    and gone: "models (w_saved (snd ?run)) =
      (if md_mode confirmed_delete = ''soft'' \<or> md_mode confirmed_delete = ''auto'' \<and> request_count_of (w_db registry_moved) m \<noteq> 0
       then map (\<lambda>x. if m_id x = 4 then archive_model_identity 8 m else x) (models (w_db registry_moved))
       else filter (\<lambda>x. m_id x \<noteq> 4) (models (w_db registry_moved)))" by auto
  have logs: "request_logs (w_saved registry_moved) = []" by code_simp
  have "w_db registry_moved = w_saved registry_moved" unfolding registry_moved_def by (simp add: handle_db handle_saved)
  then show ?thesis using m gone by (simp add: request_count_of_def logs confirmed_delete_def get_model_by_id_def find_None_iff)
qed

end
