(* ===== verification/Processes.thy ===== *)
theory Processes
  imports RegistrySteps AsyncAnswers
begin

text \<open>
  The processes: the lines they log (\<open>core/logging.py\<close>), the start of the control plane (\<open>main.py\<close>) and the worker with its loop
  (\<open>workers/generation_worker.py\<close>). Both write the defaults before anything else; what a start finds already
  written it leaves alone.
\<close>

section \<open>Log lines (\<open>core/logging.py\<close>)\<close>

text \<open>
  What the formatter reads of a log record: the text of the message and of the time are there, the extra
  data are those given to the call, the exception is the text of its traceback.
\<close>

record log_record =
  lr_levelname :: string
  lr_name :: string
  lr_message :: string
  lr_time :: string
  lr_extra_data :: "dict option"
  lr_exception :: "string option"

definition format_record :: "string \<Rightarrow> log_record \<Rightarrow> jtext" where
  "format_record correlation_id record_in =
     (let payload = [(''level'', JStr (lr_levelname record_in)), (''logger'', JStr (lr_name record_in)),
            (''message'', JStr (lr_message record_in)), (''time'', JStr (lr_time record_in))];
          payload = (if correlation_id = [] then payload else dict_set ''correlation_id'' (JStr correlation_id) payload);
          payload = (case lr_extra_data record_in of None \<Rightarrow> payload
            | Some extra \<Rightarrow> foldl (\<lambda>d (k, v). dict_set k v d) payload extra);
          payload = (case lr_exception record_in of None \<Rightarrow> payload
            | Some trace \<Rightarrow> dict_set ''exception'' (JStr trace) payload) in
      dumps (JObj payload))"

section \<open>The processes\<close>

definition lifespan_startup ::
  "settings \<Rightarrow> (string \<Rightarrow> string \<Rightarrow> string) \<Rightarrow> timestamp \<Rightarrow> string \<Rightarrow> string \<Rightarrow> ('r, unit) act" where
  "lifespan_startup cfg kdf now token salt = handle (seqE (seed_defaults cfg kdf now token salt) commit)"

definition control_plane_start ::
  "settings \<Rightarrow> (string \<Rightarrow> string \<Rightarrow> string) \<Rightarrow> timestamp \<Rightarrow> string \<Rightarrow> string \<Rightarrow> ('r, unit) act" where
  "control_plane_start cfg kdf now token salt =
     seqE (liftE (validate_runtime_security cfg)) (lifespan_startup cfg kdf now token salt)"

definition worker_main ::
  "settings \<Rightarrow> (string \<Rightarrow> string \<Rightarrow> string) \<Rightarrow> timestamp \<Rightarrow> string \<Rightarrow> string \<Rightarrow>
   ('r env \<times> timestamp \<times> (nat \<Rightarrow> 'r world \<Rightarrow> 'r world)) list \<Rightarrow> ('r, unit) act" where
  "worker_main cfg kdf now token salt turns =
     seqE (handle (seqE (seed_defaults cfg kdf now token salt) commit)) (worker_turns turns)"

section \<open>Rows the start leaves alone\<close>

text \<open>What the rows must look like, step by step.\<close>

definition backend_settled :: "db \<Rightarrow> backend_payload \<Rightarrow> uuid \<Rightarrow> bool" where
  "backend_settled d p bid \<longleftrightarrow> (\<exists>b. backend_by_name d (bp_name p) = Some b \<and> b_id b = bid) \<and>
     (\<forall>b\<in>set (backends d). b_id b = bid \<longrightarrow> apply_backend p b = b)"

definition route_settled :: "db \<Rightarrow> int \<Rightarrow> uuid \<Rightarrow> uuid \<Rightarrow> bool" where
  "route_settled d priority mid bid \<longleftrightarrow> (\<exists>r. filter (route_between mid bid) (routes d) = [r] \<and>
     (\<forall>x\<in>set (routes d). r_id x = r_id r \<longrightarrow> r_priority x = priority \<and> r_weight x = 100 \<and>
        (r_state x = ''disabled'') = (case backend_of d bid of None \<Rightarrow> True | Some b \<Rightarrow> \<not> b_is_active b)))"

definition entry_settled ::
  "settings \<Rightarrow> db \<Rightarrow> string \<Rightarrow> string \<Rightarrow> string \<Rightarrow> uuid \<Rightarrow> bool \<Rightarrow> bool \<Rightarrow> jtext \<Rightarrow> uuid \<Rightarrow> bool" where
  "entry_settled cfg d the_id alias file bid is_default is_active metadata mid \<longleftrightarrow>
     (\<exists>m. filter (\<lambda>m. m_model_id m = the_id \<or> m_model_alias m = Some alias) (models d) = [m] \<and> m_id m = mid) \<and>
     (\<forall>m\<in>set (models d). m_id m = mid \<longrightarrow> m_model_alias m = Some alias \<and> m_inference_backend_id m = Some bid \<and>
        m_provider m = ''llama.cpp'' \<and> m_model_file m = file \<and> m_context_length m = max_context_tokens cfg \<and>
        m_is_default m = is_default \<and> m_is_active m = is_active \<and>
        m_status m = (if is_active then ''configured'' else ''optional-disabled'') \<and>
        m_prompt_template m = detect_prompt_template the_id file (Some alias) (Some metadata) \<and>
        m_metadata_json m = Some metadata) \<and>
     route_settled d 1 mid bid"

lemma ensure_backend_settled: "backend_settled (w_db w) p bid \<Longrightarrow> ensure_backend now p w = (Inr bid, w)"
  by (auto simp: backend_settled_def ensure_backend_def bindE_apply seqE_apply upd_where_id)

lemma ensure_route_settled: "route_settled (w_db w) priority mid bid \<Longrightarrow> ensure_route now priority mid bid w = (Inr (), w)"
proof -
  assume s: "route_settled (w_db w) priority mid bid"
  then obtain r where r: "filter (route_between mid bid) (routes (w_db w)) = [r]" by (auto simp: route_settled_def)
  have "upd_where (\<lambda>x. r_id x = r_id r) (\<lambda>x. x\<lparr>r_priority := priority, r_weight := 100,
      r_state := (if \<not> (case backend_of (w_db w) bid of None \<Rightarrow> False | Some b \<Rightarrow> b_is_active b) then ''disabled''
        else if r_state x = ''disabled'' then ''healthy'' else r_state x)\<rparr>) (routes (w_db w)) = routes (w_db w)"
  proof (rule upd_where_id)
    fix x assume "x \<in> set (routes (w_db w))" "r_id x = r_id r"
    with s r have "r_priority x = priority \<and> r_weight x = 100 \<and>
        (r_state x = ''disabled'') = (case backend_of (w_db w) bid of None \<Rightarrow> True | Some b \<Rightarrow> \<not> b_is_active b)"
      by (auto simp: route_settled_def)
    then show "x\<lparr>r_priority := priority, r_weight := 100,
      r_state := (if \<not> (case backend_of (w_db w) bid of None \<Rightarrow> False | Some b \<Rightarrow> b_is_active b) then ''disabled''
        else if r_state x = ''disabled'' then ''healthy'' else r_state x)\<rparr> = x"
      by (cases x) (auto split: option.splits)
  qed
  with r show ?thesis by (simp add: ensure_route_def bindE_apply)
qed

lemma ensure_entry_settled:
  assumes "entry_settled cfg (w_db w) the_id alias file bid is_default is_active metadata mid"
  shows "ensure_model_entry cfg now the_id alias file bid is_default is_active metadata w = (Inr mid, w)"
proof -
  let ?d = "w_db w" and ?f = "\<lambda>x. x\<lparr>m_model_alias := Some alias, m_inference_backend_id := Some bid,
     m_provider := ''llama.cpp'', m_model_file := file, m_context_length := max_context_tokens cfg,
     m_is_default := is_default, m_is_active := is_active,
     m_status := (if is_active then ''configured'' else ''optional-disabled''),
     m_prompt_template := detect_prompt_template the_id file (Some alias) (Some metadata), m_metadata_json := Some metadata\<rparr>"
  obtain m where m: "filter (\<lambda>m. m_model_id m = the_id \<or> m_model_alias m = Some alias) (models ?d) = [m]" "m_id m = mid"
    using assms by (auto simp: entry_settled_def)
  have "upd_where (\<lambda>x. m_id x = mid) ?f (models ?d) = models ?d"
  proof (rule upd_where_id)
    fix x assume "x \<in> set (models ?d)" "m_id x = mid"
    with assms show "?f x = x" unfolding entry_settled_def by (cases x) auto
  qed
  moreover have "ensure_default_route now mid bid w = (Inr (), w)"
    unfolding ensure_default_route_def using assms by (intro ensure_route_settled) (simp add: entry_settled_def)
  ultimately show ?thesis
    using m by (simp add: ensure_model_entry_def bindE_apply seqE_apply Let_def)
qed

lemma ensure_plan_settled:
  assumes "plan_by_code (w_db w) (pp_code payload) \<noteq> None"
    and "\<forall>p\<in>set (billing_plans (w_db w)). p_code p = pp_code payload \<longrightarrow> apply_plan payload p = p"
    and "\<forall>p\<in>set (billing_plans (w_db w)). p_name p = pp_name payload \<longrightarrow> p_code p = pp_code payload"
  shows "ensure_default_plan now payload w = (Inr (), w)"
  using assms by (auto simp: ensure_default_plan_def bindE_apply upd_where_id)

lemma ensure_rule_settled:
  assumes "plan_by_code (w_db w) code = Some p"
    and "List.find (\<lambda>r. pr_is_active r \<and> pr_billing_plan_id r = p_id p) (rev (pricing_rules (w_db w))) = Some r"
    and "\<forall>x\<in>set (pricing_rules (w_db w)). pr_id x = pr_id r \<longrightarrow> pr_currency x = rp_currency payload \<and>
       pr_monthly_price x = rp_monthly_price payload \<and>
       pr_overage_price_per_1k_tokens x = rp_overage_price_per_1k_tokens payload \<and>
       pr_description x = Some (rp_description payload)"
  shows "ensure_default_rule now (code, payload) w = (Inr (), w)"
proof -
  have "upd_where (\<lambda>x. pr_id x = pr_id r) (\<lambda>x. x\<lparr>pr_currency := rp_currency payload,
      pr_monthly_price := rp_monthly_price payload, pr_overage_price_per_1k_tokens := rp_overage_price_per_1k_tokens payload,
      pr_description := Some (rp_description payload)\<rparr>) (pricing_rules (w_db w)) = pricing_rules (w_db w)"
  proof (rule upd_where_id)
    fix x assume "x \<in> set (pricing_rules (w_db w))" "pr_id x = pr_id r"
    with assms(3) show "x\<lparr>pr_currency := rp_currency payload, pr_monthly_price := rp_monthly_price payload,
      pr_overage_price_per_1k_tokens := rp_overage_price_per_1k_tokens payload,
      pr_description := Some (rp_description payload)\<rparr> = x" by (cases x) auto
  qed
  with assms(1,2) show ?thesis by (simp add: ensure_default_rule_def bindE_apply)
qed

text \<open>The whole start, over rows that are settled.\<close>

definition backends_settled :: "settings \<Rightarrow> db \<Rightarrow> uuid list \<Rightarrow> bool" where
  "backends_settled cfg d ids \<longleftrightarrow> list_all2 (backend_settled d) (default_backend_payloads cfg) ids \<and>
     (\<forall>b\<in>set (backends d). b_id b \<in> set ids \<longrightarrow> b_is_default b = (b_id b = hd ids))"

lemma forE_settled: "list_all2 (\<lambda>x y. f x w = (Inr y, w)) xs ys \<Longrightarrow> forE xs f w = (Inr ys, w)"
  by (induction xs ys rule: list_all2_induct) (auto simp: bindE_Inr ret_def)

lemma ensure_backends_settled:
  assumes "backends_settled cfg (w_db w) ids"
  shows "ensure_default_backends cfg now w = (Inr (zip (map bp_name (default_backend_payloads cfg)) ids), w)"
proof -
  have "list_all2 (\<lambda>p y. ensure_backend now p w = (Inr y, w)) (default_backend_payloads cfg) ids"
    using assms by (auto simp: backends_settled_def intro: ensure_backend_settled elim: list_all2_mono)
  then have "forE (default_backend_payloads cfg) (ensure_backend now) w = (Inr ids, w)" by (rule forE_settled)
  moreover have "upd_where (\<lambda>b. b_id b \<in> set ids) (\<lambda>b. b\<lparr>b_is_default := (b_id b = hd ids)\<rparr>) (backends (w_db w)) = backends (w_db w)"
    using assms by (intro upd_where_id) (auto simp: backends_settled_def)
  ultimately show ?thesis by (simp add: ensure_default_backends_def bindE_apply seqE_apply Let_def)
qed

definition gemma_metadata :: jtext where
  "gemma_metadata = build_metadata ''Q4_K_M'' ''RTX 4050 6GB'' ''gemma-local'' (Some ''gemma'')"

definition bonsai_metadata :: jtext where
  "bonsai_metadata = build_metadata ''Q4_K_M'' ''RTX 4050 6GB'' ''bonsai-local'' (Some ''qwen3'')"

lemma ensure_model_settled:
  assumes "backends_settled cfg (w_db w) [g, b, l, f]"
    and "backend_of (w_db w) b = Some x" and "b_is_active x = bonsai_enabled cfg"
    and "entry_settled cfg (w_db w) (cfg_model_id cfg) ''gemma'' (cfg_model_file cfg) g True True gemma_metadata m"
    and "route_settled (w_db w) 2 m f"
    and "entry_settled cfg (w_db w) (bonsai_model_id cfg) ''bonsai'' (bonsai_model_file cfg) b False (bonsai_enabled cfg)
      bonsai_metadata n"
    and "entry_settled cfg (w_db w) (bonsai_model_id cfg @ ''/alias-bonzai'') ''bonzai'' (bonsai_model_file cfg) b False
      (bonsai_enabled cfg) bonsai_metadata k"
    and "\<forall>y\<in>set (models (w_db w)). m_is_default y \<longrightarrow> m_id y = m"
  shows "ensure_default_model cfg now w = (Inr m, w)"
proof -
  have "upd_where (\<lambda>y. m_id y \<noteq> m \<and> m_is_default y) (\<lambda>y. y\<lparr>m_is_default := False\<rparr>) (models (w_db w)) = models (w_db w)"
    by (rule upd_where_id) (use assms(8) in blast)
  then show ?thesis
    using assms(2,3) ensure_backends_settled [OF assms(1), of now] ensure_entry_settled [OF assms(4), of now]
      ensure_entry_settled [OF assms(6), of now] ensure_entry_settled [OF assms(7), of now]
      ensure_route_settled [OF assms(5), of now]
    by (simp add: ensure_default_model_def bindE_apply seqE_apply gemma_metadata_def bonsai_metadata_def the_backend_def
        default_backend_payloads_def ensure_fallback_route_def)
qed

lemma ensure_plans_settled:
  assumes "\<forall>e\<in>set DEFAULT_BILLING_PLANS. plan_by_code (w_db w) (pp_code e) \<noteq> None \<and>
    (\<forall>p\<in>set (billing_plans (w_db w)). (p_code p = pp_code e \<longrightarrow> apply_plan e p = p) \<and>
       (p_name p = pp_name e \<longrightarrow> p_code p = pp_code e))"
  shows "ensure_default_billing_plans now w = (Inr (), w)"
proof -
  have "ensure_default_plan now e w = (Inr (), w)" if "e \<in> set DEFAULT_BILLING_PLANS" for e
    by (rule ensure_plan_settled) (use assms that in auto)
  then have "list_all2 (\<lambda>e y. ensure_default_plan now e w = (Inr y, w)) DEFAULT_BILLING_PLANS
      (replicate (length DEFAULT_BILLING_PLANS) ())"
    by (auto simp: list_all2_conv_all_nth)
  then have "forE DEFAULT_BILLING_PLANS (ensure_default_plan now) w = (Inr (replicate (length DEFAULT_BILLING_PLANS) ()), w)"
    by (rule forE_settled)
  then show ?thesis by (simp add: ensure_default_billing_plans_def bindE_apply)
qed

lemma ensure_rules_settled:
  assumes "\<forall>(code, e)\<in>set DEFAULT_PRICING_RULES. \<exists>p r. plan_by_code (w_db w) code = Some p \<and>
    List.find (\<lambda>r. pr_is_active r \<and> pr_billing_plan_id r = p_id p) (rev (pricing_rules (w_db w))) = Some r \<and>
    (\<forall>x\<in>set (pricing_rules (w_db w)). pr_id x = pr_id r \<longrightarrow> pr_currency x = rp_currency e \<and>
       pr_monthly_price x = rp_monthly_price e \<and> pr_overage_price_per_1k_tokens x = rp_overage_price_per_1k_tokens e \<and>
       pr_description x = Some (rp_description e))"
  shows "ensure_default_pricing_rules now w = (Inr (), w)"
proof -
  have "ensure_default_rule now e w = (Inr (), w)" if "e \<in> set DEFAULT_PRICING_RULES" for e
    using assms that by (cases e) (fastforce intro: ensure_rule_settled)
  then have "list_all2 (\<lambda>e y. ensure_default_rule now e w = (Inr y, w)) DEFAULT_PRICING_RULES
      (replicate (length DEFAULT_PRICING_RULES) ())"
    by (auto simp: list_all2_conv_all_nth)
  then have "forE DEFAULT_PRICING_RULES (ensure_default_rule now) w = (Inr (replicate (length DEFAULT_PRICING_RULES) ()), w)"
    by (rule forE_settled)
  then show ?thesis by (simp add: ensure_default_pricing_rules_def bindE_apply)
qed

lemma ensure_demo_settled:
  assumes "filter (\<lambda>c. c_name c = demo_client_name cfg) (clients (w_db w)) = [c]"
    and "\<forall>x\<in>set (clients (w_db w)). c_id x = c_id c \<longrightarrow> demo_settings cfg pid x = x"
  shows "ensure_demo_client cfg now pid w = (Inr (c_id c), w)"
proof -
  have "upd_where (\<lambda>x. c_id x = c_id c) (demo_settings cfg pid) (clients (w_db w)) = clients (w_db w)"
    by (rule upd_where_id) (use assms(2) in blast)
  with assms(1) show ?thesis by (simp add: ensure_demo_client_def bindE_apply seqE_apply set_client_def)
qed

lemma ensure_key_settled:
  assumes "filter (\<lambda>k. k_client_id k = cid \<and> k_name k = ''demo-default'') (api_keys (w_db w)) = [k]"
  shows "ensure_demo_key kdf now cid token salt w = (Inr (), w)"
  using assms by (simp add: ensure_demo_key_def bindE_apply)

section \<open>The rows of a first start\<close>

definition first_route :: "timestamp \<Rightarrow> uuid \<Rightarrow> uuid \<Rightarrow> uuid \<Rightarrow> int \<Rightarrow> bool \<Rightarrow> route" where
  "first_route now rid mid bid priority active = \<lparr>r_id = Some rid, r_model_registry_id = mid,
     r_inference_backend_id = bid, r_priority = priority, r_weight = 100,
     r_state = (if active then ''healthy'' else ''disabled''), r_created_at = now, r_updated_at = now\<rparr>"

definition first_rule :: "timestamp \<Rightarrow> uuid \<Rightarrow> uuid \<Rightarrow> rule_payload \<Rightarrow> pricing_rule" where
  "first_rule now rid pid e = \<lparr>pr_id = rid, pr_billing_plan_id = pid, pr_currency = rp_currency e,
     pr_monthly_price = rp_monthly_price e, pr_overage_price_per_1k_tokens = rp_overage_price_per_1k_tokens e,
     pr_description = Some (rp_description e), pr_is_active = True, pr_created_at = now, pr_updated_at = now\<rparr>"

definition first_models :: "settings \<Rightarrow> timestamp \<Rightarrow> model list" where
  "first_models cfg now = [
     new_model cfg now 4 (cfg_model_id cfg) ''gemma'' (cfg_model_file cfg) 0 True True
       (detect_prompt_template (cfg_model_id cfg) (cfg_model_file cfg) (Some ''gemma'') (Some gemma_metadata)) gemma_metadata,
     new_model cfg now 7 (bonsai_model_id cfg) ''bonsai'' (bonsai_model_file cfg) 1 False (bonsai_enabled cfg)
       (detect_prompt_template (bonsai_model_id cfg) (bonsai_model_file cfg) (Some ''bonsai'') (Some bonsai_metadata)) bonsai_metadata,
     new_model cfg now 9 (bonsai_model_id cfg @ ''/alias-bonzai'') ''bonzai'' (bonsai_model_file cfg) 1 False (bonsai_enabled cfg)
       (detect_prompt_template (bonsai_model_id cfg @ ''/alias-bonzai'') (bonsai_model_file cfg) (Some ''bonzai'') (Some bonsai_metadata))
       bonsai_metadata]"

definition first_registry :: "settings \<Rightarrow> timestamp \<Rightarrow> db" where
  "first_registry cfg now = empty_db\<lparr>next_id := 11,
     models := first_models cfg now,
     backends := map2 (new_backend now) [0, 1, 2, 3] (default_backend_payloads cfg),
     routes := [first_route now 5 4 0 1 True, first_route now 6 4 3 2 False,
       first_route now 8 7 1 1 (bonsai_enabled cfg), first_route now 10 9 1 1 (bonsai_enabled cfg)]\<rparr>"

lemma first_backends:
  assumes "w_db w = empty_db"
  shows "ensure_default_backends cfg now w =
    (Inr [(''gemma-local'', 0), (''bonsai-local'', 1), (''ollama-local'', 2), (''fallback-local'', 3)],
     w\<lparr>w_db := empty_db\<lparr>next_id := 4, backends := map2 (new_backend now) [0, 1, 2, 3] (default_backend_payloads cfg)\<rparr>\<rparr>)"
  using assms
  by (simp add: ensure_default_backends_def default_backend_payloads_def ensure_backend_def bindE_apply seqE_apply Let_def
      backend_by_name_def empty_db_def new_backend_def upd_where_def numeral_eq_Suc)

lemma first_model:
  assumes "w_db w = empty_db" and "cfg_model_id cfg \<noteq> bonsai_model_id cfg"
    and "cfg_model_id cfg \<noteq> bonsai_model_id cfg @ ''/alias-bonzai''"
  shows "ensure_default_model cfg now w = (Inr 4, w\<lparr>w_db := first_registry cfg now\<rparr>)"
  using assms(2,3)
  by (simp add: ensure_default_model_def first_backends [OF assms(1)] the_backend_def bindE_apply seqE_apply
      backend_of_def default_backend_payloads_def new_backend_def ensure_model_entry_def ensure_default_route_def
      ensure_fallback_route_def ensure_route_def Let_def empty_db_def route_between_def upd_where_def new_model_def
      first_registry_def first_models_def first_route_def gemma_metadata_def bonsai_metadata_def)

definition first_plans :: "timestamp \<Rightarrow> billing_plan list" where
  "first_plans now = map2 (new_plan now) [11, 12, 13, 14] DEFAULT_BILLING_PLANS"

definition first_rules :: "timestamp \<Rightarrow> pricing_rule list" where
  "first_rules now = map2 (\<lambda>(rid, pid) (code, e). first_rule now rid pid e)
     [(15, 11), (16, 12), (17, 13), (18, 14)] DEFAULT_PRICING_RULES"

definition first_db ::
  "settings \<Rightarrow> (string \<Rightarrow> string \<Rightarrow> string) \<Rightarrow> timestamp \<Rightarrow> string \<Rightarrow> string \<Rightarrow> db" where
  "first_db cfg kdf now token salt = (first_registry cfg now)\<lparr>next_id := 21, billing_plans := first_plans now,
     pricing_rules := first_rules now, clients := [demo_client cfg now 19 12],
     api_keys := [demo_key kdf now 20 19 (generate_api_key token) salt]\<rparr>"

lemma ensure_first_plans:
  assumes "w_db w = first_registry cfg now"
  shows "ensure_default_billing_plans now w =
    (Inr (), w\<lparr>w_db := (first_registry cfg now)\<lparr>next_id := 15, billing_plans := first_plans now\<rparr>\<rparr>)"
  using assms
  by (simp add: ensure_default_billing_plans_def DEFAULT_BILLING_PLANS_def ensure_default_plan_def bindE_apply
      plan_by_code_def new_plan_def first_registry_def empty_db_def first_plans_def numeral_eq_Suc)

lemma ensure_first_rules:
  assumes "w_db w = (first_registry cfg now)\<lparr>next_id := 15, billing_plans := first_plans now\<rparr>"
  shows "ensure_default_pricing_rules now w =
    (Inr (), w\<lparr>w_db := (first_registry cfg now)\<lparr>next_id := 19, billing_plans := first_plans now, pricing_rules := first_rules now\<rparr>\<rparr>)"
  using assms
  by (simp add: ensure_default_pricing_rules_def DEFAULT_PRICING_RULES_def ensure_default_rule_def bindE_apply
      plan_by_code_def new_plan_def first_registry_def empty_db_def first_plans_def DEFAULT_BILLING_PLANS_def
      first_rules_def first_rule_def)

lemma demo_client_fields [simp]:
  "c_id (demo_client cfg now cid pid) = cid" "c_name (demo_client cfg now cid pid) = demo_client_name cfg"
  "demo_settings cfg pid (demo_client cfg now cid pid) = demo_client cfg now cid pid"
  by (simp_all add: demo_client_def demo_settings_def)

lemma demo_key_fields [simp]:
  "k_client_id (demo_key kdf now kid cid token salt) = cid" "k_name (demo_key kdf now kid cid token salt) = ''demo-default''"
  by (simp_all add: demo_key_def)

lemma first_seed:
  assumes "w_db w = empty_db" and "cfg_model_id cfg \<noteq> bonsai_model_id cfg"
    and "cfg_model_id cfg \<noteq> bonsai_model_id cfg @ ''/alias-bonzai''"
  shows "seed_defaults cfg kdf now token salt w = (Inr (), w\<lparr>w_db := first_db cfg kdf now token salt\<rparr>)"
proof -
  let ?u = "w\<lparr>w_db := first_registry cfg now\<rparr>"
  let ?v = "w\<lparr>w_db := (first_registry cfg now)\<lparr>next_id := 15, billing_plans := first_plans now\<rparr>\<rparr>"
  have "ensure_default_billing_plans now ?u = (Inr (), ?v)" using ensure_first_plans [where w = ?u and cfg = cfg and now = now] by simp
  moreover have "ensure_default_pricing_rules now ?v = (Inr (), w\<lparr>w_db := (first_registry cfg now)
      \<lparr>next_id := 19, billing_plans := first_plans now, pricing_rules := first_rules now\<rparr>\<rparr>)"
    using ensure_first_rules [where w = ?v and cfg = cfg and now = now] by simp
  ultimately show ?thesis
    by (simp add: seed_defaults_def first_model [OF assms] bindE_apply seqE_apply ensure_demo_client_def ensure_demo_key_def
        plan_by_code_def first_plans_def DEFAULT_BILLING_PLANS_def new_plan_def first_registry_def empty_db_def first_db_def)
qed

section \<open>The next start\<close>

text \<open>A backend without what its slots and the clock do to its row.\<close>

definition at_rest :: "backend \<Rightarrow> backend" where
  "at_rest b = b\<lparr>b_current_running := 0, b_updated_at := 0\<rparr>"

lemma backend_at_rest:
  assumes "at_rest b = at_rest (new_backend now bid p)"
  shows "b_id b = bid" "b_name b = bp_name p" "apply_backend p b = b" "b_is_default b = bp_is_default p"
    "b_is_active b = bp_is_active p"
  using assms by (cases b; simp add: at_rest_def new_backend_def apply_backend_def)+

lemma first_backends_settled:
  assumes "map at_rest (backends d) = map at_rest (map2 (new_backend now) [0, 1, 2, 3] (default_backend_payloads cfg))"
  shows "backends_settled cfg d [0, 1, 2, 3]"
    and "\<exists>x. backend_of d 1 = Some x \<and> b_is_active x = bonsai_enabled cfg"
    and "\<exists>x. backend_of d 0 = Some x \<and> b_is_active x"
    and "\<exists>x. backend_of d 3 = Some x \<and> \<not> b_is_active x"
proof -
  obtain a b l f where d: "backends d = [a, b, l, f]"
    using assms by (auto simp: default_backend_payloads_def map_eq_Cons_conv)
  note rows = assms [unfolded d default_backend_payloads_def, simplified]
  note A = backend_at_rest [OF rows [THEN conjunct1]]
    and B = backend_at_rest [OF rows [THEN conjunct2, THEN conjunct1]]
    and L = backend_at_rest [OF rows [THEN conjunct2, THEN conjunct2, THEN conjunct1]]
    and F = backend_at_rest [OF rows [THEN conjunct2, THEN conjunct2, THEN conjunct2]]
  note facts = d A B L F
  show "backends_settled cfg d [0, 1, 2, 3]"
    using facts by (simp add: backends_settled_def default_backend_payloads_def backend_settled_def backend_by_name_def)
  show "\<exists>x. backend_of d 1 = Some x \<and> b_is_active x = bonsai_enabled cfg"
    "\<exists>x. backend_of d 0 = Some x \<and> b_is_active x" "\<exists>x. backend_of d 3 = Some x \<and> \<not> b_is_active x"
    using facts by (simp_all add: backend_of_def)
qed

lemma first_model_settled:
  assumes "map at_rest (backends (w_db w)) = map at_rest (map2 (new_backend now) [0, 1, 2, 3] (default_backend_payloads cfg))"
    and "models (w_db w) = models (first_registry cfg now)" and "routes (w_db w) = routes (first_registry cfg now)"
    and "cfg_model_id cfg \<noteq> bonsai_model_id cfg" and "cfg_model_id cfg \<noteq> bonsai_model_id cfg @ ''/alias-bonzai''"
  shows "ensure_default_model cfg later w = (Inr 4, w)"
proof -
  note B = first_backends_settled [OF assms(1)]
  obtain x where x: "backend_of (w_db w) 1 = Some x" "b_is_active x = bonsai_enabled cfg" using B(2) by blast
  obtain y z where yz: "backend_of (w_db w) 0 = Some y" "b_is_active y" "backend_of (w_db w) 3 = Some z" "\<not> b_is_active z"
    using B(3,4) by blast
  note defs = first_registry_def first_models_def new_model_def first_route_def entry_settled_def route_settled_def route_between_def
  show ?thesis
    by (rule ensure_model_settled [OF B(1) x, of 4 7 9]) (use assms(2-5) x yz in \<open>auto simp: defs\<close>)
qed

lemma first_plans_settled:
  assumes "billing_plans (w_db w) = first_plans now"
  shows "ensure_default_billing_plans later w = (Inr (), w)"
  by (rule ensure_plans_settled)
    (simp add: assms first_plans_def DEFAULT_BILLING_PLANS_def plan_by_code_def new_plan_def apply_plan_def)

lemma first_rules_settled:
  assumes "billing_plans (w_db w) = first_plans now" and "pricing_rules (w_db w) = first_rules now"
  shows "ensure_default_pricing_rules later w = (Inr (), w)"
  by (rule ensure_rules_settled)
    (simp add: assms first_plans_def DEFAULT_BILLING_PLANS_def plan_by_code_def new_plan_def first_rules_def
      DEFAULT_PRICING_RULES_def first_rule_def)

lemma first_basic_plan:
  assumes "billing_plans (w_db w) = first_plans now"
  shows "\<exists>p. plan_by_code (w_db w) ''basic'' = Some p \<and> p_id p = 12"
  by (simp add: assms first_plans_def DEFAULT_BILLING_PLANS_def plan_by_code_def new_plan_def)

lemma startup_of:
  "seed_defaults cfg kdf now token salt w = (Inr (), w\<lparr>w_db := d\<rparr>) \<Longrightarrow>
   lifespan_startup cfg kdf now token salt w = (Inr (), w\<lparr>w_db := d, w_saved := d\<rparr>)"
  by (simp add: lifespan_startup_def handle_def seqE_apply)



end
