(* ===== verification/Portal.thy ===== *)
theory Portal
  imports GenerationJobs Invoices
begin

text \<open>
  The client portal (\<open>api/portal.py\<close>): account, usage and invoices of the client that calls, the
  onboarding marker, and the test chat, a request with accounting of its own.
\<close>

section \<open>Account and usage\<close>

text \<open>The stored metadata goes out as its text, which \<open>text\<close> gives.\<close>

definition portal_me :: "(jtext \<Rightarrow> string) \<Rightarrow> db \<Rightarrow> client \<Rightarrow> json" where
  "portal_me text d c = (let plan = resolve_effective_plan d c in JObj [
     (''id'', JStr (uuid_str (c_id c))), (''name'', JStr (c_name c)), (''description'', jopt JStr (c_description c)),
     (''billing_status'', JStr (c_billing_status c)), (''is_blocked'', JBool (c_is_blocked c)),
     (''metadata_json'', jopt (\<lambda>t. JStr (text t)) (c_metadata_json c)),
     (''plan'', JObj [
        (''code'', JStr (ep_code plan)), (''name'', JStr (ep_name plan)),
        (''rate_limit_per_minute'', JInt (ep_rate_limit_per_minute plan)),
        (''daily_token_quota'', JInt (ep_daily_token_quota plan)),
        (''monthly_token_quota'', JInt (ep_monthly_token_quota plan)),
        (''max_output_tokens'', JInt (ep_max_output_tokens plan)),
        (''allow_streaming'', JBool (ep_allow_streaming plan)),
        (''monthly_price'', JFloat (ep_monthly_price plan)), (''currency'', JStr (ep_currency plan))])])"

definition portal_account :: "'r env \<Rightarrow> client \<Rightarrow> ('r, json) act" where
  "portal_account env c =
     bindE (query (\<lambda>d. resolve_effective_plan d c)) (\<lambda>plan.
     bindE (used_before env (c_id c)) (\<lambda>(daily_used, monthly_used).
     ret (JObj [
       (''client_id'', JStr (uuid_str (c_id c))), (''name'', JStr (c_name c)),
       (''billing_status'', JStr (c_billing_status c)),
       (''plan'', JObj [
          (''code'', JStr (ep_code plan)), (''name'', JStr (ep_name plan)),
          (''rate_limit_per_minute'', JInt (ep_rate_limit_per_minute plan)),
          (''daily_token_quota'', JInt (ep_daily_token_quota plan)),
          (''monthly_token_quota'', JInt (ep_monthly_token_quota plan)),
          (''max_output_tokens'', JInt (ep_max_output_tokens plan))]),
       (''usage'', JObj [(''daily_used_tokens'', JInt daily_used), (''monthly_used_tokens'', JInt monthly_used)])])))"

definition usage_of_quota :: "int \<Rightarrow> int \<Rightarrow> json" where
  "usage_of_quota used quota = JObj [(''used_tokens'', JInt used),
     (''remaining_tokens'', JInt (max (quota - used) 0)), (''quota'', JInt quota)]"

definition portal_usage :: "'r env \<Rightarrow> client \<Rightarrow> ('r, json) act" where
  "portal_usage env c =
     bindE (query (\<lambda>d. resolve_effective_plan d c)) (\<lambda>plan.
     bindE (used_before env (c_id c)) (\<lambda>(daily_used, monthly_used).
     ret (JObj [
       (''client_id'', JStr (uuid_str (c_id c))), (''billing_status'', JStr (c_billing_status c)),
       (''daily_usage'', usage_of_quota daily_used (ep_daily_token_quota plan)),
       (''monthly_usage'', usage_of_quota monthly_used (ep_monthly_token_quota plan)),
       (''invoice_preview'', preview_json (build_invoice_preview plan monthly_used))])))"

text \<open>The refresh is called without the configured number of days: it takes its default of fifteen.\<close>

definition portal_invoices :: "'r env \<Rightarrow> client \<Rightarrow> ('r, json) act" where
  "portal_invoices env c =
     seqE (update (\<lambda>d. snd (refresh_billing_statuses (en_now env) 15 d)))
       (seqE commit
         (bindE (query (\<lambda>d. d)) (\<lambda>d.
          ret (JObj [
            (''client_id'', JStr (uuid_str (c_id c))),
            (''billing_status'', JStr (case List.find (\<lambda>x. c_id x = c_id c) (clients d) of
               None \<Rightarrow> c_billing_status c | Some x \<Rightarrow> c_billing_status x)),
            (''invoices'', JArr (map (serialize_invoice d) (take 50 (newest_first i_created_at
               (filter (\<lambda>i. i_client_id i = c_id c) (invoices d)))))),
            (''payments'', JArr (map (\<lambda>y. JObj [
               (''id'', JStr (uuid_str (y_id y))), (''invoice_id'', JStr (uuid_str (y_invoice_id y))),
               (''status'', JStr (y_status y)), (''amount'', JFloat (y_amount y)), (''currency'', JStr (y_currency y)),
               (''payment_method'', JStr (y_payment_method y)),
               (''payment_reference'', jopt JStr (y_payment_reference y)), (''note'', jopt JStr (y_note y)),
               (''paid_at'', jopt jtime (y_paid_at y)), (''cancelled_at'', jopt jtime (y_cancelled_at y)),
               (''created_at'', jtime (y_created_at y)), (''updated_at'', jtime (y_updated_at y))])
               (take 50 (newest_first y_created_at (filter (\<lambda>y. y_client_id y = c_id c) (payments d))))))]))))"

definition onboarding_metadata :: "client \<Rightarrow> exc + json" where
  "onboarding_metadata c =
     (if text_falsy (c_metadata_json c) then Inr (JObj [])
      else case c_metadata_json c of None \<Rightarrow> Inr (JObj [])
        | Some t \<Rightarrow> (case loads t of None \<Rightarrow> Inl JSONDecodeError | Some v \<Rightarrow> Inr v))"

definition mark_onboarded :: "json \<Rightarrow> exc + json" where
  "mark_onboarded metadata = (case metadata of
       JObj kvs \<Rightarrow> Inr (JObj (dict_set ''onboarding_finished'' (JBool True) kvs))
     | _ \<Rightarrow> Inl (TypeError ''item assignment''))"

definition record_onboarding_event :: "client \<Rightarrow> string \<Rightarrow> ('r, json) act" where
  "record_onboarding_event c event =
     bindE (liftE (onboarding_metadata c)) (\<lambda>metadata.
     bindE (liftE (if event = ''portal_tutorial_closed'' then mark_onboarded metadata else Inr metadata)) (\<lambda>metadata.
     seqE (set_client (c_id c) (\<lambda>x. x\<lparr>c_metadata_json := Some (dumps metadata)\<rparr>))
       (seqE commit (ret (JObj [(''status'', JStr ''ok'')])))))"

section \<open>The test chat\<close>

record portal_chat_request =
  tq_prompt :: string
  tq_model :: "string option"
  tq_max_tokens :: "int option"

definition test_chat_endpoint :: string where
  "test_chat_endpoint = ''/portal/test-chat''"

definition test_chat_payload :: "portal_chat_request \<Rightarrow> chat_request" where
  "test_chat_payload q = \<lparr>
     cq_model = (case tq_model q of None \<Rightarrow> ''default'' | Some m \<Rightarrow> if m = [] then ''default'' else m),
     cq_messages = [\<lparr>cm_role = ''user'', cm_content = Text (tq_prompt q)\<rparr>],
     cq_sampling = \<lparr>sm_temperature = None, sm_top_p = None, sm_max_tokens = tq_max_tokens q, sm_stream = False,
       sm_safety_profile = ''default''\<rparr>,
     cq_include_reasoning = False\<rparr>"

definition prepare_test_chat :: "'r env \<Rightarrow> db \<Rightarrow> client \<Rightarrow> chat_request \<Rightarrow> exc + model \<times> int \<times> params" where
  "prepare_test_chat env d c q =
     bindS (resolve_requested_model (en_repr env) d c (cq_model q)) (\<lambda>(m, _).
     let prompt_tokens = estimate_prompt_tokens (en_repr env) (Some (map dump_message (cq_messages q))) None in
     if prompt_tokens > c_max_context_tokens c then Inl context_error
     else bindS (validate_params (en_cfg env) d c (cq_sampling q)) (\<lambda>p. Inr (m, prompt_tokens, p)))"

definition test_chat_admitted ::
  "'r env \<Rightarrow> client \<Rightarrow> chat_request \<Rightarrow> model \<Rightarrow> int \<Rightarrow> params \<Rightarrow> int \<Rightarrow> rat \<Rightarrow> admitted" where
  "test_chat_admitted env c q m prompt_tokens p max_tokens cost =
     (let messages = map dump_message (cq_messages q);
          body = set_params p (dict_set ''model'' (JStr (m_model_id m))
            (dict_pop ''include_reasoning'' (dump_chat_request q)));
          (key, fingerprint) = build_chat_cache_key (en_hash_json env) (m_model_id m) (json_messages messages)
             (pa_temperature p) (pa_top_p p) (pa_max_tokens p) False in
      \<lparr>ad_client = c, ad_model = m, ad_endpoint = test_chat_endpoint, ad_body = body, ad_stream = False,
       ad_include_reasoning = False, ad_prompt_tokens = prompt_tokens, ad_max_tokens = max_tokens, ad_cost = cost,
       ad_summary = summarize_chat_request (en_sha256 env) messages False, ad_safety_profile = ''default'',
       ad_cache_key = key, ad_cache_fingerprint = fingerprint\<rparr>)"

text \<open>\<open>(((payload.get("choices") or [{}])[0].get("message") or {}).get("content")) or ""\<close>.\<close>

definition reply_text :: "json \<Rightarrow> exc + json" where
  "reply_text payload =
     bindS (as_dict payload) (\<lambda>p.
     let choices = dict_get_or_null p ''choices'' in
     bindS (bindS (first_item (if truthy choices then choices else JArr [JObj []])) as_dict) (\<lambda>choice.
     bindS (or_empty_dict (dict_get_or_null choice ''message'')) (\<lambda>message.
     let content = dict_get_or_null message ''content'' in
     Inr (if truthy content then content else JStr []))))"

definition test_chat_reply :: "admitted \<Rightarrow> bool \<Rightarrow> json \<Rightarrow> exc + json" where
  "test_chat_reply a from_cache payload =
     bindS (reply_text payload) (\<lambda>text.
     Inr (JObj [(''model'', JStr (m_model_id (ad_model a))), (''cached'', JBool from_cache), (''response'', payload),
       (''text'', text)]))"

definition test_chat_from_cache :: "'r env \<Rightarrow> admitted \<Rightarrow> cache_result \<Rightarrow> json \<Rightarrow> ('r, json) act" where
  "test_chat_from_cache env a hit payload =
     seqE (account env a (cr_completion_tokens hit)
             (request_log_entry env a (cr_completion_tokens hit) 200 False (Some ''cache:exact'') 0 False True [] None))
       (liftE (test_chat_reply a True payload))"

definition test_chat_result :: "'r env \<Rightarrow> admitted \<Rightarrow> forward_result \<Rightarrow> ('r, json) act" where
  "test_chat_result env a result =
     (case fr_response result of
        StreamBody _ _ _ _ _ _ _ \<Rightarrow> raise (AttributeError ''body'')
      | JsonBody status payload \<Rightarrow>
          (let completion_tokens = estimate_tokens_from_text (en_render env payload) in
           seqE (store_exact_cache (en_cfg env) (en_now env) (ad_endpoint a) (m_model_id (ad_model a))
                   (ad_cache_key a) (ad_cache_fingerprint a) payload (ad_prompt_tokens a) completion_tokens)
             (seqE (account env a completion_tokens (result_log_entry env a result completion_tokens status))
               (liftE (test_chat_reply a False payload)))))"

definition test_chat_serve :: "'r env \<Rightarrow> admitted \<Rightarrow> ('r, json) act" where
  "test_chat_serve env a =
     bindE (lookup_exact_cache (en_cfg env) (en_now env) (ad_endpoint a) (m_model_id (ad_model a)) (ad_cache_key a))
       (\<lambda>hit. let forwarded_call = bindE (chat_with_fallback env (ad_model a) (ad_body a) False False)
           (test_chat_result env a) in
         case cr_payload hit of
           Some payload \<Rightarrow>
             if cr_hit hit \<and> payload \<noteq> JNull then test_chat_from_cache env a hit payload else forwarded_call
         | None \<Rightarrow> forwarded_call)"

definition log_test_chat_failure :: "'r env \<Rightarrow> admitted \<Rightarrow> int \<Rightarrow> json \<Rightarrow> ('r, unit) act" where
  "log_test_chat_failure env a status detail =
     (let errors = backend_errors_for_log detail in
      seqE (log_request (en_now env) (request_log_entry env a 0 status False (last_backend_name errors)
              (max (int (length errors)) 1) (length errors > 1) False errors
              (Some (error_message_for_log (en_repr env) detail))))
        commit)"

definition portal_test_chat :: "'r env \<Rightarrow> client \<Rightarrow> portal_chat_request \<Rightarrow> ('r, json) act" where
  "portal_test_chat env c payload =
     (let q = test_chat_payload payload in
      bindE (query (\<lambda>d. prepare_test_chat env d c q)) (\<lambda>prepared.
      bindE (liftE prepared) (\<lambda>(m, prompt_tokens, p).
      bindE (liftE (token_count (pa_max_tokens p))) (\<lambda>max_tokens.
      let plan = pa_plan p; incoming_tokens = prompt_tokens + max_tokens in
      seqE (admit_job env c plan incoming_tokens)
      (bindE (used_before env (c_id c)) (\<lambda>used.
       let a = test_chat_admitted env c q m prompt_tokens p max_tokens
                 (request_cost env plan (snd used) incoming_tokens) in
       catchE (test_chat_serve env a)
         (\<lambda>e. case e of
            HTTPException status detail \<Rightarrow> seqE (log_test_chat_failure env a status detail) (raise e)
          | _ \<Rightarrow> raise e)))))))"

end
