(* ===== verification/AdminBilling.thy ===== *)
theory AdminBilling
  imports PublicApi AdminClients
begin

text \<open>
  The operator's handlers for plans, prices, invoices and payments (\<open>api/admin.py\<close>). A handler that
  commits, refreshes the billing statuses and commits again is written out as such.
\<close>

section \<open>Plans and prices\<close>

record plan_create =
  bc_code :: string
  bc_name :: string
  bc_description :: "string option"
  bc_rate_limit_per_minute :: int
  bc_daily_token_quota :: int
  bc_monthly_token_quota :: int
  bc_max_output_tokens :: int
  bc_allow_streaming :: bool
  bc_is_active :: bool
  bc_allowed_models :: "string list option"

definition valid_plan_create :: "plan_create \<Rightarrow> bool" where
  "valid_plan_create q =
     (2 \<le> length (bc_code q) \<and> length (bc_code q) \<le> 32 \<and>
      (\<forall>c\<in>set (bc_code q). slug_char c \<or> c = CHR ''_'' \<or> c = CHR ''-'') \<and>
      2 \<le> length (bc_name q) \<and> length (bc_name q) \<le> 120 \<and> at_most 500 (bc_description q) \<and>
      between 1 10000 (bc_rate_limit_per_minute q) \<and> between 1000 1000000000 (bc_daily_token_quota q) \<and>
      between 1000 10000000000 (bc_monthly_token_quota q) \<and> between 1 32768 (bc_max_output_tokens q))"

definition created_plan :: "timestamp \<Rightarrow> uuid \<Rightarrow> plan_create \<Rightarrow> billing_plan" where
  "created_plan now pid q = \<lparr>p_id = pid, p_code = bc_code q, p_name = bc_name q, p_description = bc_description q,
     p_rate_limit_per_minute = bc_rate_limit_per_minute q, p_daily_token_quota = bc_daily_token_quota q,
     p_monthly_token_quota = bc_monthly_token_quota q, p_max_output_tokens = bc_max_output_tokens q,
     p_allow_streaming = bc_allow_streaming q, p_is_active = bc_is_active q,
     p_allowed_models_json = string_list_json (bc_allowed_models q), p_created_at = now, p_updated_at = now\<rparr>"

definition list_billing_plans :: "db \<Rightarrow> billing_plan list" where
  "list_billing_plans d = sort_key p_created_at (billing_plans d)"

definition create_billing_plan :: "timestamp \<Rightarrow> plan_create \<Rightarrow> ('r, billing_plan) act" where
  "create_billing_plan now q =
     bindE (query (\<lambda>d. filter (\<lambda>p. p_code p = bc_code q) (billing_plans d))) (\<lambda>rows.
     bindE (liftE (scalar_one_or_none rows)) (\<lambda>existing.
     if existing \<noteq> None then raise (http_error 409 ''billing plan code already exists'')
     else bindE fresh_id (\<lambda>pid.
       let p = created_plan now pid q in
       seqE (update (\<lambda>d. d\<lparr>billing_plans := billing_plans d @ [p]\<rparr>)) (seqE commit (ret p)))))"

definition the_plan :: "uuid \<Rightarrow> ('r, billing_plan) act" where
  "the_plan pid = bindE (query (\<lambda>d. find_plan d pid)) (\<lambda>found. case found of
       None \<Rightarrow> raise (http_error 404 ''billing plan not found'')
     | Some p \<Rightarrow> ret p)"

definition write_plan :: "uuid \<Rightarrow> (billing_plan \<Rightarrow> billing_plan) \<Rightarrow> ('r, billing_plan) act" where
  "write_plan pid f =
     seqE (update (\<lambda>d. d\<lparr>billing_plans := upd_where (\<lambda>p. p_id p = pid) f (billing_plans d)\<rparr>))
       (seqE commit (the_plan pid))"

datatype plan_field =
    Plan_name "string option"
  | Plan_description "string option"
  | Plan_rate_limit_per_minute "int option"
  | Plan_daily_token_quota "int option"
  | Plan_monthly_token_quota "int option"
  | Plan_max_output_tokens "int option"
  | Plan_allow_streaming "bool option"
  | Plan_is_active "bool option"
  | Plan_allowed_models "string list option"

fun valid_plan_field :: "plan_field \<Rightarrow> bool" where
  "valid_plan_field (Plan_name (Some s)) = (2 \<le> length s \<and> length s \<le> 120)"
| "valid_plan_field (Plan_description x) = at_most 500 x"
| "valid_plan_field (Plan_rate_limit_per_minute (Some n)) = between 1 10000 n"
| "valid_plan_field (Plan_daily_token_quota (Some n)) = between 1000 1000000000 n"
| "valid_plan_field (Plan_monthly_token_quota (Some n)) = between 1000 10000000000 n"
| "valid_plan_field (Plan_max_output_tokens (Some n)) = between 1 32768 n"
| "valid_plan_field _ = True"

fun set_plan_field :: "plan_field \<Rightarrow> billing_plan \<Rightarrow> billing_plan option" where
  "set_plan_field (Plan_name x) p = map_option (\<lambda>s. p\<lparr>p_name := s\<rparr>) x"
| "set_plan_field (Plan_description x) p = Some (p\<lparr>p_description := x\<rparr>)"
| "set_plan_field (Plan_rate_limit_per_minute x) p = map_option (\<lambda>n. p\<lparr>p_rate_limit_per_minute := n\<rparr>) x"
| "set_plan_field (Plan_daily_token_quota x) p = map_option (\<lambda>n. p\<lparr>p_daily_token_quota := n\<rparr>) x"
| "set_plan_field (Plan_monthly_token_quota x) p = map_option (\<lambda>n. p\<lparr>p_monthly_token_quota := n\<rparr>) x"
| "set_plan_field (Plan_max_output_tokens x) p = map_option (\<lambda>n. p\<lparr>p_max_output_tokens := n\<rparr>) x"
| "set_plan_field (Plan_allow_streaming x) p = map_option (\<lambda>b. p\<lparr>p_allow_streaming := b\<rparr>) x"
| "set_plan_field (Plan_is_active x) p = map_option (\<lambda>b. p\<lparr>p_is_active := b\<rparr>) x"
| "set_plan_field (Plan_allowed_models x) p = Some (p\<lparr>p_allowed_models_json := string_list_json x\<rparr>)"

fun set_plan_fields :: "plan_field list \<Rightarrow> billing_plan \<Rightarrow> billing_plan option" where
  "set_plan_fields [] p = Some p"
| "set_plan_fields (x # xs) p = Option.bind (set_plan_field x p) (set_plan_fields xs)"

definition patch_billing_plan :: "timestamp \<Rightarrow> uuid \<Rightarrow> plan_field list \<Rightarrow> ('r, billing_plan) act" where
  "patch_billing_plan now pid patch =
     bindE (the_plan pid) (\<lambda>p. case set_plan_fields patch p of
       None \<Rightarrow> raise (IntegrityError ''billing_plans'')
     | Some p' \<Rightarrow> write_plan pid (\<lambda>_. p'\<lparr>p_updated_at := now\<rparr>))"

definition set_billing_plan_models :: "timestamp \<Rightarrow> uuid \<Rightarrow> string list \<Rightarrow> ('r, billing_plan) act" where
  "set_billing_plan_models now pid allowed_models =
     bindE (the_plan pid) (\<lambda>_. write_plan pid
       (\<lambda>p. p\<lparr>p_allowed_models_json := Some (dumps (JArr (map JStr allowed_models))), p_updated_at := now\<rparr>))"

definition list_pricing_rules :: "db \<Rightarrow> json" where
  "list_pricing_rules d = JArr (map (\<lambda>r. JObj [(''id'', JStr (uuid_str (pr_id r))),
       (''billing_plan_id'', JStr (uuid_str (pr_billing_plan_id r))), (''currency'', JStr (pr_currency r)),
       (''monthly_price'', JFloat (pr_monthly_price r)),
       (''overage_price_per_1k_tokens'', JFloat (pr_overage_price_per_1k_tokens r)),
       (''description'', jopt JStr (pr_description r)), (''is_active'', JBool (pr_is_active r)),
       (''created_at'', jtime (pr_created_at r)), (''updated_at'', jtime (pr_updated_at r))])
     (sort_key pr_created_at (pricing_rules d)))"

section \<open>Invoices\<close>

definition revenue :: "string \<Rightarrow> db \<Rightarrow> rat" where
  "revenue status d = sum_list (map i_total_amount (filter (\<lambda>i. i_status i = status) (invoices d)))"

definition count_invoices :: "string \<Rightarrow> db \<Rightarrow> json" where
  "count_invoices status d = JInt (int (length (filter (\<lambda>i. i_status i = status) (invoices d))))"

definition get_revenue_summary :: "timestamp \<Rightarrow> db \<Rightarrow> json" where
  "get_revenue_summary now d = JObj [(''generated_at'', jtime now),
     (''revenue_usd'', JFloat (revenue ''paid'' d)), (''pending_usd'', JFloat (revenue ''pending'' d)),
     (''overdue_usd'', JFloat (revenue ''overdue'' d)), (''invoices_paid'', count_invoices ''paid'' d),
     (''invoices_pending'', count_invoices ''pending'' d), (''invoices_overdue'', count_invoices ''overdue'' d)]"

definition find_invoice :: "db \<Rightarrow> uuid \<Rightarrow> invoice option" where
  "find_invoice d iid = List.find (\<lambda>i. i_id i = iid) (invoices d)"

definition the_invoice :: "uuid \<Rightarrow> ('r, invoice) act" where
  "the_invoice iid = bindE (query (\<lambda>d. find_invoice d iid)) (\<lambda>found. case found of
       None \<Rightarrow> raise (http_error 404 ''invoice not found'')
     | Some i \<Rightarrow> ret i)"

definition set_invoice :: "uuid \<Rightarrow> (invoice \<Rightarrow> invoice) \<Rightarrow> ('r, unit) act" where
  "set_invoice iid f = update (\<lambda>d. d\<lparr>invoices := upd_where (\<lambda>i. i_id i = iid) f (invoices d)\<rparr>)"

text \<open>
  Readings of the clock with no \<open>await\<close> between them are one reading, \<open>now\<close>; the refresh after the
  commit reads it again: \<open>later\<close>.
\<close>

definition refresh_statuses :: "settings \<Rightarrow> timestamp \<Rightarrow> ('r, unit) act" where
  "refresh_statuses cfg now = update (\<lambda>d. snd (refresh_billing_statuses now (billing_suspend_after_days cfg) d))"

definition commit_and_refresh :: "settings \<Rightarrow> timestamp \<Rightarrow> ('r, unit) act" where
  "commit_and_refresh cfg now = seqE commit (seqE (refresh_statuses cfg now) commit)"

record invoice_generate =
  ig_client_id :: "uuid option"
  ig_due_in_days :: int
  ig_payment_method :: string
  ig_payment_instructions :: "string option"
  ig_force :: bool

definition valid_invoice_generate :: "invoice_generate \<Rightarrow> bool" where
  "valid_invoice_generate q =
     (between 0 90 (ig_due_in_days q) \<and> 3 \<le> length (ig_payment_method q) \<and> length (ig_payment_method q) \<le> 32 \<and>
      at_most 1000 (ig_payment_instructions q))"

text \<open>The handler forces the run, whatever the request says.\<close>

definition generate_options :: "settings \<Rightarrow> invoice_generate \<Rightarrow> billing_options" where
  "generate_options cfg q = \<lparr>bo_invoice_day = billing_invoice_day cfg, bo_due_in_days = ig_due_in_days q,
     bo_suspend_after_days = billing_suspend_after_days cfg, bo_payment_method = ig_payment_method q,
     bo_payment_instructions = ig_payment_instructions q, bo_force = True, bo_client_id = ig_client_id q\<rparr>"

definition serialize_found :: "db \<Rightarrow> uuid \<Rightarrow> json" where
  "serialize_found d iid = (case find_invoice d iid of None \<Rightarrow> JNull | Some i \<Rightarrow> serialize_invoice d i)"

definition skipped_json :: "uuid \<times> uuid \<times> string \<Rightarrow> json" where
  "skipped_json = (\<lambda>(iid, cid, status). JObj [(''invoice_id'', JStr (uuid_str iid)),
     (''client_id'', JStr (uuid_str cid)), (''status'', JStr status)])"

definition generate_invoices ::
  "settings \<Rightarrow> (rat \<Rightarrow> rat) \<Rightarrow> timestamp \<Rightarrow> invoice_generate \<Rightarrow> ('r, json) act" where
  "generate_invoices cfg via_float now q =
     bindE (query (\<lambda>d. case ig_client_id q of None \<Rightarrow> False | Some cid \<Rightarrow> find_client d cid = None)) (\<lambda>unknown.
     if unknown then raise (http_error 404 ''client not found'')
     else
       bindE (generate_monthly_invoices via_float now (generate_options cfg q)) (\<lambda>g.
       seqE commit (bindE (query (\<lambda>d. d)) (\<lambda>d.
         ret (JObj [(''generated_at'', jtime (g_generated_at g)),
           (''created'', JArr (map (serialize_found d) (g_created g))),
           (''updated'', JArr (map (serialize_found d) (g_updated g))),
           (''skipped'', JArr (map skipped_json (g_skipped g))), (''reason'', jopt JStr (g_reason g))])))))"

definition run_billing_cycle :: "settings \<Rightarrow> (rat \<Rightarrow> rat) \<Rightarrow> timestamp \<Rightarrow> timestamp \<Rightarrow> ('r, json) act" where
  "run_billing_cycle cfg via_float now later =
     bindE (generate_monthly_invoices via_float now (cycle_options cfg)) (\<lambda>g.
     seqE (commit_and_refresh cfg later)
       (ret (JObj [(''generated_at'', jtime (g_generated_at g)), (''created_count'', JInt (int (length (g_created g)))),
          (''updated_count'', JInt (int (length (g_updated g)))), (''skipped_count'', JInt (int (length (g_skipped g)))),
          (''reason'', jopt JStr (g_reason g))])))"

definition client_of :: "db \<Rightarrow> invoice \<Rightarrow> client option" where
  "client_of d i = find_client d (i_client_id i)"

text \<open>The invoices among \<open>is\<close> of clients in a billing status, counted by client.\<close>

definition clients_in_status :: "db \<Rightarrow> string \<Rightarrow> invoice list \<Rightarrow> int" where
  "clients_in_status d status is = int (card (set (map i_client_id (filter (\<lambda>i. case client_of d i of
       None \<Rightarrow> False | Some c \<Rightarrow> c_billing_status c = status) is))))"

definition with_fields :: "json \<Rightarrow> dict \<Rightarrow> json" where
  "with_fields v extra = (case v of JObj kvs \<Rightarrow> JObj (foldl (\<lambda>d (k, x). dict_set k x d) kvs extra) | _ \<Rightarrow> v)"

definition invoice_with_client :: "db \<Rightarrow> invoice \<Rightarrow> dict \<Rightarrow> json" where
  "invoice_with_client d i extra = with_fields (serialize_invoice d i)
     ([(''client_name'', jopt (\<lambda>c. JStr (c_name c)) (client_of d i)),
       (''client_billing_status'', jopt (\<lambda>c. JStr (c_billing_status c)) (client_of d i))] @ extra)"

definition list_invoices :: "settings \<Rightarrow> timestamp \<Rightarrow> ('r, json) act" where
  "list_invoices cfg now =
     seqE (refresh_statuses cfg now) (seqE commit (bindE (query (\<lambda>d. d)) (\<lambda>d.
       let is = take 200 (newest_first i_created_at (invoices d)) in
       ret (JObj [(''generated_at'', jtime now),
         (''summary'', JObj [
            (''overdue_invoices'', JInt (int (length (filter (\<lambda>i. i_status i = ''overdue'') is)))),
            (''past_due_clients'', JInt (clients_in_status d ''past_due'' is)),
            (''suspended_clients'', JInt (clients_in_status d ''suspended'' is))]),
         (''invoices'', JArr (map (\<lambda>i. invoice_with_client d i
            [(''billing_plan_code'', case i_billing_plan_id i of None \<Rightarrow> JNull
                | Some pid \<Rightarrow> jopt (\<lambda>p. JStr (p_code p)) (find_plan d pid))]) is)),
         (''payments'', JArr (map serialize_payment (take 200 (newest_first y_created_at (payments d)))))]))))"

definition mark_invoice_overdue :: "settings \<Rightarrow> timestamp \<Rightarrow> timestamp \<Rightarrow> uuid \<Rightarrow> ('r, json) act" where
  "mark_invoice_overdue cfg now later iid =
     bindE (the_invoice iid) (\<lambda>i.
     if i_status i = ''paid'' then raise (http_error 409 ''paid invoice cannot be marked overdue'')
     else seqE (set_invoice iid (\<lambda>i. i\<lparr>i_status := ''overdue'', i_updated_at := now\<rparr>))
       (seqE (commit_and_refresh cfg later)
         (ret (JObj [(''status'', JStr ''overdue''), (''invoice_id'', JStr (uuid_str iid))]))))"

record mark_paid_request =
  mp_amount_paid :: "rat option"
  mp_payment_method :: string
  mp_payment_reference :: "string option"
  mp_note :: "string option"
  mp_paid_at :: "timestamp option"

definition valid_mark_paid_request :: "mark_paid_request \<Rightarrow> bool" where
  "valid_mark_paid_request q =
     ((case mp_amount_paid q of None \<Rightarrow> True | Some a \<Rightarrow> 0 \<le> a) \<and> 3 \<le> length (mp_payment_method q) \<and>
      length (mp_payment_method q) \<le> 32 \<and> at_most 120 (mp_payment_reference q) \<and> at_most 1000 (mp_note q))"

definition receipt ::
  "(rat \<Rightarrow> rat) \<Rightarrow> timestamp \<Rightarrow> timestamp \<Rightarrow> mark_paid_request \<Rightarrow> invoice \<Rightarrow> payment \<Rightarrow> payment" where
  "receipt via_float now paid_at q i y = y\<lparr>y_status := ''paid'',
     y_amount := (case mp_amount_paid q of None \<Rightarrow> i_total_amount i | Some a \<Rightarrow> via_float a),
     y_currency := i_currency i, y_payment_method := mp_payment_method q,
     y_payment_reference := mp_payment_reference q, y_note := mp_note q, y_paid_at := Some paid_at,
     y_cancelled_at := None, y_updated_at := now\<rparr>"

definition blank_payment :: "timestamp \<Rightarrow> uuid \<Rightarrow> string \<Rightarrow> invoice \<Rightarrow> payment" where
  "blank_payment now yid payment_method i = \<lparr>y_id = yid, y_invoice_id = i_id i, y_client_id = i_client_id i,
     y_status = ''paid'', y_amount = i_total_amount i, y_currency = i_currency i, y_payment_method = payment_method,
     y_payment_reference = None, y_note = None, y_paid_at = None, y_cancelled_at = None,
     y_created_at = now, y_updated_at = now\<rparr>"

text \<open>The first open payment of the invoice, or a new one, becomes the receipt.\<close>

definition record_receipt ::
  "(rat \<Rightarrow> rat) \<Rightarrow> timestamp \<Rightarrow> timestamp \<Rightarrow> mark_paid_request \<Rightarrow> invoice \<Rightarrow> ('r, unit) act" where
  "record_receipt via_float now paid_at q i =
     bindE (query (\<lambda>d. List.find (\<lambda>y. y_status y \<in> {''pending'', ''overdue''}) (invoice_payments d i))) (\<lambda>found.
     case found of
       Some y \<Rightarrow> update (\<lambda>d. d\<lparr>payments := upd_where (\<lambda>x. y_id x = y_id y) (receipt via_float now paid_at q i) (payments d)\<rparr>)
     | None \<Rightarrow> bindE fresh_id (\<lambda>yid. update (\<lambda>d. d\<lparr>payments := payments d @
         [receipt via_float now paid_at q i (blank_payment now yid (mp_payment_method q) i)]\<rparr>)))"

definition answer_invoice :: "string \<Rightarrow> uuid \<Rightarrow> ('r, json) act" where
  "answer_invoice status iid = bindE (query (\<lambda>d. (d, find_invoice d iid))) (\<lambda>(d, found).
     ret (JObj [(''status'', JStr status), (''invoice'', jopt (\<lambda>i. invoice_with_client d i []) found)]))"

definition mark_invoice_paid ::
  "settings \<Rightarrow> (rat \<Rightarrow> rat) \<Rightarrow> timestamp \<Rightarrow> timestamp \<Rightarrow> uuid \<Rightarrow> mark_paid_request \<Rightarrow> ('r, json) act" where
  "mark_invoice_paid cfg via_float now later iid q =
     bindE (the_invoice iid) (\<lambda>i.
     if i_status i = ''cancelled'' then raise (http_error 409 ''cancelled invoice cannot be paid'')
     else if i_status i = ''paid'' then raise (http_error 409 ''invoice already paid'')
     else
       let paid_at = (case mp_paid_at q of None \<Rightarrow> now | Some given \<Rightarrow> given) in
       seqE (set_invoice iid (\<lambda>i. i\<lparr>i_status := ''paid'', i_paid_at := Some paid_at, i_cancelled_at := None,
               i_updated_at := now\<rparr>))
       (seqE (record_receipt via_float now paid_at q i)
       (seqE (set_client (i_client_id i) (\<lambda>c. c\<lparr>c_billing_status := ''active'', c_updated_at := now\<rparr>))
       (seqE (commit_and_refresh cfg later) (answer_invoice ''paid'' iid)))))"

definition cancel_invoice :: "settings \<Rightarrow> timestamp \<Rightarrow> timestamp \<Rightarrow> uuid \<Rightarrow> ('r, json) act" where
  "cancel_invoice cfg now later iid =
     bindE (the_invoice iid) (\<lambda>i.
     if i_status i = ''paid'' then raise (http_error 409 ''paid invoice cannot be cancelled'')
     else if i_status i = ''cancelled'' then raise (http_error 409 ''invoice already cancelled'')
     else
       seqE (set_invoice iid (\<lambda>i. i\<lparr>i_status := ''cancelled'', i_cancelled_at := Some now, i_updated_at := now\<rparr>))
       (seqE (update (\<lambda>d. d\<lparr>payments := upd_where (\<lambda>y. y_invoice_id y = iid \<and> y_status y \<noteq> ''paid'')
               (\<lambda>y. y\<lparr>y_status := ''cancelled'', y_cancelled_at := Some now, y_updated_at := now\<rparr>) (payments d)\<rparr>))
       (seqE (commit_and_refresh cfg later) (answer_invoice ''cancelled'' iid))))"

section \<open>Payments\<close>

record payment_create =
  pc_invoice_id :: uuid
  pc_amount :: rat
  pc_currency :: string
  pc_payment_method :: string
  pc_payment_reference :: "string option"
  pc_note :: "string option"
  pc_paid_at :: "timestamp option"

definition valid_payment_create :: "payment_create \<Rightarrow> bool" where
  "valid_payment_create q = (0 \<le> pc_amount q \<and> length (pc_currency q) = 3 \<and> 3 \<le> length (pc_payment_method q) \<and>
     length (pc_payment_method q) \<le> 32 \<and> at_most 120 (pc_payment_reference q) \<and> at_most 500 (pc_note q))"

definition list_payments :: "db \<Rightarrow> payment list" where
  "list_payments d = take 500 (newest_first y_created_at (payments d))"

definition created_payment :: "(rat \<Rightarrow> rat) \<Rightarrow> timestamp \<Rightarrow> uuid \<Rightarrow> invoice \<Rightarrow> payment_create \<Rightarrow> payment" where
  "created_payment via_float now yid i q = \<lparr>y_id = yid, y_invoice_id = pc_invoice_id q, y_client_id = i_client_id i,
     y_status = (if pc_paid_at q \<noteq> None then ''paid'' else ''pending''), y_amount = via_float (pc_amount q),
     y_currency = pc_currency q, y_payment_method = pc_payment_method q, y_payment_reference = pc_payment_reference q,
     y_note = pc_note q, y_paid_at = pc_paid_at q, y_cancelled_at = None, y_created_at = now, y_updated_at = now\<rparr>"

text \<open>
  Any payment that has been made settles the invoice, whatever its amount. The invoice comes from
  \<open>session.get\<close>, which loads no relationship: whether reading \<open>invoice.client\<close> then loads the client
  or raises depends on the mapped class, which is not in the repository. \<open>client_unread\<close> is the exception
  it raises, if any; then nothing is committed.
\<close>

definition create_payment ::
  "exc option \<Rightarrow> settings \<Rightarrow> (rat \<Rightarrow> rat) \<Rightarrow> timestamp \<Rightarrow> timestamp \<Rightarrow> payment_create \<Rightarrow> ('r, payment option) act" where
  "create_payment client_unread cfg via_float now later q =
     bindE (the_invoice (pc_invoice_id q)) (\<lambda>i.
     bindE fresh_id (\<lambda>yid.
     seqE (update (\<lambda>d. d\<lparr>payments := payments d @ [created_payment via_float now yid i q]\<rparr>))
     (seqE (if pc_paid_at q \<noteq> None \<and> i_status i \<noteq> ''paid''
            then seqE (set_invoice (i_id i) (\<lambda>x. x\<lparr>i_status := ''paid'', i_paid_at := pc_paid_at q\<rparr>))
              (case client_unread of
                 Some e \<Rightarrow> raise e
               | None \<Rightarrow> set_client (i_client_id i) (\<lambda>c. c\<lparr>c_billing_status := ''active''\<rparr>))
            else ret ())
       (seqE (commit_and_refresh cfg later)
         (query (\<lambda>d. List.find (\<lambda>y. y_id y = yid) (payments d)))))))"

definition cancel_payment :: "timestamp \<Rightarrow> uuid \<Rightarrow> ('r, json) act" where
  "cancel_payment now yid =
     bindE (query (\<lambda>d. List.find (\<lambda>y. y_id y = yid) (payments d))) (\<lambda>found. case found of
       None \<Rightarrow> raise (http_error 404 ''payment not found'')
     | Some y \<Rightarrow>
         if y_status y = ''cancelled'' then raise (http_error 409 ''payment already cancelled'')
         else seqE (update (\<lambda>d. d\<lparr>payments := upd_where (\<lambda>x. y_id x = yid)
             (\<lambda>x. x\<lparr>y_status := ''cancelled'', y_cancelled_at := Some now, y_updated_at := now\<rparr>) (payments d)\<rparr>))
           (seqE commit (ret (JObj [(''status'', JStr ''cancelled''), (''payment_id'', JStr (uuid_str yid))]))))"

end
