(* ===== verification/Calendar.thy ===== *)
theory Calendar
  imports Quota
begin

text \<open>
  The calendar behind the quotas and the reports: counting days and naming them are inverse to each other, and a
  moment lies on or after a day exactly if it is not before that day's midnight.
\<close>

section \<open>From days to dates and back\<close>

lemma month_from_ordinal:
  "0 < m \<Longrightarrow> month_from k y (int m) n = (m', d) \<Longrightarrow>
     days_before_month y (nat m') + d = days_before_month y m + n + 1"
proof (induction k arbitrary: m n)
  case 0
  then show ?case by auto
next
  case (Suc k)
  show ?case
  proof (cases "n < days_in_month y (int m)")
    case True
    with Suc.prems show ?thesis by auto
  next
    case False
    then have "month_from k y (int (Suc m)) (n - days_in_month y (int m)) = (m', d)"
      using Suc.prems(2) by (simp add: add.commute)
    from Suc.IH [OF _ this] show ?thesis using Suc.prems(1) by simp
  qed
qed

text \<open>A day number, split as \<open>datetime\<close> splits it.\<close>

lemma days_before_year_split:
  assumes "0 \<le> b" "b \<le> 3" and "0 \<le> c" "c \<le> 24" and "0 \<le> e" "e \<le> 3"
  shows "days_before_year (a * 400 + b * 100 + c * 4 + e + 1) = a * 146097 + b * 36524 + c * 1461 + e * 365"
proof -
  let ?y = "a * 400 + b * 100 + c * 4 + e"
  have "?y div 4 = a * 100 + b * 25 + c" by (rule int_div_pos_eq [where r = e]) (use assms in auto)
  moreover have "?y div 100 = a * 4 + b" by (rule int_div_pos_eq [where r = "c * 4 + e"]) (use assms in auto)
  moreover have "?y div 400 = a" by (rule int_div_pos_eq [where r = "b * 100 + c * 4 + e"]) (use assms in auto)
  ultimately show ?thesis by (simp add: days_before_year_def)
qed

lemma december: "days_before_month y 12 = 334 + (if is_leap y then 1 else 0)"
  by (simp add: eval_nat_numeral days_in_month_def)

lemma leap_split:
  assumes "0 \<le> b" "b \<le> 3" and "0 \<le> c" "c \<le> 24" and "0 \<le> e" "e \<le> 3"
  shows "is_leap (a * 400 + b * 100 + c * 4 + e + 1) \<longleftrightarrow> e = 3 \<and> (c = 24 \<longrightarrow> b = 3)"
proof -
  let ?y = "a * 400 + b * 100 + c * 4 + e + 1"
  have wrap: "(k * m + r) mod m = 0 \<longleftrightarrow> r = m" if "1 \<le> r" "r \<le> m" for k m r :: int
    using that by (cases "r = m") simp_all
  have "?y mod 4 = 0 \<longleftrightarrow> e = 3"
    using wrap [of "e + 1" 4 "a * 100 + b * 25 + c"] assms by (simp add: algebra_simps)
  moreover have "?y mod 100 = 0 \<longleftrightarrow> c = 24 \<and> e = 3"
  proof -
    have y: "?y = (a * 4 + b) * 100 + (c * 4 + e + 1)" by simp
    have "?y mod 100 = 0 \<longleftrightarrow> c * 4 + e + 1 = 100" unfolding y by (rule wrap) (use assms in simp_all)
    also have "\<dots> \<longleftrightarrow> c = 24 \<and> e = 3" using assms by arith
    finally show ?thesis .
  qed
  moreover have "?y mod 400 = 0 \<longleftrightarrow> b = 3 \<and> c = 24 \<and> e = 3"
  proof -
    have y: "?y = a * 400 + (b * 100 + c * 4 + e + 1)" by simp
    have "?y mod 400 = 0 \<longleftrightarrow> b * 100 + c * 4 + e + 1 = 400" unfolding y by (rule wrap) (use assms in simp_all)
    also have "\<dots> \<longleftrightarrow> b = 3 \<and> c = 24 \<and> e = 3" using assms by arith
    finally show ?thesis .
  qed
  ultimately show ?thesis by (auto simp: is_leap_def)
qed

lemma ordinal_date_of_ordinal: "ordinal (date_of_ordinal ord) = ord"
proof -
  define n where "n = ord - 1"
  define a where "a = n div 146097"
  define n1 where "n1 = n mod 146097"
  define b where "b = n1 div 36524"
  define n2 where "n2 = n1 mod 36524"
  define c where "c = n2 div 1461"
  define n3 where "n3 = n2 mod 1461"
  define e where "e = n3 div 365"
  define f where "f = n3 mod 365"
  note defs = n_def [symmetric] a_def [symmetric] n1_def [symmetric] b_def [symmetric] n2_def [symmetric]
    c_def [symmetric] n3_def [symmetric] e_def [symmetric] f_def [symmetric]
  have split: "n = 146097 * a + n1" "n1 = 36524 * b + n2" "n2 = 1461 * c + n3" "n3 = 365 * e + f"
    by (simp_all add: a_def n1_def b_def n2_def c_def n3_def e_def f_def)
  have ranges: "0 \<le> n1" "n1 < 146097" "0 \<le> n2" "n2 < 36524" "0 \<le> n3" "n3 < 1461" "0 \<le> f" "f < 365"
    by (simp_all add: n1_def n2_def n3_def f_def)
  then have nonneg: "0 \<le> b" "0 \<le> c" "0 \<le> e" "b \<le> 4" "c \<le> 24" "e \<le> 4"
    using split by linarith+
  let ?y = "a * 400 + b * 100 + c * 4 + e + 1"
  show ?thesis
  proof (cases "e = 4 \<or> b = 4")
    case True
    have date: "date_of_ordinal ord = Date (?y - 1) 12 31"
      using True by (simp add: date_of_ordinal_def Let_def defs)
    show ?thesis
    proof (cases "b = 4")
      case True
      then have z: "c = 0" "e = 0" "f = 0" using split ranges nonneg by linarith+
      have "days_before_year (?y - 1) = a * 146097 + 3 * 36524 + 24 * 1461 + 3 * 365" "is_leap (?y - 1)"
        using days_before_year_split [of 3 24 3 a] leap_split [of 3 24 3 a] True z by simp_all
      then show ?thesis unfolding date using split True z by (simp add: ordinal_def december n_def)
    next
      case False
      with True have e: "e = 4" "f = 0" using split ranges by linarith+
      have "c \<noteq> 24" using split ranges e by linarith
      with nonneg have c: "c \<le> 23" by linarith
      have "days_before_year (?y - 1) = a * 146097 + b * 36524 + c * 1461 + 3 * 365" "is_leap (?y - 1)"
        using days_before_year_split [of b c 3 a] leap_split [of b c 3 a] False nonneg c e by simp_all
      then show ?thesis unfolding date using split e by (simp add: ordinal_def december n_def)
    qed
  next
    case False
    then have be: "b \<le> 3" "e \<le> 3" using nonneg by linarith+
    obtain m d where md: "month_from 11 ?y 1 f = (m, d)" by fastforce
    then have date: "date_of_ordinal ord = Date ?y m d"
      using False by (simp add: date_of_ordinal_def Let_def defs)
    have "days_before_month ?y (nat m) + d = f + 1" using month_from_ordinal [of 1 11 ?y f m d] md by simp
    moreover have "days_before_year ?y = a * 146097 + b * 36524 + c * 1461 + e * 365"
      by (rule days_before_year_split) (use nonneg be in simp_all)
    ultimately show ?thesis unfolding date using split by (simp add: ordinal_def n_def)
  qed
qed

section \<open>Order\<close>

lemma days_before_month_mono: "m < m' \<Longrightarrow> 0 < m \<Longrightarrow> days_before_month y m + days_in_month y (int m) \<le> days_before_month y m'"
proof (induction m')
  case (Suc k)
  show ?case
  proof (cases "m = k")
    case False
    with Suc show ?thesis using days_in_month_bounds [of y "int k"] by simp
  qed (use Suc.prems in simp)
qed simp

lemma div_step: "0 < m \<Longrightarrow> (y :: int) div m = (y - 1) div m + (if y mod m = 0 then 1 else 0)"
proof (cases "y mod m = 0")
  case True
  assume m: "0 < m"
  have "y - 1 = m * (y div m - 1) + (m - 1)" using True mult_div_mod_eq [of m y] by (simp add: algebra_simps)
  then have "(y - 1) div m = y div m - 1" by (rule int_div_pos_eq) (use m in simp_all)
  with True show ?thesis by simp
next
  case False
  assume m: "0 < m"
  have r: "0 < y mod m" "y mod m < m" using False m by (simp_all add: le_neq_trans)
  have "y - 1 = m * (y div m) + (y mod m - 1)" using mult_div_mod_eq [of m y] by simp
  then have "(y - 1) div m = y div m" by (rule int_div_pos_eq) (use r in simp_all)
  with False show ?thesis by simp
qed

lemma leap_indicator:
  "(if is_leap y then 1 else 0 :: int) =
     (if y mod 4 = 0 then 1 else 0) - (if y mod 100 = 0 then 1 else 0) + (if y mod 400 = 0 then 1 else 0)"
proof -
  have cases: "(if p \<and> (\<not> q \<or> r) then 1 else 0 :: int) = (if p then 1 else 0) - (if q then 1 else 0) + (if r then 1 else 0)"
    if "q \<Longrightarrow> p" "r \<Longrightarrow> q" for p q r using that by auto
  show ?thesis
    unfolding is_leap_def
  proof (rule cases)
    show "y mod 4 = 0" if "y mod 100 = 0" using that mod_mod_cancel [of 4 100 y] by simp
    show "y mod 100 = 0" if "y mod 400 = 0" using that mod_mod_cancel [of 100 400 y] by simp
  qed
qed

lemma days_before_year_Suc: "days_before_year (y + 1) = days_before_year y + 365 + (if is_leap y then 1 else 0)"
proof -
  have add: "(y + 1 - 1) * 365 + d4 - d100 + d400 = (y - 1) * 365 + e4 - e100 + e400 + 365 + (i4 - i100 + i400)"
    if "d4 = e4 + i4" "d100 = e100 + i100" "d400 = e400 + i400" for d4 e4 i4 d100 e100 i100 d400 e400 i400 :: int
    using that by simp
  show ?thesis
    unfolding leap_indicator days_before_year_def
    by (rule add) (simp_all only: div_step [of _ y, symmetric] add_diff_cancel_right' zero_less_numeral)
qed

lemma days_before_year_mono: "y < y' \<Longrightarrow> days_before_year y + 365 + (if is_leap y then 1 else 0) \<le> days_before_year y'"
proof -
  assume "y < y'"
  have "days_before_year u \<le> days_before_year v" if "u \<le> v" for u v
    using that
  proof (induction v rule: int_ge_induct)
    case (step v)
    with days_before_year_Suc [of v] show ?case by simp
  qed simp
  from this [of "y + 1" y'] \<open>y < y'\<close> show ?thesis by (simp add: days_before_year_Suc)
qed

lemma ordinal_less:
  assumes "valid_date d" and "valid_date e" and "d < e"
  shows "ordinal d < ordinal e"
proof -
  have in_month: "1 \<le> dday x \<and> dday x \<le> days_in_month (dyear x) (dmonth x) \<and> 0 < nat (dmonth x) \<and> nat (dmonth x) \<le> 12
      \<and> int (nat (dmonth x)) = dmonth x" if "valid_date x" for x
    using that by (auto simp: valid_date_def)
  note d = in_month [OF assms(1)] and e = in_month [OF assms(2)]
  have nonneg: "0 \<le> days_before_month y m" for y m
  proof (induction m)
    case (Suc m)
    then show ?case using days_in_month_bounds [of y "int m"] by simp
  qed simp
  consider "dyear d < dyear e" | "dyear d = dyear e" "dmonth d < dmonth e" | "dyear d = dyear e" "dmonth d = dmonth e" "dday d < dday e"
    using assms(3) by (auto simp: less_date_def le_less)
  then show ?thesis
  proof cases
    case 1
    have "days_before_month (dyear d) (nat (dmonth d)) + days_in_month (dyear d) (dmonth d) \<le>
        days_before_month (dyear d) 13"
      using days_before_month_mono [of "nat (dmonth d)" 13 "dyear d"] d by auto
    moreover have "days_before_month (dyear d) 13 = 365 + (if is_leap (dyear d) then 1 else 0)"
      by (simp add: eval_nat_numeral days_in_month_def)
    ultimately show ?thesis
      using days_before_year_mono [OF 1] d e nonneg [of "dyear e" "nat (dmonth e)"] by (simp add: ordinal_def)
  next
    case 2
    then show ?thesis
      using days_before_month_mono [of "nat (dmonth d)" "nat (dmonth e)" "dyear d"] d e by (simp add: ordinal_def)
  next
    case 3
    then show ?thesis by (simp add: ordinal_def)
  qed
qed

lemma ordinal_le_iff: "valid_date d \<Longrightarrow> valid_date e \<Longrightarrow> ordinal d \<le> ordinal e \<longleftrightarrow> d \<le> e"
  using ordinal_less [of d e] ordinal_less [of e d] by (cases d e rule: linorder_cases) auto

text \<open>The day of a moment, and the first moment of a day.\<close>

definition midnight :: "date \<Rightarrow> timestamp" where
  "midnight d = (ordinal d - 719163) * microseconds_per_day"

lemma midnight_le_iff: "valid_date d \<Longrightarrow> midnight d \<le> t \<longleftrightarrow> d \<le> date_of t"
proof -
  assume d: "valid_date d"
  have "ordinal (date_of t) = t div microseconds_per_day + 719163"
    by (simp add: date_of_def ordinal_date_of_ordinal)
  moreover have scale: "k * m \<le> t \<longleftrightarrow> k \<le> t div m" if "0 < m" for k m :: int
  proof
    assume "k * m \<le> t"
    from zdiv_mono1 [OF this that] show "k \<le> t div m" using that by simp
  next
    assume "k \<le> t div m"
    then have "k * m \<le> t div m * m" using that by (intro mult_right_mono) simp_all
    also have "\<dots> \<le> t" using that pos_mod_sign [of m t] by (simp flip: minus_mod_eq_div_mult)
    finally show "k * m \<le> t" .
  qed
  have "midnight d \<le> t \<longleftrightarrow> ordinal d - 719163 \<le> t div microseconds_per_day"
    unfolding midnight_def by (rule scale) (simp add: microseconds_per_day_def)
  ultimately show ?thesis using ordinal_le_iff [OF d date_of_valid, of t] by linarith
qed

end
