(* ===== verification/Exports.thy ===== *)
theory Exports
  imports Calendar AdminClients Invoices
begin

text \<open>
  The exports of \<open>services/export_reporting.py\<close> and their endpoints in \<open>api/admin.py\<close>: which rows of a table
  fall into a range of days, the rows as dictionaries, the CSV or JSON document made of them, and the monthly
  report. What \<open>json.dumps\<close> and \<open>repr\<close> write, rounding and the arithmetic of floats are arguments; the
  process runs in UTC, so that the first moment of a day is \<open>midnight\<close>. The time a usage record was last
  changed is kept by its mapped class, which is not part of the repository, and is an argument too.
\<close>

section \<open>Ranges of days\<close>

record export_params =
  xp_start_date :: "date option"
  xp_end_date :: "date option"
  xp_client_id :: "uuid option"
  xp_format :: string

text \<open>Dates as \<open>datetime.date\<close> has them.\<close>

definition py_date :: "date \<Rightarrow> bool" where
  "py_date d = (valid_date d \<and> 1 \<le> dyear d \<and> dyear d \<le> 9999)"

definition valid_export_params :: "export_params \<Rightarrow> bool" where
  "valid_export_params p = (xp_format p \<in> {''csv'', ''json''} \<and>
     (case xp_start_date p of None \<Rightarrow> True | Some d \<Rightarrow> py_date d) \<and> (case xp_end_date p of None \<Rightarrow> True | Some d \<Rightarrow> py_date d))"

text \<open>\<open>d + timedelta(days=n)\<close> for \<open>n \<ge> 0\<close>.\<close>

definition add_days :: "int \<Rightarrow> date \<Rightarrow> exc + date" where
  "add_days n d = (let e = date_of_ordinal (ordinal d + n) in if dyear e > 9999 then Inl OverflowError else Inr e)"

definition json_list :: "jtext option \<Rightarrow> json" where
  "json_list raw = (if text_falsy raw then JNull else case the raw of JText v \<Rightarrow> v | BadText s \<Rightarrow> JStr s)"

definition date_range_clause :: "date option \<Rightarrow> date option \<Rightarrow> date \<Rightarrow> bool" where
  "date_range_clause start_date end_date d =
     ((case start_date of None \<Rightarrow> True | Some s \<Rightarrow> s \<le> d) \<and> (case end_date of None \<Rightarrow> True | Some e \<Rightarrow> d \<le> e))"

definition datetime_range_clause :: "date option \<Rightarrow> date option \<Rightarrow> exc + (timestamp \<Rightarrow> bool)" where
  "datetime_range_clause start_date end_date =
     bindS (case end_date of None \<Rightarrow> Inr None | Some e \<Rightarrow> bindS (add_days 1 e) (\<lambda>next. Inr (Some next))) (\<lambda>next.
     Inr (\<lambda>t. (case start_date of None \<Rightarrow> True | Some s \<Rightarrow> midnight s \<le> t) \<and>
       (case next of None \<Rightarrow> True | Some e \<Rightarrow> t < midnight e)))"

definition of_client :: "export_params \<Rightarrow> uuid option \<Rightarrow> bool" where
  "of_client p cid = (case xp_client_id p of None \<Rightarrow> True | Some x \<Rightarrow> cid = Some x)"

text \<open>The rows a query on a time column selects, newest first.\<close>

definition rows_in_range :: "export_params \<Rightarrow> ('a \<Rightarrow> timestamp) \<Rightarrow> ('a \<Rightarrow> uuid option) \<Rightarrow> 'a list \<Rightarrow> exc + 'a list" where
  "rows_in_range p created client rows =
     bindS (datetime_range_clause (xp_start_date p) (xp_end_date p)) (\<lambda>in_range.
     Inr (newest_first created (filter (\<lambda>x. in_range (created x) \<and> of_client p (client x)) rows)))"

text \<open>Rows joined with their client, whose name is part of the row.\<close>

definition with_client_name :: "db \<Rightarrow> ('a \<Rightarrow> uuid) \<Rightarrow> 'a list \<Rightarrow> ('a \<times> string) list" where
  "with_client_name d client rows =
     concat (map (\<lambda>x. case find_client d (client x) of None \<Rightarrow> [] | Some c \<Rightarrow> [(x, c_name c)]) rows)"

section \<open>The tables\<close>

definition export_client_row :: "client \<Rightarrow> dict" where
  "export_client_row c = [(''id'', JStr (uuid_str (c_id c))), (''name'', JStr (c_name c)),
     (''description'', jopt JStr (c_description c)), (''is_blocked'', JBool (c_is_blocked c)),
     (''billing_status'', JStr (c_billing_status c)),
     (''billing_plan_id'', jopt (\<lambda>u. JStr (uuid_str u)) (c_billing_plan_id c)),
     (''rate_limit_per_minute'', JInt (c_rate_limit_per_minute c)), (''daily_token_quota'', JInt (c_daily_token_quota c)),
     (''monthly_token_quota'', JInt (c_monthly_token_quota c)), (''max_context_tokens'', JInt (c_max_context_tokens c)),
     (''max_output_tokens'', JInt (c_max_output_tokens c)), (''allowed_models'', json_list (c_allowed_models_json c)),
     (''ip_allowlist'', json_list (c_ip_allowlist_json c)), (''ip_blocklist'', json_list (c_ip_blocklist_json c)),
     (''created_at'', jtime (c_created_at c)), (''updated_at'', jtime (c_updated_at c))]"

definition export_clients :: "export_params \<Rightarrow> db \<Rightarrow> exc + dict list" where
  "export_clients p d = bindS (rows_in_range p c_created_at (\<lambda>c. Some (c_id c)) (clients d)) (\<lambda>rows.
     Inr (map export_client_row rows))"

definition export_usage_row :: "(uuid \<Rightarrow> timestamp) \<Rightarrow> usage_record \<times> string \<Rightarrow> dict" where
  "export_usage_row updated entry = (case entry of (u, client_name) \<Rightarrow>
     [(''id'', JStr (uuid_str (u_id u))), (''client_id'', JStr (uuid_str (u_client_id u))),
      (''client_name'', JStr client_name), (''period_start'', JStr (iso_date (u_period_start u))),
      (''period_type'', JStr (u_period_type u)), (''request_count'', JInt (u_request_count u)),
      (''prompt_tokens'', JInt (u_prompt_tokens u)), (''completion_tokens'', JInt (u_completion_tokens u)),
      (''total_tokens'', JInt (u_prompt_tokens u + u_completion_tokens u)), (''created_at'', jtime (u_created_at u)),
      (''updated_at'', jtime (updated (u_id u)))])"

definition export_usage :: "(uuid \<Rightarrow> timestamp) \<Rightarrow> export_params \<Rightarrow> db \<Rightarrow> dict list" where
  "export_usage updated p d = map (export_usage_row updated) (with_client_name d u_client_id
     (sort_key (\<lambda>u. (- ordinal (u_period_start u), - u_created_at u))
       (filter (\<lambda>u. date_range_clause (xp_start_date p) (xp_end_date p) (u_period_start u) \<and> of_client p (Some (u_client_id u)))
         (usage_records d))))"

definition export_invoice_row :: "invoice \<times> string \<Rightarrow> dict" where
  "export_invoice_row entry = (case entry of (i, client_name) \<Rightarrow>
     [(''id'', JStr (uuid_str (i_id i))), (''client_id'', JStr (uuid_str (i_client_id i))),
      (''client_name'', JStr client_name), (''billing_plan_id'', jopt (\<lambda>u. JStr (uuid_str u)) (i_billing_plan_id i)),
      (''status'', JStr (i_status i)), (''currency'', JStr (i_currency i)),
      (''period_start'', JStr (iso_date (i_period_start i))), (''period_end'', JStr (iso_date (i_period_end i))),
      (''monthly_price'', JFloat (i_monthly_price i)), (''included_tokens'', JInt (i_included_tokens i)),
      (''used_tokens'', JInt (i_used_tokens i)), (''overage_tokens'', JInt (i_overage_tokens i)),
      (''overage_price_per_1k_tokens'', JFloat (i_overage_price_per_1k_tokens i)),
      (''overage_cost'', JFloat (i_overage_cost i)), (''total_amount'', JFloat (i_total_amount i)),
      (''payment_method'', JStr (i_payment_method i)), (''due_at'', jopt jtime (i_due_at i)),
      (''paid_at'', jopt jtime (i_paid_at i)), (''cancelled_at'', jopt jtime (i_cancelled_at i)),
      (''created_at'', jtime (i_created_at i)), (''updated_at'', jtime (i_updated_at i))])"

text \<open>The statuses are refreshed in the session, with the default of fifteen days, and not committed.\<close>

definition export_invoices :: "timestamp \<Rightarrow> export_params \<Rightarrow> ('r, dict list) act" where
  "export_invoices now p =
     seqE (update (\<lambda>d. snd (refresh_billing_statuses now 15 d)))
     (bindE (query (\<lambda>d. (d, rows_in_range p i_created_at (\<lambda>i. Some (i_client_id i)) (invoices d)))) (\<lambda>(d, rows).
      bindE (liftE rows) (\<lambda>rows. ret (map export_invoice_row (with_client_name d i_client_id rows)))))"

definition export_payment_row :: "payment \<times> string \<Rightarrow> dict" where
  "export_payment_row entry = (case entry of (y, client_name) \<Rightarrow>
     [(''id'', JStr (uuid_str (y_id y))), (''invoice_id'', JStr (uuid_str (y_invoice_id y))),
      (''client_id'', JStr (uuid_str (y_client_id y))), (''client_name'', JStr client_name), (''status'', JStr (y_status y)),
      (''amount'', JFloat (y_amount y)), (''currency'', JStr (y_currency y)), (''payment_method'', JStr (y_payment_method y)),
      (''payment_reference'', jopt JStr (y_payment_reference y)), (''note'', jopt JStr (y_note y)),
      (''paid_at'', jopt jtime (y_paid_at y)), (''cancelled_at'', jopt jtime (y_cancelled_at y)),
      (''created_at'', jtime (y_created_at y)), (''updated_at'', jtime (y_updated_at y))])"

definition export_payments :: "export_params \<Rightarrow> db \<Rightarrow> exc + dict list" where
  "export_payments p d = bindS (rows_in_range p y_created_at (\<lambda>y. Some (y_client_id y)) (payments d)) (\<lambda>rows.
     Inr (map export_payment_row (with_client_name d y_client_id rows)))"

definition event_row :: "security_event \<Rightarrow> dict" where
  "event_row e = (case serialize_security_event e of JObj row \<Rightarrow> row | _ \<Rightarrow> [])"

definition export_security_events :: "export_params \<Rightarrow> db \<Rightarrow> exc + dict list" where
  "export_security_events p d = bindS (rows_in_range p e_created_at e_client_id (security_events d)) (\<lambda>rows.
     Inr (map event_row rows))"

definition export_request_log_row :: "request_log \<Rightarrow> dict" where
  "export_request_log_row l = [(''id'', JStr (uuid_str (rl_id l))), (''client_id'', JStr (uuid_str (rl_client_id l))),
     (''model'', JStr (rl_model l)), (''endpoint'', JStr (rl_endpoint l)),
     (''prompt_tokens_estimated'', JInt (rl_prompt_tokens l)), (''completion_tokens_estimated'', JInt (rl_completion_tokens l)),
     (''latency_ms'', JInt (rl_latency_ms l)), (''http_status'', JInt (rl_http_status l)), (''is_stream'', JBool (rl_is_stream l)),
     (''estimated_cost_usd'', JFloat (rl_estimated_cost_usd l)), (''backend_name'', jopt JStr (rl_backend_name l)),
     (''attempts'', JInt (rl_attempts l)), (''fallback_used'', JBool (rl_fallback_used l)), (''cache_hit'', JBool (rl_cache_hit l)),
     (''backend_errors'', json_list (rl_backend_errors_json l)), (''error_message'', jopt JStr (rl_error_message l)),
     (''request_summary'', jopt JStr (rl_request_summary l)), (''correlation_id'', jopt JStr (rl_correlation_id l)),
     (''source_ip'', jopt JStr (rl_source_ip l)), (''created_at'', jtime (rl_created_at l))]"

definition export_request_logs :: "export_params \<Rightarrow> db \<Rightarrow> exc + dict list" where
  "export_request_logs p d = bindS (rows_in_range p rl_created_at (\<lambda>l. Some (rl_client_id l)) (request_logs d)) (\<lambda>rows.
     Inr (map export_request_log_row rows))"

section \<open>Documents\<close>

text \<open>How \<open>csv.writer\<close> writes a field and a record in its default dialect.\<close>

definition csv_special :: "char \<Rightarrow> bool" where
  "csv_special c = (c \<in> {CHR '','', CHR 0x22, CHR 0x0D, CHR 0x0A})"

fun csv_quoted :: "string \<Rightarrow> string" where
  "csv_quoted [] = [CHR 0x22]"
| "csv_quoted (c # s) = (if c = CHR 0x22 then CHR 0x22 # CHR 0x22 # csv_quoted s else c # csv_quoted s)"

definition csv_field :: "string \<Rightarrow> string" where
  "csv_field s = (if \<exists>c\<in>set s. csv_special c then CHR 0x22 # csv_quoted s else s)"

definition csv_record :: "string list \<Rightarrow> string" where
  "csv_record vs = (if vs = [[]] then [CHR 0x22, CHR 0x22] else join '','' (map csv_field vs)) @ [CHR 0x0D, CHR 0x0A]"

text \<open>The text of a value: \<open>json.dumps\<close> for a list or a dict, nothing for \<open>None\<close>, \<open>str\<close> for the rest.\<close>

definition csv_value :: "(json \<Rightarrow> string) \<Rightarrow> (json \<Rightarrow> string) \<Rightarrow> json \<Rightarrow> string" where
  "csv_value rp dump v = (case v of JNull \<Rightarrow> [] | JArr _ \<Rightarrow> dump v | JObj _ \<Rightarrow> dump v | _ \<Rightarrow> py_str rp v)"

definition dict_record :: "(json \<Rightarrow> string) \<Rightarrow> (json \<Rightarrow> string) \<Rightarrow> string list \<Rightarrow> dict \<Rightarrow> exc + string list" where
  "dict_record rp dump fieldnames row =
     (if \<exists>k\<in>fst ` set row. k \<notin> set fieldnames then Inl (ValueError ''dict contains fields not in fieldnames'')
      else Inr (map (\<lambda>k. case dict_get row k of None \<Rightarrow> [] | Some v \<Rightarrow> csv_value rp dump v) fieldnames))"

datatype document =
    Json_document json string
  | Csv_document string string

definition disposition :: "string \<Rightarrow> string \<Rightarrow> string" where
  "disposition name suffix = ''attachment; filename='' @ [CHR 0x22] @ name @ suffix @ [CHR 0x22]"

definition render_export_response ::
  "(json \<Rightarrow> string) \<Rightarrow> (json \<Rightarrow> string) \<Rightarrow> timestamp \<Rightarrow> string \<Rightarrow> dict list \<Rightarrow> string \<Rightarrow> exc + document" where
  "render_export_response rp dump now name rows export_format =
     (if export_format = ''json''
      then Inr (Json_document (JObj [(''exported_at'', jtime now), (''name'', JStr name), (''rows'', JArr (map JObj rows))])
        (disposition name ''.json''))
      else
        let fieldnames = (case rows of [] \<Rightarrow> [] | row # _ \<Rightarrow> map fst row) in
        bindS (mapS (dict_record rp dump fieldnames) rows) (\<lambda>records.
        Inr (Csv_document (concat (map csv_record (fieldnames # records))) (disposition name ''.csv''))))"

section \<open>Endpoints\<close>

record export_env =
  xe_rp :: "json \<Rightarrow> string"
  xe_dump :: "json \<Rightarrow> string"
  xe_updated :: "uuid \<Rightarrow> timestamp"

definition exported :: "export_env \<Rightarrow> timestamp \<Rightarrow> string \<Rightarrow> export_params \<Rightarrow> exc + dict list \<Rightarrow> exc + document" where
  "exported env now name p rows = bindS rows (\<lambda>rows.
     render_export_response (xe_rp env) (xe_dump env) now name rows (xp_format p))"

definition export_clients_endpoint :: "export_env \<Rightarrow> timestamp \<Rightarrow> export_params \<Rightarrow> ('r, document) act" where
  "export_clients_endpoint env now p = bindE (query (\<lambda>d. exported env now ''clients'' p (export_clients p d))) liftE"

definition export_usage_endpoint :: "export_env \<Rightarrow> timestamp \<Rightarrow> export_params \<Rightarrow> ('r, document) act" where
  "export_usage_endpoint env now p =
     bindE (query (\<lambda>d. exported env now ''usage'' p (Inr (export_usage (xe_updated env) p d)))) liftE"

definition export_invoices_endpoint :: "export_env \<Rightarrow> timestamp \<Rightarrow> export_params \<Rightarrow> ('r, document) act" where
  "export_invoices_endpoint env now p = bindE (export_invoices now p) (\<lambda>rows. liftE (exported env now ''invoices'' p (Inr rows)))"

definition export_payments_endpoint :: "export_env \<Rightarrow> timestamp \<Rightarrow> export_params \<Rightarrow> ('r, document) act" where
  "export_payments_endpoint env now p = bindE (query (\<lambda>d. exported env now ''payments'' p (export_payments p d))) liftE"

definition export_security_events_endpoint :: "export_env \<Rightarrow> timestamp \<Rightarrow> export_params \<Rightarrow> ('r, document) act" where
  "export_security_events_endpoint env now p =
     bindE (query (\<lambda>d. exported env now ''security-events'' p (export_security_events p d))) liftE"

definition export_request_logs_endpoint :: "export_env \<Rightarrow> timestamp \<Rightarrow> export_params \<Rightarrow> ('r, document) act" where
  "export_request_logs_endpoint env now p =
     bindE (query (\<lambda>d. exported env now ''request-logs'' p (export_request_logs p d))) liftE"

section \<open>Which rows an export holds\<close>

lemma valid_date_of_ordinal: "valid_date (date_of_ordinal n)"
  using date_of_valid [of "(n - 719163) * microseconds_per_day"] by (simp add: date_of_def microseconds_per_day_def)

lemma last_day:
  assumes "py_date e"
  shows "add_days 1 e = (if e = Date 9999 12 31 then Inl OverflowError else Inr (date_of_ordinal (ordinal e + 1)))"
proof -
  let ?next = "date_of_ordinal (ordinal e + 1)" and ?last = "Date 9999 12 31"
  have last: "valid_date ?last" by (simp add: valid_date_def days_in_month_def)
  have "9999 < dyear ?next \<longleftrightarrow> \<not> ?next \<le> ?last"
    using valid_date_of_ordinal [of "ordinal e + 1"]
    by (cases ?next) (auto simp: less_eq_date_def valid_date_def days_in_month_def)
  also have "\<dots> \<longleftrightarrow> ordinal ?last < ordinal e + 1"
    using ordinal_le_iff [OF valid_date_of_ordinal [of "ordinal e + 1"] last] by (auto simp: ordinal_date_of_ordinal)
  also have "\<dots> \<longleftrightarrow> ?last \<le> e"
    using ordinal_le_iff [OF last, of e] assms by (auto simp: py_date_def)
  also have "\<dots> \<longleftrightarrow> e = ?last"
    using assms by (cases e) (auto simp: less_eq_date_def py_date_def valid_date_def days_in_month_def)
  finally show ?thesis by (simp add: add_days_def Let_def)
qed

lemma before_next_midnight:
  assumes "valid_date e"
  shows "t < midnight (date_of_ordinal (ordinal e + 1)) \<longleftrightarrow> date_of t \<le> e"
proof -
  have "t < midnight (date_of_ordinal (ordinal e + 1)) \<longleftrightarrow> \<not> date_of_ordinal (ordinal e + 1) \<le> date_of t"
    using midnight_le_iff [OF valid_date_of_ordinal, of "ordinal e + 1" t] by linarith
  also have "\<dots> \<longleftrightarrow> ordinal (date_of t) \<le> ordinal e"
    using ordinal_le_iff [OF valid_date_of_ordinal date_of_valid, of "ordinal e + 1" t] by (simp add: ordinal_date_of_ordinal) linarith
  finally show ?thesis using ordinal_le_iff [OF date_of_valid assms] by simp
qed

lemma datetime_range_clause:
  assumes "valid_export_params p"
  shows "datetime_range_clause (xp_start_date p) (xp_end_date p) =
    (if xp_end_date p = Some (Date 9999 12 31) then Inl OverflowError
     else Inr (\<lambda>t. date_range_clause (xp_start_date p) (xp_end_date p) (date_of t)))"
proof -
  have start: "midnight s \<le> t \<longleftrightarrow> s \<le> date_of t" if "xp_start_date p = Some s" for s t
    using that assms midnight_le_iff [of s t] by (simp add: valid_export_params_def py_date_def)
  show ?thesis
  proof (cases "xp_end_date p")
    case None
    then show ?thesis
      using start by (auto simp: datetime_range_clause_def date_range_clause_def fun_eq_iff split: option.splits)
  next
    case (Some e)
    then have e: "py_date e" using assms by (simp add: valid_export_params_def)
    then have "valid_date e" by (simp add: py_date_def)
    from before_next_midnight [OF this] show ?thesis
      using start Some by (auto simp: datetime_range_clause_def date_range_clause_def last_day [OF e] fun_eq_iff split: option.splits)
  qed
qed

text \<open>
  An export holds exactly the rows of its range, newest first: those whose day of creation is not before the
  start and not after the end, both days included, and which belong to the client if one is given. Only
  the last day of the calendar as an end makes it fail, since the day after it does not exist.
\<close>

theorem export_range_exact:
  assumes "valid_export_params p"
  shows "rows_in_range p created client rows =
    (if xp_end_date p = Some (Date 9999 12 31) then Inl OverflowError
     else Inr (newest_first created (filter (\<lambda>x. (\<forall>s. xp_start_date p = Some s \<longrightarrow> s \<le> date_of (created x)) \<and>
       (\<forall>e. xp_end_date p = Some e \<longrightarrow> date_of (created x) \<le> e) \<and> (\<forall>c. xp_client_id p = Some c \<longrightarrow> client x = Some c)) rows)))"
proof -
  have "date_range_clause (xp_start_date p) (xp_end_date p) (date_of (created x)) \<and> of_client p (client x) \<longleftrightarrow>
      (\<forall>s. xp_start_date p = Some s \<longrightarrow> s \<le> date_of (created x)) \<and>
      (\<forall>e. xp_end_date p = Some e \<longrightarrow> date_of (created x) \<le> e) \<and> (\<forall>c. xp_client_id p = Some c \<longrightarrow> client x = Some c)" for x
    by (auto simp: date_range_clause_def of_client_def split: option.splits)
  then show ?thesis by (simp add: rows_in_range_def datetime_range_clause [OF assms])
qed

section \<open>What a reader gets from the CSV\<close>

text \<open>A reader of CSV: fields in quotes may hold anything, a quote written twice.\<close>

datatype csv_state = Field_start | Unquoted | Quoted | After_quote

fun read_csv_from :: "csv_state \<Rightarrow> string \<Rightarrow> string list \<Rightarrow> string \<Rightarrow> string list list" where
  "read_csv_from st acc row [] = (if st = Field_start \<and> row = [] then [] else [row @ [acc]])"
| "read_csv_from st acc row (c # s) =
     (if st = Quoted then (if c = CHR 0x22 then read_csv_from After_quote acc row s else read_csv_from Quoted (acc @ [c]) row s)
      else if st = After_quote \<and> c = CHR 0x22 then read_csv_from Quoted (acc @ [c]) row s
      else if st = Field_start \<and> c = CHR 0x22 then read_csv_from Quoted [] row s
      else if c = CHR '','' then read_csv_from Field_start [] (row @ [acc]) s
      else if c = CHR 0x0D then read_csv_from st acc row s
      else if c = CHR 0x0A then (row @ [acc]) # read_csv_from Field_start [] [] s
      else read_csv_from Unquoted (acc @ [c]) row s)"

definition read_csv :: "string \<Rightarrow> string list list" where
  "read_csv s = read_csv_from Field_start [] [] s"

lemma read_quoted: "read_csv_from Quoted acc row (csv_quoted s @ rest) = read_csv_from After_quote (acc @ s) row rest"
  by (induction s arbitrary: acc) auto

lemma read_plain:
  assumes "\<not> (\<exists>c\<in>set s. csv_special c)" and "st = Unquoted \<or> st = Field_start \<and> acc = []"
  shows "read_csv_from st acc row (s @ rest) = read_csv_from (if s = [] then st else Unquoted) (acc @ s) row rest"
  using assms
proof (induction s arbitrary: st acc)
  case (Cons c s)
  then have "read_csv_from st acc row ((c # s) @ rest) = read_csv_from Unquoted (acc @ [c]) row (s @ rest)"
    by (auto simp: csv_special_def)
  with Cons show ?case by simp
qed simp

lemma read_field_sep:
  "read_csv_from Field_start [] row (csv_field f @ CHR '','' # rest) = read_csv_from Field_start [] (row @ [f]) rest"
proof (cases "\<exists>c\<in>set f. csv_special c")
  case True
  then show ?thesis by (simp add: csv_field_def read_quoted)
next
  case False
  then show ?thesis using read_plain [OF False, of Field_start "[]" row "CHR '','' # rest"] by (simp add: csv_field_def)
qed

lemma read_field_end:
  "read_csv_from Field_start [] row (csv_field f @ CHR 0x0D # CHR 0x0A # rest) =
     (row @ [f]) # read_csv_from Field_start [] [] rest"
proof (cases "\<exists>c\<in>set f. csv_special c")
  case True
  then show ?thesis by (simp add: csv_field_def read_quoted)
next
  case False
  then show ?thesis using read_plain [OF False, of Field_start "[]" row "CHR 0x0D # CHR 0x0A # rest"] by (simp add: csv_field_def)
qed

lemma read_record_from:
  "vs \<noteq> [] \<Longrightarrow> read_csv_from Field_start [] row (join '','' (map csv_field vs) @ CHR 0x0D # CHR 0x0A # rest) =
     (row @ vs) # read_csv_from Field_start [] [] rest"
proof (induction vs arbitrary: row)
  case (Cons f fs)
  show ?case
  proof (cases fs)
    case Nil
    then show ?thesis by (simp add: read_field_end)
  next
    case (Cons g gs)
    then show ?thesis using Cons.IH [of "row @ [f]"] by (simp add: read_field_sep)
  qed
qed simp

lemma read_record: "vs \<noteq> [] \<Longrightarrow> read_csv (csv_record vs @ rest) = vs # read_csv rest"
  using read_record_from [of "vs" "[]" rest] by (simp add: read_csv_def csv_record_def)

lemma read_records: "\<forall>vs\<in>set records. vs \<noteq> [] \<Longrightarrow> read_csv (concat (map csv_record records)) = records"
proof (induction records)
  case (Cons vs records)
  then show ?case by (simp add: read_record)
qed (simp add: read_csv_def)

text \<open>Rows of one kind have the same columns.\<close>

definition same_columns :: "string list \<Rightarrow> dict list \<Rightarrow> bool" where
  "same_columns columns rows \<longleftrightarrow> columns \<noteq> [] \<and> distinct columns \<and> (\<forall>row\<in>set rows. map fst row = columns)"

lemma dict_record_columns:
  assumes "map fst row = columns" and "distinct columns"
  shows "dict_record rp dump columns row = Inr (map (csv_value rp dump \<circ> snd) row)"
proof -
  have "map_of row k = Some v" if "(k, v) \<in> set row" for k v
    using that assms by (simp add: map_of_eq_Some_iff)
  then have "map (\<lambda>k. case dict_get row k of None \<Rightarrow> [] | Some v \<Rightarrow> csv_value rp dump v) (map fst row) =
      map (csv_value rp dump \<circ> snd) row"
    by (auto simp: dict_get_def)
  moreover have "fst ` set row = set columns" using assms(1) by (metis list.set_map)
  ultimately show ?thesis using assms(1) by (simp add: dict_record_def)
qed

lemma mapS_Inr: "(\<And>x. x \<in> set xs \<Longrightarrow> f x = Inr (g x)) \<Longrightarrow> mapS f xs = Inr (map g xs)"
  by (induction xs) auto

text \<open>
  C39. Nothing is lost in the CSV. Whatever texts the rows hold, commas, quotes and line breaks of
  prompts and error messages included, a reader of the document gets the names of the columns
  and then the value of every column of every row, unchanged and in order.
\<close>

theorem csv_export_reads_back:
  assumes "same_columns columns rows" and "rows \<noteq> []"
  shows "\<exists>content. render_export_response rp dump now name rows ''csv'' = Inr (Csv_document content (disposition name ''.csv'')) \<and>
    read_csv content = columns # map (map (csv_value rp dump \<circ> snd)) rows"
proof -
  have columns: "(case rows of [] \<Rightarrow> [] | row # _ \<Rightarrow> map fst row) = columns"
    using assms by (cases rows) (simp_all add: same_columns_def)
  have rows: "mapS (dict_record rp dump columns) rows = Inr (map (map (csv_value rp dump \<circ> snd)) rows)"
    by (rule mapS_Inr) (use assms(1) in \<open>auto simp: same_columns_def intro: dict_record_columns\<close>)
  have "\<forall>vs\<in>set (columns # map (map (csv_value rp dump \<circ> snd)) rows). vs \<noteq> []"
    using assms(1) by (auto simp: same_columns_def)
  from read_records [OF this] show ?thesis
    by (simp add: render_export_response_def columns rows)
qed

text \<open>The rows of the exports have their columns, whatever they hold.\<close>

lemma export_columns:
  "rows \<noteq> [] \<Longrightarrow> \<exists>columns. same_columns columns (map export_client_row rows)"
  "rows2 \<noteq> [] \<Longrightarrow> \<exists>columns. same_columns columns (map (export_usage_row updated) rows2)"
  "rows3 \<noteq> [] \<Longrightarrow> \<exists>columns. same_columns columns (map export_invoice_row rows3)"
  "rows4 \<noteq> [] \<Longrightarrow> \<exists>columns. same_columns columns (map export_payment_row rows4)"
  "rows5 \<noteq> [] \<Longrightarrow> \<exists>columns. same_columns columns (map event_row rows5)"
  "rows6 \<noteq> [] \<Longrightarrow> \<exists>columns. same_columns columns (map export_request_log_row rows6)"
proof -
  have columns: "\<exists>columns. same_columns columns (map f rows)"
    if "rows \<noteq> []" "\<And>x y. map fst (f x) = map fst (f y)" "\<And>x. map fst (f x) \<noteq> [] \<and> distinct (map fst (f x))"
    for f :: "'x \<Rightarrow> dict" and rows
    by (rule exI [of _ "map fst (f (hd rows))"]) (use that in \<open>auto simp: same_columns_def\<close>)
  show "rows \<noteq> [] \<Longrightarrow> \<exists>columns. same_columns columns (map export_client_row rows)"
    by (erule columns) (simp_all add: export_client_row_def)
  show "rows2 \<noteq> [] \<Longrightarrow> \<exists>columns. same_columns columns (map (export_usage_row updated) rows2)"
    by (erule columns) (simp_all add: export_usage_row_def split: prod.splits)
  show "rows3 \<noteq> [] \<Longrightarrow> \<exists>columns. same_columns columns (map export_invoice_row rows3)"
    by (erule columns) (simp_all add: export_invoice_row_def split: prod.splits)
  show "rows4 \<noteq> [] \<Longrightarrow> \<exists>columns. same_columns columns (map export_payment_row rows4)"
    by (erule columns) (simp_all add: export_payment_row_def split: prod.splits)
  show "rows5 \<noteq> [] \<Longrightarrow> \<exists>columns. same_columns columns (map event_row rows5)"
    by (erule columns) (simp_all add: event_row_def serialize_security_event_def)
  show "rows6 \<noteq> [] \<Longrightarrow> \<exists>columns. same_columns columns (map export_request_log_row rows6)"
    by (erule columns) (simp_all add: export_request_log_row_def)
qed

section \<open>Witnesses\<close>

definition logged_day :: "int \<Rightarrow> request_log" where
  "logged_day n = \<lparr>rl_id = 3, rl_client_id = 1, rl_model = ''m'', rl_endpoint = ''/v1/chat'', rl_prompt_tokens = 1,
     rl_completion_tokens = 2, rl_latency_ms = 5, rl_http_status = 500, rl_is_stream = False, rl_estimated_cost_usd = 0,
     rl_backend_name = None, rl_attempts = 1, rl_fallback_used = False, rl_cache_hit = False, rl_backend_errors_json = None,
     rl_error_message = Some ([CHR 0x22] @ ''a,b'' @ [CHR 0x22, CHR 0x0A]), rl_request_summary = None, rl_safety_profile = None,
     rl_correlation_id = None, rl_source_ip = None, rl_created_at = days n + 5\<rparr>"

definition one_day :: export_params where
  "one_day = \<lparr>xp_start_date = Some (Date 1970 3 1), xp_end_date = Some (Date 1970 3 1), xp_client_id = None, xp_format = ''csv''\<rparr>"

theorem export_range_exact_witness:
  "valid_export_params one_day \<and>
   rows_in_range one_day rl_created_at (\<lambda>l. Some (rl_client_id l)) [logged_day 58, logged_day 59, logged_day 60] = Inr [logged_day 59]"
proof
  show valid: "valid_export_params one_day" by code_simp
  have dates: "date_of (days 58 + 5) = Date 1970 2 28" "date_of (days 59 + 5) = Date 1970 3 1" "date_of (days 60 + 5) = Date 1970 3 2"
    by code_simp+
  show "rows_in_range one_day rl_created_at (\<lambda>l. Some (rl_client_id l)) [logged_day 58, logged_day 59, logged_day 60] =
      Inr [logged_day 59]"
    by (subst export_range_exact [OF valid])
      (simp add: one_day_def logged_day_def dates newest_first_def less_eq_date_def)
qed

theorem csv_export_reads_back_witness:
  "\<exists>content columns. render_export_response (\<lambda>_. []) (\<lambda>_. []) 0 ''request-logs'' [export_request_log_row (logged_day 59)] ''csv'' =
       Inr (Csv_document content (disposition ''request-logs'' ''.csv'')) \<and>
     (columns ! 15, read_csv content ! 1 ! 15) = (''error_message'', [CHR 0x22] @ ''a,b'' @ [CHR 0x22, CHR 0x0A])"
proof -
  let ?row = "export_request_log_row (logged_day 59)"
  have "same_columns (map fst ?row) [?row]" by (simp add: same_columns_def export_request_log_row_def)
  from csv_export_reads_back [OF this, of "\<lambda>_. []" "\<lambda>_. []" 0 "''request-logs''"]
  obtain content where content:
    "render_export_response (\<lambda>_. []) (\<lambda>_. []) 0 ''request-logs'' [?row] ''csv'' =
       Inr (Csv_document content (disposition ''request-logs'' ''.csv''))"
    "read_csv content = map fst ?row # map (map (csv_value (\<lambda>_. []) (\<lambda>_. []) \<circ> snd)) [?row]" by auto
  have "map fst ?row ! 15 = ''error_message''" "read_csv content ! 1 ! 15 = [CHR 0x22] @ ''a,b'' @ [CHR 0x22, CHR 0x0A]"
    unfolding content(2) by (simp_all add: export_request_log_row_def logged_day_def csv_value_def)
  then show ?thesis using content(1) by (intro exI [of _ content] exI [of _ "map fst ?row"]) simp
qed

end
