(* ===== verification/Reports.thy ===== *)
theory Reports
  imports Exports ResponseCache Wp "HOL-Library.Multiset"
begin

text \<open>
  What operators read about usage and money (\<open>api/admin.py\<close>, \<open>build_monthly_report\<close> of
  \<open>services/export_reporting.py\<close>): counters, the usage summary with its plans and totals, invoice previews,
  the request log, security events, the cache and the monthly report. The arithmetic of floats is an
  argument: adding, \<open>sum\<close>, the quotient and \<open>round(x, n)\<close>.
\<close>

record float_ops =
  fo_add :: "rat \<Rightarrow> rat \<Rightarrow> rat"
  fo_sum :: "rat list \<Rightarrow> rat"
  fo_div :: "rat \<Rightarrow> int \<Rightarrow> rat"
  fo_round :: "nat \<Rightarrow> rat \<Rightarrow> rat"

section \<open>Lists of rows\<close>

text \<open>\<open>updated\<close> is the time a counter was last changed, which its mapped class keeps.\<close>

definition get_usage :: "(uuid \<Rightarrow> timestamp) \<Rightarrow> db \<Rightarrow> json" where
  "get_usage updated d = JArr (map (\<lambda>q. JObj [(''client_id'', JStr (uuid_str (q_client_id q))),
       (''period_start'', JStr (iso_date (q_period_start q))), (''period_type'', JStr (q_period_type q)),
       (''used_tokens'', JInt (q_used_tokens q)), (''used_requests'', JInt (q_used_requests q)),
       (''updated_at'', jtime (updated (q_id q)))])
     (take 200 (newest_first (\<lambda>q. updated (q_id q)) (quota_counters d))))"

definition request_row :: "request_log \<Rightarrow> exc + json" where
  "request_row l =
     bindS (if text_falsy (rl_backend_errors_json l) then Inr (JArr [])
            else case loads (the (rl_backend_errors_json l)) of None \<Rightarrow> Inl JSONDecodeError | Some v \<Rightarrow> Inr v) (\<lambda>backend_errors.
     Inr (JObj [(''id'', JStr (uuid_str (rl_id l))), (''client_id'', JStr (uuid_str (rl_client_id l))),
       (''model'', JStr (rl_model l)), (''endpoint'', JStr (rl_endpoint l)),
       (''prompt_tokens_estimated'', JInt (rl_prompt_tokens l)),
       (''completion_tokens_estimated'', JInt (rl_completion_tokens l)), (''latency_ms'', JInt (rl_latency_ms l)),
       (''estimated_cost_usd'', JFloat (rl_estimated_cost_usd l)), (''status'', JInt (rl_http_status l)),
       (''backend_name'', jopt JStr (rl_backend_name l)), (''attempts'', JInt (rl_attempts l)),
       (''fallback_used'', JBool (rl_fallback_used l)), (''cache_hit'', JBool (rl_cache_hit l)),
       (''backend_errors'', backend_errors), (''error'', jopt JStr (rl_error_message l)),
       (''correlation_id'', jopt JStr (rl_correlation_id l)), (''source_ip'', jopt JStr (rl_source_ip l)),
       (''created_at'', jtime (rl_created_at l))]))"

definition get_requests :: "('r, json) act" where
  "get_requests = bindE (query (\<lambda>d. mapS request_row (take 200 (newest_first rl_created_at (request_logs d))))) (\<lambda>rows.
     bindE (liftE rows) (\<lambda>rows. ret (JArr rows)))"

definition get_security_events :: "('r, json) act" where
  "get_security_events = query list_security_events"

definition cache_stats :: "settings \<Rightarrow> (rat \<Rightarrow> rat) \<Rightarrow> timestamp \<Rightarrow> ('r, json) act" where
  "cache_stats cfg round4 now = query (get_response_cache_stats cfg round4 now)"

definition cache_clear :: "('r, json) act" where
  "cache_clear = bindE clear_response_cache (\<lambda>deleted. seqE commit
     (ret (JObj [(''status'', JStr ''cleared''), (''deleted_entries'', JInt deleted)])))"

section \<open>The usage summary\<close>

text \<open>
  The summary does not read a client with its plan as the rest of the program does: it builds both anew from
  the columns of a query, with limits of its own for clients without a plan, and gives the plan the last of
  its active prices.
\<close>

definition summary_rule :: "db \<Rightarrow> billing_plan \<Rightarrow> pricing_rule option" where
  "summary_rule d p = List.find (\<lambda>r. pr_is_active r \<and> pr_billing_plan_id r = p_id p) (rev (pricing_rules d))"

definition client_stub :: "client \<Rightarrow> client" where
  "client_stub c = c\<lparr>c_description := None, c_rate_limit_per_minute := 5, c_daily_token_quota := 20000,
     c_monthly_token_quota := 300000, c_max_context_tokens := 4096, c_max_output_tokens := 2048, c_metadata_json := None\<rparr>"

definition plan_stub :: "billing_plan \<Rightarrow> billing_plan" where
  "plan_stub p = p\<lparr>p_description := None, p_is_active := True\<rparr>"

definition summary_plan :: "db \<Rightarrow> client \<Rightarrow> effective_plan" where
  "summary_plan d c = (case client_plan d c of
       None \<Rightarrow> resolve_effective_plan (d\<lparr>billing_plans := []\<rparr>) (client_stub c)
     | Some p \<Rightarrow> resolve_effective_plan (d\<lparr>billing_plans := [plan_stub p],
         pricing_rules := (case summary_rule d p of None \<Rightarrow> [] | Some r \<Rightarrow> [r])\<rparr>) (client_stub c))"

definition client_logs :: "db \<Rightarrow> client \<Rightarrow> request_log list" where
  "client_logs d c = filter (\<lambda>l. rl_client_id l = c_id c) (request_logs d)"

definition client_usage_rows :: "db \<Rightarrow> client \<Rightarrow> usage_record list" where
  "client_usage_rows d c = filter (\<lambda>u. u_client_id u = c_id c) (usage_records d)"

definition is_error :: "request_log \<Rightarrow> bool" where
  "is_error l = (400 \<le> rl_http_status l)"

record usage_entry =
  ue_client :: client
  ue_plan :: effective_plan
  ue_requests :: int
  ue_cost :: rat
  ue_prompt_tokens :: int
  ue_completion_tokens :: int
  ue_errors :: int
  ue_latency :: rat
  ue_last_request_at :: "timestamp option"
  ue_usage_requests :: int
  ue_usage_tokens :: int
  ue_daily_used :: int
  ue_monthly_used :: int
  ue_preview :: invoice_preview

definition ue_tokens :: "usage_entry \<Rightarrow> int" where
  "ue_tokens e = ue_prompt_tokens e + ue_completion_tokens e"

definition latest :: "timestamp list \<Rightarrow> timestamp option" where
  "latest ts = (if ts = [] then None else Some (Max (set ts)))"

definition client_entry :: "float_ops \<Rightarrow> date \<Rightarrow> client \<Rightarrow> ('r, usage_entry) act" where
  "client_entry fo today c =
     bindE (get_current_usage_snapshot today (c_id c)) (\<lambda>(daily, monthly).
     bindE (query (\<lambda>d. d)) (\<lambda>d.
     let plan = summary_plan d c; logs = client_logs d c; usage = client_usage_rows d c in
     ret \<lparr>ue_client = c, ue_plan = plan, ue_requests = int (length logs),
       ue_cost = fo_round fo 6 (sum_list (map rl_estimated_cost_usd logs)),
       ue_prompt_tokens = sum_list (map rl_prompt_tokens logs),
       ue_completion_tokens = sum_list (map rl_completion_tokens logs),
       ue_errors = int (length (filter is_error logs)),
       ue_latency = fo_round fo 2 (if logs = [] then 0 else of_int (sum_list (map rl_latency_ms logs)) / of_nat (length logs)),
       ue_last_request_at = latest (map rl_created_at logs),
       ue_usage_requests = sum_list (map u_request_count usage),
       ue_usage_tokens = sum_list (map u_prompt_tokens usage) + sum_list (map u_completion_tokens usage),
       ue_daily_used = used_tokens_of daily, ue_monthly_used = used_tokens_of monthly,
       ue_preview = build_invoice_preview plan (used_tokens_of monthly)\<rparr>))"

record plan_bucket =
  pb_code :: string
  pb_name :: string
  pb_clients :: int
  pb_requests :: int
  pb_tokens :: int
  pb_errors :: int
  pb_daily_used :: int
  pb_monthly_used :: int
  pb_cost :: rat

definition new_bucket :: "effective_plan \<Rightarrow> plan_bucket" where
  "new_bucket plan = \<lparr>pb_code = ep_code plan, pb_name = ep_name plan, pb_clients = 0, pb_requests = 0, pb_tokens = 0,
     pb_errors = 0, pb_daily_used = 0, pb_monthly_used = 0, pb_cost = 0\<rparr>"

definition count_in :: "float_ops \<Rightarrow> usage_entry \<Rightarrow> plan_bucket \<Rightarrow> plan_bucket" where
  "count_in fo e b = b\<lparr>pb_clients := pb_clients b + 1, pb_requests := pb_requests b + ue_requests e,
     pb_tokens := pb_tokens b + ue_tokens e, pb_errors := pb_errors b + ue_errors e,
     pb_daily_used := pb_daily_used b + ue_daily_used e, pb_monthly_used := pb_monthly_used b + ue_monthly_used e,
     pb_cost := fo_add fo (pb_cost b) (iv_total_estimated (ue_preview e))\<rparr>"

text \<open>\<open>by_plan.setdefault(code, ...)\<close>, and the counting in the bucket it returns.\<close>

fun count_by_plan :: "float_ops \<Rightarrow> plan_bucket list \<Rightarrow> usage_entry \<Rightarrow> plan_bucket list" where
  "count_by_plan fo [] e = [count_in fo e (new_bucket (ue_plan e))]"
| "count_by_plan fo (b # bs) e =
     (if pb_code b = ep_code (ue_plan e) then count_in fo e b # bs else b # count_by_plan fo bs e)"

record usage_totals =
  ut_clients :: int
  ut_requests :: int
  ut_tokens :: int
  ut_errors :: int
  ut_latency_sum :: rat
  ut_latency_clients :: int
  ut_cost :: rat

definition count_in_totals :: "float_ops \<Rightarrow> usage_totals \<Rightarrow> usage_entry \<Rightarrow> usage_totals" where
  "count_in_totals fo t e = t\<lparr>ut_requests := ut_requests t + ue_requests e, ut_tokens := ut_tokens t + ue_tokens e,
     ut_errors := ut_errors t + ue_errors e, ut_cost := fo_add fo (ut_cost t) (iv_total_estimated (ue_preview e)),
     ut_latency_sum := (if ue_requests e > 0 then fo_add fo (ut_latency_sum t) (ue_latency e) else ut_latency_sum t),
     ut_latency_clients := (if ue_requests e > 0 then ut_latency_clients t + 1 else ut_latency_clients t)\<rparr>"

definition no_totals :: "int \<Rightarrow> usage_totals" where
  "no_totals n = \<lparr>ut_clients = n, ut_requests = 0, ut_tokens = 0, ut_errors = 0, ut_latency_sum = 0,
     ut_latency_clients = 0, ut_cost = 0\<rparr>"

record usage_summary =
  us_totals :: usage_totals
  us_plans :: "plan_bucket list"
  us_clients :: "usage_entry list"

definition summarize_usage :: "float_ops \<Rightarrow> date \<Rightarrow> ('r, usage_summary) act" where
  "summarize_usage fo today =
     seqE observe_billing_status_metrics
     (bindE (query (\<lambda>d. newest_first c_created_at (clients d))) (\<lambda>rows.
      bindE (forE rows (client_entry fo today)) (\<lambda>entries.
      ret \<lparr>us_totals = foldl (count_in_totals fo) (no_totals (int (length rows))) entries,
           us_plans = foldl (count_by_plan fo) [] entries, us_clients = entries\<rparr>)))"

section \<open>Its answer\<close>

definition usage_entry_json :: "usage_entry \<Rightarrow> json" where
  "usage_entry_json e = (let c = ue_client e; plan = ue_plan e in JObj [
     (''client_id'', JStr (uuid_str (c_id c))), (''name'', JStr (c_name c)), (''is_blocked'', JBool (c_is_blocked c)),
     (''billing_status'', JStr (c_billing_status c)), (''billing_plan_code'', JStr (ep_code plan)),
     (''billing_plan_name'', JStr (ep_name plan)),
     (''plan_limits'', JObj [(''rate_limit_per_minute'', JInt (ep_rate_limit_per_minute plan)),
        (''daily_token_quota'', JInt (ep_daily_token_quota plan)),
        (''monthly_token_quota'', JInt (ep_monthly_token_quota plan)),
        (''max_output_tokens'', JInt (ep_max_output_tokens plan)), (''allow_streaming'', JBool (ep_allow_streaming plan))]),
     (''requests_total'', JInt (ue_requests e)), (''tokens_estimated_total'', JInt (ue_tokens e)),
     (''estimated_cost_usd'', JFloat (ue_cost e)), (''prompt_tokens_estimated'', JInt (ue_prompt_tokens e)),
     (''completion_tokens_estimated'', JInt (ue_completion_tokens e)), (''errors_total'', JInt (ue_errors e)),
     (''avg_latency_ms'', JFloat (ue_latency e)), (''last_request_at'', jopt jtime (ue_last_request_at e)),
     (''usage_record_requests_total'', JInt (ue_usage_requests e)), (''usage_record_tokens_total'', JInt (ue_usage_tokens e)),
     (''daily_usage'', JObj [(''used_tokens'', JInt (ue_daily_used e)),
        (''remaining_tokens'', JInt (max (ep_daily_token_quota plan - ue_daily_used e) 0))]),
     (''monthly_usage'', JObj [(''used_tokens'', JInt (ue_monthly_used e)),
        (''remaining_tokens'', JInt (max (ep_monthly_token_quota plan - ue_monthly_used e) 0))]),
     (''invoice_preview'', preview_json (ue_preview e))])"

definition plan_bucket_json :: "float_ops \<Rightarrow> plan_bucket \<Rightarrow> json" where
  "plan_bucket_json fo b = JObj [(''billing_plan_code'', JStr (pb_code b)), (''billing_plan_name'', JStr (pb_name b)),
     (''clients_total'', JInt (pb_clients b)), (''requests_total'', JInt (pb_requests b)),
     (''tokens_estimated_total'', JInt (pb_tokens b)), (''errors_total'', JInt (pb_errors b)),
     (''daily_used_tokens'', JInt (pb_daily_used b)), (''monthly_used_tokens'', JInt (pb_monthly_used b)),
     (''estimated_cost_usd'', JFloat (fo_round fo 6 (pb_cost b)))]"

definition usage_totals_json :: "float_ops \<Rightarrow> usage_totals \<Rightarrow> json" where
  "usage_totals_json fo t = JObj [(''clients_total'', JInt (ut_clients t)), (''requests_total'', JInt (ut_requests t)),
     (''tokens_estimated_total'', JInt (ut_tokens t)), (''errors_total'', JInt (ut_errors t)),
     (''avg_latency_ms'', JFloat (if ut_latency_clients t > 0
        then fo_round fo 2 (fo_div fo (ut_latency_sum t) (ut_latency_clients t)) else 0)),
     (''estimated_cost_usd'', JFloat (fo_round fo 6 (ut_cost t)))]"

definition get_usage_summary :: "float_ops \<Rightarrow> timestamp \<Rightarrow> date \<Rightarrow> ('r, json) act" where
  "get_usage_summary fo now today = bindE (summarize_usage fo today) (\<lambda>s.
     ret (JObj [(''generated_at'', jtime now), (''totals'', usage_totals_json fo (us_totals s)),
       (''plans'', JArr (map (plan_bucket_json fo) (us_plans s))),
       (''clients'', JArr (map usage_entry_json (us_clients s)))]))"

section \<open>Invoice previews\<close>

definition preview_entry :: "usage_entry \<Rightarrow> json" where
  "preview_entry e = JObj [(''client_id'', JStr (uuid_str (c_id (ue_client e)))), (''name'', JStr (c_name (ue_client e))),
     (''billing_plan_code'', JStr (ep_code (ue_plan e))), (''invoice_preview'', preview_json (ue_preview e))]"

definition refreshed :: "settings \<Rightarrow> timestamp \<Rightarrow> ('r, unit) act" where
  "refreshed cfg now = seqE (update (\<lambda>d. snd (refresh_billing_statuses now (billing_suspend_after_days cfg) d))) commit"

definition preview_invoices :: "settings \<Rightarrow> float_ops \<Rightarrow> timestamp \<Rightarrow> date \<Rightarrow> ('r, json) act" where
  "preview_invoices cfg fo now today =
     seqE (refreshed cfg now)
     (bindE (summarize_usage fo today) (\<lambda>s.
      ret (JObj [(''generated_at'', jtime now),
        (''totals'', JObj [(''clients_total'', JInt (ut_clients (us_totals s))),
           (''estimated_cost_usd'', JFloat (fo_round fo 6 (ut_cost (us_totals s))))]),
        (''clients'', JArr (map preview_entry (us_clients s)))])))"

definition preview_client_invoice :: "settings \<Rightarrow> float_ops \<Rightarrow> timestamp \<Rightarrow> date \<Rightarrow> uuid \<Rightarrow> ('r, json) act" where
  "preview_client_invoice cfg fo now today cid =
     seqE (refreshed cfg now)
     (bindE (summarize_usage fo today) (\<lambda>s.
      case List.find (\<lambda>e. uuid_str (c_id (ue_client e)) = uuid_str cid) (us_clients s) of
        None \<Rightarrow> raise (http_error 404 ''client not found'')
      | Some e \<Rightarrow> ret (preview_entry e)))"

section \<open>The monthly report\<close>

text \<open>\<open>date.fromisoformat(month + "-01")\<close>: four digits, a dash, two digits, and a month that exists.\<close>

definition iso_number :: "string \<Rightarrow> int" where
  "iso_number s = foldl (\<lambda>n c. 10 * n + (int (py_ord c) - 48)) 0 s"

definition parse_month :: "string \<Rightarrow> date option" where
  "parse_month s =
     (if length s = 7 \<and> (\<forall>c\<in>set (take 4 s @ drop 5 s). is_digit c) \<and> s ! 4 = CHR ''-'' \<and>
         1 \<le> iso_number (take 4 s) \<and> 1 \<le> iso_number (drop 5 s) \<and> iso_number (drop 5 s) \<le> 12
      then Some (Date (iso_number (take 4 s)) (iso_number (drop 5 s)) 1) else None)"

text \<open>The first day of the month, of the next one, and the last day.\<close>

definition report_window :: "string option \<Rightarrow> date \<Rightarrow> exc + date \<times> date \<times> date" where
  "report_window month today =
     bindS (case month of
          Some (c # s) \<Rightarrow> (case parse_month (c # s) of
            None \<Rightarrow> Inl (http_error 422 ''month must use YYYY-MM format'') | Some d \<Rightarrow> Inr d)
        | _ \<Rightarrow> Inr (month_start today)) (\<lambda>report_month.
     bindS (add_days 4 (Date (dyear report_month) (dmonth report_month) 28)) (\<lambda>later.
     let next_month = month_start later in
     Inr (report_month, next_month, date_of_ordinal (ordinal next_month - 1))))"

definition billable :: "client \<Rightarrow> bool" where
  "billable c = (\<not> c_is_blocked c \<and> c_billing_status c = ''active'')"

definition consumed_tokens :: "date \<Rightarrow> db \<Rightarrow> int" where
  "consumed_tokens report_month d = sum_list (map (\<lambda>u. u_prompt_tokens u + u_completion_tokens u)
     (filter (\<lambda>u. u_period_type u = ''monthly'' \<and> u_period_start u = report_month) (usage_records d)))"

text \<open>
  The estimated cost is a \<open>Decimal\<close> with five places, which rounding to six leaves as it is; so does the margin,
  the difference of two numbers with at most six places.
\<close>

definition build_monthly_report :: "float_ops \<Rightarrow> date \<Rightarrow> string option \<Rightarrow> ('r, json) act" where
  "build_monthly_report fo today month =
     bindE (liftE (report_window month today)) (\<lambda>(report_month, next_month, period_end).
     bindE (query (\<lambda>d. d)) (\<lambda>d.
     bindE (list_client_billing_snapshots None report_month) (\<lambda>snapshots.
     let is = filter (\<lambda>i. i_period_start i = report_month) (invoices d);
         ys = filter (\<lambda>y. midnight report_month \<le> y_created_at y \<and> y_created_at y < midnight next_month) (payments d);
         forecast_revenue = fo_round fo 6 (fo_sum fo (map (\<lambda>s. iv_total_estimated (sn_invoice_preview s)) snapshots));
         paid_revenue = fo_round fo 6 (fo_sum fo (map y_amount (filter (\<lambda>y. y_status y = ''paid'') ys)));
         overdue_revenue = fo_round fo 6 (fo_sum fo (map i_total_amount (filter (\<lambda>i. i_status i \<in> {''pending'', ''overdue''}) is)));
         tokens = consumed_tokens report_month d;
         estimated_cost = (of_int tokens / 1000) * (1 / 100) in
     ret (JObj [(''month'', JStr (str_int (dyear report_month) @ ''-'' @ pad 2 (str_int (dmonth report_month)))),
       (''period_start'', JStr (iso_date report_month)), (''period_end'', JStr (iso_date period_end)),
       (''forecast_revenue_usd'', JFloat forecast_revenue), (''paid_revenue_usd'', JFloat paid_revenue),
       (''delinquency_usd'', JFloat overdue_revenue), (''active_clients'', JInt (int (length (filter billable (clients d))))),
       (''consumed_tokens'', JInt tokens), (''estimated_cost_usd'', JFloat estimated_cost),
       (''estimated_margin_usd'', JFloat (forecast_revenue - estimated_cost)),
       (''invoices_total'', JInt (int (length is))), (''payments_total'', JInt (int (length ys)))]))))"

definition monthly_report :: "float_ops \<Rightarrow> date \<Rightarrow> string option \<Rightarrow> ('r, json) act" where
  "monthly_report fo today month = build_monthly_report fo today month"

section \<open>The month of a report\<close>

lemma four_digits:
  assumes "length s = 4" and "\<forall>c\<in>set s. is_digit c"
  shows "iso_number s \<le> 9999"
proof -
  obtain a b c d where "s = [a, b, c, d]" using assms(1) by (auto simp: eval_nat_numeral length_Suc_conv)
  then show ?thesis using assms(2) by (simp add: iso_number_def is_digit_def)
qed

lemma date_of_ordinal_eq: "valid_date d \<Longrightarrow> date_of_ordinal (ordinal d) = d"
  using ordinal_le_iff [OF valid_date_of_ordinal [of "ordinal d"], of d] ordinal_le_iff [OF _ valid_date_of_ordinal, of d "ordinal d"]
  by (simp add: ordinal_date_of_ordinal)

definition following_month :: "int \<Rightarrow> int \<Rightarrow> date" where
  "following_month y m = (if m = 12 then Date (y + 1) 1 1 else Date y (m + 1) 1)"

lemma ordinal_following_month:
  assumes "1 \<le> m" and "m \<le> 12"
  shows "ordinal (following_month y m) = ordinal (Date y m 1) + days_in_month y m"
proof (cases "m = 12")
  case True
  have "days_before_month y 12 = 334 + (if is_leap y then 1 else 0)" by (rule december)
  moreover have "days_before_year (y + 1) = days_before_year y + 365 + (if is_leap y then 1 else 0)"
    using days_before_year_mono [of y "y + 1"] days_before_year_Suc by simp
  ultimately show ?thesis using True by (simp add: following_month_def ordinal_def days_in_month_def)
next
  case False
  then have "nat (m + 1) = Suc (nat m)" using assms by (simp add: nat_add_distrib)
  then show ?thesis using False assms by (simp add: following_month_def ordinal_def)
qed

lemma day_of_month: "ordinal (Date y m d) = ordinal (Date y m 1) + d - 1"
  by (simp add: ordinal_def)

lemma month_start_valid: "1 \<le> m \<Longrightarrow> m \<le> 12 \<Longrightarrow> valid_date (Date y m 1)" "1 \<le> m \<Longrightarrow> m \<le> 12 \<Longrightarrow> valid_date (following_month y m)"
  using days_in_month_bounds by (auto simp: valid_date_def following_month_def) (meson dual_order.trans one_le_numeral)+

lemma four_days_later:
  assumes "1 \<le> m" and "m \<le> 12"
  shows "month_start (date_of_ordinal (ordinal (Date y m 28) + 4)) = following_month y m"
proof -
  let ?k = "32 - days_in_month y m"
  let ?later = "Date (dyear (following_month y m)) (dmonth (following_month y m)) ?k"
  have k: "1 \<le> ?k" "?k \<le> 4" using days_in_month_bounds [of y m] by auto
  then have valid: "valid_date ?later"
    using assms days_in_month_bounds [of "dyear (following_month y m)" "dmonth (following_month y m)"]
    by (auto simp: valid_date_def following_month_def)
  have first: "dday (following_month y m) = 1" by (simp add: following_month_def)
  have "ordinal ?later = ordinal (following_month y m) + ?k - 1"
    using day_of_month [of "dyear (following_month y m)" "dmonth (following_month y m)" ?k] first by (cases "following_month y m") simp
  also have "\<dots> = ordinal (Date y m 28) + 4"
    using ordinal_following_month [OF assms] day_of_month [of y m 28] by simp
  finally have "date_of_ordinal (ordinal (Date y m 28) + 4) = ?later" using date_of_ordinal_eq [OF valid] by simp
  then show ?thesis using first by (simp add: month_start_def) (cases "following_month y m", simp)
qed

lemma in_month_iff:
  assumes "valid_date d" and "1 \<le> m" and "m \<le> 12"
  shows "Date y m 1 \<le> d \<and> d < following_month y m \<longleftrightarrow> dyear d = y \<and> dmonth d = m"
  using assms by (cases d) (auto simp: less_eq_date_def less_date_def following_month_def valid_date_def)

text \<open>
  The monthly report is about one month, whole: for a month written as four digits, a dash and two digits, or for
  the current one, the window ends with the last day of that month, leap years included, and a
  payment falls into it exactly if the day of its creation lies in that month. Any other text is refused with
  422, and only the last month of the calendar has no report.
\<close>

theorem report_window_is_the_month:
  assumes "valid_date today" and "1 \<le> dyear today \<and> dyear today \<le> 9999"
  shows "report_window month today =
    (case (case month of Some (c # s) \<Rightarrow> parse_month (c # s) | _ \<Rightarrow> Some (month_start today)) of
       None \<Rightarrow> Inl (http_error 422 ''month must use YYYY-MM format'')
     | Some d \<Rightarrow> if d = Date 9999 12 1 then Inl OverflowError
         else Inr (d, following_month (dyear d) (dmonth d), Date (dyear d) (dmonth d) (days_in_month (dyear d) (dmonth d)))) \<and>
    (\<forall>d next last t. report_window month today = Inr (d, next, last) \<longrightarrow>
       (midnight d \<le> t \<and> t < midnight next \<longleftrightarrow> dyear (date_of t) = dyear d \<and> dmonth (date_of t) = dmonth d))"
    (is "?window \<and> ?exact")
proof -
  define first where "first = (case month of Some (c # s) \<Rightarrow> parse_month (c # s) | _ \<Rightarrow> Some (month_start today))"
  have parsed: "dday d = 1 \<and> 1 \<le> dmonth d \<and> dmonth d \<le> 12 \<and> dyear d \<le> 9999" if "first = Some d" for d
  proof -
    have "dday d = 1 \<and> 1 \<le> dmonth d \<and> dmonth d \<le> 12 \<and> dyear d \<le> 9999" if "parse_month s = Some d" for s
      using that four_digits [of "take 4 s"] by (auto simp: parse_month_def split: if_splits)
    then show ?thesis using that assms
      by (auto simp: first_def month_start_def valid_date_def split: option.splits list.splits)
  qed
  have step: "report_window month today = (case first of None \<Rightarrow> Inl (http_error 422 ''month must use YYYY-MM format'')
      | Some d \<Rightarrow> bindS (add_days 4 (Date (dyear d) (dmonth d) 28)) (\<lambda>later.
          Inr (d, month_start later, date_of_ordinal (ordinal (month_start later) - 1))))"
    by (auto simp: report_window_def first_def Let_def split: option.splits list.splits)
  have window: "report_window month today = (case first of None \<Rightarrow> Inl (http_error 422 ''month must use YYYY-MM format'')
      | Some d \<Rightarrow> if d = Date 9999 12 1 then Inl OverflowError
         else Inr (d, following_month (dyear d) (dmonth d), Date (dyear d) (dmonth d) (days_in_month (dyear d) (dmonth d))))"
  proof (cases first)
    case None
    then show ?thesis by (simp add: step)
  next
    case (Some d)
    obtain y m where d: "d = Date y m 1" and m: "1 \<le> m" "m \<le> 12" "y \<le> 9999" using parsed [OF Some] by (cases d) auto
    let ?later = "date_of_ordinal (ordinal (Date y m 28) + 4)"
    have start: "month_start ?later = following_month y m" by (rule four_days_later [OF m(1,2)])
    have "dyear ?later = dyear (month_start ?later)" by (simp add: month_start_def)
    then have over: "9999 < dyear ?later \<longleftrightarrow> y = 9999 \<and> m = 12" using m(3) unfolding start by (auto simp: following_month_def)
    have "valid_date (Date y m (days_in_month y m))"
      using m days_in_month_bounds [of y m] by (auto simp: valid_date_def)
    from date_of_ordinal_eq [OF this]
    have "date_of_ordinal (ordinal (following_month y m) - 1) = Date y m (days_in_month y m)"
      using ordinal_following_month [OF m(1,2)] day_of_month [of y m "days_in_month y m"] by simp
    then show ?thesis using over start by (auto simp: step Some d add_days_def Let_def)
  qed
  moreover have ?exact
  proof (intro allI impI)
    fix d next_month last t assume "report_window month today = Inr (d, next_month, last)"
    then have "first = Some d" and n: "next_month = following_month (dyear d) (dmonth d)"
      by (auto simp: window split: option.splits if_splits)
    obtain y m where d: "d = Date y m 1" and m: "1 \<le> m" "m \<le> 12" using parsed [OF \<open>first = Some d\<close>] by (cases d) auto
    have "midnight d \<le> t \<and> t < midnight next_month \<longleftrightarrow> Date y m 1 \<le> date_of t \<and> date_of t < following_month y m"
      using midnight_le_iff [OF month_start_valid(1) [OF m], of y t] midnight_le_iff [OF month_start_valid(2) [OF m], of y t]
      by (auto simp: d n not_le [symmetric])
    then show "midnight d \<le> t \<and> t < midnight next_month \<longleftrightarrow> dyear (date_of t) = dyear d \<and> dmonth (date_of t) = dmonth d"
      using in_month_iff [OF date_of_valid m] by (simp add: d)
  qed
  ultimately show ?thesis by (simp add: first_def)
qed

section \<open>The summary adds up\<close>

text \<open>A loop whose turns do not change the rows answers with one result for each element.\<close>

lemma forE_results:
  assumes "forE xs f w = (Inr ys, t)" and "\<And>x u y v. x \<in> set xs \<Longrightarrow> I u \<Longrightarrow> f x u = (Inr y, v) \<Longrightarrow> R x y \<and> I v" and "I w"
  shows "list_all2 R xs ys \<and> I t"
  using assms
proof (induction xs arbitrary: w ys)
  case (Cons x xs)
  from Cons.prems(1) obtain y v zs where step: "f x w = (Inr y, v)" "forE xs f v = (Inr zs, t)" "ys = y # zs"
    by (auto simp: bindE_def split: prod.splits sum.splits)
  have y: "R x y" "I v" using Cons.prems(2) [of x w y v] Cons.prems(3) step(1) by auto
  have "list_all2 R xs zs \<and> I t" by (rule Cons.IH [OF step(2) _ y(2)]) (rule Cons.prems(2), auto)
  with y(1) step(3) show ?case by simp
qed auto

lemma client_entry_reads:
  assumes "client_entry fo today c w = (Inr e, t)"
  shows "w_db t = w_db w \<and> ue_client e = c \<and> ue_plan e = summary_plan (w_db w) c \<and> ue_requests e = int (length (client_logs (w_db w) c))"
  using assms
  by (auto simp: client_entry_def get_current_usage_snapshot_def get_usage_snapshot_for_date_def usage_snapshot_period_def
      bindE_def liftE_def Let_def split: prod.splits sum.splits)

lemma observe_reads:
  fixes w :: "'a world"
  shows "\<exists>u. observe_billing_status_metrics w = (Inr (), u) \<and> w_db u = w_db w"
proof -
  have loop: "wp (\<lambda>_ u. w_db u = w_db w) (\<lambda>_ _. False) (forE xs f) v"
    if "w_db v = w_db w" "\<And>x u. w_db u = w_db w \<Longrightarrow> wp (\<lambda>_ u. w_db u = w_db w) (\<lambda>_ _. False) (f x) u"
    for xs and f :: "_ \<Rightarrow> ('a, unit) act" and v
    by (rule wp_for) (use that in auto)
  have "wp (\<lambda>_ u. w_db u = w_db w) (\<lambda>_ _. False) observe_billing_status_metrics w"
    unfolding observe_billing_status_metrics_def wp_simps
    by (rule wp_weaken [OF loop], simp, simp add: wp_simps, rule wp_weaken [OF loop]) (auto simp: wp_simps split: prod.splits)
  then show ?thesis by (auto simp: wp_def split: prod.splits sum.splits)
qed

lemma usage_summary_run:
  assumes "summarize_usage fo today w = (Inr s, t)"
  shows "map ue_client (us_clients s) = newest_first c_created_at (clients (w_db w)) \<and>
    map ue_requests (us_clients s) =
      map (\<lambda>c. int (length (client_logs (w_db w) c))) (newest_first c_created_at (clients (w_db w))) \<and>
    us_plans s = foldl (count_by_plan fo) [] (us_clients s) \<and>
    us_totals s = foldl (count_in_totals fo) (no_totals (int (length (us_clients s)))) (us_clients s)"
proof -
  let ?rows = "newest_first c_created_at (clients (w_db w))"
  obtain u where u: "w_db u = w_db w" "observe_billing_status_metrics w = (Inr (), u)" using observe_reads by blast
  have "bindE (query (\<lambda>d. newest_first c_created_at (clients d))) (\<lambda>rows.
      bindE (forE rows (client_entry fo today)) (\<lambda>entries.
      ret \<lparr>us_totals = foldl (count_in_totals fo) (no_totals (int (length rows))) entries,
           us_plans = foldl (count_by_plan fo) [] entries, us_clients = entries\<rparr>)) u = (Inr s, t)"
    using assms unfolding summarize_usage_def by (simp only: seqE_Inr [where m = observe_billing_status_metrics, OF u(2)])
  then obtain entries v where loop: "forE ?rows (client_entry fo today) u = (Inr entries, v)"
    and s': "s = \<lparr>us_totals = foldl (count_in_totals fo) (no_totals (int (length ?rows))) entries,
      us_plans = foldl (count_by_plan fo) [] entries, us_clients = entries\<rparr>"
    by (simp add: bindE_eq_Inr u(1)) blast
  then have s: "us_plans s = foldl (count_by_plan fo) [] (us_clients s)" "us_clients s = entries"
    "us_totals s = foldl (count_in_totals fo) (no_totals (int (length ?rows))) (us_clients s)" by simp_all
  note loop = loop [folded s(2)]
  have entries: "list_all2 (\<lambda>c e. ue_client e = c \<and> ue_requests e = int (length (client_logs (w_db w) c))) ?rows (us_clients s)"
  proof (rule conjunct1 [OF forE_results [OF loop, where I = "\<lambda>t. w_db t = w_db w"]])
    fix c v e v' assume "w_db v = w_db w" and "client_entry fo today c v = (Inr e, v')"
    with client_entry_reads [OF this(2)] show "(ue_client e = c \<and> ue_requests e = int (length (client_logs (w_db w) c))) \<and> w_db v' = w_db w"
      by simp
  qed (rule u(1))
  then have "map ue_client (us_clients s) = ?rows \<and> map ue_requests (us_clients s) =
      map (\<lambda>c. int (length (client_logs (w_db w) c))) ?rows \<and> length ?rows = length (us_clients s)"
    by (induction rule: list_all2_induct) auto
  with s show ?thesis by simp
qed

text \<open>Sums over the buckets, and over those of one plan, grow by what is counted.\<close>

lemma sum_count_by_plan:
  assumes "\<And>b. pb_code (count_in fo e b) = pb_code b" and "\<And>b. g (count_in fo e b) = g b + (h e :: int)"
    and "g (new_bucket (ue_plan e)) = 0"
  shows "sum_list (map g (filter (\<lambda>b. P (pb_code b)) (count_by_plan fo bs e))) =
    sum_list (map g (filter (\<lambda>b. P (pb_code b)) bs)) + (if P (ep_code (ue_plan e)) then h e else 0)"
proof (induction bs)
  case Nil
  have "pb_code (new_bucket (ue_plan e)) = ep_code (ue_plan e)" by (simp add: new_bucket_def)
  then show ?case by (simp add: assms)
next
  case (Cons b bs)
  then show ?case by (simp add: assms)
qed

lemma sum_counted:
  assumes "\<And>e b. pb_code (count_in fo e b) = pb_code b" and "\<And>e b. g (count_in fo e b) = g b + (h e :: int)"
    and "\<And>p. g (new_bucket p) = 0"
  shows "sum_list (map g (filter (\<lambda>b. P (pb_code b)) (foldl (count_by_plan fo) bs es))) =
    sum_list (map g (filter (\<lambda>b. P (pb_code b)) bs)) + sum_list (map h (filter (\<lambda>e. P (ep_code (ue_plan e))) es))"
proof (induction es arbitrary: bs)
  case (Cons e es)
  show ?case
    using Cons.IH [of "count_by_plan fo bs e"] sum_count_by_plan [where e = e and g = g and h = h and fo = fo and P = P and bs = bs] assms
    by simp
qed simp

lemma codes_counted:
  "distinct (map pb_code bs) \<Longrightarrow> distinct (map pb_code (foldl (count_by_plan fo) bs es)) \<and>
     pb_code ` set (foldl (count_by_plan fo) bs es) = pb_code ` set bs \<union> (\<lambda>e. ep_code (ue_plan e)) ` set es"
proof (induction es arbitrary: bs)
  case (Cons e es)
  have code: "pb_code (count_in fo e b) = pb_code b" for b by (simp add: count_in_def)
  have one: "distinct (map pb_code (count_by_plan fo bs e)) \<and>
      pb_code ` set (count_by_plan fo bs e) = insert (ep_code (ue_plan e)) (pb_code ` set bs)"
    if "distinct (map pb_code bs)" for bs
    using that by (induction bs) (auto simp: code new_bucket_def)
  from Cons.IH [OF conjunct1 [OF one [OF Cons.prems]]] one [OF Cons.prems] show ?case by auto
qed simp

lemma sum_of_code:
  assumes "distinct (map pb_code bs)" and "b \<in> set bs"
  shows "sum_list (map (g :: _ \<Rightarrow> int) (filter (\<lambda>x. pb_code b = pb_code x) bs)) = g b"
proof -
  have "filter (\<lambda>x. pb_code b = pb_code x) bs = [b]"
    using assms
  proof (induction bs)
    case (Cons x bs)
    show ?case
    proof (cases "x = b")
      case True
      then have "\<forall>y\<in>set bs. pb_code y \<noteq> pb_code b" using Cons.prems(1) by (metis distinct.simps(2) image_eqI list.simps(9) list.set_map)
      then have "filter (\<lambda>y. pb_code b = pb_code y) bs = []" by (auto simp: filter_empty_conv)
      then show ?thesis using True by simp
    next
      case False
      then have "b \<in> set bs" using Cons.prems(2) by simp
      moreover from imageI [OF this, of pb_code] have "pb_code b \<noteq> pb_code x" using Cons.prems(1) by auto
      ultimately show ?thesis using Cons by simp
    qed
  qed simp
  then show ?thesis by simp
qed

lemmas counted = count_in_def new_bucket_def ue_tokens_def

lemma bucket_sums:
  fixes es :: "usage_entry list" and fo :: float_ops
  defines "bs \<equiv> foldl (count_by_plan fo) [] es"
  shows "sum_list (map pb_clients bs) = int (length es)"
    and "sum_list (map pb_requests bs) = sum_list (map ue_requests es)"
    and "sum_list (map pb_tokens bs) = sum_list (map ue_tokens es)"
    and "sum_list (map pb_errors bs) = sum_list (map ue_errors es)"
    and "b \<in> set bs \<Longrightarrow> pb_clients b = int (length (filter (\<lambda>e. pb_code b = ep_code (ue_plan e)) es))"
    and "b \<in> set bs \<Longrightarrow> pb_requests b = sum_list (map ue_requests (filter (\<lambda>e. pb_code b = ep_code (ue_plan e)) es))"
    and "b \<in> set bs \<Longrightarrow> pb_tokens b = sum_list (map ue_tokens (filter (\<lambda>e. pb_code b = ep_code (ue_plan e)) es))"
    and "b \<in> set bs \<Longrightarrow> pb_monthly_used b = sum_list (map ue_monthly_used (filter (\<lambda>e. pb_code b = ep_code (ue_plan e)) es))"
proof -
  have ones: "sum_list (map (\<lambda>_. 1 :: int) xs) = int (length xs)" for xs :: "usage_entry list" by (induction xs) auto
  have all: "sum_list (map g bs) = sum_list (map h es)"
    if "\<And>e b. g (count_in fo e b) = g b + (h e :: int)" "\<And>p. g (new_bucket p) = 0" for g h
    using sum_counted [where P = "\<lambda>_. True" and bs = "[]" and fo = fo and g = g and h = h and es = es] that
    by (simp add: bs_def count_in_def)
  have each: "g b = sum_list (map h (filter (\<lambda>e. pb_code b = ep_code (ue_plan e)) es))"
    if "\<And>e b. g (count_in fo e b) = g b + (h e :: int)" "\<And>p. g (new_bucket p) = 0" "b \<in> set bs" for g h b
    using sum_counted [where P = "\<lambda>k. pb_code b = k" and bs = "[]" and fo = fo and g = g and h = h and es = es] that
      sum_of_code [of bs b g] codes_counted [of "[]" fo es] by (simp add: bs_def count_in_def)
  show "sum_list (map pb_clients bs) = int (length es)" by (subst all [where h = "\<lambda>_. 1"]) (simp_all add: counted ones)
  show "sum_list (map pb_requests bs) = sum_list (map ue_requests es)" by (rule all) (simp_all add: counted)
  show "sum_list (map pb_tokens bs) = sum_list (map ue_tokens es)" by (rule all) (simp_all add: counted)
  show "sum_list (map pb_errors bs) = sum_list (map ue_errors es)" by (rule all) (simp_all add: counted)
  assume b: "b \<in> set bs"
  show "pb_clients b = int (length (filter (\<lambda>e. pb_code b = ep_code (ue_plan e)) es))"
    by (subst each [where h = "\<lambda>_. 1", OF _ _ b]) (simp_all add: counted ones)
  show "pb_requests b = sum_list (map ue_requests (filter (\<lambda>e. pb_code b = ep_code (ue_plan e)) es))"
    by (rule each [OF _ _ b]) (simp_all add: counted)
  show "pb_tokens b = sum_list (map ue_tokens (filter (\<lambda>e. pb_code b = ep_code (ue_plan e)) es))"
    by (rule each [OF _ _ b]) (simp_all add: counted)
  show "pb_monthly_used b = sum_list (map ue_monthly_used (filter (\<lambda>e. pb_code b = ep_code (ue_plan e)) es))"
    by (rule each [OF _ _ b]) (simp_all add: counted)
qed

lemma totals_counted:
  "ut_clients (foldl (count_in_totals fo) t es) = ut_clients t \<and>
   ut_requests (foldl (count_in_totals fo) t es) = ut_requests t + sum_list (map ue_requests es) \<and>
   ut_tokens (foldl (count_in_totals fo) t es) = ut_tokens t + sum_list (map ue_tokens es) \<and>
   ut_errors (foldl (count_in_totals fo) t es) = ut_errors t + sum_list (map ue_errors es)"
  by (induction es arbitrary: t) (simp_all add: count_in_totals_def)

lemma requests_of_all_clients:
  assumes "distinct (map c_id cs)"
  shows "sum_list (map (\<lambda>c. int (length (client_logs d c))) cs) =
    int (length (filter (\<lambda>l. rl_client_id l \<in> c_id ` set cs) (request_logs d)))"
  using assms
proof (induction cs)
  case (Cons c cs)
  have "length (filter (\<lambda>l. rl_client_id l \<in> c_id ` set (c # cs)) ls) =
      length (filter (\<lambda>l. rl_client_id l = c_id c) ls) + length (filter (\<lambda>l. rl_client_id l \<in> c_id ` set cs) ls)" for ls
    using Cons.prems by (induction ls) auto
  from this [of "request_logs d"] show ?case using Cons by (simp add: client_logs_def)
qed simp

text \<open>
  C40. The usage summary adds up. It shows every client once, newest first; each plan it shows has clients, no plan is
  shown twice, and what it says of a plan is the sum over its clients; clients, requests, tokens and
  errors of the plans sum to the totals, and the total of the requests is the number of rows of the
  request log that belong to a client.
\<close>

theorem usage_summary_adds_up:
  assumes "handle (summarize_usage fo today) w = (Inr s, t)" and "distinct (map c_id (clients (w_db w)))"
  shows "map ue_client (us_clients s) = newest_first c_created_at (clients (w_db w)) \<and> distinct (map pb_code (us_plans s)) \<and>
    (\<forall>b\<in>set (us_plans s). let es = filter (\<lambda>e. pb_code b = ep_code (ue_plan e)) (us_clients s) in
       es \<noteq> [] \<and> pb_clients b = int (length es) \<and> pb_requests b = sum_list (map ue_requests es) \<and>
       pb_tokens b = sum_list (map ue_tokens es) \<and> pb_monthly_used b = sum_list (map ue_monthly_used es)) \<and>
    ut_clients (us_totals s) = sum_list (map pb_clients (us_plans s)) \<and>
    ut_requests (us_totals s) = sum_list (map pb_requests (us_plans s)) \<and>
    ut_tokens (us_totals s) = sum_list (map pb_tokens (us_plans s)) \<and>
    ut_errors (us_totals s) = sum_list (map pb_errors (us_plans s)) \<and>
    ut_requests (us_totals s) =
      int (length (filter (\<lambda>l. rl_client_id l \<in> c_id ` set (clients (w_db w))) (request_logs (w_db w))))"
proof -
  obtain u where "summarize_usage fo today w = (Inr s, u)" using assms(1) by (auto simp: handle_def split: prod.splits)
  note run = usage_summary_run [OF this]
  let ?rows = "newest_first c_created_at (clients (w_db w))" and ?es = "us_clients s"
  have plans: "us_plans s = foldl (count_by_plan fo) [] ?es" using run by simp
  note sums = bucket_sums [where fo = fo and es = ?es, folded plans]
  have totals: "ut_clients (us_totals s) = int (length ?es)" "ut_requests (us_totals s) = sum_list (map ue_requests ?es)"
    "ut_tokens (us_totals s) = sum_list (map ue_tokens ?es)" "ut_errors (us_totals s) = sum_list (map ue_errors ?es)"
    using run totals_counted [of fo "no_totals (int (length ?es))" ?es] by (simp_all add: no_totals_def)
  have codes: "distinct (map pb_code (us_plans s))" "pb_code ` set (us_plans s) = (\<lambda>e. ep_code (ue_plan e)) ` set ?es"
    using codes_counted [of "[]" fo ?es] plans by simp_all
  have nonempty: "filter (\<lambda>e. pb_code b = ep_code (ue_plan e)) ?es \<noteq> []" if "b \<in> set (us_plans s)" for b
    using imageI [OF that, of pb_code] by (auto simp: codes(2) filter_empty_conv)
  have perm: "mset ?rows = mset (clients (w_db w))" by (simp add: newest_first_def)
  have "sum_list (map ue_requests ?es) = sum_list (map (\<lambda>c. int (length (client_logs (w_db w) c))) (clients (w_db w)))"
    using run perm by (metis mset_map sum_mset_sum_list)
  then have "sum_list (map ue_requests ?es) =
      int (length (filter (\<lambda>l. rl_client_id l \<in> c_id ` set (clients (w_db w))) (request_logs (w_db w))))"
    using requests_of_all_clients [OF assms(2)] by simp
  with run codes(1) nonempty sums totals show ?thesis by (auto simp: Let_def)
qed

section \<open>The plan the summary shows\<close>

lemma find_filter: "List.find P xs = (case filter P xs of [] \<Rightarrow> None | x # _ \<Rightarrow> Some x)"
  by (induction xs) auto

lemma find_rev_single:
  assumes "length (filter P xs) \<le> 1"
  shows "List.find P (rev xs) = List.find P xs"
proof -
  have "rev (filter P xs) = filter P xs"
    using assms by (cases "filter P xs" rule: scalar_one_or_none.cases) auto
  then show ?thesis by (simp add: find_filter rev_filter [symmetric])
qed

text \<open>
  What the summary makes of a plan is the plan the program charges by. For a client with a plan that has at most one
  active price, the limits and prices shown, and with them the previewed invoice, are those of its plan. A
  client without a plan is previewed at the same amount, nothing, but with limits that are not its own.
\<close>

theorem summary_plan_is_effective:
  "(\<forall>p. client_plan d c = Some p \<and> length (filter pr_is_active (plan_rules d p)) \<le> 1 \<longrightarrow>
      summary_plan d c = resolve_effective_plan d c) \<and>
    (client_plan d c = None \<longrightarrow> summary_plan d c = (resolve_effective_plan d c)\<lparr>ep_rate_limit_per_minute := 5,
        ep_daily_token_quota := 20000, ep_monthly_token_quota := 300000, ep_max_output_tokens := 2048\<rparr> \<and>
      iv_total_estimated (build_invoice_preview (summary_plan d c) n) = iv_total_estimated (build_invoice_preview (resolve_effective_plan d c) n))"
proof -
  have planned: "summary_plan d c = resolve_effective_plan d c"
    if p: "client_plan d c = Some p" and single: "length (filter pr_is_active (plan_rules d p)) \<le> 1" for p
  proof -
    let ?owned = "\<lambda>r. pr_billing_plan_id r = p_id p"
    have "filter (\<lambda>r. pr_is_active r \<and> ?owned r) (pricing_rules d) = filter pr_is_active (plan_rules d p)"
      by (simp add: plan_rules_def conj_commute)
    then have "summary_rule d p = List.find (\<lambda>r. pr_is_active r \<and> ?owned r) (pricing_rules d)"
      using single by (simp add: summary_rule_def find_rev_single)
    also have "\<dots> = active_rule d p"
      by (simp add: active_rule_def plan_rules_def find_filter conj_commute)
    finally have rule: "summary_rule d p = active_rule d p" .
    have rules: "pr_is_active r \<and> ?owned r" if "active_rule d p = Some r" for r
      using find_Some_set [OF that [unfolded active_rule_def]] by (simp add: plan_rules_def)
    have "c_billing_plan_id c = Some (p_id p)"
      using p find_Some_set [of "\<lambda>q. p_id q = the (c_billing_plan_id c)"] by (auto simp: client_plan_def split: option.splits)
    then have stub: "client_plan (d\<lparr>billing_plans := [plan_stub p], pricing_rules := rs\<rparr>) (client_stub c) = Some (plan_stub p)" for rs
      by (simp add: client_plan_def client_stub_def plan_stub_def)
    have price: "active_rule (d\<lparr>billing_plans := [plan_stub p], pricing_rules := (case active_rule d p of None \<Rightarrow> [] | Some r \<Rightarrow> [r])\<rparr>)
        (plan_stub p) = active_rule d p"
    proof (cases "active_rule d p")
      case None
      then show ?thesis by (simp add: active_rule_def plan_rules_def plan_stub_def)
    next
      case (Some r)
      from rules [OF this] Some show ?thesis by (simp add: active_rule_def [of "d\<lparr>billing_plans := _, pricing_rules := _\<rparr>"] plan_rules_def plan_stub_def)
    qed
    show ?thesis
      unfolding summary_plan_def resolve_effective_plan_def
      by (simp add: p rule stub price Let_def) (simp add: plan_stub_def)
  qed
  have "summary_plan d c = (resolve_effective_plan d c)\<lparr>ep_rate_limit_per_minute := 5,
        ep_daily_token_quota := 20000, ep_monthly_token_quota := 300000, ep_max_output_tokens := 2048\<rparr> \<and>
      iv_total_estimated (build_invoice_preview (summary_plan d c) n) = iv_total_estimated (build_invoice_preview (resolve_effective_plan d c) n)"
    if none: "client_plan d c = None"
  proof -
    have "client_plan (d\<lparr>billing_plans := []\<rparr>) (client_stub c) = None"
      by (simp add: client_plan_def split: option.splits)
    then have "summary_plan d c = (resolve_effective_plan d c)\<lparr>ep_rate_limit_per_minute := 5,
        ep_daily_token_quota := 20000, ep_monthly_token_quota := 300000, ep_max_output_tokens := 2048\<rparr>"
      by (simp add: summary_plan_def resolve_effective_plan_def none client_stub_def)
    then show ?thesis by (simp add: build_invoice_preview_def Let_def resolve_effective_plan_def none)
  qed
  with planned show ?thesis by blast
qed

section \<open>Witnesses\<close>

definition exact_floats :: float_ops where
  "exact_floats = \<lparr>fo_add = (+), fo_sum = sum_list, fo_div = (\<lambda>x n. x / of_int n), fo_round = (\<lambda>_ x. x)\<rparr>"

definition reported_plan :: billing_plan where
  "reported_plan = \<lparr>p_id = 4, p_code = ''pro'', p_name = ''Pro'', p_description = None, p_rate_limit_per_minute = 10,
     p_daily_token_quota = 1000, p_monthly_token_quota = 10000, p_max_output_tokens = 512, p_allow_streaming = True,
     p_is_active = True, p_allowed_models_json = None, p_created_at = 0, p_updated_at = 0\<rparr>"

definition reported_price :: pricing_rule where
  "reported_price = \<lparr>pr_id = 5, pr_billing_plan_id = 4, pr_currency = ''USD'', pr_monthly_price = 20,
     pr_overage_price_per_1k_tokens = 1 / 100, pr_description = None, pr_is_active = True, pr_created_at = 0, pr_updated_at = 0\<rparr>"

definition reported_db :: db where
  "reported_db = empty_db\<lparr>clients := [billing_client, billing_client\<lparr>c_id := 2, c_billing_plan_id := Some 4\<rparr>],
     billing_plans := [reported_plan], pricing_rules := [reported_price],
     request_logs := [logged_day 1, (logged_day 1)\<lparr>rl_client_id := 2\<rparr>, (logged_day 2)\<lparr>rl_client_id := 2\<rparr>]\<rparr>"

theorem usage_summary_adds_up_witness:
  "\<exists>s t. handle (summarize_usage exact_floats (Date 1970 1 3)) (billing_world reported_db) = (Inr s, t) \<and>
     ut_requests (us_totals s) = 3 \<and> sum_list (map pb_requests (us_plans s)) = 3 \<and>
     map (\<lambda>b. (pb_code b, pb_requests b)) (us_plans s) = [(''legacy'', 1), (''pro'', 2)]"
proof -
  let ?run = "handle (summarize_usage exact_floats (Date 1970 1 3)) (billing_world reported_db)"
  have "\<not> isl (fst ?run)" by code_simp
  then obtain s where s: "?run = (Inr s, snd ?run)" by (metis isl_def prod.collapse sum.exhaust)
  have ids: "distinct (map c_id (clients (w_db (billing_world reported_db))))" by code_simp
  have owned: "length (filter (\<lambda>l. rl_client_id l \<in> c_id ` set (clients (w_db (billing_world reported_db))))
      (request_logs (w_db (billing_world reported_db)))) = 3"
    by code_simp
  have plans: "map (\<lambda>b. (pb_code b, pb_requests b)) (us_plans (projr (fst ?run))) = [(''legacy'', 1), (''pro'', 2)]"
    by code_simp
  have "projr (fst ?run) = s" by (simp add: arg_cong [OF s, of fst])
  with plans usage_summary_adds_up [OF s ids] owned s show ?thesis
    by (intro exI [of _ s] exI [of _ "snd ?run"]) (simp add: Let_def)
qed

theorem report_window_is_the_month_witness:
  "report_window (Some ''2024-02'') (Date 2025 7 9) = Inr (Date 2024 2 1, Date 2024 3 1, Date 2024 2 29) \<and>
   (\<forall>t. midnight (Date 2024 2 1) \<le> t \<and> t < midnight (Date 2024 3 1) \<longleftrightarrow> dyear (date_of t) = 2024 \<and> dmonth (date_of t) = 2)"
proof -
  have today: "valid_date (Date 2025 7 9)" "1 \<le> dyear (Date 2025 7 9) \<and> dyear (Date 2025 7 9) \<le> 9999" by code_simp+
  have parsed: "parse_month ''2024-02'' = Some (Date 2024 2 1)" by code_simp
  have "days_in_month 2024 2 = 29" by code_simp
  then show ?thesis
    using report_window_is_the_month [OF today, of "Some ''2024-02''"] parsed by (auto simp: following_month_def)
qed

theorem summary_plan_is_effective_witness:
  "summary_plan reported_db (billing_client\<lparr>c_id := 2, c_billing_plan_id := Some 4\<rparr>) =
     resolve_effective_plan reported_db (billing_client\<lparr>c_id := 2, c_billing_plan_id := Some 4\<rparr>) \<and>
   ep_monthly_token_quota (summary_plan reported_db billing_client) = 300000 \<and>
   ep_monthly_token_quota (resolve_effective_plan reported_db billing_client) = 1000"
proof -
  let ?planned = "billing_client\<lparr>c_id := 2, c_billing_plan_id := Some 4\<rparr>"
  have "client_plan reported_db ?planned = Some reported_plan" "client_plan reported_db billing_client = None"
    "length (filter pr_is_active (plan_rules reported_db reported_plan)) \<le> 1"
    by (simp_all add: client_plan_def plan_rules_def reported_db_def reported_plan_def reported_price_def billing_client_def)
  then show ?thesis
    using summary_plan_is_effective [of reported_db ?planned 0] summary_plan_is_effective [of reported_db billing_client 0]
    by (simp add: resolve_effective_plan_def) (simp add: billing_client_def)
qed

end
