(* ===== verification/PaidInvoices.thy ===== *)
theory PaidInvoices
  imports AdminBilling Portal Reports
begin

text \<open>
  What the billing handlers of the program together do to invoices: every way in which one of them
  can change the committed rows is a step, and an invoice that is paid in one state is unchanged in
  every later one.
\<close>

section \<open>Steps\<close>

text \<open>
  One handled request, or one turn of the scheduler, between two committed states: a rule for every
  caller of the code that writes invoice rows (\<open>generate_monthly_invoices\<close>, \<open>refresh_billing_statuses\<close> and
  the handlers that set an invoice's columns). The export refreshes the statuses in its session and
  commits nothing. The last rule stands for the handlers and tasks that neither write an invoice nor
  call one of these.
\<close>

inductive billing_step :: "settings \<Rightarrow> (rat \<Rightarrow> rat) \<Rightarrow> 'r world \<Rightarrow> 'r world \<Rightarrow> bool"
  for cfg via_float where
  generated: "handle (generate_invoices cfg via_float now gq) w = (r1, t) \<Longrightarrow> billing_step cfg via_float w t"
| scheduled: "handle (run_billing_cycle_once cfg via_float now later) w = (r1, t) \<Longrightarrow> billing_step cfg via_float w t"
| cycle_run: "handle (run_billing_cycle cfg via_float now later) w = (r1, t) \<Longrightarrow> billing_step cfg via_float w t"
| listed: "handle (list_invoices cfg now) w = (r1, t) \<Longrightarrow> billing_step cfg via_float w t"
| previewed: "handle (preview_invoices cfg fo now today) w = (r1, t) \<Longrightarrow> billing_step cfg via_float w t"
| client_previewed: "handle (preview_client_invoice cfg fo now today cid) w = (r1, t) \<Longrightarrow> billing_step cfg via_float w t"
| exported_invoices: "handle (export_invoices_endpoint xenv now xq) w = (r3, t) \<Longrightarrow> billing_step cfg via_float w t"
| seen_in_portal: "handle (portal_invoices env c) w = (r1, t) \<Longrightarrow> billing_step cfg via_float w t"
| webhook: "handle (pix_webhook cfg now later wq) w = (r1, t) \<Longrightarrow> billing_step cfg via_float w t"
| marked_overdue: "handle (mark_invoice_overdue cfg now later iid) w = (r1, t) \<Longrightarrow> billing_step cfg via_float w t"
| marked_paid: "handle (mark_invoice_paid cfg via_float now later iid pq) w = (r1, t) \<Longrightarrow> billing_step cfg via_float w t"
| cancelled_invoice: "handle (cancel_invoice cfg now later iid) w = (r1, t) \<Longrightarrow> billing_step cfg via_float w t"
| payment_created: "handle (create_payment unread cfg via_float now later cq) w = (r2, t) \<Longrightarrow> billing_step cfg via_float w t"
| payment_cancelled: "handle (cancel_payment now yid) w = (r1, t) \<Longrightarrow> billing_step cfg via_float w t"
| elsewhere: "invoices (w_saved t) = invoices (w_saved w) \<Longrightarrow> next_id (w_saved w) \<le> next_id (w_saved t) \<Longrightarrow>
    w_db t = w_saved t \<Longrightarrow> billing_step cfg via_float w t"

section \<open>The invariant\<close>

text \<open>Identifiers are unique and below the counter, and the invoices of \<open>P\<close> are stored as they are.\<close>

definition holds_paid :: "invoice set \<Rightarrow> db \<Rightarrow> bool" where
  "holds_paid P d \<longleftrightarrow> distinct (map i_id (invoices d)) \<and> (\<forall>i\<in>set (invoices d). i_id i < next_id d) \<and>
     P \<subseteq> set (invoices d) \<and> (\<forall>i\<in>P. i_status i = ''paid'')"

lemma holds_paid_cong: "invoices e = invoices d \<Longrightarrow> next_id d \<le> next_id e \<Longrightarrow> holds_paid P d \<Longrightarrow> holds_paid P e"
  by (auto simp: holds_paid_def)

text \<open>Rewriting invoices that are not paid, without touching their identifiers, is harmless.\<close>

lemma holds_paid_rewrite:
  assumes "holds_paid P d" and "\<And>i. i \<in> P \<Longrightarrow> \<not> Q i" and "\<And>i. i_id (f i) = i_id i"
  shows "holds_paid P (d\<lparr>invoices := upd_where Q f (invoices d)\<rparr>)"
proof -
  have "map i_id (upd_where Q f (invoices d)) = map i_id (invoices d)"
    by (rule map_upd_where) (use assms(3) in simp)
  moreover have "P \<subseteq> set (upd_where Q f (invoices d))"
    using assms(1,2) by (force simp: holds_paid_def upd_where_def)
  moreover have "\<forall>i\<in>set (upd_where Q f (invoices d)). i_id i < next_id d"
    using assms(1,3) by (simp add: holds_paid_def ball_upd_where)
  ultimately show ?thesis using assms(1) by (simp add: holds_paid_def)
qed

lemma holds_paid_rewrite_one:
  assumes "holds_paid P d" and "i \<in> set (invoices d)" and "i_status i \<noteq> ''paid''" and "\<And>x. i_id (f x) = i_id x"
  shows "holds_paid P (d\<lparr>invoices := upd_where (\<lambda>x. i_id x = i_id i) f (invoices d)\<rparr>)"
proof (rule holds_paid_rewrite [OF assms(1) _ assms(4)])
  fix x assume x: "x \<in> P"
  show "i_id x \<noteq> i_id i"
  proof
    assume "i_id x = i_id i"
    then have "x = i" using assms(1,2) x by (auto simp: holds_paid_def distinct_map dest: inj_onD)
    with assms(1,3) x show False by (auto simp: holds_paid_def)
  qed
qed

lemma holds_paid_refresh: "holds_paid P d \<Longrightarrow> holds_paid P (snd (refresh_billing_statuses now s d))"
proof -
  assume d: "holds_paid P d"
  have "holds_paid P (d\<lparr>invoices := upd_where (is_late now) (\<lambda>i. i\<lparr>i_status := ''overdue'', i_updated_at := now\<rparr>) (invoices d)\<rparr>)"
    by (rule holds_paid_rewrite [OF d]) (use d in \<open>auto simp: holds_paid_def is_late_def\<close>)
  moreover have "next_id (snd (refresh_billing_statuses now s d)) = next_id d"
    by (simp add: refresh_billing_statuses_def refresh_clients_def mark_late_invoices_def Let_def)
  ultimately show ?thesis by (elim holds_paid_cong [rotated 2]) (simp_all add: invoices_refresh)
qed

lemma find_invoiceD: "find_invoice d iid = Some i \<Longrightarrow> i \<in> set (invoices d) \<and> i_id i = iid"
  unfolding find_invoice_def by (rule find_Some_set)

section \<open>Handlers keep it\<close>

abbreviation "paid_inv P \<equiv> db_inv (holds_paid P)"

lemma keeps_the_invoice:
  assumes "\<And>i w. J w \<Longrightarrow> find_invoice (w_db w) iid = Some i \<Longrightarrow> J (snd (k i w))"
  shows "keeps J (bindE (the_invoice iid) k)"
  using assms by (auto simp: keeps_def the_invoice_def bindE_def split: option.splits)

text \<open>After an update of the rows that keeps the invariant, the rest of the handler has to keep it.\<close>

lemma after_update:
  assumes "paid_inv P w" and "holds_paid P (f (w_db w))" and "keeps (paid_inv P) m"
  shows "paid_inv P (snd (seqE (update f) m w))"
  using keepsD [OF assms(3), of "w\<lparr>w_db := f (w_db w)\<rparr>"] assms(1,2) by (simp add: db_inv_def)

lemma keeps_other_update:
  assumes "\<And>d. invoices (f d) = invoices d" and "\<And>d. next_id (f d) = next_id d"
  shows "keeps (paid_inv P) (update f)"
  by (rule keeps_update) (rule holds_paid_cong, simp_all add: assms)

lemma keeps_fresh_paid [keeps_intros]: "keeps (paid_inv P) fresh_id"
  by (rule keeps_fresh) (rule holds_paid_cong, simp_all)

lemma keeps_refresh [keeps_intros]: "keeps (paid_inv P) (update (\<lambda>d. snd (refresh_billing_statuses now s d)))"
  by (rule keeps_update) (rule holds_paid_refresh)

lemma keeps_refresh_statuses [keeps_intros]: "keeps (paid_inv P) (refresh_statuses cfg now)"
  unfolding refresh_statuses_def by (rule keeps_refresh)

lemma keeps_commit_and_refresh [keeps_intros]: "keeps (paid_inv P) (commit_and_refresh cfg now)"
  unfolding commit_and_refresh_def by (intro keeps_intros)

lemma keeps_payments [keeps_intros]: "keeps (paid_inv P) (update (\<lambda>d. d\<lparr>payments := f d\<rparr>))"
  by (rule keeps_other_update) simp_all

lemma keeps_set_client [keeps_intros]: "keeps (paid_inv P) (set_client cid f)"
  unfolding set_client_def by (rule keeps_other_update) simp_all

lemma keeps_answer_invoice [keeps_intros]: "keeps (paid_inv P) (answer_invoice s iid)"
  unfolding answer_invoice_def by (intro keeps_intros)

lemma keeps_record_receipt [keeps_intros]: "keeps (paid_inv P) (record_receipt vf now paid_at q i)"
  unfolding record_receipt_def by (intro keeps_intros)

text \<open>Rewriting an invoice that has just been read as not paid.\<close>

lemma after_set_invoice:
  assumes "paid_inv P w" and "find_invoice (w_db w) iid = Some i" and "i_status i \<noteq> ''paid''"
    and "\<And>x. i_id (f x) = i_id x" and "keeps (paid_inv P) m"
  shows "paid_inv P (snd (seqE (set_invoice iid f) m w))"
proof -
  have i: "i \<in> set (invoices (w_db w))" "i_id i = iid" using find_invoiceD [OF assms(2)] by simp_all
  have "holds_paid P (w_db w)" using assms(1) by (simp add: db_inv_def)
  from holds_paid_rewrite_one [OF this i(1) assms(3,4)] show ?thesis
    unfolding set_invoice_def by (intro after_update [OF assms(1) _ assms(5)]) (simp add: i(2))
qed

lemma keeps_mark_invoice_overdue: "keeps (paid_inv P) (mark_invoice_overdue cfg now later iid)"
  unfolding mark_invoice_overdue_def
  by (rule keeps_the_invoice) (auto intro!: after_set_invoice keeps_intros)

lemma keeps_mark_invoice_paid: "keeps (paid_inv P) (mark_invoice_paid cfg vf now later iid q)"
  unfolding mark_invoice_paid_def Let_def
  by (rule keeps_the_invoice) (auto intro!: after_set_invoice keeps_intros)

lemma keeps_cancel_invoice: "keeps (paid_inv P) (cancel_invoice cfg now later iid)"
  unfolding cancel_invoice_def
  by (rule keeps_the_invoice) (auto intro!: after_set_invoice keeps_intros)

lemma keeps_cancel_payment: "keeps (paid_inv P) (cancel_payment now yid)"
  unfolding cancel_payment_def by (intro keeps_intros)

lemma keeps_list_invoices: "keeps (paid_inv P) (list_invoices cfg now)"
  unfolding list_invoices_def Let_def by (intro keeps_intros)

lemma keeps_summarize_usage [keeps_intros]: "keeps (db_inv I) (summarize_usage fo today)"
  unfolding summarize_usage_def observe_billing_status_metrics_def client_entry_def
    get_current_usage_snapshot_def get_usage_snapshot_for_date_def usage_snapshot_period_def Let_def
  by (intro keeps_intros)

lemma keeps_preview_invoices: "keeps (paid_inv P) (preview_invoices cfg fo now today)"
  unfolding preview_invoices_def refreshed_def by (intro keeps_intros)

lemma keeps_preview_client_invoice: "keeps (paid_inv P) (preview_client_invoice cfg fo now today cid)"
  unfolding preview_client_invoice_def refreshed_def by (intro keeps_intros)

lemma keeps_export_invoices: "keeps (paid_inv P) (export_invoices_endpoint xenv now xq)"
  unfolding export_invoices_endpoint_def export_invoices_def by (intro keeps_intros)

lemma keeps_portal_invoices: "keeps (paid_inv P) (portal_invoices env c)"
  unfolding portal_invoices_def by (intro keeps_intros)

lemma keeps_settle_payment [keeps_intros]: "keeps (paid_inv P) (settle_payment now ref i)"
  unfolding settle_payment_def by (intro keeps_intros)

lemma seqE_assoc: "seqE (seqE m k) l = seqE m (seqE k l)"
  by (simp add: seqE_def bindE_assoc)

text \<open>Handlers that rewrite the invoice they have read, after steps that leave it as it is.\<close>

lemma keeps_create_payment: "keeps (paid_inv P) (create_payment unread cfg vf now later q)"
  unfolding create_payment_def
proof (rule keeps_the_invoice)
  fix i and w :: "'a world"
  assume inv: "paid_inv P w" and i: "find_invoice (w_db w) (pc_invoice_id q) = Some i"
  let ?v = "w\<lparr>w_db := (w_db w)\<lparr>next_id := Suc (next_id (w_db w)),
     payments := payments (w_db w) @ [created_payment vf now (next_id (w_db w)) i q]\<rparr>\<rparr>"
  let ?read = "case unread of Some e \<Rightarrow> raise e
    | None \<Rightarrow> set_client (i_client_id i) (\<lambda>c. c\<lparr>c_billing_status := ''active''\<rparr>)"
  let ?rest = "seqE (commit_and_refresh cfg later)
    (query (\<lambda>d. List.find (\<lambda>y. y_id y = next_id (w_db w)) (payments d)))"
  have v: "paid_inv P ?v" using inv by (auto simp: db_inv_def elim: holds_paid_cong [rotated 2])
  have found: "find_invoice (w_db ?v) (i_id i) = Some i"
    using i find_invoiceD [OF i] by (simp add: find_invoice_def)
  have rest: "keeps (paid_inv P) ?rest" by (intro keeps_intros)
  have "keeps (paid_inv P) ?read" by (cases unread) (auto intro: keeps_intros)
  then have read: "keeps (paid_inv P) (seqE ?read ?rest)" by (intro keeps_seqE rest)
  have mark: "paid_inv P (snd (seqE (set_invoice (i_id i) (\<lambda>x. x\<lparr>i_status := ''paid'', i_paid_at := pc_paid_at q\<rparr>))
      (seqE ?read ?rest) ?v))" if "i_status i \<noteq> ''paid''"
    by (rule after_set_invoice [OF v found that _ read]) simp
  show "paid_inv P (snd (bindE fresh_id (\<lambda>yid.
     seqE (update (\<lambda>d. d\<lparr>payments := payments d @ [created_payment vf now yid i q]\<rparr>))
     (seqE (if pc_paid_at q \<noteq> None \<and> i_status i \<noteq> ''paid''
            then seqE (set_invoice (i_id i) (\<lambda>x. x\<lparr>i_status := ''paid'', i_paid_at := pc_paid_at q\<rparr>)) ?read
            else ret ())
       (seqE (commit_and_refresh cfg later)
         (query (\<lambda>d. List.find (\<lambda>y. y_id y = yid) (payments d)))))) w))"
    by (cases "pc_paid_at q \<noteq> None \<and> i_status i \<noteq> ''paid''")
      (use mark keepsD [OF rest v] in \<open>simp_all add: seqE_assoc\<close>)
qed

lemma scalar_one_in: "scalar_one_or_none (filter Q xs) = Inr (Some x) \<Longrightarrow> x \<in> set xs \<and> Q x"
proof -
  assume "scalar_one_or_none (filter Q xs) = Inr (Some x)"
  then have "filter Q xs = [x]" by (cases "filter Q xs" rule: scalar_one_or_none.cases) simp_all
  then have "x \<in> set (filter Q xs)" by simp
  then show ?thesis by simp
qed

lemma keeps_pix_webhook: "keeps (paid_inv P) (pix_webhook cfg now later q)"
proof (cases "uuid_of_text (wp_invoice_id q)")
  case None
  then show ?thesis by (simp add: pix_webhook_def keeps_raise)
next
  case (Some iid)
  show ?thesis
  proof (rule keepsI)
    fix w :: "'a world"
    assume inv: "paid_inv P w"
    let ?rows = "filter (\<lambda>i. i_id i = iid) (invoices (w_db w))"
    show "paid_inv P (snd (pix_webhook cfg now later q w))"
    proof (cases "scalar_one_or_none ?rows")
      case (Inl e)
      then show ?thesis using inv by (simp add: pix_webhook_def Some)
    next
      case (Inr found)
      show ?thesis
      proof (cases found)
        case None
        then show ?thesis using inv Inr by (simp add: pix_webhook_def Some)
      next
        case (Some i)
        have i: "i \<in> set (invoices (w_db w))" "i_id i = iid"
          using scalar_one_in [OF Inr [unfolded Some]] by simp_all
        show ?thesis
        proof (cases "i_status i \<noteq> ''paid'' \<and> wp_status q = ''paid''")
          case True
          let ?rest = "seqE (settle_payment now (webhook_reference q) i)
            (seqE (update (\<lambda>d. snd (refresh_billing_statuses later (billing_suspend_after_days cfg) d)))
              (seqE commit (ret (JObj [(''status'', JStr ''paid_successfully'')]))))"
          have "pix_webhook cfg now later q w =
              seqE (update (\<lambda>d. d\<lparr>invoices := upd_where (\<lambda>x. i_id x = iid) (invoice_paid now) (invoices d)\<rparr>)) ?rest w"
            using \<open>uuid_of_text (wp_invoice_id q) = Some iid\<close> Inr Some True by (simp add: pix_webhook_def)
          moreover have "holds_paid P ((w_db w)\<lparr>invoices := upd_where (\<lambda>x. i_id x = i_id i) (invoice_paid now) (invoices (w_db w))\<rparr>)"
            by (rule holds_paid_rewrite_one [OF _ i(1)]) (use inv True in \<open>auto simp: db_inv_def invoice_paid_def\<close>)
          moreover have "keeps (paid_inv P) ?rest" by (intro keeps_intros)
          ultimately show ?thesis using after_update [OF inv, of _ ?rest] by (simp add: i(2))
        next
          case False
          then show ?thesis
            using \<open>uuid_of_text (wp_invoice_id q) = Some iid\<close> Inr Some inv by (auto simp: pix_webhook_def)
        qed
      qed
    qed
  qed
qed

lemma keeps_sync_open_payment [keeps_intros]: "keeps (paid_inv P) (sync_open_payment now c i)"
  unfolding sync_open_payment_def by (intro keeps_intros)

lemma holds_paid_new:
  assumes "holds_paid P d" and "i_id i = next_id d"
  shows "holds_paid P (d\<lparr>next_id := Suc (next_id d), invoices := invoices d @ [i]\<rparr>)"
  using assms by (auto simp: holds_paid_def less_Suc_eq)

lemma keeps_invoice_step: "keeps (paid_inv P) (invoice_step now c x)"
proof (rule keepsI)
  fix w :: "'a world"
  assume inv: "paid_inv P w"
  let ?Q = "\<lambda>i. i_client_id i = c_id c \<and> i_period_start i = d_period_start x \<and> i_period_end i = d_period_end x"
  let ?rows = "filter ?Q (invoices (w_db w))"
  show "paid_inv P (snd (invoice_step now c x w))"
  proof (cases "scalar_one_or_none ?rows")
    case (Inl e)
    then show ?thesis using inv by (simp add: invoice_step_def)
  next
    case (Inr found)
    show ?thesis
    proof (cases found)
      case None
      have "holds_paid P ((w_db w)\<lparr>next_id := Suc (next_id (w_db w)),
          invoices := invoices (w_db w) @ [new_invoice now (next_id (w_db w)) x]\<rparr>)"
        using inv by (intro holds_paid_new) (auto simp: db_inv_def new_invoice_def)
      then show ?thesis
        using inv by (simp add: invoice_step_def Inr None Let_def db_inv_def) (auto elim: holds_paid_cong [rotated 2])
    next
      case (Some e)
      have e: "e \<in> set (invoices (w_db w))" using scalar_one_in [OF Inr [unfolded Some]] by simp
      show ?thesis
      proof (cases "i_status e \<in> {''paid'', ''cancelled''}")
        case True
        then show ?thesis using inv by (auto simp: invoice_step_def Inr Some)
      next
        case False
        then have "invoice_step now c x w =
            seqE (update (\<lambda>d. d\<lparr>invoices := upd_where (\<lambda>i. i_id i = i_id e) (apply_invoice_data x) (invoices d)\<rparr>))
              (seqE (sync_open_payment now c (apply_invoice_data x e)) (ret (Updated (i_id e)))) w"
          by (simp add: invoice_step_def Inr Some)
        moreover
        have "holds_paid P ((w_db w)\<lparr>invoices := upd_where (\<lambda>i. i_id i = i_id e) (apply_invoice_data x) (invoices (w_db w))\<rparr>)"
          by (rule holds_paid_rewrite_one [OF _ e]) (use inv False in \<open>auto simp: db_inv_def apply_invoice_data_def\<close>)
        moreover have "keeps (paid_inv P) (seqE (sync_open_payment now c (apply_invoice_data x e)) (ret (Updated (i_id e))))"
          by (intro keeps_intros)
        ultimately show ?thesis
          using after_update [OF inv, of "\<lambda>d. d\<lparr>invoices := upd_where (\<lambda>i. i_id i = i_id e) (apply_invoice_data x) (invoices d)\<rparr>"]
          by simp
      qed
    qed
  qed
qed

lemma keeps_snapshots [keeps_intros]: "keeps I (list_client_billing_snapshots cid day)"
  unfolding list_client_billing_snapshots_def client_snapshot_def get_usage_snapshot_for_date_def usage_snapshot_period_def
  by (intro keeps_intros)

lemma keeps_generate [keeps_intros]: "keeps (paid_inv P) (generate_monthly_invoices vf now opts)"
  unfolding generate_monthly_invoices_def Let_def by (intro keeps_intros keeps_invoice_step)

lemma keeps_generate_invoices: "keeps (paid_inv P) (generate_invoices cfg vf now q)"
  unfolding generate_invoices_def by (intro keeps_intros)

lemma keeps_run_billing_cycle: "keeps (paid_inv P) (run_billing_cycle cfg vf now later)"
  unfolding run_billing_cycle_def by (intro keeps_intros)

lemma keeps_run_billing_cycle_once: "keeps (paid_inv P) (run_billing_cycle_once cfg vf now later)"
  unfolding run_billing_cycle_once_def
proof (rule keeps_bindE [OF keeps_generate])
  fix result
  show "keeps (paid_inv P) (bindE (query (\<lambda>d. refresh_billing_statuses later (billing_suspend_after_days cfg) d))
     (\<lambda>(counts, d). seqE (update (\<lambda>_. d)) (seqE commit
       (ret (JObj [(''generated_at'', jtime (g_generated_at result)),
          (''created_count'', JInt (int (length (g_created result)))),
          (''updated_count'', JInt (int (length (g_updated result)))),
          (''skipped_count'', JInt (int (length (g_skipped result)))),
          (''reason'', jopt JStr (g_reason result)),
          (''status_updates'', JObj [(''updated_invoices'', JInt (fst counts)),
             (''updated_clients'', JInt (snd counts))])])))))"
    by (auto simp: keeps_def db_inv_def split: prod.splits)
      (metis holds_paid_refresh snd_conv)+
qed

section \<open>Paid invoices are final\<close>

lemma handled_keeps:
  assumes "handle m w = (r, t)" and "keeps (paid_inv P) m" and "holds_paid P (w_saved w)" and "w_db w = w_saved w"
  shows "holds_paid P (w_saved t) \<and> w_db t = w_saved t"
proof -
  have "paid_inv P (snd (handle m w))"
    by (rule keepsD [OF keeps_handle [OF assms(2)]]) (use assms(3,4) in \<open>simp add: db_inv_def\<close>)
  then show ?thesis using assms(1) handle_saved [of m w] handle_db [of m w] by (simp add: db_inv_def)
qed

lemma billing_step_keeps:
  assumes "billing_step cfg vf w t" and "holds_paid P (w_saved w)" and "w_db w = w_saved w"
  shows "holds_paid P (w_saved t) \<and> w_db t = w_saved t"
proof -
  note handled = handled_keeps [OF _ _ assms(2,3)]
  from assms(1) show ?thesis
  proof cases
    case generated then show ?thesis by (rule handled) (rule keeps_generate_invoices)
  next
    case scheduled then show ?thesis by (rule handled) (rule keeps_run_billing_cycle_once)
  next
    case cycle_run then show ?thesis by (rule handled) (rule keeps_run_billing_cycle)
  next
    case listed then show ?thesis by (rule handled) (rule keeps_list_invoices)
  next
    case previewed then show ?thesis by (rule handled) (rule keeps_preview_invoices)
  next
    case client_previewed then show ?thesis by (rule handled) (rule keeps_preview_client_invoice)
  next
    case exported_invoices then show ?thesis by (rule handled) (rule keeps_export_invoices)
  next
    case seen_in_portal then show ?thesis by (rule handled) (rule keeps_portal_invoices)
  next
    case webhook then show ?thesis by (rule handled) (rule keeps_pix_webhook)
  next
    case marked_overdue then show ?thesis by (rule handled) (rule keeps_mark_invoice_overdue)
  next
    case marked_paid then show ?thesis by (rule handled) (rule keeps_mark_invoice_paid)
  next
    case cancelled_invoice then show ?thesis by (rule handled) (rule keeps_cancel_invoice)
  next
    case payment_created then show ?thesis by (rule handled) (rule keeps_create_payment)
  next
    case payment_cancelled then show ?thesis by (rule handled) (rule keeps_cancel_payment)
  next
    case elsewhere then show ?thesis using assms(2) by (auto elim: holds_paid_cong [rotated 2])
  qed
qed

lemma billing_steps_keep:
  assumes "(billing_step cfg vf)\<^sup>*\<^sup>* w t" and "holds_paid P (w_saved w)" and "w_db w = w_saved w"
  shows "holds_paid P (w_saved t) \<and> w_db t = w_saved t"
  using assms by (induction rule: rtranclp_induct) (blast dest: billing_step_keeps)+

lemma revenue_sum:
  assumes "distinct (map i_id (invoices d))"
  shows "revenue s d = sum i_total_amount {i \<in> set (invoices d). i_status i = s}"
  using assms unfolding revenue_def
  by (subst sum_list_distinct_conv_sum_set) (auto simp: distinct_map intro!: sum.cong)

lemma revenue_grows:
  assumes "holds_paid {i \<in> set (invoices d). i_status i = ''paid''} e" and "distinct (map i_id (invoices d))"
    and "\<forall>i\<in>set (invoices e). i_status i = ''paid'' \<longrightarrow> 0 \<le> i_total_amount i"
  shows "revenue ''paid'' d \<le> revenue ''paid'' e"
proof -
  have "{i \<in> set (invoices d). i_status i = ''paid''} \<subseteq> {i \<in> set (invoices e). i_status i = ''paid''}"
    using assms(1) by (auto simp: holds_paid_def)
  then have "sum i_total_amount {i \<in> set (invoices d). i_status i = ''paid''} \<le>
      sum i_total_amount {i \<in> set (invoices e). i_status i = ''paid''}"
    using assms(3) by (intro sum_mono2) auto
  then show ?thesis using assms(1,2) by (simp add: revenue_sum holds_paid_def)
qed

text \<open>
  C31. Paid is final. Whatever operators, the payment provider, the clients' portal and the scheduler
  do afterwards, in any order and however often, an invoice that is paid stays stored exactly as it
  was, and the revenue the summary reports never falls as long as no amount is negative.
\<close>

theorem paid_invoices_are_final:
  assumes "(billing_step cfg vf)\<^sup>*\<^sup>* w t" and "w_db w = w_saved w"
    and "distinct (map i_id (invoices (w_saved w)))" and "\<forall>i\<in>set (invoices (w_saved w)). i_id i < next_id (w_saved w)"
  shows "(\<forall>i\<in>set (invoices (w_saved w)). i_status i = ''paid'' \<longrightarrow> find_invoice (w_saved t) (i_id i) = Some i) \<and>
     ((\<forall>i\<in>set (invoices (w_saved t)). i_status i = ''paid'' \<longrightarrow> 0 \<le> i_total_amount i) \<longrightarrow>
        revenue ''paid'' (w_saved w) \<le> revenue ''paid'' (w_saved t))"
proof -
  let ?P = "{i \<in> set (invoices (w_saved w)). i_status i = ''paid''}"
  have "holds_paid ?P (w_saved w)" using assms(3,4) by (auto simp: holds_paid_def)
  then have t: "holds_paid ?P (w_saved t)" using billing_steps_keep [OF assms(1) _ assms(2)] by blast
  have "find_invoice (w_saved t) (i_id i) = Some i" if "i \<in> ?P" for i
    unfolding find_invoice_def using t that by (subst find_key_iff) (auto simp: holds_paid_def)
  with revenue_grows [OF t assms(3)] show ?thesis by blast
qed

definition paid_invoice :: invoice where
  "paid_invoice = overdue_invoice\<lparr>i_status := ''paid'', i_paid_at := Some 3\<rparr>"

definition paid_world :: "unit world" where
  "paid_world = billing_world (empty_db\<lparr>next_id := 9, clients := [billing_client], invoices := [paid_invoice]\<rparr>)"

theorem paid_invoices_are_final_witness:
  "let t = snd (handle (list_invoices (default_settings [] []) 9)
       (snd (handle (mark_invoice_overdue (default_settings [] []) 7 8 5) paid_world)))
   in find_invoice (w_saved t) 5 = Some paid_invoice"
proof -
  let ?cfg = "default_settings [] []"
  let ?u = "snd (handle (mark_invoice_overdue ?cfg 7 8 5) paid_world)"
  let ?t = "snd (handle (list_invoices ?cfg 9) ?u)"
  have "billing_step ?cfg id paid_world ?u" by (rule marked_overdue) (rule surjective_pairing)
  moreover have "billing_step ?cfg id ?u ?t" by (rule listed) (rule surjective_pairing)
  ultimately have steps: "(billing_step ?cfg id)\<^sup>*\<^sup>* paid_world ?t"
    by (metis converse_rtranclp_into_rtranclp rtranclp.rtrancl_refl)
  have rows: "w_db paid_world = w_saved paid_world" "invoices (w_saved paid_world) = [paid_invoice]"
    "next_id (w_saved paid_world) = 9" "i_id paid_invoice = 5" "i_status paid_invoice = ''paid''"
    by (simp_all add: paid_world_def billing_world_def paid_invoice_def overdue_invoice_def)
  from paid_invoices_are_final [OF steps] rows show ?thesis by simp
qed

end
