(* ===== verification/SystemStatus.thy ===== *)
theory SystemStatus
  imports AdminBackends Wp
begin

text \<open>
  The probes of the service (\<open>api/system.py\<close>): liveness, readiness, the deep check with its table of routes, and the
  pages the service hands out. What a probe of PostgreSQL or Redis gives, the times measured and the
  reading of the clock are arguments.
\<close>

section \<open>Probes\<close>

text \<open>
  \<open>SELECT 1\<close> fails with a text or not, \<open>PING\<close> fails with a text or answers; the milliseconds each took, and those of
  the round over the backends.
\<close>

record probes =
  pr_postgres :: "string option"
  pr_redis :: "string + bool"
  pr_get :: "string \<Rightarrow> string \<Rightarrow> reply"
  pr_latency :: "uuid \<Rightarrow> rat"
  pr_postgres_ms :: rat
  pr_redis_ms :: rat
  pr_data_plane_ms :: rat

definition backend_up :: "probes \<Rightarrow> backend \<Rightarrow> bool" where
  "backend_up p b = health_url (pr_get p) (b_backend_url b) (b_healthcheck_path b)"

text \<open>The listed backends, or the data plane itself when none is listed.\<close>

definition data_plane_up :: "settings \<Rightarrow> probes \<Rightarrow> backend list \<Rightarrow> bool" where
  "data_plane_up cfg p rows = (if rows \<noteq> [] then \<forall>b\<in>set rows. backend_up p b else health cfg (pr_get p))"

definition redis_up :: "probes \<Rightarrow> bool" where
  "redis_up p = (case pr_redis p of Inl _ \<Rightarrow> False | Inr pong \<Rightarrow> pong)"

definition health_endpoint :: "settings \<Rightarrow> probes \<Rightarrow> db \<Rightarrow> json" where
  "health_endpoint cfg p d =
     (let postgres = (pr_postgres p = None); redis = redis_up p; data_plane = data_plane_up cfg p (filter b_is_active (backends d)) in
      JObj [(''status'', JStr (if postgres \<and> redis \<and> data_plane then ''ok'' else ''degraded'')),
        (''dependencies'', JObj [(''postgres'', JBool postgres), (''redis'', JBool redis), (''data_plane'', JBool data_plane)])])"

text \<open>A response with its status; here a failing probe is not caught.\<close>

definition ready :: "settings \<Rightarrow> probes \<Rightarrow> db \<Rightarrow> exc + int \<times> json" where
  "ready cfg p d = (case pr_postgres p of Some e \<Rightarrow> Inl (RuntimeError e) | None \<Rightarrow>
     (case pr_redis p of Inl e \<Rightarrow> Inl (RuntimeError e) | Inr _ \<Rightarrow>
       if data_plane_up cfg p (filter (\<lambda>b. b_is_active b \<and> b_is_default b) (backends d))
       then Inr (200, JObj [(''status'', JStr ''ready'')])
       else Inr (503, JObj [(''status'', JStr ''not_ready''), (''dependency'', JStr ''data_plane'')])))"

section \<open>Pages\<close>

datatype page =
    Refused int json
  | Page string

definition operator_page :: "settings \<Rightarrow> string \<Rightarrow> string \<Rightarrow> page" where
  "operator_page cfg what path =
     (if public_exposure cfg then Refused 404 (JObj [(''detail'', JStr (what @ '' disabled in public exposure mode''))]) else Page path)"

definition admin_dashboard :: "settings \<Rightarrow> page" where
  "admin_dashboard cfg = operator_page cfg ''admin dashboard'' ''static/admin/index.html''"

definition admin_lab :: "settings \<Rightarrow> page" where
  "admin_lab cfg = operator_page cfg ''admin lab'' ''static/admin-lab/index.html''"

definition client_portal :: page where
  "client_portal = Page ''static/portal/index.html''"

section \<open>The deep check\<close>

definition postgres_detail :: "probes \<Rightarrow> dict" where
  "postgres_detail p = (case pr_postgres p of
       None \<Rightarrow> [(''ok'', JBool True), (''latency_ms'', JFloat (pr_postgres_ms p))]
     | Some e \<Rightarrow> [(''ok'', JBool False), (''error'', JStr e)])"

definition redis_detail :: "probes \<Rightarrow> dict" where
  "redis_detail p = (case pr_redis p of
       Inr pong \<Rightarrow> [(''ok'', JBool pong), (''latency_ms'', JFloat (pr_redis_ms p))]
     | Inl e \<Rightarrow> [(''ok'', JBool False), (''error'', JStr e)])"

definition data_plane_detail :: "settings \<Rightarrow> probes \<Rightarrow> backend list \<Rightarrow> dict" where
  "data_plane_detail cfg p rows = [(''ok'', JBool (data_plane_up cfg p rows)), (''latency_ms'', JFloat (pr_data_plane_ms p)),
     (''backends'', JArr (map (\<lambda>b. health_backend (pr_get p) (pr_latency p (b_id b)) b) rows))]"

text \<open>The routes of the active models, as the routing table of a model lists them, and how many are in each state.\<close>

definition routing_models :: "db \<Rightarrow> model list" where
  "routing_models d = sort_key (\<lambda>m. (if m_is_default m then 0 else 1 :: int, m_created_at m)) (filter m_is_active (models d))"

definition deep_summary :: "rng \<Rightarrow> db \<Rightarrow> (string \<times> int) list" where
  "deep_summary rng0 d = foldl count_state [(''healthy'', 0), (''degraded'', 0), (''unhealthy'', 0), (''disabled'', 0)]
     (concat (map (\<lambda>m. map r_state (plan_routing_order rng0 d m)) (routing_models d)))"

definition deep_routing :: "rng \<Rightarrow> db \<Rightarrow> json" where
  "deep_routing rng0 d = JObj [(''summary'', JObj (map (\<lambda>(s, n). (s, JInt n)) (deep_summary rng0 d))),
     (''models'', JArr (map (\<lambda>m. JObj [(''model_id'', JStr (m_model_id m)), (''model_alias'', jopt JStr (m_model_alias m)),
        (''is_default'', JBool (m_is_default m)), (''routes'', serialize_routing_table rng0 d m)]) (routing_models d)))]"

text \<open>The active model that was changed last.\<close>

definition active_model :: "db \<Rightarrow> json" where
  "active_model d = (case newest_first m_updated_at (filter m_is_active (models d)) of
       [] \<Rightarrow> JNull
     | m # _ \<Rightarrow> JObj [(''model_id'', JStr (m_model_id m)), (''model_file'', JStr (m_model_file m)), (''status'', JStr (m_status m)),
         (''is_active'', JBool (m_is_active m))])"

definition request_stats :: "(rat \<Rightarrow> rat) \<Rightarrow> db \<Rightarrow> json" where
  "request_stats round2 d = (let logs = request_logs d in
     JObj [(''requests_total'', JInt (int (length logs))),
       (''errors_total'', JInt (int (length (filter (\<lambda>l. 400 \<le> rl_http_status l) logs)))),
       (''avg_latency_ms'', JFloat (round2 (if logs = [] then 0
          else of_int (sum_list (map rl_latency_ms logs)) / of_nat (length logs))))])"

definition health_deep :: "'r env \<Rightarrow> probes \<Rightarrow> (rat \<Rightarrow> rat) \<Rightarrow> rng \<Rightarrow> ('r, json) act" where
  "health_deep env p round2 rng0 =
     seqE observe_billing_status_metrics
     (bindE (query (\<lambda>d. d)) (\<lambda>d.
      bindE (get_admin_job_snapshot env) (\<lambda>jobs.
      let rows = sort_key b_created_at (filter b_is_active (backends d)) in
      ret (JObj [
        (''status'', JStr (if pr_postgres p = None \<and> redis_up p \<and> data_plane_up (en_cfg env) p rows then ''ok'' else ''degraded'')),
        (''dependencies'', JObj [(''postgres'', JObj (postgres_detail p)), (''redis'', JObj (redis_detail p)),
           (''data_plane'', JObj (data_plane_detail (en_cfg env) p rows))]),
        (''routing'', deep_routing rng0 d), (''model'', active_model d), (''requests'', request_stats round2 d),
        (''jobs'', jobs)]))))"

section \<open>What the probes say\<close>

lemma count_state_at: "map_of xs k = Some n \<Longrightarrow> map_of (count_state xs s) k = Some (if s = k then n + 1 else n)"
  by (induction xs s rule: count_state.induct) auto

lemma states_counted:
  "map_of xs k = Some n \<Longrightarrow> map_of (foldl count_state xs ss) k = Some (n + int (length (filter (\<lambda>s. s = k) ss)))"
proof (induction ss arbitrary: xs n)
  case (Cons s ss)
  from Cons.IH [OF count_state_at [OF Cons.prems, of s]] show ?case by simp
qed simp

lemma planned_not_disabled:
  assumes "draws_within pick" and "r \<in> set (plan_routing_order pick d m)"
  shows "r_state r \<noteq> ''disabled''"
proof -
  have "r \<in> set (get_routing_candidates d m)"
    using plan_rearranges [OF assms(1), of d m] assms(2) by (metis set_mset_mset)
  from candidates_usable [OF this] show ?thesis by (auto simp: route_usable_def synthetic_route_def)
qed

text \<open>
  Two tables of routes that disagree. The summary of the deep check counts the routes of the routing plans, from which
  disabled ones have been taken out: whatever the operator disabled, it reports that no route is
  disabled. The table of the backends counts the rows and finds them.
\<close>

theorem deep_check_hides_disabled_routes:
  assumes "draws_within rng0"
  shows "map_of (deep_summary rng0 d) ''disabled'' = Some 0 \<and>
    (\<forall>m r b. m \<in> set (models d) \<and> r \<in> set (model_routes d m) \<and> backend_of d (r_inference_backend_id r) = Some b \<and>
       r_state r = ''disabled'' \<longrightarrow> (\<exists>n > 0. map_of (routing_summary d (sort_key m_created_at (models d))) ''disabled'' = Some n))"
proof (intro conjI allI impI)
  let ?states = "concat (map (\<lambda>m. map r_state (plan_routing_order rng0 d m)) (routing_models d))"
  have "filter (\<lambda>s. s = ''disabled'') ?states = []"
    using planned_not_disabled [OF assms] by (auto simp: filter_empty_conv)
  then show "map_of (deep_summary rng0 d) ''disabled'' = Some 0"
    unfolding deep_summary_def by (subst states_counted [where n = 0]) simp_all
next
  fix m r b
  assume row: "m \<in> set (models d) \<and> r \<in> set (model_routes d m) \<and> backend_of d (r_inference_backend_id r) = Some b \<and>
    r_state r = ''disabled''"
  let ?states = "concat (map (\<lambda>m. map (\<lambda>(r, b). r_state r) (routes_shown d m)) (sort_key m_created_at (models d)))"
  have "(r, b) \<in> set (routes_shown d m)" using row by (force simp: routes_shown_def)
  then have "r_state r \<in> set (map (\<lambda>(r, b). r_state r) (routes_shown d m))" by force
  then have "r_state r \<in> set ?states"
    unfolding set_concat set_map set_sort image_image using row by (intro UN_I [of m]) (simp_all add: set_map)
  then have shown: "''disabled'' \<in> set ?states" using row by simp
  have "filter (\<lambda>s. s = ''disabled'') ?states \<noteq> []" unfolding filter_empty_conv using shown by blast
  then show "\<exists>n > 0. map_of (routing_summary d (sort_key m_created_at (models d))) ''disabled'' = Some n"
    unfolding routing_summary_def by (subst states_counted [where n = 0]) simp_all
qed

definition disabled_db :: db where
  "disabled_db = routing_db\<lparr>routes := [example_route 1 8 2 ''disabled'', example_route 2 7 1 ''healthy'']\<rparr>"

theorem deep_check_hides_disabled_routes_witness:
  "map_of (deep_summary (\<lambda>_ _. 0) disabled_db) ''disabled'' = Some 0 \<and>
   (\<exists>n > 0. map_of (routing_summary disabled_db (sort_key m_created_at (models disabled_db))) ''disabled'' = Some n)"
proof -
  have draws: "draws_within (\<lambda>_ _. 0)" by (simp add: draws_within_def)
  have row: "example_model \<in> set (models disabled_db) \<and> example_route 1 8 2 ''disabled'' \<in> set (model_routes disabled_db example_model) \<and>
      backend_of disabled_db (r_inference_backend_id (example_route 1 8 2 ''disabled'')) = Some (route_backend 8 ''b'') \<and>
      r_state (example_route 1 8 2 ''disabled'') = ''disabled''"
    by (simp add: disabled_db_def model_routes_def backend_of_def routing_examples)
  from deep_check_hides_disabled_routes [OF draws, of disabled_db] row show ?thesis by blast
qed

end
