(* ===== verification/Spec2Isabelle.thy ===== *)
theory Spec2Isabelle
  imports SlotManager RateLimit Quota BillingPlans Invoices TextUtils AntiLoop Registry Routing
    ResponseCache Security Access Validation InferenceProxy ClientApi RequestAccounting GenerationJobs JobLifecycle AsyncAnswers
    StreamText MockDataPlane Processes
    Portal PublicApi Seed AdminClients AdminBilling PaidInvoices ModelManagement AdminBackends AdminModels
    Wp RegistryTypes RegistryInvariant RegistrySeeding RegistrySteps
    Calendar Exports Reports SystemStatus
begin

text \<open>
  A verification library for the control plane of an LLM inference stack: the Python service under
  \<open>control_plane/app\<close> that authenticates clients, checks their limits, routes their requests to
  inference backends, answers from a cache where it can, and bills them.

  \<^bold>\<open>How the program is modelled.\<close> The service keeps its state in a relational database, in Redis and in
  three objects of the process (circuit breaker, queue counter, metrics). Theory \<open>Schema\<close> has one
  record per table, with the columns of \<open>alembic/versions\<close> (the mapped classes of \<open>app/models\<close> are not
  part of the repository), the record \<open>db\<close> of all tables, the settings of \<open>core/config.py\<close> and the
  exceptions. Theory \<open>World\<close> puts the database as a session sees it, the rows last committed, Redis and
  the objects of the process into the record \<open>world\<close>; an operation of the program is a function
  from a world to a result or an exception and the next world, written with the combinators of
  \<open>Prelude\<close> (\<open>bindE\<close>, \<open>catchE\<close>, \<open>finallyE\<close>, \<open>forE\<close>), so that each \<open>await\<close>, \<open>raise\<close>, \<open>except\<close> and
  \<open>finally\<close> of a handler is found in its definition. \<open>handle\<close> is the session around a request: what was not
  committed is dropped.

  \<^bold>\<open>What is an argument.\<close> Code outside the repository and the outside world are arguments: the clock,
  random numbers and tokens, key derivation and digests, the texts of \<open>json.dumps\<close>, the replies of
  backends (\<open>exchange\<close>), Redis (\<open>redis_ops\<close>, with the laws of the locale \<open>redis_server\<close>, which a store
  of the library interprets), rounding to binary floating point, and what the mapped classes load by themselves: the primary backend of
  a model (\<open>en_lazy\<close>), the client of an invoice that is paid by hand (\<open>client_unread\<close>). Text columns that hold JSON are of
  type \<open>jtext\<close>: the value a text decodes to, or a text that does not decode. Money is rational. Identifiers
  are numbers with the text form of a UUID; the next one comes from a counter of the database. Readings of
  the clock with no \<open>await\<close> between them are one argument.

  \<^bold>\<open>The theories\<close>, in the order of their imports.
  \<^item> \<open>Prelude\<close>, \<open>PyText\<close>, \<open>Schema\<close>, \<open>World\<close>: effects with their invariant rules (\<open>keeps\<close>, \<open>ends\<close>),
    Python's text, JSON and dictionary operations, the tables, the state.
  \<^item> \<open>CircuitBreaker\<close>, \<open>SlotManager\<close>, \<open>RateLimit\<close>, \<open>Quota\<close>: the guards of a request
    (\<open>services/circuit_breaker.py\<close>, \<open>backend_slot_manager.py\<close>, \<open>queue_manager.py\<close>, \<open>rate_limit.py\<close>,
    \<open>quota.py\<close>). The breaker refines a two-phase machine; slots and queue are bounded in every
    interleaving of tasks; the rate limit lets through exactly what it should; the check of a quota is
    exact, but it reserves nothing: how far the requests under way together can pass a quota is bounded.
  \<^item> \<open>BillingPlans\<close>, \<open>Invoices\<close>: \<open>services/billing.py\<close> and \<open>billing_scheduler.py\<close>: effective plans,
    costs and previews, monthly invoices, the statuses of invoices and clients.
  \<^item> \<open>TextUtils\<close>, \<open>AntiLoop\<close>: \<open>utils/token_estimator.py\<close>, \<open>model_prompting.py\<close>, \<open>openai_response.py\<close>,
    \<open>request_summary.py\<close>, \<open>anti_loop.py\<close>.
  \<^item> \<open>Registry\<close>, \<open>Routing\<close>, \<open>ResponseCache\<close>: \<open>services/backend_registry.py\<close>, \<open>model_registry.py\<close>,
    \<open>model_policy.py\<close>, \<open>response_cache.py\<close>: which model a client gets, in which order its backends are
    tried, and what is answered from the cache.
  \<^item> \<open>Security\<close>, \<open>Access\<close>: \<open>core/security.py\<close>, \<open>core/runtime_security.py\<close>, \<open>services/security_monitor.py\<close>,
    \<open>services/audit.py\<close>, \<open>middleware.py\<close>, \<open>services/auth.py\<close>: keys, security events, the request log,
    authentication.
  \<^item> \<open>InferenceProxy\<close>, \<open>Validation\<close>, \<open>ClientApi\<close>, \<open>RequestAccounting\<close>: \<open>services/inference_proxy.py\<close>,
    \<open>utils/validation.py\<close>, \<open>schemas/inference.py\<close>, \<open>api/client.py\<close>: a chat request from its validation to its
    accounting, and what the accounting guarantees.
  \<^item> \<open>GenerationJobs\<close>, \<open>JobLifecycle\<close>, \<open>AsyncAnswers\<close>: \<open>services/generation_jobs.py\<close>,
    \<open>workers/generation_worker.py\<close> and the job endpoints: jobs through their states, including what other tasks do
    meanwhile, and an asynchronous request from its acceptance to the answer its client reads.
  \<^item> \<open>StreamText\<close>, \<open>MockDataPlane\<close>: the text of a stream from the lines of a backend to the client, and
    \<open>data_plane_mock/main.py\<close> as the backend of a JSON call and of a stream.
  \<^item> \<open>Portal\<close>, \<open>PublicApi\<close>, \<open>Seed\<close>: \<open>api/portal.py\<close>, \<open>api/public.py\<close>, \<open>services/public_onboarding.py\<close>,
    \<open>services/seed.py\<close>: the client's own view, sign-up, the payment webhook, the defaults at start.
  \<^item> \<open>AdminClients\<close>, \<open>AdminBilling\<close>, \<open>PaidInvoices\<close>: the operator's handlers of \<open>api/admin.py\<close> for clients,
    keys, plans, invoices and payments, and what all handlers that write invoices keep together.
  \<^item> \<open>ModelManagement\<close>, \<open>AdminBackends\<close>, \<open>AdminModels\<close>: \<open>services/admin_model_management.py\<close> and the handlers for
    backends, their containers and health, models, their routes and files, the test tools.
  \<^item> \<open>Wp\<close>, \<open>RegistryTypes\<close>, \<open>RegistryInvariant\<close>, \<open>RegistrySeeding\<close>, \<open>RegistrySteps\<close>: weakest preconditions of
    effects, what the rows of models, backends and routes satisfy at all times, that each handler and the
    defaults written at a start keep it, and what follows for every sequence of them.
  \<^item> \<open>Processes\<close>: the log line (\<open>core/logging.py\<close>), the start of the control plane (\<open>main.py\<close>) and of the worker:
    a restart writes nothing.
  \<^item> \<open>Calendar\<close>, \<open>Exports\<close>, \<open>Reports\<close>, \<open>SystemStatus\<close>: days and months, \<open>services/export_reporting.py\<close> with the
    endpoints of the exports, the usage summary, previews and reports of \<open>api/admin.py\<close>, and \<open>api/system.py\<close>.

  \<^bold>\<open>What the lemmas show.\<close> Each theory ends with the properties of its component, numbered as in the
  manifest, each followed by a witness that runs it on concrete rows. Invariants of a whole handler are
  proved with the rules collected in \<open>keeps_intros\<close>; postconditions with \<open>ends_intros\<close>; concrete
  runs are evaluated by \<open>code_simp\<close>. Handlers that read what they write are run symbolically with the equations
  collected in \<open>wp_simps\<close>.

  \<^bold>\<open>Bounds.\<close> Loops that end when the code says so are structural recursions. The slot manager's polling loop
  recurses on the time that is left; the worker's endless loop is a fold over as many turns as
  are given, and the theorems hold for every number of turns. No fuel is used.

  \<^bold>\<open>Not modelled.\<close> The wiring of the framework (routers and cross-origin headers of \<open>main.py\<close>, \<open>api/deps.py\<close>,
  \<open>db/session.py\<close>, metric declarations and the text of \<open>/metrics\<close>), static pages, and the vendored packages. The mapped classes
  are not in the repository: what they alone decide, such as the time a counter was last changed, is an
  argument. Latencies are arguments where they are stored and left out where they are only measured.
\<close>

end
